(* ===== verification/Go_Prelude.thy ===== *)
theory Go_Prelude
  imports Main "HOL-Library.Word"
begin

text \<open>
  Shared vocabulary of the development: the fragment of the Go language and of its standard
  library that the modelled packages use, with the generic lemmas the components share.

  A Go \<open>string\<close> is a byte sequence and is modelled as an Isabelle \<open>string\<close> (one \<open>char\<close> per
  byte); a Go \<open>[]byte\<close> is a list of 8-bit words. \<open>int\<close> and \<open>int64\<close> are 64 bits wide on every
  supported platform: values are \<open>int\<close>, with the wrap-around of an operation written out
  (\<open>wrap64\<close>) where it can overflow. \<open>strings.ToLower\<close> and \<open>strings.EqualFold\<close> are modelled on
  ASCII letters; every byte above 127 is left alone.
\<close>

unbundle bit_operations_syntax

named_theorems go_simps \<open>evaluation of the modelled standard-library functions\<close>

type_synonym byte = "8 word"
type_synonym bytes = "8 word list"

section \<open>Bytes and big-endian integers\<close>

text \<open>\<open>[]byte(s)\<close> and \<open>string(b)\<close>.\<close>

definition bytes_of :: "string \<Rightarrow> bytes" where
  "bytes_of s = map (\<lambda>c. word_of_nat (of_char c)) s"

definition string_of :: "bytes \<Rightarrow> string" where
  "string_of bs = map (\<lambda>b. char_of (unat b)) bs"

lemma length_bytes_of [simp]: "length (bytes_of s) = length s"
  by (simp add: bytes_of_def)

lemma length_string_of [simp]: "length (string_of bs) = length bs"
  by (simp add: string_of_def)

lemma string_of_bytes_of [simp]: "string_of (bytes_of s) = s"
  by (induction s) (simp_all add: string_of_def bytes_of_def unat_of_nat)

lemma bytes_of_string_of [simp]: "bytes_of (string_of bs) = bs"
proof (induction bs)
  case (Cons b bs)
  have "unat b < 2 ^ LENGTH(8)" by (rule unsigned_less)
  then show ?case using Cons by (simp add: string_of_def bytes_of_def)
qed (simp add: string_of_def bytes_of_def)

text \<open>\<open>encoding/binary\<close>: \<open>PutUint16\<close>, \<open>PutUint32\<close>, \<open>Uint16\<close>, \<open>Uint32\<close> in big-endian order.\<close>

definition be16_put :: "16 word \<Rightarrow> bytes" where
  "be16_put w = [ucast (drop_bit 8 w), ucast w]"

definition be32_put :: "32 word \<Rightarrow> bytes" where
  "be32_put w = [ucast (drop_bit 24 w), ucast (drop_bit 16 w), ucast (drop_bit 8 w), ucast w]"

fun be16_get :: "bytes \<Rightarrow> 16 word" where
  "be16_get (a # b # _) = push_bit 8 (ucast a) OR ucast b"
| "be16_get _ = 0"

fun be32_get :: "bytes \<Rightarrow> 32 word" where
  "be32_get (a # b # c # d # _) =
     push_bit 24 (ucast a) OR push_bit 16 (ucast b) OR push_bit 8 (ucast c) OR ucast d"
| "be32_get _ = 0"

lemma length_be16_put [simp]: "length (be16_put w) = 2"
  by (simp add: be16_put_def)

lemma length_be32_put [simp]: "length (be32_put w) = 4"
  by (simp add: be32_put_def)

lemma be16_roundtrip [simp]: "be16_get (be16_put w @ r) = w"
  unfolding be16_put_def
  by (rule bit_word_eqI) (auto simp: bit_simps)

lemma be32_roundtrip [simp]: "be32_get (be32_put w @ r) = w"
  unfolding be32_put_def
proof (rule bit_word_eqI)
  fix n assume n: "n < LENGTH(32)"
  consider "n < 8" | "8 \<le> n" "n < 16" | "16 \<le> n" "n < 24" | "24 \<le> n" "n < 32"
    using n by fastforce
  then show "bit (be32_get ([ucast (drop_bit 24 w), ucast (drop_bit 16 w),
      ucast (drop_bit 8 w), ucast w] @ r)) n = bit w n"
    by cases (use n in \<open>auto simp: bit_simps\<close>)
qed

section \<open>64-bit integers\<close>

definition MaxInt64 :: int where "MaxInt64 = 2 ^ 63 - 1"
definition MinInt64 :: int where "MinInt64 = - (2 ^ 63)"

definition int64_range :: "int \<Rightarrow> bool" where
  "int64_range x \<longleftrightarrow> MinInt64 \<le> x \<and> x \<le> MaxInt64"

text \<open>The value an \<open>int64\<close> expression has when its exact value is \<open>x\<close>: two's complement wrap.\<close>

definition wrap64 :: "int \<Rightarrow> int" where
  "wrap64 x = (x + 2 ^ 63) mod 2 ^ 64 - 2 ^ 63"

text \<open>Go's \<open>/\<close> on integers truncates towards zero.\<close>

definition go_div :: "int \<Rightarrow> int \<Rightarrow> int" where
  "go_div a b = sgn a * sgn b * (\<bar>a\<bar> div \<bar>b\<bar>)"

lemmas int64_defs = int64_range_def MaxInt64_def MinInt64_def

lemma wrap64_range [simp]: "int64_range (wrap64 x)"
proof -
  have "0 \<le> (x + 2 ^ 63) mod 2 ^ 64" "(x + 2 ^ 63) mod 2 ^ 64 < (2 ^ 64 :: int)"
    by (rule pos_mod_sign, simp) (rule pos_mod_bound, simp)
  then show ?thesis by (simp add: wrap64_def int64_defs)
qed

lemma wrap64_id: "int64_range x \<Longrightarrow> wrap64 x = x"
  by (simp add: wrap64_def int64_defs)

lemma go_div_nonneg: "0 \<le> a \<Longrightarrow> 0 < b \<Longrightarrow> go_div a b = a div b"
  by (cases "a = 0") (simp_all add: go_div_def)

section \<open>Package strings\<close>

abbreviation ord :: "char \<Rightarrow> nat" where "ord c \<equiv> of_char c"

definition is_ascii_space :: "char \<Rightarrow> bool" where
  "is_ascii_space c \<longleftrightarrow> ord c \<in> {9, 10, 11, 12, 13, 32}"

text \<open>
  \<open>unicode.IsSpace\<close> on UTF-8 text: the six ASCII spaces, U+0085 and U+00A0 (two bytes), and
  U+1680, U+2000..U+200A, U+2028, U+2029, U+202F, U+205F, U+3000 (three bytes).
\<close>

definition space2 :: "char \<Rightarrow> char \<Rightarrow> bool" where
  "space2 a b \<longleftrightarrow> ord a = 194 \<and> (ord b = 133 \<or> ord b = 160)"

definition space3 :: "char \<Rightarrow> char \<Rightarrow> char \<Rightarrow> bool" where
  "space3 a b c \<longleftrightarrow>
     (ord a = 225 \<and> ord b = 154 \<and> ord c = 128) \<or>
     (ord a = 226 \<and> ord b = 128 \<and> (128 \<le> ord c \<and> ord c \<le> 138 \<or> ord c = 168 \<or> ord c = 169 \<or> ord c = 175)) \<or>
     (ord a = 226 \<and> ord b = 129 \<and> ord c = 159) \<or>
     (ord a = 227 \<and> ord b = 128 \<and> ord c = 128)"

text \<open>The number of bytes of the space a string begins with (or, reversed, ends with), else 0.\<close>

fun space_len :: "string \<Rightarrow> nat" where
  "space_len (a # b # c # r) =
     (if is_ascii_space a then 1 else if space2 a b then 2 else if space3 a b c then 3 else 0)"
| "space_len [a, b] = (if is_ascii_space a then 1 else if space2 a b then 2 else 0)"
| "space_len [a] = (if is_ascii_space a then 1 else 0)"
| "space_len [] = 0"

fun space_len_rev :: "string \<Rightarrow> nat" where
  "space_len_rev (c # b # a # r) =
     (if is_ascii_space c then 1 else if space2 b c then 2 else if space3 a b c then 3 else 0)"
| "space_len_rev [b, a] = (if is_ascii_space b then 1 else if space2 a b then 2 else 0)"
| "space_len_rev [a] = (if is_ascii_space a then 1 else 0)"
| "space_len_rev [] = 0"

lemma drop_space_len_less: "space_len s \<noteq> 0 \<Longrightarrow> length (drop (space_len s) s) < length s"
  by (cases s rule: space_len.cases) simp_all

lemma drop_space_len_rev_less: "space_len_rev s \<noteq> 0 \<Longrightarrow> length (drop (space_len_rev s) s) < length s"
  by (cases s rule: space_len_rev.cases) simp_all

function trim_left :: "string \<Rightarrow> string" where
  "trim_left s = (if space_len s = 0 then s else trim_left (drop (space_len s) s))"
  by pat_completeness auto
termination
  by (relation "measure length") (simp_all del: length_drop add: drop_space_len_less)

function trim_rev :: "string \<Rightarrow> string" where
  "trim_rev s = (if space_len_rev s = 0 then s else trim_rev (drop (space_len_rev s) s))"
  by pat_completeness auto
termination
  by (relation "measure length") (simp_all del: length_drop add: drop_space_len_rev_less)

declare trim_left.simps [simp del] trim_rev.simps [simp del]

text \<open>\<open>strings.TrimSpace\<close>.\<close>

definition trim_space :: "string \<Rightarrow> string" where
  "trim_space s = rev (trim_rev (rev (trim_left s)))"

lemma space_len_trim_left [simp]: "space_len (trim_left s) = 0"
proof (induction s rule: trim_left.induct)
  case (1 s)
  then show ?case by (cases "space_len s = 0") (simp_all add: trim_left.simps [of s])
qed

lemma space_len_rev_trim_rev [simp]: "space_len_rev (trim_rev s) = 0"
proof (induction s rule: trim_rev.induct)
  case (1 s)
  then show ?case by (cases "space_len_rev s = 0") (simp_all add: trim_rev.simps [of s])
qed

lemma trim_left_suffix: "\<exists>p. s = p @ trim_left s"
proof (induction s rule: trim_left.induct)
  case (1 s)
  show ?case
  proof (cases "space_len s = 0")
    case True
    then show ?thesis by (simp add: trim_left.simps [of s])
  next
    case False
    with 1 obtain p where "drop (space_len s) s = p @ trim_left (drop (space_len s) s)" by blast
    then have "s = (take (space_len s) s @ p) @ trim_left (drop (space_len s) s)"
      by (metis append_assoc append_take_drop_id)
    with False show ?thesis by (metis trim_left.simps)
  qed
qed

lemma trim_rev_suffix: "\<exists>p. s = p @ trim_rev s"
proof (induction s rule: trim_rev.induct)
  case (1 s)
  show ?case
  proof (cases "space_len_rev s = 0")
    case True
    then show ?thesis by (simp add: trim_rev.simps [of s])
  next
    case False
    with 1 obtain p where "drop (space_len_rev s) s = p @ trim_rev (drop (space_len_rev s) s)" by blast
    then have "s = (take (space_len_rev s) s @ p) @ trim_rev (drop (space_len_rev s) s)"
      by (metis append_assoc append_take_drop_id)
    with False show ?thesis by (metis trim_rev.simps)
  qed
qed

lemma trim_space_sublist: "\<exists>p q. s = p @ trim_space s @ q"
proof -
  obtain p where p: "s = p @ trim_left s" using trim_left_suffix by blast
  obtain q where "rev (trim_left s) = q @ trim_rev (rev (trim_left s))"
    using trim_rev_suffix by blast
  then have "trim_left s = trim_space s @ rev q"
    by (metis rev_append rev_rev_ident trim_space_def)
  with p show ?thesis by metis
qed

lemma set_trim_space: "set (trim_space s) \<subseteq> set s"
  by (metis le_supI1 order_refl set_append sup_ge2 sup.coboundedI2 trim_space_sublist)

lemma length_trim_space: "length (trim_space s) \<le> length s"
  by (metis le_add1 le_add2 length_append order_trans trim_space_sublist)

lemma space_len_append: "space_len s \<noteq> 0 \<Longrightarrow> space_len (s @ t) = space_len s"
  by (cases s rule: space_len.cases; cases t rule: space_len.cases) (simp_all split: if_splits)

lemma space_len_trim_space [simp]: "space_len (trim_space s) = 0"
proof (rule ccontr)
  assume nz: "space_len (trim_space s) \<noteq> 0"
  obtain q where "rev (trim_left s) = q @ trim_rev (rev (trim_left s))"
    using trim_rev_suffix by blast
  then have "trim_left s = trim_space s @ rev q"
    by (metis rev_append rev_rev_ident trim_space_def)
  then have "space_len (trim_left s) \<noteq> 0" using nz by (simp add: space_len_append)
  then show False by simp
qed

lemma space_len_rev_trim_space [simp]: "space_len_rev (rev (trim_space s)) = 0"
  by (simp add: trim_space_def)

lemma trim_space_eq_iff: "trim_space s = s \<longleftrightarrow> space_len s = 0 \<and> space_len_rev (rev s) = 0"
proof
  assume "trim_space s = s"
  then show "space_len s = 0 \<and> space_len_rev (rev s) = 0"
    by (metis space_len_rev_trim_space space_len_trim_space)
next
  assume "space_len s = 0 \<and> space_len_rev (rev s) = 0"
  then show "trim_space s = s"
    by (simp add: trim_space_def trim_left.simps [of s] trim_rev.simps [of "rev s"])
qed

lemma trim_space_idem [simp]: "trim_space (trim_space s) = trim_space s"
  by (simp add: trim_space_eq_iff)

lemma trim_space_Nil [simp]: "trim_space [] = []"
  by (simp add: trim_space_eq_iff)

text \<open>\<open>strings.Split(s, sep)\<close> for a one-byte separator, and \<open>strings.Join\<close>.\<close>

fun go_split :: "char \<Rightarrow> string \<Rightarrow> string list" where
  "go_split sep [] = [[]]"
| "go_split sep (c # cs) =
     (if c = sep then [] # go_split sep cs
      else (case go_split sep cs of [] \<Rightarrow> [[c]] | p # ps \<Rightarrow> (c # p) # ps))"

fun go_join :: "string \<Rightarrow> string list \<Rightarrow> string" where
  "go_join sep [] = []"
| "go_join sep [p] = p"
| "go_join sep (p # ps) = p @ sep @ go_join sep ps"

lemma go_split_not_Nil [simp]: "go_split sep s \<noteq> []"
  by (cases s) (auto split: list.splits)

lemma go_split_append [simp]:
  "sep \<notin> set p \<Longrightarrow> go_split sep (p @ sep # r) = p # go_split sep r"
  by (induction p) auto

lemma go_split_single [simp]: "sep \<notin> set p \<Longrightarrow> go_split sep p = [p]"
  by (induction p) auto

lemma go_split_parts: "p \<in> set (go_split sep s) \<Longrightarrow> sep \<notin> set p"
proof (induction s arbitrary: p)
  case (Cons c cs)
  then show ?case by (cases "go_split sep cs") (auto split: if_splits)
qed simp

lemma go_join_split: "go_join [sep] (go_split sep s) = s"
proof (induction s)
  case (Cons c cs)
  then show ?case by (cases "go_split sep cs" rule: list.exhaust, simp, cases "tl (go_split sep cs)") auto
qed simp

text \<open>\<open>strings.Cut(s, sep)\<close> for a one-byte separator: \<open>None\<close> when the separator is absent.\<close>

fun go_cut :: "char \<Rightarrow> string \<Rightarrow> (string \<times> string) option" where
  "go_cut sep [] = None"
| "go_cut sep (c # cs) =
     (if c = sep then Some ([], cs)
      else (case go_cut sep cs of None \<Rightarrow> None | Some (a, b) \<Rightarrow> Some (c # a, b)))"

lemma go_cut_append [simp]: "sep \<notin> set p \<Longrightarrow> go_cut sep (p @ sep # r) = Some (p, r)"
  by (induction p) auto

lemma go_cut_Some: "go_cut sep s = Some (a, b) \<Longrightarrow> s = a @ sep # b \<and> sep \<notin> set a"
proof (induction s arbitrary: a)
  case (Cons c cs)
  show ?case
  proof (cases "c = sep")
    case False
    then obtain a' where "go_cut sep cs = Some (a', b)" "a = c # a'"
      using Cons.prems by (auto split: option.splits)
    then show ?thesis using Cons.IH False by simp
  qed (use Cons.prems in simp)
qed simp

definition has_prefix :: "string \<Rightarrow> string \<Rightarrow> bool" where
  "has_prefix s p \<longleftrightarrow> take (length p) s = p"

fun go_contains :: "string \<Rightarrow> string \<Rightarrow> bool" where
  "go_contains [] p = (p = [])"
| "go_contains (c # cs) p = (has_prefix (c # cs) p \<or> go_contains cs p)"

lemma go_contains_char [simp]: "go_contains s [c] \<longleftrightarrow> c \<in> set s"
  by (induction s) (auto simp: has_prefix_def)

text \<open>\<open>strings.ContainsAny\<close> for ASCII character sets.\<close>

definition contains_any :: "string \<Rightarrow> string \<Rightarrow> bool" where
  "contains_any s cs \<longleftrightarrow> list_ex (\<lambda>c. c \<in> set cs) s"

text \<open>\<open>strings.ToLower\<close> and \<open>strings.EqualFold\<close> on ASCII letters.\<close>

definition lower_char :: "char \<Rightarrow> char" where
  "lower_char c = (if 65 \<le> ord c \<and> ord c \<le> 90 then char_of (ord c + 32) else c)"

definition to_lower :: "string \<Rightarrow> string" where
  "to_lower s = map lower_char s"

definition equal_fold :: "string \<Rightarrow> string \<Rightarrow> bool" where
  "equal_fold a b \<longleftrightarrow> to_lower a = to_lower b"

lemma lower_char_idem [simp]: "lower_char (lower_char c) = lower_char c"
  by (simp add: lower_char_def)

lemma to_lower_idem [simp]: "to_lower (to_lower s) = to_lower s"
  by (simp add: to_lower_def)

lemma to_lower_Nil_iff [simp]: "to_lower s = [] \<longleftrightarrow> s = []"
  by (simp add: to_lower_def)

section \<open>Package strconv and encoding/hex\<close>

definition is_digit :: "char \<Rightarrow> bool" where
  "is_digit c \<longleftrightarrow> 48 \<le> ord c \<and> ord c \<le> 57"

fun nat_itoa :: "nat \<Rightarrow> string" where
  "nat_itoa n = (if n < 10 then [char_of (48 + n)] else nat_itoa (n div 10) @ [char_of (48 + n mod 10)])"

declare nat_itoa.simps [simp del]

text \<open>\<open>strconv.Itoa\<close>.\<close>

definition itoa :: "int \<Rightarrow> string" where
  "itoa i = (if i < 0 then ''-'' @ nat_itoa (nat (- i)) else nat_itoa (nat i))"

definition digits_value :: "string \<Rightarrow> nat" where
  "digits_value s = foldl (\<lambda>v c. v * 10 + (ord c - 48)) 0 s"

text \<open>
  \<open>strconv.ParseInt(s, 10, 64)\<close>: an optional sign and decimal digits; a value out of range is
  reported as an error together with the nearest representable value.
\<close>

datatype parse_int_result = ParsedInt int | ParseSyntax | ParseRange int

definition parse_int64 :: "string \<Rightarrow> parse_int_result" where
  "parse_int64 s =
     (let neg = (s \<noteq> [] \<and> hd s = CHR ''-'');
          body = (if s \<noteq> [] \<and> (hd s = CHR ''-'' \<or> hd s = CHR ''+'') then tl s else s)
      in if body = [] \<or> \<not> list_all is_digit body then ParseSyntax
         else (let v = (if neg then - int (digits_value body) else int (digits_value body))
               in if v < MinInt64 then ParseRange MinInt64
                  else if v > MaxInt64 then ParseRange MaxInt64
                  else ParsedInt v))"

lemma parse_int64_range: "parse_int64 s = ParsedInt v \<Longrightarrow> int64_range v"
  by (auto simp: parse_int64_def Let_def int64_range_def split: if_splits)

text \<open>\<open>strconv.ParseBool\<close>: \<open>None\<close> is the syntax error.\<close>

definition parse_bool :: "string \<Rightarrow> bool option" where
  "parse_bool s =
     (if s \<in> {''1'', ''t'', ''T'', ''true'', ''TRUE'', ''True''} then Some True
      else if s \<in> {''0'', ''f'', ''F'', ''false'', ''FALSE'', ''False''} then Some False
      else None)"

text \<open>\<open>hex.DecodeString\<close> and \<open>hex.EncodeToString\<close>.\<close>

definition hex_value :: "char \<Rightarrow> nat option" where
  "hex_value c =
     (if 48 \<le> ord c \<and> ord c \<le> 57 then Some (ord c - 48)
      else if 97 \<le> ord c \<and> ord c \<le> 102 then Some (ord c - 87)
      else if 65 \<le> ord c \<and> ord c \<le> 70 then Some (ord c - 55)
      else None)"

fun hex_decode :: "string \<Rightarrow> bytes option" where
  "hex_decode [] = Some []"
| "hex_decode [c] = None"
| "hex_decode (a # b # r) =
     (case (hex_value a, hex_value b) of
        (Some x, Some y) \<Rightarrow>
          (case hex_decode r of None \<Rightarrow> None | Some bs \<Rightarrow> Some (of_nat (16 * x + y) # bs))
      | _ \<Rightarrow> None)"

definition hex_digit :: "nat \<Rightarrow> char" where
  "hex_digit n = (if n < 10 then char_of (48 + n) else char_of (87 + n))"

definition hex_encode :: "bytes \<Rightarrow> string" where
  "hex_encode bs = concat (map (\<lambda>b. [hex_digit (unat b div 16), hex_digit (unat b mod 16)]) bs)"

lemma hex_decode_length: "hex_decode s = Some bs \<Longrightarrow> length s = 2 * length bs"
  by (induction s arbitrary: bs rule: hex_decode.induct) (auto split: option.splits)

lemma hex_value_digit [simp]: "n < 16 \<Longrightarrow> hex_value (hex_digit n) = Some n"
  by (auto simp: hex_value_def hex_digit_def)

lemma hex_roundtrip [simp]: "hex_decode (hex_encode bs) = Some bs"
proof (induction bs)
  case (Cons b bs)
  have "unat b < 2 ^ LENGTH(8)" by (rule unsigned_less)
  then have "unat b div 16 < 16" by simp
  with Cons show ?case by (simp add: hex_encode_def)
qed (simp add: hex_encode_def)

section \<open>Runs of a step function\<close>

text \<open>
  A stateful component is a function from a state and an event to the next state and an output.
  \<open>run_steps\<close> runs a list of events. The locale \<open>stepper\<close> is the contract of such a component: an
  invariant that admissible events preserve, and a property of every output.
\<close>

fun run_steps :: "('s \<Rightarrow> 'e \<Rightarrow> 's \<times> 'r) \<Rightarrow> 's \<Rightarrow> 'e list \<Rightarrow> 's \<times> 'r list" where
  "run_steps step s [] = (s, [])"
| "run_steps step s (e # es) =
     (case step s e of (s', r) \<Rightarrow> case run_steps step s' es of (s'', rs) \<Rightarrow> (s'', r # rs))"

lemma run_steps_append:
  "run_steps step s (es @ fs) =
     (case run_steps step s es of (s', rs) \<Rightarrow>
      case run_steps step s' fs of (s'', rs') \<Rightarrow> (s'', rs @ rs'))"
  by (induction es arbitrary: s) (auto split: prod.splits)

locale stepper =
  fixes step :: "'s \<Rightarrow> 'e \<Rightarrow> 's \<times> 'r"
    and inv :: "'s \<Rightarrow> bool"
    and admissible :: "'e \<Rightarrow> bool"
    and good :: "'r \<Rightarrow> bool"
  assumes step_inv: "inv s \<Longrightarrow> admissible e \<Longrightarrow> inv (fst (step s e))"
    and step_good: "inv s \<Longrightarrow> admissible e \<Longrightarrow> good (snd (step s e))"
begin

lemma run_inv_good:
  "inv s \<Longrightarrow> list_all admissible es \<Longrightarrow>
     inv (fst (run_steps step s es)) \<and> list_all good (snd (run_steps step s es))"
proof (induction es arbitrary: s)
  case (Cons e es)
  obtain s' r where sr: "step s e = (s', r)" by fastforce
  have "inv s'" "good r"
    using step_inv [of s e] step_good [of s e] Cons.prems sr by simp_all
  with Cons.IH [of s'] Cons.prems sr show ?case by (auto split: prod.splits)
qed simp

lemma run_inv: "inv s \<Longrightarrow> list_all admissible es \<Longrightarrow> inv (fst (run_steps step s es))"
  by (simp add: run_inv_good)

lemma run_good: "inv s \<Longrightarrow> list_all admissible es \<Longrightarrow> list_all good (snd (run_steps step s es))"
  by (simp add: run_inv_good)

end

text \<open>
  The same contract for a component whose events must fit the state they meet, and whose loop stops
  at the first output that asks for it.
\<close>

fun loop_steps :: "('s \<Rightarrow> 'e \<Rightarrow> 's \<times> 'r) \<Rightarrow> ('r \<Rightarrow> bool) \<Rightarrow> 's \<Rightarrow> 'e list \<Rightarrow> 's \<times> 'r list" where
  "loop_steps step stop s [] = (s, [])"
| "loop_steps step stop s (e # es) =
     (case step s e of (s', r) \<Rightarrow>
        if stop r then (s', [r])
        else (case loop_steps step stop s' es of (s'', rs) \<Rightarrow> (s'', r # rs)))"

fun loop_fits :: "('s \<Rightarrow> 'e \<Rightarrow> 's \<times> 'r) \<Rightarrow> ('s \<Rightarrow> 'e \<Rightarrow> bool) \<Rightarrow> 's \<Rightarrow> 'e list \<Rightarrow> bool" where
  "loop_fits step fits s [] = True"
| "loop_fits step fits s (e # es) = (fits s e \<and> loop_fits step fits (fst (step s e)) es)"

locale guarded_stepper =
  fixes step :: "'s \<Rightarrow> 'e \<Rightarrow> 's \<times> 'r"
    and inv :: "'s \<Rightarrow> bool"
    and fits :: "'s \<Rightarrow> 'e \<Rightarrow> bool"
    and good :: "'r \<Rightarrow> bool"
  assumes guarded_inv: "inv s \<Longrightarrow> fits s e \<Longrightarrow> inv (fst (step s e))"
    and guarded_good: "inv s \<Longrightarrow> fits s e \<Longrightarrow> good (snd (step s e))"
begin

lemma loop_inv_good:
  "inv s \<Longrightarrow> loop_fits step fits s es \<Longrightarrow>
     inv (fst (loop_steps step stop s es)) \<and> list_all good (snd (loop_steps step stop s es))"
proof (induction es arbitrary: s)
  case (Cons e es)
  obtain s' r where sr: "step s e = (s', r)" by fastforce
  have "inv s'" "good r"
    using guarded_inv [of s e] guarded_good [of s e] Cons.prems sr by simp_all
  with Cons.IH [of s'] Cons.prems sr show ?case by (auto split: prod.splits)
qed simp

end

sublocale stepper \<subseteq> guarded: guarded_stepper step inv "\<lambda>_. admissible" good
  by unfold_locales (simp_all add: step_inv step_good)

end
