(* ===== verification/Go_Md5.thy ===== *)
theory Go_Md5
  imports Go_Prelude
begin

text \<open>
  The part of \<open>crypto/md5\<close> the inform package uses: \<open>md5.Sum\<close> of a short message (RFC 1321).
\<close>

definition md5_shifts :: "nat list" where
  "md5_shifts = concat (replicate 4 [7, 12, 17, 22]) @ concat (replicate 4 [5, 9, 14, 20])
     @ concat (replicate 4 [4, 11, 16, 23]) @ concat (replicate 4 [6, 10, 15, 21])"

text \<open>The table \<open>floor (2^32 * abs (sin (i + 1)))\<close>.\<close>

definition md5_table :: "32 word list" where
  "md5_table = [3614090360, 3905402710, 606105819, 3250441966, 4118548399, 1200080426,
     2821735955, 4249261313, 1770035416, 2336552879, 4294925233, 2304563134, 1804603682,
     4254626195, 2792965006, 1236535329, 4129170786, 3225465664, 643717713, 3921069994,
     3593408605, 38016083, 3634488961, 3889429448, 568446438, 3275163606, 4107603335,
     1163531501, 2850285829, 4243563512, 1735328473, 2368359562, 4294588738, 2272392833,
     1839030562, 4259657740, 2763975236, 1272893353, 4139469664, 3200236656, 681279174,
     3936430074, 3572445317, 76029189, 3654602809, 3873151461, 530742520, 3299628645,
     4096336452, 1126891415, 2878612391, 4237533241, 1700485571, 2399980690, 4293915773,
     2240044497, 1873313359, 4264355552, 2734768916, 1309151649, 4149444226, 3174756917,
     718787259, 3951481745]"

definition md5_le32 :: "byte \<Rightarrow> byte \<Rightarrow> byte \<Rightarrow> byte \<Rightarrow> 32 word" where
  "md5_le32 a b c d = ucast a + 256 * (ucast b + 256 * (ucast c + 256 * ucast d))"

fun md5_words :: "bytes \<Rightarrow> 32 word list" where
  "md5_words (a # b # c # d # r) = md5_le32 a b c d # md5_words r"
| "md5_words _ = []"

definition md5_mix :: "nat \<Rightarrow> 32 word \<Rightarrow> 32 word \<Rightarrow> 32 word \<Rightarrow> 32 word" where
  "md5_mix i b c d =
     (if i < 16 then (b AND c) OR (NOT b AND d)
      else if i < 32 then (d AND b) OR (NOT d AND c)
      else if i < 48 then b XOR c XOR d
      else c XOR (b OR NOT d))"

definition md5_index :: "nat \<Rightarrow> nat" where
  "md5_index i =
     (if i < 16 then i else if i < 32 then (5 * i + 1) mod 16
      else if i < 48 then (3 * i + 5) mod 16 else (7 * i) mod 16)"

definition md5_rotl :: "nat \<Rightarrow> 32 word \<Rightarrow> 32 word" where
  "md5_rotl s w = push_bit s w OR drop_bit (32 - s) w"

type_synonym md5_state = "32 word \<times> 32 word \<times> 32 word \<times> 32 word"

fun md5_step :: "32 word list \<Rightarrow> md5_state \<Rightarrow> nat \<times> nat \<times> 32 word \<Rightarrow> md5_state" where
  "md5_step m (a, b, c, d) (i, s, k) =
     (d, b + md5_rotl s (md5_mix i b c d + a + k + m ! md5_index i), b, c)"

definition md5_block :: "md5_state \<Rightarrow> 32 word list \<Rightarrow> md5_state" where
  "md5_block st m =
     (case st of (a, b, c, d) \<Rightarrow>
      case foldl (md5_step m) st (zip [0..<64] (zip md5_shifts md5_table)) of (a', b', c', d') \<Rightarrow>
        (a + a', b + b', c + c', d + d'))"

definition md5_pad :: "bytes \<Rightarrow> bytes" where
  "md5_pad msg =
     msg @ [128] @ replicate ((119 - length msg mod 64) mod 64) 0
       @ map (\<lambda>i. ucast (drop_bit (8 * i) (8 * of_nat (length msg) :: 64 word))) [0..<8]"

fun md5_blocks :: "md5_state \<Rightarrow> 32 word list \<Rightarrow> md5_state" where
  "md5_blocks st ws =
     (if length ws < 16 then st else md5_blocks (md5_block st (take 16 ws)) (drop 16 ws))"

declare md5_blocks.simps [simp del]

definition md5_bytes :: "32 word \<Rightarrow> bytes" where
  "md5_bytes w = [ucast w, ucast (drop_bit 8 w), ucast (drop_bit 16 w), ucast (drop_bit 24 w)]"

definition md5_sum :: "bytes \<Rightarrow> bytes" where
  "md5_sum msg =
     (case md5_blocks (1732584193, 4023233417, 2562383102, 271733878) (md5_words (md5_pad msg)) of
        (a, b, c, d) \<Rightarrow> md5_bytes a @ md5_bytes b @ md5_bytes c @ md5_bytes d)"

lemma length_md5_sum [simp]: "length (md5_sum msg) = 16"
  by (simp add: md5_sum_def md5_bytes_def split: prod.splits)

text \<open>The rounds of one block as an explicit list, and the digest of \<open>"ubnt"\<close>.\<close>

lemma md5_words_ubnt:
  "md5_words (md5_pad [117, 98, 110, 116]) = [1953391221, 128, 0, 0, 0, 0, 0, 0, 0, 0, 0, 0, 0, 0, 32, 0]"
  by code_simp

lemma upt_64:
  "[0..<64] = [0,1,2,3,4,5,6,7,8,9,10,11,12,13,14,15,16,17,18,19,20,21,22,23,24,25,26,27,28,29,30,31,
     32,33,34,35,36,37,38,39,40,41,42,43,44,45,46,47,48,49,50,51,52,53,54,55,56,57,58,59,60,61,62,63]"
  by (simp add: upt_rec)

lemma md5_shifts_list:
  "md5_shifts = [7,12,17,22,7,12,17,22,7,12,17,22,7,12,17,22,5,9,14,20,5,9,14,20,5,9,14,20,5,9,14,20,
     4,11,16,23,4,11,16,23,4,11,16,23,4,11,16,23,6,10,15,21,6,10,15,21,6,10,15,21,6,10,15,21]"
  by (simp add: md5_shifts_def numeral_eq_Suc)

lemma md5_sum_ubnt:
  "md5_sum [117, 98, 110, 116] =
     [186, 134, 242, 187, 225, 7, 199, 197, 126, 181, 242, 105, 7, 117, 199, 18]"
  unfolding md5_sum_def md5_words_ubnt
  by (simp add: md5_blocks.simps md5_block_def upt_64 md5_shifts_list md5_table_def
      md5_mix_def md5_rotl_def md5_index_def md5_bytes_def)

end
