(* ===== verification/Inform_Packet.thy ===== *)
theory Inform_Packet
  imports Go_Prelude Go_Md5
begin

text \<open>
  The TNBU packet codec of \<open>internal/inform\<close>: \<open>packet.go\<close>, \<open>padding.go\<close>, \<open>compression.go\<close>,
  \<open>crypto.go\<close>, \<open>encode.go\<close>, \<open>decode.go\<close> and \<open>client.go\<close>.

  AES, AES-GCM and zlib are primitives of the model, the fields of \<open>crypto_lib\<close>; CBC chaining is
  written out over the AES block function. \<open>crypto_laws\<close> states the documented behaviour of the
  primitives that a round trip relies on.
\<close>

section \<open>Constants and records (packet.go)\<close>

definition informHeaderBytes :: nat where "informHeaderBytes = 40"
definition Magic :: string where "Magic = ''TNBU''"
definition PacketVersion :: "32 word" where "PacketVersion = 0"
definition PayloadVersion :: "32 word" where "PayloadVersion = 1"
definition FlagEncrypted :: "16 word" where "FlagEncrypted = 1"
definition FlagZlib :: "16 word" where "FlagZlib = 2"
definition FlagSnappy :: "16 word" where "FlagSnappy = 4"
definition FlagEncryptedGCM :: "16 word" where "FlagEncryptedGCM = 8"
definition GCMNonceSize :: nat where "GCMNonceSize = 16"
definition GCMTagSize :: nat where "GCMTagSize = 16"
definition aesBlockSize :: nat where "aesBlockSize = 16"
definition MaxDecodedPayloadBytes :: nat where "MaxDecodedPayloadBytes = 16 * 1024 * 1024"
definition MaxEncodedPayloadBytes :: nat where
  "MaxEncodedPayloadBytes = MaxDecodedPayloadBytes + 64 * 1024"

lemmas inform_consts = informHeaderBytes_def Magic_def PacketVersion_def PayloadVersion_def
  GCMNonceSize_def GCMTagSize_def aesBlockSize_def MaxDecodedPayloadBytes_def
  MaxEncodedPayloadBytes_def
lemmas flag_defs = FlagEncrypted_def FlagZlib_def FlagSnappy_def FlagEncryptedGCM_def

record options =
  optZlib :: bool
  optGCM :: bool

record packet =
  pktMAC :: bytes
  pktFlags :: "16 word"
  pktIV :: bytes
  pktPayload :: bytes

text \<open>The test \<open>flags & f != 0\<close>.\<close>

definition has_flag :: "16 word \<Rightarrow> 16 word \<Rightarrow> bool" where
  "has_flag flags f \<longleftrightarrow> flags AND f \<noteq> 0"

definition DefaultAuthKey :: bytes where
  "DefaultAuthKey = md5_sum (bytes_of ''ubnt'')"

lemma DefaultAuthKey_bytes:
  "DefaultAuthKey = [186, 134, 242, 187, 225, 7, 199, 197, 126, 181, 242, 105, 7, 117, 199, 18]"
  by (simp add: DefaultAuthKey_def bytes_of_def md5_sum_ubnt)

definition IsDefaultAuthKey :: "bytes \<Rightarrow> bool" where
  "IsDefaultAuthKey key \<longleftrightarrow> length key = 16 \<and> key = DefaultAuthKey"

text \<open>\<open>copy(dst[from:to], src)\<close>: the shorter of the two lengths is copied.\<close>

definition copy_at :: "nat \<Rightarrow> nat \<Rightarrow> bytes \<Rightarrow> bytes \<Rightarrow> bytes" where
  "copy_at from to src dst =
     (let n = min (to - from) (length src) in take from dst @ take n src @ drop (from + n) dst)"

definition makeHeader :: "bytes \<Rightarrow> 16 word \<Rightarrow> bytes \<Rightarrow> 32 word \<Rightarrow> bytes" where
  "makeHeader mac flags iv payloadLen =
     (let header = replicate informHeaderBytes 0;
          header = copy_at 0 4 (bytes_of Magic) header;
          header = copy_at 4 8 (be32_put PacketVersion) header;
          header = copy_at 8 14 mac header;
          header = copy_at 14 16 (be16_put flags) header;
          header = copy_at 16 32 iv header;
          header = copy_at 32 36 (be32_put PayloadVersion) header
      in copy_at 36 40 (be32_put payloadLen) header)"

section \<open>PKCS#7 padding (padding.go)\<close>

datatype inform_error =
    UrlRequired | MacLength | KeyLength | PlaintextTooLarge | EncodedTooLarge | RandFailed
  | PacketTooShort | InvalidMagic | BadPacketVersion | BadPayloadVersion
  | PayloadTooLong | PayloadLengthMismatch | UnencryptedPayload | UnknownFlags "16 word"
  | GcmShortPayload | GcmBadHeader | GcmBadNonce | GcmBadParameters | GcmOpenFailed
  | CbcUnaligned | PadLength | PadValue | PadByte
  | ZlibOpen | ZlibRead | DecompressedTooLarge | DecodedTooLarge
  | SnappyUnsupported | ZlibUnsupported | CipherMismatch bool
  | RequestFailed | HttpFailed | BodyReadFailed | BodyTooLarge

definition pkcs7Pad :: "bytes \<Rightarrow> nat \<Rightarrow> bytes" where
  "pkcs7Pad data blockSize =
     (let padLen = blockSize - length data mod blockSize;
          padLen = (if padLen = 0 then blockSize else padLen)
      in data @ replicate padLen (of_nat padLen))"

definition pkcs7Unpad :: "bytes \<Rightarrow> nat \<Rightarrow> inform_error + bytes" where
  "pkcs7Unpad data blockSize =
     (if data = [] \<or> length data mod blockSize \<noteq> 0 then Inl PadLength
      else let padLen = unat (last data) in
        if padLen = 0 \<or> padLen > blockSize \<or> padLen > length data then Inl PadValue
        else if list_all (\<lambda>b. unat b = padLen) (drop (length data - padLen) data)
          then Inr (take (length data - padLen) data)
          else Inl PadByte)"

section \<open>Cryptographic and compression primitives\<close>

text \<open>
  \<open>aesEnc k\<close> and \<open>aesDec k\<close> are the AES block functions under key \<open>k\<close>. \<open>gcmNew n\<close> is what
  \<open>cipher.NewGCMWithNonceSize(block, n)\<close> yields: the \<open>NonceSize\<close> and the \<open>Overhead\<close> of the AEAD.
  \<open>zlibReader b\<close> is \<open>None\<close> when \<open>zlib.NewReader\<close> rejects the stream header, else the bytes the
  reader delivers and whether it reaches a clean end of stream.
\<close>

record crypto_lib =
  aesEnc :: "bytes \<Rightarrow> bytes \<Rightarrow> bytes"
  aesDec :: "bytes \<Rightarrow> bytes \<Rightarrow> bytes"
  gcmNew :: "nat \<Rightarrow> (nat \<times> nat) option"
  gcmSeal :: "bytes \<Rightarrow> bytes \<Rightarrow> bytes \<Rightarrow> bytes \<Rightarrow> bytes"
  gcmOpen :: "bytes \<Rightarrow> bytes \<Rightarrow> bytes \<Rightarrow> bytes \<Rightarrow> bytes option"
  zlibWrite :: "bytes \<Rightarrow> bytes"
  zlibReader :: "bytes \<Rightarrow> (bytes \<times> bool) option"

definition xor_bytes :: "bytes \<Rightarrow> bytes \<Rightarrow> bytes" where
  "xor_bytes a b = map2 (XOR) a b"

text \<open>\<open>cipher.NewCBCEncrypter(block, iv).CryptBlocks\<close> and its inverse, block by block.\<close>

function cbcEncrypt :: "(bytes \<Rightarrow> bytes) \<Rightarrow> bytes \<Rightarrow> bytes \<Rightarrow> bytes" where
  "cbcEncrypt enc iv p =
     (if length p < aesBlockSize then []
      else let c = enc (xor_bytes (take aesBlockSize p) iv)
           in c @ cbcEncrypt enc c (drop aesBlockSize p))"
  by pat_completeness auto
termination
  by (relation "measure (\<lambda>(e, iv, p). length p)") (auto simp: aesBlockSize_def)

function cbcDecrypt :: "(bytes \<Rightarrow> bytes) \<Rightarrow> bytes \<Rightarrow> bytes \<Rightarrow> bytes" where
  "cbcDecrypt dec iv c =
     (if length c < aesBlockSize then []
      else xor_bytes (dec (take aesBlockSize c)) iv
             @ cbcDecrypt dec (take aesBlockSize c) (drop aesBlockSize c))"
  by pat_completeness auto
termination
  by (relation "measure (\<lambda>(d, iv, c). length c)") (auto simp: aesBlockSize_def)

declare cbcEncrypt.simps [simp del] cbcDecrypt.simps [simp del]

section \<open>Compression (compression.go)\<close>

definition compressPayload :: "crypto_lib \<Rightarrow> bytes \<Rightarrow> inform_error + bytes" where
  "compressPayload lib body = Inr (zlibWrite lib body)"

definition decompressPayload :: "crypto_lib \<Rightarrow> bytes \<Rightarrow> inform_error + bytes" where
  "decompressPayload lib body =
     (case zlibReader lib body of
        None \<Rightarrow> Inl ZlibOpen
      | Some (out, clean) \<Rightarrow>
          (if length out > MaxDecodedPayloadBytes then Inl DecompressedTooLarge
           else if \<not> clean then Inl ZlibRead
           else Inr out))"

section \<open>Decryption (crypto.go)\<close>

definition newInformGCM :: "crypto_lib \<Rightarrow> bytes \<Rightarrow> inform_error + unit" where
  "newInformGCM lib nonce =
     (if length nonce \<noteq> GCMNonceSize then Inl GcmBadNonce
      else (case gcmNew lib GCMNonceSize of
              None \<Rightarrow> Inl GcmBadParameters
            | Some (nonceSize, overhead) \<Rightarrow>
                (if nonceSize \<noteq> GCMNonceSize \<or> overhead \<noteq> GCMTagSize then Inl GcmBadParameters
                 else Inr ())))"

definition decryptGCMPayload ::
  "crypto_lib \<Rightarrow> bytes \<Rightarrow> bytes \<Rightarrow> bytes \<Rightarrow> bytes \<Rightarrow> inform_error + bytes" where
  "decryptGCMPayload lib key nonce body header =
     (if length header \<noteq> informHeaderBytes then Inl GcmBadHeader
      else if length body < GCMTagSize then Inl GcmShortPayload
      else (case newInformGCM lib nonce of
              Inl e \<Rightarrow> Inl e
            | Inr _ \<Rightarrow>
                (case gcmOpen lib key nonce body header of
                   None \<Rightarrow> Inl GcmOpenFailed
                 | Some out \<Rightarrow> Inr out)))"

definition decryptCBCPayload ::
  "crypto_lib \<Rightarrow> bytes \<Rightarrow> bytes \<Rightarrow> bytes \<Rightarrow> inform_error + bytes" where
  "decryptCBCPayload lib key iv body =
     (if body = [] \<or> length body mod aesBlockSize \<noteq> 0 then Inl CbcUnaligned
      else pkcs7Unpad (cbcDecrypt (aesDec lib key) iv body) aesBlockSize)"

definition decryptPayload ::
  "crypto_lib \<Rightarrow> packet \<Rightarrow> bytes \<Rightarrow> bytes \<Rightarrow> bytes \<Rightarrow> inform_error + bytes" where
  "decryptPayload lib packet body key header =
     (if \<not> has_flag (pktFlags packet) FlagEncrypted then Inr body
      else if length key \<noteq> 16 then Inl KeyLength
      else if has_flag (pktFlags packet) FlagEncryptedGCM
        then decryptGCMPayload lib key (pktIV packet) body header
        else decryptCBCPayload lib key (pktIV packet) body)"

section \<open>Decoding (decode.go)\<close>

definition validateEnvelopeFlags :: "16 word \<Rightarrow> inform_error option" where
  "validateEnvelopeFlags flags =
     (let knownFlags = FlagEncrypted OR FlagZlib OR FlagSnappy OR FlagEncryptedGCM in
      if flags AND FlagEncrypted = 0 then Some UnencryptedPayload
      else if flags AND NOT knownFlags \<noteq> 0 then Some (UnknownFlags (flags AND NOT knownFlags))
      else None)"

text \<open>\<open>data[from:to]\<close>.\<close>

definition slice :: "nat \<Rightarrow> nat \<Rightarrow> 'a list \<Rightarrow> 'a list" where
  "slice from to xs = take (to - from) (drop from xs)"

text \<open>
  The first component is the packet Go returns beside the error (\<open>nil\<close> is \<open>None\<close>); a successful
  parse also yields the 40 header bytes.
\<close>

definition parsePacket :: "bytes \<Rightarrow> packet option \<times> (inform_error + bytes)" where
  "parsePacket data =
     (if length data < informHeaderBytes then (None, Inl PacketTooShort)
      else if string_of (take 4 data) \<noteq> Magic then (None, Inl InvalidMagic)
      else if be32_get (slice 4 8 data) \<noteq> PacketVersion then (None, Inl BadPacketVersion)
      else if be32_get (slice 32 36 data) \<noteq> PayloadVersion then (None, Inl BadPayloadVersion)
      else let payloadLen = unat (be32_get (slice 36 40 data)) in
        if payloadLen > MaxEncodedPayloadBytes then (None, Inl PayloadTooLong)
        else if payloadLen \<noteq> length data - informHeaderBytes then (None, Inl PayloadLengthMismatch)
        else let p = \<lparr> pktMAC = slice 8 14 data, pktFlags = be16_get (slice 14 16 data),
                       pktIV = slice 16 32 data, pktPayload = drop informHeaderBytes data \<rparr> in
          (case validateEnvelopeFlags (pktFlags p) of
             Some e \<Rightarrow> (Some p, Inl e)
           | None \<Rightarrow>
               (if has_flag (pktFlags p) FlagEncryptedGCM \<and> length (pktPayload p) < GCMTagSize
                then (Some p, Inl GcmShortPayload)
                else (Some p, Inr (take informHeaderBytes data)))))"

definition validateDecodedPayloadSize :: "bytes \<Rightarrow> inform_error option" where
  "validateDecodedPayloadSize body =
     (if length body > MaxDecodedPayloadBytes then Some DecodedTooLarge else None)"

definition Decode :: "crypto_lib \<Rightarrow> bytes \<Rightarrow> bytes \<Rightarrow> packet option \<times> (inform_error + bytes)" where
  "Decode lib data key =
     (case parsePacket data of
        (_, Inl e) \<Rightarrow> (None, Inl e)
      | (None, Inr _) \<Rightarrow> (None, Inl PacketTooShort)
      | (Some p, Inr header) \<Rightarrow>
          (if has_flag (pktFlags p) FlagSnappy then (None, Inl SnappyUnsupported)
           else (case decryptPayload lib p (pktPayload p) key header of
                   Inl e \<Rightarrow> (None, Inl e)
                 | Inr body \<Rightarrow>
                     (case (if has_flag (pktFlags p) FlagZlib then decompressPayload lib body else Inr body) of
                        Inl e \<Rightarrow> (None, Inl e)
                      | Inr body' \<Rightarrow>
                          (case validateDecodedPayloadSize body' of
                             Some e \<Rightarrow> (Some p, Inl e)
                           | None \<Rightarrow> (Some p, Inr body'))))))"

definition DecodeControllerResponse ::
  "crypto_lib \<Rightarrow> bytes \<Rightarrow> bytes \<Rightarrow> bool \<Rightarrow> packet option \<times> (inform_error + bytes)" where
  "DecodeControllerResponse lib data key expectedGCM =
     (case parsePacket data of
        (p, Inl e) \<Rightarrow> (p, Inl e)
      | (None, Inr _) \<Rightarrow> (None, Inl PacketTooShort)
      | (Some p, Inr header) \<Rightarrow>
          (if has_flag (pktFlags p) FlagEncryptedGCM \<noteq> expectedGCM
           then (Some p, Inl (CipherMismatch expectedGCM))
           else (case decryptPayload lib p (pktPayload p) key header of
                   Inl e \<Rightarrow> (Some p, Inl e)
                 | Inr body \<Rightarrow>
                     (if has_flag (pktFlags p) FlagZlib then (Some p, Inl ZlibUnsupported)
                      else if has_flag (pktFlags p) FlagSnappy then (Some p, Inl SnappyUnsupported)
                      else (case validateDecodedPayloadSize body of
                              Some e \<Rightarrow> (Some p, Inl e)
                            | None \<Rightarrow> (Some p, Inr body))))))"

section \<open>Encoding (encode.go)\<close>

text \<open>\<open>rnd n\<close> is what reading \<open>n\<close> bytes from \<open>rand.Reader\<close> yields.\<close>

definition EncodeJSON ::
  "crypto_lib \<Rightarrow> (nat \<Rightarrow> bytes option) \<Rightarrow> bytes \<Rightarrow> bytes \<Rightarrow> bytes \<Rightarrow> options \<Rightarrow> inform_error + bytes" where
  "EncodeJSON lib rnd mac key payload opts =
     (if length mac \<noteq> 6 then Inl MacLength
      else if length key \<noteq> 16 then Inl KeyLength
      else if length payload > MaxDecodedPayloadBytes then Inl PlaintextTooLarge
      else (case (if optZlib opts then compressPayload lib payload else Inr payload) of
              Inl e \<Rightarrow> Inl e
            | Inr body \<Rightarrow>
                (let flags = (if optZlib opts then FlagEncrypted OR FlagZlib else FlagEncrypted) in
                 if length body > MaxEncodedPayloadBytes - aesBlockSize then Inl EncodedTooLarge
                 else (case rnd (if optGCM opts then GCMNonceSize else aesBlockSize) of
                         None \<Rightarrow> Inl RandFailed
                       | Some iv \<Rightarrow>
                           (if optGCM opts then
                              (case newInformGCM lib iv of
                                 Inl e \<Rightarrow> Inl e
                               | Inr _ \<Rightarrow>
                                   (let header = makeHeader mac (flags OR FlagEncryptedGCM) iv
                                                   (of_nat (length body + GCMTagSize))
                                    in Inr (header @ gcmSeal lib key iv body header)))
                            else
                              (let body = cbcEncrypt (aesEnc lib key) iv (pkcs7Pad body aesBlockSize)
                               in Inr (makeHeader mac flags iv (of_nat (length body)) @ body)))))))"

section \<open>The HTTP client (client.go)\<close>

definition DefaultMaxResponseBytes :: int where "DefaultMaxResponseBytes = 4 * 1024 * 1024"

record client =
  clientURL :: string
  clientMAC :: bytes
  clientKey :: bytes
  clientOptions :: options
  clientMaxResponseBytes :: int

record response =
  respStatusCode :: nat
  respRawBody :: bytes
  respJSONBody :: "bytes option"
  respPacket :: "packet option"

text \<open>
  What the HTTP transport does with one POST: the request cannot be built, it cannot be sent, or
  the first response (redirects are not followed) has a status and a body stream, given by the
  bytes it delivers and whether it ends cleanly.
\<close>

datatype http_reply = HttpCreateError | HttpDoError | HttpReply nat "bytes \<times> bool"

definition readLimitedBody :: "bytes \<times> bool \<Rightarrow> int \<Rightarrow> inform_error + bytes" where
  "readLimitedBody r maxBytes =
     (case r of (data, clean) \<Rightarrow>
        if int (length data) > maxBytes then Inl BodyTooLarge
        else if \<not> clean then Inl BodyReadFailed
        else Inr data)"

definition Send ::
  "crypto_lib \<Rightarrow> (nat \<Rightarrow> bytes option) \<Rightarrow> (string \<Rightarrow> bytes \<Rightarrow> http_reply) \<Rightarrow> client \<Rightarrow> bytes
     \<Rightarrow> response option \<times> inform_error option" where
  "Send lib rnd http c payload =
     (if clientURL c = [] then (None, Some UrlRequired)
      else (case EncodeJSON lib rnd (clientMAC c) (clientKey c) payload (clientOptions c) of
        Inl e \<Rightarrow> (None, Some e)
      | Inr body \<Rightarrow>
        (case http (clientURL c) body of
           HttpCreateError \<Rightarrow> (None, Some RequestFailed)
         | HttpDoError \<Rightarrow> (None, Some HttpFailed)
         | HttpReply status stream \<Rightarrow>
           (let maxResponseBytes =
                  (if clientMaxResponseBytes c \<le> 0 then DefaultMaxResponseBytes
                   else clientMaxResponseBytes c)
            in case readLimitedBody stream maxResponseBytes of
                 Inl e \<Rightarrow> (None, Some e)
               | Inr raw \<Rightarrow>
                 (let resp = \<lparr> respStatusCode = status, respRawBody = raw,
                               respJSONBody = None, respPacket = None \<rparr> in
                  if status \<noteq> 200 \<or> raw = [] then (Some resp, None)
                  else (case DecodeControllerResponse lib raw (clientKey c) (optGCM (clientOptions c)) of
                          (p, Inl e) \<Rightarrow> (Some (resp\<lparr>respPacket := p\<rparr>), Some e)
                        | (p, Inr decoded) \<Rightarrow>
                            (Some (resp\<lparr>respPacket := p, respJSONBody := Some decoded\<rparr>), None)))))))"

section \<open>Lemmas: padding\<close>

lemma pkcs7Pad_eq:
  assumes "0 < n"
  shows "pkcs7Pad d n = d @ replicate (n - length d mod n) (of_nat (n - length d mod n))"
proof -
  have "length d mod n < n" using assms by simp
  then show ?thesis by (simp add: pkcs7Pad_def Let_def)
qed

lemma length_pkcs7Pad:
  "0 < n \<Longrightarrow> length (pkcs7Pad d n) = (length d div n + 1) * n"
proof -
  assume n: "0 < n"
  have "length d mod n < n" using n by simp
  then have "length d + (n - length d mod n) = length d - length d mod n + n" by simp
  also have "length d - length d mod n = length d div n * n"
    by (simp add: minus_mod_eq_div_mult)
  finally show ?thesis using n by (simp add: pkcs7Pad_eq algebra_simps)
qed

lemma unat_of_nat_byte: "k < 256 \<Longrightarrow> unat (of_nat k :: byte) = k"
  by (simp add: unat_of_nat)

lemma pkcs7_roundtrip:
  assumes n: "0 < n" "n < 256"
  shows "pkcs7Unpad (pkcs7Pad d n) n = Inr d"
proof -
  obtain k where k: "0 < k" "k \<le> n" "pkcs7Pad d n = d @ replicate k (of_nat k)"
    using n pkcs7Pad_eq [of n d] by (metis diff_le_self mod_less_divisor zero_less_diff)
  have u: "unat (of_nat k :: byte) = k" using k n by (simp add: unat_of_nat_byte)
  have m: "(length d + k) mod n = 0"
    using length_pkcs7Pad [OF n(1), of d] k(3) by simp
  show ?thesis
    unfolding pkcs7Unpad_def k(3) using k(1,2) n m by (simp add: u list_all_iff)
qed

lemma pkcs7Unpad_InrD:
  assumes "pkcs7Unpad d n = Inr r"
  shows "\<exists>k. 0 < k \<and> k \<le> n \<and> k < 256 \<and> d = r @ replicate k (of_nat k) \<and> length d mod n = 0"
proof -
  define k where "k = unat (last d)"
  have a: "0 < k" "k \<le> n" "k \<le> length d" "length d mod n = 0"
      "list_all (\<lambda>b. unat b = k) (drop (length d - k) d)" "r = take (length d - k) d"
    using assms unfolding pkcs7Unpad_def k_def [symmetric] by (auto simp: Let_def split: if_splits)
  have "drop (length d - k) d = replicate k (of_nat k)"
  proof (rule replicate_eqI)
    show "length (drop (length d - k) d) = k" using a by simp
    fix y assume "y \<in> set (drop (length d - k) d)"
    with a(5) have "unat y = k" unfolding list_all_iff by blast
    then show "y = of_nat k" by (metis of_nat_unat ucast_id)
  qed
  then have "d = r @ replicate k (of_nat k)" using a(6) by (metis append_take_drop_id)
  moreover have "k < 2 ^ LENGTH(8)" unfolding k_def by (rule unsigned_less)
  ultimately show ?thesis using a(1,2,4) by (intro exI [of _ k]) simp
qed

lemma pkcs7Unpad_canonical:
  assumes u: "pkcs7Unpad d n = Inr r"
  shows "pkcs7Pad r n = d"
proof -
  obtain k where k: "0 < k" "k \<le> n" "d = r @ replicate k (of_nat k)" "length d mod n = 0"
    using pkcs7Unpad_InrD [OF u] by (elim exE conjE)
  define a where "a = length r mod n"
  have "a < n" using k by (simp add: a_def)
  moreover have "(a + k) mod n = 0" using k by (simp add: a_def mod_simps)
  ultimately have "n - a = k"
    using k(1,2) by (cases "a + k < n") (auto simp: mod_if split: if_splits)
  then show ?thesis using k by (simp add: pkcs7Pad_eq a_def)
qed

section \<open>Lemmas: the header and its parser\<close>

lemma length_Magic [simp]: "length Magic = 4"
  by (simp add: Magic_def)

lemma copy_at_step:
  assumes "length a = from" "length src = to - from" "from \<le> to" "to \<le> n"
  shows "copy_at from to src (a @ replicate (n - from) 0) = (a @ src) @ replicate (n - to) 0"
  using assms by (simp add: copy_at_def)

lemma makeHeader_layout:
  assumes "length mac = 6" "length iv = 16"
  shows "makeHeader mac flags iv n =
    bytes_of Magic @ be32_put PacketVersion @ mac @ be16_put flags @ iv @ be32_put PayloadVersion
      @ be32_put n"
proof -
  note step = copy_at_step [where n = 40]
  have "copy_at 0 4 (bytes_of Magic) (replicate 40 0) = bytes_of Magic @ replicate (40 - 4) 0"
    using step [of "[]" 0 "bytes_of Magic" 4] by (simp add: Magic_def)
  then show ?thesis
    unfolding makeHeader_def Let_def informHeaderBytes_def using assms
    by (simp only: step length_append length_bytes_of length_be32_put length_be16_put Magic_def
        list.size, simp)
qed

lemma length_makeHeader [simp]:
  "length mac = 6 \<Longrightarrow> length iv = 16 \<Longrightarrow> length (makeHeader mac flags iv n) = 40"
  by (simp add: makeHeader_layout Magic_def)

lemma slice_append: "length a = from \<Longrightarrow> length b = to - from \<Longrightarrow> slice from to (a @ b @ c) = b"
  by (simp add: slice_def)

lemma header_slices:
  fixes flags n
  assumes len: "length mac = 6" "length iv = 16"
  defines "h \<equiv> makeHeader mac flags iv n"
  shows "string_of (take 4 (h @ b)) = Magic"
    and "be32_get (slice 4 8 (h @ b)) = PacketVersion"
    and "slice 8 14 (h @ b) = mac"
    and "be16_get (slice 14 16 (h @ b)) = flags"
    and "slice 16 32 (h @ b) = iv"
    and "be32_get (slice 32 36 (h @ b)) = PayloadVersion"
    and "be32_get (slice 36 40 (h @ b)) = n"
    and "take 40 (h @ b) = h" and "drop 40 (h @ b) = b"
proof -
  have e: "h = bytes_of Magic @ be32_put PacketVersion @ mac @ be16_put flags @ iv
      @ be32_put PayloadVersion @ be32_put n"
    using len by (simp add: h_def makeHeader_layout)
  show "string_of (take 4 (h @ b)) = Magic" by (simp add: e)
  have "slice 4 8 (h @ b) = be32_put PacketVersion" by (simp add: e slice_def)
  then show "be32_get (slice 4 8 (h @ b)) = PacketVersion"
    using be32_roundtrip [of PacketVersion "[]"] by simp
  show "slice 8 14 (h @ b) = mac" by (simp add: e slice_def len)
  have "slice 14 16 (h @ b) = be16_put flags" by (simp add: e slice_def len)
  then show "be16_get (slice 14 16 (h @ b)) = flags"
    using be16_roundtrip [of flags "[]"] by simp
  show "slice 16 32 (h @ b) = iv" by (simp add: e slice_def len)
  have "slice 32 36 (h @ b) = be32_put PayloadVersion" by (simp add: e slice_def len)
  then show "be32_get (slice 32 36 (h @ b)) = PayloadVersion"
    using be32_roundtrip [of PayloadVersion "[]"] by simp
  have "slice 36 40 (h @ b) = be32_put n" by (simp add: e slice_def len)
  then show "be32_get (slice 36 40 (h @ b)) = n"
    using be32_roundtrip [of n "[]"] by simp
  show "take 40 (h @ b) = h" "drop 40 (h @ b) = b" using len by (simp_all add: h_def)
qed

lemma parsePacket_makeHeader:
  fixes flags body
  assumes len: "length mac = 6" "length iv = 16" "length body \<le> MaxEncodedPayloadBytes"
    and fl: "validateEnvelopeFlags flags = None"
    and gcm: "has_flag flags FlagEncryptedGCM \<longrightarrow> GCMTagSize \<le> length body"
  defines "h \<equiv> makeHeader mac flags iv (of_nat (length body))"
  shows "parsePacket (h @ body) =
    (Some \<lparr> pktMAC = mac, pktFlags = flags, pktIV = iv, pktPayload = body \<rparr>, Inr h)"
proof -
  have "length body < 2 ^ LENGTH(32)" using len(3) by (simp add: inform_consts)
  then have u: "unat (of_nat (length body) :: 32 word) = length body"
    by (simp add: unat_of_nat)
  have "length h = 40" using len by (simp add: h_def)
  then show ?thesis
    using header_slices [OF len(1,2), of flags "of_nat (length body)" body] len(3) fl gcm
    unfolding parsePacket_def informHeaderBytes_def h_def [symmetric]
    by (simp add: u Let_def not_less)
qed

lemma parsePacket_InrD:
  assumes "parsePacket data = (Some p, Inr h)"
  shows "has_flag (pktFlags p) FlagEncrypted" "h = take 40 data"
    "length (pktPayload p) \<le> MaxEncodedPayloadBytes" "length data = 40 + length (pktPayload p)"
    "pktFlags p AND NOT (FlagEncrypted OR FlagZlib OR FlagSnappy OR FlagEncryptedGCM) = 0"
  using assms
  by (auto simp: parsePacket_def validateEnvelopeFlags_def has_flag_def informHeaderBytes_def Let_def
      split: if_splits option.splits)

lemma parsePacket_fst_Some: "parsePacket data = (p, Inr h) \<Longrightarrow> p \<noteq> None"
  by (auto simp: parsePacket_def Let_def split: if_splits option.splits)

section \<open>Lemmas: CBC chaining\<close>

lemma length_xor_bytes [simp]: "length (xor_bytes a b) = min (length a) (length b)"
  by (simp add: xor_bytes_def)

lemma xor_bytes_cancel: "length a = length b \<Longrightarrow> xor_bytes (xor_bytes a b) b = a"
  by (induction a b rule: list_induct2) (simp_all add: xor_bytes_def xor.assoc)

definition block_cipher :: "(bytes \<Rightarrow> bytes) \<Rightarrow> (bytes \<Rightarrow> bytes) \<Rightarrow> bool" where
  "block_cipher enc dec \<longleftrightarrow>
     (\<forall>x. length x = aesBlockSize \<longrightarrow> length (enc x) = aesBlockSize \<and> dec (enc x) = x)"

lemma cbc_roundtrip:
  assumes "block_cipher enc dec" "length iv = 16" "length p mod 16 = 0"
  shows "length (cbcEncrypt enc iv p) = length p \<and> cbcDecrypt dec iv (cbcEncrypt enc iv p) = p"
  using assms
proof (induction enc iv p rule: cbcEncrypt.induct)
  case (1 enc iv p)
  show ?case
  proof (cases "length p < 16")
    case True
    with 1 have "p = []" by simp
    then show ?thesis
      by (simp add: cbcEncrypt.simps [of enc iv "[]"] cbcDecrypt.simps [of dec iv "[]"] aesBlockSize_def)
  next
    case False
    define x where "x = xor_bytes (take 16 p) iv"
    define c where "c = enc x"
    define r where "r = cbcEncrypt enc c (drop 16 p)"
    have x: "length x = 16" using False 1 by (simp add: x_def)
    then have c: "length c = 16" "dec c = x"
      using "1.prems"(1) by (simp_all add: block_cipher_def c_def aesBlockSize_def)
    have e: "cbcEncrypt enc iv p = c @ r"
      using False by (simp add: cbcEncrypt.simps [of enc iv p] aesBlockSize_def c_def x_def r_def Let_def)
    have d: "length (drop 16 p) mod 16 = 0" using "1.prems"(3) False le_mod_geq [of 16 "length p"] by simp
    have ih: "length r = length (drop 16 p)" "cbcDecrypt dec c r = drop 16 p"
      using "1.IH" [of c] False "1.prems"(1) c(1) d
      by (simp_all add: aesBlockSize_def c_def x_def r_def)
    have "cbcDecrypt dec iv (c @ r) = xor_bytes x iv @ drop 16 p"
      using c ih by (simp add: cbcDecrypt.simps [of dec iv "c @ r"] aesBlockSize_def)
    moreover have "xor_bytes x iv = take 16 p"
      using False "1.prems"(2) by (simp add: x_def xor_bytes_cancel)
    ultimately show ?thesis using e c(1) ih(1) False by simp
  qed
qed

section \<open>The laws of the primitives and the codec round trip\<close>

text \<open>
  Documented behaviour: AES decryption inverts encryption on 16-byte blocks; the AEAD built with a
  16-byte nonce reports nonce size and tag size 16, \<open>Seal\<close> appends a tag and \<open>Open\<close> accepts exactly
  the additional data it was sealed with; a zlib reader delivers what the writer was given.
\<close>

definition crypto_laws :: "crypto_lib \<Rightarrow> bool" where
  "crypto_laws lib \<longleftrightarrow>
     (\<forall>k. length k = 16 \<longrightarrow> block_cipher (aesEnc lib k) (aesDec lib k)) \<and>
     gcmNew lib 16 = Some (16, 16) \<and>
     (\<forall>k n p h. length k = 16 \<longrightarrow> length n = 16 \<longrightarrow>
        length (gcmSeal lib k n p h) = length p + 16 \<and> gcmOpen lib k n (gcmSeal lib k n p h) h = Some p) \<and>
     (\<forall>b. zlibReader lib (zlibWrite lib b) = Some (b, True))"

text \<open>The flags the encoder sets for its options.\<close>

definition encode_flags :: "options \<Rightarrow> 16 word" where
  "encode_flags opts =
     (let flags = (if optZlib opts then FlagEncrypted OR FlagZlib else FlagEncrypted)
      in if optGCM opts then flags OR FlagEncryptedGCM else flags)"

lemma encode_flags_props:
  "validateEnvelopeFlags (encode_flags opts) = None"
  "has_flag (encode_flags opts) FlagEncrypted"
  "has_flag (encode_flags opts) FlagEncryptedGCM = optGCM opts"
  "has_flag (encode_flags opts) FlagZlib = optZlib opts"
  "\<not> has_flag (encode_flags opts) FlagSnappy"
  by (cases "optZlib opts"; cases "optGCM opts";
      simp add: encode_flags_def validateEnvelopeFlags_def has_flag_def flag_defs)+

definition encoded_body :: "crypto_lib \<Rightarrow> bytes \<Rightarrow> options \<Rightarrow> bytes" where
  "encoded_body lib payload opts = (if optZlib opts then zlibWrite lib payload else payload)"

lemma EncodeJSON_InrD:
  assumes laws: "crypto_laws lib" and enc: "EncodeJSON lib rnd mac key payload opts = Inr out"
    and rnd: "\<And>n bs. rnd n = Some bs \<Longrightarrow> length bs = n"
  obtains iv ct where
    "length mac = 6" "length key = 16" "length iv = 16" "length payload \<le> MaxDecodedPayloadBytes"
    "length (encoded_body lib payload opts) \<le> MaxEncodedPayloadBytes - 16"
    "length ct \<le> length (encoded_body lib payload opts) + 16"
    "GCMTagSize \<le> length ct"
    "out = makeHeader mac (encode_flags opts) iv (of_nat (length ct)) @ ct"
    "if optGCM opts
     then gcmOpen lib key iv ct (makeHeader mac (encode_flags opts) iv (of_nat (length ct)))
            = Some (encoded_body lib payload opts)
     else decryptCBCPayload lib key iv ct = Inr (encoded_body lib payload opts)"
proof -
  let ?b = "encoded_body lib payload opts"
  have pre: "length mac = 6" "length key = 16" "length payload \<le> MaxDecodedPayloadBytes"
    "length ?b \<le> MaxEncodedPayloadBytes - 16"
    using enc by (auto simp: EncodeJSON_def encoded_body_def compressPayload_def Let_def aesBlockSize_def
        split: if_splits)
  obtain iv where iv: "rnd 16 = Some iv"
    using enc by (auto simp: EncodeJSON_def Let_def compressPayload_def aesBlockSize_def GCMNonceSize_def
        split: if_splits option.splits)
  have ivl: "length iv = 16" using rnd iv by blast
  show ?thesis
  proof (cases "optGCM opts")
    case True
    let ?h = "makeHeader mac (encode_flags opts) iv (of_nat (length ?b + 16))"
    have seal: "length (gcmSeal lib key iv ?b ?h) = length ?b + 16"
        "gcmOpen lib key iv (gcmSeal lib key iv ?b ?h) ?h = Some ?b"
      using laws pre(2) ivl by (simp_all add: crypto_laws_def)
    have "out = ?h @ gcmSeal lib key iv ?b ?h"
      using enc True iv pre
      by (auto simp: EncodeJSON_def Let_def compressPayload_def encoded_body_def encode_flags_def
          GCMNonceSize_def GCMTagSize_def split: if_splits sum.splits)
    then show ?thesis
      using that [of iv "gcmSeal lib key iv ?b ?h"] pre ivl seal True by (simp add: GCMTagSize_def)
  next
    case False
    let ?p = "pkcs7Pad ?b 16"
    let ?ct = "cbcEncrypt (aesEnc lib key) iv ?p"
    have lp: "length ?p = (length ?b div 16 + 1) * 16" by (rule length_pkcs7Pad) simp
    then have m: "length ?p mod 16 = 0" by simp
    have bc: "block_cipher (aesEnc lib key) (aesDec lib key)"
      using laws pre(2) by (simp add: crypto_laws_def)
    note cbc = cbc_roundtrip [OF bc ivl m]
    have "?ct \<noteq> []" using cbc lp by (metis add_gr_0 length_greater_0_conv mult_is_0 neq0_conv one_neq_zero zero_neq_numeral add_is_0)
    then have "decryptCBCPayload lib key iv ?ct = Inr ?b"
      using cbc m by (simp add: decryptCBCPayload_def aesBlockSize_def pkcs7_roundtrip)
    moreover have "out = makeHeader mac (encode_flags opts) iv (of_nat (length ?ct)) @ ?ct"
      using enc False iv pre
      by (auto simp: EncodeJSON_def Let_def compressPayload_def encoded_body_def encode_flags_def
          aesBlockSize_def split: if_splits)
    moreover have "length ?ct \<le> length ?b + 16" "GCMTagSize \<le> length ?ct"
      using cbc lp by (simp_all add: GCMTagSize_def)
    ultimately show ?thesis using that [of iv ?ct] pre ivl False by simp
  qed
qed

section \<open>Properties of the codec\<close>

text \<open>
  \<open>xor_lib\<close> is a concrete instance of the primitives that satisfies \<open>crypto_laws\<close>; the witnesses
  below run the codec on it.
\<close>

definition xor_lib :: crypto_lib where
  "xor_lib = \<lparr>
     aesEnc = (\<lambda>k x. xor_bytes x k), aesDec = (\<lambda>k x. xor_bytes x k),
     gcmNew = (\<lambda>n. Some (n, 16)),
     gcmSeal = (\<lambda>k n p h. p @ xor_bytes k (take 16 (h @ replicate 16 0))),
     gcmOpen = (\<lambda>k n c h.
        if drop (length c - 16) c = xor_bytes k (take 16 (h @ replicate 16 0))
        then Some (take (length c - 16) c) else None),
     zlibWrite = (\<lambda>b. b), zlibReader = (\<lambda>b. Some (b, True)) \<rparr>"

lemma crypto_laws_xor_lib: "crypto_laws xor_lib"
  by (simp add: crypto_laws_def xor_lib_def block_cipher_def aesBlockSize_def xor_bytes_cancel)

abbreviation sample_rnd :: "nat \<Rightarrow> bytes option" where
  "sample_rnd n \<equiv> Some (replicate n 3)"

abbreviation sample_mac :: bytes where "sample_mac \<equiv> [2, 0, 0, 0, 0, 1]"
abbreviation sample_key :: bytes where "sample_key \<equiv> replicate 16 7"

lemma EncodeJSON_xor_lib:
  "\<exists>out. EncodeJSON xor_lib sample_rnd sample_mac sample_key [123, 125] opts = Inr out"
  by (simp add: EncodeJSON_def compressPayload_def newInformGCM_def xor_lib_def inform_consts Let_def)

lemma EncodeJSON_parsed:
  assumes "crypto_laws lib" and "EncodeJSON lib rnd mac key payload opts = Inr out"
    and "\<And>n bs. rnd n = Some bs \<Longrightarrow> length bs = n"
  obtains p h where "parsePacket out = (Some p, Inr h)" "pktMAC p = mac" "pktFlags p = encode_flags opts"
    "decryptPayload lib p (pktPayload p) key h = Inr (encoded_body lib payload opts)"
    "length payload \<le> MaxDecodedPayloadBytes" "length key = 16"
proof -
  obtain iv ct where f:
    "length mac = 6" "length key = 16" "length iv = 16" "length payload \<le> MaxDecodedPayloadBytes"
    "length (encoded_body lib payload opts) \<le> MaxEncodedPayloadBytes - 16"
    "length ct \<le> length (encoded_body lib payload opts) + 16" "GCMTagSize \<le> length ct"
    and out: "out = makeHeader mac (encode_flags opts) iv (of_nat (length ct)) @ ct"
    and dec: "if optGCM opts
     then gcmOpen lib key iv ct (makeHeader mac (encode_flags opts) iv (of_nat (length ct)))
            = Some (encoded_body lib payload opts)
     else decryptCBCPayload lib key iv ct = Inr (encoded_body lib payload opts)"
    by (rule EncodeJSON_InrD [OF assms])
  let ?h = "makeHeader mac (encode_flags opts) iv (of_nat (length ct))"
  let ?p = "\<lparr> pktMAC = mac, pktFlags = encode_flags opts, pktIV = iv, pktPayload = ct \<rparr>"
  have "length ct \<le> MaxEncodedPayloadBytes" using f(5,6) by (simp add: inform_consts)
  then have parse: "parsePacket out = (Some ?p, Inr ?h)"
    unfolding out using f by (intro parsePacket_makeHeader) (simp_all add: encode_flags_props)
  have "newInformGCM lib iv = Inr ()"
    using assms(1) f(3) by (simp add: newInformGCM_def crypto_laws_def inform_consts)
  then have "decryptPayload lib ?p ct key ?h = Inr (encoded_body lib payload opts)"
    using dec f by (auto simp: decryptPayload_def encode_flags_props decryptGCMPayload_def
        informHeaderBytes_def not_less split: if_splits)
  then show thesis using parse f(2,4) that by simp
qed

text \<open>C2: Every packet the encoder produces decodes, under the same key, to exactly the payload it was
  given, whatever the cipher (AES-CBC or AES-GCM) and with or without zlib, and the decoded packet
  carries the sender's MAC, the flags of the options and no others.\<close>

theorem Decode_EncodeJSON:
  assumes "crypto_laws lib" and "\<And>n bs. rnd n = Some bs \<Longrightarrow> length bs = n"
    and "EncodeJSON lib rnd mac key payload opts = Inr out"
  shows "\<exists>p. Decode lib out key = (Some p, Inr payload) \<and> pktMAC p = mac \<and> pktFlags p = encode_flags opts"
proof -
  obtain p h where p: "parsePacket out = (Some p, Inr h)" "pktMAC p = mac" "pktFlags p = encode_flags opts"
    "decryptPayload lib p (pktPayload p) key h = Inr (encoded_body lib payload opts)"
    "length payload \<le> MaxDecodedPayloadBytes"
    by (rule EncodeJSON_parsed [OF assms(1,3,2)])
  have z: "(if optZlib opts then decompressPayload lib (encoded_body lib payload opts)
      else Inr (encoded_body lib payload opts)) = Inr payload"
    using assms(1) p(5) by (simp add: encoded_body_def decompressPayload_def crypto_laws_def)
  show ?thesis
    using p by (simp add: Decode_def encode_flags_props z validateDecodedPayloadSize_def)
qed

theorem Decode_EncodeJSON_witness:
  "\<exists>out p. EncodeJSON xor_lib sample_rnd sample_mac sample_key [123, 125] \<lparr>optZlib = True, optGCM = True\<rparr> = Inr out
     \<and> Decode xor_lib out sample_key = (Some p, Inr [123, 125]) \<and> pktMAC p = sample_mac"
proof -
  obtain out where e: "EncodeJSON xor_lib sample_rnd sample_mac sample_key [123, 125]
      \<lparr>optZlib = True, optGCM = True\<rparr> = Inr out"
    using EncodeJSON_xor_lib by blast
  have "\<And>n bs. sample_rnd n = Some bs \<Longrightarrow> length bs = n" by auto
  from Decode_EncodeJSON [OF crypto_laws_xor_lib this e] e show ?thesis by blast
qed


text \<open>The response cipher is never negotiated: a packet encoded in one cipher mode is accepted by a
  receiver expecting that mode, and rejected as a mismatch by one expecting the other.\<close>

theorem DecodeControllerResponse_mode_binding:
  assumes "crypto_laws lib" and "\<And>n bs. rnd n = Some bs \<Longrightarrow> length bs = n"
    and "EncodeJSON lib rnd mac key payload \<lparr>optZlib = False, optGCM = g\<rparr> = Inr out"
  shows "snd (DecodeControllerResponse lib out key g) = Inr payload
    \<and> snd (DecodeControllerResponse lib out key (\<not> g)) = Inl (CipherMismatch (\<not> g))"
proof -
  obtain p h where p: "parsePacket out = (Some p, Inr h)"
    "pktFlags p = encode_flags \<lparr>optZlib = False, optGCM = g\<rparr>"
    "decryptPayload lib p (pktPayload p) key h = Inr payload" "length payload \<le> MaxDecodedPayloadBytes"
    using EncodeJSON_parsed [OF assms(1,3,2)] by (simp add: encoded_body_def) blast
  show ?thesis
    using p by (simp add: DecodeControllerResponse_def encode_flags_props validateDecodedPayloadSize_def)
qed

theorem DecodeControllerResponse_mode_binding_witness:
  "\<exists>out. EncodeJSON xor_lib sample_rnd sample_mac sample_key [123, 125] \<lparr>optZlib = False, optGCM = False\<rparr> = Inr out
     \<and> snd (DecodeControllerResponse xor_lib out sample_key False) = Inr [123, 125]
     \<and> snd (DecodeControllerResponse xor_lib out sample_key True) = Inl (CipherMismatch True)"
proof -
  obtain out where e: "EncodeJSON xor_lib sample_rnd sample_mac sample_key [123, 125]
      \<lparr>optZlib = False, optGCM = False\<rparr> = Inr out"
    using EncodeJSON_xor_lib by blast
  have "\<And>n bs. sample_rnd n = Some bs \<Longrightarrow> length bs = n" by auto
  from DecodeControllerResponse_mode_binding [OF crypto_laws_xor_lib this e] e show ?thesis by auto
qed


text \<open>C37: On every payload within the plaintext limit whose (possibly compressed) body leaves room for one
  AES block, a valid MAC and key and a working random source, encoding succeeds; the packet is the
  40-byte header followed by the ciphertext, the header's length field is the ciphertext length, and
  the packet never exceeds what the decoder accepts.\<close>

theorem EncodeJSON_total_bounds:
  assumes "crypto_laws lib" and "\<And>n. \<exists>bs. rnd n = Some bs \<and> length bs = n"
    and "length mac = 6" and "length key = 16" and "length payload \<le> MaxDecodedPayloadBytes"
    and "length (encoded_body lib payload opts) \<le> MaxEncodedPayloadBytes - aesBlockSize"
  shows "\<exists>out. EncodeJSON lib rnd mac key payload opts = Inr out
    \<and> 56 \<le> length out \<and> length out \<le> informHeaderBytes + MaxEncodedPayloadBytes
    \<and> unat (be32_get (slice 36 40 out)) = length out - informHeaderBytes"
proof -
  obtain iv where iv: "rnd 16 = Some iv" using assms(2) by blast
  have lr: "\<And>n bs. rnd n = Some bs \<Longrightarrow> length bs = n" using assms(2) by (metis option.inject)
  have "newInformGCM lib iv = Inr ()"
    using assms(1) lr [OF iv] by (simp add: newInformGCM_def crypto_laws_def inform_consts)
  then have "\<exists>out. EncodeJSON lib rnd mac key payload opts = Inr out"
    using assms(3-6) iv
    by (cases "optZlib opts"; cases "optGCM opts")
      (simp_all add: EncodeJSON_def Let_def compressPayload_def encoded_body_def GCMNonceSize_def
        aesBlockSize_def not_less)
  then obtain out where e: "EncodeJSON lib rnd mac key payload opts = Inr out" ..
  obtain iv' ct where f: "length mac = 6" "length iv' = 16"
    "length (encoded_body lib payload opts) \<le> MaxEncodedPayloadBytes - 16"
    "length ct \<le> length (encoded_body lib payload opts) + 16" "GCMTagSize \<le> length ct"
    "out = makeHeader mac (encode_flags opts) iv' (of_nat (length ct)) @ ct"
    by (rule EncodeJSON_InrD [OF assms(1) e lr])
  have "length ct \<le> MaxEncodedPayloadBytes" using f(3,4) by (simp add: inform_consts)
  then have "unat (of_nat (length ct) :: 32 word) = length ct"
    by (simp add: unat_of_nat inform_consts)
  then show ?thesis
    using e f \<open>length ct \<le> MaxEncodedPayloadBytes\<close>
      header_slices(7) [OF f(1,2), of "encode_flags opts" "of_nat (length ct)" ct]
    by (simp add: informHeaderBytes_def GCMTagSize_def)
qed

theorem EncodeJSON_total_bounds_witness:
  "\<exists>out. EncodeJSON xor_lib sample_rnd sample_mac sample_key [123, 125] \<lparr>optZlib = False, optGCM = False\<rparr> = Inr out
     \<and> 56 \<le> length out"
  using EncodeJSON_total_bounds [OF crypto_laws_xor_lib, of sample_rnd sample_mac sample_key "[123, 125]"
      "\<lparr>optZlib = False, optGCM = False\<rparr>"]
  by (auto simp: encoded_body_def inform_consts)

text \<open>PKCS#7 unpadding accepts exactly the padded form of its result: padding then unpadding is the
  identity, and no other byte string is accepted as the padded form of a plaintext.\<close>

theorem pkcs7Unpad_iff:
  "0 < n \<Longrightarrow> n < 256 \<Longrightarrow> pkcs7Unpad d n = Inr r \<longleftrightarrow> d = pkcs7Pad r n"
  using pkcs7_roundtrip pkcs7Unpad_canonical by auto

theorem pkcs7Unpad_iff_witness:
  "pkcs7Unpad [1, 2, 2, 2] 4 = Inr [1, 2] \<longleftrightarrow> [1, 2, 2, 2] = pkcs7Pad [1, 2] 4"
  using pkcs7Unpad_iff [of 4 "[1, 2, 2, 2]" "[1, 2]"] by simp

text \<open>When sending a heartbeat succeeds, the response body is within the configured limit (4 MiB by
  default); a JSON body is reported exactly for a non-empty HTTP 200 response, and it is the body
  that \<open>DecodeControllerResponse\<close> produced under the client's own key and cipher.\<close>

theorem Send_ok:
  assumes "Send lib rnd http c payload = (Some resp, None)"
  shows "int (length (respRawBody resp)) \<le>
           (if clientMaxResponseBytes c \<le> 0 then DefaultMaxResponseBytes else clientMaxResponseBytes c)
    \<and> (respJSONBody resp \<noteq> None \<longleftrightarrow> respStatusCode resp = 200 \<and> respRawBody resp \<noteq> [])
    \<and> (\<forall>b. respJSONBody resp = Some b \<longrightarrow>
         DecodeControllerResponse lib (respRawBody resp) (clientKey c) (optGCM (clientOptions c))
           = (respPacket resp, Inr b))"
  using assms
  by (auto simp: Send_def Let_def readLimitedBody_def
      split: if_splits sum.splits http_reply.splits prod.splits)

theorem Send_ok_witness:
  "\<exists>resp. Send xor_lib sample_rnd (\<lambda>u b. HttpReply 404 ([1], True))
       \<lparr>clientURL = ''http://c:8080/inform'', clientMAC = sample_mac, clientKey = sample_key,
        clientOptions = \<lparr>optZlib = True, optGCM = False\<rparr>, clientMaxResponseBytes = 0\<rparr> [123, 125]
       = (Some resp, None) \<and> respJSONBody resp = None"
proof -
  let ?c = "\<lparr>clientURL = ''http://c:8080/inform'', clientMAC = sample_mac, clientKey = sample_key,
        clientOptions = \<lparr>optZlib = True, optGCM = False\<rparr>, clientMaxResponseBytes = 0\<rparr>"
  obtain out where "EncodeJSON xor_lib sample_rnd sample_mac sample_key [123, 125]
      \<lparr>optZlib = True, optGCM = False\<rparr> = Inr out"
    using EncodeJSON_xor_lib by blast
  then have s: "Send xor_lib sample_rnd (\<lambda>u b. HttpReply 404 ([1], True)) ?c [123, 125] =
      (Some \<lparr>respStatusCode = 404, respRawBody = [1], respJSONBody = None, respPacket = None\<rparr>, None)"
    by (simp add: Send_def readLimitedBody_def DefaultMaxResponseBytes_def)
  from Send_ok [OF s] s show ?thesis by simp
qed

end
