(* ===== verification/Inform_Schedule.thy ===== *)
theory Inform_Schedule
  imports Go_Prelude
begin

text \<open>
  The heartbeat scheduler (\<open>internal/inform/schedule.go\<close>) and the controller clock
  (\<open>internal/inform/controller_clock.go\<close>). A \<open>time.Duration\<close> is an \<open>int\<close> of nanoseconds in the
  64-bit range; arithmetic that can overflow goes through \<open>wrap64\<close>. The pseudo-random source of
  the retry jitter is an argument of \<open>Failure\<close>: the function \<open>Int63n\<close> and the outcome of
  \<open>Intn(2)\<close>.
\<close>

type_synonym duration = int

definition Second :: duration where "Second = 1000000000"
definition immediateInformDelay :: duration where "immediateInformDelay = 100000000"
definition maximumControllerInformInterval :: duration where
  "maximumControllerInformInterval = 300 * Second"

lemmas duration_consts = Second_def immediateInformDelay_def maximumControllerInformInterval_def

record schedule_config =
  BaseInterval :: duration
  ControllerIntervalMin :: duration
  ControllerIntervalMax :: duration
  FirmwareIntervalMin :: duration
  ControllerHints :: bool
  BackoffMax :: duration
  JitterPercent :: int

record schedule_decision =
  EffectiveInterval :: duration
  NextDelay :: duration
  ConsecutiveFailures :: int
  Backoff :: bool
  ControllerHintApplied :: bool
  ControllerHintIgnored :: bool
  DecisionControllerHints :: bool
  ImmediateApplied :: bool
  ImmediateSuppressed :: bool

record schedule =
  schedConfig :: schedule_config
  effective :: duration
  failures :: int
  immediateLatched :: bool

datatype schedule_error =
    BaseNotPositive | CtlMinNotPositive | CtlMinAboveFirmwareMax | CtlMaxBelowMin
  | FirmwareMinNotZero | FirmwareMinNotPositive | FirmwareMinAboveMax | CtlMaxBelowEffectiveMin
  | BackoffNotPositive | JitterOutOfRange

definition ValidateScheduleConfig :: "schedule_config \<Rightarrow> schedule_error option" where
  "ValidateScheduleConfig config =
     (if BaseInterval config \<le> 0 then Some BaseNotPositive
      else if ControllerIntervalMin config \<le> 0 then Some CtlMinNotPositive
      else if ControllerIntervalMin config > maximumControllerInformInterval then Some CtlMinAboveFirmwareMax
      else if ControllerIntervalMax config < ControllerIntervalMin config then Some CtlMaxBelowMin
      else if \<not> ControllerHints config \<and> FirmwareIntervalMin config \<noteq> 0 then Some FirmwareMinNotZero
      else if ControllerHints config \<and> FirmwareIntervalMin config \<le> 0 then Some FirmwareMinNotPositive
      else if ControllerHints config \<and> FirmwareIntervalMin config > maximumControllerInformInterval
        then Some FirmwareMinAboveMax
      else let effectiveMinimum =
                 (if ControllerIntervalMin config > FirmwareIntervalMin config
                  then ControllerIntervalMin config else FirmwareIntervalMin config) in
        if ControllerHints config \<and> ControllerIntervalMax config < effectiveMinimum
          then Some CtlMaxBelowEffectiveMin
        else if BackoffMax config \<le> 0 then Some BackoffNotPositive
        else if JitterPercent config < 0 \<or> JitterPercent config > 100 then Some JitterOutOfRange
        else None)"

definition NewSchedule :: "schedule_config \<Rightarrow> schedule_error + schedule" where
  "NewSchedule config =
     (case ValidateScheduleConfig config of
        Some e \<Rightarrow> Inl e
      | None \<Rightarrow> Inr \<lparr> schedConfig = config, effective = BaseInterval config, failures = 0,
                      immediateLatched = False \<rparr>)"

definition clampDuration :: "duration \<Rightarrow> duration \<Rightarrow> duration \<Rightarrow> duration" where
  "clampDuration v minimum maximum =
     (if v < minimum then minimum else if v > maximum then maximum else v)"

definition decision :: "schedule \<Rightarrow> duration \<Rightarrow> bool \<Rightarrow> bool \<Rightarrow> bool \<Rightarrow> schedule_decision" where
  "decision s delay backoff hintApplied hintIgnored =
     \<lparr> EffectiveInterval = effective s, NextDelay = delay, ConsecutiveFailures = failures s,
       Backoff = backoff, ControllerHintApplied = hintApplied, ControllerHintIgnored = hintIgnored,
       DecisionControllerHints = ControllerHints (schedConfig s),
       ImmediateApplied = False, ImmediateSuppressed = False \<rparr>"

definition Current :: "schedule \<Rightarrow> schedule_decision" where
  "Current s = decision s (effective s) False False False"

definition Reset :: "schedule \<Rightarrow> schedule \<times> schedule_decision" where
  "Reset s =
     (let s = s\<lparr> effective := BaseInterval (schedConfig s), failures := 0, immediateLatched := False \<rparr>
      in (s, Current s))"

definition SuccessWithOptions :: "schedule \<Rightarrow> duration \<Rightarrow> bool \<Rightarrow> schedule \<times> schedule_decision" where
  "SuccessWithOptions s controllerHint immediate =
     (let hintApplied = (ControllerHints (schedConfig s) \<and> controllerHint > 0);
          hintIgnored = (\<not> ControllerHints (schedConfig s) \<and> controllerHint > 0);
          maximum = (if ControllerIntervalMax (schedConfig s) > maximumControllerInformInterval
                     then maximumControllerInformInterval else ControllerIntervalMax (schedConfig s));
          minimum = (if ControllerIntervalMin (schedConfig s) > FirmwareIntervalMin (schedConfig s)
                     then ControllerIntervalMin (schedConfig s) else FirmwareIntervalMin (schedConfig s));
          s = (if hintApplied then s\<lparr> effective := clampDuration controllerHint minimum maximum \<rparr> else s);
          s = s\<lparr> failures := 0 \<rparr>;
          grantImmediate = (immediate \<and> \<not> immediateLatched s);
          s = s\<lparr> immediateLatched := immediate \<rparr>;
          delay = (if grantImmediate then immediateInformDelay else effective s);
          d = decision s delay False hintApplied hintIgnored
      in (s, d\<lparr> ImmediateApplied := grantImmediate,
                ImmediateSuppressed := immediate \<and> \<not> grantImmediate \<rparr>))"

definition Success :: "schedule \<Rightarrow> duration \<Rightarrow> schedule \<times> schedule_decision" where
  "Success s controllerHint = SuccessWithOptions s controllerHint False"

definition jitter ::
  "schedule_config \<Rightarrow> (int \<Rightarrow> int) \<Rightarrow> int \<Rightarrow> duration \<Rightarrow> duration \<Rightarrow> duration \<Rightarrow> duration" where
  "jitter config int63n coin delay minimum maximum =
     (if JitterPercent config = 0 \<or> delay \<le> 0 then delay
      else let window = go_div (wrap64 (delay * JitterPercent config)) 100 in
        if window \<le> 0 then delay
        else let offset = int63n (wrap64 (window + 1));
                 offset = (if coin = 0 then wrap64 (- offset) else offset)
             in clampDuration (wrap64 (delay + offset)) minimum maximum)"

text \<open>The doubling loop of \<open>Failure\<close>, run for the number of consecutive failures.\<close>

fun backoffLoop :: "nat \<Rightarrow> duration \<Rightarrow> duration \<Rightarrow> duration" where
  "backoffLoop 0 delay maximum = delay"
| "backoffLoop (Suc n) delay maximum =
     (if delay \<ge> maximum \<or> delay > go_div maximum 2 then maximum
      else backoffLoop n (wrap64 (delay * 2)) maximum)"

definition Failure :: "schedule \<Rightarrow> (int \<Rightarrow> int) \<Rightarrow> int \<Rightarrow> schedule \<times> schedule_decision" where
  "Failure s int63n coin =
     (let s = s\<lparr> failures := wrap64 (failures s + 1), immediateLatched := False \<rparr>;
          maximum = (if BackoffMax (schedConfig s) < effective s then effective s
                     else BackoffMax (schedConfig s));
          delay = backoffLoop (nat (failures s)) (effective s) maximum;
          delay = jitter (schedConfig s) int63n coin delay (effective s) maximum
      in (s, decision s delay True False False))"

section \<open>Invariant and bounds\<close>

definition config_in_range :: "schedule_config \<Rightarrow> bool" where
  "config_in_range c \<longleftrightarrow> int64_range (BaseInterval c) \<and> int64_range (ControllerIntervalMax c)
     \<and> int64_range (BackoffMax c)"

definition sched_inv :: "schedule \<Rightarrow> bool" where
  "sched_inv s \<longleftrightarrow> ValidateScheduleConfig (schedConfig s) = None \<and> config_in_range (schedConfig s)
     \<and> 0 < effective s
     \<and> effective s \<le> max (BaseInterval (schedConfig s)) maximumControllerInformInterval"

text \<open>The longest delay any decision of a schedule can carry.\<close>

definition sched_bound :: "schedule_config \<Rightarrow> duration" where
  "sched_bound c = max (BackoffMax c) (max (BaseInterval c) maximumControllerInformInterval)"

lemma sched_inv_effective_range: "sched_inv s \<Longrightarrow> int64_range (effective s)"
  by (auto simp: sched_inv_def config_in_range_def int64_defs duration_consts)

lemma clampDuration_bounds: "lo \<le> hi \<Longrightarrow> lo \<le> clampDuration v lo hi \<and> clampDuration v lo hi \<le> hi"
  by (simp add: clampDuration_def)

lemma backoffLoop_eq:
  assumes "0 < d" "d \<le> m" "int64_range m"
  shows "backoffLoop n d m = min m (d * 2 ^ n)"
  using assms
proof (induction n arbitrary: d)
  case (Suc n)
  have div2: "go_div m 2 = m div 2" using Suc.prems by (simp add: go_div_nonneg)
  show ?case
  proof (cases "d \<ge> m \<or> d > m div 2")
    case True
    then have "m \<le> d * 2" using Suc.prems(1,2) by auto
    moreover have "d * 2 * 1 \<le> d * 2 * 2 ^ n" using Suc.prems(1) by (intro mult_left_mono) simp_all
    ultimately have "m \<le> d * 2 ^ Suc n" by simp
    with True show ?thesis by (simp add: div2)
  next
    case False
    then have d2: "0 < d * 2" "d * 2 \<le> m" using Suc.prems by auto
    then have "wrap64 (d * 2) = d * 2"
      using Suc.prems(3) by (intro wrap64_id) (simp add: int64_defs)
    with False Suc.IH [OF d2 Suc.prems(3)] show ?thesis by (simp add: div2 algebra_simps)
  qed
qed simp

lemma backoffLoop_bounds:
  assumes "0 < d" "d \<le> m" "int64_range m"
  shows "d \<le> backoffLoop n d m \<and> backoffLoop n d m \<le> m"
proof -
  have "d * 1 \<le> d * 2 ^ n" using assms(1) by (intro mult_left_mono) simp_all
  then show ?thesis using assms by (simp add: backoffLoop_eq)
qed

lemma jitter_bounds:
  assumes "lo \<le> d" "d \<le> hi"
  shows "lo \<le> jitter c f k d lo hi \<and> jitter c f k d lo hi \<le> hi"
proof -
  have "lo \<le> hi" using assms by simp
  then show ?thesis using assms clampDuration_bounds [of lo hi] by (simp add: jitter_def Let_def)
qed

lemma Failure_delay:
  "NextDelay (snd (Failure s f k)) =
     (let m = max (BackoffMax (schedConfig s)) (effective s)
      in jitter (schedConfig s) f k (backoffLoop (nat (wrap64 (failures s + 1))) (effective s) m)
           (effective s) m)"
  by (simp add: Failure_def Let_def decision_def max_def)

lemma Failure_delay_bounds:
  assumes "sched_inv s"
  shows "effective s \<le> NextDelay (snd (Failure s f k))
    \<and> NextDelay (snd (Failure s f k)) \<le> max (BackoffMax (schedConfig s)) (effective s)"
proof -
  let ?m = "max (BackoffMax (schedConfig s)) (effective s)"
  have e: "0 < effective s" "int64_range ?m"
    using assms sched_inv_effective_range [OF assms]
    by (auto simp: sched_inv_def config_in_range_def max_def)
  show ?thesis
    unfolding Failure_delay Let_def
    using backoffLoop_bounds [OF e(1) _ e(2)] by (intro jitter_bounds) auto
qed

lemma Failure_state:
  "effective (fst (Failure s f k)) = effective s" "schedConfig (fst (Failure s f k)) = schedConfig s"
  "immediateLatched (fst (Failure s f k)) = False"
  by (simp_all add: Failure_def Let_def)

lemma hint_bounds:
  assumes "ValidateScheduleConfig c = None" "ControllerHints c"
  defines "lo \<equiv> max (FirmwareIntervalMin c) (ControllerIntervalMin c)"
    and "hi \<equiv> min (ControllerIntervalMax c) maximumControllerInformInterval"
  shows "0 < lo" "lo \<le> hi"
  using assms by (auto simp: ValidateScheduleConfig_def Let_def max_def min_def split: if_splits)

text \<open>The interval a successful exchange leaves behind.\<close>

lemma SuccessWithOptions_effective:
  "effective (fst (SuccessWithOptions s hint imm)) =
     (if ControllerHints (schedConfig s) \<and> hint > 0
      then clampDuration hint (max (FirmwareIntervalMin (schedConfig s)) (ControllerIntervalMin (schedConfig s)))
             (min (ControllerIntervalMax (schedConfig s)) maximumControllerInformInterval)
      else effective s)"
  by (simp add: SuccessWithOptions_def Let_def max_def min_def)

lemma SuccessWithOptions_state:
  "schedConfig (fst (SuccessWithOptions s hint imm)) = schedConfig s"
  "failures (fst (SuccessWithOptions s hint imm)) = 0"
  "immediateLatched (fst (SuccessWithOptions s hint imm)) = imm"
  by (simp_all add: SuccessWithOptions_def Let_def)

lemma SuccessWithOptions_decision:
  "NextDelay (snd (SuccessWithOptions s hint imm)) =
     (if imm \<and> \<not> immediateLatched s then immediateInformDelay
      else effective (fst (SuccessWithOptions s hint imm)))"
  "ImmediateApplied (snd (SuccessWithOptions s hint imm)) = (imm \<and> \<not> immediateLatched s)"
  "ImmediateSuppressed (snd (SuccessWithOptions s hint imm)) = (imm \<and> immediateLatched s)"
  "EffectiveInterval (snd (SuccessWithOptions s hint imm)) = effective (fst (SuccessWithOptions s hint imm))"
  by (auto simp: SuccessWithOptions_def Let_def decision_def)

lemma SuccessWithOptions_inv:
  assumes "sched_inv s"
  shows "sched_inv (fst (SuccessWithOptions s hint imm))"
proof (cases "ControllerHints (schedConfig s) \<and> hint > 0")
  case True
  let ?c = "schedConfig s"
  have v: "ValidateScheduleConfig ?c = None" using assms by (simp add: sched_inv_def)
  note b = hint_bounds [OF v conjunct1 [OF True]]
  define v where "v = effective (fst (SuccessWithOptions s hint imm))"
  have v: "v = clampDuration hint (max (FirmwareIntervalMin ?c) (ControllerIntervalMin ?c))
      (min (ControllerIntervalMax ?c) maximumControllerInformInterval)"
    using True by (simp add: v_def SuccessWithOptions_effective)
  note bv = clampDuration_bounds [OF b(2), of hint, folded v]
  have "0 < v" by (rule less_le_trans [OF b(1) conjunct1 [OF bv]])
  moreover have "v \<le> maximumControllerInformInterval" using conjunct2 [OF bv] by simp
  ultimately have "0 < v" "v \<le> maximumControllerInformInterval" .
  then show ?thesis
    using assms unfolding sched_inv_def SuccessWithOptions_state v_def [symmetric] by auto
next
  case False
  then show ?thesis
    using assms unfolding sched_inv_def SuccessWithOptions_effective SuccessWithOptions_state by auto
qed

lemma Reset_inv: "sched_inv s \<Longrightarrow> sched_inv (fst (Reset s))"
  by (auto simp: sched_inv_def Reset_def Let_def ValidateScheduleConfig_def split: if_splits)

lemma Failure_inv: "sched_inv s \<Longrightarrow> sched_inv (fst (Failure s f k))"
  by (simp add: sched_inv_def Failure_state)

section \<open>Runs of the scheduler\<close>

datatype sched_event =
    EvCurrent
  | EvReset
  | EvSuccess duration bool
  | EvFailure "int \<Rightarrow> int" int

fun sched_step :: "schedule \<Rightarrow> sched_event \<Rightarrow> schedule \<times> schedule_decision" where
  "sched_step s EvCurrent = (s, Current s)"
| "sched_step s EvReset = Reset s"
| "sched_step s (EvSuccess hint imm) = SuccessWithOptions s hint imm"
| "sched_step s (EvFailure f k) = Failure s f k"

text \<open>No decision makes the daemon spin and none puts it to sleep beyond the operator's bounds.\<close>

definition delay_ok :: "schedule_config \<Rightarrow> schedule_decision \<Rightarrow> bool" where
  "delay_ok c d \<longleftrightarrow> 0 < NextDelay d \<and> NextDelay d \<le> sched_bound c"

lemma sched_step_config: "schedConfig (fst (sched_step s e)) = schedConfig s"
  by (cases e) (simp_all add: Reset_def Let_def SuccessWithOptions_state Failure_state)

lemma sched_step_delay:
  assumes "sched_inv s"
  shows "delay_ok (schedConfig s) (snd (sched_step s e))"
proof (cases e)
  case EvCurrent
  then show ?thesis
    using assms by (auto simp: delay_ok_def sched_bound_def sched_inv_def Current_def decision_def)
next
  case EvReset
  then show ?thesis
    using Reset_inv [OF assms]
    by (auto simp: delay_ok_def sched_bound_def sched_inv_def Current_def decision_def Reset_def Let_def)
next
  case (EvSuccess hint imm)
  have "sched_inv (fst (SuccessWithOptions s hint imm))" by (rule SuccessWithOptions_inv [OF assms])
  then show ?thesis
    using EvSuccess unfolding sched_inv_def SuccessWithOptions_state
    by (auto simp: delay_ok_def sched_bound_def SuccessWithOptions_decision duration_consts)
next
  case (EvFailure f k)
  then show ?thesis
    using assms Failure_delay_bounds [OF assms, of f k]
    by (auto simp: delay_ok_def sched_bound_def sched_inv_def)
qed

interpretation sched: stepper sched_step "\<lambda>s. sched_inv s \<and> schedConfig s = c" "\<lambda>_. True" "delay_ok c"
  for c
proof unfold_locales
  fix s e
  assume s: "sched_inv s \<and> schedConfig s = c"
  then show "sched_inv (fst (sched_step s e)) \<and> schedConfig (fst (sched_step s e)) = c"
    by (cases e) (simp_all add: sched_step_config SuccessWithOptions_inv Failure_inv Reset_inv
        SuccessWithOptions_state Failure_state, simp add: Reset_def Let_def)
  show "delay_ok c (snd (sched_step s e))" using s sched_step_delay by auto
qed

section \<open>The controller clock (controller_clock.go)\<close>

record controller_clock =
  offsetSeconds :: int
  clockSet :: bool

text \<open>A \<open>time.Time\<close> as its Unix seconds and nanoseconds; the location is carried along unchanged.\<close>

type_synonym gotime = "int \<times> int"

definition saturatingAdd :: "int \<Rightarrow> int \<Rightarrow> int" where
  "saturatingAdd l r =
     (if r > 0 \<and> l > wrap64 (MaxInt64 - r) then MaxInt64
      else if r < 0 \<and> l < wrap64 (MinInt64 - r) then MinInt64
      else wrap64 (l + r))"

definition saturatingSubtract :: "int \<Rightarrow> int \<Rightarrow> int" where
  "saturatingSubtract l r =
     (if r < 0 \<and> l > wrap64 (MaxInt64 + r) then MaxInt64
      else if r > 0 \<and> l < wrap64 (MinInt64 + r) then MinInt64
      else wrap64 (l - r))"

definition clock_Update :: "controller_clock \<Rightarrow> int \<Rightarrow> gotime \<Rightarrow> controller_clock" where
  "clock_Update clock serverTimeMillis local =
     clock\<lparr> offsetSeconds := saturatingSubtract (go_div serverTimeMillis 1000) (fst local), clockSet := True \<rparr>"

text \<open>The receiver is a pointer: \<open>None\<close> is \<open>nil\<close>.\<close>

definition clock_Apply :: "controller_clock option \<Rightarrow> gotime \<Rightarrow> gotime" where
  "clock_Apply clock local =
     (case clock of
        None \<Rightarrow> local
      | Some c \<Rightarrow> (if \<not> clockSet c then local
                   else (saturatingAdd (fst local) (offsetSeconds c), snd local)))"

definition clock_OffsetSeconds :: "controller_clock option \<Rightarrow> int" where
  "clock_OffsetSeconds clock =
     (case clock of None \<Rightarrow> 0 | Some c \<Rightarrow> (if \<not> clockSet c then 0 else offsetSeconds c))"

definition clock_Set :: "controller_clock option \<Rightarrow> bool" where
  "clock_Set clock = (case clock of None \<Rightarrow> False | Some c \<Rightarrow> clockSet c)"

definition clock_Reset :: "controller_clock option \<Rightarrow> controller_clock option" where
  "clock_Reset clock =
     (case clock of None \<Rightarrow> None | Some c \<Rightarrow> Some (c\<lparr> offsetSeconds := 0, clockSet := False \<rparr>))"

text \<open>The nearest representable value.\<close>

definition clamp64 :: "int \<Rightarrow> int" where
  "clamp64 x = (if x < MinInt64 then MinInt64 else if x > MaxInt64 then MaxInt64 else x)"

lemma saturatingAdd_exact:
  assumes "int64_range l" "int64_range r"
  shows "saturatingAdd l r = clamp64 (l + r)"
proof (cases "r > 0")
  case True
  then have "wrap64 (MaxInt64 - r) = MaxInt64 - r"
    using assms by (intro wrap64_id) (auto simp: int64_defs)
  then show ?thesis
    using True assms by (auto simp: saturatingAdd_def clamp64_def wrap64_id int64_defs)
next
  case False
  then have "wrap64 (MinInt64 - r) = MinInt64 - r"
    using assms by (intro wrap64_id) (auto simp: int64_defs)
  then show ?thesis
    using False assms by (auto simp: saturatingAdd_def clamp64_def wrap64_id int64_defs)
qed

lemma saturatingSubtract_exact:
  assumes "int64_range l" "int64_range r"
  shows "saturatingSubtract l r = clamp64 (l - r)"
proof (cases "r < 0")
  case True
  then have "wrap64 (MaxInt64 + r) = MaxInt64 + r"
    using assms by (intro wrap64_id) (auto simp: int64_defs)
  then show ?thesis
    using True assms by (auto simp: saturatingSubtract_def clamp64_def wrap64_id int64_defs)
next
  case False
  then have "wrap64 (MinInt64 + r) = MinInt64 + r"
    using assms by (intro wrap64_id) (auto simp: int64_defs)
  then show ?thesis
    using False assms by (auto simp: saturatingSubtract_def clamp64_def wrap64_id int64_defs)
qed

section \<open>Properties\<close>

definition sample_config :: schedule_config where
  "sample_config = \<lparr> BaseInterval = 10 * Second, ControllerIntervalMin = 5 * Second,
     ControllerIntervalMax = 60 * Second, FirmwareIntervalMin = 30 * Second, ControllerHints = True,
     BackoffMax = 300 * Second, JitterPercent = 20 \<rparr>"

definition sample_schedule :: schedule where
  "sample_schedule = \<lparr> schedConfig = sample_config, effective = 10 * Second, failures = 0,
     immediateLatched = False \<rparr>"

lemma NewSchedule_sample: "NewSchedule sample_config = Inr sample_schedule"
  by (simp add: NewSchedule_def ValidateScheduleConfig_def sample_config_def sample_schedule_def
      duration_consts)

lemma sample_config_in_range: "config_in_range sample_config"
  by (simp add: config_in_range_def sample_config_def int64_defs duration_consts)

lemma NewSchedule_inv:
  assumes "NewSchedule c = Inr s" "config_in_range c"
  shows "sched_inv s \<and> schedConfig s = c"
proof (cases "ValidateScheduleConfig c")
  case None
  then have "0 < BaseInterval c" by (simp add: ValidateScheduleConfig_def split: if_splits)
  then show ?thesis using assms None by (auto simp: NewSchedule_def sched_inv_def)
qed (use assms in \<open>simp add: NewSchedule_def\<close>)

lemma sched_inv_sample: "sched_inv sample_schedule"
  using NewSchedule_inv [OF NewSchedule_sample sample_config_in_range] by simp

text \<open>C8: A schedule built from an accepted configuration keeps, through every sequence of successes
  (with any controller hint), failures (with any random jitter), resets and idle reads, a positive
  interval; every decision it returns has a positive delay that never exceeds the largest of the
  operator's backoff maximum, the base interval and the 300 s firmware maximum.\<close>

theorem schedule_delays_bounded:
  assumes "NewSchedule c = Inr s" and "config_in_range c"
  shows "sched_inv (fst (run_steps sched_step s es))
    \<and> list_all (\<lambda>d. 0 < NextDelay d \<and> NextDelay d \<le> sched_bound c) (snd (run_steps sched_step s es))"
  using sched.run_inv_good [where c = c and s = s and es = es] NewSchedule_inv [OF assms]
  by (simp add: delay_ok_def list_all_iff)

theorem schedule_delays_bounded_witness:
  "list_all (\<lambda>d. 0 < NextDelay d \<and> NextDelay d \<le> sched_bound sample_config)
     (snd (run_steps sched_step sample_schedule [EvFailure (\<lambda>n. n - 1) 1, EvSuccess 1 True]))"
  using schedule_delays_bounded [OF NewSchedule_sample sample_config_in_range] by blast

text \<open>Without jitter the retry delay is exactly exponential: after the n-th consecutive failed
  heartbeat it is the effective interval doubled n times, cut off at the larger of the backoff
  maximum and the effective interval; no doubling overflows.\<close>

theorem Failure_exponential:
  assumes "sched_inv s" and "JitterPercent (schedConfig s) = 0"
    and "0 \<le> failures s" and "failures s < MaxInt64"
  shows "NextDelay (snd (Failure s f k)) =
      min (max (BackoffMax (schedConfig s)) (effective s)) (effective s * 2 ^ nat (failures s + 1))
    \<and> ConsecutiveFailures (snd (Failure s f k)) = failures s + 1"
proof -
  let ?m = "max (BackoffMax (schedConfig s)) (effective s)"
  have e: "0 < effective s" "int64_range ?m"
    using assms(1) sched_inv_effective_range [OF assms(1)]
    by (auto simp: sched_inv_def config_in_range_def max_def)
  have w: "wrap64 (failures s + 1) = failures s + 1"
    using assms(3,4) by (intro wrap64_id) (simp add: int64_defs)
  have "NextDelay (snd (Failure s f k)) = backoffLoop (nat (failures s + 1)) (effective s) ?m"
    unfolding Failure_delay Let_def w using assms(2) by (simp add: jitter_def)
  then show ?thesis
    using backoffLoop_eq [OF e(1) _ e(2)] by (simp add: Failure_def Let_def decision_def w)
qed

theorem Failure_exponential_witness:
  "let s = sample_schedule\<lparr>schedConfig := sample_config\<lparr>JitterPercent := 0\<rparr>, failures := 2\<rparr>
   in NextDelay (snd (Failure s (\<lambda>_. 0) 0)) = 80 * Second"
proof -
  let ?s = "sample_schedule\<lparr>schedConfig := sample_config\<lparr>JitterPercent := 0\<rparr>, failures := 2\<rparr>"
  have "sched_inv ?s"
    by (simp add: sched_inv_def config_in_range_def ValidateScheduleConfig_def sample_config_def
        sample_schedule_def duration_consts int64_defs)
  from Failure_exponential [OF this, of "\<lambda>_. 0" 0] show ?thesis
    by (simp add: sample_schedule_def sample_config_def MaxInt64_def duration_consts)
qed

text \<open>With any jitter percentage and any random draws, even ones that overflow 64-bit arithmetic, a
  retry delay lies between the effective interval and the larger of the backoff maximum and the
  effective interval, and the failed heartbeat does not change the interval.\<close>

theorem Failure_bounds:
  assumes "sched_inv s"
  shows "effective s \<le> NextDelay (snd (Failure s f k))
    \<and> NextDelay (snd (Failure s f k)) \<le> max (BackoffMax (schedConfig s)) (effective s)
    \<and> effective (fst (Failure s f k)) = effective s \<and> \<not> immediateLatched (fst (Failure s f k))"
  using Failure_delay_bounds [OF assms] by (simp add: Failure_state)

theorem Failure_bounds_witness:
  "10 * Second \<le> NextDelay (snd (Failure sample_schedule (\<lambda>n. n - 1) 0))"
  using Failure_bounds [OF sched_inv_sample, of "\<lambda>n. n - 1" 0] by (simp add: sample_schedule_def)

text \<open>A successful heartbeat clears the failure count; a positive controller hint on a schedule that
  accepts hints sets the interval within the stricter of the operator and firmware minimum and the
  smaller of the operator and 300 s maximum; otherwise the interval is unchanged.\<close>

theorem Success_hint_bounds:
  fixes hint imm
  assumes "sched_inv s"
  defines "c \<equiv> schedConfig s" and "s' \<equiv> fst (SuccessWithOptions s hint imm)"
  shows "sched_inv s' \<and> failures s' = 0
    \<and> (if ControllerHints c \<and> hint > 0
       then max (FirmwareIntervalMin c) (ControllerIntervalMin c) \<le> effective s'
          \<and> effective s' \<le> min (ControllerIntervalMax c) maximumControllerInformInterval
       else effective s' = effective s)"
proof -
  have v: "ValidateScheduleConfig c = None" using assms(1) by (simp add: sched_inv_def c_def)
  show ?thesis
    using SuccessWithOptions_inv [OF assms(1), of hint imm]
      clampDuration_bounds [OF hint_bounds(2) [OF v], of hint]
    unfolding s'_def c_def by (auto simp: SuccessWithOptions_state SuccessWithOptions_effective)
qed

theorem Success_hint_bounds_witness:
  "effective (fst (SuccessWithOptions sample_schedule (1 * Second) False)) \<ge> 30 * Second"
  using Success_hint_bounds [OF sched_inv_sample, of "1 * Second" False]
  by (simp add: sample_schedule_def sample_config_def duration_consts)

text \<open>The controller cannot drive the daemon into back-to-back immediate heartbeats: after a granted
  immediate request the next immediate request is suppressed and waits the full interval, and only a
  heartbeat without the request (or a failed one) re-arms the grant.\<close>

theorem immediate_not_repeated:
  "let (s1, d1) = SuccessWithOptions s h1 True; (s2, d2) = SuccessWithOptions s1 h2 True
   in ImmediateApplied d1 = (\<not> immediateLatched s) \<and> \<not> ImmediateApplied d2 \<and> ImmediateSuppressed d2
    \<and> NextDelay d2 = effective s2
    \<and> ImmediateApplied (snd (SuccessWithOptions (fst (SuccessWithOptions s2 h3 False)) h4 True))
    \<and> ImmediateApplied (snd (SuccessWithOptions (fst (Failure s2 f k)) h4 True))"
proof -
  have "SuccessWithOptions s h i = (fst (SuccessWithOptions s h i), snd (SuccessWithOptions s h i))" for s h i
    by simp
  then show ?thesis
    by (simp add: case_prod_beta SuccessWithOptions_decision SuccessWithOptions_state Failure_state)
qed

text \<open>The controller clock retains the exact, saturated difference between the controller's whole
  seconds and the local clock; until saturation, applying it later maps a local instant to the
  controller's time plus the elapsed local seconds, and never touches the nanoseconds.\<close>

theorem clock_Update_Apply:
  assumes "int64_range millis" and "int64_range (fst t)" and "int64_range (fst t')"
  defines "off \<equiv> clamp64 (go_div millis 1000 - fst t)"
  shows "clock_OffsetSeconds (Some (clock_Update c millis t)) = off
    \<and> clock_Apply (Some (clock_Update c millis t)) t' = (clamp64 (fst t' + off), snd t')"
proof -
  have "\<bar>millis\<bar> div 1000 \<le> 2 ^ 63 - 1"
    using assms(1) by (auto simp: int64_defs)
  then have "\<bar>go_div millis 1000\<bar> \<le> 2 ^ 63 - 1"
    by (cases "millis = 0") (simp_all add: go_div_def abs_mult)
  then have r: "int64_range (go_div millis 1000)" by (auto simp: int64_defs abs_le_iff)
  have "int64_range off" by (simp add: off_def clamp64_def int64_defs)
  then show ?thesis
    using saturatingSubtract_exact [OF r assms(2)] saturatingAdd_exact [OF assms(3)]
    by (simp add: clock_OffsetSeconds_def clock_Apply_def clock_Update_def off_def)
qed

theorem clock_Update_Apply_witness:
  "clock_Apply (Some (clock_Update \<lparr>offsetSeconds = 0, clockSet = False\<rparr> 1700000005999 (1700000000, 7))) (1700000010, 9)
     = (1700000015, 9)"
  using clock_Update_Apply [of 1700000005999 "(1700000000, 7)" "(1700000010, 9)"]
  by (simp add: int64_defs clamp64_def go_div_def)

end
