(* ===== verification/Go_Json.thy ===== *)
theory Go_Json
  imports Go_Prelude
begin

text \<open>
  The part of \<open>unicode/utf8\<close> and \<open>encoding/json\<close> the adoption package uses: rune decoding, the
  token stream of \<open>json.Decoder.Token\<close> with its state machine, and \<open>json.Unmarshal\<close> into a
  string, a bool, an int, a list of raw messages and a map of raw messages. A
  \<open>json.RawMessage\<close> is the text of one JSON value, a \<open>string\<close>.
\<close>

section \<open>UTF-8\<close>

abbreviation cont :: "char \<Rightarrow> nat \<Rightarrow> nat \<Rightarrow> bool" where
  "cont c lo hi \<equiv> lo \<le> ord c \<and> ord c \<le> hi"

text \<open>The width of the valid rune a string starts with; 0 for an invalid or truncated encoding.\<close>

fun utf8_width :: "string \<Rightarrow> nat" where
  "utf8_width [] = 0"
| "utf8_width (a # r) =
     (if ord a < 128 then 1
      else if ord a < 194 then 0
      else if ord a < 224 then
        (case r of b # _ \<Rightarrow> if cont b 128 191 then 2 else 0 | _ \<Rightarrow> 0)
      else if ord a < 240 then
        (case r of b # c # _ \<Rightarrow>
           if cont b (if ord a = 224 then 160 else 128) (if ord a = 237 then 159 else 191)
              \<and> cont c 128 191 then 3 else 0
         | _ \<Rightarrow> 0)
      else if ord a < 245 then
        (case r of b # c # d # _ \<Rightarrow>
           if cont b (if ord a = 240 then 144 else 128) (if ord a = 244 then 143 else 191)
              \<and> cont c 128 191 \<and> cont d 128 191 then 4 else 0
         | _ \<Rightarrow> 0)
      else 0)"

text \<open>U+FFFD, the rune an invalid byte decodes to.\<close>

definition rune_error :: string where
  "rune_error = [char_of (239 :: nat), char_of (191 :: nat), char_of (189 :: nat)]"

text \<open>
  \<open>for _, r := range s\<close>: the runes of a string, each as its UTF-8 bytes; every invalid byte yields
  U+FFFD.
\<close>

function go_runes :: "string \<Rightarrow> string list" where
  "go_runes s =
     (if s = [] then []
      else if utf8_width s = 0 then rune_error # go_runes (tl s)
      else take (utf8_width s) s # go_runes (drop (utf8_width s) s))"
  by pat_completeness auto
termination
  by (relation "measure length") auto

declare go_runes.simps [simp del]

text \<open>\<open>utf8.ValidString\<close>.\<close>

function utf8_valid :: "string \<Rightarrow> bool" where
  "utf8_valid s =
     (if s = [] then True else if utf8_width s = 0 then False
      else utf8_valid (drop (utf8_width s) s))"
  by pat_completeness auto
termination
  by (relation "measure length") auto

declare utf8_valid.simps [simp del]

text \<open>The UTF-8 encoding of a code point; surrogates encode as U+FFFD.\<close>

definition utf8_encode :: "nat \<Rightarrow> string" where
  "utf8_encode n =
     (if n < 128 then [char_of n]
      else if n < 2048 then [char_of (192 + n div 64), char_of (128 + n mod 64)]
      else if 55296 \<le> n \<and> n \<le> 57343 \<or> n > 1114111 then rune_error
      else if n < 65536 then
        [char_of (224 + n div 4096), char_of (128 + n div 64 mod 64), char_of (128 + n mod 64)]
      else [char_of (240 + n div 262144), char_of (128 + n div 4096 mod 64),
            char_of (128 + n div 64 mod 64), char_of (128 + n mod 64)])"

section \<open>Scalars\<close>

datatype json_token = JDelim char | JStr string | JNum string | JBool bool | JNull

definition json_space :: "char \<Rightarrow> bool" where
  "json_space c \<longleftrightarrow> ord c \<in> {9, 10, 13, 32}"

text \<open>Four hexadecimal digits after \<open>\u\<close>.\<close>

fun hex4 :: "string \<Rightarrow> nat option" where
  "hex4 (a # b # c # d # _) =
     (case (hex_value a, hex_value b, hex_value c, hex_value d) of
        (Some w, Some x, Some y, Some z) \<Rightarrow> Some (4096 * w + 256 * x + 16 * y + z)
      | _ \<Rightarrow> None)"
| "hex4 _ = None"

definition simple_escape :: "char \<Rightarrow> string option" where
  "simple_escape c =
     (if c = CHR ''\"'' \<or> c = CHR 0x5C \<or> c = CHR ''/'' then Some [c]
      else if c = CHR ''b'' then Some [CHR 0x08]
      else if c = CHR ''f'' then Some [CHR 0x0C]
      else if c = CHR ''n'' then Some [CHR 0x0A]
      else if c = CHR ''r'' then Some [CHR 0x0D]
      else if c = CHR ''t'' then Some [CHR 0x09]
      else None)"

text \<open>
  One step through a string literal after its opening quote: the closing quote, or a decoded piece
  with the number of bytes it took. Control bytes and bad escapes are syntax errors; an unpaired
  surrogate and an invalid UTF-8 byte decode to U+FFFD.
\<close>

datatype string_chunk = ChunkError | ChunkEnd | Chunk string nat

definition is_low_surrogate :: "nat option \<Rightarrow> bool" where
  "is_low_surrogate v = (case v of Some n \<Rightarrow> 56320 \<le> n \<and> n \<le> 57343 | None \<Rightarrow> False)"

definition unicode_escape :: "string \<Rightarrow> string_chunk" where
  "unicode_escape r =
     (case hex4 r of
        None \<Rightarrow> ChunkError
      | Some u \<Rightarrow>
          (let low = (if take 2 (drop 4 r) = [CHR 0x5C, CHR ''u''] then hex4 (drop 6 r) else None) in
           if 55296 \<le> u \<and> u \<le> 56319 \<and> is_low_surrogate low
           then Chunk (utf8_encode (65536 + 1024 * (u - 55296) + (the low - 56320))) 12
           else Chunk (utf8_encode u) 6))"

fun next_chunk :: "string \<Rightarrow> string_chunk" where
  "next_chunk [] = ChunkError"
| "next_chunk (c # r) =
     (if c = CHR ''\"'' then ChunkEnd
      else if ord c < 32 then ChunkError
      else if c = CHR 0x5C then
        (case r of
           [] \<Rightarrow> ChunkError
         | e # r1 \<Rightarrow>
             (if e = CHR ''u'' then unicode_escape r1
              else (case simple_escape e of None \<Rightarrow> ChunkError | Some x \<Rightarrow> Chunk x 2)))
      else if utf8_width (c # r) = 0 then Chunk rune_error 1
      else Chunk (take (utf8_width (c # r)) (c # r)) (utf8_width (c # r)))"

lemma unicode_escape_pos: "unicode_escape r = Chunk t n \<Longrightarrow> 0 < n"
  by (auto simp: unicode_escape_def Let_def split: option.splits if_splits)

lemma next_chunk_pos:
  assumes "next_chunk s = Chunk t n"
  shows "0 < n \<and> s \<noteq> []"
proof (cases s)
  case (Cons c r)
  show ?thesis
  proof (cases "c = CHR 0x5C")
    case True
    show ?thesis
    proof (cases r)
      case (Cons e r1)
      then show ?thesis using assms \<open>s = c # r\<close> True unicode_escape_pos [of r1 t n]
        by (cases "simple_escape e") (simp_all split: if_splits)
    qed (use assms Cons True in simp)
  qed (use assms Cons in \<open>auto split: if_splits\<close>)
qed (use assms in simp)

text \<open>A string literal after its opening quote: the decoded text and the rest of the input.\<close>

function scan_string :: "string \<Rightarrow> (string \<times> string) option" where
  "scan_string s =
     (case next_chunk s of
        ChunkError \<Rightarrow> None
      | ChunkEnd \<Rightarrow> Some ([], tl s)
      | Chunk t n \<Rightarrow>
          (case scan_string (drop n s) of
             None \<Rightarrow> None
           | Some (t', rest) \<Rightarrow> Some (t @ t', rest)))"
  by pat_completeness auto
termination
  by (relation "measure length") (auto dest: next_chunk_pos)

declare scan_string.simps [simp del]

lemma scan_string_length: "scan_string s = Some (t, rest) \<Longrightarrow> length rest \<le> length s"
proof (induction s arbitrary: t rest rule: scan_string.induct)
  case (1 s)
  then show ?case
    by (fastforce simp: scan_string.simps [of s] split: string_chunk.splits option.splits)
qed

text \<open>
  A number, by the scanner's states: an optional minus, an integer part without leading zeros, an
  optional fraction and an optional exponent. The literal and the rest of the input.
\<close>

definition span_digits :: "string \<Rightarrow> string \<times> string" where
  "span_digits s = (takeWhile is_digit s, dropWhile is_digit s)"

definition scan_exponent :: "string \<Rightarrow> (string \<times> string) option" where
  "scan_exponent s =
     (case s of
        e # r \<Rightarrow>
          (if e = CHR ''e'' \<or> e = CHR ''E'' then
             (let sg = (case r of c # _ \<Rightarrow> if c = CHR ''+'' \<or> c = CHR ''-'' then [c] else [] | [] \<Rightarrow> []);
                  (ds, rest) = span_digits (drop (length sg) r)
              in if ds = [] then None else Some (e # sg @ ds, rest))
           else Some ([], s))
      | [] \<Rightarrow> Some ([], []))"

definition scan_fraction :: "string \<Rightarrow> (string \<times> string) option" where
  "scan_fraction s =
     (case s of
        c # r \<Rightarrow>
          (if c = CHR ''.'' then
             (let (ds, rest) = span_digits r in
              if ds = [] then None else Some (c # ds, rest))
           else Some ([], s))
      | [] \<Rightarrow> Some ([], []))"

definition scan_number :: "string \<Rightarrow> (string \<times> string) option" where
  "scan_number s =
     (let sg = (if s \<noteq> [] \<and> hd s = CHR ''-'' then [CHR ''-''] else []);
          body = drop (length sg) s
      in case body of
           [] \<Rightarrow> None
         | d # r \<Rightarrow>
             (if \<not> is_digit d then None
              else let (ip, r1) = (if d = CHR ''0'' then ([d], r) else span_digits body) in
                (case scan_fraction r1 of
                   None \<Rightarrow> None
                 | Some (fp, r2) \<Rightarrow>
                     (case scan_exponent r2 of
                        None \<Rightarrow> None
                      | Some (ep, r3) \<Rightarrow> Some (sg @ ip @ fp @ ep, r3)))))"

lemma span_digits_length: "span_digits s = (a, b) \<Longrightarrow> length b \<le> length s"
  by (auto simp: span_digits_def length_dropWhile_le)

lemma scan_fraction_length: "scan_fraction s = Some (a, b) \<Longrightarrow> length b \<le> length s"
  by (auto simp: scan_fraction_def Let_def split: list.splits if_splits prod.splits
      dest: span_digits_length)

lemma scan_exponent_length:
  assumes "scan_exponent s = Some (a, b)"
  shows "length b \<le> length s"
proof -
  have "length (drop n r) \<le> length r" for n and r :: string by simp
  then show ?thesis
    using assms
    by (fastforce simp: scan_exponent_def Let_def split: list.splits if_splits prod.splits
        dest!: span_digits_length)
qed

lemma scan_number_length:
  assumes "scan_number s = Some (a, b)"
  shows "length b < length s"
proof -
  define sg where "sg = (if s \<noteq> [] \<and> hd s = CHR ''-'' then [CHR ''-''] else [])"
  define body where "body = drop (length sg) s"
  obtain d r where body: "body = d # r" and d: "is_digit d"
    using assms unfolding scan_number_def Let_def sg_def [symmetric] body_def [symmetric]
    by (auto split: list.splits if_splits)
  obtain ip r1 where ip: "(if d = CHR ''0'' then ([d], r) else span_digits body) = (ip, r1)" by fastforce
  have "length r1 \<le> length r"
    using ip d by (auto simp: span_digits_def body length_dropWhile_le split: if_splits)
  moreover obtain fp r2 where "scan_fraction r1 = Some (fp, r2)" and
      "\<exists>ep. scan_exponent r2 = Some (ep, b)"
    using assms unfolding scan_number_def Let_def sg_def [symmetric] body_def [symmetric]
    using body d ip by (auto split: list.splits if_splits option.splits prod.splits)
  ultimately have "length b \<le> length r"
    using scan_fraction_length scan_exponent_length by fastforce
  also have "length r < length body" by (simp add: body)
  also have "length body \<le> length s" by (simp add: body_def)
  finally show ?thesis .
qed

text \<open>
  \<open>dec.Decode(&x)\<close> on a scalar: a string, a number or a literal, and the rest of the input.
\<close>

definition scan_scalar :: "string \<Rightarrow> (json_token \<times> string) option" where
  "scan_scalar s =
     (case s of
        [] \<Rightarrow> None
      | c # r \<Rightarrow>
          (if c = CHR ''\"'' then map_option (\<lambda>(t, rest). (JStr t, rest)) (scan_string r)
           else if c = CHR ''-'' \<or> is_digit c then map_option (\<lambda>(t, rest). (JNum t, rest)) (scan_number s)
           else if has_prefix s ''true'' then Some (JBool True, drop 4 s)
           else if has_prefix s ''false'' then Some (JBool False, drop 5 s)
           else if has_prefix s ''null'' then Some (JNull, drop 4 s)
           else None))"

lemma scan_scalar_length: "scan_scalar s = Some (t, rest) \<Longrightarrow> length rest < length s"
  by (cases s)
    (auto simp: scan_scalar_def split: if_splits dest!: scan_number_length dest: scan_string_length
      simp: le_imp_less_Suc less_Suc_eq_le)

section \<open>The token stream of \<open>json.Decoder\<close>\<close>

datatype tok_state =
    TopValue | ArrayStart | ArrayValue | ArrayComma
  | ObjectStart | ObjectKey | ObjectColon | ObjectValue | ObjectComma

text \<open>What ends the stream: the end of the input, or a syntax error.\<close>

datatype tok_end = TokEOF | TokError

fun tokenValueAllowed :: "tok_state \<Rightarrow> bool" where
  "tokenValueAllowed TopValue = True"
| "tokenValueAllowed ArrayStart = True"
| "tokenValueAllowed ArrayValue = True"
| "tokenValueAllowed ObjectValue = True"
| "tokenValueAllowed _ = False"

fun tokenValueEnd :: "tok_state \<Rightarrow> tok_state" where
  "tokenValueEnd ArrayStart = ArrayComma"
| "tokenValueEnd ArrayValue = ArrayComma"
| "tokenValueEnd ObjectValue = ObjectComma"
| "tokenValueEnd st = st"

text \<open>
  A token is listed with the input from its first byte on and the input after its last byte, so
  that the text of a value can be cut out of the document.
\<close>

type_synonym json_item = "json_token \<times> string \<times> string"

datatype tok_action =
    ActError
  | ActSkip tok_state
  | ActToken json_token string tok_state "tok_state list"

text \<open>One round of the loop in \<open>Decoder.Token\<close>, at a non-space byte.\<close>

definition token_action :: "tok_state \<Rightarrow> tok_state list \<Rightarrow> string \<Rightarrow> tok_action" where
  "token_action st stack s =
     (case s of
        [] \<Rightarrow> ActError
      | c # r \<Rightarrow>
          (if c = CHR ''['' \<or> c = CHR ''{'' then
             (if tokenValueAllowed st
              then ActToken (JDelim c) r (if c = CHR ''['' then ArrayStart else ObjectStart) (st # stack)
              else ActError)
           else if c = CHR '']'' \<or> c = CHR ''}'' then
             (if (if c = CHR '']'' then st = ArrayStart \<or> st = ArrayComma
                  else st = ObjectStart \<or> st = ObjectComma)
              then (case stack of
                      [] \<Rightarrow> ActError
                    | old # stack' \<Rightarrow> ActToken (JDelim c) r (tokenValueEnd old) stack')
              else ActError)
           else if c = CHR '':'' then
             (if st = ObjectColon then ActSkip ObjectValue else ActError)
           else if c = CHR '','' then
             (if st = ArrayComma then ActSkip ArrayValue
              else if st = ObjectComma then ActSkip ObjectKey
              else ActError)
           else if c = CHR ''\"'' \<and> (st = ObjectStart \<or> st = ObjectKey) then
             (case scan_string r of
                None \<Rightarrow> ActError
              | Some (t, rest) \<Rightarrow> ActToken (JStr t) rest ObjectColon stack)
           else if tokenValueAllowed st then
             (case scan_scalar s of
                None \<Rightarrow> ActError
              | Some (t, rest) \<Rightarrow> ActToken t rest (tokenValueEnd st) stack)
           else ActError))"

lemma token_action_length:
  "token_action st stack s = ActToken t rest st' stack' \<Longrightarrow> length rest < length s"
  "token_action st stack s = ActSkip st' \<Longrightarrow> s \<noteq> []"
  by (auto simp: token_action_def split: list.splits if_splits option.splits
      dest: scan_scalar_length scan_string_length)

function json_tokens :: "tok_state \<Rightarrow> tok_state list \<Rightarrow> string \<Rightarrow> json_item list \<times> tok_end" where
  "json_tokens st stack s =
     (if s = [] then ([], TokEOF)
      else if json_space (hd s) then json_tokens st stack (tl s)
      else (case token_action st stack s of
              ActError \<Rightarrow> ([], TokError)
            | ActSkip st' \<Rightarrow> json_tokens st' stack (tl s)
            | ActToken t rest st' stack' \<Rightarrow>
                (case json_tokens st' stack' rest of (ts, e) \<Rightarrow> ((t, s, rest) # ts, e))))"
  by pat_completeness auto
termination
  by (relation "measure (\<lambda>(st, stack, s). length s)") (auto dest: token_action_length)

declare json_tokens.simps [simp del]

abbreviation json_stream :: "string \<Rightarrow> json_item list \<times> tok_end" where
  "json_stream s \<equiv> json_tokens TopValue [] s"

section \<open>\<open>json.Unmarshal\<close>\<close>

definition is_open :: "json_token \<Rightarrow> bool" where
  "is_open t \<longleftrightarrow> t = JDelim CHR ''['' \<or> t = JDelim CHR ''{''"

definition is_close :: "json_token \<Rightarrow> bool" where
  "is_close t \<longleftrightarrow> t = JDelim CHR '']'' \<or> t = JDelim CHR ''}''"

text \<open>The tokens of the value a token list starts with, at nesting depth \<open>d\<close>, and what follows.\<close>

fun take_value :: "nat \<Rightarrow> json_item list \<Rightarrow> (json_item list \<times> json_item list) option" where
  "take_value d [] = None"
| "take_value d (i # is) =
     (let d' = (if is_open (fst i) then d + 1 else if is_close (fst i) then d - 1 else d) in
      if d' = 0 then Some ([i], is)
      else map_option (\<lambda>(v, rest). (i # v, rest)) (take_value d' is))"

lemma take_value_split: "take_value d is = Some (v, rest) \<Longrightarrow> is = v @ rest \<and> v \<noteq> []"
  by (induction d "is" arbitrary: v rest rule: take_value.induct)
    (auto simp: Let_def split: if_splits)

lemma take_value_length: "take_value d is = Some (v, rest) \<Longrightarrow> length rest < length is"
  using take_value_split by fastforce

definition value_text :: "json_item list \<Rightarrow> string" where
  "value_text v =
     (case v of
        [] \<Rightarrow> []
      | (t, bef, aft) # _ \<Rightarrow> take (length bef - length (snd (snd (last v)))) bef)"

text \<open>The tokens of a text that is exactly one JSON value.\<close>

definition json_value :: "string \<Rightarrow> json_item list option" where
  "json_value raw =
     (case json_stream raw of
        (ts, TokEOF) \<Rightarrow> (case take_value 0 ts of Some (v, []) \<Rightarrow> Some v | _ \<Rightarrow> None)
      | (ts, TokError) \<Rightarrow> None)"

function array_values :: "json_item list \<Rightarrow> json_item list list" where
  "array_values is =
     (if is = [] \<or> is_close (fst (hd is)) then []
      else (case take_value 0 is of None \<Rightarrow> [] | Some (v, rest) \<Rightarrow> v # array_values rest))"
  by pat_completeness auto
termination
  by (relation "measure length") (auto dest: take_value_length)

function object_members :: "json_item list \<Rightarrow> (string \<times> json_item list) list" where
  "object_members is =
     (case is of
        (JStr k, _, _) # rest \<Rightarrow>
          (case take_value 0 rest of
             None \<Rightarrow> []
           | Some (v, rest') \<Rightarrow> (k, v) # object_members rest')
      | _ \<Rightarrow> [])"
  by pat_completeness auto
termination
  by (relation "measure length") (auto dest: take_value_length)

declare array_values.simps [simp del] object_members.simps [simp del]

text \<open>
  Decoding into a variable of the given type; \<open>None\<close> is an error. JSON \<open>null\<close> leaves the variable
  at its zero value without an error.
\<close>

definition unmarshal_string :: "string \<Rightarrow> string option" where
  "unmarshal_string raw =
     (case json_value raw of
        Some [(JStr t, _, _)] \<Rightarrow> Some t
      | Some [(JNull, _, _)] \<Rightarrow> Some []
      | _ \<Rightarrow> None)"

text \<open>Into a \<open>*string\<close>: \<open>Some None\<close> is a nil pointer.\<close>

definition unmarshal_string_ptr :: "string \<Rightarrow> string option option" where
  "unmarshal_string_ptr raw =
     (case json_value raw of
        Some [(JStr t, _, _)] \<Rightarrow> Some (Some t)
      | Some [(JNull, _, _)] \<Rightarrow> Some None
      | _ \<Rightarrow> None)"

definition unmarshal_bool :: "string \<Rightarrow> bool option" where
  "unmarshal_bool raw =
     (case json_value raw of
        Some [(JBool b, _, _)] \<Rightarrow> Some b
      | Some [(JNull, _, _)] \<Rightarrow> Some False
      | _ \<Rightarrow> None)"

definition unmarshal_int :: "string \<Rightarrow> int option" where
  "unmarshal_int raw =
     (case json_value raw of
        Some [(JNum t, _, _)] \<Rightarrow> (case parse_int64 t of ParsedInt v \<Rightarrow> Some v | _ \<Rightarrow> None)
      | Some [(JNull, _, _)] \<Rightarrow> Some 0
      | _ \<Rightarrow> None)"

definition unmarshal_raw_list :: "string \<Rightarrow> string list option" where
  "unmarshal_raw_list raw =
     (case json_value raw of
        Some ((t, _, _) # is) \<Rightarrow>
          (if t = JDelim CHR ''['' then Some (map value_text (array_values is))
           else if t = JNull then Some [] else None)
      | _ \<Rightarrow> None)"

text \<open>Into a \<open>map[string]json.RawMessage\<close>: \<open>Some None\<close> is a nil map; a repeated key keeps its last value.\<close>

definition unmarshal_raw_map :: "string \<Rightarrow> (string \<rightharpoonup> string) option option" where
  "unmarshal_raw_map raw =
     (case json_value raw of
        Some ((t, _, _) # is) \<Rightarrow>
          (if t = JDelim CHR ''{''
           then Some (Some (map_of (rev (map (\<lambda>(k, v). (k, value_text v)) (object_members is)))))
           else if t = JNull then Some None else None)
      | _ \<Rightarrow> None)"

text \<open>Evaluation of the decoder on a concrete document.\<close>

lemmas json_eval [go_simps] = json_tokens.simps token_action_def scan_string.simps scan_scalar_def
  json_space_def unicode_escape_def simple_escape_def is_open_def is_close_def scan_number_def
  span_digits_def scan_fraction_def scan_exponent_def is_digit_def has_prefix_def json_value_def
  value_text_def unmarshal_string_def unmarshal_string_ptr_def unmarshal_bool_def unmarshal_int_def

lemma unmarshal_int_range: "unmarshal_int raw = Some v \<Longrightarrow> int64_range v"
  by (auto simp: unmarshal_int_def int64_defs split: option.splits list.splits prod.splits
      json_token.splits parse_int_result.splits dest!: parse_int64_range)

end
