(* ===== verification/Go_Net.thy ===== *)
theory Go_Net
  imports Go_Prelude
begin

text \<open>
  The part of \<open>net\<close>, \<open>net/netip\<close> and \<open>net/url\<close> the modelled packages use: hardware addresses,
  textual IP addresses and \<open>url.Parse\<close>. A hardware or IP address is its byte sequence. The URL
  parser follows the Go release named in \<open>go.mod\<close>, whose hosts admit a single colon and whose
  bracketed hosts are IPv6 addresses.
\<close>

section \<open>Hardware addresses\<close>

text \<open>\<open>xtoi2(s, e)\<close>: two hexadecimal digits, followed by the end of the text or by \<open>e\<close>.\<close>

fun xtoi2 :: "string \<Rightarrow> char option \<Rightarrow> byte option" where
  "xtoi2 (a # b # r) e =
     (if r \<noteq> [] \<and> Some (hd r) \<noteq> e then None
      else (case (hex_value a, hex_value b) of
              (Some x, Some y) \<Rightarrow> Some (of_nat (16 * x + y))
            | _ \<Rightarrow> None))"
| "xtoi2 _ e = None"

fun mac_groups :: "nat \<Rightarrow> char \<Rightarrow> string \<Rightarrow> bytes option" where
  "mac_groups 0 e s = Some []"
| "mac_groups (Suc n) e s =
     (case xtoi2 s (Some e) of
        None \<Rightarrow> None
      | Some b \<Rightarrow> map_option (\<lambda>bs. b # bs) (mac_groups n e (drop 3 s)))"

fun mac_dot_groups :: "nat \<Rightarrow> char \<Rightarrow> string \<Rightarrow> bytes option" where
  "mac_dot_groups 0 e s = Some []"
| "mac_dot_groups (Suc n) e s =
     (case (xtoi2 (take 2 s) None, xtoi2 (drop 2 s) (Some e)) of
        (Some a, Some b) \<Rightarrow> map_option (\<lambda>bs. a # b # bs) (mac_dot_groups n e (drop 5 s))
      | _ \<Rightarrow> None)"

definition ParseMAC :: "string \<Rightarrow> bytes option" where
  "ParseMAC s =
     (if length s < 14 then None
      else if s ! 2 = CHR '':'' \<or> s ! 2 = CHR ''-'' then
        (let n = (length s + 1) div 3 in
         if (length s + 1) mod 3 \<noteq> 0 \<or> n \<notin> {6, 8, 20} then None else mac_groups n (s ! 2) s)
      else if s ! 4 = CHR ''.'' then
        (let n = 2 * (length s + 1) div 5 in
         if (length s + 1) mod 5 \<noteq> 0 \<or> n \<notin> {6, 8, 20} then None else mac_dot_groups (n div 2) (s ! 4) s)
      else None)"

definition mac_hex :: "byte \<Rightarrow> string" where
  "mac_hex b = [hex_digit (unat b div 16), hex_digit (unat b mod 16)]"

text \<open>\<open>HardwareAddr.String\<close>.\<close>

definition mac_string :: "bytes \<Rightarrow> string" where
  "mac_string mac = go_join '':'' (map mac_hex mac)"

lemma length_mac_groups: "mac_groups n e s = Some bs \<Longrightarrow> length bs = n"
  by (induction n arbitrary: s bs) (auto split: option.splits)

lemma length_mac_dot_groups: "mac_dot_groups n e s = Some bs \<Longrightarrow> length bs = 2 * n"
  by (induction n arbitrary: s bs) (auto split: option.splits)

lemma ParseMAC_length: "ParseMAC s = Some bs \<Longrightarrow> length bs \<in> {6, 8, 20}"
  by (auto simp: ParseMAC_def Let_def split: if_splits
      dest!: length_mac_groups length_mac_dot_groups)

lemma byte_nibbles [simp]: "unat (b :: byte) div 16 < 16" "of_nat (16 * (unat b div 16) + unat b mod 16) = b"
proof -
  have "unat b < 2 ^ LENGTH(8)" by (rule unsigned_less)
  then show "unat b div 16 < 16" by simp
  have "16 * (unat b div 16) + unat b mod 16 = unat b" by simp
  then show "of_nat (16 * (unat b div 16) + unat b mod 16) = b" by (simp only:) simp
qed

lemma xtoi2_mac_hex:
  "xtoi2 (mac_hex b) e = Some b"
  "xtoi2 (mac_hex b @ c # r) (Some c) = Some b"
  using byte_nibbles [of b] by (simp_all add: mac_hex_def)

lemma mac_groups_string: "mac_groups (length mac) CHR '':'' (mac_string mac) = Some mac"
proof (induction mac)
  case (Cons b bs)
  show ?case
  proof (cases bs)
    case Nil
    then show ?thesis by (simp add: mac_string_def xtoi2_mac_hex)
  next
    case (Cons c cs)
    then have "mac_string (b # bs) = mac_hex b @ CHR '':'' # mac_string bs" by (simp add: mac_string_def)
    moreover have "drop 3 (mac_hex b @ CHR '':'' # mac_string bs) = mac_string bs"
      by (simp add: mac_hex_def)
    ultimately show ?thesis using Cons.IH by (simp only: length_Cons mac_groups.simps) (simp add: xtoi2_mac_hex)
  qed
qed simp

section \<open>IP addresses\<close>

text \<open>\<open>parseIPv4\<close>: four decimal octets without leading zeros.\<close>

definition ipv4_octet :: "string \<Rightarrow> byte option" where
  "ipv4_octet s =
     (if s = [] \<or> length s > 3 \<or> \<not> list_all is_digit s then None
      else if length s > 1 \<and> hd s = CHR ''0'' then None
      else if digits_value s > 255 then None
      else Some (of_nat (digits_value s)))"

definition parse_ipv4 :: "string \<Rightarrow> bytes option" where
  "parse_ipv4 s =
     (case go_split CHR ''.'' s of
        [a, b, c, d] \<Rightarrow>
          (case (ipv4_octet a, ipv4_octet b, ipv4_octet c, ipv4_octet d) of
             (Some w, Some x, Some y, Some z) \<Rightarrow> Some [w, x, y, z]
           | _ \<Rightarrow> None)
      | _ \<Rightarrow> None)"

definition is_hex :: "char \<Rightarrow> bool" where
  "is_hex c \<longleftrightarrow> hex_value c \<noteq> None"

definition hex_group :: "string \<Rightarrow> nat" where
  "hex_group s = foldl (\<lambda>v c. 16 * v + the (hex_value c)) 0 s"

text \<open>
  The loop of \<open>parseIPv6\<close>: \<open>n\<close> groups may still be read, \<open>acc\<close> holds the bytes read so far and
  \<open>ell\<close> the position of the ellipsis. The result is the bytes read and the ellipsis.
\<close>

fun ipv6_groups :: "nat \<Rightarrow> nat option \<Rightarrow> bytes \<Rightarrow> string \<Rightarrow> (bytes \<times> nat option) option" where
  "ipv6_groups 0 ell acc s = (if s = [] then Some (acc, ell) else None)"
| "ipv6_groups (Suc n) ell acc s =
     (let ds = takeWhile is_hex s; rest = drop (length ds) s in
      if ds = [] \<or> length ds > 4 then None
      else if rest \<noteq> [] \<and> hd rest = CHR ''.'' then
        (if ell = None \<and> length acc \<noteq> 12 \<or> length acc + 4 > 16 then None
         else map_option (\<lambda>v4. (acc @ v4, ell)) (parse_ipv4 s))
      else
        (let acc' = acc @ [of_nat (hex_group ds div 256), of_nat (hex_group ds mod 256)] in
         if rest = [] then Some (acc', ell)
         else if hd rest \<noteq> CHR '':'' \<or> tl rest = [] then None
         else if hd (tl rest) = CHR '':'' then
           (if ell \<noteq> None then None
            else if tl (tl rest) = [] then Some (acc', Some (length acc'))
            else ipv6_groups n (Some (length acc')) acc' (tl (tl rest)))
         else ipv6_groups n ell acc' (tl rest)))"

definition ipv6_expand :: "bytes \<times> nat option \<Rightarrow> bytes option" where
  "ipv6_expand r =
     (case r of
        (acc, None) \<Rightarrow> if length acc < 16 then None else Some acc
      | (acc, Some e) \<Rightarrow>
          if length acc < 16 then Some (take e acc @ replicate (16 - length acc) 0 @ drop e acc) else None)"

definition parse_ipv6 :: "string \<Rightarrow> bytes option" where
  "parse_ipv6 s =
     (if take 2 s = ''::'' then
        (if drop 2 s = [] then Some (replicate 16 0)
         else Option.bind (ipv6_groups 8 (Some 0) [] (drop 2 s)) ipv6_expand)
      else Option.bind (ipv6_groups 8 None [] s) ipv6_expand)"

text \<open>\<open>netip.ParseAddr\<close>: the address and its zone; the first of \<open>.\<close>, \<open>:\<close> and \<open>%\<close> selects the form.\<close>

definition ParseAddr :: "string \<Rightarrow> (bytes \<times> string) option" where
  "ParseAddr s =
     (case dropWhile (\<lambda>c. c \<notin> {CHR ''.'', CHR '':'', CHR ''%''}) s of
        [] \<Rightarrow> None
      | c # _ \<Rightarrow>
          if c = CHR ''.'' then map_option (\<lambda>a. (a, [])) (parse_ipv4 s)
          else if c = CHR '':'' then
            (case go_cut CHR ''%'' s of
               None \<Rightarrow> map_option (\<lambda>a. (a, [])) (parse_ipv6 s)
             | Some (a, zone) \<Rightarrow> if zone = [] then None else map_option (\<lambda>b. (b, zone)) (parse_ipv6 a))
          else None)"

definition v4InV6Prefix :: bytes where
  "v4InV6Prefix = replicate 10 0 @ [255, 255]"

text \<open>\<open>net.ParseIP\<close>: always 16 bytes; \<open>None\<close> is the nil result.\<close>

definition ParseIP :: "string \<Rightarrow> bytes option" where
  "ParseIP s =
     (case ParseAddr s of
        Some (a, zone) \<Rightarrow>
          (if zone \<noteq> [] then None else if length a = 4 then Some (v4InV6Prefix @ a) else Some a)
      | None \<Rightarrow> None)"

text \<open>\<open>IP.To4\<close>.\<close>

definition To4 :: "bytes \<Rightarrow> bytes option" where
  "To4 ip =
     (if length ip = 4 then Some ip
      else if length ip = 16 \<and> take 12 ip = v4InV6Prefix then Some (drop 12 ip)
      else None)"

definition ipv4_string :: "bytes \<Rightarrow> string" where
  "ipv4_string ip = go_join ''.'' (map (\<lambda>b. nat_itoa (unat b)) ip)"

lemma parse_ipv4_length: "parse_ipv4 s = Some bs \<Longrightarrow> length bs = 4"
  by (auto simp: parse_ipv4_def split: list.splits option.splits prod.splits)

section \<open>URLs\<close>

record url =
  urlScheme :: string
  urlOpaque :: string
  urlUser :: bool
  urlHost :: string
  urlPath :: string
  urlForceQuery :: bool
  urlRawQuery :: string
  urlFragment :: string

datatype escape_mode = EncodePath | EncodeHost | EncodeZone | EncodeUserPassword | EncodeFragment

definition is_alnum :: "char \<Rightarrow> bool" where
  "is_alnum c \<longleftrightarrow> is_digit c \<or> 65 \<le> ord c \<and> ord c \<le> 90 \<or> 97 \<le> ord c \<and> ord c \<le> 122"

text \<open>\<open>shouldEscape(c, encodeHost)\<close>, which \<open>encodeZone\<close> shares.\<close>

definition shouldEscapeHost :: "char \<Rightarrow> bool" where
  "shouldEscapeHost c \<longleftrightarrow> \<not> is_alnum c \<and> c \<notin> set ''!$&()*+,;=:[]<>-_.~'' \<and> c \<noteq> CHR 0x27 \<and> c \<noteq> CHR 0x22"

definition escape_byte :: "char \<Rightarrow> char \<Rightarrow> char" where
  "escape_byte a b = char_of (16 * the (hex_value a) + the (hex_value b))"

definition escape_refused :: "escape_mode \<Rightarrow> char \<Rightarrow> char \<Rightarrow> bool" where
  "escape_refused mode a b \<longleftrightarrow>
     [a, b] \<noteq> ''25'' \<and>
     (mode = EncodeHost \<and> the (hex_value a) < 8 \<or>
      mode = EncodeZone \<and> escape_byte a b \<noteq> CHR '' '' \<and> shouldEscapeHost (escape_byte a b))"

definition raw_refused :: "escape_mode \<Rightarrow> char \<Rightarrow> bool" where
  "raw_refused mode c \<longleftrightarrow> (mode = EncodeHost \<or> mode = EncodeZone) \<and> ord c < 128 \<and> shouldEscapeHost c"

fun unescape :: "escape_mode \<Rightarrow> string \<Rightarrow> string option" where
  "unescape mode [] = Some []"
| "unescape mode (c # r) =
     (if c = CHR ''%'' then
        (case r of
           a # b # r' \<Rightarrow>
             (if \<not> is_hex a \<or> \<not> is_hex b \<or> escape_refused mode a b then None
              else map_option (\<lambda>t. escape_byte a b # t) (unescape mode r'))
         | _ \<Rightarrow> None)
      else if raw_refused mode c then None
      else map_option (\<lambda>t. c # t) (unescape mode r))"

text \<open>\<open>getScheme\<close>: the scheme and the rest; \<open>None\<close> for a missing protocol scheme.\<close>

fun scheme_scan :: "string \<Rightarrow> string \<Rightarrow> (string \<times> string) option" where
  "scheme_scan acc [] = None"
| "scheme_scan acc (c # r) =
     (if 65 \<le> ord c \<and> ord c \<le> 90 \<or> 97 \<le> ord c \<and> ord c \<le> 122 then scheme_scan (acc @ [c]) r
      else if is_digit c \<or> c \<in> set ''+-.'' then (if acc = [] then None else scheme_scan (acc @ [c]) r)
      else if c = CHR '':'' then Some (acc, r)
      else None)"

definition getScheme :: "string \<Rightarrow> (string \<times> string) option" where
  "getScheme s =
     (case scheme_scan [] s of
        None \<Rightarrow> Some ([], s)
      | Some (sch, r) \<Rightarrow> if sch = [] then None else Some (sch, r))"

text \<open>\<open>strings.LastIndex(s, c)\<close> as a split around the last occurrence.\<close>

definition cut_last :: "char \<Rightarrow> string \<Rightarrow> (string \<times> string) option" where
  "cut_last c s = map_option (\<lambda>(b, a). (rev a, rev b)) (go_cut c (rev s))"

definition validOptionalPort :: "string \<Rightarrow> bool" where
  "validOptionalPort p \<longleftrightarrow> p = [] \<or> hd p = CHR '':'' \<and> list_all is_digit (tl p)"

definition validUserinfo :: "string \<Rightarrow> bool" where
  "validUserinfo s \<longleftrightarrow> list_all (\<lambda>c. is_alnum c \<or> c \<in> set ''-._:~!$&()*+,;=%@'' \<or> c = CHR 0x27) s"

fun index_of :: "string \<Rightarrow> string \<Rightarrow> nat option" where
  "index_of s p =
     (if has_prefix s p then Some 0
      else (case s of [] \<Rightarrow> None | c # r \<Rightarrow> map_option Suc (index_of r p)))"

declare index_of.simps [simp del]

definition unescape_zoned :: "string \<Rightarrow> string option" where
  "unescape_zoned h =
     (case index_of h ''%25'' of
        None \<Rightarrow> unescape EncodeHost h
      | Some z \<Rightarrow>
          (case (unescape EncodeHost (take z h), unescape EncodeZone (drop z h)) of
             (Some a, Some b) \<Rightarrow> Some (a @ b)
           | _ \<Rightarrow> None))"

definition parseHost :: "string \<Rightarrow> string option" where
  "parseHost host =
     (if host \<noteq> [] \<and> CHR ''['' \<in> set (tl host) then None
      else if host \<noteq> [] \<and> hd host = CHR ''['' then
        (case cut_last CHR '']'' host of
           None \<Rightarrow> None
         | Some (inner, colonPort) \<Rightarrow>
             (if \<not> validOptionalPort colonPort then None
              else (case (unescape EncodeHost colonPort, unescape_zoned (tl inner)) of
                      (Some p, Some h) \<Rightarrow>
                        (case ParseAddr h of
                           Some (a, zone) \<Rightarrow>
                             if length a = 4 then None else Some (''['' @ h @ '']'' @ p)
                         | None \<Rightarrow> None)
                    | _ \<Rightarrow> None)))
      else (case go_cut CHR '':'' host of
              None \<Rightarrow> unescape EncodeHost host
            | Some (a, port) \<Rightarrow>
                if validOptionalPort (CHR '':'' # port) then unescape EncodeHost host else None))"

text \<open>\<open>parseAuthority\<close>: whether there is user information, and the host.\<close>

definition parseAuthority :: "string \<Rightarrow> (bool \<times> string) option" where
  "parseAuthority authority =
     (case cut_last CHR ''@'' authority of
        None \<Rightarrow> map_option (\<lambda>h. (False, h)) (parseHost authority)
      | Some (userinfo, host) \<Rightarrow>
          (case parseHost host of
             None \<Rightarrow> None
           | Some h \<Rightarrow>
               (if \<not> validUserinfo userinfo then None
                else (case go_cut CHR '':'' userinfo of
                        None \<Rightarrow> map_option (\<lambda>_. (True, h)) (unescape EncodeUserPassword userinfo)
                      | Some (name, password) \<Rightarrow>
                          (case (unescape EncodeUserPassword name, unescape EncodeUserPassword password) of
                             (Some _, Some _) \<Rightarrow> Some (True, h)
                           | _ \<Rightarrow> None)))))"

definition ctl_byte :: "char \<Rightarrow> bool" where
  "ctl_byte c \<longleftrightarrow> ord c < 32 \<or> ord c = 127"

definition emptyURL :: url where
  "emptyURL = \<lparr>urlScheme = [], urlOpaque = [], urlUser = False, urlHost = [], urlPath = [],
     urlForceQuery = False, urlRawQuery = [], urlFragment = []\<rparr>"

definition split_query :: "string \<Rightarrow> string \<times> bool \<times> string" where
  "split_query rest =
     (case go_cut CHR ''?'' rest of
        None \<Rightarrow> (rest, False, [])
      | Some (a, q) \<Rightarrow> if q = [] then (a, True, []) else (a, False, q))"

definition url_path_ok :: "url \<Rightarrow> string \<Rightarrow> url option" where
  "url_path_ok u rest = map_option (\<lambda>p. u\<lparr>urlPath := p\<rparr>) (unescape EncodePath rest)"

definition parse_no_fragment :: "string \<Rightarrow> url option" where
  "parse_no_fragment raw =
     (if list_ex ctl_byte raw then None
      else if raw = ''*'' then Some (emptyURL\<lparr>urlPath := ''*''\<rparr>)
      else (case getScheme raw of
              None \<Rightarrow> None
            | Some (sch, rest0) \<Rightarrow>
                (case split_query rest0 of (rest, force, query) \<Rightarrow>
                   let u = emptyURL\<lparr>urlScheme := to_lower sch, urlForceQuery := force, urlRawQuery := query\<rparr> in
                   if \<not> has_prefix rest ''/'' \<and> sch \<noteq> [] then Some (u\<lparr>urlOpaque := rest\<rparr>)
                   else if \<not> has_prefix rest ''/'' \<and> CHR '':'' \<in> set (takeWhile (\<lambda>c. c \<noteq> CHR ''/'') rest) then None
                   else if (sch \<noteq> [] \<or> \<not> has_prefix rest ''///'') \<and> has_prefix rest ''//'' then
                     (case parseAuthority (takeWhile (\<lambda>c. c \<noteq> CHR ''/'') (drop 2 rest)) of
                        None \<Rightarrow> None
                      | Some (user, host) \<Rightarrow>
                          url_path_ok (u\<lparr>urlUser := user, urlHost := host\<rparr>)
                            (dropWhile (\<lambda>c. c \<noteq> CHR ''/'') (drop 2 rest)))
                   else url_path_ok u rest)))"

text \<open>\<open>url.Parse\<close>; \<open>None\<close> is the error.\<close>

definition url_Parse :: "string \<Rightarrow> url option" where
  "url_Parse raw =
     (case go_cut CHR ''#'' raw of
        None \<Rightarrow> parse_no_fragment raw
      | Some (u, frag) \<Rightarrow>
          (case parse_no_fragment u of
             None \<Rightarrow> None
           | Some r \<Rightarrow>
               if frag = [] then Some r
               else map_option (\<lambda>f. r\<lparr>urlFragment := f\<rparr>) (unescape EncodeFragment frag)))"

text \<open>\<open>URL.Hostname\<close>.\<close>

definition Hostname :: "url \<Rightarrow> string" where
  "Hostname u =
     (let host = (case cut_last CHR '':'' (urlHost u) of
                    None \<Rightarrow> urlHost u
                  | Some (h, port) \<Rightarrow> if validOptionalPort (CHR '':'' # port) then h else urlHost u)
      in if host \<noteq> [] \<and> hd host = CHR ''['' \<and> last host = CHR '']'' then butlast (tl host) else host)"

end
