(* ===== verification/Atomic_File.thy ===== *)
theory Atomic_File
  imports Go_Prelude
begin

text \<open>
  \<open>internal/atomicfile/write.go\<close>: replacement of a state file through a temporary file. The file
  system maps a path to a file; a file records whether its content has been flushed, because the
  content of an unflushed file is arbitrary after a crash. The outcome of every system call is part
  of the environment \<open>syscalls\<close>, so that every error return of the source is a run of the model.
  The locale \<open>replacement\<close> is what the clients of the package rely on.
\<close>

section \<open>Files and system calls\<close>

type_synonym path = string

record fs_file =
  fileData :: bytes
  fileMode :: nat
  fileSynced :: bool

type_synonym fs = "path \<rightharpoonup> fs_file"

datatype errno = EINVAL | ENOTSUP | OtherErrno

text \<open>
  What the operating system answers during one call of \<open>WriteFile\<close>. \<open>writeShort = Some n\<close> is a
  write error after \<open>n\<close> bytes; \<open>tmpName\<close> is the name \<open>os.CreateTemp\<close> picks.
\<close>

record syscalls =
  mkdirOk :: bool
  createOk :: bool
  tmpName :: path
  chmodOk :: bool
  writeShort :: "nat option"
  syncOk :: bool
  closeOk :: bool
  renameOk :: bool
  dirOpenOk :: bool
  dirSyncErr :: "errno option"

datatype write_error =
    PathRequired | MkdirError | CreateTempError | ChmodError | WriteError | SyncError | CloseError
  | RenameError | SyncDirError

text \<open>\<open>os.CreateTemp\<close> opens its file with \<open>O_EXCL\<close> under a name of its own.\<close>

definition temp_fresh :: "syscalls \<Rightarrow> fs \<Rightarrow> path \<Rightarrow> bool" where
  "temp_fresh sys fs path \<longleftrightarrow> fs (tmpName sys) = None \<and> tmpName sys \<noteq> path"

type_synonym write_step = "fs \<Rightarrow> fs \<times> write_error option"

definition upd_file :: "path \<Rightarrow> (fs_file \<Rightarrow> fs_file) \<Rightarrow> fs \<Rightarrow> fs" where
  "upd_file p f fs = fs(p := map_option f (fs p))"

definition mkdirAll :: "syscalls \<Rightarrow> write_step" where
  "mkdirAll sys fs = (fs, if mkdirOk sys then None else Some MkdirError)"

definition createTemp :: "syscalls \<Rightarrow> write_step" where
  "createTemp sys fs =
     (if createOk sys
      then (fs(tmpName sys \<mapsto> \<lparr>fileData = [], fileMode = 384, fileSynced = False\<rparr>), None)
      else (fs, Some CreateTempError))"

definition chmodTemp :: "syscalls \<Rightarrow> nat \<Rightarrow> write_step" where
  "chmodTemp sys mode fs =
     (if chmodOk sys then (upd_file (tmpName sys) (\<lambda>f. f\<lparr>fileMode := mode\<rparr>) fs, None)
      else (fs, Some ChmodError))"

definition writeTemp :: "syscalls \<Rightarrow> bytes \<Rightarrow> write_step" where
  "writeTemp sys data fs =
     (case writeShort sys of
        None \<Rightarrow> (upd_file (tmpName sys) (\<lambda>f. f\<lparr>fileData := data\<rparr>) fs, None)
      | Some n \<Rightarrow> (upd_file (tmpName sys) (\<lambda>f. f\<lparr>fileData := take n data\<rparr>) fs, Some WriteError))"

definition syncTemp :: "syscalls \<Rightarrow> write_step" where
  "syncTemp sys fs =
     (if syncOk sys then (upd_file (tmpName sys) (\<lambda>f. f\<lparr>fileSynced := True\<rparr>) fs, None)
      else (fs, Some SyncError))"

definition closeTemp :: "syscalls \<Rightarrow> write_step" where
  "closeTemp sys fs = (fs, if closeOk sys then None else Some CloseError)"

definition renameTemp :: "syscalls \<Rightarrow> path \<Rightarrow> write_step" where
  "renameTemp sys path fs =
     (if renameOk sys then (fs(path := fs (tmpName sys), tmpName sys := None), None)
      else (fs, Some RenameError))"

definition syncDirectory :: "syscalls \<Rightarrow> write_step" where
  "syncDirectory sys fs =
     (fs,
      if \<not> dirOpenOk sys then Some SyncDirError
      else (case dirSyncErr sys of
              None \<Rightarrow> None
            | Some EINVAL \<Rightarrow> None
            | Some ENOTSUP \<Rightarrow> None
            | Some OtherErrno \<Rightarrow> Some SyncDirError))"

text \<open>Steps run in order until the first error; \<open>crash_points\<close> lists the states in between.\<close>

fun run_until :: "write_step list \<Rightarrow> write_step" where
  "run_until [] fs = (fs, None)"
| "run_until (st # sts) fs =
     (case st fs of (fs', None) \<Rightarrow> run_until sts fs' | (fs', Some e) \<Rightarrow> (fs', Some e))"

fun crash_points :: "write_step list \<Rightarrow> fs \<Rightarrow> fs list" where
  "crash_points [] fs = [fs]"
| "crash_points (st # sts) fs =
     fs # (case st fs of (fs', None) \<Rightarrow> crash_points sts fs' | (fs', Some e) \<Rightarrow> [fs'])"

definition temp_steps :: "syscalls \<Rightarrow> path \<Rightarrow> bytes \<Rightarrow> nat \<Rightarrow> write_step list" where
  "temp_steps sys path data mode =
     [chmodTemp sys mode, writeTemp sys data, syncTemp sys, closeTemp sys, renameTemp sys path,
      syncDirectory sys]"

text \<open>The deferred close and removal of the temporary file run on every return after its creation.\<close>

definition WriteFile :: "syscalls \<Rightarrow> path \<Rightarrow> bytes \<Rightarrow> nat \<Rightarrow> write_step" where
  "WriteFile sys path data mode fs =
     (if path = [] then (fs, Some PathRequired)
      else (case run_until [mkdirAll sys, createTemp sys] fs of
              (fs1, Some e) \<Rightarrow> (fs1, Some e)
            | (fs1, None) \<Rightarrow>
                (case run_until (temp_steps sys path data mode) fs1 of
                   (fs2, e) \<Rightarrow> (fs2(tmpName sys := None), e))))"

text \<open>The states an interrupted call can leave behind.\<close>

definition WriteFile_crashes :: "syscalls \<Rightarrow> path \<Rightarrow> bytes \<Rightarrow> nat \<Rightarrow> fs \<Rightarrow> fs list" where
  "WriteFile_crashes sys path data mode fs =
     (if path = [] then [fs]
      else crash_points ([mkdirAll sys, createTemp sys] @ temp_steps sys path data mode) fs
           @ [fst (WriteFile sys path data mode fs)])"

definition read_data :: "fs \<Rightarrow> path \<Rightarrow> bytes option" where
  "read_data fs path = map_option fileData (fs path)"

section \<open>Behaviour on every branch\<close>

lemmas write_step_defs = mkdirAll_def createTemp_def chmodTemp_def writeTemp_def syncTemp_def
  closeTemp_def renameTemp_def syncDirectory_def upd_file_def temp_steps_def

lemma WriteFile_cases:
  assumes "temp_fresh sys fs path"
  shows "(\<exists>e. snd (WriteFile sys path data mode fs) = Some e \<and> e \<noteq> SyncDirError \<and> fst (WriteFile sys path data mode fs) = fs) \<or>
     (snd (WriteFile sys path data mode fs) \<in> {None, Some SyncDirError} \<and> path \<noteq> [] \<and>
      fst (WriteFile sys path data mode fs) = fs(path \<mapsto> \<lparr>fileData = data, fileMode = mode, fileSynced = True\<rparr>))"
  using assms
  by (auto simp: WriteFile_def write_step_defs temp_fresh_def fun_upd_twist fun_upd_idem
      split: option.splits errno.splits)

lemma WriteFile_other:
  assumes "temp_fresh sys fs path" "q \<noteq> path"
  shows "fst (WriteFile sys path data mode fs) q = fs q"
  using WriteFile_cases [OF assms(1), of data mode] assms(2) by auto

lemma WriteFile_ok:
  assumes "temp_fresh sys fs path" "WriteFile sys path data mode fs = (fs', None)"
  shows "fs' = fs(path \<mapsto> \<lparr>fileData = data, fileMode = mode, fileSynced = True\<rparr>)"
  using WriteFile_cases [OF assms(1), of data mode] assms(2) by auto

text \<open>Until the rename only the temporary file changes; the rename installs the flushed content.\<close>

definition temp_only :: "syscalls \<Rightarrow> fs \<Rightarrow> fs \<Rightarrow> bool" where
  "temp_only sys fs fs' \<longleftrightarrow> (\<forall>q. q \<noteq> tmpName sys \<longrightarrow> fs' q = fs q)"

lemma crash_rename:
  assumes "tmpName sys \<noteq> path" "temp_only sys fs g" "g (tmpName sys) = Some new"
    and "fs' \<in> set (crash_points [renameTemp sys path, syncDirectory sys] g)"
  shows "temp_only sys fs fs' \<or> temp_only sys (fs(path \<mapsto> new)) fs'"
  using assms by (auto simp: renameTemp_def syncDirectory_def temp_only_def split: if_splits option.splits errno.splits)

lemma crash_step:
  assumes "temp_only sys fs g" "temp_only sys fs (fst (st g))" "\<not> temp_only sys fs fs'"
    and "fs' \<in> set (crash_points (st # sts) g)"
  shows "snd (st g) = None" and "fs' \<in> set (crash_points sts (fst (st g)))"
  using assms by (cases "st g"; cases "snd (st g)"; auto)+

lemma temp_only_step:
  assumes "temp_only sys fs g"
  shows "temp_only sys fs (fst (mkdirAll sys g))" "temp_only sys fs (fst (createTemp sys g))"
    "temp_only sys fs (fst (chmodTemp sys mode g))" "temp_only sys fs (fst (writeTemp sys data g))"
    "temp_only sys fs (fst (syncTemp sys g))" "temp_only sys fs (fst (closeTemp sys g))"
  using assms
  by (auto simp: temp_only_def mkdirAll_def createTemp_def chmodTemp_def writeTemp_def syncTemp_def
      closeTemp_def upd_file_def split: option.splits)

lemma temp_content:
  "snd (createTemp sys g) = None \<Longrightarrow> fst (createTemp sys g) (tmpName sys) \<noteq> None"
  "snd (chmodTemp sys mode g) = None \<Longrightarrow> fst (chmodTemp sys mode g) (tmpName sys) =
     map_option (\<lambda>f. f\<lparr>fileMode := mode\<rparr>) (g (tmpName sys))"
  "snd (writeTemp sys data g) = None \<Longrightarrow> fst (writeTemp sys data g) (tmpName sys) =
     map_option (\<lambda>f. f\<lparr>fileData := data\<rparr>) (g (tmpName sys))"
  "snd (syncTemp sys g) = None \<Longrightarrow> fst (syncTemp sys g) (tmpName sys) =
     map_option (\<lambda>f. f\<lparr>fileSynced := True\<rparr>) (g (tmpName sys))"
  "fst (closeTemp sys g) = g"
  by (auto simp: createTemp_def chmodTemp_def writeTemp_def syncTemp_def closeTemp_def upd_file_def
      split: option.splits)

lemma crash_temp:
  assumes ne: "tmpName sys \<noteq> path" and g: "temp_only sys fs g" "g (tmpName sys) \<noteq> None"
    and c: "fs' \<in> set (crash_points (temp_steps sys path data mode) g)"
    and no: "\<not> temp_only sys fs fs'"
  shows "temp_only sys (fs(path \<mapsto> \<lparr>fileData = data, fileMode = mode, fileSynced = True\<rparr>)) fs'"
proof -
  obtain f where f: "g (tmpName sys) = Some f" using g(2) by blast
  define g1 where "g1 = fst (chmodTemp sys mode g)"
  define g2 where "g2 = fst (writeTemp sys data g1)"
  define g3 where "g3 = fst (syncTemp sys g2)"
  have t1: "temp_only sys fs g1" unfolding g1_def by (rule temp_only_step [OF g(1)])
  have t2: "temp_only sys fs g2" unfolding g2_def by (rule temp_only_step [OF t1])
  have t3: "temp_only sys fs g3" unfolding g3_def by (rule temp_only_step [OF t2])
  note s1 = crash_step [OF g(1) t1 [unfolded g1_def] no c [unfolded temp_steps_def], folded g1_def]
  note s2 = crash_step [OF t1 t2 [unfolded g2_def] no s1(2), folded g2_def]
  note s3 = crash_step [OF t2 t3 [unfolded g3_def] no s2(2), folded g3_def]
  have "fs' \<in> set (crash_points [renameTemp sys path, syncDirectory sys] g3)"
    using crash_step(2) [OF t3 _ no s3(2)] t3 by (simp add: temp_content)
  moreover have "g3 (tmpName sys) = Some (f\<lparr>fileMode := mode, fileData := data, fileSynced := True\<rparr>)"
    using s1(1) s2(1) s3(1) f unfolding g3_def g2_def g1_def by (simp add: temp_content)
  moreover have "f\<lparr>fileMode := mode, fileData := data, fileSynced := True\<rparr> =
      \<lparr>fileData = data, fileMode = mode, fileSynced = True\<rparr>" by simp
  ultimately show ?thesis using crash_rename [OF ne t3, of _ fs'] no by metis
qed

lemma WriteFile_crash_cases:
  assumes f: "temp_fresh sys fs path" and c: "fs' \<in> set (WriteFile_crashes sys path data mode fs)"
    and no: "\<not> temp_only sys fs fs'"
  shows "temp_only sys (fs(path \<mapsto> \<lparr>fileData = data, fileMode = mode, fileSynced = True\<rparr>)) fs'"
proof (cases "path = [] \<or> fs' = fst (WriteFile sys path data mode fs)")
  case True
  then show ?thesis
    using WriteFile_cases [OF f, of data mode] c no by (auto simp: WriteFile_crashes_def temp_only_def)
next
  case False
  then have c': "fs' \<in> set (crash_points (mkdirAll sys # createTemp sys # temp_steps sys path data mode) fs)"
    using c by (simp add: WriteFile_crashes_def)
  have t0: "temp_only sys fs fs" by (simp add: temp_only_def)
  have m: "fst (mkdirAll sys fs) = fs" by (simp add: mkdirAll_def)
  note s1 = crash_step(2) [OF t0 temp_only_step(1) [OF t0] no c', unfolded m]
  note s2 = crash_step [OF t0 temp_only_step(2) [OF t0] no s1]
  show ?thesis
    using crash_temp [OF _ temp_only_step(2) [OF t0] temp_content(1) [OF s2(1)] s2(2) no] f
    by (simp add: temp_fresh_def)
qed

section \<open>The interface of the package\<close>

text \<open>
  A replacement operation either leaves the whole file system alone or installs the new content at
  the path; success means the new content is in place, and no other path is touched.
\<close>

locale replacement =
  fixes wr :: "'env \<Rightarrow> path \<Rightarrow> bytes \<Rightarrow> nat \<Rightarrow> fs \<Rightarrow> fs \<times> 'err option"
    and fresh :: "'env \<Rightarrow> fs \<Rightarrow> path \<Rightarrow> bool"
  assumes write_ok: "fresh env fs p \<Longrightarrow> wr env p d m fs = (fs', None) \<Longrightarrow> read_data fs' p = Some d"
    and write_old_or_new:
      "fresh env fs p \<Longrightarrow> read_data (fst (wr env p d m fs)) p \<in> {read_data fs p, Some d}"
    and write_frame: "fresh env fs p \<Longrightarrow> q \<noteq> p \<Longrightarrow> fst (wr env p d m fs) q = fs q"
begin

text \<open>A run of writes to one path, each with its own environment.\<close>

fun write_all :: "path \<Rightarrow> nat \<Rightarrow> ('env \<times> bytes) list \<Rightarrow> fs \<Rightarrow> fs" where
  "write_all p m [] fs = fs"
| "write_all p m ((env, d) # ws) fs = write_all p m ws (fst (wr env p d m fs))"

fun all_fresh :: "path \<Rightarrow> nat \<Rightarrow> ('env \<times> bytes) list \<Rightarrow> fs \<Rightarrow> bool" where
  "all_fresh p m [] fs = True"
| "all_fresh p m ((env, d) # ws) fs = (fresh env fs p \<and> all_fresh p m ws (fst (wr env p d m fs)))"

lemma write_all_content:
  "all_fresh p m ws fs \<Longrightarrow> read_data (write_all p m ws fs) p \<in> insert (read_data fs p) (Some ` snd ` set ws)"
proof (induction ws arbitrary: fs)
  case (Cons w ws)
  obtain env d where w: "w = (env, d)" by fastforce
  then have "read_data (fst (wr env p d m fs)) p \<in> {read_data fs p, Some d}"
    using Cons.prems write_old_or_new by simp
  moreover have "read_data (write_all p m (w # ws) fs) p
      \<in> insert (read_data (fst (wr env p d m fs)) p) (Some ` snd ` set ws)"
    using Cons w by simp
  ultimately show ?case using w by auto
qed simp

lemma write_all_frame:
  "all_fresh p m ws fs \<Longrightarrow> q \<noteq> p \<Longrightarrow> write_all p m ws fs q = fs q"
proof (induction ws arbitrary: fs)
  case (Cons w ws)
  then show ?case by (cases w) (simp add: write_frame)
qed simp

lemma write_keeps:
  assumes "fresh env fs p" "read_data fs p = None \<or> P (the (read_data fs p))" "P d"
  shows "read_data (fst (wr env p d m fs)) p = None \<or> P (the (read_data (fst (wr env p d m fs)) p))"
proof -
  have "read_data (fst (wr env p d m fs)) p = read_data fs p \<or>
      read_data (fst (wr env p d m fs)) p = Some d"
    using write_old_or_new [OF assms(1), of d m] by simp
  then show ?thesis using assms(2,3) by (elim disjE) simp_all
qed

end

interpretation af: replacement WriteFile temp_fresh
proof unfold_locales
  fix env fs p d m fs'
  assume f: "temp_fresh env fs p"
  show "WriteFile env p d m fs = (fs', None) \<Longrightarrow> read_data fs' p = Some d"
    using WriteFile_ok [OF f, of d m fs'] by (simp add: read_data_def)
  show "read_data (fst (WriteFile env p d m fs)) p \<in> {read_data fs p, Some d}"
    using WriteFile_cases [OF f, of d m] by (auto simp: read_data_def)
  show "fst (WriteFile env p d m fs) q = fs q" if "q \<noteq> p" for q
    using WriteFile_other [OF f that] .
qed

section \<open>Properties\<close>

definition sys_ok :: "path \<Rightarrow> syscalls" where
  "sys_ok tmp = \<lparr>mkdirOk = True, createOk = True, tmpName = tmp, chmodOk = True, writeShort = None,
     syncOk = True, closeOk = True, renameOk = True, dirOpenOk = True, dirSyncErr = None\<rparr>"



text \<open>what the result of \<open>WriteFile\<close> says about the disk. Success means the new content is
  installed and nothing else changed; every error but a failed directory sync means the file system is
  exactly as before, without a left-over temporary file; after a failed directory sync the new content
  is in place although an error is returned.\<close>

theorem WriteFile_result:
  assumes "temp_fresh sys fs path" and "WriteFile sys path data mode fs = (fs', r)"
  shows "fs' = (if r \<in> {None, Some SyncDirError}
                then fs(path \<mapsto> \<lparr>fileData = data, fileMode = mode, fileSynced = True\<rparr>) else fs) \<and>
    (r = None \<longleftrightarrow> path \<noteq> [] \<and> mkdirOk sys \<and> createOk sys \<and> chmodOk sys \<and> writeShort sys = None \<and> syncOk sys \<and>
           closeOk sys \<and> renameOk sys \<and> dirOpenOk sys \<and> dirSyncErr sys \<noteq> Some OtherErrno)"
proof
  show "fs' = (if r \<in> {None, Some SyncDirError}
      then fs(path \<mapsto> \<lparr>fileData = data, fileMode = mode, fileSynced = True\<rparr>) else fs)"
    using WriteFile_cases [OF assms(1), of data mode] assms(2) by auto
  show "r = None \<longleftrightarrow> path \<noteq> [] \<and> mkdirOk sys \<and> createOk sys \<and> chmodOk sys \<and> writeShort sys = None \<and> syncOk sys \<and>
      closeOk sys \<and> renameOk sys \<and> dirOpenOk sys \<and> dirSyncErr sys \<noteq> Some OtherErrno"
    using assms(2)
    by (auto simp: WriteFile_def write_step_defs split: option.splits errno.splits if_splits prod.splits)
qed

theorem WriteFile_result_witness:
  "WriteFile ((sys_ok ''/t'')\<lparr>dirSyncErr := Some OtherErrno\<rparr>) ''/s'' [7] 384 Map.empty =
     ([''/s'' \<mapsto> \<lparr>fileData = [7], fileMode = 384, fileSynced = True\<rparr>], Some SyncDirError)"
proof -
  let ?sys = "(sys_ok ''/t'')\<lparr>dirSyncErr := Some OtherErrno\<rparr>"
  have f: "temp_fresh ?sys Map.empty ''/s''" by (simp add: temp_fresh_def sys_ok_def)
  obtain fs' r where w: "WriteFile ?sys ''/s'' [7] 384 Map.empty = (fs', r)" by fastforce
  moreover have "r = Some SyncDirError"
    using w by (simp add: WriteFile_def write_step_defs sys_ok_def split: prod.splits)
  ultimately show ?thesis using WriteFile_result [OF f w] by simp
qed

end
