(* ===== verification/Adoption_Store.thy ===== *)
theory Adoption_Store
  imports Go_Net Inform_Packet Atomic_File
begin

text \<open>
  The persisted adoption state of \<open>internal/adoption\<close>: \<open>state.go\<close>, \<open>fields.go\<close>, \<open>env.go\<close> and
  \<open>mgmtcfg.go\<close>. The store is read from and written to a \<open>KEY=VALUE\<close> file through the table
  \<open>storeFields\<close>, which is also the allowlist for controller-provided \<open>mgmt_cfg\<close> lines. The locale
  \<open>durable_codec\<close> joins the replacement contract of \<open>Atomic_File\<close> with an encoder and a decoder.
\<close>

section \<open>State (state.go)\<close>

type_synonym adoption_state = string

definition StateFactory :: adoption_state where "StateFactory = ''factory''"
definition StateDiscovered :: adoption_state where "StateDiscovered = ''discovered''"
definition StateAdopting :: adoption_state where "StateAdopting = ''adopting''"
definition StateProvisioning :: adoption_state where "StateProvisioning = ''provisioning''"
definition StateConnected :: adoption_state where "StateConnected = ''connected''"
definition StateFailed :: adoption_state where "StateFailed = ''failed''"

lemmas state_defs = StateFactory_def StateDiscovered_def StateAdopting_def StateProvisioning_def
  StateConnected_def StateFailed_def

lemma state_distinct [simp]:
  "StateFactory \<noteq> []" "StateDiscovered \<noteq> []" "StateAdopting \<noteq> []"
  "StateProvisioning \<noteq> []" "StateConnected \<noteq> []" "StateFailed \<noteq> []"
  "StateFactory \<noteq> StateDiscovered" "StateFactory \<noteq> StateAdopting" "StateFactory \<noteq> StateProvisioning"
  "StateFactory \<noteq> StateConnected" "StateFactory \<noteq> StateFailed" "StateDiscovered \<noteq> StateFactory"
  "StateDiscovered \<noteq> StateAdopting" "StateDiscovered \<noteq> StateProvisioning" "StateDiscovered \<noteq> StateConnected"
  "StateDiscovered \<noteq> StateFailed" "StateAdopting \<noteq> StateFactory" "StateAdopting \<noteq> StateDiscovered"
  "StateAdopting \<noteq> StateProvisioning" "StateAdopting \<noteq> StateConnected" "StateAdopting \<noteq> StateFailed"
  "StateProvisioning \<noteq> StateFactory" "StateProvisioning \<noteq> StateDiscovered" "StateProvisioning \<noteq> StateAdopting"
  "StateProvisioning \<noteq> StateConnected" "StateProvisioning \<noteq> StateFailed" "StateConnected \<noteq> StateFactory"
  "StateConnected \<noteq> StateDiscovered" "StateConnected \<noteq> StateAdopting" "StateConnected \<noteq> StateProvisioning"
  "StateConnected \<noteq> StateFailed" "StateFailed \<noteq> StateFactory" "StateFailed \<noteq> StateDiscovered"
  "StateFailed \<noteq> StateAdopting" "StateFailed \<noteq> StateProvisioning" "StateFailed \<noteq> StateConnected"
  by (simp_all add: state_defs)

record adoption_store =
  InformURL :: string
  AuthKey :: string
  CFGVersion :: string
  UseAESGCM :: bool
  StoreVersion :: string
  State :: adoption_state

definition emptyStore :: adoption_store where
  "emptyStore = \<lparr>InformURL = [], AuthKey = [], CFGVersion = [], UseAESGCM = False,
     StoreVersion = [], State = []\<rparr>"

section \<open>Fields (fields.go)\<close>

record store_field =
  envKey :: string
  mgmtKey :: string
  getField :: "adoption_store \<Rightarrow> string"
  setField :: "string \<Rightarrow> adoption_store \<Rightarrow> adoption_store"

definition fieldState :: store_field where
  "fieldState = \<lparr>envKey = ''STATE'', mgmtKey = [], getField = State,
     setField = (\<lambda>v s. s\<lparr>State := v\<rparr>)\<rparr>"

definition fieldInformURL :: store_field where
  "fieldInformURL = \<lparr>envKey = ''INFORM_URL'', mgmtKey = ''inform_url'', getField = InformURL,
     setField = (\<lambda>v s. s\<lparr>InformURL := v\<rparr>)\<rparr>"

definition fieldAuthKey :: store_field where
  "fieldAuthKey = \<lparr>envKey = ''AUTHKEY'', mgmtKey = ''authkey'', getField = AuthKey,
     setField = (\<lambda>v s. s\<lparr>AuthKey := v\<rparr>)\<rparr>"

definition fieldCFGVersion :: store_field where
  "fieldCFGVersion = \<lparr>envKey = ''CFGVERSION'', mgmtKey = ''cfgversion'', getField = CFGVersion,
     setField = (\<lambda>v s. s\<lparr>CFGVersion := v\<rparr>)\<rparr>"

definition fieldUseAESGCM :: store_field where
  "fieldUseAESGCM = \<lparr>envKey = ''USE_AES_GCM'', mgmtKey = ''use_aes_gcm'',
     getField = (\<lambda>s. if UseAESGCM s then ''true'' else []),
     setField = (\<lambda>v s. s\<lparr>UseAESGCM := (parse_bool v = Some True)\<rparr>)\<rparr>"

definition fieldVersion :: store_field where
  "fieldVersion = \<lparr>envKey = ''VERSION'', mgmtKey = [], getField = StoreVersion,
     setField = (\<lambda>v s. s\<lparr>StoreVersion := v\<rparr>)\<rparr>"

definition storeFields :: "store_field list" where
  "storeFields = [fieldState, fieldInformURL, fieldAuthKey, fieldCFGVersion, fieldUseAESGCM, fieldVersion]"

lemmas field_defs = fieldState_def fieldInformURL_def fieldAuthKey_def fieldCFGVersion_def
  fieldUseAESGCM_def fieldVersion_def

lemma field_get_set [simp]:
  "getField fieldState = State" "setField fieldState v s = s\<lparr>State := v\<rparr>"
  "getField fieldInformURL = InformURL" "setField fieldInformURL v s = s\<lparr>InformURL := v\<rparr>"
  "getField fieldAuthKey = AuthKey" "setField fieldAuthKey v s = s\<lparr>AuthKey := v\<rparr>"
  "getField fieldCFGVersion = CFGVersion" "setField fieldCFGVersion v s = s\<lparr>CFGVersion := v\<rparr>"
  "getField fieldUseAESGCM s = (if UseAESGCM s then ''true'' else [])"
  "setField fieldUseAESGCM v s = s\<lparr>UseAESGCM := (parse_bool v = Some True)\<rparr>"
  "getField fieldVersion = StoreVersion" "setField fieldVersion v s = s\<lparr>StoreVersion := v\<rparr>"
  by (simp_all add: field_defs)

definition storeFieldByEnvKey :: "string \<Rightarrow> store_field option" where
  "storeFieldByEnvKey key = find (\<lambda>f. envKey f = key) storeFields"

definition storeFieldByMgmtKey :: "string \<Rightarrow> store_field option" where
  "storeFieldByMgmtKey key = find (\<lambda>f. mgmtKey f \<noteq> [] \<and> mgmtKey f = key) storeFields"

section \<open>Validation (env.go, mgmtcfg.go)\<close>

datatype value_error =
    ValueWhitespace | ValueControl
  | AuthKeyFormat | AuthKeyIsDefault | AuthKeyLength
  | GcmNotBool | CfgVersionLong
  | UrlLong | UrlNotAbsolute | UrlUserinfo | UrlQuery | UrlFragmentSet

datatype store_error = UnknownState | AdoptedNeedsKey | FactoryWithKey

datatype adoption_error =
    FileNotExist | FileReadError
  | WhitespaceLine nat | NonCanonicalLine nat | NoKeyValueLine nat | MalformedKeyLine nat
  | DuplicateField string | EmptyFieldValue string | BadFieldValue string value_error
  | NoSupportedFields | BadStore store_error
  | StatePathRequired | StoreWriteError write_error
  | MgmtCFGBytes | MgmtCFGLines | MgmtCFGLineBytes | MgmtCFGValue value_error

definition validateIndividualAuthKeyText :: "string \<Rightarrow> bool \<Rightarrow> value_error option" where
  "validateIndividualAuthKeyText value allowRaw =
     (let key = (if allowRaw \<and> length value = 16 then Some (bytes_of value)
                 else if length value = 32 then hex_decode value
                 else None)
      in case key of
           None \<Rightarrow> Some AuthKeyFormat
         | Some k \<Rightarrow> if IsDefaultAuthKey k then Some AuthKeyIsDefault else None)"

definition validateInformURL :: "string \<Rightarrow> value_error option" where
  "validateInformURL value =
     (if length value > 2048 then Some UrlLong
      else (case url_Parse value of
              None \<Rightarrow> Some UrlNotAbsolute
            | Some u \<Rightarrow>
                if urlOpaque u \<noteq> [] \<or> urlScheme u \<noteq> ''http'' \<and> urlScheme u \<noteq> ''https'' \<or> Hostname u = []
                then Some UrlNotAbsolute
                else if urlUser u then Some UrlUserinfo
                else if urlRawQuery u \<noteq> [] \<or> urlForceQuery u then Some UrlQuery
                else if urlFragment u \<noteq> [] \<or> go_contains value ''#'' then Some UrlFragmentSet
                else None))"

definition validateMgmtField :: "string \<Rightarrow> string \<Rightarrow> value_error option" where
  "validateMgmtField key value =
     (if key = ''authkey'' then
        (if length value \<noteq> 32 then Some AuthKeyLength else validateIndividualAuthKeyText value False)
      else if key = ''use_aes_gcm'' then
        (if parse_bool value = None then Some GcmNotBool else None)
      else if key = ''cfgversion'' then
        (if length value > 31 then Some CfgVersionLong else None)
      else if key = ''inform_url'' then validateInformURL value
      else None)"

definition validatePersistedValue :: "string \<Rightarrow> value_error option" where
  "validatePersistedValue value =
     (if value \<noteq> trim_space value then Some ValueWhitespace
      else if list_ex (\<lambda>c. ord c < 32 \<or> ord c = 127) value then Some ValueControl
      else None)"

definition validatePersistedField :: "store_field \<Rightarrow> string \<Rightarrow> value_error option" where
  "validatePersistedField field value =
     (if envKey field = ''AUTHKEY'' then validateIndividualAuthKeyText value True
      else if envKey field = ''CFGVERSION'' then validateMgmtField ''cfgversion'' value
      else if envKey field = ''INFORM_URL'' then validateMgmtField ''inform_url'' value
      else if envKey field = ''USE_AES_GCM'' then
        (if parse_bool value = None then Some GcmNotBool else None)
      else None)"

definition validatePersistedStore :: "adoption_store \<Rightarrow> store_error option" where
  "validatePersistedStore store =
     (if State store \<notin> {[], StateFactory, StateDiscovered, StateAdopting, StateProvisioning,
                        StateConnected, StateFailed}
      then Some UnknownState
      else if AuthKey store = [] \<and>
              (State store = StateAdopting \<or> State store = StateConnected \<or> UseAESGCM store)
      then Some AdoptedNeedsKey
      else if State store = StateFactory \<and> AuthKey store \<noteq> [] then Some FactoryWithKey
      else None)"

fun validateFields :: "store_field list \<Rightarrow> adoption_store \<Rightarrow> nat \<Rightarrow> adoption_error + nat" where
  "validateFields [] store n = Inr n"
| "validateFields (f # fs) store n =
     (let value = getField f store in
      if value = [] then validateFields fs store n
      else (case validatePersistedValue value of
              Some e \<Rightarrow> Inl (BadFieldValue (envKey f) e)
            | None \<Rightarrow>
                (case validatePersistedField f value of
                   Some e \<Rightarrow> Inl (BadFieldValue (envKey f) e)
                 | None \<Rightarrow> validateFields fs store (n + 1))))"

definition validateStoreForPersistence :: "adoption_store \<Rightarrow> adoption_error option" where
  "validateStoreForPersistence store =
     (case validateFields storeFields store 0 of
        Inl e \<Rightarrow> Some e
      | Inr n \<Rightarrow>
          if n = 0 then Some NoSupportedFields
          else map_option BadStore (validatePersistedStore store))"

section \<open>Loading and saving (env.go)\<close>

datatype read_result = ReadOk bytes | ReadNotExist | ReadFailed

definition read_file :: "fs \<Rightarrow> path \<Rightarrow> read_result" where
  "read_file fs path = (case read_data fs path of None \<Rightarrow> ReadNotExist | Some d \<Rightarrow> ReadOk d)"

text \<open>The body of the loop in \<open>LoadEnv\<close>: the store, the keys seen and the recognized count.\<close>

type_synonym load_state = "adoption_store \<times> string list \<times> nat"

definition loadLine :: "nat \<Rightarrow> string \<Rightarrow> load_state \<Rightarrow> adoption_error + load_state" where
  "loadLine lineNo line st =
     (case st of (store, seen, recognized) \<Rightarrow>
      let trimmed = trim_space line in
      if trimmed = [] then (if line \<noteq> [] then Inl (WhitespaceLine lineNo) else Inr st)
      else if line \<noteq> trimmed then Inl (NonCanonicalLine lineNo)
      else (case go_cut CHR ''='' line of
              None \<Rightarrow> Inl (NoKeyValueLine lineNo)
            | Some (key, value) \<Rightarrow>
                if key = [] \<or> key \<noteq> trim_space key then Inl (MalformedKeyLine lineNo)
                else (case storeFieldByEnvKey key of
                        None \<Rightarrow> Inr st
                      | Some field \<Rightarrow>
                          if key \<in> set seen then Inl (DuplicateField key)
                          else if value = [] then Inl (EmptyFieldValue key)
                          else (case validatePersistedValue value of
                                  Some e \<Rightarrow> Inl (BadFieldValue key e)
                                | None \<Rightarrow>
                                    (case validatePersistedField field value of
                                       Some e \<Rightarrow> Inl (BadFieldValue key e)
                                     | None \<Rightarrow> Inr (setField field value store, key # seen, recognized + 1))))))"

fun loadLines :: "nat \<Rightarrow> string list \<Rightarrow> load_state \<Rightarrow> adoption_error + load_state" where
  "loadLines lineNo [] st = Inr st"
| "loadLines lineNo (line # rest) st =
     (case loadLine lineNo line st of
        Inl e \<Rightarrow> Inl e
      | Inr st' \<Rightarrow> loadLines (lineNo + 1) rest st')"

definition decodeEnv :: "bytes \<Rightarrow> adoption_error + adoption_store" where
  "decodeEnv data =
     (case loadLines 1 (go_split CHR 0x0A (string_of data)) (emptyStore, [], 0) of
        Inl e \<Rightarrow> Inl e
      | Inr (store, seen, recognized) \<Rightarrow>
          if recognized = 0 then Inl NoSupportedFields
          else (case validatePersistedStore store of
                  Some e \<Rightarrow> Inl (BadStore e)
                | None \<Rightarrow> Inr store))"

definition LoadEnv :: "read_result \<Rightarrow> adoption_error + adoption_store" where
  "LoadEnv rd =
     (case rd of
        ReadNotExist \<Rightarrow> Inl FileNotExist
      | ReadFailed \<Rightarrow> Inl FileReadError
      | ReadOk data \<Rightarrow> decodeEnv data)"

definition envLine :: "adoption_store \<Rightarrow> store_field \<Rightarrow> string" where
  "envLine store f =
     (if getField f store = [] then [] else envKey f @ ''='' @ getField f store @ [CHR 0x0A])"

definition encodeEnv :: "adoption_store \<Rightarrow> bytes" where
  "encodeEnv store = bytes_of (concat (map (envLine store) storeFields))"

definition SaveEnv :: "syscalls \<Rightarrow> path \<Rightarrow> adoption_store \<Rightarrow> fs \<Rightarrow> fs \<times> adoption_error option" where
  "SaveEnv sys path store fs =
     (if path = [] then (fs, Some StatePathRequired)
      else (case validateStoreForPersistence store of
              Some e \<Rightarrow> (fs, Some e)
            | None \<Rightarrow>
                (case WriteFile sys path (encodeEnv store) 384 fs of
                   (fs', None) \<Rightarrow> (fs', None)
                 | (fs', Some e) \<Rightarrow> (fs', Some (StoreWriteError e)))))"

definition factoryStore :: adoption_store where
  "factoryStore = emptyStore\<lparr>State := StateFactory\<rparr>"

definition ResetEnv :: "syscalls \<Rightarrow> path \<Rightarrow> fs \<Rightarrow> fs \<times> adoption_store \<times> adoption_error option" where
  "ResetEnv sys path fs = (case SaveEnv sys path factoryStore fs of (fs', e) \<Rightarrow> (fs', factoryStore, e))"

section \<open>Merging (env.go)\<close>

definition normalizedAuthKey :: "string \<Rightarrow> string option" where
  "normalizedAuthKey value =
     (if length value = 16 then Some (hex_encode (bytes_of value))
      else if length value = 32 then map_option hex_encode (hex_decode value)
      else None)"

definition authKeysEqual :: "string \<Rightarrow> string \<Rightarrow> bool" where
  "authKeysEqual left right \<longleftrightarrow>
     left = right \<or> normalizedAuthKey left \<noteq> None \<and> normalizedAuthKey left = normalizedAuthKey right"

definition mergeState :: "adoption_store \<Rightarrow> adoption_store \<Rightarrow> adoption_state" where
  "mergeState base update =
     (let controllerAuthKeyPresent = (State update = StateConnected \<and> AuthKey update \<noteq> []);
          keyChanged = (AuthKey update \<noteq> [] \<and> \<not> authKeysEqual (AuthKey update) (AuthKey base));
          urlChanged = (InformURL update \<noteq> [] \<and> InformURL update \<noteq> InformURL base)
      in if controllerAuthKeyPresent \<or> keyChanged \<or> urlChanged then
           (let resultingKey = (if AuthKey update \<noteq> [] then AuthKey update else AuthKey base)
            in if resultingKey \<noteq> [] then StateAdopting else StateProvisioning)
         else if State update = StateConnected \<and> AuthKey base = [] \<and> AuthKey update = [] then []
         else if State update = StateAdopting \<or> AuthKey base \<noteq> [] \<and> State update = StateProvisioning then []
         else State update)"

fun mergeFields :: "store_field list \<Rightarrow> adoption_store \<Rightarrow> adoption_store \<Rightarrow> bool \<Rightarrow> adoption_store \<times> bool" where
  "mergeFields [] update base changed = (base, changed)"
| "mergeFields (f # fs) update base changed =
     (if getField f update \<noteq> [] \<and> getField f base \<noteq> getField f update
      then mergeFields fs update (setField f (getField f update) base) True
      else mergeFields fs update base changed)"

definition Merge :: "adoption_store \<Rightarrow> adoption_store \<Rightarrow> adoption_store \<times> bool" where
  "Merge base update =
     mergeFields storeFields (update\<lparr>State := mergeState base update\<rparr>) base False"

section \<open>Controller management configuration (mgmtcfg.go)\<close>

definition maxMgmtCFGBytes :: nat where "maxMgmtCFGBytes = 64 * 1024"
definition maxMgmtCFGLines :: nat where "maxMgmtCFGLines = 256"
definition maxMgmtCFGLine :: nat where "maxMgmtCFGLine = 4096"

fun parseMgmtLines :: "string list \<Rightarrow> adoption_store \<Rightarrow> adoption_error + adoption_store" where
  "parseMgmtLines [] store = Inr store"
| "parseMgmtLines (line # rest) store =
     (if length line > maxMgmtCFGLine then Inl MgmtCFGLineBytes
      else (case go_cut CHR ''='' (trim_space line) of
              None \<Rightarrow> parseMgmtLines rest store
            | Some (key, value0) \<Rightarrow>
                (case storeFieldByMgmtKey key of
                   None \<Rightarrow> parseMgmtLines rest store
                 | Some field \<Rightarrow>
                     (let value = trim_space value0 in
                      case validateMgmtField key value of
                        Some e \<Rightarrow> Inl (MgmtCFGValue e)
                      | None \<Rightarrow> parseMgmtLines rest (setField field value store)))))"

definition parseMgmtCFG :: "string \<Rightarrow> adoption_error + adoption_store" where
  "parseMgmtCFG mgmtCFG =
     (if length mgmtCFG > maxMgmtCFGBytes then Inl MgmtCFGBytes
      else let ls = go_split CHR 0x0A mgmtCFG in
        if length ls > maxMgmtCFGLines then Inl MgmtCFGLines
        else parseMgmtLines ls emptyStore)"

section \<open>Facts about fields and lines\<close>

definition field_ok :: "adoption_store \<Rightarrow> store_field \<Rightarrow> bool" where
  "field_ok store f \<longleftrightarrow> getField f store = [] \<or>
     validatePersistedValue (getField f store) = None \<and> validatePersistedField f (getField f store) = None"

text \<open>The invariant of every adoption state the program holds: valid fields, consistent as a whole.\<close>

definition store_ok :: "adoption_store \<Rightarrow> bool" where
  "store_ok store \<longleftrightarrow> list_all (field_ok store) storeFields \<and> validatePersistedStore store = None"

lemma validateFields_iff:
  "(\<exists>m. validateFields fs store n = Inr m) \<longleftrightarrow> list_all (field_ok store) fs"
  by (induction fs arbitrary: n) (auto simp: field_ok_def Let_def split: option.splits)

lemma validateFields_count:
  "validateFields fs store n = Inr m \<Longrightarrow> m = n + length (filter (\<lambda>f. getField f store \<noteq> []) fs)"
  by (induction fs arbitrary: n) (fastforce simp: Let_def split: option.splits if_splits)+

lemma validateStoreForPersistence_iff:
  "validateStoreForPersistence store = None \<longleftrightarrow>
     store_ok store \<and> list_ex (\<lambda>f. getField f store \<noteq> []) storeFields"
proof (cases "validateFields storeFields store 0")
  case (Inl e)
  then have "\<not> list_all (field_ok store) storeFields" by (metis sum.distinct(1) validateFields_iff)
  with Inl show ?thesis by (auto simp: validateStoreForPersistence_def store_ok_def)
next
  case (Inr n)
  then have "list_all (field_ok store) storeFields" by (metis validateFields_iff)
  moreover have "n = 0 \<longleftrightarrow> \<not> list_ex (\<lambda>f. getField f store \<noteq> []) storeFields"
    using validateFields_count [OF Inr] by (simp add: filter_empty_conv list_ex_iff)
  ultimately show ?thesis using Inr by (auto simp: validateStoreForPersistence_def store_ok_def)
qed

lemma space_len_rev_ascii:
  assumes "s \<noteq> []" "space_len_rev s = 0" "ord c < 128"
  shows "space_len_rev (s @ c # t) = 0"
  using assms
  by (cases s rule: space_len_rev.cases; cases t)
    (auto simp: space2_def space3_def split: if_splits)

lemma line_trimmed:
  assumes "v \<noteq> []" "trim_space v = v" "list_all (\<lambda>c. ord c < 128 \<and> \<not> is_ascii_space c) key"
  shows "trim_space (key @ CHR ''='' # v) = key @ CHR ''='' # v"
proof -
  have "space_len (key @ CHR ''='' # v) = 0"
  proof (cases key)
    case Nil
    then show ?thesis by (cases "CHR ''='' # v" rule: space_len.cases)
        (auto simp: is_ascii_space_def space2_def space3_def)
  next
    case (Cons c cs)
    then show ?thesis using assms(3)
      by (cases "key @ CHR ''='' # v" rule: space_len.cases)
        (auto simp: space2_def space3_def)
  qed
  moreover have "space_len_rev (rev v @ CHR ''='' # rev key) = 0"
    using assms(1,2) by (intro space_len_rev_ascii) (simp_all add: trim_space_eq_iff [of v])
  ultimately show ?thesis by (simp add: trim_space_eq_iff)
qed

lemma space_len_ascii: "s = [] \<or> ord (hd s) < 128 \<and> \<not> is_ascii_space (hd s) \<Longrightarrow> space_len s = 0"
  by (cases s rule: space_len.cases) (auto simp: space2_def space3_def)

lemma space_len_rev_ascii_hd:
  "list_all (\<lambda>c. ord c < 128 \<and> \<not> is_ascii_space c) s \<Longrightarrow> space_len_rev s = 0"
  by (cases s rule: space_len_rev.cases) (auto simp: space2_def space3_def)

lemma trim_space_ascii:
  "list_all (\<lambda>c. ord c < 128 \<and> \<not> is_ascii_space c) s \<Longrightarrow> trim_space s = s"
  by (cases s) (simp_all add: trim_space_eq_iff space_len_ascii space_len_rev_ascii_hd list_all_iff)

definition key_char :: "char \<Rightarrow> bool" where
  "key_char c \<longleftrightarrow> ord c < 128 \<and> 32 < ord c \<and> c \<noteq> CHR ''=''"

lemma key_char_ascii: "list_all key_char s \<Longrightarrow> list_all (\<lambda>c. ord c < 128 \<and> \<not> is_ascii_space c) s"
  by (induction s) (auto simp: key_char_def is_ascii_space_def)

lemma key_char_plain: "list_all key_char s \<Longrightarrow> CHR ''='' \<notin> set s \<and> CHR 0x0A \<notin> set s"
  by (induction s) (auto simp: key_char_def)

lemma storeFields_shape:
  "distinct (map envKey storeFields)"
  "list_all (\<lambda>f. envKey f \<noteq> [] \<and> list_all key_char (envKey f)) storeFields"
  by (simp_all add: storeFields_def field_defs key_char_def)

lemma find_key: "distinct (map k xs) \<Longrightarrow> x \<in> set xs \<Longrightarrow> find (\<lambda>f. k f = k x) xs = Some x"
  by (induction xs) auto

lemma storeFields_keys:
  assumes "f \<in> set storeFields"
  shows "envKey f \<noteq> []" and "list_all key_char (envKey f)"
    and "storeFieldByEnvKey (envKey f) = Some f" and "trim_space (envKey f) = envKey f"
proof -
  show "envKey f \<noteq> []" and k: "list_all key_char (envKey f)"
    using storeFields_shape(2) assms by (auto simp: list_all_iff)
  show "storeFieldByEnvKey (envKey f) = Some f"
    unfolding storeFieldByEnvKey_def by (rule find_key [OF storeFields_shape(1) assms])
  show "trim_space (envKey f) = envKey f"
    by (rule trim_space_ascii [OF key_char_ascii [OF k]])
qed

lemma loadLine_field:
  assumes f: "f \<in> set storeFields" and ne: "v \<noteq> []" and seen: "envKey f \<notin> set seen"
    and ok: "validatePersistedValue v = None" "validatePersistedField f v = None"
  shows "loadLine n (envKey f @ CHR ''='' # v) (s, seen, r) = Inr (setField f v s, envKey f # seen, r + 1)"
proof -
  have v: "trim_space v = v" using ok(1) by (simp add: validatePersistedValue_def split: if_splits)
  have k: "CHR ''='' \<notin> set (envKey f)" using key_char_plain [OF storeFields_keys(2) [OF f]] by blast
  have "trim_space (envKey f @ CHR ''='' # v) = envKey f @ CHR ''='' # v"
    by (rule line_trimmed [OF ne v key_char_ascii [OF storeFields_keys(2) [OF f]]])
  then show ?thesis
    using f ne seen ok k storeFields_keys [OF f] by (simp add: loadLine_def Let_def)
qed

fun setFields :: "store_field list \<Rightarrow> adoption_store \<Rightarrow> adoption_store \<Rightarrow> adoption_store" where
  "setFields [] store s = s"
| "setFields (f # fs) store s =
     setFields fs store (if getField f store = [] then s else setField f (getField f store) s)"

lemma env_line_chars:
  assumes "f \<in> set storeFields" "validatePersistedValue v = None"
  shows "CHR 0x0A \<notin> set (envKey f @ CHR ''='' # v)"
proof -
  have "\<not> list_ex (\<lambda>c. ord c < 32 \<or> ord c = 127) v"
    using assms(2) by (simp add: validatePersistedValue_def split: if_splits)
  then have "CHR 0x0A \<notin> set v" by (force simp: list_ex_iff)
  moreover have "CHR 0x0A \<notin> set (envKey f)"
    using key_char_plain [OF storeFields_keys(2) [OF assms(1)]] by blast
  ultimately show ?thesis by simp
qed

lemma loadLines_encoded:
  assumes "set fs \<subseteq> set storeFields" "distinct (map envKey fs)" "list_all (field_ok store) fs"
    and "envKey ` set fs \<inter> set seen = {}"
  shows "\<exists>seen'. loadLines n (go_split CHR 0x0A (concat (map (envLine store) fs))) (s, seen, r) =
     Inr (setFields fs store s, seen', r + length (filter (\<lambda>f. getField f store \<noteq> []) fs))"
  using assms
proof (induction fs arbitrary: n s seen r)
  case Nil
  then show ?case by (simp add: loadLine_def)
next
  case (Cons f fs)
  show ?case
  proof (cases "getField f store = []")
    case True
    with Cons.IH [of seen n s r] Cons.prems show ?thesis by (auto simp: envLine_def)
  next
    case False
    let ?v = "getField f store"
    have f: "f \<in> set storeFields" using Cons.prems(1) by simp
    have ok: "validatePersistedValue ?v = None" "validatePersistedField f ?v = None"
      using Cons.prems(3) False by (auto simp: field_ok_def)
    have "go_split CHR 0x0A (concat (map (envLine store) (f # fs))) =
        (envKey f @ CHR ''='' # ?v) # go_split CHR 0x0A (concat (map (envLine store) fs))"
      using go_split_append [OF env_line_chars [OF f ok(1)]] False by (simp add: envLine_def)
    moreover have "loadLine n (envKey f @ CHR ''='' # ?v) (s, seen, r) =
        Inr (setField f ?v s, envKey f # seen, r + 1)"
      using loadLine_field [OF f False _ ok] Cons.prems(4) by simp
    ultimately show ?thesis
      using Cons.IH [of "envKey f # seen" "n + 1" "setField f ?v s" "r + 1"] Cons.prems False by auto
  qed
qed

lemma setFields_store: "setFields storeFields store emptyStore = store"
  by (cases store) (auto simp: storeFields_def emptyStore_def parse_bool_def)

lemma decode_encode:
  assumes "validateStoreForPersistence store = None"
  shows "decodeEnv (encodeEnv store) = Inr store"
proof -
  have ok: "list_all (field_ok store) storeFields" "validatePersistedStore store = None"
    and ne: "list_ex (\<lambda>f. getField f store \<noteq> []) storeFields"
    using assms by (simp_all add: validateStoreForPersistence_iff store_ok_def)
  obtain seen' where "loadLines 1 (go_split CHR 0x0A (concat (map (envLine store) storeFields))) (emptyStore, [], 0) =
      Inr (store, seen', length (filter (\<lambda>f. getField f store \<noteq> []) storeFields))"
    using loadLines_encoded [OF order_refl storeFields_shape(1) ok(1), of "[]" 1 emptyStore 0]
    by (auto simp: setFields_store)
  moreover have "filter (\<lambda>f. getField f store \<noteq> []) storeFields \<noteq> []"
    using ne by (simp add: filter_empty_conv list_ex_iff)
  ultimately show ?thesis using ok(2) by (simp add: decodeEnv_def encodeEnv_def)
qed

section \<open>Loaded and merged states\<close>

lemma validateMgmtField_eqs:
  "validateMgmtField ''authkey'' v =
     (if length v \<noteq> 32 then Some AuthKeyLength else validateIndividualAuthKeyText v False)"
  "validateMgmtField ''use_aes_gcm'' v = (if parse_bool v = None then Some GcmNotBool else None)"
  "validateMgmtField ''cfgversion'' v = (if length v > 31 then Some CfgVersionLong else None)"
  "validateMgmtField ''inform_url'' v = validateInformURL v"
  by (simp_all add: validateMgmtField_def)

lemma validatePersistedField_eqs:
  "validatePersistedField fieldState v = None" "validatePersistedField fieldVersion v = None"
  "validatePersistedField fieldInformURL v = validateMgmtField ''inform_url'' v"
  "validatePersistedField fieldAuthKey v = validateIndividualAuthKeyText v True"
  "validatePersistedField fieldCFGVersion v = validateMgmtField ''cfgversion'' v"
  "validatePersistedField fieldUseAESGCM v = (if parse_bool v = None then Some GcmNotBool else None)"
  by (simp_all add: validatePersistedField_def field_defs)

lemma parse_bool_true: "parse_bool ''true'' = Some True"
  by (simp add: parse_bool_def)

lemma field_ok_all:
  "list_all (field_ok s) storeFields \<longleftrightarrow>
     (State s = [] \<or> validatePersistedValue (State s) = None) \<and>
     (InformURL s = [] \<or> validatePersistedValue (InformURL s) = None \<and> validateInformURL (InformURL s) = None) \<and>
     (AuthKey s = [] \<or> validatePersistedValue (AuthKey s) = None \<and>
        validateIndividualAuthKeyText (AuthKey s) True = None) \<and>
     (CFGVersion s = [] \<or> validatePersistedValue (CFGVersion s) = None \<and> length (CFGVersion s) \<le> 31) \<and>
     (StoreVersion s = [] \<or> validatePersistedValue (StoreVersion s) = None)"
proof -
  have "trim_space ''true'' = ''true''" by (rule trim_space_ascii) (simp add: is_ascii_space_def)
  then have "validatePersistedValue ''true'' = None" by (simp add: validatePersistedValue_def)
  then show ?thesis
    by (simp add: storeFields_def field_ok_def validatePersistedField_eqs validateMgmtField_eqs
        parse_bool_true not_less)
qed

lemma setField_ok:
  assumes "f \<in> set storeFields" "list_all (field_ok s) storeFields"
    and "validatePersistedValue v = None" "validatePersistedField f v = None"
  shows "list_all (field_ok (setField f v s)) storeFields"
proof -
  have "f = fieldState \<or> f = fieldInformURL \<or> f = fieldAuthKey \<or> f = fieldCFGVersion \<or>
      f = fieldUseAESGCM \<or> f = fieldVersion"
    using assms(1) by (simp add: storeFields_def)
  then show ?thesis
    using assms(2,3,4) unfolding field_ok_all
    by (elim disjE) (simp_all add: validatePersistedField_eqs validateMgmtField_eqs not_less split: if_splits)
qed

lemma storeFieldByEnvKey_mem: "storeFieldByEnvKey key = Some f \<Longrightarrow> f \<in> set storeFields"
  unfolding storeFieldByEnvKey_def by (auto simp: find_Some_iff)

lemma loadLine_ok:
  assumes "loadLine n line (s, seen, r) = Inr (s', seen', r')" "list_all (field_ok s) storeFields"
  shows "list_all (field_ok s') storeFields"
  using assms setField_ok [OF storeFieldByEnvKey_mem assms(2)]
  by (auto simp: loadLine_def Let_def split: if_splits option.splits)

lemma loadLines_ok:
  "loadLines n ls (s, seen, r) = Inr (s', seen', r') \<Longrightarrow> list_all (field_ok s) storeFields \<Longrightarrow>
     list_all (field_ok s') storeFields"
proof (induction ls arbitrary: n s seen r)
  case (Cons l ls)
  then obtain s1 seen1 r1 where "loadLine n l (s, seen, r) = Inr (s1, seen1, r1)"
    by (auto split: sum.splits)
  then show ?case using Cons.IH [of "n + 1" s1 seen1 r1] Cons.prems loadLine_ok by simp
qed simp

lemma emptyStore_ok: "list_all (field_ok emptyStore) storeFields"
  by (simp add: field_ok_all emptyStore_def)

lemma decodeEnv_ok: "decodeEnv data = Inr s \<Longrightarrow> store_ok s"
  using loadLines_ok [OF _ emptyStore_ok]
  by (auto simp: decodeEnv_def store_ok_def split: sum.splits if_splits option.splits)

lemma merge_steps:
  "mergeFields (fieldState # fs) u b c = mergeFields fs u
     (b\<lparr>State := if State u \<noteq> [] then State u else State b\<rparr>) (c \<or> State u \<noteq> [] \<and> State b \<noteq> State u)"
  "mergeFields (fieldInformURL # fs) u b c = mergeFields fs u
     (b\<lparr>InformURL := if InformURL u \<noteq> [] then InformURL u else InformURL b\<rparr>)
     (c \<or> InformURL u \<noteq> [] \<and> InformURL b \<noteq> InformURL u)"
  "mergeFields (fieldAuthKey # fs) u b c = mergeFields fs u
     (b\<lparr>AuthKey := if AuthKey u \<noteq> [] then AuthKey u else AuthKey b\<rparr>)
     (c \<or> AuthKey u \<noteq> [] \<and> AuthKey b \<noteq> AuthKey u)"
  "mergeFields (fieldCFGVersion # fs) u b c = mergeFields fs u
     (b\<lparr>CFGVersion := if CFGVersion u \<noteq> [] then CFGVersion u else CFGVersion b\<rparr>)
     (c \<or> CFGVersion u \<noteq> [] \<and> CFGVersion b \<noteq> CFGVersion u)"
  "mergeFields (fieldUseAESGCM # fs) u b c = mergeFields fs u
     (b\<lparr>UseAESGCM := UseAESGCM b \<or> UseAESGCM u\<rparr>) (c \<or> UseAESGCM u \<and> \<not> UseAESGCM b)"
  "mergeFields (fieldVersion # fs) u b c = mergeFields fs u
     (b\<lparr>StoreVersion := if StoreVersion u \<noteq> [] then StoreVersion u else StoreVersion b\<rparr>)
     (c \<or> StoreVersion u \<noteq> [] \<and> StoreVersion b \<noteq> StoreVersion u)"
  by (cases b, simp add: parse_bool_true)+

lemma Merge_eq:
  "Merge base update =
     (let st = mergeState base update;
          m = \<lparr>InformURL = (if InformURL update \<noteq> [] then InformURL update else InformURL base),
               AuthKey = (if AuthKey update \<noteq> [] then AuthKey update else AuthKey base),
               CFGVersion = (if CFGVersion update \<noteq> [] then CFGVersion update else CFGVersion base),
               UseAESGCM = (UseAESGCM base \<or> UseAESGCM update),
               StoreVersion = (if StoreVersion update \<noteq> [] then StoreVersion update else StoreVersion base),
               State = (if st \<noteq> [] then st else State base)\<rparr>
      in (m, m \<noteq> base))"
proof -
  have "(base\<lparr>State := s, InformURL := url, AuthKey := k, CFGVersion := c, UseAESGCM := g, StoreVersion := v\<rparr> \<noteq> base) =
      (State base \<noteq> s \<or> InformURL base \<noteq> url \<or> AuthKey base \<noteq> k \<or> CFGVersion base \<noteq> c \<or> UseAESGCM base \<noteq> g \<or>
       StoreVersion base \<noteq> v)" for s url k c g v
    by (cases base) auto
  moreover have "base\<lparr>State := s, InformURL := url, AuthKey := k, CFGVersion := c, UseAESGCM := g, StoreVersion := v\<rparr> =
      \<lparr>InformURL = url, AuthKey = k, CFGVersion = c, UseAESGCM = g, StoreVersion = v, State = s\<rparr>" for s url k c g v
    by (cases base) simp
  ultimately have ne: "(\<lparr>InformURL = url, AuthKey = k, CFGVersion = c, UseAESGCM = g, StoreVersion = v, State = s\<rparr> \<noteq> base) =
      (State base \<noteq> s \<or> InformURL base \<noteq> url \<or> AuthKey base \<noteq> k \<or> CFGVersion base \<noteq> c \<or> UseAESGCM base \<noteq> g \<or>
       StoreVersion base \<noteq> v)" for s url k c g v
    by simp
  have t: "(b \<noteq> (if a \<noteq> [] then a else b)) = (a \<noteq> [] \<and> b \<noteq> a)" for a b :: string
    by auto
  show ?thesis
    unfolding Let_def ne t Merge_def storeFields_def merge_steps mergeFields.simps(1)
    by (cases base) auto
qed

lemma Merge_get:
  "InformURL (fst (Merge b u)) = (if InformURL u \<noteq> [] then InformURL u else InformURL b)"
  "AuthKey (fst (Merge b u)) = (if AuthKey u \<noteq> [] then AuthKey u else AuthKey b)"
  "CFGVersion (fst (Merge b u)) = (if CFGVersion u \<noteq> [] then CFGVersion u else CFGVersion b)"
  "UseAESGCM (fst (Merge b u)) = (UseAESGCM b \<or> UseAESGCM u)"
  "StoreVersion (fst (Merge b u)) = (if StoreVersion u \<noteq> [] then StoreVersion u else StoreVersion b)"
  "State (fst (Merge b u)) = (if mergeState b u \<noteq> [] then mergeState b u else State b)"
  by (simp_all add: Merge_eq Let_def)

text \<open>What an update learned from the controller or over SSH can be.\<close>

definition update_ok :: "adoption_store \<Rightarrow> bool" where
  "update_ok u \<longleftrightarrow> list_all (field_ok u) storeFields \<and>
     State u \<in> {[], StateAdopting, StateProvisioning, StateConnected}"

lemma authKeysEqual_Nil [simp]: "k \<noteq> [] \<Longrightarrow> \<not> authKeysEqual k []"
  by (auto simp: authKeysEqual_def normalizedAuthKey_def)

lemma state_texts [simp]:
  "validatePersistedValue StateAdopting = None" "validatePersistedValue StateProvisioning = None"
  "validatePersistedValue StateConnected = None"
  by (simp_all add: validatePersistedValue_def state_defs trim_space_ascii is_ascii_space_def)

lemma mergeState_cases:
  assumes "State u \<in> {[], StateAdopting, StateProvisioning, StateConnected}"
  shows "mergeState b u = [] \<and> (AuthKey b = [] \<longrightarrow> AuthKey u = []) \<or>
     mergeState b u \<in> {StateAdopting, StateConnected} \<and> (AuthKey u \<noteq> [] \<or> AuthKey b \<noteq> []) \<or>
     mergeState b u = StateProvisioning"
  using assms by (auto simp: mergeState_def Let_def)

lemma Merge_fields_ok:
  assumes "list_all (field_ok b) storeFields" "update_ok u"
  shows "list_all (field_ok (fst (Merge b u))) storeFields"
proof -
  have st: "mergeState b u = [] \<or> validatePersistedValue (mergeState b u) = None"
    using mergeState_cases [of u b] assms(2) by (auto simp: update_ok_def)
  note b = assms(1) [unfolded field_ok_all]
  have u: "list_all (field_ok u) storeFields" using assms(2) by (simp add: update_ok_def)
  note u = this [unfolded field_ok_all]
  show ?thesis
    unfolding field_ok_all Merge_get
  proof (intro conjI, goal_cases)
    case 1 show ?case by (cases "mergeState b u = []") (use b st in simp_all)
  next
    case 2 show ?case by (cases "InformURL u = []") (use b u in simp_all)
  next
    case 3 show ?case by (cases "AuthKey u = []") (use b u in simp_all)
  next
    case 4 show ?case by (cases "CFGVersion u = []") (use b u in simp_all)
  next
    case 5 show ?case by (cases "StoreVersion u = []") (use b u in simp_all)
  qed
qed

lemma validatePersistedStore_None:
  "validatePersistedStore s = None \<longleftrightarrow>
     State s \<in> {[], StateFactory, StateDiscovered, StateAdopting, StateProvisioning, StateConnected, StateFailed} \<and>
     (AuthKey s = [] \<longrightarrow> State s \<noteq> StateAdopting \<and> State s \<noteq> StateConnected \<and> \<not> UseAESGCM s) \<and>
     (State s = StateFactory \<longrightarrow> AuthKey s = [])"
  by (simp add: validatePersistedStore_def del: insert_iff)

lemma Merge_store_ok_iff:
  assumes "store_ok b" "update_ok u"
  shows "store_ok (fst (Merge b u)) \<longleftrightarrow> AuthKey (fst (Merge b u)) \<noteq> [] \<or> \<not> UseAESGCM (fst (Merge b u))"
proof -
  let ?m = "fst (Merge b u)"
  have f: "list_all (field_ok ?m) storeFields"
    using Merge_fields_ok assms by (simp add: store_ok_def)
  have m: "AuthKey ?m = (if AuthKey u \<noteq> [] then AuthKey u else AuthKey b)"
      "State ?m = (if mergeState b u \<noteq> [] then mergeState b u else State b)"
    by (simp_all add: Merge_eq Let_def)
  have b: "validatePersistedStore b = None" using assms(1) by (simp add: store_ok_def)
  have u: "State u \<in> {[], StateAdopting, StateProvisioning, StateConnected}"
    using assms(2) by (simp add: update_ok_def)
  have "State ?m \<in> {[], StateFactory, StateDiscovered, StateAdopting, StateProvisioning, StateConnected, StateFailed} \<and>
      (AuthKey ?m = [] \<longrightarrow> State ?m \<noteq> StateAdopting \<and> State ?m \<noteq> StateConnected) \<and>
      (State ?m = StateFactory \<longrightarrow> AuthKey ?m = [])"
    using mergeState_cases [OF u, of b] b unfolding validatePersistedStore_None m
    by (elim disjE conjE) (auto simp: state_distinct(1-6) [symmetric])
  then have "validatePersistedStore ?m = None \<longleftrightarrow> AuthKey ?m \<noteq> [] \<or> \<not> UseAESGCM ?m"
    unfolding validatePersistedStore_None by blast
  with f show ?thesis by (simp add: store_ok_def)
qed

section \<open>What mgmt_cfg can set\<close>

definition mgmt_ok :: "adoption_store \<Rightarrow> bool" where
  "mgmt_ok s \<longleftrightarrow> State s = [] \<and> StoreVersion s = [] \<and>
     (InformURL s = [] \<or> validatePersistedValue (InformURL s) = None \<and> validateInformURL (InformURL s) = None) \<and>
     (AuthKey s = [] \<or> length (AuthKey s) = 32 \<and> validatePersistedValue (AuthKey s) = None \<and>
        validateIndividualAuthKeyText (AuthKey s) True = None) \<and>
     trim_space (CFGVersion s) = CFGVersion s \<and> length (CFGVersion s) \<le> 31"

lemma hex_decode_chars: "hex_decode s = Some bs \<Longrightarrow> list_all (\<lambda>c. hex_value c \<noteq> None) s"
  by (induction s arbitrary: bs rule: hex_decode.induct) (auto split: option.splits)

lemma hex_not_ctl: "hex_value c = Some x \<Longrightarrow> 48 \<le> ord c \<and> ord c \<le> 102"
  by (auto simp: hex_value_def split: if_splits)

lemma no_ctl_value:
  "validatePersistedValue v = None \<longleftrightarrow> trim_space v = v \<and> list_all (\<lambda>c. \<not> (ord c < 32 \<or> ord c = 127)) v"
  by (auto simp: validatePersistedValue_def list_ex_iff list_all_iff)

lemma mgmt_authkey_ok:
  assumes "validateMgmtField ''authkey'' v = None" "trim_space v = v"
  shows "length v = 32 \<and> validatePersistedValue v = None \<and> validateIndividualAuthKeyText v True = None"
proof -
  have l: "length v = 32" and t: "validateIndividualAuthKeyText v False = None"
    using assms(1) by (auto simp: validateMgmtField_eqs split: if_splits)
  then obtain bs where "hex_decode v = Some bs"
    by (auto simp: validateIndividualAuthKeyText_def Let_def split: option.splits)
  then have "list_all (\<lambda>c. hex_value c \<noteq> None) v" by (rule hex_decode_chars)
  then have "list_all (\<lambda>c. \<not> (ord c < 32 \<or> ord c = 127)) v"
    by (induction v) (fastforce dest: hex_not_ctl)+
  with l t assms(2) show ?thesis
    by (simp add: no_ctl_value validateIndividualAuthKeyText_def)
qed

lemma url_Parse_no_ctl:
  assumes "url_Parse raw = Some u" "CHR ''#'' \<notin> set raw"
  shows "\<not> list_ex ctl_byte raw"
proof -
  have "go_cut CHR ''#'' raw = None" using assms(2) by (induction raw) auto
  then show ?thesis
    using assms(1) by (auto simp: url_Parse_def parse_no_fragment_def split: if_splits)
qed

lemma validateInformURL_text:
  assumes "validateInformURL v = None" "trim_space v = v"
  shows "validatePersistedValue v = None"
proof -
  obtain u where "url_Parse v = Some u" "\<not> go_contains v ''#''"
    using assms(1) by (auto simp: validateInformURL_def split: if_splits option.splits)
  then have "\<not> list_ex ctl_byte v" using url_Parse_no_ctl by simp
  then show ?thesis using assms(2) by (auto simp: no_ctl_value ctl_byte_def list_ex_iff list_all_iff)
qed

lemma mgmtKeys:
  "mgmtKey fieldState = []" "mgmtKey fieldInformURL = ''inform_url''" "mgmtKey fieldAuthKey = ''authkey''"
  "mgmtKey fieldCFGVersion = ''cfgversion''" "mgmtKey fieldUseAESGCM = ''use_aes_gcm''" "mgmtKey fieldVersion = []"
  by (simp_all add: field_defs)

lemma mgmtKey_cases:
  assumes "storeFieldByMgmtKey key = Some f"
  shows "key = ''inform_url'' \<and> f = fieldInformURL \<or> key = ''authkey'' \<and> f = fieldAuthKey \<or>
    key = ''cfgversion'' \<and> f = fieldCFGVersion \<or> key = ''use_aes_gcm'' \<and> f = fieldUseAESGCM"
proof -
  have "f \<in> set storeFields" "mgmtKey f \<noteq> []" "mgmtKey f = key"
    using assms by (auto simp: storeFieldByMgmtKey_def find_Some_iff)
  moreover have "f = fieldState \<or> f = fieldInformURL \<or> f = fieldAuthKey \<or> f = fieldCFGVersion \<or>
      f = fieldUseAESGCM \<or> f = fieldVersion"
    using \<open>f \<in> set storeFields\<close> by (simp add: storeFields_def)
  ultimately show ?thesis using mgmtKeys by (elim disjE) simp_all
qed

lemma mgmt_set_ok:
  assumes "storeFieldByMgmtKey key = Some f" "validateMgmtField key (trim_space v) = None" "mgmt_ok s"
  shows "mgmt_ok (setField f (trim_space v) s)"
  using mgmtKey_cases [OF assms(1)]
proof (elim disjE conjE)
  assume k: "key = ''inform_url''" "f = fieldInformURL"
  then have "validateInformURL (trim_space v) = None" using assms(2) by (simp add: validateMgmtField_eqs)
  then show ?thesis using k assms(3) validateInformURL_text by (simp add: mgmt_ok_def)
next
  assume k: "key = ''authkey''" "f = fieldAuthKey"
  then show ?thesis using mgmt_authkey_ok [of "trim_space v"] assms by (simp add: mgmt_ok_def)
next
  assume k: "key = ''cfgversion''" "f = fieldCFGVersion"
  then have "length (trim_space v) \<le> 31"
    using assms(2) by (simp add: validateMgmtField_eqs split: if_splits)
  then show ?thesis using k assms(3) by (simp add: mgmt_ok_def)
next
  assume "key = ''use_aes_gcm''" "f = fieldUseAESGCM"
  then show ?thesis using assms(3) by (simp add: mgmt_ok_def)
qed

lemma parseMgmtLines_ok: "parseMgmtLines ls s = Inr s' \<Longrightarrow> mgmt_ok s \<Longrightarrow> mgmt_ok s'"
  by (induction ls arbitrary: s)
    (auto simp: Let_def mgmt_set_ok split: if_splits option.splits prod.splits)

text \<open>A line that names a field of the table.\<close>

definition allowlisted :: "string \<Rightarrow> bool" where
  "allowlisted line \<longleftrightarrow>
     (case go_cut CHR ''='' (trim_space line) of
        None \<Rightarrow> False
      | Some (key, _) \<Rightarrow> storeFieldByMgmtKey key \<noteq> None)"

lemma parseMgmtLines_allowlisted:
  "parseMgmtLines ls s = Inr s' \<Longrightarrow> parseMgmtLines (filter allowlisted ls) s = Inr s'"
  by (induction ls arbitrary: s)
    (auto simp: Let_def allowlisted_def split: if_splits option.splits prod.splits)

lemma parseMgmtCFG_mgmt_ok: "parseMgmtCFG t = Inr s \<Longrightarrow> mgmt_ok s"
  by (rule parseMgmtLines_ok [of "go_split CHR 0x0A t" emptyStore])
    (auto simp: parseMgmtCFG_def Let_def mgmt_ok_def emptyStore_def split: if_splits)

lemma mgmt_ok_update:
  assumes "mgmt_ok s" "st \<in> {[], StateAdopting, StateProvisioning, StateConnected}"
    and "list_all (\<lambda>c. \<not> (ord c < 32 \<or> ord c = 127)) (CFGVersion s)"
  shows "update_ok (s\<lparr>State := st\<rparr>)"
proof -
  have "st = [] \<or> validatePersistedValue st = None" using assms(2) by auto
  then show ?thesis
    using assms unfolding mgmt_ok_def update_ok_def field_ok_all by (simp add: no_ctl_value) blast
qed

section \<open>A durable encoded value\<close>

text \<open>
  The contract a client of the state file relies on: the replacement laws of \<open>Atomic_File\<close>, an
  encoder and decoder that agree on valid values, and a decoder that returns sound values only.
\<close>

locale durable_codec = replacement wr fresh
  for wr :: "'env \<Rightarrow> path \<Rightarrow> bytes \<Rightarrow> nat \<Rightarrow> fs \<Rightarrow> fs \<times> 'err option"
    and fresh :: "'env \<Rightarrow> fs \<Rightarrow> path \<Rightarrow> bool" +
  fixes encode :: "'a \<Rightarrow> bytes"
    and decode :: "bytes \<Rightarrow> 'e + 'a"
    and valid :: "'a \<Rightarrow> bool"
    and sound :: "'a \<Rightarrow> bool"
  assumes decode_encoded: "valid x \<Longrightarrow> decode (encode x) = Inr x"
    and decode_sound: "decode d = Inr x \<Longrightarrow> sound x"
begin

definition stored :: "fs \<Rightarrow> path \<Rightarrow> ('e + 'a) option" where
  "stored fs p = map_option decode (read_data fs p)"

lemma stored_after_ok:
  "fresh env fs p \<Longrightarrow> valid x \<Longrightarrow> wr env p (encode x) m fs = (fs', None) \<Longrightarrow> stored fs' p = Some (Inr x)"
  using write_ok [of env fs p "encode x" m fs'] by (simp add: stored_def decode_encoded)

lemma stored_after_write:
  assumes "fresh env fs p" "valid x"
  shows "stored (fst (wr env p (encode x) m fs)) p \<in> {stored fs p, Some (Inr x)}"
  using write_old_or_new [OF assms(1), of "encode x" m] decode_encoded [OF assms(2)]
  by (auto simp: stored_def)

lemma valid_sound: "valid x \<Longrightarrow> sound x"
  using decode_encoded decode_sound by blast

end

interpretation env: durable_codec WriteFile temp_fresh encodeEnv decodeEnv
  "\<lambda>s. validateStoreForPersistence s = None" store_ok
  by unfold_locales (simp_all add: decode_encode decodeEnv_ok)

lemma LoadEnv_stored:
  "LoadEnv (read_file fs p) = (case env.stored fs p of None \<Rightarrow> Inl FileNotExist | Some r \<Rightarrow> r)"
  by (auto simp: LoadEnv_def read_file_def env.stored_def split: option.splits)

lemma SaveEnv_cases:
  "SaveEnv sys p s fs = (fs', r) \<Longrightarrow>
     (r \<noteq> None \<and> fs' = fs) \<or>
     (validateStoreForPersistence s = None \<and> p \<noteq> [] \<and> fs' = fst (WriteFile sys p (encodeEnv s) 384 fs) \<and>
      (r = None \<longleftrightarrow> snd (WriteFile sys p (encodeEnv s) 384 fs) = None))"
  by (auto simp: SaveEnv_def split: if_splits option.splits prod.splits)

lemma SaveEnv_ok:
  assumes "temp_fresh sys fs p" "SaveEnv sys p s fs = (fs', None)"
  shows "LoadEnv (read_file fs' p) = Inr s \<and> store_ok s"
proof -
  have v: "validateStoreForPersistence s = None"
    and w: "WriteFile sys p (encodeEnv s) 384 fs = (fs', None)"
    using SaveEnv_cases [OF assms(2)] by (auto simp: prod_eq_iff)
  show ?thesis
    using env.stored_after_ok [OF assms(1) v w] env.valid_sound [OF v] by (simp add: LoadEnv_stored)
qed

lemma SaveEnv_old_or_new:
  assumes "temp_fresh sys fs p" "SaveEnv sys p s fs = (fs', r)"
  shows "LoadEnv (read_file fs' p) = LoadEnv (read_file fs p) \<or>
     LoadEnv (read_file fs' p) = Inr s \<and> store_ok s"
  using SaveEnv_cases [OF assms(2)]
proof (elim disjE conjE)
  assume v: "validateStoreForPersistence s = None" and w: "fs' = fst (WriteFile sys p (encodeEnv s) 384 fs)"
  have "env.stored fs' p \<in> {env.stored fs p, Some (Inr s)}"
    unfolding w by (rule env.stored_after_write [OF assms(1) v])
  then show ?thesis using env.valid_sound [OF v] by (auto simp: LoadEnv_stored)
qed simp

lemma SaveEnv_frame:
  assumes "temp_fresh sys fs p" "SaveEnv sys p s fs = (fs', r)" "q \<noteq> p"
  shows "fs' q = fs q"
  using SaveEnv_cases [OF assms(2)] af.write_frame [OF assms(1,3)] by auto

text \<open>A run of saves, whatever each of them returned.\<close>

fun saveAll :: "path \<Rightarrow> (syscalls \<times> adoption_store) list \<Rightarrow> fs \<Rightarrow> fs" where
  "saveAll p [] fs = fs"
| "saveAll p ((sys, s) # ws) fs = saveAll p ws (fst (SaveEnv sys p s fs))"

fun saveAll_fresh :: "path \<Rightarrow> (syscalls \<times> adoption_store) list \<Rightarrow> fs \<Rightarrow> bool" where
  "saveAll_fresh p [] fs = True"
| "saveAll_fresh p ((sys, s) # ws) fs =
     (temp_fresh sys fs p \<and> saveAll_fresh p ws (fst (SaveEnv sys p s fs)))"

lemma saveAll_content:
  "saveAll_fresh p ws fs \<Longrightarrow>
     LoadEnv (read_file (saveAll p ws fs) p) = LoadEnv (read_file fs p) \<or>
     (\<exists>s. LoadEnv (read_file (saveAll p ws fs) p) = Inr s \<and> store_ok s \<and> s \<in> snd ` set ws)"
proof (induction ws arbitrary: fs)
  case (Cons w ws)
  obtain sys s where w: "w = (sys, s)" by fastforce
  obtain fs' r where sv: "SaveEnv sys p s fs = (fs', r)" by fastforce
  have "LoadEnv (read_file (saveAll p ws fs') p) = LoadEnv (read_file fs' p) \<or>
     (\<exists>s. LoadEnv (read_file (saveAll p ws fs') p) = Inr s \<and> store_ok s \<and> s \<in> snd ` set ws)"
    using Cons.IH [of fs'] Cons.prems w sv by simp
  moreover have "LoadEnv (read_file fs' p) = LoadEnv (read_file fs p) \<or>
     LoadEnv (read_file fs' p) = Inr s \<and> store_ok s"
    using SaveEnv_old_or_new [OF _ sv] Cons.prems w by simp
  ultimately show ?case using w sv by auto
qed simp

lemma hex_encode_inj: "hex_encode a = hex_encode b \<Longrightarrow> a = b"
  by (metis hex_roundtrip option.inject)

lemma authkey_text_ok:
  assumes "validateIndividualAuthKeyText v True = None"
  shows "normalizedAuthKey v \<noteq> None \<and> normalizedAuthKey v \<noteq> Some (hex_encode DefaultAuthKey)"
proof -
  have ne: "length k = 16 \<Longrightarrow> \<not> IsDefaultAuthKey k \<Longrightarrow> hex_encode k \<noteq> hex_encode DefaultAuthKey" for k
    by (auto simp: IsDefaultAuthKey_def dest: hex_encode_inj)
  show ?thesis
  proof (cases "length v = 16")
    case True
    then show ?thesis
      using assms ne [of "bytes_of v"]
      by (auto simp: validateIndividualAuthKeyText_def normalizedAuthKey_def split: if_splits)
  next
    case False
    then obtain k where k: "length v = 32" "hex_decode v = Some k" "\<not> IsDefaultAuthKey k"
      using assms by (auto simp: validateIndividualAuthKeyText_def Let_def split: if_splits option.splits)
    then have "length k = 16" using hex_decode_length by fastforce
    with ne k show ?thesis by (simp add: normalizedAuthKey_def)
  qed
qed

lemma validateInformURL_D:
  "validateInformURL v = None \<Longrightarrow> \<exists>u. url_Parse v = Some u \<and> urlScheme u \<in> {''http'', ''https''} \<and>
     Hostname u \<noteq> [] \<and> \<not> urlUser u \<and> urlRawQuery u = [] \<and> urlFragment u = []"
  by (auto simp: validateInformURL_def split: if_splits option.splits)

section \<open>Properties\<close>

definition sampleKey :: string where "sampleKey = ''00112233445566778899aabbccddeeff''"

definition sampleStore :: adoption_store where
  "sampleStore = \<lparr>InformURL = ''http://unifi:8080/inform'', AuthKey = sampleKey,
     CFGVersion = ''1a2b'', UseAESGCM = True, StoreVersion = [], State = StateConnected\<rparr>"

lemma sampleKey_ok: "validatePersistedValue sampleKey = None" "validateIndividualAuthKeyText sampleKey True = None"
    "validateIndividualAuthKeyText sampleKey False = None" "length sampleKey = 32"
proof -
  have "list_all (\<lambda>c. ord c < 128 \<and> \<not> is_ascii_space c) sampleKey"
    by (simp add: sampleKey_def is_ascii_space_def)
  from trim_space_ascii [OF this] show "validatePersistedValue sampleKey = None"
    by (simp add: validatePersistedValue_def) (simp add: sampleKey_def)
  show l: "length sampleKey = 32" by (simp add: sampleKey_def)
  have "hex_decode sampleKey = Some [0, 17, 34, 51, 68, 85, 102, 119, 136, 153, 170, 187, 204, 221, 238, 255]"
    by (simp add: sampleKey_def hex_value_def)
  with l show "validateIndividualAuthKeyText sampleKey True = None" "validateIndividualAuthKeyText sampleKey False = None"
    by (simp_all add: validateIndividualAuthKeyText_def Let_def IsDefaultAuthKey_def DefaultAuthKey_bytes)
qed

lemma sampleKey_nonempty [simp]: "sampleKey \<noteq> []"
  using sampleKey_ok(4) by auto

lemma sampleURL_ok: "validateInformURL ''http://unifi:8080/inform'' = None"
  by code_simp

lemma ascii_value:
  "list_all (\<lambda>c. 32 < ord c \<and> ord c < 127) v \<Longrightarrow> validatePersistedValue v = None"
proof -
  assume v: "list_all (\<lambda>c. 32 < ord c \<and> ord c < 127) v"
  then have "list_all (\<lambda>c. ord c < 128 \<and> \<not> is_ascii_space c) v"
    by (induction v) (auto simp: is_ascii_space_def)
  moreover have "list_all (\<lambda>c. \<not> (ord c < 32 \<or> ord c = 127)) v"
    using v by (induction v) auto
  ultimately show ?thesis by (simp only: no_ctl_value trim_space_ascii)
qed

lemma sampleStore_ok: "store_ok sampleStore"
  unfolding store_ok_def field_ok_all validatePersistedStore_None
  by (simp add: sampleStore_def sampleKey_ok sampleURL_ok ascii_value)

lemma sampleStore_valid: "validateStoreForPersistence sampleStore = None"
  unfolding validateStoreForPersistence_iff
  using sampleStore_ok by (simp add: storeFields_def sampleStore_def)

text \<open>C33: a store that \<open>SaveEnv\<close> accepted and wrote is exactly what \<open>LoadEnv\<close> reads back from the file, and
  no other file changed.\<close>

theorem LoadEnv_SaveEnv:
  assumes "temp_fresh sys fs path" and "SaveEnv sys path store fs = (fs', None)"
  shows "LoadEnv (read_file fs' path) = Inr store \<and> (\<forall>q. q \<noteq> path \<longrightarrow> fs' q = fs q)"
  using SaveEnv_ok [OF assms] SaveEnv_frame [OF assms] by blast

theorem LoadEnv_SaveEnv_witness:
  "\<exists>fs'. SaveEnv (sys_ok ''/t'') ''/s'' sampleStore Map.empty = (fs', None) \<and>
     LoadEnv (read_file fs' ''/s'') = Inr sampleStore"
proof -
  have f: "temp_fresh (sys_ok ''/t'') Map.empty ''/s''" by (simp add: temp_fresh_def sys_ok_def)
  have "snd (SaveEnv (sys_ok ''/t'') ''/s'' sampleStore Map.empty) = None"
    by (simp add: SaveEnv_def sampleStore_valid WriteFile_def sys_ok_def write_step_defs)
  then obtain fs' where "SaveEnv (sys_ok ''/t'') ''/s'' sampleStore Map.empty = (fs', None)"
    by (metis prod.collapse)
  with LoadEnv_SaveEnv [OF f] show ?thesis by blast
qed



text \<open>C31: loading fails closed. A store that \<open>LoadEnv\<close> returns has a known lifecycle state, carries a key
  whenever it is adopting, connected or uses AES-GCM and none in factory state, its key is not the
  public default key in either spelling, and its inform URL is an absolute HTTP(S) URL without user
  information, query or fragment.\<close>

theorem LoadEnv_sound:
  assumes "LoadEnv rd = Inr s"
  shows "State s \<in> {[], StateFactory, StateDiscovered, StateAdopting, StateProvisioning, StateConnected, StateFailed} \<and>
    (State s = StateAdopting \<or> State s = StateConnected \<or> UseAESGCM s \<longrightarrow> AuthKey s \<noteq> []) \<and>
    (State s = StateFactory \<longrightarrow> AuthKey s = []) \<and>
    (AuthKey s \<noteq> [] \<longrightarrow> normalizedAuthKey (AuthKey s) \<noteq> None \<and>
       normalizedAuthKey (AuthKey s) \<noteq> Some (hex_encode DefaultAuthKey)) \<and>
    (InformURL s \<noteq> [] \<longrightarrow> (\<exists>u. url_Parse (InformURL s) = Some u \<and> urlScheme u \<in> {''http'', ''https''} \<and>
       Hostname u \<noteq> [] \<and> \<not> urlUser u \<and> urlRawQuery u = [] \<and> urlFragment u = []))"
proof -
  have ok: "store_ok s" using assms decodeEnv_ok by (auto simp: LoadEnv_def split: read_result.splits)
  have "AuthKey s \<noteq> [] \<Longrightarrow> validateIndividualAuthKeyText (AuthKey s) True = None"
    using ok by (auto simp: store_ok_def field_ok_all)
  then have k: "AuthKey s \<noteq> [] \<longrightarrow> normalizedAuthKey (AuthKey s) \<noteq> None \<and>
       normalizedAuthKey (AuthKey s) \<noteq> Some (hex_encode DefaultAuthKey)"
    using authkey_text_ok by blast
  have u: "InformURL s \<noteq> [] \<longrightarrow> (\<exists>u. url_Parse (InformURL s) = Some u \<and> urlScheme u \<in> {''http'', ''https''} \<and>
       Hostname u \<noteq> [] \<and> \<not> urlUser u \<and> urlRawQuery u = [] \<and> urlFragment u = [])"
    using ok validateInformURL_D by (auto simp: store_ok_def field_ok_all)
  show ?thesis using ok k u unfolding store_ok_def validatePersistedStore_None by blast
qed

theorem LoadEnv_sound_witness:
  "LoadEnv (ReadOk (encodeEnv sampleStore)) = Inr sampleStore \<and>
   normalizedAuthKey (AuthKey sampleStore) \<noteq> Some (hex_encode DefaultAuthKey)"
proof -
  have "LoadEnv (ReadOk (encodeEnv sampleStore)) = Inr sampleStore"
    by (simp add: LoadEnv_def decode_encode [OF sampleStore_valid])
  with LoadEnv_sound [OF this] show ?thesis by (simp add: sampleStore_def)
qed

lemma Merge_valid_iff:
  assumes "store_ok base" and "update_ok update" and "snd (Merge base update)"
  shows "validateStoreForPersistence (fst (Merge base update)) = None \<longleftrightarrow>
    AuthKey base \<noteq> [] \<or> AuthKey update \<noteq> [] \<or> \<not> (UseAESGCM base \<or> UseAESGCM update)"
proof -
  let ?m = "fst (Merge base update)"
  have "?m \<noteq> base" using assms(3) by (simp add: Merge_eq Let_def)
  moreover have "base = ?m" if "\<not> list_ex (\<lambda>f. getField f ?m \<noteq> []) storeFields"
    using that by (cases base) (auto simp: Merge_eq Let_def storeFields_def split: if_splits)
  ultimately have "list_ex (\<lambda>f. getField f ?m \<noteq> []) storeFields" by metis
  then have "validateStoreForPersistence ?m = None \<longleftrightarrow> AuthKey ?m \<noteq> [] \<or> \<not> UseAESGCM ?m"
    using Merge_store_ok_iff [OF assms(1,2)] by (simp add: validateStoreForPersistence_iff)
  then show ?thesis by (auto simp: Merge_eq Let_def)
qed

text \<open>merging a validated update into a valid store gives a store that can be persisted exactly when
  it does not claim AES-GCM without an individual key; no other combination of base and update
  makes \<open>SaveEnv\<close> refuse the merged state.\<close>

theorem Merge_persistable:
  assumes "store_ok base" and "update_ok update" and "snd (Merge base update)"
  shows "validateStoreForPersistence (fst (Merge base update)) = None \<longleftrightarrow>
    AuthKey base \<noteq> [] \<or> AuthKey update \<noteq> [] \<or> \<not> (UseAESGCM base \<or> UseAESGCM update)"
  by (rule Merge_valid_iff [OF assms])

definition sampleUpdate :: adoption_store where
  "sampleUpdate = emptyStore\<lparr>AuthKey := sampleKey, UseAESGCM := True, State := StateConnected\<rparr>"

lemma factoryStore_ok: "store_ok factoryStore"
  unfolding store_ok_def field_ok_all validatePersistedStore_None
  by (simp add: factoryStore_def emptyStore_def state_defs ascii_value)

lemma sampleUpdate_ok: "update_ok sampleUpdate"
  unfolding update_ok_def field_ok_all
  by (simp add: sampleUpdate_def emptyStore_def sampleKey_ok)

theorem Merge_persistable_witness:
  "validateStoreForPersistence (fst (Merge factoryStore sampleUpdate)) = None \<and>
   validateStoreForPersistence (fst (Merge factoryStore (sampleUpdate\<lparr>AuthKey := []\<rparr>))) \<noteq> None"
proof -
  have c: "snd (Merge factoryStore sampleUpdate)" "snd (Merge factoryStore (sampleUpdate\<lparr>AuthKey := []\<rparr>))"
    by (simp_all add: Merge_eq Let_def factoryStore_def emptyStore_def sampleUpdate_def)
  have u: "update_ok (sampleUpdate\<lparr>AuthKey := []\<rparr>)"
    using sampleUpdate_ok unfolding update_ok_def field_ok_all by simp
  show ?thesis
    using Merge_persistable [OF factoryStore_ok sampleUpdate_ok c(1)]
      Merge_persistable [OF factoryStore_ok u c(2)]
    by (simp add: sampleUpdate_def factoryStore_def emptyStore_def)
qed

lemma Merge_unchanged:
  assumes "InformURL u \<in> {[], InformURL b}" "AuthKey u \<in> {[], AuthKey b}" "CFGVersion u \<in> {[], CFGVersion b}"
    "UseAESGCM u \<longrightarrow> UseAESGCM b" "StoreVersion u \<in> {[], StoreVersion b}" "mergeState b u \<in> {[], State b}"
  shows "\<not> snd (Merge b u)"
proof -
  have "fst (Merge b u) = b"
    by (rule adoption_store.equality) (use assms in \<open>auto simp: Merge_get\<close>)
  then show ?thesis by (simp add: Merge_eq Let_def)
qed

lemma mergeState_changed:
  "State u = StateConnected \<and> AuthKey u \<noteq> [] \<Longrightarrow> mergeState b u = StateAdopting"
  "AuthKey u \<noteq> [] \<and> \<not> authKeysEqual (AuthKey u) (AuthKey b) \<Longrightarrow> mergeState b u = StateAdopting"
  "InformURL u \<noteq> [] \<and> InformURL u \<noteq> InformURL b \<Longrightarrow>
     mergeState b u = (if AuthKey u \<noteq> [] \<or> AuthKey b \<noteq> [] then StateAdopting else StateProvisioning)"
  by (simp_all add: mergeState_def Let_def)

lemma mergeState_plain:
  "State u = StateConnected \<and> AuthKey u = [] \<and> (InformURL u = [] \<or> InformURL u = InformURL b) \<Longrightarrow>
     mergeState b u = (if AuthKey b \<noteq> [] then StateConnected else [])"
  by (simp add: mergeState_def Let_def)

lemma mergeState_repeat:
  assumes "State u = StateAdopting \<or> State u = StateProvisioning"
  shows "mergeState (fst (Merge b u)) u \<in> {[], State (fst (Merge b u))}"
proof (cases "State u = StateProvisioning \<and> AuthKey u = [] \<and> AuthKey b = []")
  case True
  then have "mergeState b u = StateProvisioning" by (simp add: mergeState_def Let_def)
  with True show ?thesis by (simp add: Merge_get mergeState_def [of "fst (Merge b u)"] Let_def)
next
  case False
  with assms show ?thesis
    by (auto simp: mergeState_def [of "fst (Merge b u)"] Merge_get(1,2) Let_def authKeysEqual_def)
qed

lemma Merge_repeat:
  assumes "State u = StateAdopting \<or> State u = StateProvisioning"
  shows "\<not> snd (Merge (fst (Merge b u)) u)"
  by (rule Merge_unchanged) (use mergeState_repeat [OF assms] in \<open>simp_all add: Merge_get(1-5)\<close>)

text \<open>C32: the lifecycle transition of \<open>Merge\<close>. An authkey sent by the controller, a changed key or a
  changed inform URL reopens adoption (with a key) or provisioning (without one); a plain success
  moves a keyed device to connected and leaves a keyless one where it was; and repeating a local
  update changes nothing the second time.\<close>

theorem Merge_lifecycle:
  fixes base update :: adoption_store
  defines "m \<equiv> fst (Merge base update)"
  shows "(State update = StateConnected \<and> AuthKey update \<noteq> [] \<longrightarrow> State m = StateAdopting) \<and>
    (InformURL update \<noteq> [] \<and> InformURL update \<noteq> InformURL base \<longrightarrow>
       State m = (if AuthKey m \<noteq> [] then StateAdopting else StateProvisioning)) \<and>
    (AuthKey update \<noteq> [] \<and> \<not> authKeysEqual (AuthKey update) (AuthKey base) \<longrightarrow> State m = StateAdopting) \<and>
    (State update = StateConnected \<and> AuthKey update = [] \<and> InformURL update \<in> {[], InformURL base} \<longrightarrow>
       State m = (if AuthKey base \<noteq> [] then StateConnected else State base)) \<and>
    (State update \<in> {StateAdopting, StateProvisioning} \<longrightarrow> \<not> snd (Merge m update))"
  unfolding m_def using Merge_repeat [of update base] Merge_get [of base update]
    mergeState_changed [of update base] mergeState_plain [of update base]
  by simp

theorem Merge_lifecycle_witness:
  "State (fst (Merge factoryStore sampleUpdate)) = StateAdopting"
  using Merge_lifecycle [of sampleUpdate factoryStore] by (simp add: sampleUpdate_def emptyStore_def)

text \<open>what a controller can set through \<open>mgmt_cfg\<close>. A parsed block never carries a lifecycle state or a
  version, its key is 32 hexadecimal digits other than the public default key, its URL is one that
  may be persisted and its \<open>cfgversion\<close> is short; and every line whose key is not in the table, or that
  has no \<open>=\<close>, is without influence on the result.\<close>

theorem parseMgmtCFG_sound:
  assumes "parseMgmtCFG text = Inr s"
  shows "State s = [] \<and> StoreVersion s = [] \<and>
    (InformURL s \<noteq> [] \<longrightarrow> validateInformURL (InformURL s) = None) \<and>
    (AuthKey s \<noteq> [] \<longrightarrow> length (AuthKey s) = 32 \<and> normalizedAuthKey (AuthKey s) \<notin> {None, Some (hex_encode DefaultAuthKey)}) \<and>
    length (CFGVersion s) \<le> 31 \<and>
    parseMgmtLines (filter allowlisted (go_split CHR 0x0A text)) emptyStore = Inr s"
proof -
  have "parseMgmtLines (go_split CHR 0x0A text) emptyStore = Inr s"
    using assms by (auto simp: parseMgmtCFG_def Let_def split: if_splits)
  then have "parseMgmtLines (filter allowlisted (go_split CHR 0x0A text)) emptyStore = Inr s"
    by (rule parseMgmtLines_allowlisted)
  then show ?thesis
    using parseMgmtCFG_mgmt_ok [OF assms] authkey_text_ok [of "AuthKey s"] unfolding mgmt_ok_def by auto
qed

theorem parseMgmtCFG_sound_witness:
  "\<exists>s. parseMgmtCFG (''cfgversion=9f'' @ [CHR 0x0A] @ ''led_enabled=true'') = Inr s \<and> CFGVersion s = ''9f'' \<and> StoreVersion s = []"
proof -
  let ?t = "''cfgversion=9f'' @ [CHR 0x0A] @ ''led_enabled=true''"
  have "storeFieldByMgmtKey ''cfgversion'' = Some fieldCFGVersion" "storeFieldByMgmtKey ''led_enabled'' = None"
    by (simp_all add: storeFieldByMgmtKey_def storeFields_def mgmtKeys)
  then have p: "parseMgmtCFG ?t = Inr (emptyStore\<lparr>CFGVersion := ''9f''\<rparr>)"
    by (simp add: parseMgmtCFG_def maxMgmtCFGBytes_def maxMgmtCFGLines_def maxMgmtCFGLine_def
        trim_space_ascii is_ascii_space_def validateMgmtField_eqs)
  show ?thesis using p parseMgmtCFG_sound [OF p] by simp
qed

end
