(* ===== verification/Adoption_Response.thy ===== *)
theory Adoption_Response
  imports Go_Json Adoption_Store
begin

text \<open>
  The sanitizer of controller responses in \<open>internal/adoption\<close>: \<open>json.go\<close>, \<open>content_blocks.go\<close>,
  \<open>response.go\<close>, \<open>safety.go\<close> and \<open>blocks.go\<close>. A JSON document is the \<open>string\<close> of its bytes; a
  \<open>json.RawMessage\<close> that is absent from a map is the empty string.
\<close>

section \<open>Bounded tokenization (json.go)\<close>

definition MaxControllerJSONBytes :: nat where "MaxControllerJSONBytes = 4 * 1024 * 1024"
definition MaxControllerJSONDepth :: nat where "MaxControllerJSONDepth = 64"
definition MaxControllerJSONTokens :: nat where "MaxControllerJSONTokens = 65536"

datatype json_error =
    LimitBytes | LimitTokens | LimitDepth
  | InvalidJSON | MultipleTopLevel | EmptyJSON

definition is_jsonLimitError :: "json_error \<Rightarrow> bool" where
  "is_jsonLimitError e \<longleftrightarrow> e \<in> {LimitBytes, LimitTokens, LimitDepth}"

fun limitLoop :: "tok_end \<Rightarrow> int \<Rightarrow> nat \<Rightarrow> bool \<Rightarrow> json_item list \<Rightarrow> json_error option" where
  "limitLoop e depth tokens rootComplete [] =
     (if e = TokError then Some InvalidJSON
      else if \<not> rootComplete then Some EmptyJSON
      else None)"
| "limitLoop e depth tokens rootComplete ((t, _, _) # ts) =
     (if rootComplete then Some MultipleTopLevel
      else if tokens + 1 > MaxControllerJSONTokens then Some LimitTokens
      else if is_open t then
        (if depth + 1 > int MaxControllerJSONDepth then Some LimitDepth
         else limitLoop e (depth + 1) (tokens + 1) rootComplete ts)
      else if is_close t then
        limitLoop e (depth - 1) (tokens + 1) (rootComplete \<or> depth - 1 = 0) ts
      else limitLoop e depth (tokens + 1) (rootComplete \<or> depth = 0) ts)"

definition validateJSONLimits :: "string \<Rightarrow> json_error option" where
  "validateJSONLimits data =
     (if length data > MaxControllerJSONBytes then Some LimitBytes
      else (case json_stream data of (ts, e) \<Rightarrow> limitLoop e 0 0 False ts))"

definition jsonString :: "string \<Rightarrow> string" where
  "jsonString raw =
     (if raw = [] then []
      else (case unmarshal_string raw of Some v \<Rightarrow> trim_space v | None \<Rightarrow> []))"

definition jsonInt :: "string \<Rightarrow> int" where
  "jsonInt raw =
     (if raw = [] then 0 else (case unmarshal_int raw of Some v \<Rightarrow> v | None \<Rightarrow> 0))"

definition topLevelJSONKeys :: "string \<Rightarrow> string list" where
  "topLevelJSONKeys data =
     (case unmarshal_raw_map data of
        None \<Rightarrow> []
      | Some None \<Rightarrow> []
      | Some (Some object) \<Rightarrow> filter (\<lambda>key. object key \<noteq> None) [''ubntconf'', ''udapi''])"

definition summarizeSystemCFG :: "string \<Rightarrow> json_error + (nat \<times> string list)" where
  "summarizeSystemCFG raw0 =
     (let raw = trim_space raw0 in
      if raw = [] then Inr (0, [])
      else let payload = (case unmarshal_string raw of Some text \<Rightarrow> trim_space text | None \<Rightarrow> raw) in
        case validateJSONLimits payload of
          Some e \<Rightarrow> if is_jsonLimitError e then Inl e else Inr (length payload, [])
        | None \<Rightarrow> Inr (length payload, topLevelJSONKeys payload))"

section \<open>Content blocks (content_blocks.go)\<close>

definition maxControllerBlockCount :: nat where "maxControllerBlockCount = 256"
definition maxControllerBlockName :: nat where "maxControllerBlockName = 128"

datatype block_error = BlockCount nat | BlockNameLong | BlockNameUTF8 | BlockNameControl

record contentBlockItem =
  stringID :: string
  objectID :: string

text \<open>\<open>unicode.IsControl\<close> on a rune given by its UTF-8 bytes: U+0000..U+001F and U+007F..U+009F.\<close>

fun is_control_rune :: "string \<Rightarrow> bool" where
  "is_control_rune [c] = (ord c < 32 \<or> ord c = 127)"
| "is_control_rune [a, b] = (ord a = 194 \<and> ord b < 160)"
| "is_control_rune _ = False"

definition validateContentBlockID :: "string \<Rightarrow> block_error option" where
  "validateContentBlockID bid =
     (if length bid > maxControllerBlockName then Some BlockNameLong
      else if \<not> utf8_valid bid then Some BlockNameUTF8
      else if list_ex is_control_rune (go_runes bid) then Some BlockNameControl
      else None)"

fun contentBlockLoop :: "string list \<Rightarrow> block_error + contentBlockItem list" where
  "contentBlockLoop [] = Inr []"
| "contentBlockLoop (rawItem # rest) =
     (case unmarshal_string rawItem of
        Some sid \<Rightarrow>
          (case validateContentBlockID sid of
             Some e \<Rightarrow> Inl e
           | None \<Rightarrow>
               map_sum id (\<lambda>items. \<lparr>stringID = sid, objectID = []\<rparr> # items) (contentBlockLoop rest))
      | None \<Rightarrow>
          (case unmarshal_raw_map rawItem of
             Some (Some object) \<Rightarrow>
               (case unmarshal_string (case object ''id'' of Some r \<Rightarrow> r | None \<Rightarrow> []) of
                  None \<Rightarrow> contentBlockLoop rest
                | Some oid \<Rightarrow>
                    if oid = [] then contentBlockLoop rest
                    else (case validateContentBlockID oid of
                            Some e \<Rightarrow> Inl e
                          | None \<Rightarrow>
                              map_sum id (\<lambda>items. \<lparr>stringID = [], objectID = oid\<rparr> # items) (contentBlockLoop rest)))
           | _ \<Rightarrow> contentBlockLoop rest))"

definition jsonContentBlockItems :: "string \<Rightarrow> block_error + contentBlockItem list" where
  "jsonContentBlockItems raw =
     (if raw = [] \<or> raw = ''null'' then Inr []
      else (case unmarshal_raw_list raw of
              None \<Rightarrow> Inr []
            | Some encoded \<Rightarrow>
                if length encoded > maxControllerBlockCount then Inl (BlockCount (length encoded))
                else contentBlockLoop encoded))"

definition itemID :: "contentBlockItem \<Rightarrow> string" where
  "itemID item = (if stringID item = [] then objectID item else stringID item)"

text \<open>The loop over the items: the order of first occurrence and the last kind of each identifier.\<close>

fun stringIDLoop :: "contentBlockItem list \<Rightarrow> string list \<Rightarrow> (string \<rightharpoonup> bool) \<Rightarrow> string list \<times> (string \<rightharpoonup> bool)" where
  "stringIDLoop [] order isString = (order, isString)"
| "stringIDLoop (item # items) order isString =
     (let bid = itemID item in
      if bid = [] then stringIDLoop items order isString
      else stringIDLoop items (if isString bid = None then order @ [bid] else order)
             (isString(bid \<mapsto> (stringID item \<noteq> []))))"

definition jsonContentBlockStringIDs :: "string \<Rightarrow> block_error + string list" where
  "jsonContentBlockStringIDs raw =
     (case jsonContentBlockItems raw of
        Inl e \<Rightarrow> Inl e
      | Inr items \<Rightarrow>
          (case stringIDLoop items [] Map.empty of (order, isString) \<Rightarrow>
             Inr (filter (\<lambda>bid. isString bid = Some True) order)))"

fun blockIDLoop :: "contentBlockItem list \<Rightarrow> string list \<Rightarrow> string list" where
  "blockIDLoop [] ids = ids"
| "blockIDLoop (item # items) ids =
     (let bid = itemID item in
      if bid = [] \<or> bid \<in> set ids then blockIDLoop items ids else blockIDLoop items (ids @ [bid]))"

definition jsonContentBlockIDs :: "string \<Rightarrow> block_error + string list" where
  "jsonContentBlockIDs raw = map_sum id (\<lambda>items. blockIDLoop items []) (jsonContentBlockItems raw)"

definition jsonBool :: "string \<Rightarrow> bool" where
  "jsonBool raw = (unmarshal_bool raw = Some True)"

definition isASCIISpace :: "char \<Rightarrow> bool" where
  "isASCIISpace c \<longleftrightarrow> c \<in> {CHR '' '', CHR 0x09, CHR 0x0A, CHR 0x0B, CHR 0x0C, CHR 0x0D}"

definition jsonStringInt64Prefix :: "string \<Rightarrow> int \<times> bool" where
  "jsonStringInt64Prefix raw =
     (case unmarshal_string_ptr raw of
        Some (Some text) \<Rightarrow>
          (let s = dropWhile isASCIISpace text;
               sg = (case s of c # _ \<Rightarrow> if c = CHR ''+'' \<or> c = CHR ''-'' then [c] else [] | [] \<Rightarrow> []);
               digits = takeWhile is_digit (drop (length sg) s)
           in if digits = [] then (0, True)
              else (case parse_int64 (sg @ digits) of
                      ParsedInt n \<Rightarrow> (n, True)
                    | ParseRange n \<Rightarrow> (n, True)
                    | ParseSyntax \<Rightarrow> (0, True)))
      | _ \<Rightarrow> (0, False))"

section \<open>Responses (state.go, response.go, safety.go)\<close>

record controller_response =
  rspType :: string
  rspStore :: adoption_store
  HasStateUpdate :: bool
  HasMgmtCFG :: bool
  HasSystemCFG :: bool
  SystemCFGBytes :: nat
  SystemCFGKeys :: "string list"
  IntervalSeconds :: int
  IncludeBlocks :: "string list"
  ExcludeBlocks :: "string list"
  UDAPIBlocks :: "string list"
  BlockSelectionSet :: bool
  BlockSelectionLimited :: bool
  Immediate :: bool
  ServerTimeUTC :: int
  ServerTimeSet :: bool
  ResetRequested :: bool
  ResetApplied :: bool
  ResetReason :: string
  ResetDisposition :: string
  Ignored :: bool
  IgnoredReason :: string

definition emptyResponse :: controller_response where
  "emptyResponse = \<lparr>rspType = [], rspStore = emptyStore, HasStateUpdate = False, HasMgmtCFG = False,
     HasSystemCFG = False, SystemCFGBytes = 0, SystemCFGKeys = [], IntervalSeconds = 0,
     IncludeBlocks = [], ExcludeBlocks = [], UDAPIBlocks = [], BlockSelectionSet = False,
     BlockSelectionLimited = False, Immediate = False, ServerTimeUTC = 0, ServerTimeSet = False,
     ResetRequested = False, ResetApplied = False, ResetReason = [], ResetDisposition = [],
     Ignored = False, IgnoredReason = []\<rparr>"

definition knownControllerResponseType :: "string \<Rightarrow> bool" where
  "knownControllerResponseType v \<longleftrightarrow>
     v \<in> {''noop'', ''setparam'', ''setdefault'', ''reboot'', ''upgrade'', ''cmd'', ''geo_ip_update''}"

definition isUnsafeControllerCommand :: "string \<Rightarrow> bool" where
  "isUnsafeControllerCommand v \<longleftrightarrow> v \<in> {''reboot'', ''upgrade'', ''geo_ip_update''}"

datatype response_error =
    ResponseJSON json_error
  | ResponseToken | DuplicateTopLevelKey | ResponseValue
  | TopLevelNotObject | MissingType | TypeNotString | UnsupportedType
  | ResponseMgmtCFG adoption_error
  | ResponseSystemCFG json_error

text \<open>
  The members of the top-level object. The stream ends with the closing brace; an end of the list
  before it is a token or value error of the decoder.
\<close>

function uniqueMembers :: "json_item list \<Rightarrow> (string \<times> string) list \<Rightarrow> response_error + (string \<times> string) list" where
  "uniqueMembers ts acc =
     (case ts of
        [] \<Rightarrow> Inl ResponseToken
      | (t, _, _) # rest \<Rightarrow>
          if is_close t then Inr acc
          else (case t of
                  JStr key \<Rightarrow>
                    if key \<in> fst ` set acc then Inl DuplicateTopLevelKey
                    else (case take_value 0 rest of
                            None \<Rightarrow> Inl ResponseValue
                          | Some (v, rest') \<Rightarrow> uniqueMembers rest' (acc @ [(key, value_text v)]))
                | _ \<Rightarrow> Inl ResponseToken))"
  by pat_completeness auto
termination
  by (relation "measure (\<lambda>(ts, acc). length ts)") (auto dest: take_value_length)

declare uniqueMembers.simps [simp del]

text \<open>\<open>Inr None\<close>: the document is not an object.\<close>

definition decodeUniqueTopLevelObject :: "string \<Rightarrow> response_error + (string \<times> string) list option" where
  "decodeUniqueTopLevelObject data =
     (case fst (json_stream data) of
        [] \<Rightarrow> Inl ResponseToken
      | (t, _, _) # rest \<Rightarrow>
          if t \<noteq> JDelim CHR ''{'' then Inr None
          else map_sum id Some (uniqueMembers rest []))"

definition rawField :: "(string \<times> string) list \<Rightarrow> string \<Rightarrow> string" where
  "rawField raw key = (case map_of raw key of Some v \<Rightarrow> v | None \<Rightarrow> [])"

definition connectedStore :: adoption_store where
  "connectedStore = emptyStore\<lparr>State := StateConnected\<rparr>"

definition systemCFGReason :: string where
  "systemCFGReason = ''system_cfg provisioning is recorded as metadata only''"
definition upgradeReason :: string where
  "upgradeReason = ''firmware upgrade request retained as status only''"
definition commandReason :: string where
  "commandReason = ''controller command ignored by safety policy''"
definition setdefaultReason :: string where
  "setdefaultReason = ''controller setdefault command''"

text \<open>The \<open>setparam\<close> branch: first the provisioning block, recorded as metadata, then the whole branch.\<close>

definition applySystemCFG :: "(string \<times> string) list \<Rightarrow> controller_response \<Rightarrow> response_error + controller_response" where
  "applySystemCFG raw r =
     (case map_of raw ''system_cfg'' of
        None \<Rightarrow> Inr r
      | Some systemCFG \<Rightarrow>
          (case summarizeSystemCFG systemCFG of
             Inl e \<Rightarrow> Inl (ResponseSystemCFG e)
           | Inr (n, keys) \<Rightarrow>
               Inr (r\<lparr>HasSystemCFG := True, SystemCFGBytes := n, SystemCFGKeys := keys,
                     Ignored := True, IgnoredReason := systemCFGReason\<rparr>)))"

definition parseSetParam :: "(string \<times> string) list \<Rightarrow> controller_response \<Rightarrow> response_error + controller_response" where
  "parseSetParam raw response =
     (let r0 = response\<lparr>rspStore := connectedStore, HasStateUpdate := True\<rparr>;
          mgmtCFG = jsonString (rawField raw ''mgmt_cfg'');
          r1 = (if mgmtCFG = [] then Inr r0
                else (case parseMgmtCFG mgmtCFG of
                        Inl e \<Rightarrow> Inl (ResponseMgmtCFG e)
                      | Inr store \<Rightarrow>
                          Inr (r0\<lparr>HasMgmtCFG := True, rspStore := store\<lparr>State := StateConnected\<rparr>\<rparr>)))
      in case r1 of
           Inl e \<Rightarrow> Inl e
         | Inr r \<Rightarrow> applySystemCFG raw r)"

definition blocksOr :: "block_error + string list \<Rightarrow> string list" where
  "blocksOr r = (case r of Inl _ \<Rightarrow> [] | Inr ids \<Rightarrow> ids)"

definition blocksLimited :: "block_error + string list \<Rightarrow> bool" where
  "blocksLimited r = (case r of Inl _ \<Rightarrow> True | Inr _ \<Rightarrow> False)"

text \<open>The \<open>noop\<close> branch.\<close>

definition parseNoop :: "(string \<times> string) list \<Rightarrow> controller_response \<Rightarrow> controller_response" where
  "parseNoop raw response =
     (let inc = jsonContentBlockStringIDs (rawField raw ''include_blocks'');
          exc = jsonContentBlockStringIDs (rawField raw ''exclude_blocks'');
          uda = jsonContentBlockIDs (rawField raw ''udapi_blocks'');
          st = jsonStringInt64Prefix (rawField raw ''server_time_in_utc'')
      in response\<lparr>rspStore := connectedStore, HasStateUpdate := True,
           IntervalSeconds := jsonInt (rawField raw ''interval''),
           ServerTimeUTC := fst st, ServerTimeSet := snd st,
           BlockSelectionSet := True,
           IncludeBlocks := blocksOr inc, ExcludeBlocks := blocksOr exc, UDAPIBlocks := blocksOr uda,
           BlockSelectionLimited := (blocksLimited inc \<or> blocksLimited exc \<or> blocksLimited uda),
           Immediate := jsonBool (rawField raw ''immediate'')\<rparr>)"

definition dispatchResponse :: "(string \<times> string) list \<Rightarrow> controller_response \<Rightarrow> response_error + controller_response" where
  "dispatchResponse raw response =
     (let ty = rspType response in
      if ty = ''setparam'' then parseSetParam raw response
      else if ty = ''upgrade'' then Inr (response\<lparr>Ignored := True, IgnoredReason := upgradeReason\<rparr>)
      else if ty = ''noop'' then Inr (parseNoop raw response)
      else if ty = ''setdefault'' then
        Inr (response\<lparr>rspStore := factoryStore, HasStateUpdate := True, ResetRequested := True,
                      ResetReason := setdefaultReason\<rparr>)
      else if ty = ''cmd'' then Inr (response\<lparr>Ignored := True, IgnoredReason := commandReason\<rparr>)
      else if isUnsafeControllerCommand ty then
        Inr (response\<lparr>Ignored := True, IgnoredReason := commandReason\<rparr>)
      else Inr response)"

definition ParseControllerResponseInfo :: "bytes \<Rightarrow> response_error + controller_response" where
  "ParseControllerResponseInfo body =
     (let data = string_of body in
      case validateJSONLimits data of
        Some e \<Rightarrow> Inl (ResponseJSON e)
      | None \<Rightarrow>
          (case decodeUniqueTopLevelObject data of
             Inl e \<Rightarrow> Inl e
           | Inr None \<Rightarrow> Inl TopLevelNotObject
           | Inr (Some raw) \<Rightarrow>
               (case map_of raw ''_type'' of
                  None \<Rightarrow> Inl MissingType
                | Some rawType \<Rightarrow>
                    (case unmarshal_string_ptr rawType of
                       Some (Some ty) \<Rightarrow>
                         if knownControllerResponseType ty
                         then dispatchResponse raw (emptyResponse\<lparr>rspType := ty\<rparr>)
                         else Inl UnsupportedType
                     | _ \<Rightarrow> Inl TypeNotString))))"

section \<open>Block selection (blocks.go)\<close>

record block_selection =
  selInclude :: "string list"
  selExclude :: "string list"

definition emptySelection :: block_selection where
  "emptySelection = \<lparr>selInclude = [], selExclude = []\<rparr>"

definition BlockSelection :: "controller_response \<Rightarrow> block_selection" where
  "BlockSelection response = \<lparr>selInclude = IncludeBlocks response, selExclude = ExcludeBlocks response\<rparr>"

definition containsBlock :: "string list \<Rightarrow> string \<Rightarrow> bool" where
  "containsBlock vals name = list_ex (\<lambda>v. v = name) vals"

definition Includes :: "block_selection \<Rightarrow> string \<Rightarrow> bool" where
  "Includes sel name \<longleftrightarrow> name \<noteq> [] \<and> containsBlock (selInclude sel) name"

definition Excludes :: "block_selection \<Rightarrow> string \<Rightarrow> bool" where
  "Excludes sel name \<longleftrightarrow> name \<noteq> [] \<and> containsBlock (selExclude sel) name"

section \<open>Facts about the token limits\<close>

text \<open>No closing delimiter without an open one, counted from nesting depth \<open>d\<close>.\<close>

fun closes_ok :: "nat \<Rightarrow> json_item list \<Rightarrow> bool" where
  "closes_ok d [] = True"
| "closes_ok d ((t, _, _) # ts) =
     (if is_open t then closes_ok (d + 1) ts
      else if is_close t then 0 < d \<and> closes_ok (d - 1) ts
      else closes_ok d ts)"

fun max_depth :: "nat \<Rightarrow> json_item list \<Rightarrow> nat" where
  "max_depth d [] = d"
| "max_depth d ((t, _, _) # ts) =
     max d (max_depth (if is_open t then d + 1 else if is_close t then d - 1 else d) ts)"

lemma scan_scalar_plain: "scan_scalar s = Some (t, rest) \<Longrightarrow> \<not> is_open t \<and> \<not> is_close t"
  by (auto simp: scan_scalar_def is_open_def is_close_def split: list.splits if_splits)

lemma token_action_stack:
  assumes "token_action st stack s = ActToken t rest st' stack'"
  shows "if is_open t then length stack' = length stack + 1
     else if is_close t then length stack = length stack' + 1 else stack' = stack"
proof (cases s)
  case Nil
  then show ?thesis using assms by (simp add: token_action_def)
next
  case (Cons c r)
  then show ?thesis
    using assms scan_scalar_plain
    by (auto simp: token_action_def is_open_def is_close_def split: if_splits option.splits list.splits)
qed

lemma json_tokens_closes: "json_tokens st stack s = (ts, e) \<Longrightarrow> closes_ok (length stack) ts"
proof (induction st stack s arbitrary: ts e rule: json_tokens.induct)
  case (1 st stack s)
  note unfold = 1(4) [unfolded json_tokens.simps [of st stack s]]
  consider "s = []" | "s \<noteq> []" "json_space (hd s)" | "s \<noteq> []" "\<not> json_space (hd s)" by blast
  then show ?case
  proof cases
    case 1
    then show ?thesis using unfold by simp
  next
    case 2
    then have "json_tokens st stack (tl s) = (ts, e)" using unfold by simp
    then show ?thesis by (rule "1.IH"(1) [OF 2])
  next
    case 3
    show ?thesis
    proof (cases "token_action st stack s")
      case ActError
      then show ?thesis using unfold 3 by simp
    next
      case (ActSkip st')
      then have "json_tokens st' stack (tl s) = (ts, e)" using unfold 3 by simp
      then show ?thesis by (rule "1.IH"(2) [OF 3 ActSkip])
    next
      case (ActToken t rest st' stack')
      obtain ts' e' where ts': "json_tokens st' stack' rest = (ts', e')" by fastforce
      have "closes_ok (length stack') ts'" by (rule "1.IH"(3) [OF 3 ActToken ts'])
      moreover have "ts = (t, s, rest) # ts'" using unfold 3 ActToken ts' by simp
      ultimately show ?thesis
        using token_action_stack [OF ActToken] by (cases "is_open t"; cases "is_close t") simp_all
    qed
  qed
qed

lemma limitLoop_complete: "limitLoop e d n True ts = None \<Longrightarrow> ts = [] \<and> e = TokEOF"
  by (cases ts; cases e) (auto split: if_splits)

lemma limitLoop_None:
  "limitLoop e (int d) n False ts = None \<Longrightarrow> closes_ok d ts \<Longrightarrow> n \<le> MaxControllerJSONTokens \<Longrightarrow>
     d \<le> MaxControllerJSONDepth \<Longrightarrow>
     e = TokEOF \<and> take_value d ts = Some (ts, []) \<and> n + length ts \<le> MaxControllerJSONTokens \<and>
     max_depth d ts \<le> MaxControllerJSONDepth"
proof (induction ts arbitrary: d n)
  case Nil
  then show ?case by (cases e) (auto split: if_splits)
next
  case (Cons i ts)
  obtain t a b where i: "i = (t, a, b)" by (cases i)
  have n: "Suc n \<le> MaxControllerJSONTokens" using Cons.prems(1) by (simp add: i split: if_splits)
  consider (op) "is_open t" | (cl) "\<not> is_open t" "is_close t" | (sc) "\<not> is_open t" "\<not> is_close t" by blast
  then show ?case
  proof cases
    case op
    then have "limitLoop e (int (Suc d)) (Suc n) False ts = None" "Suc d \<le> MaxControllerJSONDepth"
      using Cons.prems(1) by (auto simp: i add.commute split: if_splits)
    then show ?thesis using Cons.IH [of "Suc d" "Suc n"] Cons.prems op n by (simp add: i Let_def)
  next
    case cl
    then have d: "0 < d" "closes_ok (d - 1) ts" using Cons.prems(2) by (simp_all add: i)
    show ?thesis
    proof (cases "d = 1")
      case True
      then have "limitLoop e 0 (Suc n) True ts = None" using Cons.prems(1) cl by (simp add: i split: if_splits)
      then have "ts = []" "e = TokEOF" using limitLoop_complete by blast+
      then show ?thesis using cl n True Cons.prems(4) by (simp add: i Let_def)
    next
      case False
      then have "limitLoop e (int (d - 1)) (Suc n) False ts = None"
        using Cons.prems(1) cl d by (simp add: i of_nat_diff split: if_splits)
      then show ?thesis
        using Cons.IH [of "d - 1" "Suc n"] Cons.prems cl n d False by (simp add: i Let_def)
    qed
  next
    case sc
    show ?thesis
    proof (cases "d = 0")
      case True
      then have "limitLoop e 0 (Suc n) True ts = None" using Cons.prems(1) sc by (simp add: i split: if_splits)
      then have "ts = []" "e = TokEOF" using limitLoop_complete by blast+
      then show ?thesis using sc n True by (simp add: i Let_def)
    next
      case False
      then have "limitLoop e (int d) (Suc n) False ts = None"
        using Cons.prems(1) sc by (simp add: i split: if_splits)
      then show ?thesis using Cons.IH [of d "Suc n"] Cons.prems sc n False by (simp add: i Let_def)
    qed
  qed
qed

section \<open>Facts about content blocks\<close>

text \<open>The kind of the last item that carries an identifier: \<open>Some True\<close> for a string entry.\<close>

fun lastKind :: "contentBlockItem list \<Rightarrow> string \<Rightarrow> bool option" where
  "lastKind [] b = None"
| "lastKind (i # is) b =
     (case lastKind is b of
        Some k \<Rightarrow> Some k
      | None \<Rightarrow> if b \<noteq> [] \<and> itemID i = b then Some (stringID i \<noteq> []) else None)"

lemma stringIDLoop_kind:
  "stringIDLoop items order m = (order', m') \<Longrightarrow>
     m' b = (case lastKind items b of Some k \<Rightarrow> Some k | None \<Rightarrow> m b)"
  by (induction items arbitrary: order m)
    (auto simp: Let_def split: if_splits option.splits)

lemma stringIDLoop_order:
  "stringIDLoop items order m = (order', m') \<Longrightarrow> set order = dom m \<Longrightarrow> distinct order \<Longrightarrow>
     set order' = dom m' \<and> distinct order' \<and> length order' \<le> length order + length items"
proof (induction items arbitrary: order m)
  case (Cons i its)
  show ?case
  proof (cases "itemID i = []")
    case True
    then show ?thesis using Cons.IH [of order m] Cons.prems by (simp add: Let_def)
  next
    case False
    define o' where "o' = (if m (itemID i) = None then order @ [itemID i] else order)"
    define m1 where "m1 = m(itemID i \<mapsto> stringID i \<noteq> [])"
    have o: "set o' = dom m1" "distinct o'" "length o' \<le> length order + 1"
      using Cons.prems(2,3) by (auto simp: domIff o'_def m1_def)
    have "stringIDLoop its o' m1 = (order', m')"
      using Cons.prems(1) False by (simp add: Let_def o'_def m1_def)
    from Cons.IH [OF this o(1,2)] o(3) show ?thesis by simp
  qed
qed simp

lemma stringIDs_spec:
  assumes "stringIDLoop items [] Map.empty = (order, m)"
  shows "distinct (filter (\<lambda>b. m b = Some True) order) \<and>
     set (filter (\<lambda>b. m b = Some True) order) = {b. lastKind items b = Some True} \<and>
     length (filter (\<lambda>b. m b = Some True) order) \<le> length items"
proof -
  have o: "set order = dom m" "distinct order" "length order \<le> length items"
    using stringIDLoop_order [OF assms] by simp_all
  have k: "m b = lastKind items b" for b
    using stringIDLoop_kind [OF assms, of b] by (simp split: option.splits)
  have "length (filter (\<lambda>b. m b = Some True) order) \<le> length items"
    using o(3) length_filter_le order_trans by blast
  moreover have "set (filter (\<lambda>b. m b = Some True) order) = {b. m b = Some True}"
    using o(1) by auto
  ultimately show ?thesis using o(2) k by simp
qed

lemma blockIDLoop_spec:
  "distinct ids \<Longrightarrow> distinct (blockIDLoop items ids) \<and>
     set (blockIDLoop items ids) = set ids \<union> (itemID ` set items - {[]}) \<and>
     length (blockIDLoop items ids) \<le> length ids + length items"
proof (induction items arbitrary: ids)
  case (Cons i its)
  show ?case
  proof (cases "itemID i = [] \<or> itemID i \<in> set ids")
    case True
    then show ?thesis using Cons.IH [OF Cons.prems] by (auto simp: Let_def)
  next
    case False
    then show ?thesis using Cons.IH [of "ids @ [itemID i]"] Cons.prems by (auto simp: Let_def)
  qed
qed simp

lemma map_sum_Inr: "map_sum id f r = Inr y \<longleftrightarrow> (\<exists>x. r = Inr x \<and> y = f x)"
  by (cases r) auto

lemma contentBlockLoop_ok:
  "contentBlockLoop encoded = Inr items \<Longrightarrow>
     length items \<le> length encoded \<and> (\<forall>i\<in>set items. validateContentBlockID (itemID i) = None)"
proof (induction encoded arbitrary: items)
  case (Cons raw rest)
  show ?case
  proof (cases "contentBlockLoop rest")
    case (Inl e)
    then show ?thesis
      using Cons.prems
      by (auto split: option.splits if_splits)
  next
    case (Inr its)
    have "items = its \<or> (\<exists>i. items = i # its \<and> validateContentBlockID (itemID i) = None)"
      using Cons.prems Inr by (auto simp: itemID_def split: option.splits if_splits)
    then show ?thesis using Cons.IH [OF Inr] by auto
  qed
qed simp

lemma jsonContentBlockItems_ok:
  "jsonContentBlockItems raw = Inr items \<Longrightarrow>
     length items \<le> maxControllerBlockCount \<and> (\<forall>i\<in>set items. validateContentBlockID (itemID i) = None)"
  using contentBlockLoop_ok
  by (fastforce simp: jsonContentBlockItems_def split: if_splits option.splits)

text \<open>What the status can retain of a block list.\<close>

definition blocks_bounded :: "string list \<Rightarrow> bool" where
  "blocks_bounded ids \<longleftrightarrow> length ids \<le> maxControllerBlockCount \<and> distinct ids \<and>
     list_all (\<lambda>b. b \<noteq> [] \<and> validateContentBlockID b = None) ids"

lemma lastKind_item: "lastKind items b = Some k \<Longrightarrow> b \<noteq> [] \<and> b \<in> itemID ` set items"
  by (induction items) (auto split: option.splits if_splits)

lemma stringIDs_bounded: "blocks_bounded (blocksOr (jsonContentBlockStringIDs raw))"
proof (cases "jsonContentBlockItems raw")
  case (Inl e)
  then show ?thesis by (simp add: jsonContentBlockStringIDs_def blocksOr_def blocks_bounded_def)
next
  case (Inr items)
  obtain order m where l: "stringIDLoop items [] Map.empty = (order, m)" by fastforce
  show ?thesis
    using stringIDs_spec [OF l] jsonContentBlockItems_ok [OF Inr] lastKind_item [of items]
    by (fastforce simp: jsonContentBlockStringIDs_def blocksOr_def blocks_bounded_def Inr l list_all_iff)
qed

lemma blockIDs_bounded: "blocks_bounded (blocksOr (jsonContentBlockIDs raw))"
proof (cases "jsonContentBlockItems raw")
  case (Inl e)
  then show ?thesis by (simp add: jsonContentBlockIDs_def blocksOr_def blocks_bounded_def)
next
  case (Inr items)
  then show ?thesis
    using blockIDLoop_spec [of "[]" items] jsonContentBlockItems_ok [OF Inr]
    by (fastforce simp: jsonContentBlockIDs_def blocksOr_def blocks_bounded_def list_all_iff)
qed

section \<open>Facts about the top-level object\<close>

lemma uniqueMembers_Cons:
  "uniqueMembers ((t, a, b) # rest) acc =
     (if is_close t then Inr acc
      else (case t of
              JStr key \<Rightarrow>
                if key \<in> fst ` set acc then Inl DuplicateTopLevelKey
                else (case take_value 0 rest of
                        None \<Rightarrow> Inl ResponseValue
                      | Some (v, rest') \<Rightarrow> uniqueMembers rest' (acc @ [(key, value_text v)]))
            | _ \<Rightarrow> Inl ResponseToken))"
  "uniqueMembers [] acc = Inl ResponseToken"
  by (subst uniqueMembers.simps, simp)+

lemma object_members_Cons:
  "is_close t \<Longrightarrow> object_members ((t, a, b) # rest) = []"
  "take_value 0 rest = Some (v, rest') \<Longrightarrow>
     object_members ((JStr key, a, b) # rest) = (key, v) # object_members rest'"
  by (subst object_members.simps, auto simp: is_close_def)+

lemma uniqueMembers_spec:
  "uniqueMembers ts acc = Inr raw \<Longrightarrow> distinct (map fst acc) \<Longrightarrow>
     raw = acc @ map (\<lambda>(k, v). (k, value_text v)) (object_members ts) \<and> distinct (map fst raw)"
proof (induction "length ts" arbitrary: ts acc rule: less_induct)
  case less
  obtain t a b rest where ts: "ts = (t, a, b) # rest"
    using less.prems(1) by (cases ts) (auto simp: uniqueMembers_Cons)
  show ?case
  proof (cases "is_close t")
    case True
    then show ?thesis using less.prems by (simp add: ts uniqueMembers_Cons object_members_Cons)
  next
    case False
    obtain key where t: "t = JStr key"
      using less.prems(1) False by (cases t) (simp_all add: ts uniqueMembers_Cons)
    obtain v rest' where v: "take_value 0 rest = Some (v, rest')" and k: "key \<notin> fst ` set acc"
      using less.prems(1) False t by (auto simp: ts uniqueMembers_Cons split: if_splits option.splits)
    have u: "uniqueMembers rest' (acc @ [(key, value_text v)]) = Inr raw"
      using less.prems(1) False t v k by (simp add: ts uniqueMembers_Cons)
    have l: "length rest' < length ts" using take_value_length [OF v] by (simp add: ts)
    have "distinct (map fst (acc @ [(key, value_text v)]))" using less.prems(2) k by simp
    note ih = less.hyps [OF l u this]
    have "raw = acc @ map (\<lambda>(k, v). (k, value_text v)) (object_members ts)"
      using conjunct1 [OF ih] by (simp add: ts t object_members_Cons(2) [OF v])
    then show ?thesis using conjunct2 [OF ih] by blast
  qed
qed

lemma decodeUnique_spec:
  assumes "decodeUniqueTopLevelObject data = Inr (Some raw)"
  shows "\<exists>i rest. fst (json_stream data) = i # rest \<and> fst i = JDelim CHR ''{'' \<and>
     raw = map (\<lambda>(k, v). (k, value_text v)) (object_members rest) \<and> distinct (map fst raw)"
proof -
  obtain t a b rest where i: "fst (json_stream data) = (t, a, b) # rest" "t = JDelim CHR ''{''"
      and u: "uniqueMembers rest [] = Inr raw"
    using assms by (auto simp: decodeUniqueTopLevelObject_def map_sum_Inr split: list.splits if_splits)
  from uniqueMembers_spec [OF u] i show ?thesis by (metis append_Nil distinct.simps(1) fst_conv list.map(1))
qed

lemma map_of_rev_distinct: "distinct (map fst xs) \<Longrightarrow> map_of (rev xs) = map_of xs"
  by (subst map_of_inject_set) (simp_all add: rev_map [symmetric])

section \<open>Facts about the dispatch\<close>

text \<open>What a sanitized response may carry as a state update.\<close>

definition response_update_ok :: "controller_response \<Rightarrow> bool" where
  "response_update_ok r \<longleftrightarrow>
     rspStore r = (if HasStateUpdate r then rspStore r else emptyStore) \<and>
     (HasStateUpdate r \<longrightarrow>
        rspType r = ''setdefault'' \<and> rspStore r = factoryStore \<or>
        rspType r = ''noop'' \<and> rspStore r = connectedStore \<or>
        rspType r = ''setparam'' \<and> State (rspStore r) = StateConnected \<and> mgmt_ok ((rspStore r)\<lparr>State := []\<rparr>))"

lemma mgmt_ok_State: "mgmt_ok s \<Longrightarrow> mgmt_ok (s\<lparr>State := []\<rparr>)"
  by (simp add: mgmt_ok_def)

lemma mgmt_ok_empty: "mgmt_ok (connectedStore\<lparr>State := []\<rparr>)"
  by (simp add: mgmt_ok_def connectedStore_def emptyStore_def)

lemma parseSetParam_cases:
  assumes "parseSetParam raw r0 = Inr r"
  shows "\<exists>store m. (store = connectedStore \<or> (\<exists>s t. parseMgmtCFG t = Inr s \<and> store = s\<lparr>State := StateConnected\<rparr>)) \<and>
     (r = r0\<lparr>rspStore := store, HasStateUpdate := True, HasMgmtCFG := m\<rparr> \<or>
      (\<exists>n keys c. summarizeSystemCFG c = Inr (n, keys) \<and>
         r = r0\<lparr>rspStore := store, HasStateUpdate := True, HasMgmtCFG := m, HasSystemCFG := True,
               SystemCFGBytes := n, SystemCFGKeys := keys, Ignored := True, IgnoredReason := systemCFGReason\<rparr>))"
proof -
  let ?up = "\<lambda>store m. r0\<lparr>rspStore := store, HasStateUpdate := True, HasMgmtCFG := m\<rparr>"
  have "\<exists>store m. (store = connectedStore \<or> (\<exists>s t. parseMgmtCFG t = Inr s \<and> store = s\<lparr>State := StateConnected\<rparr>)) \<and>
      applySystemCFG raw (?up store m) = Inr r"
  proof (cases "jsonString (rawField raw ''mgmt_cfg'') = []")
    case True
    then have "applySystemCFG raw (?up connectedStore (HasMgmtCFG r0)) = Inr r"
      using assms by (simp add: parseSetParam_def Let_def)
    then show ?thesis by blast
  next
    case False
    then obtain s where s: "parseMgmtCFG (jsonString (rawField raw ''mgmt_cfg'')) = Inr s"
      using assms by (auto simp: parseSetParam_def Let_def split: sum.splits)
    then have "applySystemCFG raw (?up (s\<lparr>State := StateConnected\<rparr>) True) = Inr r"
      using assms False by (cases r0) (simp add: parseSetParam_def Let_def)
    then show ?thesis using s by blast
  qed
  then obtain store m where st: "store = connectedStore \<or> (\<exists>s t. parseMgmtCFG t = Inr s \<and> store = s\<lparr>State := StateConnected\<rparr>)"
      and r: "applySystemCFG raw (?up store m) = Inr r" by blast
  have "r = ?up store m \<or> (\<exists>n keys c. summarizeSystemCFG c = Inr (n, keys) \<and>
      r = (?up store m)\<lparr>HasSystemCFG := True, SystemCFGBytes := n, SystemCFGKeys := keys, Ignored := True,
            IgnoredReason := systemCFGReason\<rparr>)"
    using r unfolding applySystemCFG_def by (auto split: option.splits sum.splits)
  then show ?thesis using st by blast
qed

lemma dispatch_update_ok:
  assumes "dispatchResponse raw (emptyResponse\<lparr>rspType := ty\<rparr>) = Inr r"
  shows "response_update_ok r \<and> rspType r = ty"
proof (cases "ty = ''setparam''")
  case True
  then have p: "parseSetParam raw (emptyResponse\<lparr>rspType := ty\<rparr>) = Inr r"
    using assms by (simp add: dispatchResponse_def)
  obtain store where "State store = StateConnected" "mgmt_ok (store\<lparr>State := []\<rparr>)"
      "rspStore r = store" "HasStateUpdate r" "rspType r = ty"
    using parseSetParam_cases [OF p] mgmt_ok_empty mgmt_ok_State parseMgmtCFG_mgmt_ok
    by (force simp: connectedStore_def)
  with True show ?thesis by (simp add: response_update_ok_def)
next
  case False
  then show ?thesis
    using assms
    by (auto simp: dispatchResponse_def response_update_ok_def emptyResponse_def parseNoop_def Let_def
        split: if_splits)
qed

lemma ParseControllerResponseInfo_cases:
  assumes "ParseControllerResponseInfo body = Inr r"
  shows "\<exists>raw ty. validateJSONLimits (string_of body) = None \<and>
     decodeUniqueTopLevelObject (string_of body) = Inr (Some raw) \<and>
     knownControllerResponseType ty \<and>
     dispatchResponse raw (emptyResponse\<lparr>rspType := ty\<rparr>) = Inr r"
  using assms
  by (auto simp: ParseControllerResponseInfo_def Let_def split: option.splits sum.splits if_splits)

lemma dispatch_flags:
  assumes "dispatchResponse raw (emptyResponse\<lparr>rspType := ty\<rparr>) = Inr r" "knownControllerResponseType ty"
  shows "(HasStateUpdate r \<longleftrightarrow> ty \<in> {''setparam'', ''noop'', ''setdefault''}) \<and>
    (\<not> HasStateUpdate r \<longrightarrow> Ignored r) \<and> (ResetRequested r \<longleftrightarrow> ty = ''setdefault'') \<and> \<not> ResetApplied r"
proof (cases "ty = ''setparam''")
  case True
  then have p: "parseSetParam raw (emptyResponse\<lparr>rspType := ty\<rparr>) = Inr r"
    using assms(1) by (simp add: dispatchResponse_def)
  show ?thesis using parseSetParam_cases [OF p] True by (auto simp: emptyResponse_def)
next
  case False
  then have "ty \<in> {''noop'', ''setdefault'', ''reboot'', ''upgrade'', ''cmd'', ''geo_ip_update''}"
    using assms(2) by (simp add: knownControllerResponseType_def)
  then show ?thesis
    using assms(1) [symmetric]
    by (elim insertE emptyE)
      (simp_all add: dispatchResponse_def isUnsafeControllerCommand_def emptyResponse_def parseNoop_def Let_def)
qed

lemma summarize_keys: "summarizeSystemCFG c = Inr (n, keys) \<Longrightarrow> set keys \<subseteq> {''ubntconf'', ''udapi''}"
  by (auto simp: summarizeSystemCFG_def Let_def topLevelJSONKeys_def split: if_splits option.splits)

lemma jsonInt_range: "int64_range (jsonInt raw)"
  by (auto simp: jsonInt_def int64_defs dest: unmarshal_int_range split: option.splits)

lemma parse_int64_range': "parse_int64 s = ParseRange v \<Longrightarrow> int64_range v"
  by (auto simp: parse_int64_def Let_def int64_defs split: if_splits)

lemma prefix_range: "int64_range (fst (jsonStringInt64Prefix raw))"
proof -
  have z: "int64_range 0" by (simp add: int64_defs)
  show ?thesis
    unfolding jsonStringInt64Prefix_def Let_def
    by (auto simp: z parse_int64_range parse_int64_range' split: option.splits parse_int_result.splits)
qed

lemma dispatch_bounded:
  assumes "dispatchResponse raw (emptyResponse\<lparr>rspType := ty\<rparr>) = Inr r"
  shows "blocks_bounded (IncludeBlocks r) \<and> blocks_bounded (ExcludeBlocks r) \<and> blocks_bounded (UDAPIBlocks r) \<and>
    set (SystemCFGKeys r) \<subseteq> {''ubntconf'', ''udapi''} \<and> int64_range (IntervalSeconds r) \<and> int64_range (ServerTimeUTC r)"
proof -
  have z: "blocks_bounded []" "int64_range 0" by (simp_all add: blocks_bounded_def int64_defs)
  consider "ty = ''setparam''" | "ty \<noteq> ''setparam''" "ty = ''noop''" | "ty \<noteq> ''setparam''" "ty \<noteq> ''noop''" by blast
  then show ?thesis
  proof cases
    case 1
    then have p: "parseSetParam raw (emptyResponse\<lparr>rspType := ty\<rparr>) = Inr r"
      using assms by (simp add: dispatchResponse_def)
    have "IncludeBlocks r = []" "ExcludeBlocks r = []" "UDAPIBlocks r = []" "IntervalSeconds r = 0"
      "ServerTimeUTC r = 0" "set (SystemCFGKeys r) \<subseteq> {''ubntconf'', ''udapi''}"
      using parseSetParam_cases [OF p] by (auto simp: emptyResponse_def dest!: summarize_keys)
    then show ?thesis using z by simp
  next
    case 2
    then have "r = parseNoop raw (emptyResponse\<lparr>rspType := ty\<rparr>)" using assms by (simp add: dispatchResponse_def)
    then show ?thesis
      by (simp add: parseNoop_def Let_def stringIDs_bounded blockIDs_bounded jsonInt_range prefix_range emptyResponse_def)
  next
    case 3
    then show ?thesis
      using assms z by (auto simp: dispatchResponse_def Let_def emptyResponse_def split: if_splits)
  qed
qed

lemma limitLoop_stream:
  assumes "json_stream data = (ts, e)" "limitLoop e 0 0 False ts = None"
  shows "e = TokEOF \<and> take_value 0 ts = Some (ts, []) \<and> length ts \<le> MaxControllerJSONTokens \<and>
     max_depth 0 ts \<le> MaxControllerJSONDepth"
  using limitLoop_None [of e 0 0 ts] json_tokens_closes [OF assms(1)] assms(2) by simp

lemma validateJSONLimits_value:
  assumes "validateJSONLimits data = None"
  shows "json_value data = Some (fst (json_stream data))"
proof -
  obtain ts e where ts: "json_stream data = (ts, e)" by fastforce
  then show ?thesis
    using assms limitLoop_stream [OF ts] by (auto simp: validateJSONLimits_def json_value_def split: if_splits)
qed

text \<open>A sample document, evaluated once for the instances below.\<close>

definition noopDoc :: string where
  "noopDoc = ''{\"_type\":\"noop\",\"interval\":9,\"include_blocks\":[\"a\",\"a\",{\"id\":\"b\"}]}''"

lemma noopDoc_limits: "validateJSONLimits noopDoc = None"
  by (simp add: validateJSONLimits_def noopDoc_def go_simps MaxControllerJSONBytes_def
      MaxControllerJSONTokens_def MaxControllerJSONDepth_def)

lemma noopDoc_object: "decodeUniqueTopLevelObject noopDoc = Inr (Some
    [(''_type'', ''\"noop\"''), (''interval'', ''9''), (''include_blocks'', ''[\"a\",\"a\",{\"id\":\"b\"}]'')])"
  by code_simp

lemma noopDoc_response:
  "ParseControllerResponseInfo (bytes_of noopDoc) = Inr (parseNoop
     [(''_type'', ''\"noop\"''), (''interval'', ''9''), (''include_blocks'', ''[\"a\",\"a\",{\"id\":\"b\"}]'')]
     (emptyResponse\<lparr>rspType := ''noop''\<rparr>))"
  by (simp add: ParseControllerResponseInfo_def noopDoc_limits noopDoc_object go_simps
      knownControllerResponseType_def dispatchResponse_def emptyResponse_def)

section \<open>Properties\<close>



text \<open>everything the status retains of a response is bounded: block lists have at most 256 distinct,
  non-empty names of at most 128 bytes of valid UTF-8 without control characters, the provisioning
  block is reduced to the two known namespaces, and the numbers fit in 64 bits.\<close>

theorem ParseControllerResponseInfo_bounded:
  assumes "ParseControllerResponseInfo body = Inr r"
  shows "blocks_bounded (IncludeBlocks r) \<and> blocks_bounded (ExcludeBlocks r) \<and> blocks_bounded (UDAPIBlocks r) \<and>
    set (SystemCFGKeys r) \<subseteq> {''ubntconf'', ''udapi''} \<and> int64_range (IntervalSeconds r) \<and> int64_range (ServerTimeUTC r)"
proof -
  obtain raw ty where "dispatchResponse raw (emptyResponse\<lparr>rspType := ty\<rparr>) = Inr r"
    using ParseControllerResponseInfo_cases [OF assms] by blast
  then show ?thesis by (rule dispatch_bounded)
qed

theorem ParseControllerResponseInfo_bounded_witness:
  "\<exists>r. ParseControllerResponseInfo (bytes_of noopDoc) = Inr r \<and> blocks_bounded (IncludeBlocks r) \<and> int64_range (IntervalSeconds r)"
  using ParseControllerResponseInfo_bounded [OF noopDoc_response] noopDoc_response by blast

text \<open>an ambiguous document is refused. When the top-level object decodes, no key occurs twice, and the
  decoded fields are exactly what \<open>json.Unmarshal\<close> into a map would give.\<close>

theorem decodeUniqueTopLevelObject_unique:
  assumes "validateJSONLimits data = None" and "decodeUniqueTopLevelObject data = Inr (Some raw)"
  shows "distinct (map fst raw) \<and> unmarshal_raw_map data = Some (Some (map_of raw))"
proof -
  obtain i rest where i: "fst (json_stream data) = i # rest" "fst i = JDelim CHR ''{''"
      and raw: "raw = map (\<lambda>(k, v). (k, value_text v)) (object_members rest)" and d: "distinct (map fst raw)"
    using decodeUnique_spec [OF assms(2)] by blast
  have "json_value data = Some (i # rest)" using validateJSONLimits_value [OF assms(1)] i by simp
  then have "unmarshal_raw_map data = Some (Some (map_of (rev raw)))"
    using i(2) by (cases i) (simp add: unmarshal_raw_map_def raw)
  then show ?thesis using d by (simp add: map_of_rev_distinct)
qed

theorem decodeUniqueTopLevelObject_unique_witness:
  "\<exists>m. unmarshal_raw_map noopDoc = Some (Some m) \<and> m ''interval'' = Some ''9''"
  using decodeUniqueTopLevelObject_unique [OF noopDoc_limits noopDoc_object] by simp

text \<open>a document that passes \<open>validateJSONLimits\<close> is exactly one complete JSON value of at most 4 MiB,
  65536 tokens and 64 levels of nesting.\<close>

theorem validateJSONLimits_sound:
  assumes "validateJSONLimits data = None"
  shows "length data \<le> MaxControllerJSONBytes \<and>
    (\<exists>ts. json_value data = Some ts \<and> length ts \<le> MaxControllerJSONTokens \<and> max_depth 0 ts \<le> MaxControllerJSONDepth)"
proof -
  obtain ts e where ts: "json_stream data = (ts, e)" by fastforce
  show ?thesis
    using assms limitLoop_stream [OF ts] validateJSONLimits_value [OF assms] ts
    by (auto simp: validateJSONLimits_def split: if_splits)
qed

theorem validateJSONLimits_sound_witness:
  "\<exists>ts. json_value noopDoc = Some ts \<and> length ts \<le> MaxControllerJSONTokens"
  using validateJSONLimits_sound [OF noopDoc_limits] by blast

text \<open>the block predicate learned from a list: the enabled identifiers are distinct and are exactly
  those whose last occurrence is a string entry; a later object descriptor of the same name disables
  the entry.\<close>

theorem jsonContentBlockStringIDs_spec:
  assumes "jsonContentBlockItems raw = Inr items" and "jsonContentBlockStringIDs raw = Inr ids"
  shows "distinct ids \<and> (\<forall>b. b \<in> set ids \<longleftrightarrow> lastKind items b = Some True)"
proof -
  obtain order m where l: "stringIDLoop items [] Map.empty = (order, m)" by fastforce
  then show ?thesis
    using assms stringIDs_spec [OF l] by (auto simp: jsonContentBlockStringIDs_def)
qed

theorem jsonContentBlockStringIDs_spec_witness:
  "\<exists>ids. jsonContentBlockStringIDs ''[\"a\",\"b\",{\"id\":\"b\"}]'' = Inr ids \<and> ''a'' \<in> set ids \<and> ''b'' \<notin> set ids"
proof -
  let ?raw = "''[\"a\",\"b\",{\"id\":\"b\"}]''"
  let ?items = "[\<lparr>stringID = ''a'', objectID = []\<rparr>, \<lparr>stringID = ''b'', objectID = []\<rparr>, \<lparr>stringID = [], objectID = ''b''\<rparr>]"
  have i: "jsonContentBlockItems ?raw = Inr ?items" by code_simp
  obtain ids where ids: "jsonContentBlockStringIDs ?raw = Inr ids"
    unfolding jsonContentBlockStringIDs_def i by (auto simp: case_prod_beta)
  from jsonContentBlockStringIDs_spec [OF i ids] ids show ?thesis by (simp add: itemID_def)
qed

end
