(* ===== verification/Discovery.thy ===== *)
theory Discovery
  imports Go_Net
begin

text \<open>
  Discovery announcements, \<open>internal/discovery/tlv.go\<close>: the packet encoder \<open>MarshalBinary\<close> with its
  TLV records, and \<open>SendToInterface\<close>. The network is an argument: the interfaces of the host, the
  socket, the resolver and the answers of the socket to each datagram.

  A reader of the wire format, \<open>parseTLVs\<close>, is the specification the encoder is measured against.
\<close>

section \<open>The packet (tlv.go)\<close>

definition BroadcastAddress :: string where "BroadcastAddress = ''255.255.255.255:10001''"
definition MulticastAddress :: string where "MulticastAddress = ''233.89.188.1:10001''"
definition discoveryVersion :: byte where "discoveryVersion = 2"
definition discoveryType :: byte where "discoveryType = 6"

record announcement =
  annMAC :: bytes
  annIP :: bytes
  annModel :: string
  annVersion :: string
  annHostname :: string
  annDefault :: bool
  annUptime :: "32 word"
  annSequence :: "32 word"

datatype discovery_error = BadMAC | NotIPv4 | PayloadTooLarge

definition writeTLV :: "byte \<Rightarrow> bytes \<Rightarrow> bytes" where
  "writeTLV typ v = typ # be16_put (of_nat (length v)) @ v"

text \<open>The digits of \<open>hexdigits\<close>, upper case.\<close>

definition upper_hex :: "byte \<Rightarrow> char" where
  "upper_hex b = ''0123456789ABCDEF'' ! unat b"

definition serialFromMAC :: "bytes \<Rightarrow> string" where
  "serialFromMAC mac = concat (map (\<lambda>b. [upper_hex (drop_bit 4 b), upper_hex (b AND 15)]) mac)"

definition announcementTLVs :: "announcement \<Rightarrow> bytes \<Rightarrow> (byte \<times> bytes) list" where
  "announcementTLVs a ip =
     [(0x02, annMAC a @ ip), (0x01, annMAC a), (0x0a, be32_put (annUptime a))]
     @ (if annHostname a \<noteq> [] then [(0x0b, bytes_of (annHostname a))] else [])
     @ [(0x16, bytes_of (annVersion a)), (0x15, bytes_of (annModel a)), (0x13, bytes_of (serialFromMAC (annMAC a))),
        (0x12, be32_put (annSequence a)), (0x17, if annDefault a then [1] else [0])]"

definition encodeTLVs :: "(byte \<times> bytes) list \<Rightarrow> bytes" where
  "encodeTLVs rs = concat (map (\<lambda>r. writeTLV (fst r) (snd r)) rs)"

definition MarshalBinary :: "announcement \<Rightarrow> discovery_error + bytes" where
  "MarshalBinary a =
     (if length (annMAC a) \<noteq> 6 then Inl BadMAC
      else (case To4 (annIP a) of
              None \<Rightarrow> Inl NotIPv4
            | Some ip \<Rightarrow>
                (let payload = encodeTLVs (announcementTLVs a ip) in
                 if length payload > 65535 then Inl PayloadTooLarge
                 else Inr (discoveryVersion # discoveryType # be16_put (of_nat (length payload)) @ payload))))"

section \<open>Sending\<close>

datatype net_addr = IPNet bytes | OtherAddr

record udp_env =
  netInterface :: "string \<Rightarrow> (net_addr list option) option"
  netListen :: "string \<Rightarrow> bool"
  netResolve :: "string \<Rightarrow> string option"
  netWriteTo :: "bytes \<Rightarrow> string \<Rightarrow> bool"

text \<open>\<open>netInterface\<close> answers \<open>None\<close> for an unknown interface and \<open>Some None\<close> when its addresses cannot be read.\<close>

datatype send_error = BadInterfaceName | NoInterface | NoInterfaceAddrs | NoIPv4Address | SocketFailed
  | ResolveFailed string | WriteFailed string | SendErrors "send_error list"

fun firstIPv4 :: "net_addr list \<Rightarrow> bytes option" where
  "firstIPv4 [] = None"
| "firstIPv4 (OtherAddr # as) = firstIPv4 as"
| "firstIPv4 (IPNet ip # as) = (case To4 ip of Some v \<Rightarrow> Some v | None \<Rightarrow> firstIPv4 as)"

definition interfaceIPv4 :: "udp_env \<Rightarrow> string \<Rightarrow> send_error + bytes" where
  "interfaceIPv4 env name =
     (if go_contains name ''/'' then Inl BadInterfaceName
      else (case netInterface env name of
              None \<Rightarrow> Inl NoInterface
            | Some None \<Rightarrow> Inl NoInterfaceAddrs
            | Some (Some addrs) \<Rightarrow> (case firstIPv4 addrs of Some ip \<Rightarrow> Inr ip | None \<Rightarrow> Inl NoIPv4Address)))"

definition DefaultTargets :: "string list" where
  "DefaultTargets = [BroadcastAddress, MulticastAddress]"

definition cleanTargets :: "string list \<Rightarrow> string list" where
  "cleanTargets targets = filter (\<lambda>t. t \<noteq> []) (map trim_space targets)"

text \<open>The loop over the targets: the datagrams sent, and the errors collected.\<close>

fun sendLoop :: "udp_env \<Rightarrow> bytes \<Rightarrow> string list \<Rightarrow> (string \<times> bytes) list \<times> send_error list" where
  "sendLoop env packet [] = ([], [])"
| "sendLoop env packet (addr # addrs) =
     (case sendLoop env packet addrs of (sent, errs) \<Rightarrow>
        (case netResolve env addr of
           None \<Rightarrow> (sent, ResolveFailed addr # errs)
         | Some udpAddr \<Rightarrow>
             ((udpAddr, packet) # sent, if netWriteTo env packet udpAddr then errs else WriteFailed addr # errs)))"

definition sendTargets :: "string list \<Rightarrow> string list" where
  "sendTargets targets = (let ts = cleanTargets targets in if ts = [] then DefaultTargets else ts)"

definition sendOn :: "udp_env \<Rightarrow> bytes \<Rightarrow> string list \<Rightarrow> string \<Rightarrow> (string \<times> bytes) list \<times> send_error option" where
  "sendOn env packet targets listenAddr =
     (if \<not> netListen env listenAddr then ([], Some SocketFailed)
      else (case sendLoop env packet targets of
              (sent, errs) \<Rightarrow> (sent, if errs = [] then None else Some (SendErrors errs))))"

definition SendToInterface :: "udp_env \<Rightarrow> bytes \<Rightarrow> string list \<Rightarrow> string \<Rightarrow> (string \<times> bytes) list \<times> send_error option" where
  "SendToInterface env packet targets ifaceName =
     (if trim_space ifaceName = [] then sendOn env packet (sendTargets targets) '':0''
      else (case interfaceIPv4 env (trim_space ifaceName) of
              Inl e \<Rightarrow> ([], Some e)
            | Inr ip \<Rightarrow> sendOn env packet (sendTargets targets) (ipv4_string ip @ '':0'')))"

section \<open>The wire format\<close>

text \<open>A reader of TLV records: \<open>None\<close> when a record is cut off.\<close>

function parseTLVs :: "bytes \<Rightarrow> (byte \<times> bytes) list option" where
  "parseTLVs d =
     (if d = [] then Some []
      else if length d < 3 then None
      else let n = unat (be16_get (drop 1 d)) in
        if length d < 3 + n then None
        else map_option (\<lambda>r. (hd d, take n (drop 3 d)) # r) (parseTLVs (drop (3 + n) d)))"
  by pat_completeness auto
termination
  by (relation "measure length") auto

declare parseTLVs.simps [simp del]

definition parseAnnouncement :: "bytes \<Rightarrow> (byte \<times> bytes) list option" where
  "parseAnnouncement p =
     (if take 2 p = [discoveryVersion, discoveryType] \<and> length p \<ge> 4 \<and> unat (be16_get (drop 2 p)) = length p - 4
      then parseTLVs (drop 4 p) else None)"

lemma parseTLVs_writeTLV:
  assumes "length v < 65536"
  shows "parseTLVs (writeTLV t v @ r) = map_option ((#) (t, v)) (parseTLVs r)"
proof -
  let ?d = "writeTLV t v @ r"
  have "drop 3 ?d = v @ r" and d: "drop (3 + length v) ?d = r" and h: "hd ?d = t" and ne: "?d \<noteq> []"
    by (simp_all add: writeTLV_def eval_nat_numeral)
  then have v: "take (length v) (drop 3 ?d) = v" by simp
  have n: "unat (be16_get (drop 1 ?d)) = length v"
    using assms be16_roundtrip [of "of_nat (length v)" "v @ r"]
    by (simp add: writeTLV_def unsigned_of_nat take_bit_nat_eq_self)
  have l: "\<not> length ?d < 3" "\<not> length ?d < 3 + length v" by (simp_all add: writeTLV_def)
  show ?thesis
    unfolding parseTLVs.simps [of ?d] Let_def n if_not_P [OF ne] if_not_P [OF l(1)] if_not_P [OF l(2)] d h v by simp
qed

lemma parseTLVs_concat:
  assumes "\<And>t v. (t, v) \<in> set rs \<Longrightarrow> length v < 65536"
  shows "parseTLVs (encodeTLVs rs) = Some rs"
  using assms
proof (induction rs)
  case Nil
  then show ?case by (simp add: parseTLVs.simps encodeTLVs_def)
next
  case (Cons r rs)
  obtain t v where r: "r = (t, v)" by fastforce
  have "parseTLVs (encodeTLVs rs) = Some rs"
    by (rule Cons.IH) (use Cons.prems in auto)
  then show ?case using parseTLVs_writeTLV [of v t "encodeTLVs rs"] Cons.prems [of t v] r by (simp add: encodeTLVs_def)
qed

lemma record_shorter:
  "(t, v) \<in> set rs \<Longrightarrow> length v \<le> length (encodeTLVs rs)"
  by (induction rs) (auto simp: writeTLV_def encodeTLVs_def)

section \<open>Properties\<close>

text \<open>announcements are well-formed. A packet that \<open>MarshalBinary\<close> returns comes from a 6-byte MAC and an
  IPv4 address; the length fields of the packet and of every record are exact (no 16-bit truncation,
  however long hostname, version and model are), and a reader of the wire format gets back exactly the
  records of the announcement, in order.\<close>

theorem MarshalBinary_roundtrip:
  assumes "MarshalBinary a = Inr packet"
  shows "\<exists>ip. length (annMAC a) = 6 \<and> To4 (annIP a) = Some ip \<and>
    parseAnnouncement packet = Some (announcementTLVs a ip) \<and>
    unat (be16_get (drop 2 packet)) = length packet - 4 \<and> length packet \<le> 65539"
proof -
  obtain ip where m: "length (annMAC a) = 6" and ip: "To4 (annIP a) = Some ip"
    using assms by (auto simp: MarshalBinary_def split: if_splits option.splits)
  define payload where "payload = encodeTLVs (announcementTLVs a ip)"
  have le: "length payload \<le> 65535"
    and p: "packet = discoveryVersion # discoveryType # be16_put (of_nat (length payload)) @ payload"
    using assms by (auto simp: payload_def MarshalBinary_def ip Let_def m split: if_splits)
  have "parseTLVs payload = Some (announcementTLVs a ip)"
    unfolding payload_def
    by (rule parseTLVs_concat) (use record_shorter le in \<open>fastforce simp: payload_def\<close>)
  moreover have "unat (be16_get (be16_put (of_nat (length payload)) @ payload)) = length payload"
    unfolding be16_roundtrip using le by (simp add: unsigned_of_nat take_bit_nat_eq_self)
  ultimately show ?thesis using m ip le by (auto simp: p parseAnnouncement_def)
qed

definition sampleAnn :: announcement where
  "sampleAnn = \<lparr>annMAC = [2, 0, 0, 0, 0, 1], annIP = [192, 0, 2, 10], annModel = ''US8'', annVersion = ''6.6.0'',
     annHostname = ''sw'', annDefault = True, annUptime = 7, annSequence = 1\<rparr>"

lemma sample_len: "length (encodeTLVs (announcementTLVs sampleAnn [192, 0, 2, 10])) \<le> 65535"
  by (simp add: encodeTLVs_def announcementTLVs_def sampleAnn_def writeTLV_def serialFromMAC_def be32_put_def be16_put_def hex_encode_def)

lemma sample_marshals: "\<not> isl (MarshalBinary sampleAnn)"
proof -
  have "To4 (annIP sampleAnn) = Some [192, 0, 2, 10]" "length (annMAC sampleAnn) = 6"
    by (simp_all add: sampleAnn_def To4_def)
  then show ?thesis using sample_len by (simp add: MarshalBinary_def Let_def)
qed
theorem MarshalBinary_roundtrip_witness:
  "\<exists>packet ip. MarshalBinary sampleAnn = Inr packet \<and> parseAnnouncement packet = Some (announcementTLVs sampleAnn ip)"
proof -
  have "\<not> isl (MarshalBinary sampleAnn)" by (rule sample_marshals)
  then obtain packet where "MarshalBinary sampleAnn = Inr packet" by (cases "MarshalBinary sampleAnn") simp_all
  with MarshalBinary_roundtrip [OF this] show ?thesis by blast
qed

text \<open>Every target is tried: what leaves the host is one datagram per resolved target, in order, whatever
  happened to the others, and success means that every target was resolved and accepted the packet.
\<close>

lemma sendLoop_sent: "fst (sendLoop env packet ts) = map (\<lambda>u. (u, packet)) (List.map_filter (netResolve env) ts)"
  by (induction ts) (auto simp: map_filter_simps split: option.splits prod.splits)

lemma sendLoop_errors:
  "snd (sendLoop env packet ts) = [] \<longleftrightarrow>
     (\<forall>t\<in>set ts. \<exists>u. netResolve env t = Some u \<and> netWriteTo env packet u)"
  by (induction ts) (auto split: option.splits prod.splits)

lemma sendTargets_not_Nil: "sendTargets ts \<noteq> []"
  by (simp add: sendTargets_def Let_def DefaultTargets_def)

end
