(* ===== verification/Heartbeat.thy ===== *)
theory Heartbeat
  imports Adoption_Response Inform_Schedule Discovery
begin

text \<open>
  One controller exchange of the daemon and the loop around it: \<open>adoption.go\<close>, \<open>inform.go\<close>,
  \<open>serve_heartbeat.go\<close>, \<open>status_persist.go\<close> and \<open>serve_presence.go\<close> of \<open>cmd/unifi-stubd\<close>.

  A heartbeat runs in an environment \<open>hb_env\<close> (the transport, the random source, the clock and the
  system calls) on a state \<open>hb_state\<close>: the file system with the adoption state file, the schedule, the
  controller clock and the block selection. The status file is the value the heartbeat records; its
  JSON text, the wall-clock time in it and the rendering of durations are not modelled. The inform
  payload is an argument: every property holds for whatever bytes the payload builder returns.
\<close>

section \<open>Wire state (device/identity.go, device_payload.go)\<close>

datatype inform_state = InformStateUnknown | InformStateDefault | InformStateManaged
  | InformStateSelfrun | InformStateUpgrade

fun informStateText :: "inform_state \<Rightarrow> string" where
  "informStateText InformStateUnknown = ''unknown''"
| "informStateText InformStateDefault = ''default''"
| "informStateText InformStateManaged = ''managed''"
| "informStateText InformStateSelfrun = ''selfrun''"
| "informStateText InformStateUpgrade = ''upgrade''"

definition controllerInformState :: "adoption_store \<Rightarrow> inform_state" where
  "controllerInformState store =
     (if AuthKey store = [] then InformStateDefault
      else if State store = StateConnected then InformStateManaged
      else InformStateUnknown)"

definition adoptionStateText :: "adoption_store \<Rightarrow> string" where
  "adoptionStateText store =
     (if State store \<noteq> [] then State store
      else if AuthKey store \<noteq> [] then StateProvisioning
      else StateFactory)"

section \<open>Adoption state of the daemon (adoption.go)\<close>

definition resetDispositionApplied :: string where "resetDispositionApplied = ''applied''"
definition resetDispositionAlreadyFactory :: string where "resetDispositionAlreadyFactory = ''already_factory''"
definition resetDispositionFailed :: string where "resetDispositionFailed = ''failed''"

definition loadAdoptionState :: "read_result \<Rightarrow> adoption_error + adoption_store" where
  "loadAdoptionState rd =
     (case LoadEnv rd of
        Inr store \<Rightarrow> Inr store
      | Inl e \<Rightarrow> if e = FileNotExist then Inr factoryStore else Inl e)"

definition effectiveInformURL :: "string \<Rightarrow> adoption_store \<Rightarrow> string" where
  "effectiveInformURL fallback store = (if InformURL store \<noteq> [] then InformURL store else fallback)"

definition adoptionStoreAlreadyFactory :: "adoption_store \<Rightarrow> bool" where
  "adoptionStoreAlreadyFactory store \<longleftrightarrow>
     AuthKey store = [] \<and> InformURL store = [] \<and> CFGVersion store = [] \<and> \<not> UseAESGCM store \<and>
     StoreVersion store = [] \<and> (State store = [] \<or> State store = StateFactory)"

record update_result =
  updFS :: fs
  updResponse :: "controller_response option"
  updStore :: adoption_store
  updError :: "adoption_error option"

definition updateAdoptionState ::
  "syscalls \<Rightarrow> path \<Rightarrow> adoption_store \<Rightarrow> controller_response option \<Rightarrow> bool \<Rightarrow> fs \<Rightarrow> update_result" where
  "updateAdoptionState sys path store response usedGCM fs =
     (case response of
        None \<Rightarrow> \<lparr>updFS = fs, updResponse = None, updStore = store, updError = None\<rparr>
      | Some r \<Rightarrow>
          if ResetRequested r then
            (case ResetEnv sys path fs of
               (fs', resetStore, Some e) \<Rightarrow>
                 \<lparr>updFS = fs',
                   updResponse = Some (r\<lparr>ResetApplied := False, ResetDisposition := resetDispositionFailed\<rparr>),
                   updStore = store, updError = Some e\<rparr>
             | (fs', resetStore, None) \<Rightarrow>
                 \<lparr>updFS = fs',
                   updResponse = Some (r\<lparr>ResetApplied := True,
                     ResetDisposition := (if adoptionStoreAlreadyFactory store
                                          then resetDispositionAlreadyFactory else resetDispositionApplied)\<rparr>),
                   updStore = resetStore, updError = None\<rparr>)
          else if \<not> HasStateUpdate r then
            (if usedGCM \<and> AuthKey store \<noteq> [] \<and> \<not> UseAESGCM store then
               (let updated = store\<lparr>UseAESGCM := True\<rparr> in
                case SaveEnv sys path updated fs of
                  (fs', Some e) \<Rightarrow> \<lparr>updFS = fs', updResponse = Some r, updStore = store, updError = Some e\<rparr>
                | (fs', None) \<Rightarrow> \<lparr>updFS = fs', updResponse = Some r, updStore = updated, updError = None\<rparr>)
             else \<lparr>updFS = fs, updResponse = Some r, updStore = store, updError = None\<rparr>)
          else
            (let update = (if usedGCM then (rspStore r)\<lparr>UseAESGCM := True\<rparr> else rspStore r) in
             case Merge store update of (updated, changed) \<Rightarrow>
               if changed then
                 (case SaveEnv sys path updated fs of
                    (fs', Some e) \<Rightarrow> \<lparr>updFS = fs', updResponse = Some r, updStore = store, updError = Some e\<rparr>
                  | (fs', None) \<Rightarrow> \<lparr>updFS = fs', updResponse = Some r, updStore = updated, updError = None\<rparr>)
               else \<lparr>updFS = fs, updResponse = Some r, updStore = updated, updError = None\<rparr>))"

section \<open>Sending (inform.go)\<close>

record inform_cipher_status =
  RequestFlags :: "16 word"
  KeySource :: string
  ResponseBodyPresent :: bool
  ResponsePacketDecoded :: bool
  ResponseFlags :: "16 word"

definition emptyCipherStatus :: inform_cipher_status where
  "emptyCipherStatus = \<lparr>RequestFlags = 0, KeySource = [], ResponseBodyPresent = False,
     ResponsePacketDecoded = False, ResponseFlags = 0\<rparr>"

datatype key_error = KeyHexError | KeyLengthError | KeyIsDefault | DefaultKeyWithCipher
  | DefaultKeyForState | DefaultKeyUnknownState

datatype send_error = KeyError key_error | SendError inform_error

definition authKeyBytes :: "string \<Rightarrow> key_error + bytes" where
  "authKeyBytes authKey =
     (if authKey = [] then Inr []
      else if length authKey = 16 then
        (if IsDefaultAuthKey (bytes_of authKey) then Inl KeyIsDefault else Inr (bytes_of authKey))
      else (case hex_decode authKey of
              None \<Rightarrow> Inl KeyHexError
            | Some key \<Rightarrow>
                if length key \<noteq> 16 then Inl KeyLengthError
                else if IsDefaultAuthKey key then Inl KeyIsDefault
                else Inr key))"

definition informAuthKey :: "adoption_store \<Rightarrow> key_error + bytes" where
  "informAuthKey store =
     (if AuthKey store \<noteq> [] then authKeyBytes (AuthKey store)
      else if UseAESGCM store then Inl DefaultKeyWithCipher
      else if State store \<in> {[], StateFactory, StateDiscovered, StateProvisioning} then Inr DefaultAuthKey
      else if State store \<in> {StateAdopting, StateConnected, StateFailed} then Inl DefaultKeyForState
      else Inl DefaultKeyUnknownState)"

definition requestFlags :: "options \<Rightarrow> 16 word" where
  "requestFlags opts =
     (let flags = FlagEncrypted;
          flags = (if optZlib opts then flags OR FlagZlib else flags)
      in if optGCM opts then flags OR FlagEncryptedGCM else flags)"

definition cipherStatusText :: "inform_cipher_status \<Rightarrow> string" where
  "cipherStatusText cipher =
     (if RequestFlags cipher = 0 then []
      else if RequestFlags cipher AND FlagEncryptedGCM \<noteq> 0 then ''aes-gcm'' else ''aes-cbc'')"

record hb_env =
  envLib :: crypto_lib
  envRnd :: "nat \<Rightarrow> bytes option"
  envHttp :: "string \<Rightarrow> bytes \<Rightarrow> http_reply"
  envSys :: syscalls
  envInt63n :: "int \<Rightarrow> int"
  envCoin :: int
  envNow :: gotime
  envUptime :: "32 word"
  envUdp :: udp_env

definition informOptions :: "adoption_store \<Rightarrow> options" where
  "informOptions store = \<lparr>optZlib = True, optGCM = (AuthKey store \<noteq> [] \<and> UseAESGCM store)\<rparr>"

definition sendInform ::
  "hb_env \<Rightarrow> bytes \<Rightarrow> string \<Rightarrow> adoption_store \<Rightarrow> bytes \<Rightarrow> response option \<times> inform_cipher_status \<times> send_error option" where
  "sendInform env mac url store payload =
     (case informAuthKey store of
        Inl e \<Rightarrow> (None, emptyCipherStatus, Some (KeyError e))
      | Inr key \<Rightarrow>
          (let status = emptyCipherStatus\<lparr>RequestFlags := requestFlags (informOptions store),
                          KeySource := (if AuthKey store \<noteq> [] then ''adopted'' else ''default'')\<rparr>;
               client = \<lparr>clientURL = url, clientMAC = mac, clientKey = key,
                         clientOptions = informOptions store, clientMaxResponseBytes = 0\<rparr>
           in case Send (envLib env) (envRnd env) (envHttp env) client payload of
                (resp, sendErr) \<Rightarrow>
                  (let status = (case resp of
                                   None \<Rightarrow> status
                                 | Some rp \<Rightarrow>
                                     (let status = status\<lparr>ResponseBodyPresent := (respRawBody rp \<noteq> [])\<rparr> in
                                      case respPacket rp of
                                        None \<Rightarrow> status
                                      | Some pkt \<Rightarrow> status\<lparr>ResponseFlags := pktFlags pkt,
                                                          ResponsePacketDecoded := (sendErr = None)\<rparr>))
                   in (resp, status, map_option SendError sendErr))))"

section \<open>The recorded status (status_types.go, status_persist.go)\<close>

datatype exchange_error = ExSend send_error | ExStatus nat | ExParse response_error | ExState adoption_error

record last_inform =
  lastURL :: string
  lastStatusCode :: nat
  lastResponseType :: string
  lastControllerState :: string
  lastWireState :: inform_state
  lastCFGVersion :: string
  lastVersion :: string
  lastCipher :: string
  lastRequestFlags :: "16 word"
  lastKeySource :: string
  lastResponseBodyPresent :: bool
  lastResponsePacketDecoded :: bool
  lastResponseJSONParsed :: bool
  lastResponseFlags :: "16 word"
  lastRawBytes :: nat
  lastJSONBytes :: nat
  lastIntervalSeconds :: int
  lastSchedule :: "schedule_decision option"
  lastIncludeBlocks :: "string list"
  lastExcludeBlocks :: "string list"
  lastUDAPIBlocks :: "string list"
  lastBlockSelectionLimited :: bool
  lastImmediate :: bool
  lastServerTimeUTC :: int
  lastServerTimeSet :: bool
  lastControllerTimeOffset :: int
  lastControllerTimeSet :: bool
  lastResetRequested :: bool
  lastResetApplied :: bool
  lastResetReason :: string
  lastResetDisposition :: string
  lastHasMgmtCFG :: bool
  lastHasSystemCFG :: bool
  lastSystemCFGBytes :: nat
  lastSystemCFGKeys :: "string list"
  lastIgnored :: bool
  lastIgnoredReason :: string
  lastError :: "exchange_error option"

definition newLastInformStatus :: "string \<Rightarrow> adoption_store \<Rightarrow> last_inform" where
  "newLastInformStatus url store =
     \<lparr>lastURL = url, lastStatusCode = 0, lastResponseType = [],
      lastControllerState = adoptionStateText store, lastWireState = controllerInformState store,
      lastCFGVersion = CFGVersion store, lastVersion = StoreVersion store, lastCipher = [],
      lastRequestFlags = 0, lastKeySource = [], lastResponseBodyPresent = False,
      lastResponsePacketDecoded = False, lastResponseJSONParsed = False, lastResponseFlags = 0,
      lastRawBytes = 0, lastJSONBytes = 0, lastIntervalSeconds = 0, lastSchedule = None,
      lastIncludeBlocks = [], lastExcludeBlocks = [], lastUDAPIBlocks = [],
      lastBlockSelectionLimited = False, lastImmediate = False, lastServerTimeUTC = 0,
      lastServerTimeSet = False, lastControllerTimeOffset = 0, lastControllerTimeSet = False,
      lastResetRequested = False, lastResetApplied = False, lastResetReason = [],
      lastResetDisposition = [], lastHasMgmtCFG = False, lastHasSystemCFG = False,
      lastSystemCFGBytes = 0, lastSystemCFGKeys = [], lastIgnored = False, lastIgnoredReason = [],
      lastError = None\<rparr>"

definition applyInformScheduleStatus :: "schedule_decision \<Rightarrow> last_inform \<Rightarrow> last_inform" where
  "applyInformScheduleStatus dec li = li\<lparr>lastSchedule := Some dec\<rparr>"

definition applyControllerClockStatus :: "controller_clock option \<Rightarrow> last_inform \<Rightarrow> last_inform" where
  "applyControllerClockStatus clock li =
     (case clock of
        None \<Rightarrow> li
      | Some _ \<Rightarrow> li\<lparr>lastControllerTimeOffset := clock_OffsetSeconds clock,
                       lastControllerTimeSet := clock_Set clock\<rparr>)"

definition applyResponseStatus :: "controller_response \<Rightarrow> last_inform \<Rightarrow> last_inform" where
  "applyResponseStatus r li =
     li\<lparr>lastResponseType := rspType r, lastIntervalSeconds := IntervalSeconds r,
       lastIncludeBlocks := IncludeBlocks r, lastExcludeBlocks := ExcludeBlocks r,
       lastUDAPIBlocks := UDAPIBlocks r, lastBlockSelectionLimited := BlockSelectionLimited r,
       lastImmediate := Immediate r, lastServerTimeUTC := ServerTimeUTC r,
       lastServerTimeSet := ServerTimeSet r, lastResetRequested := ResetRequested r,
       lastResetApplied := ResetApplied r, lastResetReason := ResetReason r,
       lastResetDisposition := ResetDisposition r, lastHasMgmtCFG := HasMgmtCFG r,
       lastHasSystemCFG := HasSystemCFG r, lastSystemCFGBytes := SystemCFGBytes r,
       lastSystemCFGKeys := SystemCFGKeys r, lastIgnored := Ignored r,
       lastIgnoredReason := IgnoredReason r\<rparr>"

definition recordLastInform ::
  "last_inform \<Rightarrow> nat \<Rightarrow> string \<Rightarrow> inform_cipher_status \<Rightarrow> nat \<Rightarrow> nat \<Rightarrow> exchange_error option \<Rightarrow> last_inform" where
  "recordLastInform li statusCode responseType cipher rawBytes jsonBytes err =
     li\<lparr>lastStatusCode := statusCode, lastResponseType := responseType,
       lastCipher := cipherStatusText cipher, lastRequestFlags := RequestFlags cipher,
       lastKeySource := KeySource cipher, lastResponseBodyPresent := ResponseBodyPresent cipher,
       lastResponsePacketDecoded := ResponsePacketDecoded cipher,
       lastResponseFlags := ResponseFlags cipher, lastRawBytes := rawBytes,
       lastJSONBytes := jsonBytes, lastError := err\<rparr>"

section \<open>One heartbeat (serve_heartbeat.go)\<close>

definition controllerIntervalDuration :: "int \<Rightarrow> duration" where
  "controllerIntervalDuration seconds =
     (if seconds \<le> 0 then 0
      else if seconds > go_div MaxInt64 Second then MaxInt64
      else wrap64 (seconds * Second))"

record reporting_policy =
  polBlockSelection :: bool
  polControllerClock :: bool

record hb_state =
  hbFS :: fs
  hbSched :: schedule
  hbClock :: "controller_clock option"
  hbBlocks :: "block_selection option"
  hbAnn :: announcement
  hbSent :: "(string \<times> bytes) list"

record hb_result =
  resState :: hb_state
  resDecision :: schedule_decision
  resError :: "adoption_error option"
  resRecorded :: "last_inform option"

definition jsonBytesOf :: "response \<Rightarrow> bytes" where
  "jsonBytesOf resp = (case respJSONBody resp of None \<Rightarrow> [] | Some b \<Rightarrow> b)"

text \<open>The tail of the function for a decoded, parsed controller response.\<close>

definition applyControllerResponse ::
  "hb_env \<Rightarrow> path \<Rightarrow> reporting_policy \<Rightarrow> adoption_store \<Rightarrow> response \<Rightarrow> inform_cipher_status \<Rightarrow> last_inform
     \<Rightarrow> controller_response \<Rightarrow> hb_state \<Rightarrow> hb_result" where
  "applyControllerResponse env statePath pol store resp cipher li0 r0 s =
     (let li = li0\<lparr>lastResponseJSONParsed := True\<rparr>;
          upd = updateAdoptionState (envSys env) statePath store (Some r0)
                  (RequestFlags cipher AND FlagEncryptedGCM \<noteq> 0) (hbFS s);
          r = the (updResponse upd);
          raw = length (respRawBody resp);
          json = length (jsonBytesOf resp)
      in case updError upd of
           Some e \<Rightarrow>
             (case Failure (hbSched s) (envInt63n env) (envCoin env) of (sched, dec) \<Rightarrow>
                let li = applyControllerClockStatus (hbClock s) (applyResponseStatus r
                             ((applyInformScheduleStatus dec li)\<lparr>lastControllerState := adoptionStateText store,
                                lastCFGVersion := CFGVersion store, lastVersion := StoreVersion store\<rparr>))
                in \<lparr>resState = s\<lparr>hbFS := updFS upd, hbSched := sched\<rparr>, resDecision = dec, resError = Some e,
                     resRecorded = Some (recordLastInform li (respStatusCode resp) (lastResponseType li)
                       cipher raw json (Some (ExState e)))\<rparr>)
         | None \<Rightarrow>
             (let store = updStore upd in
              case SuccessWithOptions (hbSched s) (controllerIntervalDuration (IntervalSeconds r)) (Immediate r) of
                (sched1, dec1) \<Rightarrow>
                  (let reset = ResetApplied r;
                       (sched, dec) = (if reset then Reset sched1 else (sched1, dec1));
                       blocks = (if reset then map_option (\<lambda>_. emptySelection) (hbBlocks s) else hbBlocks s);
                       clock0 = (if reset then clock_Reset (hbClock s) else hbClock s);
                       li = applyResponseStatus r
                                ((applyInformScheduleStatus dec li)\<lparr>lastControllerState := adoptionStateText store,
                                   lastCFGVersion := CFGVersion store, lastVersion := StoreVersion store\<rparr>);
                       clock = (if polControllerClock pol \<and> rspType r = ''noop'' \<and> ServerTimeSet r
                                then map_option (\<lambda>c. clock_Update c (ServerTimeUTC r) (envNow env)) clock0
                                else clock0);
                       li = applyControllerClockStatus clock li;
                       blocks = (if polBlockSelection pol \<and> BlockSelectionSet r
                                 then map_option (\<lambda>_. BlockSelection r) blocks else blocks)
                   in \<lparr>resState = s\<lparr>hbFS := updFS upd, hbSched := sched, hbClock := clock, hbBlocks := blocks\<rparr>,
                        resDecision = dec, resError = None,
                        resRecorded = Some (recordLastInform li (respStatusCode resp) (lastResponseType li)
                          cipher raw json None)\<rparr>)))"

text \<open>A failed exchange: back off and record the error.\<close>

definition failExchange ::
  "hb_env \<Rightarrow> hb_state \<Rightarrow> last_inform \<Rightarrow> nat \<Rightarrow> inform_cipher_status \<Rightarrow> nat \<Rightarrow> nat \<Rightarrow> exchange_error \<Rightarrow> hb_result" where
  "failExchange env s li0 statusCode cipher raw json err =
     (case Failure (hbSched s) (envInt63n env) (envCoin env) of (sched, dec) \<Rightarrow>
        \<lparr>resState = s\<lparr>hbSched := sched\<rparr>, resDecision = dec, resError = None,
         resRecorded = Some (recordLastInform (applyInformScheduleStatus dec li0) statusCode [] cipher raw json
           (Some err))\<rparr>)"

text \<open>
  The whole function. \<open>Send\<close> returns a response whenever it returns no error (\<open>Send_response\<close> below), so
  the branch without either is never taken.
\<close>

definition sendInformHeartbeat ::
  "hb_env \<Rightarrow> bytes \<Rightarrow> string \<Rightarrow> path \<Rightarrow> reporting_policy \<Rightarrow> adoption_store \<Rightarrow> bytes \<Rightarrow> hb_state \<Rightarrow> hb_result" where
  "sendInformHeartbeat env mac informURL statePath pol store payload s =
     (if informURL = [] then
        \<lparr>resState = s, resDecision = Current (hbSched s), resError = None, resRecorded = None\<rparr>
      else let li = applyControllerClockStatus (hbClock s) (newLastInformStatus informURL store) in
        case sendInform env mac informURL store payload of
          (resp, cipher, Some err) \<Rightarrow>
            (case resp of
               None \<Rightarrow> failExchange env s li 0 cipher 0 0 (ExSend err)
             | Some rp \<Rightarrow> failExchange env s li (respStatusCode rp) cipher (length (respRawBody rp))
                            (length (jsonBytesOf rp)) (ExSend err))
        | (None, cipher, None) \<Rightarrow> failExchange env s li 0 cipher 0 0 (ExStatus 0)
        | (Some resp, cipher, None) \<Rightarrow>
            if respStatusCode resp \<noteq> 200 then
              failExchange env s li (respStatusCode resp) cipher (length (respRawBody resp)) 0
                (ExStatus (respStatusCode resp))
            else let li = li\<lparr>lastStatusCode := respStatusCode resp, lastRawBytes := length (respRawBody resp),
                                  lastJSONBytes := length (jsonBytesOf resp)\<rparr> in
              if respRawBody resp = [] then
                (case Success (hbSched s) 0 of (sched, dec) \<Rightarrow>
                   \<lparr>resState = s\<lparr>hbSched := sched\<rparr>, resDecision = dec, resError = None,
                    resRecorded = Some (recordLastInform (applyInformScheduleStatus dec li)
                      (respStatusCode resp) [] cipher 0 0 None)\<rparr>)
              else (case ParseControllerResponseInfo (jsonBytesOf resp) of
                      Inl e \<Rightarrow>
                        failExchange env s li (respStatusCode resp) cipher (length (respRawBody resp))
                          (length (jsonBytesOf resp)) (ExParse e)
                    | Inr r \<Rightarrow> applyControllerResponse env statePath pol store resp cipher li r s))"

section \<open>The presence loop (serve_presence.go)\<close>

record presence_cfg =
  cfgMAC :: bytes
  cfgController :: string
  cfgStatePath :: path
  cfgPolicy :: reporting_policy
  cfgDiscoverySkipped :: bool
  cfgDiscoveryInterface :: string
  cfgDiscoveryTargets :: "string list"
  cfgPayload :: "adoption_store \<Rightarrow> string \<Rightarrow> hb_state \<Rightarrow> bytes option"

datatype presence_error = LoadFailed adoption_error | MarshalFailed discovery_error | PayloadFailed
  | HeartbeatFailed adoption_error

text \<open>\<open>sendDiscovery\<close>: the datagrams that leave the host; a failure is only logged.\<close>

definition sendDiscovery :: "udp_env \<Rightarrow> bytes \<Rightarrow> bool \<Rightarrow> string \<Rightarrow> string list \<Rightarrow> (string \<times> bytes) list" where
  "sendDiscovery udp packet skip iface targets =
     (if skip then [] else fst (SendToInterface udp packet targets iface))"

text \<open>
  One round of the loop of \<open>maintainControllerPresence\<close>: the next state and either the delay before
  the next round or the error that ends the daemon. The announcement \<open>ann\<close> of the loop and the datagrams
  sent so far are part of the state. \<open>cfgPayload\<close> stands for the payload builder; its error ends the
  loop.
\<close>

definition presenceRound ::
  "presence_cfg \<Rightarrow> hb_state \<Rightarrow> hb_env \<Rightarrow> hb_state \<times> (presence_error + schedule_decision)" where
  "presenceRound cfg s0 env =
     (case loadAdoptionState (read_file (hbFS s0) (cfgStatePath cfg)) of
        Inl e \<Rightarrow> (s0, Inl (LoadFailed e))
      | Inr store \<Rightarrow>
          (let informURL = effectiveInformURL (cfgController cfg) store;
               ann = (hbAnn s0)\<lparr>annDefault := (AuthKey store = []), annUptime := envUptime env\<rparr>;
               s = s0\<lparr>hbAnn := ann\<rparr> in
           case MarshalBinary ann of
             Inl e \<Rightarrow> (s, Inl (MarshalFailed e))
           | Inr packet \<Rightarrow>
               (case cfgPayload cfg store informURL s of
                  None \<Rightarrow> (s, Inl PayloadFailed)
                | Some payload \<Rightarrow>
                    (let sent = sendDiscovery (envUdp env) packet (cfgDiscoverySkipped cfg)
                                  (cfgDiscoveryInterface cfg) (cfgDiscoveryTargets cfg);
                         r = sendInformHeartbeat env (cfgMAC cfg) informURL (cfgStatePath cfg) (cfgPolicy cfg)
                               store payload (s\<lparr>hbSent := hbSent s @ sent\<rparr>)
                     in case resError r of
                          Some e \<Rightarrow> (resState r, Inl (HeartbeatFailed e))
                        | None \<Rightarrow>
                            ((resState r)\<lparr>hbAnn := ann\<lparr>annSequence := annSequence ann + 1\<rparr>\<rparr>, Inr (resDecision r))))))"

text \<open>The loop: rounds until an error ends the daemon or the environments are used up.\<close>

fun presenceLoop :: "presence_cfg \<Rightarrow> hb_state \<Rightarrow> hb_env list \<Rightarrow> hb_state \<times> presence_error option" where
  "presenceLoop cfg s [] = (s, None)"
| "presenceLoop cfg s (env # envs) =
     (case presenceRound cfg s env of
        (s', Inl e) \<Rightarrow> (s', Some e)
      | (s', Inr dec) \<Rightarrow> presenceLoop cfg s' envs)"

section \<open>Keys\<close>

lemma length_DefaultAuthKey [simp]: "length DefaultAuthKey = 16"
  by (simp add: DefaultAuthKey_bytes)

lemma authKeyBytes_ok:
  assumes "validateIndividualAuthKeyText v True = None" "v \<noteq> []"
  shows "\<exists>key. authKeyBytes v = Inr key \<and> length key = 16 \<and> key \<noteq> DefaultAuthKey \<and>
     normalizedAuthKey v = Some (hex_encode key)"
proof (cases "length v = 16")
  case True
  then show ?thesis
    using assms
    by (auto simp: validateIndividualAuthKeyText_def authKeyBytes_def normalizedAuthKey_def
        IsDefaultAuthKey_def split: if_splits)
next
  case False
  then obtain k where k: "length v = 32" "hex_decode v = Some k" "\<not> IsDefaultAuthKey k"
    using assms by (auto simp: validateIndividualAuthKeyText_def Let_def split: if_splits option.splits)
  then have "length k = 16" using hex_decode_length by fastforce
  with k False assms(2) show ?thesis
    by (auto simp: authKeyBytes_def normalizedAuthKey_def IsDefaultAuthKey_def)
qed

lemma authKeyBytes_InrD:
  assumes "authKeyBytes v = Inr key" "v \<noteq> []"
  shows "length key = 16 \<and> key \<noteq> DefaultAuthKey"
  using assms by (auto simp: authKeyBytes_def IsDefaultAuthKey_def split: if_splits option.splits)

lemma requestFlags_eq: "requestFlags opts = encode_flags opts"
  by (simp add: requestFlags_def encode_flags_def Let_def)

lemma Send_response: "Send lib rnd http c payload \<noteq> (None, None)"
  by (auto simp: Send_def Let_def split: if_splits sum.splits http_reply.splits prod.splits)

section \<open>State updates\<close>

lemma Merge_same: "\<not> snd (Merge b u) \<Longrightarrow> fst (Merge b u) = b"
  by (simp add: Merge_eq Let_def)

lemma loadAdoptionState_ok: "loadAdoptionState rd = Inr s \<Longrightarrow> store_ok s"
  using decodeEnv_ok factoryStore_ok
  by (auto simp: loadAdoptionState_def LoadEnv_def split: sum.splits if_splits read_result.splits)

lemma loadAdoptionState_LoadEnv:
  "LoadEnv a = LoadEnv b \<Longrightarrow> loadAdoptionState a = loadAdoptionState b"
  by (simp add: loadAdoptionState_def)

text \<open>Every state update is one save, or none.\<close>

lemma updateAdoptionState_save:
  assumes u_def: "u = updateAdoptionState sys path store (Some r) usedGCM fs"
  shows "(updFS u = fs \<and> updStore u = store \<and> updError u = None) \<or>
     (\<exists>s e. SaveEnv sys path s fs = (updFS u, e) \<and> updError u = e \<and>
        updStore u = (if e = None then s else store) \<and>
        (ResetRequested r \<longrightarrow> s = factoryStore))"
proof -
  consider (reset) "ResetRequested r" | (noupd) "\<not> ResetRequested r" "\<not> HasStateUpdate r"
    | (upd) "\<not> ResetRequested r" "HasStateUpdate r" by blast
  then show ?thesis
  proof cases
    case reset
    then show ?thesis
      by (auto simp: u_def updateAdoptionState_def ResetEnv_def split: prod.splits option.splits)
  next
    case noupd
    then show ?thesis
      by (auto simp: u_def updateAdoptionState_def Let_def split: prod.splits option.splits)
  next
    case upd
    define up where "up = (if usedGCM then (rspStore r)\<lparr>UseAESGCM := True\<rparr> else rspStore r)"
    obtain m c where m: "Merge store up = (m, c)" by fastforce
    have same: "\<not> c \<Longrightarrow> m = store" using m Merge_same [of store up] by simp
    obtain fs' e where sv: "SaveEnv sys path m fs = (fs', e)" by fastforce
    have u: "u = (if c then \<lparr>updFS = fs', updResponse = Some r, updStore = (if e = None then m else store), updError = e\<rparr>
        else \<lparr>updFS = fs, updResponse = Some r, updStore = m, updError = None\<rparr>)"
      using upd m [unfolded up_def] sv
      by (cases usedGCM; cases e) (simp_all add: u_def updateAdoptionState_def Let_def)
    show ?thesis
    proof (cases c)
      case True
      then show ?thesis using u sv upd(1) by auto
    next
      case False
      then show ?thesis using u same by simp
    qed
  qed
qed

text \<open>The file after an update, also one that merges into a store read before the file last changed.\<close>

lemma updateAdoptionState_file:
  assumes f: "temp_fresh sys fs path"
    and st: "loadAdoptionState (read_file fs path) = Inr store0"
    and u: "u = updateAdoptionState sys path store (Some r) usedGCM fs"
  shows "(\<exists>s'. loadAdoptionState (read_file (updFS u) path) = Inr s') \<and> (\<forall>q. q \<noteq> path \<longrightarrow> updFS u q = fs q)"
  using updateAdoptionState_save [OF u]
proof (elim disjE exE conjE)
  assume "updFS u = fs"
  then show ?thesis using st by simp
next
  fix s e
  assume sv: "SaveEnv sys path s fs = (updFS u, e)"
  show ?thesis
    using SaveEnv_old_or_new [OF f sv] SaveEnv_frame [OF f sv] st loadAdoptionState_LoadEnv
    by (auto simp: loadAdoptionState_def)
qed

lemma updateAdoptionState_disk:
  assumes f: "temp_fresh sys fs path"
    and st: "loadAdoptionState (read_file fs path) = Inr store"
    and u: "u = updateAdoptionState sys path store (Some r) usedGCM fs"
  shows "(updError u = None \<longrightarrow> loadAdoptionState (read_file (updFS u) path) = Inr (updStore u)) \<and>
    (updError u \<noteq> None \<longrightarrow> updStore u = store) \<and>
    (\<exists>s'. loadAdoptionState (read_file (updFS u) path) = Inr s') \<and>
    (\<forall>q. q \<noteq> path \<longrightarrow> updFS u q = fs q)"
proof -
  have "(updError u = None \<longrightarrow> loadAdoptionState (read_file (updFS u) path) = Inr (updStore u)) \<and>
    (updError u \<noteq> None \<longrightarrow> updStore u = store)"
    using updateAdoptionState_save [OF u] SaveEnv_ok [OF f] st by (auto simp: loadAdoptionState_def)
  then show ?thesis using updateAdoptionState_file [OF f st u] by blast
qed

section \<open>Invariant of the loop\<close>

definition hb_inv :: "path \<Rightarrow> schedule_config \<Rightarrow> hb_state \<Rightarrow> bool" where
  "hb_inv path c s \<longleftrightarrow> (\<exists>store. loadAdoptionState (read_file (hbFS s) path) = Inr store) \<and>
     sched_inv (hbSched s) \<and> schedConfig (hbSched s) = c"

lemma sched_step_inv:
  assumes "sched_inv s" "schedConfig s = c"
  shows "sched_inv (fst (Failure s f k)) \<and> schedConfig (fst (Failure s f k)) = c \<and> delay_ok c (snd (Failure s f k))"
    and "sched_inv (fst (SuccessWithOptions s h i)) \<and> schedConfig (fst (SuccessWithOptions s h i)) = c \<and>
       delay_ok c (snd (SuccessWithOptions s h i))"
    and "sched_inv (fst (Reset s)) \<and> schedConfig (fst (Reset s)) = c \<and> delay_ok c (snd (Reset s))"
    and "delay_ok c (Current s)"
proof -
  have a: "sched_inv s \<and> schedConfig s = c" using assms by simp
  note st = sched.step_inv [OF a TrueI] sched.step_good [OF a TrueI]
  show "sched_inv (fst (Failure s f k)) \<and> schedConfig (fst (Failure s f k)) = c \<and> delay_ok c (snd (Failure s f k))"
    using st [of "EvFailure f k"] by simp
  show "sched_inv (fst (SuccessWithOptions s h i)) \<and> schedConfig (fst (SuccessWithOptions s h i)) = c \<and>
       delay_ok c (snd (SuccessWithOptions s h i))"
    using st [of "EvSuccess h i"] by simp
  show "sched_inv (fst (Reset s)) \<and> schedConfig (fst (Reset s)) = c \<and> delay_ok c (snd (Reset s))"
    using st [of EvReset] by simp
  show "delay_ok c (Current s)" using st [of EvCurrent] by simp
qed

lemma failExchange_inv:
  assumes "hb_inv path c s"
  shows "hb_inv path c (resState (failExchange env s li sc ci raw js err)) \<and>
     delay_ok c (resDecision (failExchange env s li sc ci raw js err)) \<and>
     resError (failExchange env s li sc ci raw js err) = None \<and>
     hbFS (resState (failExchange env s li sc ci raw js err)) = hbFS s \<and>
     hbClock (resState (failExchange env s li sc ci raw js err)) = hbClock s \<and>
     hbBlocks (resState (failExchange env s li sc ci raw js err)) = hbBlocks s"
  using sched_step_inv(1) [of "hbSched s" c "envInt63n env" "envCoin env"] assms
  by (auto simp: hb_inv_def failExchange_def split: prod.splits)

lemma applyControllerResponse_inv:
  assumes inv: "hb_inv path c s" and st: "loadAdoptionState (read_file (hbFS s) path) = Inr store0"
    and f: "temp_fresh (envSys env) (hbFS s) path"
    and R: "R = applyControllerResponse env path pol store resp cipher li r s"
  shows "hb_inv path c (resState R) \<and> delay_ok c (resDecision R) \<and> (\<forall>q. q \<noteq> path \<longrightarrow> hbFS (resState R) q = hbFS s q)"
proof -
  define u where "u = updateAdoptionState (envSys env) path store (Some r)
                  (RequestFlags cipher AND FlagEncryptedGCM \<noteq> 0) (hbFS s)"
  have disk: "\<exists>s'. loadAdoptionState (read_file (updFS u) path) = Inr s'" "\<forall>q. q \<noteq> path \<longrightarrow> updFS u q = hbFS s q"
    using updateAdoptionState_file [OF f st u_def] by blast+
  have sc: "sched_inv (hbSched s)" "schedConfig (hbSched s) = c" using inv by (simp_all add: hb_inv_def)
  show ?thesis
  proof (cases "updError u")
    case (Some e)
    then show ?thesis
      using sched_step_inv(1) [OF sc, of "envInt63n env" "envCoin env"] disk
      unfolding R applyControllerResponse_def Let_def u_def [symmetric]
      by (simp add: hb_inv_def case_prod_beta)
  next
    case None
    define s1 where "s1 = fst (SuccessWithOptions (hbSched s)
        (controllerIntervalDuration (IntervalSeconds (the (updResponse u)))) (Immediate (the (updResponse u))))"
    have s1: "sched_inv s1" "schedConfig s1 = c"
      using sched_step_inv(2) [OF sc] by (simp_all add: s1_def)
    show ?thesis
      using None sched_step_inv(2) [OF sc, of "controllerIntervalDuration (IntervalSeconds (the (updResponse u)))"
          "Immediate (the (updResponse u))"] sched_step_inv(3) [OF s1] disk
      unfolding R applyControllerResponse_def Let_def u_def [symmetric]
      by (simp add: hb_inv_def case_prod_beta s1_def)
  qed
qed

lemma sendInformHeartbeat_inv:
  assumes inv: "hb_inv path c s" and st: "loadAdoptionState (read_file (hbFS s) path) = Inr store0"
    and f: "temp_fresh (envSys env) (hbFS s) path"
  shows "hb_inv path c (resState (sendInformHeartbeat env mac url path pol store payload s)) \<and>
     delay_ok c (resDecision (sendInformHeartbeat env mac url path pol store payload s)) \<and>
     (\<forall>q. q \<noteq> path \<longrightarrow> hbFS (resState (sendInformHeartbeat env mac url path pol store payload s)) q = hbFS s q)"
proof -
  have sc: "sched_inv (hbSched s)" "schedConfig (hbSched s) = c" using inv by (simp_all add: hb_inv_def)
  have su: "sched_inv (fst (Success (hbSched s) 0)) \<and> schedConfig (fst (Success (hbSched s) 0)) = c \<and>
      delay_ok c (snd (Success (hbSched s) 0))"
    using sched_step_inv(2) [OF sc] by (simp add: Success_def)
  note fe = failExchange_inv [OF inv]
  note ar = applyControllerResponse_inv [OF inv st f refl]
  obtain resp cipher e where si: "sendInform env mac url store payload = (resp, cipher, e)"
    by (metis prod_cases3)
  show ?thesis
    using inv sched_step_inv(4) [OF sc] su fe ar
    by (cases resp; cases e)
      (auto simp: sendInformHeartbeat_def Let_def si hb_inv_def case_prod_beta split: sum.splits)
qed

text \<open>The rounds of the loop meet the contract of a guarded stepper.\<close>

definition round_good :: "schedule_config \<Rightarrow> presence_error + schedule_decision \<Rightarrow> bool" where
  "round_good c out = (case out of Inr dec \<Rightarrow> delay_ok c dec | Inl e \<Rightarrow> (\<forall>a. e \<noteq> LoadFailed a))"

definition round_fits :: "path \<Rightarrow> hb_state \<Rightarrow> hb_env \<Rightarrow> bool" where
  "round_fits path s env \<longleftrightarrow> temp_fresh (envSys env) (hbFS s) path"

lemma hb_inv_ann [simp]: "hb_inv path c (s\<lparr>hbAnn := a\<rparr>) = hb_inv path c s"
  "hb_inv path c (s\<lparr>hbAnn := a, hbSent := x\<rparr>) = hb_inv path c s"
  by (simp_all add: hb_inv_def)

lemma presenceRound_ok:
  assumes "hb_inv (cfgStatePath cfg) c s" "round_fits (cfgStatePath cfg) s env"
  shows "hb_inv (cfgStatePath cfg) c (fst (presenceRound cfg s env)) \<and> round_good c (snd (presenceRound cfg s env))"
proof -
  obtain store where st: "loadAdoptionState (read_file (hbFS s) (cfgStatePath cfg)) = Inr store"
    using assms(1) by (auto simp: hb_inv_def)
  have fresh: "temp_fresh (envSys env) (hbFS s) (cfgStatePath cfg)" using assms(2) by (simp add: round_fits_def)
  have "hb_inv (cfgStatePath cfg) c (resState (sendInformHeartbeat env mac url (cfgStatePath cfg) pol store payload
          (s\<lparr>hbAnn := a, hbSent := x\<rparr>))) \<and>
        delay_ok c (resDecision (sendInformHeartbeat env mac url (cfgStatePath cfg) pol store payload
          (s\<lparr>hbAnn := a, hbSent := x\<rparr>)))" for mac url pol payload a x
    using sendInformHeartbeat_inv [of "cfgStatePath cfg" c "s\<lparr>hbAnn := a, hbSent := x\<rparr>" store env mac url pol store payload]
    by (simp add: assms(1) st fresh)
  then show ?thesis
    using assms(1)
    by (auto simp: presenceRound_def Let_def st round_good_def split: option.splits sum.splits)
qed

interpretation presence: guarded_stepper "presenceRound cfg" "hb_inv (cfgStatePath cfg) c"
    "round_fits (cfgStatePath cfg)" "round_good c"
  for cfg c
  by unfold_locales (simp_all add: presenceRound_ok)

lemma presenceLoop_state:
  "fst (presenceLoop cfg s envs) = fst (loop_steps (presenceRound cfg) isl s envs)"
  by (induction envs arbitrary: s) (auto split: prod.splits sum.splits)

lemma presenceLoop_error:
  "snd (presenceLoop cfg s envs) = Some e \<Longrightarrow> Inl e \<in> set (snd (loop_steps (presenceRound cfg) isl s envs))"
proof (induction envs arbitrary: s)
  case (Cons env envs)
  obtain s' out where r: "presenceRound cfg s env = (s', out)" by fastforce
  show ?case
  proof (cases out)
    case (Inl e')
    then show ?thesis using Cons.prems r by simp
  next
    case (Inr dec)
    then show ?thesis using Cons.prems Cons.IH [of s'] r by (simp add: case_prod_beta)
  qed
qed simp

definition offlineEnv :: hb_env where
  "offlineEnv = \<lparr>envLib = xor_lib, envRnd = sample_rnd, envHttp = (\<lambda>_ _. HttpDoError), envSys = sys_ok ''/t'',
     envInt63n = (\<lambda>_. 0), envCoin = 0, envNow = (0, 0), envUptime = 1,
     envUdp = \<lparr>netInterface = (\<lambda>_. None), netListen = (\<lambda>_. False), netResolve = (\<lambda>_. None), netWriteTo = (\<lambda>_ _. False)\<rparr>\<rparr>"

section \<open>When an update cannot be persisted\<close>

lemma factoryStore_valid: "validateStoreForPersistence factoryStore = None"
  unfolding validateStoreForPersistence_iff
  using factoryStore_ok by (simp add: storeFields_def factoryStore_def)

lemma SaveEnv_no_error:
  assumes "path \<noteq> []" "validateStoreForPersistence s = None" "\<And>d. snd (WriteFile sys path d 384 fs) = None"
  shows "snd (SaveEnv sys path s fs) = None"
  using assms(1,2) assms(3) [of "encodeEnv s"] by (auto simp: SaveEnv_def split: prod.splits option.splits)

lemma setGCM_valid:
  assumes "store_ok s" "AuthKey s \<noteq> []"
  shows "validateStoreForPersistence (s\<lparr>UseAESGCM := True\<rparr>) = None"
proof -
  have "store_ok (s\<lparr>UseAESGCM := True\<rparr>)"
    using assms unfolding store_ok_def field_ok_all validatePersistedStore_None by auto
  then show ?thesis using assms(2) by (simp add: validateStoreForPersistence_iff storeFields_def)
qed

lemma update_ok_GCM: "update_ok u \<Longrightarrow> update_ok (u\<lparr>UseAESGCM := True\<rparr>)"
  unfolding update_ok_def field_ok_all by simp

lemma connectedStore_ok: "update_ok connectedStore"
  unfolding update_ok_def field_ok_all by (simp add: connectedStore_def emptyStore_def)

lemma updateAdoptionState_merge:
  assumes "\<not> ResetRequested r" "HasStateUpdate r" "store_ok store" "update_ok (rspStore r)"
    and "usedGCM \<longrightarrow> AuthKey store \<noteq> []"
    and "AuthKey store \<noteq> [] \<or> AuthKey (rspStore r) \<noteq> [] \<or> \<not> UseAESGCM (rspStore r)"
    and "path \<noteq> []" "\<And>d. snd (WriteFile sys path d 384 fs) = None"
  shows "updError (updateAdoptionState sys path store (Some r) usedGCM fs) = None"
proof -
  define up where "up = (if usedGCM then (rspStore r)\<lparr>UseAESGCM := True\<rparr> else rspStore r)"
  obtain m c where m: "Merge store up = (m, c)" by fastforce
  obtain fs' e where sv: "SaveEnv sys path m fs = (fs', e)" by fastforce
  have up: "update_ok up" using assms(4) update_ok_GCM by (simp add: up_def)
  have k: "AuthKey store = [] \<Longrightarrow> \<not> UseAESGCM store"
    using assms(3) unfolding store_ok_def validatePersistedStore_None by blast
  have "c \<Longrightarrow> validateStoreForPersistence m = None"
    using Merge_valid_iff [OF assms(3) up] m k assms(5,6) by (auto simp: up_def split: if_splits)
  then have "c \<Longrightarrow> e = None" using SaveEnv_no_error [OF assms(7) _ assms(8)] sv by (metis snd_conv)
  then show ?thesis
    using assms(1,2) m [unfolded up_def] sv
    by (cases usedGCM; cases e) (auto simp: updateAdoptionState_def Let_def)
qed

text \<open>A controller document that enables AES-GCM without assigning a key.\<close>

definition gcmDoc :: string where
  "gcmDoc = ''{\"_type\":\"setparam\",\"mgmt_cfg\":\"use_aes_gcm=true\"}''"

definition gcmResponse :: controller_response where
  "gcmResponse = emptyResponse\<lparr>rspType := ''setparam'', rspStore := connectedStore\<lparr>UseAESGCM := True\<rparr>,
     HasStateUpdate := True, HasMgmtCFG := True\<rparr>"

lemma gcmDoc_limits: "validateJSONLimits gcmDoc = None"
  by (simp add: validateJSONLimits_def gcmDoc_def go_simps MaxControllerJSONBytes_def
      MaxControllerJSONTokens_def MaxControllerJSONDepth_def)

lemma gcmDoc_object: "decodeUniqueTopLevelObject gcmDoc =
    Inr (Some [(''_type'', ''\"setparam\"''), (''mgmt_cfg'', ''\"use_aes_gcm=true\"'')])"
  by code_simp

lemma gcmDoc_mgmt: "parseMgmtCFG ''use_aes_gcm=true'' = Inr (emptyStore\<lparr>UseAESGCM := True\<rparr>)"
proof -
  have "storeFieldByMgmtKey ''use_aes_gcm'' = Some fieldUseAESGCM"
    by (simp add: storeFieldByMgmtKey_def storeFields_def mgmtKeys)
  then show ?thesis
    by (simp add: parseMgmtCFG_def maxMgmtCFGBytes_def maxMgmtCFGLines_def maxMgmtCFGLine_def
        trim_space_ascii is_ascii_space_def validateMgmtField_eqs parse_bool_true)
qed

lemma gcmDoc_response: "ParseControllerResponseInfo (bytes_of gcmDoc) = Inr gcmResponse"
proof -
  have "jsonString ''\"use_aes_gcm=true\"'' = ''use_aes_gcm=true''"
    by (simp add: jsonString_def go_simps trim_space_ascii is_ascii_space_def)
  then show ?thesis
    by (simp add: ParseControllerResponseInfo_def gcmDoc_limits gcmDoc_object go_simps
        knownControllerResponseType_def dispatchResponse_def parseSetParam_def rawField_def gcmDoc_mgmt
        applySystemCFG_def emptyResponse_def gcmResponse_def connectedStore_def emptyStore_def Let_def)
qed

lemma gcm_update_error:
  "updError (updateAdoptionState (sys_ok ''/t'') ''/s'' factoryStore (Some gcmResponse) False Map.empty) =
     Some (BadStore AdoptedNeedsKey)"
proof -
  let ?m = "factoryStore\<lparr>UseAESGCM := True\<rparr>"
  have m: "Merge factoryStore (rspStore gcmResponse) = (?m, True)"
    by (simp add: Merge_eq Let_def gcmResponse_def connectedStore_def emptyStore_def factoryStore_def
        mergeState_def)
  have "list_all (field_ok ?m) storeFields"
    using factoryStore_ok unfolding store_ok_def field_ok_all by simp
  then obtain n where n: "validateFields storeFields ?m 0 = Inr n" using validateFields_iff by blast
  then have "n \<noteq> 0" using validateFields_count [OF n] by (simp add: storeFields_def factoryStore_def)
  moreover have "validatePersistedStore ?m = Some AdoptedNeedsKey"
    by (simp add: validatePersistedStore_def factoryStore_def emptyStore_def)
  ultimately have "validateStoreForPersistence ?m = Some (BadStore AdoptedNeedsKey)"
    using n by (simp add: validateStoreForPersistence_def)
  then have "SaveEnv (sys_ok ''/t'') ''/s'' ?m Map.empty = (Map.empty, Some (BadStore AdoptedNeedsKey))"
    by (simp add: SaveEnv_def)
  with m show ?thesis
    by (simp add: updateAdoptionState_def Let_def gcmResponse_def emptyResponse_def)
qed

section \<open>Properties\<close>

text \<open>key selection. The daemon uses the public default key only for a keyless device that is not
  adopting, connected, failed or set to AES-GCM; with a key it uses exactly the stored 16 bytes, which are
  not the default key. For every state that can be loaded, the only refusal is a failed device
  without a key.\<close>

theorem informAuthKey_selection:
  assumes "store_ok store"
  shows "(AuthKey store \<noteq> [] \<longrightarrow> (\<exists>key. informAuthKey store = Inr key \<and> length key = 16 \<and> key \<noteq> DefaultAuthKey \<and>
      normalizedAuthKey (AuthKey store) = Some (hex_encode key))) \<and>
    (AuthKey store = [] \<longrightarrow> (if State store = StateFailed then informAuthKey store = Inl DefaultKeyForState
      else informAuthKey store = Inr DefaultAuthKey \<and> State store \<in> {[], StateFactory, StateDiscovered, StateProvisioning}))"
proof -
  have v: "validatePersistedStore store = None" and
    k: "AuthKey store \<noteq> [] \<Longrightarrow> validateIndividualAuthKeyText (AuthKey store) True = None"
    using assms by (auto simp: store_ok_def field_ok_all)
  show ?thesis
  proof (cases "AuthKey store = []")
    case True
    then show ?thesis using v unfolding validatePersistedStore_None by (auto simp: informAuthKey_def)
  next
    case False
    then show ?thesis using authKeyBytes_ok [OF k [OF False] False] by (simp add: informAuthKey_def)
  qed
qed

theorem informAuthKey_selection_witness:
  "informAuthKey factoryStore = Inr DefaultAuthKey \<and> (\<exists>key. informAuthKey sampleStore = Inr key \<and> key \<noteq> DefaultAuthKey)"
  using informAuthKey_selection [OF factoryStore_ok] informAuthKey_selection [OF sampleStore_ok]
  by (auto simp: factoryStore_def emptyStore_def sampleStore_def)

text \<open>one request per heartbeat, and a truthful record of it. The exchange depends on the transport only
  through its answer to one packet; that packet decodes under the selected key to the payload, its
  flags are the recorded request flags, and it is encrypted with AES-GCM only under an adopted key.\<close>

theorem sendInform_one_request:
  assumes "crypto_laws (envLib env)" and "\<And>n bs. envRnd env n = Some bs \<Longrightarrow> length bs = n"
    and "informAuthKey store = Inr key" and "EncodeJSON (envLib env) (envRnd env) mac key payload (informOptions store) = Inr body"
    and "url \<noteq> []"
  shows "(\<exists>p. Decode (envLib env) body key = (Some p, Inr payload) \<and> pktMAC p = mac \<and>
      pktFlags p = RequestFlags (fst (snd (sendInform env mac url store payload))) \<and>
      (has_flag (pktFlags p) FlagEncryptedGCM \<longleftrightarrow> KeySource (fst (snd (sendInform env mac url store payload))) = ''adopted'' \<and> UseAESGCM store)) \<and>
    (\<forall>http. http url body = envHttp env url body \<longrightarrow>
      sendInform (env\<lparr>envHttp := http\<rparr>) mac url store payload = sendInform env mac url store payload)"
proof -
  obtain p h where p: "parsePacket body = (Some p, Inr h)" "pktMAC p = mac" "pktFlags p = encode_flags (informOptions store)"
    "decryptPayload (envLib env) p (pktPayload p) key h = Inr (encoded_body (envLib env) payload (informOptions store))"
    "length payload \<le> MaxDecodedPayloadBytes"
    by (rule EncodeJSON_parsed [OF assms(1,4,2)])
  have z: "decompressPayload (envLib env) (encoded_body (envLib env) payload (informOptions store)) = Inr payload"
    using assms(1) p(5) by (simp add: encoded_body_def decompressPayload_def crypto_laws_def informOptions_def)
  have d: "Decode (envLib env) body key = (Some p, Inr payload)"
    using p z by (simp add: Decode_def encode_flags_props validateDecodedPayloadSize_def informOptions_def)
  have f: "RequestFlags (fst (snd (sendInform env mac url store payload))) = encode_flags (informOptions store)"
    "KeySource (fst (snd (sendInform env mac url store payload))) = (if AuthKey store \<noteq> [] then ''adopted'' else ''default'')"
    using assms(3) by (simp_all add: sendInform_def Let_def requestFlags_eq split: prod.splits option.splits)
  have h: "sendInform (env\<lparr>envHttp := http\<rparr>) mac url store payload = sendInform env mac url store payload"
    if "http url body = envHttp env url body" for http
    using that assms(3,4,5) by (simp add: sendInform_def Send_def Let_def)
  have g: "has_flag (pktFlags p) FlagEncryptedGCM \<longleftrightarrow> AuthKey store \<noteq> [] \<and> UseAESGCM store"
    by (simp add: p(3) encode_flags_props informOptions_def)
  show ?thesis using d p(2,3) f g h by auto
qed

theorem sendInform_one_request_witness:
  "\<exists>body p. Decode xor_lib body DefaultAuthKey = (Some p, Inr [123, 125]) \<and> pktMAC p = sample_mac \<and>
     \<not> has_flag (pktFlags p) FlagEncryptedGCM"
proof -
  have k: "informAuthKey factoryStore = Inr DefaultAuthKey"
    by (simp add: informAuthKey_def factoryStore_def emptyStore_def)
  have e: "envLib offlineEnv = xor_lib" "envRnd offlineEnv = sample_rnd" by (simp_all add: offlineEnv_def)
  obtain body where b: "EncodeJSON (envLib offlineEnv) (envRnd offlineEnv) sample_mac DefaultAuthKey [123, 125]
      (informOptions factoryStore) = Inr body"
    unfolding e by (simp add: EncodeJSON_def compressPayload_def newInformGCM_def xor_lib_def inform_consts
        Let_def informOptions_def factoryStore_def emptyStore_def)
  have l: "crypto_laws (envLib offlineEnv)" using crypto_laws_xor_lib e by simp
  have r: "\<And>n bs. envRnd offlineEnv n = Some bs \<Longrightarrow> length bs = n" by (auto simp: e)
  from sendInform_one_request [OF l r k b, of "''u''"] show ?thesis
    by (auto simp: e factoryStore_def emptyStore_def)
qed

text \<open>C3: after a successful state update the daemon's store is exactly what a restart would load from the
  state file; after a failed one the daemon keeps its old store; in both cases the file stays
  loadable, and no other file changes.\<close>

theorem updateAdoptionState_memory_disk:
  assumes "temp_fresh sys fs path" and "loadAdoptionState (read_file fs path) = Inr store"
    and "u = updateAdoptionState sys path store (Some r) usedGCM fs"
  shows "(updError u = None \<longrightarrow> loadAdoptionState (read_file (updFS u) path) = Inr (updStore u)) \<and>
    (updError u \<noteq> None \<longrightarrow> updStore u = store) \<and>
    (\<exists>s'. loadAdoptionState (read_file (updFS u) path) = Inr s' \<and> store_ok s') \<and>
    (\<forall>q. q \<noteq> path \<longrightarrow> updFS u q = fs q)"
  using updateAdoptionState_disk [OF assms] loadAdoptionState_ok by blast

theorem updateAdoptionState_memory_disk_witness:
  "\<exists>s'. loadAdoptionState (read_file (updFS (updateAdoptionState (sys_ok ''/t'') ''/s'' factoryStore
      (Some (emptyResponse\<lparr>ResetRequested := True\<rparr>)) False Map.empty)) ''/s'') = Inr s' \<and> store_ok s'"
proof -
  have f: "temp_fresh (sys_ok ''/t'') Map.empty ''/s''" by (simp add: temp_fresh_def sys_ok_def)
  have l: "loadAdoptionState (read_file Map.empty ''/s'') = Inr factoryStore"
    by (simp add: loadAdoptionState_def LoadEnv_def read_file_def read_data_def)
  from updateAdoptionState_memory_disk [OF f l refl] show ?thesis by blast
qed

text \<open>the daemon never locks itself out. From any state file that is missing or loadable, whatever the
  controller answers and whichever system calls fail, every round of the presence loop leaves the
  state file loadable and the schedule within its bounds, so the loop never ends because
  it cannot read its own state.\<close>

theorem presenceLoop_invariant:
  assumes "hb_inv (cfgStatePath cfg) c s"
    and "loop_fits (presenceRound cfg) (round_fits (cfgStatePath cfg)) s envs"
  shows "hb_inv (cfgStatePath cfg) c (fst (presenceLoop cfg s envs)) \<and>
    (\<forall>a. snd (presenceLoop cfg s envs) \<noteq> Some (LoadFailed a))"
proof -
  note g = presence.loop_inv_good [OF assms, of isl]
  have "snd (presenceLoop cfg s envs) \<noteq> Some (LoadFailed a)" for a
    using g presenceLoop_error [of cfg s envs "LoadFailed a"] by (fastforce simp: list_all_iff round_good_def)
  then show ?thesis using g by (simp add: presenceLoop_state)
qed

definition sampleCfg :: presence_cfg where
  "sampleCfg = \<lparr>cfgMAC = sample_mac, cfgController = ''http://unifi:8080/inform'', cfgStatePath = ''/s'',
     cfgPolicy = \<lparr>polBlockSelection = True, polControllerClock = True\<rparr>,
     cfgDiscoverySkipped = False, cfgDiscoveryInterface = [], cfgDiscoveryTargets = [],
     cfgPayload = (\<lambda>_ _ _. Some [123, 125])\<rparr>"

definition sampleState :: hb_state where
  "sampleState = \<lparr>hbFS = Map.empty, hbSched = sample_schedule,
     hbClock = Some \<lparr>offsetSeconds = 0, clockSet = False\<rparr>, hbBlocks = Some emptySelection, hbAnn = sampleAnn, hbSent = []\<rparr>"

lemma sampleState_inv: "hb_inv ''/s'' sample_config sampleState"
  using sched_inv_sample
  by (simp add: hb_inv_def sampleState_def loadAdoptionState_def LoadEnv_def read_file_def read_data_def
      sample_schedule_def)

theorem presenceLoop_invariant_witness:
  "hb_inv ''/s'' sample_config (fst (presenceLoop sampleCfg sampleState [offlineEnv]))"
proof -
  have i: "hb_inv (cfgStatePath sampleCfg) sample_config sampleState"
    using sampleState_inv by (simp add: sampleCfg_def)
  have "loop_fits (presenceRound sampleCfg) (round_fits (cfgStatePath sampleCfg)) sampleState [offlineEnv]"
    by (simp add: round_fits_def temp_fresh_def offlineEnv_def sampleState_def sys_ok_def sampleCfg_def)
  from presenceLoop_invariant [OF i this] show ?thesis by (simp add: sampleCfg_def)
qed

text \<open>a failed exchange changes nothing but the retry schedule. When the request cannot be sent, the
  transport fails, the status is not 200, or the answer does not parse, the state file, the
  controller clock and the block selection stay as they are, no error ends the daemon, and the failure
  counter grows.\<close>

theorem failed_exchange_isolated:
  assumes "sendInform env mac url store payload = (resp, cipher, err)" and "url \<noteq> []"
    and "err \<noteq> None \<or> (\<exists>rp. resp = Some rp \<and> (respStatusCode rp \<noteq> 200 \<or>
           respRawBody rp \<noteq> [] \<and> (\<exists>e. ParseControllerResponseInfo (jsonBytesOf rp) = Inl e)))"
  shows "\<exists>sched. resState (sendInformHeartbeat env mac url path pol store payload s) = s\<lparr>hbSched := sched\<rparr> \<and>
    sched = fst (Failure (hbSched s) (envInt63n env) (envCoin env)) \<and>
    resError (sendInformHeartbeat env mac url path pol store payload s) = None"
proof -
  have f: "resState (failExchange env s li sc ci raw js er) = s\<lparr>hbSched := fst (Failure (hbSched s) (envInt63n env) (envCoin env))\<rparr> \<and>
      resError (failExchange env s li sc ci raw js er) = None" for li sc ci raw js er
    by (simp add: failExchange_def case_prod_beta)
  show ?thesis
    using assms f by (cases err; cases resp) (auto simp: sendInformHeartbeat_def Let_def)
qed

theorem failed_exchange_isolated_witness:
  "resError (sendInformHeartbeat offlineEnv sample_mac ''http://unifi:8080/inform'' ''/s'' (cfgPolicy sampleCfg)
     factoryStore [123, 125] sampleState) = None"
proof -
  obtain resp cipher err where si: "sendInform offlineEnv sample_mac ''http://unifi:8080/inform'' factoryStore [123, 125]
      = (resp, cipher, err)" by (metis prod_cases3)
  have "informAuthKey factoryStore = Inr DefaultAuthKey"
    by (simp add: informAuthKey_def factoryStore_def emptyStore_def)
  then have "err \<noteq> None"
    using si by (auto simp: sendInform_def Send_def offlineEnv_def Let_def split: sum.splits prod.splits)
  with failed_exchange_isolated [OF si] show ?thesis by blast
qed

text \<open>what a controller can do to persistence. With working system calls, applying a parsed response to
  a valid state fails only for a \<open>setparam\<close> that either enables AES-GCM while no key is known or
  carries a control character in \<open>cfgversion\<close>; a \<open>noop\<close>, a \<open>setdefault\<close> and every ignored
  request always succeed.\<close>

theorem updateAdoptionState_error_cause:
  assumes "ParseControllerResponseInfo body = Inr r" and "store_ok store" and "path \<noteq> []"
    and "\<And>d. snd (WriteFile sys path d 384 fs) = None" and "usedGCM \<longrightarrow> AuthKey store \<noteq> []"
    and "updError (updateAdoptionState sys path store (Some r) usedGCM fs) \<noteq> None"
  shows "rspType r = ''setparam'' \<and>
    (AuthKey store = [] \<and> AuthKey (rspStore r) = [] \<and> UseAESGCM (rspStore r) \<or>
     (\<exists>c\<in>set (CFGVersion (rspStore r)). ord c < 32 \<or> ord c = 127))"
proof (rule ccontr)
  assume no: "\<not> ?thesis"
  obtain raw ty where "dispatchResponse raw (emptyResponse\<lparr>rspType := ty\<rparr>) = Inr r" and k: "knownControllerResponseType ty"
    using ParseControllerResponseInfo_cases [OF assms(1)] by blast
  note d = dispatch_update_ok [OF this(1)] dispatch_flags [OF this]
  have "updError (updateAdoptionState sys path store (Some r) usedGCM fs) = None"
  proof -
    consider (reset) "ResetRequested r" | (noupd) "\<not> ResetRequested r" "\<not> HasStateUpdate r"
      | (upd) "\<not> ResetRequested r" "HasStateUpdate r" by blast
    then show ?thesis
    proof cases
      case reset
      then show ?thesis
        using SaveEnv_no_error [OF assms(3) factoryStore_valid assms(4)]
        by (auto simp: updateAdoptionState_def ResetEnv_def split: prod.splits option.splits)
    next
      case noupd
      have "AuthKey store \<noteq> [] \<Longrightarrow> snd (SaveEnv sys path (store\<lparr>UseAESGCM := True\<rparr>) fs) = None"
        using SaveEnv_no_error [OF assms(3) setGCM_valid [OF assms(2)] assms(4)] by blast
      then show ?thesis
        using noupd
        by (cases "SaveEnv sys path (store\<lparr>UseAESGCM := True\<rparr>) fs"; cases "AuthKey store = []")
          (auto simp: updateAdoptionState_def Let_def)
    next
      case upd
      have "rspType r = ''noop'' \<and> rspStore r = connectedStore \<or>
          rspType r = ''setparam'' \<and> State (rspStore r) = StateConnected \<and> mgmt_ok ((rspStore r)\<lparr>State := []\<rparr>)"
        using d upd by (auto simp: response_update_ok_def)
      then have u: "update_ok (rspStore r)"
      proof (elim disjE conjE)
        assume sp: "rspType r = ''setparam''" "State (rspStore r) = StateConnected" "mgmt_ok ((rspStore r)\<lparr>State := []\<rparr>)"
        have "list_all (\<lambda>c. \<not> (ord c < 32 \<or> ord c = 127)) (CFGVersion ((rspStore r)\<lparr>State := []\<rparr>))"
          using no sp(1) by (auto simp: list_all_iff)
        moreover have "(rspStore r)\<lparr>State := StateConnected\<rparr> = rspStore r"
          using sp(2) by (cases "rspStore r") simp
        ultimately show ?thesis using mgmt_ok_update [OF sp(3), of StateConnected] by simp
      qed (simp add: connectedStore_ok)
      have "AuthKey store \<noteq> [] \<or> AuthKey (rspStore r) \<noteq> [] \<or> \<not> UseAESGCM (rspStore r)"
        using no d upd by (auto simp: response_update_ok_def connectedStore_def emptyStore_def)
      from updateAdoptionState_merge [OF upd assms(2) u assms(5) this assms(3,4)] show ?thesis .
    qed
  qed
  with assms(6) show False by simp
qed

theorem updateAdoptionState_error_cause_witness:
  "UseAESGCM (rspStore gcmResponse) \<or> (\<exists>c\<in>set (CFGVersion (rspStore gcmResponse)). ord c < 32 \<or> ord c = 127)"
proof -
  have w: "\<And>d. snd (WriteFile (sys_ok ''/t'') ''/s'' d 384 Map.empty) = None"
    by (simp add: WriteFile_def sys_ok_def write_step_defs)
  have e: "updError (updateAdoptionState (sys_ok ''/t'') ''/s'' factoryStore (Some gcmResponse) False Map.empty) \<noteq> None"
    by (simp add: gcm_update_error)
  from updateAdoptionState_error_cause [OF gcmDoc_response factoryStore_ok _ w _ e] show ?thesis by auto
qed


end
