(* ===== verification/Adoption_Ssh.thy ===== *)
theory Adoption_Ssh
  imports Go_Json Adoption_Store
begin

text \<open>
  The adoption command shim of \<open>internal/adoptionssh\<close>: \<open>types.go\<close>, \<open>parse.go\<close>, \<open>handler.go\<close>,
  \<open>commands.go\<close>, \<open>state.go\<close>, and the request loop and password check of \<open>session.go\<close> and \<open>server.go\<close>.

  The state of the handler is the file system, a count of the state writes so far and the log. The
  operating system answers the \<open>n\<close>-th write on a file system by \<open>os n fs\<close>; \<open>os_ok\<close> says that its
  temporary files are fresh. The handler's mutex serializes state updates, so each is one step.
  The SSH transport (\<open>golang.org/x/crypto/ssh\<close>), the listener and the host key are not modelled.
\<close>

section \<open>Types (types.go)\<close>

definition defaultSSHUser :: string where "defaultSSHUser = ''ubnt''"
definition defaultSSHPassword :: string where "defaultSSHPassword = ''ubnt''"
definition defaultStatePath :: path where "defaultStatePath = ''/var/lib/unifi-stubd/adoption.env''"
definition commandInfo :: string where "commandInfo = ''info''"
definition commandSetInform :: string where "commandSetInform = ''set-inform''"
definition commandExit :: string where "commandExit = ''exit''"
definition commandQuit :: string where "commandQuit = ''quit''"
definition commandReset :: string where "commandReset = ''reset2defaults''"
definition commandRestore :: string where "commandRestore = ''restore-default''"
definition nl :: string where "nl = [CHR 0x0A]"
definition okOutput :: string where "okOutput = ''OK'' @ nl"

record ssh_identity =
  idMAC :: string
  idIP :: string
  idHostname :: string
  idModel :: string
  idVersion :: string
  idInformURL :: string

record ssh_config =
  sshListen :: string
  sshUser :: string
  sshPassword :: string
  sshHostKeyPath :: path
  sshStatePath :: path
  sshIdentity :: ssh_identity

record ssh_state =
  sshFS :: fs
  sshWrites :: nat
  sshLog :: "string list"

type_synonym os = "nat \<Rightarrow> fs \<Rightarrow> syscalls"

definition os_ok :: "os \<Rightarrow> path \<Rightarrow> bool" where
  "os_ok os p \<longleftrightarrow> (\<forall>n fs. finite (dom fs) \<longrightarrow> temp_fresh (os n fs) fs p)"

text \<open>A command returns its output and its exit code.\<close>

type_synonym command_result = "ssh_state \<times> string \<times> nat"

section \<open>Parsing (parse.go)\<close>

text \<open>\<open>strings.NewReplacer("&&", ";", "\n", ";").Replace\<close>.\<close>

fun replaceSeparators :: "string \<Rightarrow> string" where
  "replaceSeparators [] = []"
| "replaceSeparators (a # r) =
     (if a = CHR ''&'' \<and> r \<noteq> [] \<and> hd r = CHR ''&'' then CHR '';'' # replaceSeparators (tl r)
      else if a = CHR 0x0A then CHR '';'' # replaceSeparators r
      else a # replaceSeparators r)"

definition splitCommands :: "string \<Rightarrow> string list" where
  "splitCommands command =
     filter (\<lambda>p. p \<noteq> []) (map trim_space (go_split CHR '';'' (replaceSeparators command)))"

text \<open>The loop of \<open>CommandFields\<close> over the runes: the fields, the current field, the quote and the escape.\<close>

definition flushField :: "string list \<Rightarrow> string \<Rightarrow> string list" where
  "flushField acc current = (if current = [] then acc else acc @ [current])"

record field_scan =
  scanAcc :: "string list"
  scanCurrent :: string
  scanQuote :: "string option"
  scanEscaped :: bool

definition flushScan :: "field_scan \<Rightarrow> field_scan" where
  "flushScan c = c\<lparr>scanAcc := flushField (scanAcc c) (scanCurrent c), scanCurrent := []\<rparr>"

definition fieldRune :: "string \<Rightarrow> field_scan \<Rightarrow> field_scan" where
  "fieldRune r c =
     (if scanEscaped c then c\<lparr>scanCurrent := scanCurrent c @ r, scanEscaped := False\<rparr>
      else if r = [CHR 0x5C] then c\<lparr>scanEscaped := True\<rparr>
      else if scanQuote c \<noteq> None then
        (if Some r = scanQuote c then c\<lparr>scanQuote := None\<rparr> else c\<lparr>scanCurrent := scanCurrent c @ r\<rparr>)
      else if r = [CHR 0x27] \<or> r = [CHR 0x22] then c\<lparr>scanQuote := Some r\<rparr>
      else if r \<in> {'' '', [CHR 0x09], [CHR 0x0D], [CHR 0x0A]} then flushScan c
      else c\<lparr>scanCurrent := scanCurrent c @ r\<rparr>)"

definition startScan :: field_scan where
  "startScan = \<lparr>scanAcc = [], scanCurrent = [], scanQuote = None, scanEscaped = False\<rparr>"

definition CommandFields :: "string \<Rightarrow> string list" where
  "CommandFields input =
     (let c = fold fieldRune (go_runes input) startScan
      in flushField (scanAcc c) (if scanEscaped c then scanCurrent c @ [CHR 0x5C] else scanCurrent c))"

definition findInformURL :: "string list \<Rightarrow> string" where
  "findInformURL args =
     (case find (\<lambda>a. (has_prefix a ''http://'' \<or> has_prefix a ''https://'') \<and> go_contains a ''/inform'') args of
        Some a \<Rightarrow> a | None \<Rightarrow> [])"

section \<open>State (state.go)\<close>

definition logLine :: "string \<Rightarrow> ssh_state \<Rightarrow> ssh_state" where
  "logLine l s = s\<lparr>sshLog := sshLog s @ [l]\<rparr>"

definition effectiveStatePath :: "ssh_config \<Rightarrow> path" where
  "effectiveStatePath cfg = (if sshStatePath cfg = [] then defaultStatePath else sshStatePath cfg)"

text \<open>\<open>False\<close> is an error. The first write of a session uses the answers \<open>os 0\<close>, and so on.\<close>

definition saveState :: "ssh_config \<Rightarrow> os \<Rightarrow> string \<Rightarrow> string \<Rightarrow> ssh_state \<Rightarrow> ssh_state \<times> bool" where
  "saveState cfg os informURL authKey s =
     (if informURL = [] \<and> authKey = [] then (s, True)
      else let statePath = effectiveStatePath cfg;
               loaded = (case LoadEnv (read_file (sshFS s) statePath) of
                           Inr store \<Rightarrow> Some store
                         | Inl e \<Rightarrow> if e = FileNotExist then Some emptyStore else None)
           in case loaded of
                None \<Rightarrow> (logLine ''adoption state read failed'' s, False)
              | Some store \<Rightarrow>
                  (let update = emptyStore\<lparr>State := (if authKey \<noteq> [] then StateAdopting else StateProvisioning),
                                  InformURL := informURL, AuthKey := authKey\<rparr>
                   in case Merge store update of (merged, changed) \<Rightarrow>
                        (case SaveEnv (os (sshWrites s) (sshFS s)) statePath merged (sshFS s) of
                           (fs', Some e) \<Rightarrow>
                             (logLine ''adoption state write failed'' (s\<lparr>sshFS := fs', sshWrites := sshWrites s + 1\<rparr>), False)
                         | (fs', None) \<Rightarrow>
                             (let s' = s\<lparr>sshFS := fs', sshWrites := sshWrites s + 1\<rparr>
                              in (if changed then logLine ''adoption state updated'' s' else s', True)))))"

definition resetState :: "ssh_config \<Rightarrow> os \<Rightarrow> ssh_state \<Rightarrow> ssh_state \<times> bool" where
  "resetState cfg os s =
     (case ResetEnv (os (sshWrites s) (sshFS s)) (effectiveStatePath cfg) (sshFS s) of
        (fs', _, Some e) \<Rightarrow>
          (logLine ''adoption state reset failed'' (s\<lparr>sshFS := fs', sshWrites := sshWrites s + 1\<rparr>), False)
      | (fs', _, None) \<Rightarrow>
          (logLine ''adoption state reset accepted'' (s\<lparr>sshFS := fs', sshWrites := sshWrites s + 1\<rparr>), True))"

section \<open>Commands (commands.go)\<close>

definition stateCommandFailureOutput :: string where
  "stateCommandFailureOutput = ''Adoption state update failed'' @ nl"

definition stateCommandFailure :: "string \<times> nat" where
  "stateCommandFailure = (stateCommandFailureOutput, 1)"

text \<open>The common shape \<open>if err := ...; err != nil { return stateCommandFailure() }; return text, 0\<close>.\<close>

definition orFailure :: "ssh_state \<times> bool \<Rightarrow> string \<Rightarrow> command_result" where
  "orFailure r out = (case r of (s, ok) \<Rightarrow> if ok then (s, out, 0) else (s, stateCommandFailure))"

definition info :: "ssh_config \<Rightarrow> string" where
  "info cfg =
     (let i = sshIdentity cfg;
          version = (if idVersion i = [] then ''6.6.0'' else idVersion i);
          hostname = (if idHostname i = [] then ''unifi-stubd'' else idHostname i);
          informURL = (if idInformURL i = [] then ''http://unifi:8080/inform'' else idInformURL i)
      in ''Model:       '' @ idModel i @ nl @ ''Version:     '' @ version @ nl @ ''MAC Address: '' @ idMAC i @ nl
         @ ''IP Address:  '' @ idIP i @ nl @ ''Hostname:    '' @ hostname @ nl @ ''Uptime:      1 seconds'' @ nl
         @ ''Status:      Not Adopted ('' @ informURL @ '')'' @ nl)"

definition handleSetInform :: "ssh_config \<Rightarrow> os \<Rightarrow> string list \<Rightarrow> ssh_state \<Rightarrow> command_result" where
  "handleSetInform cfg os args s =
     (let url = findInformURL args in
      orFailure (saveState cfg os url [] s)
        (if url = [] then ''Inform command accepted'' @ nl else ''Inform URL set: '' @ url @ nl))"

definition resetAccepted :: "ssh_config \<Rightarrow> os \<Rightarrow> ssh_state \<Rightarrow> command_result" where
  "resetAccepted cfg os s = orFailure (resetState cfg os s) (''Factory reset accepted'' @ nl)"

definition handleSyswrapper :: "ssh_config \<Rightarrow> os \<Rightarrow> string list \<Rightarrow> ssh_state \<Rightarrow> command_result" where
  "handleSyswrapper cfg os args s =
     (if length args < 2 then (s, info cfg, 0)
      else let sub = args ! 1 in
        if sub = ''set-adopt'' then
          (let url = (if length args > 2 then args ! 2 else []);
               authKey = (if length args > 3 then args ! 3 else [])
           in orFailure (saveState cfg os url authKey s)
                (if url = [] then ''Adoption command accepted'' @ nl
                 else ''Adoption request accepted: '' @ url @ nl))
        else if sub = commandSetInform then handleSetInform cfg os args s
        else if sub \<in> {commandInfo, ''status'', ''get-info''} then (s, info cfg, 0)
        else if sub \<in> {commandRestore, commandReset} then resetAccepted cfg os s
        else orFailure (saveState cfg os [] [] s) okOutput)"

definition handleMCA :: "ssh_config \<Rightarrow> os \<Rightarrow> string list \<Rightarrow> ssh_state \<Rightarrow> command_result" where
  "handleMCA cfg os args s =
     (if length args < 2 then (s, ''UniFi CLI shim'' @ nl, 0)
      else if args ! 1 = ''op'' \<and> length args > 2 then handleSetInform cfg os (tl args) s
      else if args ! 1 = commandSetInform then handleSetInform cfg os args s
      else if args ! 1 \<in> {commandInfo, ''status''} then (s, info cfg, 0)
      else orFailure (saveState cfg os [] [] s) okOutput)"

definition handleCat :: "ssh_config \<Rightarrow> string list \<Rightarrow> string" where
  "handleCat cfg args =
     (if length args < 2 then []
      else if args ! 1 \<in> {''/etc/version'', ''/usr/lib/version''} then idVersion (sshIdentity cfg) @ nl
      else if args ! 1 = ''/proc/ubnthal/system.info'' then info cfg
      else [])"

section \<open>The handler (handler.go)\<close>

definition auditVocabulary :: "string list" where
  "auditVocabulary = [''syswrapper.sh'', ''mca-cli-op'', commandInfo, commandSetInform, ''mca-cli'', ''ubntbox'',
     commandReset, commandRestore, ''hostname'', ''uname'', ''cat'', ''echo'', ''true'', commandExit, commandQuit]"

definition auditCommandName :: "string \<Rightarrow> string" where
  "auditCommandName name = (if name \<in> set auditVocabulary then name else ''unsupported'')"

text \<open>\<open>path.Base\<close>.\<close>

definition path_base :: "string \<Rightarrow> string" where
  "path_base p =
     (if p = [] then ''.''
      else let q = rev (dropWhile (\<lambda>c. c = CHR ''/'') (rev p));
               b = rev (takeWhile (\<lambda>c. c \<noteq> CHR ''/'') (rev q))
           in if b = [] then ''/'' else b)"

text \<open>The switch of \<open>executeOne\<close> on the base name, after the log line.\<close>

definition dispatchCommand :: "ssh_config \<Rightarrow> os \<Rightarrow> string list \<Rightarrow> ssh_state \<Rightarrow> command_result" where
  "dispatchCommand cfg os args s0 =
     (let name = path_base (hd args);
          s = logLine (''adoption ssh command: '' @ auditCommandName name) s0
      in if name = ''syswrapper.sh'' then handleSyswrapper cfg os args s
         else if name = ''mca-cli-op'' then
           (if length args > 1 \<and> args ! 1 = commandInfo then (s, info cfg, 0) else handleSetInform cfg os args s)
         else if name = commandInfo then (s, info cfg, 0)
         else if name = commandSetInform then handleSetInform cfg os args s
         else if name = ''mca-cli'' then handleMCA cfg os args s
         else if name = ''ubntbox'' then orFailure (saveState cfg os [] [] s) okOutput
         else if name \<in> {commandReset, commandRestore} then resetAccepted cfg os s
         else if name = ''hostname'' then (s, idHostname (sshIdentity cfg) @ nl, 0)
         else if name = ''uname'' then
           (s, ''Linux unifi-stubd-lab 6.18.22-0-virt #1-Alpine SMP aarch64 GNU/Linux'' @ nl, 0)
         else if name = ''cat'' then (s, handleCat cfg args, 0)
         else if name = ''echo'' then (s, go_join '' '' (tl args) @ nl, 0)
         else if name \<in> {''true'', commandExit, commandQuit} then (s, [], 0)
         else let url = findInformURL args in
           if url \<noteq> [] then orFailure (saveState cfg os url [] s) (''Adoption request accepted: '' @ url @ nl)
           else orFailure (saveState cfg os [] [] s) okOutput)"

text \<open>
  What \<open>executeOne\<close> makes of a command line: nothing, an acknowledged bare \<open>sudo\<close>, a nested command
  text of \<open>sh -c\<close>, or an argument vector to dispatch.
\<close>

datatype command_form = NoCommand | BareSudo | NestedShell string | Dispatch "string list"

definition commandForm :: "string \<Rightarrow> command_form" where
  "commandForm command =
     (let args0 = CommandFields (trim_space command) in
      if args0 = [] then NoCommand
      else let args = (if hd args0 = ''sudo'' then tl args0 else args0) in
        if args = [] then BareSudo
        else if (hd args = ''sh'' \<or> hd args = ''/bin/sh'') \<and> length args \<ge> 3 \<and> args ! 1 = ''-c''
        then NestedShell (go_join '' '' (drop 2 args))
        else Dispatch args)"

section \<open>Termination of nested shells\<close>

text \<open>Every level of \<open>sh -c\<close> uses up at least one letter \<open>s\<close> of the command text.\<close>

abbreviation s_count :: "string \<Rightarrow> nat" where "s_count t \<equiv> count_list t CHR ''s''"

lemma count_list_concat: "count_list (concat xs) c = sum_list (map (\<lambda>x. count_list x c) xs)"
  by (induction xs) simp_all

lemma s_count_join: "s_count (go_join '' '' xs) = sum_list (map s_count xs)"
  by (induction "'' ''" xs rule: go_join.induct) simp_all

lemma s_count_rune_error: "s_count rune_error = 0"
  by code_simp

lemma s_count_runes: "sum_list (map s_count (go_runes t)) \<le> s_count t"
proof (induction t rule: go_runes.induct)
  case (1 t)
  show ?case
  proof (cases "t = []")
    case True
    then show ?thesis by (simp add: go_runes.simps)
  next
    case False
    show ?thesis
    proof (cases "utf8_width t = 0")
      case True
      have "s_count (tl t) \<le> s_count t" using False by (cases t) simp_all
      then show ?thesis
        using 1(1) [OF False True] False True by (simp add: go_runes.simps [of t] s_count_rune_error)
    next
      case w: False
      have "s_count t = s_count (take (utf8_width t) t) + s_count (drop (utf8_width t) t)"
        by (metis append_take_drop_id count_list_append)
      then show ?thesis using 1(2) [OF False w] False w by (simp add: go_runes.simps [of t])
    qed
  qed
qed

lemma s_count_flush: "sum_list (map s_count (flushField acc cur)) = sum_list (map s_count acc) + s_count cur"
  by (simp add: flushField_def)

definition scan_count :: "field_scan \<Rightarrow> nat" where
  "scan_count c = sum_list (map s_count (scanAcc c)) + s_count (scanCurrent c)"

lemma scan_count_rune: "scan_count (fieldRune r c) \<le> scan_count c + s_count r"
  by (simp add: scan_count_def fieldRune_def flushScan_def s_count_flush)

lemma scan_count_fold: "scan_count (fold fieldRune rs c) \<le> scan_count c + sum_list (map s_count rs)"
proof (induction rs arbitrary: c)
  case (Cons r rs)
  show ?case using Cons [of "fieldRune r c"] scan_count_rune [of r c] by simp
qed simp

lemma s_count_CommandFields: "sum_list (map s_count (CommandFields t)) \<le> s_count t"
  using scan_count_fold [of "go_runes t" startScan] s_count_runes [of t]
  by (simp add: CommandFields_def Let_def s_count_flush scan_count_def startScan_def)

lemma s_count_trim: "s_count (trim_space t) \<le> s_count t"
  using trim_space_sublist [of t] by (metis count_list_append le_add1 le_add2 order_trans)

lemma s_count_replace: "s_count (replaceSeparators t) \<le> s_count t"
  by (induction t rule: replaceSeparators.induct)
    (auto simp: neq_Nil_conv split: if_splits)

lemma s_count_split: "sum_list (map s_count (go_split CHR '';'' t)) = s_count t"
proof (induction t)
  case (Cons c t)
  then show ?case by (cases "go_split CHR '';'' t") (auto split: if_splits)
qed simp

lemma s_count_nonempty: "sum_list (map s_count (filter (\<lambda>p. p \<noteq> []) ps)) = sum_list (map s_count ps)"
  by (induction ps) simp_all

lemma s_count_map_trim: "sum_list (map s_count (map trim_space ps)) \<le> sum_list (map s_count ps)"
proof (induction ps)
  case (Cons p ps)
  then show ?case using s_count_trim [of p] by simp
qed simp

lemma s_count_splitCommands: "sum_list (map s_count (splitCommands t)) \<le> s_count t"
  unfolding splitCommands_def s_count_nonempty
  using s_count_map_trim [of "go_split CHR '';'' (replaceSeparators t)"] s_count_replace [of t]
  unfolding s_count_split by (rule order_trans)

lemma nested_smaller:
  assumes "commandForm command = NestedShell t"
  shows "sum_list (map s_count (splitCommands t)) < s_count command"
proof -
  let ?a = "CommandFields (trim_space command)"
  define args where "args = (if hd ?a = ''sudo'' then tl ?a else ?a)"
  have ne: "?a \<noteq> []" and sh: "hd args = ''sh'' \<or> hd args = ''/bin/sh''" and l: "length args \<ge> 3"
    and t: "t = go_join '' '' (drop 2 args)"
    using assms unfolding commandForm_def Let_def args_def [symmetric] by (auto split: if_splits)
  have "sum_list (map s_count args) \<le> sum_list (map s_count ?a)"
    using ne by (cases ?a) (simp_all add: args_def)
  also have "\<dots> \<le> s_count command"
    using s_count_CommandFields [of "trim_space command"] s_count_trim [of command] by simp
  finally have le: "sum_list (map s_count args) \<le> s_count command" .
  obtain a b r where "args = a # b # r" using l by (metis Suc_le_length_iff numeral_3_eq_3)
  then have "s_count t < sum_list (map s_count args)" using sh t by (auto simp: s_count_join)
  with le s_count_splitCommands [of t] show ?thesis by simp
qed

text \<open>\<open>executeOne\<close> and the loop of \<open>Execute\<close> over the parts of a command chain.\<close>

function executeOne :: "ssh_config \<Rightarrow> os \<Rightarrow> string \<Rightarrow> ssh_state \<Rightarrow> command_result"
  and executeParts :: "ssh_config \<Rightarrow> os \<Rightarrow> string list \<Rightarrow> ssh_state \<Rightarrow> command_result" where
  "executeOne cfg os command s =
     (case commandForm command of
        NoCommand \<Rightarrow> (s, [], 0)
      | BareSudo \<Rightarrow> (s, okOutput, 0)
      | NestedShell t \<Rightarrow> executeParts cfg os (splitCommands t) s
      | Dispatch args \<Rightarrow> dispatchCommand cfg os args s)"
| "executeParts cfg os [] s = (s, [], 0)"
| "executeParts cfg os (p # ps) s =
     (case executeOne cfg os p s of
        (s', text, code) \<Rightarrow>
          if code \<noteq> 0 then (s', text, code)
          else (case executeParts cfg os ps s' of (s'', text', code') \<Rightarrow> (s'', text @ text', code')))"
  by pat_completeness auto
termination
  by (relation "measures [case_sum (\<lambda>(cfg, os, c, s). s_count c) (\<lambda>(cfg, os, ps, s). sum_list (map s_count ps)),
      case_sum (\<lambda>_. 0) (\<lambda>(cfg, os, ps, s). Suc (length ps))]")
    (auto simp: nested_smaller)

definition Execute :: "ssh_config \<Rightarrow> os \<Rightarrow> string \<Rightarrow> ssh_state \<Rightarrow> command_result" where
  "Execute cfg os command s = executeParts cfg os (splitCommands command) s"

text \<open>\<open>Shell\<close> on the lines the scanner delivers: the text written to the channel.\<close>

fun shellLoop :: "ssh_config \<Rightarrow> os \<Rightarrow> string list \<Rightarrow> ssh_state \<Rightarrow> ssh_state \<times> string" where
  "shellLoop cfg os [] s = (s, [])"
| "shellLoop cfg os (l # ls) s =
     (let line = trim_space l in
      if line = [] then shellLoop cfg os ls s
      else if line = commandExit \<or> line = commandQuit then (s, [])
      else (case Execute cfg os line s of
              (s', output, _) \<Rightarrow>
                (case shellLoop cfg os ls s' of (s'', rest) \<Rightarrow> (s'', output @ rest))))"

definition Shell :: "ssh_config \<Rightarrow> os \<Rightarrow> string list \<Rightarrow> ssh_state \<Rightarrow> ssh_state \<times> string" where
  "Shell cfg os ls s = (case shellLoop cfg os ls s of (s', out) \<Rightarrow> (s', ''UniFi CLI shim'' @ nl @ out))"

section \<open>Sessions (server.go, session.go)\<close>

definition sshDefaults :: "ssh_config \<Rightarrow> ssh_config" where
  "sshDefaults cfg =
     cfg\<lparr>sshUser := (if sshUser cfg = [] then defaultSSHUser else sshUser cfg),
         sshPassword := (if sshPassword cfg = [] then defaultSSHPassword else sshPassword cfg),
         sshStatePath := (if sshStatePath cfg = [] then defaultStatePath else sshStatePath cfg)\<rparr>"

definition passwordAccepted :: "ssh_config \<Rightarrow> string \<Rightarrow> string \<Rightarrow> bool" where
  "passwordAccepted cfg user pass \<longleftrightarrow> user = sshUser cfg \<and> pass = sshPassword cfg"

text \<open>
  The requests of one channel. An exec request carries its command, or \<open>None\<close> when its payload does not
  decode; a shell request carries the lines the client then sends.
\<close>

datatype ssh_request = PtyReq | EnvReq | ExecReq "string option" | ShellReq "string list" | OtherReq

record session_result =
  sesReplies :: "bool list"
  sesOutput :: string
  sesExit :: "nat option"

fun handleSession :: "ssh_config \<Rightarrow> os \<Rightarrow> ssh_request list \<Rightarrow> ssh_state \<Rightarrow> ssh_state \<times> session_result" where
  "handleSession cfg os [] s = (s, \<lparr>sesReplies = [], sesOutput = [], sesExit = None\<rparr>)"
| "handleSession cfg os (req # reqs) s =
     (case req of
        ExecReq None \<Rightarrow> (s, \<lparr>sesReplies = [False], sesOutput = [], sesExit = None\<rparr>)
      | ExecReq (Some command) \<Rightarrow>
          (case Execute cfg os command s of
             (s', output, status) \<Rightarrow> (s', \<lparr>sesReplies = [True], sesOutput = output, sesExit = Some status\<rparr>))
      | ShellReq ls \<Rightarrow>
          (case Shell cfg os ls s of
             (s', output) \<Rightarrow> (s', \<lparr>sesReplies = [True], sesOutput = output, sesExit = Some 0\<rparr>))
      | _ \<Rightarrow>
          (case handleSession cfg os reqs s of
             (s', r) \<Rightarrow> (s', r\<lparr>sesReplies := (req = PtyReq \<or> req = EnvReq) # sesReplies r\<rparr>)))"

section \<open>What a session may do\<close>

text \<open>
  The contract of the handler: every command, chain, shell and session is a sequence of log lines of
  the fixed vocabulary, state saves and resets. A reflexive and transitive relation that holds of
  these three therefore holds between the states before and after anything a client sends.
\<close>

definition auditLines :: "string set" where
  "auditLines = (\<lambda>n. ''adoption ssh command: '' @ n) ` (insert ''unsupported'' (set auditVocabulary))"

locale handler_relation =
  fixes cfg :: ssh_config and os :: os and R :: "ssh_state \<Rightarrow> ssh_state \<Rightarrow> bool"
  assumes rel_refl: "R s s"
    and rel_trans: "R s t \<Longrightarrow> R t u \<Longrightarrow> R s u"
    and rel_log: "l \<in> auditLines \<Longrightarrow> R s (logLine l s)"
    and rel_save: "R s (fst (saveState cfg os url key s))"
    and rel_reset: "R s (fst (resetState cfg os s))"
begin

lemma orFailure_fst: "fst (orFailure r out) = fst r"
  by (simp add: orFailure_def split: prod.splits)

lemma rel_setInform: "R s (fst (handleSetInform cfg os args s))"
  by (simp add: handleSetInform_def Let_def orFailure_fst rel_save)

lemma rel_resetAccepted: "R s (fst (resetAccepted cfg os s))"
  by (simp add: resetAccepted_def orFailure_fst rel_reset)

lemma rel_syswrapper: "R s (fst (handleSyswrapper cfg os args s))"
  by (simp add: handleSyswrapper_def Let_def orFailure_fst rel_save rel_setInform rel_resetAccepted rel_refl)

lemma rel_mca: "R s (fst (handleMCA cfg os args s))"
  by (simp add: handleMCA_def orFailure_fst rel_save rel_setInform rel_refl)

lemma rel_dispatch: "R s (fst (dispatchCommand cfg os args s))"
proof -
  define l where "l = ''adoption ssh command: '' @ auditCommandName (path_base (hd args))"
  have "R s (logLine l s)"
    by (rule rel_log) (simp add: l_def auditLines_def auditCommandName_def)
  moreover have "R (logLine l s) (fst (dispatchCommand cfg os args s))"
    unfolding dispatchCommand_def Let_def l_def [symmetric]
    by (simp add: orFailure_fst rel_save rel_setInform rel_resetAccepted rel_syswrapper rel_mca rel_refl)
  ultimately show ?thesis by (rule rel_trans)
qed

lemma rel_execute:
  shows rel_one: "R s (fst (executeOne cfg os command s))"
    and rel_parts: "R s' (fst (executeParts cfg os ps s'))"
proof -
  have "c = cfg \<and> os1 = os \<longrightarrow> R s (fst (executeOne c os1 command s))"
    and "c' = cfg \<and> os2 = os \<longrightarrow> R s' (fst (executeParts c' os2 ps s'))" for c os1 c' os2
  proof (induction c os1 command s and c' os2 ps s' rule: executeOne_executeParts.induct)
    case (1 c os1 command s)
    then show ?case by (cases "commandForm command") (simp_all add: rel_refl rel_dispatch)
  next
    case (3 c os1 p ps s)
    obtain s1 t code where e: "executeOne c os1 p s = (s1, t, code)" by (metis prod_cases3)
    show ?case using e 3(1) 3(2) [OF e [symmetric] refl] rel_trans [of s s1]
      by (auto split: prod.splits)
  qed (simp add: rel_refl)
  then show "R s (fst (executeOne cfg os command s))" and "R s' (fst (executeParts cfg os ps s'))"
    by blast+
qed

lemma rel_Execute: "R s (fst (Execute cfg os command s))"
  by (simp add: Execute_def rel_parts)

lemma rel_Shell: "R s (fst (Shell cfg os ls s))"
proof -
  have "R s (fst (shellLoop cfg os ls s))"
  proof (induction ls arbitrary: s)
    case (Cons l ls)
    obtain s1 t code where e: "Execute cfg os (trim_space l) s = (s1, t, code)" by (metis prod_cases3)
    have "R s s1" using rel_Execute [of s "trim_space l"] by (simp add: e)
    then have "R s (fst (shellLoop cfg os ls s1))" using Cons [of s1] by (rule rel_trans)
    then show ?case using Cons [of s] by (auto simp: Let_def e rel_refl split: prod.splits)
  qed (simp add: rel_refl)
  then show ?thesis by (auto simp: Shell_def split: prod.splits)
qed

lemma rel_session: "R s (fst (handleSession cfg os reqs s))"
proof (induction reqs)
  case (Cons r reqs)
  show ?case
  proof (cases r)
    case (ExecReq c)
    then show ?thesis using rel_Execute [of s "the c"] by (cases c) (auto simp: rel_refl split: prod.splits)
  next
    case (ShellReq ls)
    then show ?thesis using rel_Shell [of s ls] by (auto split: prod.splits)
  qed (use Cons in \<open>auto split: prod.splits\<close>)
qed (simp add: rel_refl)

end


text \<open>First instance: the log grows by fixed lines only.\<close>

definition logVocabulary :: "string set" where
  "logVocabulary = auditLines \<union> {''adoption state read failed'', ''adoption state write failed'',
     ''adoption state updated'', ''adoption state reset failed'', ''adoption state reset accepted''}"

definition log_grows :: "ssh_state \<Rightarrow> ssh_state \<Rightarrow> bool" where
  "log_grows s s' \<longleftrightarrow> (\<exists>ls. sshLog s' = sshLog s @ ls \<and> set ls \<subseteq> logVocabulary)"

lemma log_grows_logLine: "log_grows s t \<Longrightarrow> l \<in> logVocabulary \<Longrightarrow> log_grows s (logLine l t)"
  by (auto simp: log_grows_def logLine_def)

lemma log_grows_update [simp]: "log_grows s (t\<lparr>sshFS := f, sshWrites := n\<rparr>) = log_grows s t"
  by (simp add: log_grows_def)

lemma log_grows_refl: "log_grows s s"
  by (simp add: log_grows_def)

lemma log_grows_saveState: "log_grows s (fst (saveState cfg os url key s))"
  unfolding saveState_def Let_def
  by (auto simp: log_grows_refl logVocabulary_def intro!: log_grows_logLine split: option.splits prod.splits)

lemma log_grows_resetState: "log_grows s (fst (resetState cfg os s))"
  unfolding resetState_def
  by (auto simp: log_grows_refl logVocabulary_def intro!: log_grows_logLine split: option.splits prod.splits)

interpretation audit: handler_relation cfg os log_grows for cfg os
proof unfold_locales
  fix s t u assume "log_grows s t" "log_grows t u"
  then show "log_grows s u" by (fastforce simp: log_grows_def)
qed (auto simp: log_grows_refl log_grows_saveState log_grows_resetState logVocabulary_def intro!: log_grows_logLine)

text \<open>Second instance: the state file stays loadable and nothing else is touched.\<close>

definition state_file_ok :: "path \<Rightarrow> fs \<Rightarrow> bool" where
  "state_file_ok p fs \<longleftrightarrow> (LoadEnv (read_file fs p) = Inl FileNotExist \<or> (\<exists>st. LoadEnv (read_file fs p) = Inr st \<and> store_ok st))"

definition confined :: "path \<Rightarrow> fs \<Rightarrow> fs \<Rightarrow> bool" where
  "confined p fs fs' \<longleftrightarrow> (\<forall>q. q \<noteq> p \<longrightarrow> fs' q = fs q) \<and> (state_file_ok p fs \<longrightarrow> state_file_ok p fs')"

definition confined_run :: "ssh_config \<Rightarrow> os \<Rightarrow> ssh_state \<Rightarrow> ssh_state \<Rightarrow> bool" where
  "confined_run cfg os s s' \<longleftrightarrow>
     (os_ok os (effectiveStatePath cfg) \<and> finite (dom (sshFS s)) \<longrightarrow>
        finite (dom (sshFS s')) \<and> confined (effectiveStatePath cfg) (sshFS s) (sshFS s'))"

lemma SaveEnv_confined:
  assumes "temp_fresh sys fs p" "SaveEnv sys p st fs = (fs', r)"
  shows "confined p fs fs'"
  using SaveEnv_frame [OF assms] SaveEnv_old_or_new [OF assms] unfolding confined_def state_file_ok_def by metis

lemma frame_finite: "finite (dom fs) \<Longrightarrow> (\<And>q. q \<noteq> p \<Longrightarrow> fs' q = fs q) \<Longrightarrow> finite (dom fs')"
  by (rule finite_subset [of _ "insert p (dom fs)"]) auto

lemma confined_run_SaveEnv:
  assumes "SaveEnv (os n (sshFS s)) (effectiveStatePath cfg) st (sshFS s) = (fs', r)"
  shows "confined_run cfg os s (s\<lparr>sshFS := fs', sshWrites := m\<rparr>)"
  using SaveEnv_confined [OF _ assms] frame_finite [of "sshFS s" "effectiveStatePath cfg" fs']
  by (auto simp: confined_run_def os_ok_def confined_def)

lemma confined_run_logLine [simp]: "confined_run cfg os s (logLine l t) = confined_run cfg os s t"
  by (simp add: confined_run_def logLine_def)

lemma confined_run_refl: "confined_run cfg os s s"
  by (simp add: confined_run_def confined_def)

lemma confined_run_saveState: "confined_run cfg os s (fst (saveState cfg os url key s))"
  unfolding saveState_def Let_def
  by (auto simp: confined_run_refl confined_run_SaveEnv split: option.splits prod.splits)

lemma confined_run_resetState: "confined_run cfg os s (fst (resetState cfg os s))"
  unfolding resetState_def ResetEnv_def
  by (auto simp: confined_run_refl confined_run_SaveEnv split: option.splits prod.splits)

interpretation confinement: handler_relation cfg os "confined_run cfg os" for cfg os
proof unfold_locales
  fix s t u assume "confined_run cfg os s t" "confined_run cfg os t u"
  then show "confined_run cfg os s u" by (simp add: confined_run_def confined_def)
qed (simp_all add: confined_run_refl confined_run_saveState confined_run_resetState)

section \<open>Words and quoting\<close>

lemma go_runes_ascii: "list_all (\<lambda>c. ord c < 128) t \<Longrightarrow> go_runes t = map (\<lambda>c. [c]) t"
  by (induction t) (simp_all add: go_runes.simps)

definition word_char :: "char \<Rightarrow> bool" where
  "word_char c \<longleftrightarrow> 32 < ord c \<and> ord c < 127 \<and> c \<notin> set [CHR 0x5C, CHR 0x27, CHR 0x22, CHR '';'', CHR ''&'']"

definition quoted_char :: "char \<Rightarrow> bool" where
  "quoted_char c \<longleftrightarrow> ord c < 128 \<and> c \<noteq> CHR 0x5C \<and> c \<noteq> CHR 0x27"

definition quoteWord :: "string \<Rightarrow> string" where
  "quoteWord w = CHR 0x27 # w @ [CHR 0x27]"

abbreviation scan :: "string \<Rightarrow> field_scan \<Rightarrow> field_scan" where
  "scan t \<equiv> fold fieldRune (map (\<lambda>c. [c]) t)"

lemma word_char_neq:
  "word_char a \<Longrightarrow> a \<noteq> CHR 0x5C \<and> a \<noteq> CHR 0x27 \<and> a \<noteq> CHR 0x22 \<and> a \<noteq> CHR '' '' \<and> a \<noteq> CHR 0x09 \<and>
     a \<noteq> CHR 0x0D \<and> a \<noteq> CHR 0x0A \<and> a \<noteq> CHR '';'' \<and> a \<noteq> CHR ''&''"
  unfolding word_char_def by (intro conjI notI) simp_all

lemma blank_rune: "\<not> scanEscaped c \<Longrightarrow> scanQuote c = None \<Longrightarrow> fieldRune '' '' c = flushScan c"
  by (simp add: fieldRune_def)

lemma go_join_all: "list_all P sep \<Longrightarrow> list_all (list_all P) ws \<Longrightarrow> list_all P (go_join sep ws)"
  by (induction sep ws rule: go_join.induct) simp_all

lemma word_char_rune:
  "word_char a \<Longrightarrow> \<not> scanEscaped c \<Longrightarrow> scanQuote c = None \<Longrightarrow>
     fieldRune [a] c = c\<lparr>scanCurrent := scanCurrent c @ [a]\<rparr>"
  by (drule word_char_neq) (simp add: fieldRune_def)

lemma quoted_char_rune:
  "quoted_char a \<Longrightarrow> \<not> scanEscaped c \<Longrightarrow> scanQuote c = Some [CHR 0x27] \<Longrightarrow>
     fieldRune [a] c = c\<lparr>scanCurrent := scanCurrent c @ [a]\<rparr>"
  by (simp add: fieldRune_def quoted_char_def)

lemma scan_word:
  "list_all word_char w \<Longrightarrow> \<not> scanEscaped c \<Longrightarrow> scanQuote c = None \<Longrightarrow>
     scan w c = c\<lparr>scanCurrent := scanCurrent c @ w\<rparr>"
  by (induction w arbitrary: c) (simp_all add: word_char_rune)

lemma scan_quoted_body:
  "list_all quoted_char w \<Longrightarrow> \<not> scanEscaped c \<Longrightarrow> scanQuote c = Some [CHR 0x27] \<Longrightarrow>
     scan w c = c\<lparr>scanCurrent := scanCurrent c @ w\<rparr>"
  by (induction w arbitrary: c) (simp_all add: quoted_char_rune)

lemma scan_quoted:
  assumes "list_all quoted_char w" "\<not> scanEscaped c" "scanQuote c = None"
  shows "scan (quoteWord w) c = c\<lparr>scanCurrent := scanCurrent c @ w\<rparr>"
proof -
  have "fieldRune [CHR 0x27] c = c\<lparr>scanQuote := Some [CHR 0x27]\<rparr>"
    using assms(2,3) by (simp add: fieldRune_def)
  moreover have "fieldRune [CHR 0x27] (c\<lparr>scanQuote := Some [CHR 0x27], scanCurrent := x\<rparr>) = c\<lparr>scanCurrent := x\<rparr>" for x
    using assms(2,3) by (cases c) (simp add: fieldRune_def)
  ultimately show ?thesis
    using scan_quoted_body [OF assms(1), of "c\<lparr>scanQuote := Some [CHR 0x27]\<rparr>"] assms(2) by (simp add: quoteWord_def)
qed

text \<open>Any rendering of single words that scans to the word itself can be joined with blanks.\<close>

lemma scan_join:
  assumes "\<And>w c. w \<in> set ws \<Longrightarrow> \<not> scanEscaped c \<Longrightarrow> scanQuote c = None \<Longrightarrow>
      scan (ren w) c = c\<lparr>scanCurrent := scanCurrent c @ w\<rparr>"
    and "[] \<notin> set ws" and "\<not> scanEscaped c" and "scanQuote c = None" and "scanCurrent c = []" and "ws \<noteq> []"
  shows "scan (go_join '' '' (map ren ws)) c = c\<lparr>scanAcc := scanAcc c @ butlast ws, scanCurrent := last ws\<rparr>"
  using assms
proof (induction ws arbitrary: c)
  case (Cons w ws)
  show ?case
  proof (cases ws)
    case Nil
    then show ?thesis using Cons.prems(1) [of w c] Cons.prems(3-5) by simp
  next
    case (Cons v vs)
    define d where "d = c\<lparr>scanAcc := scanAcc c @ [w]\<rparr>"
    have "scan (ren w @ '' '') c = d"
      using Cons.prems(1) [of w c] Cons.prems(2-5)
      by (cases c) (auto simp: blank_rune flushScan_def flushField_def d_def)
    moreover have "go_join '' '' (map ren (w # ws)) = (ren w @ '' '') @ go_join '' '' (map ren ws)"
      using Cons by simp
    moreover have "scan (go_join '' '' (map ren ws)) d = d\<lparr>scanAcc := scanAcc d @ butlast ws, scanCurrent := last ws\<rparr>"
      using Cons.prems Cons by (intro Cons.IH) (simp_all add: d_def)
    ultimately show ?thesis using Cons by (simp add: d_def)
  qed
qed simp

lemma CommandFields_rendered:
  assumes "\<And>w c. w \<in> set ws \<Longrightarrow> \<not> scanEscaped c \<Longrightarrow> scanQuote c = None \<Longrightarrow>
      scan (ren w) c = c\<lparr>scanCurrent := scanCurrent c @ w\<rparr>"
    and "[] \<notin> set ws" and "\<And>w. w \<in> set ws \<Longrightarrow> list_all (\<lambda>c. ord c < 128) (ren w)"
  shows "CommandFields (go_join '' '' (map ren ws)) = ws"
proof (cases "ws = []")
  case False
  let ?t = "go_join '' '' (map ren ws)"
  have "list_all (\<lambda>c. ord c < 128) ?t"
    using assms(3) by (intro go_join_all) (simp_all add: list_all_iff)
  then have r: "go_runes ?t = map (\<lambda>c. [c]) ?t" by (rule go_runes_ascii)
  have "last ws \<noteq> []" using False assms(2) by (metis last_in_set)
  moreover have "scan ?t startScan = startScan\<lparr>scanAcc := scanAcc startScan @ butlast ws, scanCurrent := last ws\<rparr>"
    by (rule scan_join) (use assms(1,2) False in \<open>simp_all add: startScan_def\<close>)
  ultimately show ?thesis
    using False by (simp add: CommandFields_def Let_def r flushField_def) (simp add: startScan_def)
qed (simp add: CommandFields_def go_runes.simps startScan_def flushField_def)

lemma word_char_ascii: "list_all word_char w \<Longrightarrow> list_all (\<lambda>c. ord c < 128) w"
  by (induction w) (auto simp: word_char_def)

lemma CommandFields_words:
  "[] \<notin> set ws \<Longrightarrow> list_all (list_all word_char) ws \<Longrightarrow> CommandFields (go_join '' '' ws) = ws"
  using CommandFields_rendered [of ws "\<lambda>w. w"] by (simp add: list_all_iff [of "list_all word_char"] scan_word word_char_ascii)

lemma CommandFields_quoted:
  assumes "[] \<notin> set ws" "list_all (list_all quoted_char) ws"
  shows "CommandFields (go_join '' '' (map quoteWord ws)) = ws"
proof (rule CommandFields_rendered)
  fix w assume "w \<in> set ws"
  then have w: "list_all quoted_char w" using assms(2) by (simp add: list_all_iff)
  then show "list_all (\<lambda>c. ord c < 128) (quoteWord w)"
    by (auto simp: quoteWord_def quoted_char_def list_all_iff)
  show "scan (quoteWord w) c = c\<lparr>scanCurrent := scanCurrent c @ w\<rparr>" if "\<not> scanEscaped c" "scanQuote c = None" for c
    using w that by (rule scan_quoted)
qed (rule assms(1))

section \<open>Properties\<close>

lemma orFailure_code: "snd (snd (orFailure r out)) \<le> Suc 0"
  by (simp add: orFailure_def stateCommandFailure_def split: prod.splits)

lemma setInform_code: "snd (snd (handleSetInform cfg os args s)) \<le> Suc 0"
  by (simp add: handleSetInform_def Let_def orFailure_code)

lemma resetAccepted_code: "snd (snd (resetAccepted cfg os s)) \<le> Suc 0"
  by (simp add: resetAccepted_def orFailure_code)

lemma syswrapper_code: "snd (snd (handleSyswrapper cfg os args s)) \<le> Suc 0"
  by (simp add: handleSyswrapper_def Let_def orFailure_code setInform_code resetAccepted_code)

lemma mca_code: "snd (snd (handleMCA cfg os args s)) \<le> Suc 0"
  by (simp add: handleMCA_def orFailure_code setInform_code)

lemma dispatch_code: "snd (snd (dispatchCommand cfg os args s)) \<le> Suc 0"
  unfolding dispatchCommand_def Let_def
  by (simp add: orFailure_code setInform_code resetAccepted_code syswrapper_code mca_code)

lemma execute_code:
  shows executeOne_code: "snd (snd (executeOne cfg os command s)) \<le> 1"
    and executeParts_code: "snd (snd (executeParts cfg' os' ps s')) \<le> 1"
proof (induction cfg os command s and cfg' os' ps s' rule: executeOne_executeParts.induct)
  case (1 cfg os command s)
  then show ?case by (cases "commandForm command") (simp_all add: dispatch_code)
next
  case (3 cfg os p ps s)
  obtain s1 t code where e: "executeOne cfg os p s = (s1, t, code)" by (metis prod_cases3)
  show ?case using e 3(1) 3(2) [OF e [symmetric] refl] by (auto split: prod.splits)
qed simp

lemma executeParts_append:
  "executeParts cfg os (ps @ qs) s =
     (case executeParts cfg os ps s of (s1, t1, code1) \<Rightarrow>
        if code1 \<noteq> 0 then (s1, t1, code1)
        else (case executeParts cfg os qs s1 of (s2, t2, code2) \<Rightarrow> (s2, t1 @ t2, code2)))"
  by (induction ps arbitrary: s) (simp_all del: executeOne.simps split: prod.splits)

text \<open>C9: whatever an authenticated client sends in a session (commands, nested shells, interactive lines),
  the only file that can change is the adoption state file, that file stays missing or loadable as a
  valid store, and nothing but lines of a fixed vocabulary reaches the log, so neither keys nor unknown
  command names are ever logged.\<close>

theorem session_confined:
  assumes "os_ok os (effectiveStatePath cfg)" and "finite (dom (sshFS s))"
    and "state_file_ok (effectiveStatePath cfg) (sshFS s)"
    and "handleSession cfg os reqs s = (s', r)"
  shows "(\<forall>q. q \<noteq> effectiveStatePath cfg \<longrightarrow> sshFS s' q = sshFS s q) \<and>
    state_file_ok (effectiveStatePath cfg) (sshFS s') \<and>
    (\<exists>ls. sshLog s' = sshLog s @ ls \<and> set ls \<subseteq> logVocabulary)"
  using confinement.rel_session [of cfg os s reqs] audit.rel_session [of s cfg os reqs] assms
  by (simp add: confined_run_def confined_def log_grows_def)

text \<open>An operating system that always finds a fresh temporary name, for concrete runs.\<close>

definition freshOs :: "path \<Rightarrow> os" where
  "freshOs p n fs = sys_ok (replicate (Suc (Max (length ` insert p (dom fs)))) CHR ''t'')"

lemma freshOs_ok: "os_ok (freshOs p) p"
  unfolding os_ok_def
proof (intro allI impI)
  fix n and fs :: fs assume fin: "finite (dom fs)"
  let ?m = "Max (length ` insert p (dom fs))" and ?t = "replicate (Suc (Max (length ` insert p (dom fs)))) CHR ''t''"
  have "length q \<le> ?m" if "q \<in> insert p (dom fs)" for q
    using that fin by (intro Max_ge) auto
  moreover have "length ?t = Suc ?m" by simp
  ultimately have "?t \<notin> insert p (dom fs)" by (metis Suc_n_not_le_n)
  then show "temp_fresh (freshOs p n fs) fs p" by (simp add: temp_fresh_def freshOs_def sys_ok_def domIff)
qed

definition sampleSsh :: ssh_config where
  "sampleSsh = \<lparr>sshListen = ''127.0.0.1:2222'', sshUser = ''ubnt'', sshPassword = ''ubnt'',
     sshHostKeyPath = ''/k'', sshStatePath = ''/s'',
     sshIdentity = \<lparr>idMAC = ''02:00:00:00:00:01'', idIP = ''192.0.2.10'', idHostname = ''sw'', idModel = ''US8'',
       idVersion = ''6.6.0'', idInformURL = []\<rparr>\<rparr>"

definition startSsh :: ssh_state where "startSsh = \<lparr>sshFS = Map.empty, sshWrites = 0, sshLog = []\<rparr>"

lemma sampleSsh_path [simp]: "effectiveStatePath sampleSsh = ''/s''"
  by (simp add: effectiveStatePath_def sampleSsh_def)

lemma startSsh_ok: "finite (dom (sshFS startSsh))" "state_file_ok ''/s'' (sshFS startSsh)"
  by (simp_all add: startSsh_def state_file_ok_def LoadEnv_def read_file_def read_data_def)

theorem session_confined_witness:
  "state_file_ok ''/s'' (sshFS (fst (handleSession sampleSsh (freshOs ''/s'')
     [PtyReq, ExecReq (Some ''reset2defaults'')] startSsh)))"
  using session_confined [of "freshOs ''/s''" sampleSsh startSsh "[PtyReq, ExecReq (Some ''reset2defaults'')]",
      OF _ _ _ surjective_pairing]
  by (simp add: freshOs_ok startSsh_ok del: handleSession.simps)

text \<open>a chain of commands runs its parts in order and stops at the first one whose state write fails:
  the exit code is 0 or 1, it is 0 exactly when every part succeeded, the output is the concatenated
  output of the parts that ran, and no later part has an effect after a failure.\<close>

theorem executeParts_chain:
  "executeParts cfg os (ps @ qs) s =
     (case executeParts cfg os ps s of (s1, t1, code1) \<Rightarrow>
        if code1 \<noteq> 0 then (s1, t1, code1)
        else (case executeParts cfg os qs s1 of (s2, t2, code2) \<Rightarrow> (s2, t1 @ t2, code2))) \<and>
   snd (snd (executeParts cfg os ps s)) \<in> {0, 1}"
  using executeParts_append [of cfg os ps qs s] executeParts_code [of cfg os ps s]
  by (simp add: le_Suc_eq)

text \<open>quoting is respected. A command line made of words in single quotes is split into exactly these
  words, whatever blanks, separators or other ASCII characters except quotes and backslashes they contain.\<close>

theorem CommandFields_roundtrip:
  assumes "[] \<notin> set ws" and "list_all (list_all quoted_char) ws"
  shows "CommandFields (go_join '' '' (map quoteWord ws)) = ws"
  using assms by (rule CommandFields_quoted)

theorem CommandFields_roundtrip_witness:
  "CommandFields (go_join '' '' (map quoteWord [''sh'', ''-c'', ''mca-cli-op set-inform x''])) =
     [''sh'', ''-c'', ''mca-cli-op set-inform x'']"
  by (rule CommandFields_roundtrip) (simp_all add: quoted_char_def)

section \<open>The adoption command\<close>

lemma replaceSeparators_id: "CHR ''&'' \<notin> set t \<Longrightarrow> CHR 0x0A \<notin> set t \<Longrightarrow> replaceSeparators t = t"
  by (induction t rule: replaceSeparators.induct) auto

definition line_char :: "char \<Rightarrow> bool" where
  "line_char c \<longleftrightarrow> word_char c \<or> c = CHR '' ''"

lemma line_char_plain:
  "list_all line_char t \<Longrightarrow> CHR ''&'' \<notin> set t \<and> CHR 0x0A \<notin> set t \<and> CHR '';'' \<notin> set t"
  by (auto simp: list_all_iff line_char_def dest: word_char_neq)

lemma trim_space_words:
  assumes "t \<noteq> []" "list_all line_char t" "word_char (hd t)" "word_char (last t)"
  shows "trim_space t = t"
proof -
  have ns: "ord c < 128 \<and> \<not> is_ascii_space c" if "word_char c" for c
    using that by (auto simp: word_char_def is_ascii_space_def)
  have "space_len_rev (c # r) = 0" if "ord c < 128 \<and> \<not> is_ascii_space c" for c r
    using that by (cases "c # r" rule: space_len_rev.cases) (auto simp: space2_def space3_def)
  moreover have "rev t = last t # rev (butlast t)" using assms(1) by (metis append_butlast_last_id rev_eq_Cons_iff rev_rev_ident)
  ultimately show ?thesis
    unfolding trim_space_eq_iff using ns [OF assms(3)] ns [OF assms(4)] space_len_ascii [of t] by metis
qed

lemma splitCommands_words:
  assumes "list_all line_char t" "t \<noteq> []" "word_char (hd t)" "word_char (last t)"
  shows "splitCommands t = [t]"
  using line_char_plain [OF assms(1)] trim_space_words [OF assms(2,1,3,4)] assms(2)
  by (simp add: splitCommands_def replaceSeparators_id)

definition setAdoptLine :: "string \<Rightarrow> string \<Rightarrow> string" where
  "setAdoptLine url key = go_join '' '' [''syswrapper.sh'', ''set-adopt'', url, key]"

lemma setAdoptLine_fields:
  assumes "list_all word_char url" "url \<noteq> []" "list_all word_char key" "key \<noteq> []"
  shows "splitCommands (setAdoptLine url key) = [setAdoptLine url key]"
    and "commandForm (setAdoptLine url key) = Dispatch [''syswrapper.sh'', ''set-adopt'', url, key]"
proof -
  let ?ws = "[''syswrapper.sh'', ''set-adopt'', url, key]" and ?t = "setAdoptLine url key"
  have w: "list_all (list_all word_char) ?ws" using assms by (simp add: word_char_def)
  then have "list_all line_char ?t"
    unfolding setAdoptLine_def by (intro go_join_all) (auto simp: line_char_def list_all_iff)
  moreover have "word_char (last ?t)"
    using assms(3,4) by (simp add: setAdoptLine_def list_all_iff)
  moreover have "word_char (hd ?t)" "?t \<noteq> []" by (simp_all add: setAdoptLine_def word_char_def)
  ultimately have "splitCommands ?t = [?t]" "trim_space ?t = ?t"
    by (simp_all add: splitCommands_words trim_space_words)
  moreover have "CommandFields ?t = ?ws"
    unfolding setAdoptLine_def using w assms by (intro CommandFields_words) auto
  ultimately show "splitCommands ?t = [?t]" "commandForm ?t = Dispatch ?ws"
    by (simp_all add: commandForm_def Let_def)
qed

lemma path_base_syswrapper: "path_base ''syswrapper.sh'' = ''syswrapper.sh''"
  by code_simp

lemma Execute_setAdopt:
  assumes "list_all word_char url" "url \<noteq> []" "list_all word_char key" "key \<noteq> []"
  shows "Execute cfg os (setAdoptLine url key) s =
    orFailure (saveState cfg os url key (logLine ''adoption ssh command: syswrapper.sh'' s))
      (''Adoption request accepted: '' @ url @ nl)"
  using assms(2) by (simp add: Execute_def setAdoptLine_fields [OF assms] dispatchCommand_def path_base_syswrapper
      handleSyswrapper_def auditCommandName_def auditVocabulary_def orFailure_def split: prod.splits)

lemma saveState_ok:
  assumes "saveState cfg os url key s = (s', True)" and "url \<noteq> [] \<or> key \<noteq> []"
    and "os_ok os (effectiveStatePath cfg)" and "finite (dom (sshFS s))"
  obtains store where "LoadEnv (read_file (sshFS s) (effectiveStatePath cfg)) = Inr store \<or>
      LoadEnv (read_file (sshFS s) (effectiveStatePath cfg)) = Inl FileNotExist \<and> store = emptyStore"
    and "LoadEnv (read_file (sshFS s') (effectiveStatePath cfg)) =
      Inr (fst (Merge store (emptyStore\<lparr>State := (if key \<noteq> [] then StateAdopting else StateProvisioning),
                                  InformURL := url, AuthKey := key\<rparr>)))"
proof -
  let ?p = "effectiveStatePath cfg" and ?fs = "sshFS s"
  let ?u = "emptyStore\<lparr>State := (if key \<noteq> [] then StateAdopting else StateProvisioning), InformURL := url, AuthKey := key\<rparr>"
  define loaded where "loaded = (case LoadEnv (read_file ?fs ?p) of
      Inr store \<Rightarrow> Some store | Inl e \<Rightarrow> if e = FileNotExist then Some emptyStore else None)"
  have nonempty: "\<not> (url = [] \<and> key = [])" using assms(2) by blast
  note unfolded = assms(1) [unfolded saveState_def Let_def loaded_def [symmetric] if_not_P [OF nonempty]]
  from unfolded obtain store where l: "loaded = Some store" by (cases loaded) simp_all
  obtain m ch where m: "Merge store ?u = (m, ch)" by fastforce
  obtain fs' r where sv: "SaveEnv (os (sshWrites s) ?fs) ?p m ?fs = (fs', r)" by fastforce
  from unfolded have r: "r = None" and fs': "sshFS s' = fs'"
    by (auto simp: l m sv logLine_def split: option.splits if_splits)
  have "temp_fresh (os (sshWrites s) ?fs) ?fs ?p" using assms(3,4) by (simp add: os_ok_def)
  from SaveEnv_ok [OF this sv [unfolded r]] have "LoadEnv (read_file (sshFS s') ?p) = Inr (fst (Merge store ?u))"
    by (simp add: fs' m)
  moreover have "LoadEnv (read_file ?fs ?p) = Inr store \<or> LoadEnv (read_file ?fs ?p) = Inl FileNotExist \<and> store = emptyStore"
    using l by (auto simp: loaded_def split: sum.splits if_splits)
  ultimately show thesis using that by blast
qed

text \<open>\<open>syswrapper.sh set-adopt URL KEY\<close>, the command of SSH adoption. When it reports success, a
  restart loads exactly this URL and key, every other field is kept, and the device is adopting,
  unless URL and key are the ones it already had, in which case its lifecycle state is kept.\<close>

theorem set_adopt_persists:
  assumes "list_all word_char url" "url \<noteq> []" "list_all word_char key" "key \<noteq> []"
    and "os_ok os (effectiveStatePath cfg)" and "finite (dom (sshFS s))"
    and "LoadEnv (read_file (sshFS s) (effectiveStatePath cfg)) = Inr old"
    and "Execute cfg os (setAdoptLine url key) s = (s', out, 0)"
  shows "out = ''Adoption request accepted: '' @ url @ nl \<and>
    LoadEnv (read_file (sshFS s') (effectiveStatePath cfg)) = Inr (old\<lparr>InformURL := url, AuthKey := key,
      State := (if url = InformURL old \<and> authKeysEqual key (AuthKey old) then State old else StateAdopting)\<rparr>)"
proof -
  let ?s = "logLine ''adoption ssh command: syswrapper.sh'' s"
  obtain ok where sv: "saveState cfg os url key ?s = (s', ok)" and ok: "ok" and out: "out = ''Adoption request accepted: '' @ url @ nl"
    using assms(8) unfolding Execute_setAdopt [OF assms(1-4)]
    by (auto simp: orFailure_def stateCommandFailure_def split: prod.splits if_splits)
  have fs: "sshFS ?s = sshFS s" by (simp add: logLine_def)
  obtain store where "LoadEnv (read_file (sshFS ?s) (effectiveStatePath cfg)) = Inr store \<or>
      LoadEnv (read_file (sshFS ?s) (effectiveStatePath cfg)) = Inl FileNotExist \<and> store = emptyStore"
    and l: "LoadEnv (read_file (sshFS s') (effectiveStatePath cfg)) =
      Inr (fst (Merge store (emptyStore\<lparr>State := (if key \<noteq> [] then StateAdopting else StateProvisioning),
                                  InformURL := url, AuthKey := key\<rparr>)))"
    using saveState_ok [OF sv [unfolded eqTrueI [OF ok]] _ assms(5)] assms(2,6) unfolding fs by blast
  then have "store = old" using assms(7) by (simp add: fs)
  with l out assms(2,4) show ?thesis
    by (cases old) (simp add: Merge_eq Let_def mergeState_def emptyStore_def)
qed

definition adoptedSsh :: ssh_state where
  "adoptedSsh = \<lparr>sshFS = [''/s'' \<mapsto> \<lparr>fileData = encodeEnv sampleStore, fileMode = 384, fileSynced = True\<rparr>],
     sshWrites = 0, sshLog = []\<rparr>"

lemma adoptedSsh_loads: "LoadEnv (read_file (sshFS adoptedSsh) ''/s'') = Inr sampleStore"
  by (simp add: adoptedSsh_def LoadEnv_def read_file_def read_data_def decode_encode sampleStore_valid)

lemma saveState_adoptedSsh:
  "snd (saveState sampleSsh (freshOs ''/s'') (InformURL sampleStore) (AuthKey sampleStore) (logLine l adoptedSsh))"
proof -
  let ?u = "emptyStore\<lparr>State := StateAdopting, InformURL := InformURL sampleStore, AuthKey := AuthKey sampleStore\<rparr>"
  have m: "Merge sampleStore ?u = (sampleStore, False)"
    by (simp add: Merge_eq Let_def mergeState_def emptyStore_def sampleStore_def authKeysEqual_def)
  have fs: "sshFS (logLine l adoptedSsh) = sshFS adoptedSsh" by (simp add: logLine_def)
  have "snd (SaveEnv (sys_ok t) ''/s'' sampleStore fs) = None" for t fs
    by (simp add: SaveEnv_def sampleStore_valid WriteFile_def sys_ok_def write_step_defs)
  then obtain fs' where "SaveEnv (freshOs ''/s'' (sshWrites (logLine l adoptedSsh)) (sshFS adoptedSsh)) ''/s''
      sampleStore (sshFS adoptedSsh) = (fs', None)"
    by (metis freshOs_def prod.collapse)
  moreover have "AuthKey sampleStore \<noteq> []" by (simp add: sampleStore_def)
  ultimately show ?thesis
    by (simp add: saveState_def Let_def fs adoptedSsh_loads m)
qed

theorem set_adopt_persists_witness:
  "\<exists>s' out. Execute sampleSsh (freshOs ''/s'') (setAdoptLine (InformURL sampleStore) sampleKey) adoptedSsh = (s', out, 0) \<and>
     LoadEnv (read_file (sshFS s') ''/s'') = Inr sampleStore"
proof -
  let ?url = "InformURL sampleStore"
  have w: "list_all word_char ?url" "?url \<noteq> []" "list_all word_char sampleKey" "sampleKey \<noteq> []"
    by (simp_all add: sampleStore_def word_char_def) (simp add: sampleKey_def word_char_def)
  have "snd (snd (Execute sampleSsh (freshOs ''/s'') (setAdoptLine ?url sampleKey) adoptedSsh)) = 0"
    using saveState_adoptedSsh [of "''adoption ssh command: syswrapper.sh''"]
    unfolding Execute_setAdopt [OF w] by (auto simp: orFailure_def sampleStore_def split: prod.splits)
  then obtain s' out where e: "Execute sampleSsh (freshOs ''/s'') (setAdoptLine ?url sampleKey) adoptedSsh = (s', out, 0)"
    by (metis prod.collapse)
  have fin: "finite (dom (sshFS adoptedSsh))" by (simp add: adoptedSsh_def)
  have os: "os_ok (freshOs ''/s'') (effectiveStatePath sampleSsh)"
    and ld: "LoadEnv (read_file (sshFS adoptedSsh) (effectiveStatePath sampleSsh)) = Inr sampleStore"
    unfolding sampleSsh_path by (rule freshOs_ok adoptedSsh_loads)+
  have k: "AuthKey sampleStore = sampleKey" by (simp add: sampleStore_def)
  have "sampleStore\<lparr>InformURL := ?url, AuthKey := sampleKey, State := State sampleStore\<rparr> = sampleStore"
    unfolding k [symmetric] by (cases sampleStore) simp
  then have "LoadEnv (read_file (sshFS s') ''/s'') = Inr sampleStore"
    using conjunct2 [OF set_adopt_persists [OF w os fin ld e]] unfolding sampleSsh_path k authKeysEqual_def by simp
  with e show ?thesis by blast
qed

end
