(* ===== verification/Daemon.thy ===== *)
theory Daemon
  imports Heartbeat Adoption_Ssh
begin

text \<open>
  The two writers of the adoption state file: the presence loop (\<open>serve_presence.go\<close>) and the SSH shim
  that \<open>serve.go\<close> and \<open>serve_ssh.go\<close> start beside it on the same path. They share no lock, so a state
  update of the shim can fall between the moment a round loads the store and the moment it saves
  the merged one. A round is therefore split in two steps, \<open>beginRound\<close> (load, announce, build the
  payload) and \<open>finishRound\<close> (the exchange and its effects), and the step relation interleaves them
  with the primitive effects of the handler. \<open>SaveEnv\<close> is one step, which is what the renaming in
  \<open>Atomic_File\<close> provides.
\<close>

section \<open>A round in two steps (serve_presence.go)\<close>

record flight =
  flStore :: adoption_store
  flURL :: string
  flPayload :: bytes

definition beginRound :: "presence_cfg \<Rightarrow> hb_env \<Rightarrow> hb_state \<Rightarrow> hb_state \<times> (presence_error + flight)" where
  "beginRound cfg env s0 =
     (case loadAdoptionState (read_file (hbFS s0) (cfgStatePath cfg)) of
        Inl e \<Rightarrow> (s0, Inl (LoadFailed e))
      | Inr store \<Rightarrow>
          (let informURL = effectiveInformURL (cfgController cfg) store;
               ann = (hbAnn s0)\<lparr>annDefault := (AuthKey store = []), annUptime := envUptime env\<rparr>;
               s = s0\<lparr>hbAnn := ann\<rparr> in
           case MarshalBinary ann of
             Inl e \<Rightarrow> (s, Inl (MarshalFailed e))
           | Inr packet \<Rightarrow>
               (case cfgPayload cfg store informURL s of
                  None \<Rightarrow> (s, Inl PayloadFailed)
                | Some payload \<Rightarrow>
                    (s\<lparr>hbSent := hbSent s @ sendDiscovery (envUdp env) packet (cfgDiscoverySkipped cfg)
                         (cfgDiscoveryInterface cfg) (cfgDiscoveryTargets cfg)\<rparr>,
                     Inr \<lparr>flStore = store, flURL = informURL, flPayload = payload\<rparr>))))"

definition finishRound ::
  "presence_cfg \<Rightarrow> hb_env \<Rightarrow> flight \<Rightarrow> hb_state \<Rightarrow> hb_state \<times> (presence_error + schedule_decision)" where
  "finishRound cfg env fl s =
     (let r = sendInformHeartbeat env (cfgMAC cfg) (flURL fl) (cfgStatePath cfg) (cfgPolicy cfg)
                (flStore fl) (flPayload fl) s
      in case resError r of
           Some e \<Rightarrow> (resState r, Inl (HeartbeatFailed e))
         | None \<Rightarrow> ((resState r)\<lparr>hbAnn := (hbAnn s)\<lparr>annSequence := annSequence (hbAnn s) + 1\<rparr>\<rparr>, Inr (resDecision r)))"

text \<open>Without a step of the shim in between, the two halves are the round of \<open>Heartbeat\<close>.\<close>

lemma presenceRound_halves:
  "presenceRound cfg s env =
     (case beginRound cfg env s of
        (s', Inl e) \<Rightarrow> (s', Inl e)
      | (s', Inr fl) \<Rightarrow> finishRound cfg env fl s')"
  by (simp add: presenceRound_def beginRound_def finishRound_def Let_def split: sum.splits option.splits)

section \<open>The daemon as a transition system\<close>

record daemon =
  dHb :: hb_state
  dFlight :: "flight option"
  dStopped :: "presence_error option"
  dWrites :: nat
  dLog :: "string list"

text \<open>What the handler of the shim sees of the daemon, and the daemon after the handler ran.\<close>

definition sshView :: "daemon \<Rightarrow> ssh_state" where
  "sshView d = \<lparr>sshFS = hbFS (dHb d), sshWrites = dWrites d, sshLog = dLog d\<rparr>"

definition sshPut :: "ssh_state \<Rightarrow> daemon \<Rightarrow> daemon" where
  "sshPut t d = d\<lparr>dHb := (dHb d)\<lparr>hbFS := sshFS t\<rparr>, dWrites := sshWrites t, dLog := sshLog t\<rparr>"

lemma sshView_sshPut [simp]: "sshView (sshPut t d) = t"
  by (simp add: sshView_def sshPut_def)

lemma sshPut_sshPut [simp]: "sshPut u (sshPut t d) = sshPut u d"
  by (simp add: sshPut_def)

lemma sshPut_sshView [simp]: "sshPut (sshView d) d = d"
  by (simp add: sshPut_def sshView_def)

lemma sshPut_fields [simp]: "dFlight (sshPut t d) = dFlight d" "dStopped (sshPut t d) = dStopped d"
  "hbFS (dHb (sshPut t d)) = sshFS t" "hbSched (dHb (sshPut t d)) = hbSched (dHb d)" "dLog (sshPut t d) = sshLog t"
  by (simp_all add: sshPut_def)

lemma sshView_fields [simp]: "sshFS (sshView d) = hbFS (dHb d)" "sshLog (sshView d) = dLog d"
  by (simp_all add: sshView_def)

inductive daemon_step :: "presence_cfg \<Rightarrow> ssh_config \<Rightarrow> os \<Rightarrow> daemon \<Rightarrow> daemon \<Rightarrow> bool" for cfg scfg os where
  Begin: "dFlight d = None \<Longrightarrow> dStopped d = None \<Longrightarrow> beginRound cfg env (dHb d) = (s, Inr fl) \<Longrightarrow>
     daemon_step cfg scfg os d (d\<lparr>dHb := s, dFlight := Some fl\<rparr>)"
| BeginFails: "dFlight d = None \<Longrightarrow> dStopped d = None \<Longrightarrow> beginRound cfg env (dHb d) = (s, Inl e) \<Longrightarrow>
     daemon_step cfg scfg os d (d\<lparr>dHb := s, dStopped := Some e\<rparr>)"
| Finish: "dFlight d = Some fl \<Longrightarrow> dStopped d = None \<Longrightarrow> temp_fresh (envSys env) (hbFS (dHb d)) (cfgStatePath cfg) \<Longrightarrow>
     finishRound cfg env fl (dHb d) = (s, out) \<Longrightarrow>
     daemon_step cfg scfg os d (d\<lparr>dHb := s, dFlight := None, dStopped := (case out of Inl e \<Rightarrow> Some e | Inr _ \<Rightarrow> None)\<rparr>)"
| SshLog: "dStopped d = None \<Longrightarrow> l \<in> auditLines \<Longrightarrow> daemon_step cfg scfg os d (sshPut (logLine l (sshView d)) d)"
| SshSave: "dStopped d = None \<Longrightarrow>
     daemon_step cfg scfg os d (sshPut (fst (saveState scfg os url key (sshView d))) d)"
| SshReset: "dStopped d = None \<Longrightarrow>
     daemon_step cfg scfg os d (sshPut (fst (resetState scfg os (sshView d))) d)"

abbreviation daemon_run :: "presence_cfg \<Rightarrow> ssh_config \<Rightarrow> os \<Rightarrow> daemon \<Rightarrow> daemon \<Rightarrow> bool" where
  "daemon_run cfg scfg os \<equiv> (daemon_step cfg scfg os)\<^sup>*\<^sup>*"

text \<open>
  The relation is fine enough: whatever a client sends in a session is a run of it, so that the rounds
  of the loop may fall between any two effects of a command. This is the third instance of the
  handler's contract.
\<close>

definition run_view :: "presence_cfg \<Rightarrow> ssh_config \<Rightarrow> os \<Rightarrow> ssh_state \<Rightarrow> ssh_state \<Rightarrow> bool" where
  "run_view cfg scfg os s t \<longleftrightarrow>
     (\<forall>d. dStopped d = None \<and> sshView d = s \<longrightarrow> daemon_run cfg scfg os d (sshPut t d))"

lemma run_view_step:
  assumes "\<And>d. dStopped d = None \<Longrightarrow> sshView d = s \<Longrightarrow> daemon_step cfg scfg os d (sshPut t d)"
  shows "run_view cfg scfg os s t"
  using assms by (auto simp: run_view_def)

interpretation interleaved: handler_relation scfg os "run_view cfg scfg os" for scfg os cfg
proof unfold_locales
  show "run_view cfg scfg os s s" for s by (auto simp: run_view_def)
  show "run_view cfg scfg os s u" if st: "run_view cfg scfg os s t" and tu: "run_view cfg scfg os t u" for s t u
    unfolding run_view_def
  proof (intro allI impI)
    fix d assume d: "dStopped d = None \<and> sshView d = s"
    then have "daemon_run cfg scfg os d (sshPut t d)" using st by (simp add: run_view_def)
    moreover have "daemon_run cfg scfg os (sshPut t d) (sshPut u d)"
      using tu [unfolded run_view_def, rule_format, of "sshPut t d"] d by simp
    ultimately show "daemon_run cfg scfg os d (sshPut u d)" by simp
  qed
  show "run_view cfg scfg os s (logLine l s)" if "l \<in> auditLines" for l s
    using that by (auto intro!: run_view_step SshLog)
  show "run_view cfg scfg os s (fst (saveState scfg os url key s))" for s url key
    by (auto intro!: run_view_step SshSave)
  show "run_view cfg scfg os s (fst (resetState scfg os s))" for s
    by (auto intro!: run_view_step SshReset)
qed

lemma session_is_run:
  "dStopped d = None \<Longrightarrow> daemon_run cfg scfg os d (sshPut (fst (handleSession scfg os reqs (sshView d))) d)"
  using interleaved.rel_session [of cfg scfg os "sshView d" reqs] by (simp add: run_view_def)

section \<open>Invariant\<close>

text \<open>
  Relative to the state \<open>d0\<close> the daemon started in: the adoption file loads, no other file has changed,
  the schedule is within its bounds, the log grew by fixed lines, a store in flight is valid, and the
  loop was not ended by a state file it cannot read.
\<close>

definition daemon_inv :: "path \<Rightarrow> schedule_config \<Rightarrow> daemon \<Rightarrow> daemon \<Rightarrow> bool" where
  "daemon_inv p c d0 d \<longleftrightarrow> hb_inv p c (dHb d) \<and> finite (dom (hbFS (dHb d))) \<and>
     (\<forall>q. q \<noteq> p \<longrightarrow> hbFS (dHb d) q = hbFS (dHb d0) q) \<and> log_grows (sshView d0) (sshView d) \<and>
     (\<forall>fl. dFlight d = Some fl \<longrightarrow> store_ok (flStore fl)) \<and> (\<forall>a. dStopped d \<noteq> Some (LoadFailed a))"

lemma state_file_ok_iff: "state_file_ok p fs \<longleftrightarrow> (\<exists>store. loadAdoptionState (read_file fs p) = Inr store)"
  using loadAdoptionState_ok [of "read_file fs p"]
  by (auto simp: state_file_ok_def loadAdoptionState_def split: sum.splits if_splits)

lemma beginRound_cases:
  assumes "beginRound cfg env s = (s', out)" "hb_inv (cfgStatePath cfg) c s"
  shows "hb_inv (cfgStatePath cfg) c s' \<and> hbFS s' = hbFS s \<and>
     (case out of Inl e \<Rightarrow> \<forall>a. e \<noteq> LoadFailed a | Inr fl \<Rightarrow> store_ok (flStore fl))"
proof -
  obtain store where st: "loadAdoptionState (read_file (hbFS s) (cfgStatePath cfg)) = Inr store"
    using assms(2) by (auto simp: hb_inv_def)
  show ?thesis
    using assms loadAdoptionState_ok [OF st]
    by (auto simp: beginRound_def st Let_def split: sum.splits option.splits)
qed

lemma finishRound_inv:
  assumes "finishRound cfg env fl s = (s', out)" "hb_inv (cfgStatePath cfg) c s"
    and "temp_fresh (envSys env) (hbFS s) (cfgStatePath cfg)"
  shows "hb_inv (cfgStatePath cfg) c s' \<and> (\<forall>q. q \<noteq> cfgStatePath cfg \<longrightarrow> hbFS s' q = hbFS s q) \<and>
     (\<forall>a. out \<noteq> Inl (LoadFailed a))"
proof -
  obtain store where st: "loadAdoptionState (read_file (hbFS s) (cfgStatePath cfg)) = Inr store"
    using assms(2) by (auto simp: hb_inv_def)
  show ?thesis
    using sendInformHeartbeat_inv [OF assms(2) st assms(3), of "cfgMAC cfg" "flURL fl" "cfgPolicy cfg" "flStore fl" "flPayload fl"]
      assms(1)
    by (auto simp: finishRound_def Let_def split: option.splits)
qed

text \<open>A step of the shim, from the two properties of its primitives.\<close>

lemma daemon_inv_ssh:
  assumes inv: "daemon_inv (effectiveStatePath scfg) c d0 d" and os: "os_ok os (effectiveStatePath scfg)"
    and conf: "confined_run scfg os (sshView d) t" and log: "log_grows (sshView d) t"
  shows "daemon_inv (effectiveStatePath scfg) c d0 (sshPut t d)"
proof -
  let ?p = "effectiveStatePath scfg"
  have h: "hb_inv ?p c (dHb d)" and fin: "finite (dom (hbFS (dHb d)))" using inv by (simp_all add: daemon_inv_def)
  have c: "finite (dom (sshFS t))" "confined ?p (hbFS (dHb d)) (sshFS t)"
    using conf os fin by (simp_all add: confined_run_def)
  have "state_file_ok ?p (hbFS (dHb d))" using h by (auto simp: hb_inv_def state_file_ok_iff)
  then have "hb_inv ?p c (dHb (sshPut t d))"
    using c(2) h by (simp add: confined_def hb_inv_def state_file_ok_iff)
  moreover have "log_grows (sshView d0) (sshView (sshPut t d))"
    using log inv by (auto simp: daemon_inv_def log_grows_def)
  ultimately show ?thesis using inv c by (simp add: daemon_inv_def confined_def)
qed

lemma daemon_inv_step:
  assumes "daemon_step cfg scfg os d d'" and "daemon_inv (cfgStatePath cfg) c d0 d"
    and "os_ok os (cfgStatePath cfg)" and p: "cfgStatePath cfg = effectiveStatePath scfg"
  shows "daemon_inv (cfgStatePath cfg) c d0 d'"
  using assms(1)
proof cases
  case (Begin env s fl)
  then show ?thesis
    using beginRound_cases [OF Begin(4), of c] assms(2) by (simp add: daemon_inv_def log_grows_def)
next
  case (BeginFails env s e)
  then show ?thesis
    using beginRound_cases [OF BeginFails(4), of c] assms(2) by (simp add: daemon_inv_def log_grows_def)
next
  case (Finish fl env s out)
  have i: "hb_inv (cfgStatePath cfg) c (dHb d)" using assms(2) by (simp add: daemon_inv_def)
  note r = finishRound_inv [OF Finish(5) i Finish(4)]
  have "finite (dom (hbFS s))"
    using frame_finite [of "hbFS (dHb d)" "cfgStatePath cfg" "hbFS s"] r assms(2) by (simp add: daemon_inv_def)
  then show ?thesis using r assms(2) Finish(1) by (auto simp: daemon_inv_def log_grows_def split: sum.splits)
next
  case (SshLog l)
  then show ?thesis
    using daemon_inv_ssh [of scfg c d0 d os "logLine l (sshView d)"] assms(2,3) audit.rel_log [of l "sshView d"]
    by (simp add: p confined_run_refl)
next
  case (SshSave url key)
  then show ?thesis
    using daemon_inv_ssh [of scfg c d0 d os] assms(2,3) by (simp add: p confined_run_saveState log_grows_saveState)
next
  case SshReset
  then show ?thesis
    using daemon_inv_ssh [of scfg c d0 d os] assms(2,3) by (simp add: p confined_run_resetState log_grows_resetState)
qed

lemma daemon_inv_run:
  assumes "daemon_run cfg scfg os d d'" and "daemon_inv (cfgStatePath cfg) c d0 d"
    and "os_ok os (cfgStatePath cfg)" and "cfgStatePath cfg = effectiveStatePath scfg"
  shows "daemon_inv (cfgStatePath cfg) c d0 d'"
  using assms by (induction rule: rtranclp_induct) (blast intro: daemon_inv_step)+

section \<open>Properties\<close>


definition startDaemon :: daemon where
  "startDaemon = \<lparr>dHb = sampleState, dFlight = None, dStopped = None, dWrites = 0, dLog = []\<rparr>"


text \<open>C38: a reset can be undone by a heartbeat that is under way. When the shim accepts a factory reset after
  a round has loaded the store, and the controller's answer to that round changes the store, the round
  saves the store it had loaded: the key the reset had removed from the disk is back.\<close>

theorem reset_undone_by_round_in_flight:
  assumes "loadAdoptionState (read_file (sshFS s) (effectiveStatePath scfg)) = Inr store"
    and "os_ok os (effectiveStatePath scfg)" and "finite (dom (sshFS s))" and "resetState scfg os s = (t, True)"
    and "\<not> ResetRequested r" and "HasStateUpdate r" and "AuthKey (rspStore r) = []"
    and "snd (Merge store (rspStore r))" and "temp_fresh sys (sshFS t) (effectiveStatePath scfg)"
    and "u = updateAdoptionState sys (effectiveStatePath scfg) store (Some r) False (sshFS t)"
    and "updError u = None"
  shows "LoadEnv (read_file (sshFS t) (effectiveStatePath scfg)) = Inr factoryStore \<and>
    (\<exists>st. LoadEnv (read_file (updFS u) (effectiveStatePath scfg)) = Inr st \<and> AuthKey st = AuthKey store)"
proof -
  let ?p = "effectiveStatePath scfg"
  obtain m where m: "Merge store (rspStore r) = (m, True)" using assms(8) by (metis prod.collapse)
  have rs: "SaveEnv (os (sshWrites s) (sshFS s)) ?p factoryStore (sshFS s) = (sshFS t, None)"
    using assms(4) by (auto simp: resetState_def ResetEnv_def logLine_def split: prod.splits option.splits)
  have "LoadEnv (read_file (sshFS t) ?p) = Inr factoryStore"
    using SaveEnv_ok [OF _ rs] assms(2,3) by (simp add: os_ok_def)
  moreover have "SaveEnv sys ?p m (sshFS t) = (updFS u, None)"
    using assms(5,6,10,11) m by (simp add: updateAdoptionState_def split: prod.splits option.splits)
  then have "LoadEnv (read_file (updFS u) ?p) = Inr m" using SaveEnv_ok assms(9) by blast
  moreover have "AuthKey m = AuthKey store" using Merge_get(2) [of store "rspStore r"] m assms(7) by simp
  ultimately show ?thesis by blast
qed

text \<open>An adopted device whose controller announces a new configuration version.\<close>

definition newVersion :: controller_response where
  "newVersion = emptyResponse\<lparr>HasStateUpdate := True, rspStore := emptyStore\<lparr>State := StateConnected, CFGVersion := ''2b''\<rparr>\<rparr>"

theorem reset_undone_by_round_in_flight_witness:
  "let t = fst (resetState sampleSsh (freshOs ''/s'') adoptedSsh);
       u = updateAdoptionState (freshOs ''/s'' 0 (sshFS t)) ''/s'' sampleStore (Some newVersion) False (sshFS t)
   in LoadEnv (read_file (sshFS t) ''/s'') = Inr factoryStore \<and>
      (\<exists>st. LoadEnv (read_file (updFS u) ''/s'') = Inr st \<and> AuthKey st = sampleKey)"
proof -
  define t where "t = fst (resetState sampleSsh (freshOs ''/s'') adoptedSsh)"
  define m where "m = sampleStore\<lparr>CFGVersion := ''2b''\<rparr>"
  define u where "u = updateAdoptionState (freshOs ''/s'' 0 (sshFS t)) ''/s'' sampleStore (Some newVersion) False (sshFS t)"
  have ok: "snd (SaveEnv (freshOs ''/s'' n fs) ''/s'' st fs) = None" if "validateStoreForPersistence st = None" for n fs st
    by (simp add: SaveEnv_def that WriteFile_def freshOs_def sys_ok_def write_step_defs)
  have fin: "finite (dom (sshFS adoptedSsh))" by (simp add: adoptedSsh_def)
  have r: "resetState sampleSsh (freshOs ''/s'') adoptedSsh = (t, True)"
    using ok [OF factoryStore_valid, of "sshWrites adoptedSsh" "sshFS adoptedSsh"]
    by (auto simp: t_def resetState_def ResetEnv_def split: prod.splits)
  have "finite (dom (sshFS t))"
    using confined_run_resetState [of sampleSsh "freshOs ''/s''" adoptedSsh] freshOs_ok [of "''/s''"] fin
    by (simp add: t_def confined_run_def)
  then have f: "temp_fresh (freshOs ''/s'' 0 (sshFS t)) (sshFS t) ''/s''" using freshOs_ok [of "''/s''"] by (simp add: os_ok_def)
  have mg: "Merge sampleStore (rspStore newVersion) = (m, True)"
    by (simp add: Merge_eq Let_def newVersion_def emptyStore_def sampleStore_def m_def mergeState_def sampleKey_nonempty)
  have "update_ok (rspStore newVersion)"
    unfolding update_ok_def field_ok_all by (simp add: newVersion_def emptyStore_def ascii_value)
  then have "validateStoreForPersistence m = None"
    using Merge_valid_iff [OF sampleStore_ok] mg sampleKey_nonempty by (fastforce simp: sampleStore_def)
  then have e: "updError u = None"
    using ok [of m 0 "sshFS t"] mg
    by (auto simp: u_def updateAdoptionState_def newVersion_def emptyResponse_def split: prod.splits option.splits)
  have "loadAdoptionState (read_file (sshFS adoptedSsh) ''/s'') = Inr sampleStore"
    by (simp add: loadAdoptionState_def adoptedSsh_loads)
  then show ?thesis
    using reset_undone_by_round_in_flight [of adoptedSsh sampleSsh sampleStore "freshOs ''/s''" t newVersion
        "freshOs ''/s'' 0 (sshFS t)" u] freshOs_ok [of "''/s''"] fin r f mg e
    by (simp add: u_def t_def [symmetric] newVersion_def emptyResponse_def emptyStore_def sampleStore_def)
qed

end
