(* ===== verification/Ssh_Depth.thy ===== *)
theory Ssh_Depth
  imports Adoption_Ssh
begin

text \<open>
  The recursion of the SSH shim, counted. \<open>executeOne\<close> of \<open>internal/adoptionssh/commands.go\<close> calls itself for
  \<open>sh -c\<close>, on a text that the peer chose. The definitions below run it with a bound on the nesting and
  give up with \<open>None\<close>; the property says which bound is always enough.
\<close>

primrec partsDepth ::
  "(string \<Rightarrow> ssh_state \<Rightarrow> command_result option) \<Rightarrow> string list \<Rightarrow> ssh_state \<Rightarrow> command_result option" where
  "partsDepth run [] s = Some (s, [], 0)"
| "partsDepth run (p # ps) s =
     (case run p s of
        None \<Rightarrow> None
      | Some (s', text, code) \<Rightarrow>
          if code \<noteq> 0 then Some (s', text, code)
          else (case partsDepth run ps s' of
                  None \<Rightarrow> None
                | Some (s'', text', code') \<Rightarrow> Some (s'', text @ text', code')))"

primrec executeDepth :: "nat \<Rightarrow> ssh_config \<Rightarrow> os \<Rightarrow> string \<Rightarrow> ssh_state \<Rightarrow> command_result option" where
  "executeDepth 0 cfg os command s = None"
| "executeDepth (Suc n) cfg os command s =
     (case commandForm command of
        NoCommand \<Rightarrow> Some (s, [], 0)
      | BareSudo \<Rightarrow> Some (s, okOutput, 0)
      | NestedShell t \<Rightarrow> partsDepth (executeDepth n cfg os) (splitCommands t) s
      | Dispatch args \<Rightarrow> Some (dispatchCommand cfg os args s))"

lemma executeDepth_enough:
  "s_count command < n \<Longrightarrow> executeDepth n cfg os command s = Some (executeOne cfg os command s)"
  and partsDepth_enough:
  "sum_list (map s_count ps) < n \<Longrightarrow> partsDepth (executeDepth n cfg os) ps s = Some (executeParts cfg os ps s)"
proof (induction cfg os command s and cfg os ps s arbitrary: n and n rule: executeOne_executeParts.induct)
  case (1 cfg os command s)
  then obtain m where m: "n = Suc m" by (cases n) simp_all
  show ?case
  proof (cases "commandForm command")
    case (NestedShell t)
    then have "sum_list (map s_count (splitCommands t)) < m" using nested_smaller [OF NestedShell] 1(2) m by simp
    then show ?thesis using 1(1) [OF NestedShell] NestedShell by (simp add: m)
  qed (simp_all add: m)
next
  case (3 cfg os p ps s)
  have one: "executeDepth n cfg os p s = Some (executeOne cfg os p s)" by (rule 3(1)) (use 3(3) in simp)
  obtain s' out code where r: "executeOne cfg os p s = (s', out, code)" by (cases "executeOne cfg os p s")
  show ?case
  proof (cases "code = 0")
    case True
    have "partsDepth (executeDepth n cfg os) ps s' = Some (executeParts cfg os ps s')"
      by (rule 3(2) [OF r [symmetric] refl]) (use True 3(3) in simp_all)
    then show ?thesis using one r True by (simp split: prod.split)
  qed (use one r in simp)
qed simp

text \<open>C22: The nesting of \<open>sh -c\<close> that a peer can build is bounded by its text: for every configuration and every
  command line, one level more than the letters \<open>s\<close> in the line is enough for \<open>Execute\<close> to return, with
  the result of the unbounded recursion. No input makes the shim recurse forever.\<close>

theorem nesting_bounded:
  "partsDepth (executeDepth (Suc (count_list command CHR ''s'')) cfg os) (splitCommands command) s =
     Some (Execute cfg os command s)"
  using partsDepth_enough [of "splitCommands command" "Suc (s_count command)"] s_count_splitCommands [of command]
  by (simp add: Execute_def)

end
