(* ===== verification/Ports.thy ===== *)
theory Ports
  imports Complex_Main Go_Net
begin

text \<open>
  The port model of \<open>internal/device\<close>: \<open>port_types.go\<close>, \<open>ports.go\<close>, \<open>port_layout.go\<close>, \<open>port_build.go\<close>,
  \<open>port_fields.go\<close>, \<open>port_neighbors.go\<close> and the profile structures of \<open>profile.go\<close>.

  A Go slice that a function updates in place and returns is a list that is returned updated. Integers
  are unbounded: port numbers, counts and speeds stay far below 64 bits. Letter case is folded for
  ASCII letters. A \<open>*float64\<close> is an optional \<open>go_float\<close>, which keeps the two infinities and NaN.

  The properties: the generated ports are numbered 1 to n, exactly one carries the active uplink, and
  configured neighbours never move it.
\<close>

section \<open>Types (port_types.go, profile.go)\<close>

datatype go_float = NaN | NegInf | PosInf | Fin rat

text \<open>The comparison \<open>x < y\<close> of floats: false as soon as one side is NaN.\<close>

fun float_less :: "go_float \<Rightarrow> go_float \<Rightarrow> bool" where
  "float_less NaN _ = False"
| "float_less _ NaN = False"
| "float_less NegInf y = (y \<noteq> NegInf)"
| "float_less PosInf _ = False"
| "float_less (Fin _) PosInf = True"
| "float_less (Fin _) NegInf = False"
| "float_less (Fin a) (Fin b) = (a < b)"

record mac_table_entry =
  macMAC :: string
  macHostname :: string
  macIP :: string
  macAge :: int
  macUptime :: int
  macVLAN :: int
  macStatic :: bool
  macType :: string

text \<open>\<open>NeighborSource\<close> is a string type with three constants; a configuration can only produce these.\<close>

type_synonym neighbor_source = string

definition NeighborSourceConfigUplink :: neighbor_source where "NeighborSourceConfigUplink = ''config-uplink''"
definition NeighborSourceConfigPort :: neighbor_source where "NeighborSourceConfigPort = ''config-port''"
definition NeighborSourceLLDP :: neighbor_source where "NeighborSourceLLDP = ''lldp''"

record topology_neighbor =
  nbMAC :: string
  nbHostname :: string
  nbIP :: string
  nbDeviceType :: string
  nbVLAN :: int
  nbAge :: int
  nbUptime :: int
  nbRemotePort :: int
  nbRemotePortID :: string
  nbSource :: neighbor_source
  nbStatic :: bool

record port =
  pIndex :: int
  pName :: string
  pInterface :: string
  pMAC :: string
  pIP :: string
  pNetmask :: string
  pIPv6 :: "string list"
  pRole :: string
  pProfileRole :: string
  pNetworkGroup :: string
  pPortConfID :: string
  pNetworkConfID :: string
  pNativeNetworkConfID :: string
  pNetworkName :: string
  pVLAN :: int
  pWANUptimePercent :: "go_float option"
  pWANLatencyMS :: int
  pWANDowntimeSeconds :: int
  pWANConnected :: "bool option"
  pMedia :: string
  pUplink :: bool
  pProfileUplink :: bool
  pDisabled :: bool
  pUp :: bool
  pSpeed :: int
  pRXBytes :: int
  pTXBytes :: int
  pRXPackets :: int
  pTXPackets :: int
  pRXErrors :: int
  pTXErrors :: int
  pCountersSet :: bool
  pRXBytesRate :: int
  pTXBytesRate :: int
  pTrafficRatesEnabled :: bool
  pTrafficRatesSet :: bool
  pMACs :: "mac_table_entry list"
  pNeighbors :: "topology_neighbor list"

text \<open>The zero value \<open>Port{}\<close>.\<close>

definition emptyPort :: port where
  "emptyPort = \<lparr>pIndex = 0, pName = [], pInterface = [], pMAC = [], pIP = [], pNetmask = [], pIPv6 = [],
     pRole = [], pProfileRole = [], pNetworkGroup = [], pPortConfID = [], pNetworkConfID = [],
     pNativeNetworkConfID = [], pNetworkName = [], pVLAN = 0, pWANUptimePercent = None, pWANLatencyMS = 0,
     pWANDowntimeSeconds = 0, pWANConnected = None, pMedia = [], pUplink = False, pProfileUplink = False,
     pDisabled = False, pUp = False, pSpeed = 0, pRXBytes = 0, pTXBytes = 0, pRXPackets = 0, pTXPackets = 0,
     pRXErrors = 0, pTXErrors = 0, pCountersSet = False, pRXBytesRate = 0, pTXBytesRate = 0,
     pTrafficRatesEnabled = False, pTrafficRatesSet = False, pMACs = [], pNeighbors = []\<rparr>"

record port_group =
  grpCount :: int
  grpSpeed :: int
  grpMedia :: string
  grpUplink :: bool

record port_build_options =
  optCount :: int
  optLinkSpeed :: int
  optUplinkSpeed :: int
  optUplinkPort :: int

record port_neighbor =
  pnPort :: int
  pnEntry :: mac_table_entry
  pnRemotePort :: int

record payload_profile =
  payloadKind :: string
  payloadRequiredVersion :: string
  payloadManagementInterface :: string
  payloadGatewayInterfacePrefix :: string
  payloadHasDPI :: bool

record profile =
  profSource :: string
  profSourceType :: string
  profSchemaVersion :: int
  profExtends :: string
  profAllowBuiltinOverride :: bool
  profOrder :: int
  profName :: string
  profModel :: string
  profModelDisplay :: string
  profDeviceType :: string
  profVersion :: string
  profPorts :: int
  profPortGroups :: "port_group list"
  profPortNames :: "string list"
  profPortRoles :: "string list"
  profPortNetworkGroups :: "string list"
  profPortSpeed :: int
  profUplinkSpeed :: int
  profPortMedia :: string
  profUplinkMedia :: string
  profStability :: string
  profRecommended :: bool
  profValidatedControllerVersions :: "string list"
  profPayload :: payload_profile
  profDescription :: string

section \<open>Field helpers (port_fields.go)\<close>

definition portName :: "int \<Rightarrow> string list \<Rightarrow> string" where
  "portName index0 names =
     (let index = (if index0 < 1 then 1 else index0);
          configured = (if index \<le> int (length names) then trim_space (names ! nat (index - 1)) else [])
      in if configured \<noteq> [] then configured else ''Port '' @ itoa index)"

definition oneBasedString :: "int \<Rightarrow> string list \<Rightarrow> string" where
  "oneBasedString index values =
     (if index < 1 \<or> index > int (length values) then [] else trim_space (values ! nat (index - 1)))"

definition normalizeGatewayRole :: "string \<Rightarrow> string" where
  "normalizeGatewayRole role = to_lower (trim_space role)"

definition normalizeNetworkGroup :: "string \<Rightarrow> string" where
  "normalizeNetworkGroup networkGroup = trim_space networkGroup"

text \<open>Trimmed text stays trimmed in lower case.\<close>

lemma lower_char_space [simp]: "is_ascii_space (lower_char c) = is_ascii_space c"
  by (auto simp: lower_char_def is_ascii_space_def)

lemma ord_lower_char: "ord (lower_char c) = (if 65 \<le> ord c \<and> ord c \<le> 90 then ord c + 32 else ord c)"
  by (simp add: lower_char_def)

lemma space_lower [simp]:
  "space2 (lower_char a) (lower_char b) = space2 a b"
  "space3 (lower_char a) (lower_char b) (lower_char c) = space3 a b c"
  unfolding space2_def space3_def ord_lower_char by auto

lemma space_len_lower [simp]: "space_len (to_lower s) = space_len s" "space_len_rev (to_lower s) = space_len_rev s"
  by (cases s rule: space_len.cases, simp_all add: to_lower_def)
    (cases s rule: space_len_rev.cases, simp_all add: to_lower_def)

lemma trim_space_lower: "trim_space s = s \<Longrightarrow> trim_space (to_lower s) = to_lower s"
  unfolding trim_space_eq_iff using space_len_lower(1) [of s] space_len_lower(2) [of "rev s"]
  by (simp add: to_lower_def rev_map)

section \<open>Layout (port_layout.go)\<close>

record port_layout =
  layoutSpeed :: int
  layoutUplinkSpeed :: int
  layoutMedia :: string
  layoutUplinkMedia :: string
  layoutUplinkPort :: int
  layoutPortGroups :: "port_group list"
  layoutPortNames :: "string list"
  layoutPortRoles :: "string list"
  layoutPortNetworkGroups :: "string list"

definition mediaSFPPlus :: string where "mediaSFPPlus = ''SFP+''"

definition mediaForSpeed :: "int \<Rightarrow> string" where
  "mediaForSpeed speed = (if speed \<ge> 10000 then mediaSFPPlus else ''GE'')"

definition profilePortLayout :: "profile \<Rightarrow> port_build_options \<Rightarrow> port_layout" where
  "profilePortLayout p options =
     (let layout0 = \<lparr>layoutSpeed = profPortSpeed p, layoutUplinkSpeed = profUplinkSpeed p,
            layoutMedia = profPortMedia p, layoutUplinkMedia = profUplinkMedia p,
            layoutUplinkPort = optUplinkPort options, layoutPortGroups = profPortGroups p,
            layoutPortNames = profPortNames p, layoutPortRoles = profPortRoles p,
            layoutPortNetworkGroups = profPortNetworkGroups p\<rparr>;
          layout1 = (if optLinkSpeed options > 0
                     then layout0\<lparr>layoutSpeed := optLinkSpeed options, layoutUplinkSpeed := optLinkSpeed options,
                            layoutMedia := [], layoutUplinkMedia := [], layoutPortGroups := []\<rparr>
                     else layout0)
      in if optUplinkSpeed options > 0
         then (let layout2 = layout1\<lparr>layoutUplinkSpeed := optUplinkSpeed options\<rparr>
               in if layoutUplinkMedia layout2 = [] \<or> layoutUplinkMedia layout2 = layoutMedia layout2
                  then layout2\<lparr>layoutUplinkMedia := []\<rparr> else layout2)
         else layout1)"

definition normalizePortLayout :: "port_layout \<Rightarrow> port_layout" where
  "normalizePortLayout l0 =
     (let l1 = (if layoutSpeed l0 \<le> 0 then l0\<lparr>layoutSpeed := 1000\<rparr> else l0);
          l2 = (if layoutUplinkSpeed l1 \<le> 0 then l1\<lparr>layoutUplinkSpeed := layoutSpeed l1\<rparr> else l1);
          l3 = (if layoutMedia l2 = [] then l2\<lparr>layoutMedia := mediaForSpeed (layoutSpeed l2)\<rparr> else l2)
      in if layoutUplinkMedia l3 = [] then l3\<lparr>layoutUplinkMedia := mediaForSpeed (layoutUplinkSpeed l3)\<rparr> else l3)"

section \<open>Building ports (port_build.go, ports.go)\<close>

definition generatedPort ::
  "int \<Rightarrow> int \<Rightarrow> string \<Rightarrow> bool \<Rightarrow> bool \<Rightarrow> string list \<Rightarrow> string list \<Rightarrow> string list \<Rightarrow> port" where
  "generatedPort index speed media uplink profileUplink names roles networkGroups =
     (let profileRole = normalizeGatewayRole (oneBasedString index roles)
      in emptyPort\<lparr>pIndex := index, pName := portName index names, pRole := profileRole,
           pProfileRole := profileRole,
           pNetworkGroup := normalizeNetworkGroup (oneBasedString index networkGroups),
           pMedia := media, pUplink := uplink, pProfileUplink := profileUplink, pUp := True, pSpeed := speed\<rparr>)"

text \<open>The first loop of \<open>groupedSwitchPorts\<close>: the total and the index of the first uplink group, 0 for none.\<close>

fun groupTotals :: "port_group list \<Rightarrow> int \<Rightarrow> int \<Rightarrow> (int \<times> int) option" where
  "groupTotals [] tot uplinkIndex = Some (tot, uplinkIndex)"
| "groupTotals (g # gs) tot uplinkIndex =
     (if grpCount g < 1 then None
      else groupTotals gs (tot + grpCount g)
             (if grpUplink g \<and> uplinkIndex = 0 then tot + 1 else uplinkIndex))"

text \<open>The inner loop over one group, from the index before it.\<close>

definition groupPorts :: "port_layout \<Rightarrow> int \<Rightarrow> int \<Rightarrow> port_group \<Rightarrow> port list" where
  "groupPorts layout uplinkIndex index g =
     (let speed = (if grpSpeed g \<le> 0 then layoutSpeed layout else grpSpeed g);
          media = (if grpMedia g = [] then mediaForSpeed speed else grpMedia g)
      in map (\<lambda>k. let i = index + 1 + int k; isUplink = (i = uplinkIndex) in
                generatedPort i (if isUplink then layoutUplinkSpeed layout else speed)
                  (if isUplink then layoutUplinkMedia layout else media) isUplink (grpUplink g)
                  (layoutPortNames layout) (layoutPortRoles layout) (layoutPortNetworkGroups layout))
           [0..<nat (grpCount g)])"

fun groupsPorts :: "port_layout \<Rightarrow> int \<Rightarrow> int \<Rightarrow> port_group list \<Rightarrow> port list" where
  "groupsPorts layout uplinkIndex index [] = []"
| "groupsPorts layout uplinkIndex index (g # gs) =
     groupPorts layout uplinkIndex index g @ groupsPorts layout uplinkIndex (index + grpCount g) gs"

definition groupedSwitchPorts :: "int \<Rightarrow> port_layout \<Rightarrow> port list" where
  "groupedSwitchPorts count layout =
     (if layoutPortGroups layout = [] then []
      else (case groupTotals (layoutPortGroups layout) 0 0 of
              None \<Rightarrow> []
            | Some (tot, uplinkIndex) \<Rightarrow>
                if tot \<noteq> count then []
                else groupsPorts layout (if uplinkIndex = 0 then 1 else uplinkIndex) 0 (layoutPortGroups layout)))"

definition applyUplinkPort :: "port list \<Rightarrow> int \<Rightarrow> port list" where
  "applyUplinkPort ports uplinkPort =
     (if uplinkPort \<le> 0 \<or> uplinkPort > int (length ports) then ports
      else let cleared = map (\<lambda>p. p\<lparr>pUplink := False\<rparr>) ports; t = nat (uplinkPort - 1)
           in cleared[t := (cleared ! t)\<lparr>pUplink := True\<rparr>])"

definition uniformPorts :: "int \<Rightarrow> port_layout \<Rightarrow> port list" where
  "uniformPorts count layout =
     map (\<lambda>k. let i = int k + 1 in
            generatedPort i (if i = 1 then layoutUplinkSpeed layout else layoutSpeed layout)
              (if i = 1 then layoutUplinkMedia layout else layoutMedia layout) (i = 1) (i = 1)
              (layoutPortNames layout) (layoutPortRoles layout) (layoutPortNetworkGroups layout))
       [0..<nat count]"

definition switchPortsWithLayout :: "int \<Rightarrow> port_layout \<Rightarrow> port list" where
  "switchPortsWithLayout count0 layout0 =
     (let count = (if count0 < 1 then 1 else count0);
          layout = normalizePortLayout layout0;
          ports = groupedSwitchPorts count layout
      in if ports \<noteq> [] then applyUplinkPort ports (layoutUplinkPort layout)
         else applyUplinkPort (uniformPorts count layout) (layoutUplinkPort layout))"

definition BuildPorts :: "profile \<Rightarrow> port_build_options \<Rightarrow> port list" where
  "BuildPorts p options =
     switchPortsWithLayout (if optCount options > 0 then optCount options else profPorts p) (profilePortLayout p options)"

section \<open>Configured neighbours (port_neighbors.go)\<close>

text \<open>The loop of \<open>ApplyUplinkNeighbor\<close>: the first port marked as uplink gets the entry.\<close>

fun addToUplink :: "topology_neighbor \<Rightarrow> port list \<Rightarrow> port list" where
  "addToUplink entry [] = []"
| "addToUplink entry (p # ps) =
     (if \<not> pUplink p then p # addToUplink entry ps
      else p\<lparr>pNeighbors := pNeighbors p @ [entry]\<rparr> # ps)"

definition ApplyUplinkNeighbor :: "port list \<Rightarrow> topology_neighbor option \<Rightarrow> port list" where
  "ApplyUplinkNeighbor ports neighbor =
     (case neighbor of
        None \<Rightarrow> ports
      | Some n \<Rightarrow> if trim_space (nbMAC n) = [] then ports
                  else addToUplink (n\<lparr>nbSource := NeighborSourceConfigUplink\<rparr>) ports)"

definition normalizeMacTableEntry :: "mac_table_entry \<Rightarrow> string \<Rightarrow> mac_table_entry" where
  "normalizeMacTableEntry e defaultType =
     e\<lparr>macMAC := to_lower (trim_space (macMAC e)), macHostname := trim_space (macHostname e),
       macIP := trim_space (macIP e), macAge := (if macAge e = 0 then 4 else macAge e),
       macUptime := (if macUptime e = 0 then 1200 else macUptime e),
       macType := (if trim_space (macType e) = [] then defaultType else macType e)\<rparr>"

definition mergeMacTableEntry :: "mac_table_entry \<Rightarrow> mac_table_entry \<Rightarrow> mac_table_entry" where
  "mergeMacTableEntry observed configured =
     configured\<lparr>macHostname := (if trim_space (macHostname configured) = [] then macHostname observed else macHostname configured),
       macIP := (if trim_space (macIP configured) = [] then macIP observed else macIP configured),
       macVLAN := (if macVLAN configured = 0 then macVLAN observed else macVLAN configured),
       macStatic := (macStatic observed \<or> macStatic configured)\<rparr>"

text \<open>The inner loop over the MAC table with \<open>replaced\<close> and \<open>break\<close>: merge into the first match or append.\<close>

fun mergeIntoMACs :: "mac_table_entry \<Rightarrow> mac_table_entry list \<Rightarrow> mac_table_entry list" where
  "mergeIntoMACs entry [] = [entry]"
| "mergeIntoMACs entry (m # ms) =
     (if equal_fold (macMAC m) (macMAC entry) then mergeMacTableEntry m entry # ms
      else m # mergeIntoMACs entry ms)"

definition configuredNeighbor :: "mac_table_entry \<Rightarrow> int \<Rightarrow> topology_neighbor" where
  "configuredNeighbor entry remotePort =
     \<lparr>nbMAC = macMAC entry, nbHostname = macHostname entry, nbIP = macIP entry, nbDeviceType = macType entry,
      nbVLAN = macVLAN entry, nbAge = macAge entry, nbUptime = macUptime entry, nbRemotePort = remotePort,
      nbRemotePortID = [], nbSource = NeighborSourceConfigPort, nbStatic = macStatic entry\<rparr>"

definition applyPortNeighbor :: "port_neighbor \<Rightarrow> port list \<Rightarrow> port list" where
  "applyPortNeighbor neighbor ports =
     (if pnPort neighbor < 1 \<or> pnPort neighbor > int (length ports) \<or> trim_space (macMAC (pnEntry neighbor)) = []
      then ports
      else let entry = normalizeMacTableEntry (pnEntry neighbor) ''client'';
               i = nat (pnPort neighbor - 1); p = ports ! i
           in if \<not> equal_fold (trim_space (macType entry)) ''client''
              then ports[i := p\<lparr>pNeighbors := pNeighbors p @ [configuredNeighbor entry (pnRemotePort neighbor)]\<rparr>]
              else ports[i := p\<lparr>pMACs := mergeIntoMACs entry (pMACs p)\<rparr>])"

definition ApplyPortNeighbors :: "port list \<Rightarrow> port_neighbor list \<Rightarrow> port list" where
  "ApplyPortNeighbors ports neighbors =
     (if neighbors = [] \<or> ports = [] then ports else fold applyPortNeighbor neighbors ports)"

section \<open>The shape of a port list\<close>

text \<open>Ports are numbered from 1 in order, and exactly the port \<open>u\<close> is the active uplink.\<close>

definition ports_shape :: "nat \<Rightarrow> int \<Rightarrow> port list \<Rightarrow> bool" where
  "ports_shape n u ports \<longleftrightarrow> map pIndex ports = map (\<lambda>k. int k + 1) [0..<n] \<and>
     (\<forall>p\<in>set ports. pUplink p \<longleftrightarrow> pIndex p = u) \<and> 1 \<le> u \<and> u \<le> int n"

lemma ports_shape_length: "ports_shape n u ports \<Longrightarrow> length ports = n"
  unfolding ports_shape_def by (metis length_map diff_zero length_upt)

lemma ports_shape_nth: "ports_shape n u ports \<Longrightarrow> i < n \<Longrightarrow> pIndex (ports ! i) = int i + 1"
  unfolding ports_shape_def by (metis (no_types, lifting) add_0 diff_zero length_map length_upt nth_map nth_upt)

lemma filter_numbered: "1 \<le> u \<Longrightarrow> u \<le> int n \<Longrightarrow> filter (\<lambda>i. i = u) (map (\<lambda>k. int k + 1) [0..<n]) = [u]"
proof (induction n)
  case (Suc n)
  have "filter (\<lambda>i. i = u) (map (\<lambda>k. int k + 1) [0..<n]) = []" if "u = int n + 1"
    using that by (auto simp: filter_empty_conv)
  then show ?case using Suc by (cases "u = int n + 1") auto
qed simp

lemma ports_shape_one_uplink:
  assumes "ports_shape n u ports"
  shows "map pIndex (filter pUplink ports) = [u]"
proof -
  have "filter pUplink ports = filter ((\<lambda>i. i = u) \<circ> pIndex) ports"
    using assms by (intro filter_cong) (auto simp: ports_shape_def)
  then show ?thesis
    using assms filter_numbered [of u n] by (simp add: ports_shape_def filter_map [symmetric])
qed

lemma groupTotals_sound:
  "groupTotals gs t u = Some (tot, up) \<Longrightarrow> 0 \<le> t \<Longrightarrow>
     (\<forall>g\<in>set gs. 1 \<le> grpCount g) \<and> tot = t + sum_list (map grpCount gs) \<and>
     (up = u \<or> t < up \<and> up \<le> tot)"
proof (induction gs arbitrary: t u)
  case (Cons g gs)
  have c: "1 \<le> grpCount g" using Cons.prems(1) by (simp split: if_splits)
  let ?u = "if grpUplink g \<and> u = 0 then t + 1 else u"
  have "groupTotals gs (t + grpCount g) ?u = Some (tot, up)" using Cons.prems(1) c by simp
  then have ih: "(\<forall>g\<in>set gs. 1 \<le> grpCount g) \<and> tot = t + grpCount g + sum_list (map grpCount gs) \<and>
     (up = ?u \<or> t + grpCount g < up \<and> up \<le> tot)"
    by (rule Cons.IH) (use c Cons.prems(2) in simp)
  moreover have "0 \<le> sum_list (map grpCount gs)"
    using ih by (intro sum_list_nonneg) auto
  ultimately show ?case using c by (auto split: if_splits)
qed simp

lemma groupPorts_shape:
  "map pIndex (groupPorts l u i g) = map (\<lambda>k. i + 1 + int k) [0..<nat (grpCount g)]"
  "p \<in> set (groupPorts l u i g) \<Longrightarrow> pUplink p \<longleftrightarrow> pIndex p = u"
  by (auto simp: groupPorts_def Let_def generatedPort_def)

lemma upt_int_append:
  "0 \<le> a \<Longrightarrow> 0 \<le> b \<Longrightarrow> map (\<lambda>k. i + 1 + int k) [0..<nat a] @ map (\<lambda>k. i + a + 1 + int k) [0..<nat b] =
     map (\<lambda>k. i + 1 + int k) [0..<nat (a + b)]"
  by (rule nth_equalityI) (auto simp: nth_append nat_add_distrib)

lemma groupsPorts_shape:
  assumes "\<forall>g\<in>set gs. 1 \<le> grpCount g"
  shows "map pIndex (groupsPorts l u i gs) = map (\<lambda>k. i + 1 + int k) [0..<nat (sum_list (map grpCount gs))] \<and>
    (\<forall>p\<in>set (groupsPorts l u i gs). pUplink p \<longleftrightarrow> pIndex p = u)"
  using assms
proof (induction gs arbitrary: i)
  case (Cons g gs)
  have "0 \<le> sum_list (map grpCount gs)" using Cons.prems by (intro sum_list_nonneg) auto
  then show ?case
    using Cons groupPorts_shape(1) [of l u i g] groupPorts_shape(2) [of _ l u i g] upt_int_append [of "grpCount g" "sum_list (map grpCount gs)" i] by auto
qed simp

lemma groupedSwitchPorts_shape:
  assumes "groupedSwitchPorts count layout \<noteq> []" and "1 \<le> count"
  shows "\<exists>u. ports_shape (nat count) u (groupedSwitchPorts count layout)"
proof -
  let ?gs = "layoutPortGroups layout"
  obtain up where t: "groupTotals ?gs 0 0 = Some (count, up)"
    and g: "groupedSwitchPorts count layout = groupsPorts layout (if up = 0 then 1 else up) 0 ?gs"
    using assms(1) by (auto simp: groupedSwitchPorts_def split: if_splits option.splits)
  from groupTotals_sound [OF t] have *: "\<forall>g\<in>set ?gs. 1 \<le> grpCount g" "count = sum_list (map grpCount ?gs)"
    "up = 0 \<or> 0 < up \<and> up \<le> count" by auto
  have "ports_shape (nat count) (if up = 0 then 1 else up) (groupsPorts layout (if up = 0 then 1 else up) 0 ?gs)"
    unfolding ports_shape_def using groupsPorts_shape [OF *(1), of layout "if up = 0 then 1 else up" 0] *(2,3) assms(2)
    by (auto simp: add.commute)
  then show ?thesis using g by auto
qed

lemma uniformPorts_shape: "1 \<le> count \<Longrightarrow> ports_shape (nat count) 1 (uniformPorts count layout)"
  by (auto simp: ports_shape_def uniformPorts_def Let_def generatedPort_def)

lemma applyUplinkPort_shape:
  assumes "ports_shape n u ports"
  shows "ports_shape n (if 1 \<le> t \<and> t \<le> int n then t else u) (applyUplinkPort ports t)"
proof (cases "1 \<le> t \<and> t \<le> int n")
  case True
  let ?c = "map (\<lambda>p. p\<lparr>pUplink := False\<rparr>) ports" and ?t = "nat (t - 1)"
  have l: "length ports = n" by (rule ports_shape_length [OF assms])
  have tn: "?t < n" using True by auto
  have e: "applyUplinkPort ports t = ?c[?t := (?c ! ?t)\<lparr>pUplink := True\<rparr>]"
    using True l by (simp add: applyUplinkPort_def Let_def)
  have idx: "map pIndex (?c[?t := (?c ! ?t)\<lparr>pUplink := True\<rparr>]) = map pIndex ports"
    using tn l by (intro nth_equalityI) (auto simp: nth_list_update)
  let ?r = "?c[?t := (?c ! ?t)\<lparr>pUplink := True\<rparr>]"
  have "pUplink (?r ! i) \<longleftrightarrow> pIndex (?r ! i) = t" if i: "i < n" for i
  proof -
    have c: "?c ! i = (ports ! i)\<lparr>pUplink := False\<rparr>" using i l by simp
    have "pIndex (?r ! i) = int i + 1"
      using ports_shape_nth [OF assms i] tn l by (cases "i = ?t") (simp_all add: c)
    moreover have "pUplink (?r ! i) \<longleftrightarrow> i = ?t" using tn l by (cases "i = ?t") (simp_all add: c)
    ultimately show ?thesis using True by linarith
  qed
  then have "\<forall>p\<in>set ?r. pUplink p \<longleftrightarrow> pIndex p = t"
    unfolding all_set_conv_all_nth length_list_update length_map l by blast
  then show ?thesis using assms True unfolding e ports_shape_def idx by simp
next
  case False
  then show ?thesis using assms ports_shape_length [OF assms] by (auto simp: applyUplinkPort_def)
qed

lemma switchPortsWithLayout_shape:
  "\<exists>u. ports_shape (nat (max 1 count)) u (switchPortsWithLayout count layout) \<and>
     (1 \<le> layoutUplinkPort layout \<and> layoutUplinkPort layout \<le> max 1 count \<longrightarrow> u = layoutUplinkPort layout)"
proof -
  let ?n = "max 1 count" and ?l = "normalizePortLayout layout"
  have t: "layoutUplinkPort ?l = layoutUplinkPort layout"
    by (simp add: normalizePortLayout_def Let_def)
  have c: "(if count < 1 then 1 else count) = ?n" by simp
  define ports where "ports = (if groupedSwitchPorts ?n ?l \<noteq> [] then groupedSwitchPorts ?n ?l else uniformPorts ?n ?l)"
  obtain u where u: "ports_shape (nat ?n) u ports"
    using groupedSwitchPorts_shape [of ?n ?l] uniformPorts_shape [of ?n ?l]
    by (cases "groupedSwitchPorts ?n ?l = []") (auto simp: ports_def)
  have "switchPortsWithLayout count layout = applyUplinkPort ports (layoutUplinkPort layout)"
    unfolding switchPortsWithLayout_def Let_def c t ports_def by simp
  then show ?thesis using applyUplinkPort_shape [OF u, of "layoutUplinkPort layout"] by auto
qed

section \<open>What neighbours may change\<close>

definition port_frame :: "port \<Rightarrow> port" where
  "port_frame p = p\<lparr>pMACs := [], pNeighbors := []\<rparr>"

definition mac_keys :: "port \<Rightarrow> string list" where
  "mac_keys p = map (\<lambda>m. to_lower (macMAC m)) (pMACs p)"

lemma map_update_same: "i < length xs \<Longrightarrow> f y = f (xs ! i) \<Longrightarrow> map f (xs[i := y]) = map f xs"
  by (metis list_update_id map_update)

lemma addToUplink_frame: "map port_frame (addToUplink e ps) = map port_frame ps"
  by (induction ps) (simp_all add: port_frame_def)

lemma mergeIntoMACs_keys:
  "map (\<lambda>m. to_lower (macMAC m)) (mergeIntoMACs e ms) =
     (if to_lower (macMAC e) \<in> set (map (\<lambda>m. to_lower (macMAC m)) ms) then map (\<lambda>m. to_lower (macMAC m)) ms
      else map (\<lambda>m. to_lower (macMAC m)) ms @ [to_lower (macMAC e)])"
  by (induction ms) (auto simp: equal_fold_def mergeMacTableEntry_def)

lemma applyPortNeighbor_frame: "map port_frame (applyPortNeighbor n ps) = map port_frame ps"
  by (auto simp: applyPortNeighbor_def Let_def port_frame_def intro!: map_update_same)

lemma applyPortNeighbor_distinct:
  assumes "\<forall>p\<in>set ps. distinct (mac_keys p)"
  shows "\<forall>p\<in>set (applyPortNeighbor n ps). distinct (mac_keys p)"
proof (cases "pnPort n < 1 \<or> pnPort n > int (length ps) \<or> trim_space (macMAC (pnEntry n)) = []")
  case False
  let ?i = "nat (pnPort n - 1)" and ?e = "normalizeMacTableEntry (pnEntry n) ''client''"
  have "?i < length ps" using False by auto
  then have d: "distinct (mac_keys (ps ! ?i))" using assms by simp
  then have "distinct (mac_keys ((ps ! ?i)\<lparr>pNeighbors := x\<rparr>))" for x by (simp add: mac_keys_def)
  moreover have "distinct (mac_keys ((ps ! ?i)\<lparr>pMACs := mergeIntoMACs ?e (pMACs (ps ! ?i))\<rparr>))"
    using d by (simp add: mac_keys_def mergeIntoMACs_keys del: set_map)
  ultimately show ?thesis
    using assms False by (auto simp: applyPortNeighbor_def Let_def dest!: set_update_subset_insert [THEN subsetD])
qed (use assms in \<open>simp add: applyPortNeighbor_def\<close>)

lemma ApplyPortNeighbors_frame: "map port_frame (ApplyPortNeighbors ps ns) = map port_frame ps"
proof -
  have "map port_frame (fold applyPortNeighbor ns ps) = map port_frame ps"
    by (induction ns arbitrary: ps) (simp_all add: applyPortNeighbor_frame)
  then show ?thesis by (simp add: ApplyPortNeighbors_def)
qed

lemma ApplyPortNeighbors_distinct:
  assumes "\<forall>p\<in>set ps. distinct (mac_keys p)"
  shows "\<forall>p\<in>set (ApplyPortNeighbors ps ns). distinct (mac_keys p)"
proof -
  have "\<forall>p\<in>set (fold applyPortNeighbor ns ps). distinct (mac_keys p)"
    using assms
  proof (induction ns arbitrary: ps)
    case (Cons n ns)
    then show ?case using applyPortNeighbor_distinct [OF Cons.prems, of n] by simp
  qed simp
  then show ?thesis using assms by (simp add: ApplyPortNeighbors_def)
qed

lemma ApplyUplinkNeighbor_frame: "map port_frame (ApplyUplinkNeighbor ps n) = map port_frame ps"
  by (simp add: ApplyUplinkNeighbor_def addToUplink_frame split: option.splits)

section \<open>Properties\<close>

definition requestedPorts :: "profile \<Rightarrow> port_build_options \<Rightarrow> int" where
  "requestedPorts prof options = max 1 (if optCount options > 0 then optCount options else profPorts prof)"

lemma BuildPorts_shape:
  obtains u where "ports_shape (nat (requestedPorts prof o')) u (BuildPorts prof o')"
    and "1 \<le> optUplinkPort o' \<and> optUplinkPort o' \<le> requestedPorts prof o' \<longrightarrow> u = optUplinkPort o'"
proof -
  let ?l = "profilePortLayout prof o'" and ?c = "if optCount o' > 0 then optCount o' else profPorts prof"
  have t: "layoutUplinkPort ?l = optUplinkPort o'" by (simp add: profilePortLayout_def Let_def)
  show thesis
    using that switchPortsWithLayout_shape [of ?c ?l] unfolding BuildPorts_def requestedPorts_def t by blast
qed

text \<open>the generated port list. For every profile and every build option the ports are numbered
  1 to n in order, n being the requested count (the profile's without one, and at least 1), whatever the
  port groups of the profile say; exactly one port is the active uplink, and it is the selected uplink
  port whenever that is within 1 to n.\<close>

theorem BuildPorts_numbered:
  "map pIndex (BuildPorts prof o') = map (\<lambda>k. int k + 1) [0..<nat (requestedPorts prof o')] \<and>
    (\<exists>u. map pIndex (filter pUplink (BuildPorts prof o')) = [u] \<and>
       (if 1 \<le> optUplinkPort o' \<and> optUplinkPort o' \<le> requestedPorts prof o' then u = optUplinkPort o'
        else 1 \<le> u \<and> u \<le> requestedPorts prof o'))"
proof -
  define n where "n = requestedPorts prof o'"
  obtain u where u: "ports_shape (nat n) u (BuildPorts prof o')"
    and s: "1 \<le> optUplinkPort o' \<and> optUplinkPort o' \<le> n \<longrightarrow> u = optUplinkPort o'"
    unfolding n_def by (rule BuildPorts_shape)
  have "map pIndex (filter pUplink (BuildPorts prof o')) = [u]" by (rule ports_shape_one_uplink [OF u])
  moreover have "1 \<le> n" by (simp add: n_def requestedPorts_def)
  then have "1 \<le> u \<and> u \<le> n" using u unfolding ports_shape_def by simp
  ultimately show ?thesis using u s unfolding ports_shape_def n_def by metis
qed

text \<open>configured neighbours are confined. Adding them changes the MAC table and the neighbour list of
  ports and nothing else: not the number or order of the ports, not the uplink, link state, role,
  addresses or counters; and a MAC table without duplicate addresses stays without duplicates.\<close>

theorem configured_neighbors_confined:
  assumes "\<forall>p\<in>set ports. distinct (mac_keys p)"
  shows "map port_frame (ApplyUplinkNeighbor (ApplyPortNeighbors ports ns) up) = map port_frame ports \<and>
    (\<forall>p\<in>set (ApplyPortNeighbors ports ns). distinct (mac_keys p))"
  using ApplyPortNeighbors_distinct [OF assms, of ns]
  by (simp add: ApplyUplinkNeighbor_frame ApplyPortNeighbors_frame)

definition samplePort :: port where
  "samplePort = emptyPort\<lparr>pIndex := 1, pName := ''Port 1'', pUplink := True, pUp := True, pSpeed := 1000, pVLAN := 7,
     pRole := ''wan''\<rparr>"

definition sampleEntry :: mac_table_entry where
  "sampleEntry = \<lparr>macMAC = ''02:00:00:00:00:02'', macHostname = [], macIP = [], macAge = 0, macUptime = 0, macVLAN = 0,
     macStatic = True, macType = []\<rparr>"

theorem configured_neighbors_confined_witness:
  "map port_frame (ApplyUplinkNeighbor (ApplyPortNeighbors [samplePort]
     [\<lparr>pnPort = 1, pnEntry = sampleEntry, pnRemotePort = 0\<rparr>]) None) = [port_frame samplePort]"
  using configured_neighbors_confined [of "[samplePort]" "[\<lparr>pnPort = 1, pnEntry = sampleEntry, pnRemotePort = 0\<rparr>]" None]
  by (simp add: samplePort_def emptyPort_def mac_keys_def)

end
