(* ===== verification/Topology.thy ===== *)
theory Topology
  imports Ports "HOL-Library.Char_ord" "HOL-Library.List_Lexorder"
begin

text \<open>
  The topology resolver \<open>internal/device/topology.go\<close>: which neighbour, if any, each port reports as a
  direct infrastructure edge, and how conflicting directions are settled.

  The two Go maps of \<open>resolvePortNeighbor\<close> are association lists in insertion order; the code sorts
  what it derives from them, so that the order of a map range is not observable. \<open>byMAC\<close> is a map, and
  \<open>keep\<close> a list of flags updated by index.
\<close>

section \<open>Definitions (topology.go)\<close>

definition ParseRemotePortID :: "string \<Rightarrow> int" where
  "ParseRemotePortID v0 =
     (let v1 = trim_space v0;
          v = (if has_prefix (to_lower v1) ''port '' then trim_space (drop 5 v1) else v1)
      in case parse_int64 v of
           ParsedInt port \<Rightarrow> if port < 1 \<or> port > 65535 then 0 else port
         | _ \<Rightarrow> 0)"

datatype topology_direction = DirectionUpstream | DirectionDownstream

fun directionText :: "topology_direction \<Rightarrow> string" where
  "directionText DirectionUpstream = ''upstream''"
| "directionText DirectionDownstream = ''downstream''"

record topology_edge =
  edgeLocalPort :: int
  edgeDirection :: topology_direction
  edgeNeighbor :: topology_neighbor

record topology_resolution =
  resEdges :: "topology_edge list"
  resWarnings :: "string list"

datatype topology_error = ConflictingConfigured int "string list"
  | BothDirections string topology_direction int topology_direction int

definition normalizeTopologyNeighbor :: "topology_neighbor \<Rightarrow> topology_neighbor option" where
  "normalizeTopologyNeighbor n =
     (case ParseMAC (trim_space (nbMAC n)) of
        None \<Rightarrow> None
      | Some mac \<Rightarrow> Some (n\<lparr>nbMAC := to_lower (mac_string mac), nbHostname := trim_space (nbHostname n),
          nbIP := trim_space (nbIP n), nbDeviceType := to_lower (trim_space (nbDeviceType n)),
          nbRemotePortID := trim_space (nbRemotePortID n)\<rparr>))"

definition mergeTopologyNeighbor :: "topology_neighbor \<Rightarrow> topology_neighbor \<Rightarrow> topology_neighbor" where
  "mergeTopologyNeighbor fallback out =
     out\<lparr>nbHostname := (if trim_space (nbHostname out) = [] then nbHostname fallback else nbHostname out),
         nbIP := (if trim_space (nbIP out) = [] then nbIP fallback else nbIP out),
         nbDeviceType := (if trim_space (nbDeviceType out) = [] then nbDeviceType fallback else nbDeviceType out),
         nbVLAN := (if nbVLAN out = 0 then nbVLAN fallback else nbVLAN out),
         nbAge := (if nbAge out = 0 then nbAge fallback else nbAge out),
         nbUptime := (if nbUptime out = 0 then nbUptime fallback else nbUptime out),
         nbRemotePort := (if nbRemotePort out = 0 then nbRemotePort fallback else nbRemotePort out),
         nbRemotePortID := (if trim_space (nbRemotePortID out) = [] then nbRemotePortID fallback else nbRemotePortID out),
         nbStatic := (nbStatic out \<or> nbStatic fallback)\<rparr>"

definition normalizedTopologyMAC :: "string \<Rightarrow> string" where
  "normalizedTopologyMAC v =
     (case ParseMAC (trim_space v) of None \<Rightarrow> to_lower (trim_space v) | Some mac \<Rightarrow> to_lower (mac_string mac))"

definition topologySourcePriority :: "neighbor_source \<Rightarrow> nat" where
  "topologySourcePriority source =
     (if source = NeighborSourceConfigUplink \<or> source = NeighborSourceConfigPort then 2
      else if source = NeighborSourceLLDP then 1 else 0)"

type_synonym neighbor_map = "(string \<times> topology_neighbor) list"

definition sortedTopologyKeys :: "neighbor_map \<Rightarrow> string list" where
  "sortedTopologyKeys m = sort (map fst m)"

text \<open>\<open>target[key] = merge(existing, neighbor)\<close> or \<open>target[key] = neighbor\<close>.\<close>

fun addNeighbor :: "string \<Rightarrow> topology_neighbor \<Rightarrow> neighbor_map \<Rightarrow> neighbor_map" where
  "addNeighbor key n [] = [(key, n)]"
| "addNeighbor key n ((k, e) # m) =
     (if k = key then (k, mergeTopologyNeighbor e n) # m else (k, e) # addNeighbor key n m)"

fun collectNeighbors :: "topology_neighbor list \<Rightarrow> neighbor_map \<times> neighbor_map \<Rightarrow> neighbor_map \<times> neighbor_map" where
  "collectNeighbors [] acc = acc"
| "collectNeighbors (raw # rest) (configured, lldp) =
     (case normalizeTopologyNeighbor raw of
        None \<Rightarrow> collectNeighbors rest (configured, lldp)
      | Some n \<Rightarrow>
          (let key = normalizedTopologyMAC (nbMAC n) in
           collectNeighbors rest
             (if nbSource n \<noteq> NeighborSourceLLDP then (addNeighbor key n configured, lldp)
              else (configured, addNeighbor key n lldp))))"

text \<open>The loop over the LLDP neighbours of a port with one configured neighbour.\<close>

fun overrideLLDP :: "int \<Rightarrow> neighbor_map \<Rightarrow> topology_neighbor \<times> string list \<Rightarrow> topology_neighbor \<times> string list" where
  "overrideLLDP index [] acc = acc"
| "overrideLLDP index ((mac, l) # rest) (n, warnings) =
     (if mac = normalizedTopologyMAC (nbMAC n)
      then overrideLLDP index rest (mergeTopologyNeighbor l n, warnings)
      else overrideLLDP index rest
        (n, warnings @ [''topology port '' @ itoa index @ '': configured neighbor '' @ nbMAC n @
                        '' overrides LLDP neighbor '' @ nbMAC l]))"

text \<open>The neighbour (\<open>None\<close> for \<open>ok = false\<close>) and the warnings, or the error.\<close>

definition resolvePortNeighbor :: "port \<Rightarrow> topology_error + (topology_neighbor option \<times> string list)" where
  "resolvePortNeighbor p =
     (case collectNeighbors (pNeighbors p) ([], []) of (configured, lldp) \<Rightarrow>
        if length configured > 1 then Inl (ConflictingConfigured (pIndex p) (sortedTopologyKeys configured))
        else if length configured = 1 then
          (case overrideLLDP (pIndex p) lldp (snd (hd configured), []) of
             (n, warnings) \<Rightarrow> Inr (Some n, sort warnings))
        else if length lldp > 1 then
          Inr (None, [''topology port '' @ itoa (pIndex p) @ '': multiple LLDP neighbors ('' @
                      go_join '', '' (sortedTopologyKeys lldp) @ ''); no directed edge selected''])
        else if length lldp = 1 then Inr (Some (snd (hd lldp)), [])
        else Inr (None, []))"

definition portDirection :: "port \<Rightarrow> topology_direction" where
  "portDirection p = (if pUplink p then DirectionUpstream else DirectionDownstream)"

text \<open>The loop of \<open>ResolveTopology\<close>.\<close>

fun portEdges :: "port list \<Rightarrow> topology_resolution \<Rightarrow> topology_error + topology_resolution" where
  "portEdges [] r = Inr r"
| "portEdges (p # ps) r =
     (case resolvePortNeighbor p of
        Inl e \<Rightarrow> Inl e
      | Inr (neighbor, warnings) \<Rightarrow>
          (let r' = r\<lparr>resWarnings := resWarnings r @ warnings\<rparr> in
           case neighbor of
             None \<Rightarrow> portEdges ps r'
           | Some n \<Rightarrow> portEdges ps (r'\<lparr>resEdges := resEdges r' @
               [\<lparr>edgeLocalPort = pIndex p, edgeDirection = portDirection p, edgeNeighbor = n\<rparr>]\<rparr>)))"

definition edgeKey :: "topology_edge \<Rightarrow> string" where
  "edgeKey e = normalizedTopologyMAC (nbMAC (edgeNeighbor e))"

definition overrideWarning :: "topology_edge \<Rightarrow> topology_edge \<Rightarrow> topology_edge \<Rightarrow> string" where
  "overrideWarning named winner loser =
     ''topology neighbor '' @ nbMAC (edgeNeighbor named) @ '': '' @ directionText (edgeDirection winner) @
     '' edge from '' @ nbSource (edgeNeighbor winner) @ '' overrides '' @ directionText (edgeDirection loser) @
     '' edge from '' @ nbSource (edgeNeighbor loser)"

record conflict_state =
  csByMAC :: "string \<rightharpoonup> nat"
  csKeep :: "bool list"
  csWarnings :: "string list"

text \<open>One iteration of the conflict loop for the edge at \<open>index\<close>.\<close>

definition conflictStep :: "topology_edge list \<Rightarrow> nat \<Rightarrow> conflict_state \<Rightarrow> topology_error + conflict_state" where
  "conflictStep edges index s =
     (let edge = edges ! index; key = edgeKey edge in
      case csByMAC s key of
        None \<Rightarrow> Inr (s\<lparr>csByMAC := (csByMAC s)(key \<mapsto> index)\<rparr>)
      | Some previousIndex \<Rightarrow>
          (let previous = edges ! previousIndex;
               previousPriority = topologySourcePriority (nbSource (edgeNeighbor previous));
               currentPriority = topologySourcePriority (nbSource (edgeNeighbor edge))
           in if edgeDirection previous = edgeDirection edge then Inr s
              else if previousPriority = currentPriority \<and> previousPriority > 1 then
                Inl (BothDirections (nbMAC (edgeNeighbor edge)) (edgeDirection previous) (edgeLocalPort previous)
                  (edgeDirection edge) (edgeLocalPort edge))
              else if previousPriority = currentPriority then
                Inr (s\<lparr>csKeep := (csKeep s)[previousIndex := False, index := False],
                       csWarnings := csWarnings s @ [''topology neighbor '' @ nbMAC (edgeNeighbor edge) @
                         '' appears in both directions through LLDP; both edges omitted'']\<rparr>)
              else if previousPriority > currentPriority then
                Inr (s\<lparr>csKeep := (csKeep s)[index := False],
                       csWarnings := csWarnings s @ [overrideWarning edge previous edge]\<rparr>)
              else
                Inr (s\<lparr>csKeep := (csKeep s)[previousIndex := False], csByMAC := (csByMAC s)(key \<mapsto> index),
                       csWarnings := csWarnings s @ [overrideWarning edge edge previous]\<rparr>)))"

fun conflictLoop :: "topology_edge list \<Rightarrow> nat list \<Rightarrow> conflict_state \<Rightarrow> topology_error + conflict_state" where
  "conflictLoop edges [] s = Inr s"
| "conflictLoop edges (i # is) s =
     (case conflictStep edges i s of Inl e \<Rightarrow> Inl e | Inr s' \<Rightarrow> conflictLoop edges is s')"

definition keptEdges :: "topology_edge list \<Rightarrow> bool list \<Rightarrow> topology_edge list" where
  "keptEdges edges keep = map fst (filter snd (zip edges keep))"

definition resolveDirectionConflicts :: "topology_resolution \<Rightarrow> topology_error + topology_resolution" where
  "resolveDirectionConflicts r =
     (let edges = resEdges r in
      case conflictLoop edges [0..<length edges]
             \<lparr>csByMAC = Map.empty, csKeep = replicate (length edges) True, csWarnings = resWarnings r\<rparr> of
        Inl e \<Rightarrow> Inl e
      | Inr s \<Rightarrow> Inr \<lparr>resEdges = keptEdges edges (csKeep s), resWarnings = sort (csWarnings s)\<rparr>)"

definition ResolveTopology :: "port list \<Rightarrow> topology_error + topology_resolution" where
  "ResolveTopology ports =
     (case portEdges ports \<lparr>resEdges = [], resWarnings = []\<rparr> of
        Inl e \<Rightarrow> Inl e
      | Inr r \<Rightarrow> resolveDirectionConflicts r)"

section \<open>One neighbour per port\<close>

lemma merge_keeps [simp]:
  "nbMAC (mergeTopologyNeighbor l n) = nbMAC n" "nbSource (mergeTopologyNeighbor l n) = nbSource n"
  by (simp_all add: mergeTopologyNeighbor_def)

lemma overrideLLDP_keeps:
  "nbMAC (fst (overrideLLDP i m (n, ws))) = nbMAC n \<and> nbSource (fst (overrideLLDP i m (n, ws))) = nbSource n"
  by (induction i m "(n, ws)" arbitrary: n ws rule: overrideLLDP.induct) simp_all

lemma normalize_source: "normalizeTopologyNeighbor raw = Some n \<Longrightarrow> nbSource n = nbSource raw"
  by (auto simp: normalizeTopologyNeighbor_def split: option.splits)

lemma normalize_mac: "normalizeTopologyNeighbor raw = Some n \<Longrightarrow> nbMAC n = normalizedTopologyMAC (nbMAC raw)"
  by (auto simp: normalizeTopologyNeighbor_def normalizedTopologyMAC_def split: option.splits)

text \<open>The valid neighbours of a port, as the collecting loop sees them.\<close>

definition validNeighbors :: "topology_neighbor list \<Rightarrow> topology_neighbor list" where
  "validNeighbors raws = List.map_filter normalizeTopologyNeighbor raws"

definition from_raws :: "topology_neighbor list \<Rightarrow> neighbor_map \<Rightarrow> bool" where
  "from_raws ns m \<longleftrightarrow> (\<forall>(k, n)\<in>set m. \<exists>v\<in>set ns. nbMAC v = nbMAC n \<and> nbSource v = nbSource n)"

lemma from_raws_mono: "from_raws ns m \<Longrightarrow> from_raws (n # ns) m"
  by (fastforce simp: from_raws_def)

lemma addNeighbor_not_Nil [simp]: "addNeighbor k n m \<noteq> []"
  by (cases m) (auto split: if_splits)

lemma addNeighbor_entries:
  "(k, e) \<in> set (addNeighbor key n m) \<Longrightarrow> (k, e) \<in> set m \<or> nbMAC e = nbMAC n \<and> nbSource e = nbSource n"
  by (induction key n m rule: addNeighbor.induct) (auto split: if_splits)

lemma addNeighbor_from: "from_raws ns m \<Longrightarrow> n \<in> set ns \<Longrightarrow> from_raws ns (addNeighbor key n m)"
  unfolding from_raws_def by (force dest: addNeighbor_entries)

lemma addNeighbor_source:
  "\<forall>(k, e)\<in>set m. P (nbSource e) \<Longrightarrow> P (nbSource n) \<Longrightarrow> \<forall>(k, e)\<in>set (addNeighbor key n m). P (nbSource e)"
  by (fastforce dest: addNeighbor_entries)

lemma collectNeighbors_sound:
  assumes "collectNeighbors raws (c, l) = (c', l')" and "set (validNeighbors raws) \<subseteq> set ns"
    and "from_raws ns c" and "from_raws ns l"
    and "\<forall>(k, e)\<in>set c. nbSource e \<noteq> NeighborSourceLLDP" and "\<forall>(k, e)\<in>set l. nbSource e = NeighborSourceLLDP"
  shows "from_raws ns c' \<and> from_raws ns l' \<and> (\<forall>(k, e)\<in>set c'. nbSource e \<noteq> NeighborSourceLLDP) \<and>
    (\<forall>(k, e)\<in>set l'. nbSource e = NeighborSourceLLDP) \<and>
    (c' = [] \<longrightarrow> c = [] \<and> (\<forall>v\<in>set (validNeighbors raws). nbSource v = NeighborSourceLLDP))"
  using assms
proof (induction raws arbitrary: c l)
  case Nil
  then show ?case by (simp add: validNeighbors_def map_filter_simps)
next
  case (Cons raw raws)
  show ?case
  proof (cases "normalizeTopologyNeighbor raw")
    case None
    then have v: "validNeighbors (raw # raws) = validNeighbors raws" and "collectNeighbors raws (c, l) = (c', l')"
      using Cons.prems(1) by (simp_all add: validNeighbors_def map_filter_simps)
    from Cons.IH [OF this(2) Cons.prems(2) [unfolded v] Cons.prems(3-6)] show ?thesis unfolding v .
  next
    case (Some n)
    then have v: "validNeighbors (raw # raws) = n # validNeighbors raws"
      by (simp add: validNeighbors_def map_filter_simps)
    have n: "n \<in> set ns" and ns: "set (validNeighbors raws) \<subseteq> set ns" using Cons.prems(2) v by simp_all
    let ?k = "normalizedTopologyMAC (nbMAC n)"
    show ?thesis
    proof (cases "nbSource n = NeighborSourceLLDP")
      case True
      have "collectNeighbors raws (c, addNeighbor ?k n l) = (c', l')" using Cons.prems(1) Some True by (simp add: Let_def)
      from Cons.IH [OF this ns Cons.prems(3) addNeighbor_from [OF Cons.prems(4) n] Cons.prems(5)
          addNeighbor_source [where P = "\<lambda>s. s = NeighborSourceLLDP", OF Cons.prems(6) True]]
      show ?thesis using True unfolding v set_simps ball_simps by blast
    next
      case False
      have "collectNeighbors raws (addNeighbor ?k n c, l) = (c', l')" using Cons.prems(1) Some False by (simp add: Let_def)
      from Cons.IH [OF this ns addNeighbor_from [OF Cons.prems(3) n] Cons.prems(4)
          addNeighbor_source [where P = "\<lambda>s. s \<noteq> NeighborSourceLLDP", OF Cons.prems(5) False] Cons.prems(6)]
      show ?thesis using addNeighbor_not_Nil [of ?k n c] unfolding v by blast
    qed
  qed
qed

lemma resolvePortNeighbor_sound:
  assumes "resolvePortNeighbor p = Inr (Some n, ws)"
  shows "(\<exists>v\<in>set (validNeighbors (pNeighbors p)). nbMAC v = nbMAC n \<and> nbSource v = nbSource n) \<and>
    (nbSource n = NeighborSourceLLDP \<longrightarrow> (\<forall>v\<in>set (validNeighbors (pNeighbors p)). nbSource v = NeighborSourceLLDP))"
proof -
  obtain c l where cl: "collectNeighbors (pNeighbors p) ([], []) = (c, l)" by fastforce
  let ?ns = "validNeighbors (pNeighbors p)"
  have s: "from_raws ?ns c" "from_raws ?ns l" "\<forall>(k, e)\<in>set c. nbSource e \<noteq> NeighborSourceLLDP"
    "c = [] \<longrightarrow> (\<forall>v\<in>set ?ns. nbSource v = NeighborSourceLLDP)"
    using collectNeighbors_sound [OF cl order_refl] by (simp_all add: from_raws_def)
  show ?thesis
  proof (cases c)
    case Nil
    then have "length l = 1" "n = snd (hd l)"
      using assms by (auto simp: resolvePortNeighbor_def cl split: if_splits)
    then obtain k where "l = [(k, n)]" by (cases l) auto
    then show ?thesis using s Nil by (auto simp: from_raws_def)
  next
    case (Cons ke c')
    then have "c' = []" using assms by (cases c') (auto simp: resolvePortNeighbor_def cl)
    moreover obtain k e where "ke = (k, e)" by fastforce
    ultimately have c: "c = [(k, e)]" using Cons by simp
    then have "nbMAC n = nbMAC e" "nbSource n = nbSource e"
      using assms overrideLLDP_keeps [of "pIndex p" l e "[]"]
      by (auto simp: resolvePortNeighbor_def cl split: prod.splits)
    then show ?thesis using s(1,3) c by (auto simp: from_raws_def)
  qed
qed

section \<open>Edges\<close>

text \<open>The edge of one port, before conflicts are settled.\<close>

definition edgeOf :: "port \<Rightarrow> topology_edge list" where
  "edgeOf p =
     (case resolvePortNeighbor p of
        Inr (Some n, _) \<Rightarrow> [\<lparr>edgeLocalPort = pIndex p, edgeDirection = portDirection p, edgeNeighbor = n\<rparr>]
      | _ \<Rightarrow> [])"

definition candidateEdges :: "port list \<Rightarrow> topology_edge list" where
  "candidateEdges ports = concat (map edgeOf ports)"

lemma portEdges_edges:
  "portEdges ps r = Inr r' \<Longrightarrow> resEdges r' = resEdges r @ candidateEdges ps"
proof (induction ps arbitrary: r)
  case (Cons p ps)
  obtain x ws where rp: "resolvePortNeighbor p = Inr (x, ws)"
    using Cons.prems by (auto split: sum.splits)
  show ?case
    using Cons.prems Cons.IH rp
    by (cases x) (auto simp: edgeOf_def candidateEdges_def Let_def dest!: Cons.IH)
qed (simp add: candidateEdges_def)

lemma candidateEdges_simps [simp]:
  "candidateEdges [] = []" "candidateEdges (p # ps) = edgeOf p @ candidateEdges ps"
  by (simp_all add: candidateEdges_def)

lemma edgeOf_member:
  "e \<in> set (edgeOf p) \<Longrightarrow> \<exists>n ws. resolvePortNeighbor p = Inr (Some n, ws) \<and>
     e = \<lparr>edgeLocalPort = pIndex p, edgeDirection = portDirection p, edgeNeighbor = n\<rparr>"
  unfolding edgeOf_def by (auto split: sum.splits option.splits prod.splits dest: sym)

lemma candidateEdges_member:
  "e \<in> set (candidateEdges ports) \<Longrightarrow>
     \<exists>p\<in>set ports. \<exists>n ws. resolvePortNeighbor p = Inr (Some n, ws) \<and>
       e = \<lparr>edgeLocalPort = pIndex p, edgeDirection = portDirection p, edgeNeighbor = n\<rparr>"
  unfolding candidateEdges_def using edgeOf_member by fastforce

lemma candidateEdges_distinct: "distinct (map pIndex ports) \<Longrightarrow> distinct (map edgeLocalPort (candidateEdges ports))"
proof (induction ports)
  case (Cons p ps)
  have "edgeLocalPort ` set (candidateEdges ps) \<subseteq> pIndex ` set ps"
    using candidateEdges_member [of _ ps] by force
  moreover have "map edgeLocalPort (edgeOf p) = [] \<or> map edgeLocalPort (edgeOf p) = [pIndex p]"
    by (auto simp: edgeOf_def split: sum.splits option.splits prod.splits)
  moreover have "edgeLocalPort ` set (edgeOf p) \<subseteq> {pIndex p}" using edgeOf_member [of _ p] by fastforce
  ultimately show ?case using Cons by (auto simp: subset_iff image_iff)
qed simp

lemma keptEdges_nth:
  assumes "length keep = length edges"
  shows "e \<in> set (keptEdges edges keep) \<longleftrightarrow> (\<exists>i<length edges. e = edges ! i \<and> keep ! i)"
  using assms by (fastforce simp: keptEdges_def in_set_zip image_iff)

lemma keptEdges_distinct:
  "distinct (map f edges) \<Longrightarrow> distinct (map f (keptEdges edges keep))"
proof (induction edges arbitrary: keep)
  case (Cons e edges)
  have "set (keptEdges edges k) \<subseteq> set edges" for k
    by (auto simp: keptEdges_def dest: set_zip_leftD)
  then show ?case using Cons by (cases keep) (auto simp: keptEdges_def)
qed (simp add: keptEdges_def)

section \<open>Direction conflicts\<close>

text \<open>
  The state of the conflict loop before index \<open>k\<close>: \<open>byMAC\<close> knows exactly the keys seen so far, and two
  earlier edges to one neighbour in different directions are not both kept.
\<close>

definition conflict_inv :: "topology_edge list \<Rightarrow> nat \<Rightarrow> conflict_state \<Rightarrow> bool" where
  "conflict_inv edges k s \<longleftrightarrow>
     length (csKeep s) = length edges \<and>
     (\<forall>i<k. csByMAC s (edgeKey (edges ! i)) \<noteq> None) \<and>
     (\<forall>m i. csByMAC s m = Some i \<longrightarrow> i < k \<and> edgeKey (edges ! i) = m) \<and>
     (\<forall>j<k. \<forall>i<j. edgeKey (edges ! i) = edgeKey (edges ! j) \<longrightarrow>
        edgeDirection (edges ! i) \<noteq> edgeDirection (edges ! j) \<longrightarrow> \<not> (csKeep s ! i \<and> csKeep s ! j))"

definition at_most_two :: "topology_edge list \<Rightarrow> bool" where
  "at_most_two edges \<longleftrightarrow>
     (\<forall>k<length edges. \<forall>j<k. \<forall>i<j. \<not> (edgeKey (edges ! i) = edgeKey (edges ! j) \<and> edgeKey (edges ! j) = edgeKey (edges ! k)))"

lemma keep_update_mono: "(xs[a := False]) ! i \<Longrightarrow> a < length xs \<Longrightarrow> xs ! i"
  by (metis nth_list_update_eq nth_list_update_neq)

lemma keep_update_same [simp]: "a < length xs \<Longrightarrow> \<not> (xs[a := False]) ! a"
  by simp

lemma conflictStep_keep:
  assumes "conflictStep edges k s = Inr s'" and "conflict_inv edges k s" and "k < length edges"
  shows "length (csKeep s') = length edges" and "csKeep s' ! i \<Longrightarrow> csKeep s ! i"
    and "csByMAC s (edgeKey (edges ! k)) = Some p \<Longrightarrow> edgeDirection (edges ! p) \<noteq> edgeDirection (edges ! k) \<Longrightarrow>
      \<not> (csKeep s' ! p \<and> csKeep s' ! k)"
    and "\<exists>b. csByMAC s' = (csByMAC s)(edgeKey (edges ! k) \<mapsto> b) \<and> (b = k \<or> csByMAC s (edgeKey (edges ! k)) = Some b)"
proof -
  have l: "length (csKeep s) = length edges" using assms(2) by (simp add: conflict_inv_def)
  have p: "p < length edges" if "csByMAC s (edgeKey (edges ! k)) = Some p" for p
    using assms(2,3) that by (fastforce simp: conflict_inv_def)
  note step = assms(1) [unfolded conflictStep_def Let_def]
  show "length (csKeep s') = length edges"
    using step l by (auto split: option.splits if_splits)
  show "csKeep s' ! i \<Longrightarrow> csKeep s ! i"
    using step l p assms(3) by (auto split: option.splits if_splits dest!: keep_update_mono)
  show "csByMAC s (edgeKey (edges ! k)) = Some p \<Longrightarrow> edgeDirection (edges ! p) \<noteq> edgeDirection (edges ! k) \<Longrightarrow>
      \<not> (csKeep s' ! p \<and> csKeep s' ! k)"
    using step l p assms(3) by (auto split: if_splits)
  show "\<exists>b. csByMAC s' = (csByMAC s)(edgeKey (edges ! k) \<mapsto> b) \<and> (b = k \<or> csByMAC s (edgeKey (edges ! k)) = Some b)"
  proof (cases "csByMAC s (edgeKey (edges ! k))")
    case None
    then show ?thesis using step by auto
  next
    case (Some p)
    then show ?thesis using step map_upd_triv [of "csByMAC s" "edgeKey (edges ! k)" p, OF Some] by (auto split: if_splits) metis+
  qed
qed

lemma conflictStep_inv:
  assumes "conflictStep edges k s = Inr s'" and inv: "conflict_inv edges k s" and k: "k < length edges"
    and two: "at_most_two edges"
  shows "conflict_inv edges (Suc k) s'"
proof -
  note st = conflictStep_keep [OF assms(1,2,3)]
  let ?key = "\<lambda>i. edgeKey (edges ! i)"
  obtain b where m: "csByMAC s' = (csByMAC s)(?key k \<mapsto> b)" and b: "b = k \<or> csByMAC s (?key k) = Some b"
    using st(4) by blast
  have old: "i < k \<and> ?key i = x" if "csByMAC s x = Some i" for x i
    using inv that by (auto simp: conflict_inv_def)
  have seen: "csByMAC s (?key i) \<noteq> None" if "i < k" for i
    using inv that by (simp add: conflict_inv_def)
  have "csByMAC s' (?key i) \<noteq> None" if "i < Suc k" for i
    using seen [of i] that m by (auto simp: less_Suc_eq)
  moreover have "i < Suc k \<and> ?key i = x" if "csByMAC s' x = Some i" for x i
    using that b old [of x i] old [of "?key k" b] by (auto simp: m less_Suc_eq split: if_splits)
  moreover have "\<not> (csKeep s' ! i \<and> csKeep s' ! j)"
    if ij: "i < j" "j < Suc k" "?key i = ?key j" "edgeDirection (edges ! i) \<noteq> edgeDirection (edges ! j)" for i j
  proof (cases "j = k")
    case False
    then have "\<not> (csKeep s ! i \<and> csKeep s ! j)" using inv ij by (simp add: conflict_inv_def)
    then show ?thesis using st(2) by blast
  next
    case True
    then obtain p where p: "csByMAC s (?key k) = Some p" using seen [of i] ij by auto
    then have pk: "p < k" "?key p = ?key k" using old by auto
    have "p = i"
    proof (rule ccontr)
      assume "p \<noteq> i"
      then have "min p i < max p i" "max p i < k" "?key (min p i) = ?key (max p i)" "?key (max p i) = ?key k"
        using pk ij True by (auto simp: min_def max_def)
      then show False using two k unfolding at_most_two_def by blast
    qed
    then show ?thesis using st(3) [OF p] ij True by simp
  qed
  ultimately show ?thesis using st(1) unfolding conflict_inv_def by blast
qed

lemma conflictLoop_inv:
  "conflictLoop edges [k..<n] s = Inr s' \<Longrightarrow> conflict_inv edges k s \<Longrightarrow> k \<le> n \<Longrightarrow> n \<le> length edges \<Longrightarrow>
     at_most_two edges \<Longrightarrow> conflict_inv edges n s'"
proof (induction "n - k" arbitrary: k s)
  case (Suc d)
  have k: "k < n" using Suc.hyps(2) by simp
  then obtain s1 where s1: "conflictStep edges k s = Inr s1" and r: "conflictLoop edges [Suc k..<n] s1 = Inr s'"
    using Suc.prems(1) by (auto simp: upt_conv_Cons split: sum.splits)
  have "conflict_inv edges (Suc k) s1"
    using conflictStep_inv [OF s1 Suc.prems(2) _ Suc.prems(5)] k Suc.prems(4) by simp
  with Suc.hyps(1) [OF _ r] Suc.hyps(2) k Suc.prems show ?case by simp
qed simp

lemma conflictLoop_length:
  "conflictLoop edges ks s = Inr s' \<Longrightarrow> length (csKeep s') = length (csKeep s)"
proof (induction ks arbitrary: s)
  case (Cons k ks)
  obtain s1 where s1: "conflictStep edges k s = Inr s1" and r: "conflictLoop edges ks s1 = Inr s'"
    using Cons.prems by (auto split: sum.splits)
  have "length (csKeep s1) = length (csKeep s)"
    using s1 [unfolded conflictStep_def Let_def] by (auto split: option.splits if_splits)
  with Cons.IH [OF r] show ?case by simp
qed simp

lemma ResolveTopology_unfold:
  assumes "ResolveTopology ports = Inr r"
  obtains s ws where "conflictLoop (candidateEdges ports) [0..<length (candidateEdges ports)]
      \<lparr>csByMAC = Map.empty, csKeep = replicate (length (candidateEdges ports)) True, csWarnings = ws\<rparr> = Inr s"
    and "resEdges r = keptEdges (candidateEdges ports) (csKeep s)"
    and "length (csKeep s) = length (candidateEdges ports)"
proof -
  obtain r0 where r0: "portEdges ports \<lparr>resEdges = [], resWarnings = []\<rparr> = Inr r0"
    and r: "resolveDirectionConflicts r0 = Inr r"
    using assms by (auto simp: ResolveTopology_def split: sum.splits)
  have e: "resEdges r0 = candidateEdges ports" using portEdges_edges [OF r0] by simp
  obtain s where s: "conflictLoop (candidateEdges ports) [0..<length (candidateEdges ports)]
      \<lparr>csByMAC = Map.empty, csKeep = replicate (length (candidateEdges ports)) True, csWarnings = resWarnings r0\<rparr> = Inr s"
    and "resEdges r = keptEdges (candidateEdges ports) (csKeep s)"
    using r by (auto simp: resolveDirectionConflicts_def Let_def e split: sum.splits)
  with conflictLoop_length [OF s] show thesis by (intro that) simp_all
qed

text \<open>Ports with one LLDP or configured neighbour each, for concrete runs.\<close>

definition neighborPort :: "int \<Rightarrow> bool \<Rightarrow> neighbor_source \<Rightarrow> port" where
  "neighborPort i up src =
     emptyPort\<lparr>pIndex := i, pUplink := up, pNeighbors :=
       [\<lparr>nbMAC = ''02:00:00:00:00:05'', nbHostname = [], nbIP = [], nbDeviceType = ''usw'', nbVLAN = 0, nbAge = 0,
         nbUptime = 0, nbRemotePort = 0, nbRemotePortID = [], nbSource = src, nbStatic = False\<rparr>]\<rparr>"

definition edgeSummary :: "topology_error + topology_resolution \<Rightarrow> (int \<times> topology_direction \<times> string) list" where
  "edgeSummary r = (case r of Inl _ \<Rightarrow> [] | Inr t \<Rightarrow> map (\<lambda>e. (edgeLocalPort e, edgeDirection e, edgeKey e)) (resEdges t))"

section \<open>Properties\<close>

text \<open>C28: the resolved topology. Every port reports at most one edge; an edge leaves its own port, points
  upstream exactly on the active uplink, and goes to a neighbour with a valid MAC that this port
  really has; and an LLDP neighbour is reported only on a port without a valid configured one.\<close>

theorem ResolveTopology_edges:
  assumes "ResolveTopology ports = Inr r" and "distinct (map pIndex ports)"
  shows "distinct (map edgeLocalPort (resEdges r)) \<and>
    (\<forall>e\<in>set (resEdges r). \<exists>p\<in>set ports. pIndex p = edgeLocalPort e \<and>
       (edgeDirection e = DirectionUpstream \<longleftrightarrow> pUplink p) \<and>
       (\<exists>v\<in>set (validNeighbors (pNeighbors p)). nbMAC v = nbMAC (edgeNeighbor e) \<and> nbSource v = nbSource (edgeNeighbor e)) \<and>
       (nbSource (edgeNeighbor e) = NeighborSourceLLDP \<longrightarrow>
          (\<forall>v\<in>set (validNeighbors (pNeighbors p)). nbSource v = NeighborSourceLLDP)))"
proof -
  obtain s ws where "conflictLoop (candidateEdges ports) [0..<length (candidateEdges ports)]
      \<lparr>csByMAC = Map.empty, csKeep = replicate (length (candidateEdges ports)) True, csWarnings = ws\<rparr> = Inr s"
    and r: "resEdges r = keptEdges (candidateEdges ports) (csKeep s)"
    and l: "length (csKeep s) = length (candidateEdges ports)"
    by (rule ResolveTopology_unfold [OF assms(1)])
  have "distinct (map edgeLocalPort (resEdges r))"
    unfolding r by (rule keptEdges_distinct [OF candidateEdges_distinct [OF assms(2)]])
  moreover have "\<exists>p\<in>set ports. pIndex p = edgeLocalPort e \<and> (edgeDirection e = DirectionUpstream \<longleftrightarrow> pUplink p) \<and>
       (\<exists>v\<in>set (validNeighbors (pNeighbors p)). nbMAC v = nbMAC (edgeNeighbor e) \<and> nbSource v = nbSource (edgeNeighbor e)) \<and>
       (nbSource (edgeNeighbor e) = NeighborSourceLLDP \<longrightarrow>
          (\<forall>v\<in>set (validNeighbors (pNeighbors p)). nbSource v = NeighborSourceLLDP))"
    if "e \<in> set (resEdges r)" for e
  proof -
    have "e \<in> set (candidateEdges ports)" using that unfolding r keptEdges_nth [OF l] by auto
    then obtain p n ws where p: "p \<in> set ports" "resolvePortNeighbor p = Inr (Some n, ws)"
      "e = \<lparr>edgeLocalPort = pIndex p, edgeDirection = portDirection p, edgeNeighbor = n\<rparr>"
      using candidateEdges_member by blast
    from resolvePortNeighbor_sound [OF p(2)] p(1,3) show ?thesis
      by (intro bexI [of _ p]) (simp_all add: portDirection_def)
  qed
  ultimately show ?thesis by blast
qed

theorem ResolveTopology_edges_witness:
  "\<exists>r. ResolveTopology [neighborPort 1 True NeighborSourceLLDP] = Inr r \<and> distinct (map edgeLocalPort (resEdges r))"
proof -
  have "\<not> isl (ResolveTopology [neighborPort 1 True NeighborSourceLLDP])" by code_simp
  then obtain r where r: "ResolveTopology [neighborPort 1 True NeighborSourceLLDP] = Inr r"
    by (cases "ResolveTopology [neighborPort 1 True NeighborSourceLLDP]") simp_all
  then show ?thesis using ResolveTopology_edges [OF r] by simp
qed

text \<open>no contradicting directions. As long as no neighbour is seen on more than two ports, the
  resolved edges never claim one neighbour both upstream and downstream.\<close>

theorem ResolveTopology_one_direction:
  assumes "ResolveTopology ports = Inr r" and "at_most_two (candidateEdges ports)"
    and "e \<in> set (resEdges r)" and "e' \<in> set (resEdges r)" and "edgeKey e = edgeKey e'"
  shows "edgeDirection e = edgeDirection e'"
proof -
  let ?c = "candidateEdges ports"
  obtain s ws where loop: "conflictLoop ?c [0..<length ?c]
      \<lparr>csByMAC = Map.empty, csKeep = replicate (length ?c) True, csWarnings = ws\<rparr> = Inr s"
    and r: "resEdges r = keptEdges ?c (csKeep s)" and l: "length (csKeep s) = length ?c"
    by (rule ResolveTopology_unfold [OF assms(1)])
  have "conflict_inv ?c (length ?c) s"
    by (rule conflictLoop_inv [OF loop]) (simp_all add: conflict_inv_def assms(2))
  then have "\<not> (csKeep s ! i \<and> csKeep s ! j)"
    if "i < j" "j < length ?c" "edgeKey (?c ! i) = edgeKey (?c ! j)" "edgeDirection (?c ! i) \<noteq> edgeDirection (?c ! j)" for i j
    using that by (simp add: conflict_inv_def)
  moreover obtain i j where "i < length ?c" "e = ?c ! i" "csKeep s ! i" "j < length ?c" "e' = ?c ! j" "csKeep s ! j"
    using assms(3,4) unfolding r keptEdges_nth [OF l] by auto
  ultimately show ?thesis using assms(5) by (metis linorder_neqE_nat)
qed

theorem ResolveTopology_one_direction_witness:
  "\<exists>r. ResolveTopology [neighborPort 1 False NeighborSourceLLDP, neighborPort 2 False NeighborSourceLLDP] = Inr r \<and>
     length (resEdges r) = 2 \<and> edgeDirection (resEdges r ! 0) = edgeDirection (resEdges r ! 1)"
proof -
  let ?ps = "[neighborPort 1 False NeighborSourceLLDP, neighborPort 2 False NeighborSourceLLDP]"
  have sum: "edgeSummary (ResolveTopology ?ps) =
      [(1, DirectionDownstream, ''02:00:00:00:00:05''), (2, DirectionDownstream, ''02:00:00:00:00:05'')]" by code_simp
  then obtain r where r: "ResolveTopology ?ps = Inr r"
    by (cases "ResolveTopology ?ps") (simp_all add: edgeSummary_def)
  with sum obtain e e' where e: "resEdges r = [e, e']" and k: "edgeKey e = edgeKey e'"
    by (auto simp: edgeSummary_def map_eq_Cons_conv)
  have "length (candidateEdges ?ps) = 2" by code_simp
  then have "at_most_two (candidateEdges ?ps)" by (auto simp: at_most_two_def)
  from ResolveTopology_one_direction [OF r this, of e e'] k e have "edgeDirection e = edgeDirection e'" by simp
  with r e show ?thesis by simp
qed

text \<open>the bound of two ports is sharp. With a neighbour seen through LLDP on two access ports and
  configured on the uplink, the configured edge removes only the first LLDP edge: the resolver returns
  the same neighbour both downstream and upstream, without an error.\<close>

theorem three_ports_both_directions:
  "edgeSummary (ResolveTopology [neighborPort 1 False NeighborSourceLLDP, neighborPort 2 False NeighborSourceLLDP,
       neighborPort 3 True NeighborSourceConfigUplink]) =
     [(2, DirectionDownstream, ''02:00:00:00:00:05''), (3, DirectionUpstream, ''02:00:00:00:00:05'')]"
  by code_simp

end
