(* ===== verification/Payload_View.thy ===== *)
theory Payload_View
  imports Topology
begin

text \<open>
  The resolved view of the ports from which both inform payloads are rendered
  (\<open>internal/device/payload\<close>: \<open>view.go\<close>, \<open>fragments.go\<close>, \<open>gateway_identity.go\<close>,
  \<open>topology.go\<close>, \<open>telemetry_helpers.go\<close>), the identity the payload reports
  (\<open>internal/device/identity.go\<close>) and the normalised payload profile (\<open>profile.go\<close>).

  A Go struct that embeds another one is a record with a field for the embedded struct; a pointer
  field that is omitted when nil is an option. \<open>int64\<close> sums and products wrap.

  The lemmas show what the rows can be trusted for: counters and rates appear exactly when a source
  reported them, gateway interface names tell the ports apart, generated MAC addresses tell up to
  256 ports apart, and the length of a contiguous netmask is read back.
\<close>

section \<open>Constants (keys.go)\<close>

definition connectionSourceMACTable :: string where "connectionSourceMACTable = ''mac_table''"
definition deviceTypeClient :: string where "deviceTypeClient = ''client''"
definition deviceTypeUSW :: string where "deviceTypeUSW = ''usw''"
definition deviceTypeUGW :: string where "deviceTypeUGW = ''ugw''"
definition deviceTypeUXG :: string where "deviceTypeUXG = ''uxg''"
definition deviceTypeUDM :: string where "deviceTypeUDM = ''udm''"
definition gatewayNetworkGroupLAN :: string where "gatewayNetworkGroupLAN = ''LAN''"
definition gatewayNetworkGroupNone :: string where "gatewayNetworkGroupNone = ''Unassigned''"
definition gatewayNetworkGroupWAN :: string where "gatewayNetworkGroupWAN = ''WAN''"
definition gatewayNetworkGroupWAN2 :: string where "gatewayNetworkGroupWAN2 = ''WAN2''"
definition gatewayNoIP :: string where "gatewayNoIP = ''0.0.0.0''"
definition gatewayPortRoleLAN :: string where "gatewayPortRoleLAN = ''lan''"
definition gatewayPortRoleLAN2 :: string where "gatewayPortRoleLAN2 = ''lan2''"
definition gatewayPortRoleWAN :: string where "gatewayPortRoleWAN = ''wan''"
definition gatewayPortRoleWAN2 :: string where "gatewayPortRoleWAN2 = ''wan2''"
definition payloadKindGateway :: string where "payloadKindGateway = ''gateway''"
definition payloadKindSwitch :: string where "payloadKindSwitch = ''switch''"
definition payloadModeSwitch :: string where "payloadModeSwitch = ''switch''"
definition payloadTypeDHCP :: string where "payloadTypeDHCP = ''dhcp''"
definition payloadTypeWire :: string where "payloadTypeWire = ''wire''"
definition defaultRequiredVersion :: string where "defaultRequiredVersion = ''5.0.0''"

lemmas payload_keys = connectionSourceMACTable_def deviceTypeClient_def deviceTypeUSW_def deviceTypeUGW_def
  deviceTypeUXG_def deviceTypeUDM_def gatewayNetworkGroupLAN_def gatewayNetworkGroupNone_def
  gatewayNetworkGroupWAN_def gatewayNetworkGroupWAN2_def gatewayNoIP_def gatewayPortRoleLAN_def
  gatewayPortRoleLAN2_def gatewayPortRoleWAN_def gatewayPortRoleWAN2_def payloadKindGateway_def
  payloadKindSwitch_def payloadModeSwitch_def payloadTypeDHCP_def payloadTypeWire_def

section \<open>The reported identity (device/identity.go)\<close>

record identity =
  idMAC :: string
  idIP :: string
  idHostname :: string
  idModel :: string
  idModelDisplay :: string
  idDeviceType :: string
  idVersion :: string
  idSerial :: string
  idInformURL :: string
  idInformIP :: string
  idCFGVersion :: string
  idManagementVLAN :: int
  idUptimeSeconds :: int
  idControllerTimeOffsetSeconds :: int
  idIPv4ActiveLeasesRequested :: bool
  idGatewayMACIPv6Requested :: bool
  idGWCapabilitiesRequested :: bool
  idUDAPIVersionExcluded :: bool
  idDPIStatsExcluded :: bool
  idFingerprintsExcluded :: bool
  idInformState :: int
  idInformStateSet :: bool
  idAdopted :: bool

section \<open>The payload profile (payload/profile.go)\<close>

definition isGatewayDeviceType :: "string \<Rightarrow> bool" where
  "isGatewayDeviceType deviceType \<longleftrightarrow> trim_space deviceType \<in> {deviceTypeUGW, deviceTypeUXG, deviceTypeUDM}"

definition deviceTypeOrDefault :: "string \<Rightarrow> string" where
  "deviceTypeOrDefault t = (let t = trim_space t in if t = [] then deviceTypeUSW else t)"

definition normalizePayloadProfile :: "profile \<Rightarrow> identity \<Rightarrow> profile" where
  "normalizePayloadProfile prof ident =
     (let pl = profPayload prof;
          kind0 = to_lower (trim_space (payloadKind pl));
          kind1 = (if kind0 = [] then (if isGatewayDeviceType (deviceTypeOrDefault (idDeviceType ident))
                                       then payloadKindGateway else payloadKindSwitch)
                   else kind0);
          kind2 = (if kind1 \<noteq> payloadKindGateway then payloadKindSwitch else kind1)
      in prof\<lparr>profPayload := pl\<lparr>payloadKind := kind2,
           payloadRequiredVersion := (if trim_space (payloadRequiredVersion pl) = [] then defaultRequiredVersion
                                      else payloadRequiredVersion pl),
           payloadManagementInterface := (if trim_space (payloadManagementInterface pl) = [] then ''eth0''
                                          else payloadManagementInterface pl),
           payloadGatewayInterfacePrefix := (if trim_space (payloadGatewayInterfacePrefix pl) = [] then ''eth''
                                             else payloadGatewayInterfacePrefix pl)\<rparr>\<rparr>)"

section \<open>Link, counter and rate fragments (fragments.go)\<close>

definition effectivePortSpeed :: "port \<Rightarrow> int" where
  "effectivePortSpeed p = (if pUp p \<and> pSpeed p \<le> 0 then 1000 else pSpeed p)"

definition effectivePortMedia :: "port \<Rightarrow> int \<Rightarrow> string" where
  "effectivePortMedia p speed =
     (let media = trim_space (pMedia p) in if media = [] \<and> speed > 0 then mediaForSpeed speed else media)"

record link_fields =
  lkSpeed :: int
  lkMaxSpeed :: int
  lkSpeedCaps :: "int list"
  lkMedia :: string

record counter_fields =
  cfRXBytes :: "int option"
  cfTXBytes :: "int option"
  cfRXPackets :: "int option"
  cfTXPackets :: "int option"
  cfRXErrors :: "int option"
  cfTXErrors :: "int option"

record optional_rate_fields =
  orBytesRate :: "int option"
  orRXBytesRate :: "int option"
  orTXBytesRate :: "int option"

record gateway_rate_fields =
  grRXRate :: "int option"
  grTXRate :: "int option"

record gateway_port_link_fields =
  glSpeed :: int
  glMaxSpeed :: int
  glSpeedCaps :: int
  glMedia :: string

definition emptyCounters :: counter_fields where
  "emptyCounters = \<lparr>cfRXBytes = None, cfTXBytes = None, cfRXPackets = None, cfTXPackets = None,
     cfRXErrors = None, cfTXErrors = None\<rparr>"

definition emptyRates :: optional_rate_fields where
  "emptyRates = \<lparr>orBytesRate = None, orRXBytesRate = None, orTXBytesRate = None\<rparr>"

definition emptyBitRates :: gateway_rate_fields where
  "emptyBitRates = \<lparr>grRXRate = None, grTXRate = None\<rparr>"

text \<open>\<open>strings.ToUpper\<close> on ASCII letters.\<close>

definition upper_char :: "char \<Rightarrow> char" where
  "upper_char c = (if 97 \<le> ord c \<and> ord c \<le> 122 then char_of (ord c - 32) else c)"

definition to_upper :: "string \<Rightarrow> string" where
  "to_upper s = map upper_char s"

definition speedCaps :: "int \<Rightarrow> string \<Rightarrow> int list" where
  "speedCaps speed media0 =
     (let media = to_upper (trim_space media0) in
      if speed \<ge> 25000 \<or> go_contains media ''SFP28'' then [1000, 10000, 25000]
      else if speed \<ge> 10000 \<or> go_contains media ''SFP+'' then [1000, 10000]
      else if speed \<ge> 2500 then [10, 100, 1000, 2500]
      else [10, 100, 1000])"

definition portLinkFields :: "int \<Rightarrow> string \<Rightarrow> link_fields" where
  "portLinkFields speed media =
     \<lparr>lkSpeed = speed, lkMaxSpeed = speed, lkSpeedCaps = speedCaps speed media, lkMedia = media\<rparr>"

definition gatewaySpeedCapsCode :: "int \<Rightarrow> string \<Rightarrow> int" where
  "gatewaySpeedCapsCode speed media0 =
     (let media = to_upper (trim_space media0) in
      if speed \<ge> 25000 \<or> go_contains media ''SFP28'' then 1048864
      else if speed \<ge> 10000 \<or> go_contains media ''SFP+'' then 1048864
      else 1048623)"

definition gatewayPortLinkFieldsFor :: "int \<Rightarrow> string \<Rightarrow> gateway_port_link_fields" where
  "gatewayPortLinkFieldsFor speed media =
     \<lparr>glSpeed = speed, glMaxSpeed = speed, glSpeedCaps = gatewaySpeedCapsCode speed media, glMedia = media\<rparr>"

definition portCounterFields :: "port \<Rightarrow> counter_fields" where
  "portCounterFields p =
     (if \<not> pCountersSet p then emptyCounters
      else \<lparr>cfRXBytes = Some (pRXBytes p), cfTXBytes = Some (pTXBytes p), cfRXPackets = Some (pRXPackets p),
             cfTXPackets = Some (pTXPackets p), cfRXErrors = Some (pRXErrors p), cfTXErrors = Some (pTXErrors p)\<rparr>)"

definition portRateFields :: "port \<Rightarrow> int \<times> int" where
  "portRateFields p = (if \<not> pTrafficRatesSet p \<or> \<not> pUp p then (0, 0) else (pRXBytesRate p, pTXBytesRate p))"

definition explicitPortRateFields :: "port \<Rightarrow> optional_rate_fields" where
  "explicitPortRateFields p =
     (if \<not> pTrafficRatesSet p then emptyRates
      else (case portRateFields p of (rx, tx) \<Rightarrow>
        \<lparr>orBytesRate = Some (wrap64 (rx + tx)), orRXBytesRate = Some rx, orTXBytesRate = Some tx\<rparr>))"

definition bitsPerSecond :: "int \<Rightarrow> int" where "bitsPerSecond v = wrap64 (v * 8)"

definition gatewayPortRateFields :: "port \<Rightarrow> gateway_rate_fields" where
  "gatewayPortRateFields p =
     (if \<not> pTrafficRatesSet p then emptyBitRates
      else (case portRateFields p of (rx, tx) \<Rightarrow>
        \<lparr>grRXRate = Some (bitsPerSecond rx), grTXRate = Some (bitsPerSecond tx)\<rparr>))"

definition firstNonZero :: "int \<Rightarrow> int \<Rightarrow> int" where
  "firstNonZero a b = (if a \<noteq> 0 then a else b)"

section \<open>Interface identities (gateway_identity.go)\<close>

definition gatewayPortRole :: "port \<Rightarrow> string" where
  "gatewayPortRole p =
     (let role = normalizeGatewayRole (pRole p) in
      if role \<noteq> [] then role
      else if pIndex p = 1 then gatewayPortRoleWAN
      else if pIndex p = 2 then gatewayPortRoleLAN
      else if pIndex p = 3 then gatewayPortRoleWAN2
      else gatewayPortRoleLAN)"

definition gatewayNetworkGroup :: "port \<Rightarrow> string" where
  "gatewayNetworkGroup p =
     (let networkGroup = normalizeNetworkGroup (pNetworkGroup p) in
      if networkGroup \<noteq> [] then networkGroup
      else if gatewayPortRole p = gatewayPortRoleWAN then gatewayNetworkGroupWAN
      else if gatewayPortRole p = gatewayPortRoleWAN2 then gatewayNetworkGroupWAN2
      else gatewayNetworkGroupLAN)"

definition gatewayInterfaceName :: "profile \<Rightarrow> int \<Rightarrow> string" where
  "gatewayInterfaceName prof portIndex0 =
     (let portIndex = (if portIndex0 < 1 then 1 else portIndex0);
          prefix0 = trim_space (payloadGatewayInterfacePrefix (profPayload prof));
          prefix = (if prefix0 = [] then ''eth'' else prefix0)
      in prefix @ itoa (portIndex - 1))"

definition switchInterfaceName :: "int \<Rightarrow> string" where
  "switchInterfaceName portIndex = ''eth'' @ itoa ((if portIndex < 1 then 1 else portIndex) - 1)"

text \<open>\<open>out[len(out)-1] += byte(portIndex - 1)\<close>: the last byte wraps, without a carry.\<close>

definition interfaceMAC :: "string \<Rightarrow> int \<Rightarrow> string" where
  "interfaceMAC baseMAC portIndex =
     (case ParseMAC baseMAC of
        None \<Rightarrow> baseMAC
      | Some mac \<Rightarrow> mac_string (butlast mac @ [List.last mac + word_of_int (portIndex - 1)]))"

definition portMAC :: "string \<Rightarrow> port \<Rightarrow> string" where
  "portMAC baseMAC p =
     (let mac = trim_space (pMAC p) in if mac \<noteq> [] then to_lower mac else interfaceMAC baseMAC (pIndex p))"

definition interfaceIP :: "identity \<Rightarrow> port \<Rightarrow> string" where
  "interfaceIP ident p =
     (let ip = trim_space (pIP p); role = gatewayPortRole p in
      if ip \<noteq> [] then ip
      else if role = gatewayPortRoleLAN \<or> role = gatewayPortRoleLAN2 then idIP ident
      else if role = gatewayPortRoleWAN \<or> role = gatewayPortRoleWAN2 then ''192.0.2.2''
      else gatewayNoIP)"

definition interfaceNetmask :: "port \<Rightarrow> string" where
  "interfaceNetmask p =
     (let netmask = trim_space (pNetmask p) in if netmask \<noteq> [] then netmask else ''255.255.255.0'')"

text \<open>\<open>net.IPMask.Size\<close>: the ones of a mask that is a run of ones followed by zeros.\<close>

primrec leadingOnes :: "nat \<Rightarrow> byte \<Rightarrow> nat \<times> byte" where
  "leadingOnes 0 v = (0, v)"
| "leadingOnes (Suc n) v =
     (if v AND 0x80 \<noteq> 0 then (case leadingOnes n (push_bit 1 v) of (k, w) \<Rightarrow> (Suc k, w)) else (0, v))"

fun simpleMaskLength :: "bytes \<Rightarrow> nat option" where
  "simpleMaskLength [] = Some 0"
| "simpleMaskLength (v # vs) =
     (if v = 0xff then map_option ((+) 8) (simpleMaskLength vs)
      else (case leadingOnes 8 v of (n, w) \<Rightarrow> if w \<noteq> 0 \<or> list_ex (\<lambda>x. x \<noteq> 0) vs then None else Some n))"

definition netmaskPrefixLength :: "string \<Rightarrow> int" where
  "netmaskPrefixLength netmask =
     (case Option.bind (ParseIP (trim_space netmask)) To4 of
        None \<Rightarrow> - 1
      | Some m \<Rightarrow> (case simpleMaskLength m of None \<Rightarrow> - 1 | Some n \<Rightarrow> int n))"

definition interfaceAddressCIDR :: "string \<Rightarrow> string \<Rightarrow> string" where
  "interfaceAddressCIDR ip netmask =
     (let prefix0 = netmaskPrefixLength netmask; prefix = (if prefix0 < 0 then 24 else prefix0)
      in trim_space ip @ ''/'' @ itoa prefix)"

definition cloneIPv6 :: "string list \<Rightarrow> string list" where
  "cloneIPv6 addresses = filter (\<lambda>a. a \<noteq> []) (map trim_space addresses)"

definition boolText :: "bool \<Rightarrow> string" where
  "boolText b = (if b then ''true'' else ''false'')"

section \<open>Port views (view.go)\<close>

record interface_view =
  ifvName :: string
  ifvIfName :: string
  ifvComment :: string
  ifvMAC :: string
  ifvIP :: string
  ifvNetmask :: string
  ifvIPv6 :: "string list"
  ifvAddress :: string
  ifvNetworkGroup :: string

record port_view =
  pvPort :: port
  pvIndex :: int
  pvName :: string
  pvSwitchInterfaceName :: string
  pvPhysicalIfName :: string
  pvRole :: string
  pvNetworkGroup :: string
  pvSourceInterface :: string
  pvUplink :: bool
  pvEnabled :: bool
  pvUp :: bool
  pvSpeed :: int
  pvMedia :: string
  pvMACs :: "mac_table_entry list"
  pvNeighbors :: "topology_neighbor list"
  pvTopology :: "(topology_neighbor \<times> topology_direction) option"
  pvGatewayInterface :: interface_view

text \<open>\<open>TopologyNeighbor\<close> and \<open>TopologyDirection\<close> are set together, from the last edge of the port:
  they are one optional pair.\<close>

definition lastEdge :: "topology_resolution \<Rightarrow> int \<Rightarrow> topology_edge option" where
  "lastEdge topo index = map_of (rev (map (\<lambda>e. (edgeLocalPort e, e)) (resEdges topo))) index"

definition portView :: "profile \<Rightarrow> identity \<Rightarrow> topology_resolution \<Rightarrow> port \<Rightarrow> port_view" where
  "portView prof ident topo p =
     (let speed = effectivePortSpeed p;
          networkGroup = gatewayNetworkGroup p;
          ip = interfaceIP ident p;
          netmask = interfaceNetmask p;
          gatewayName = gatewayInterfaceName prof (pIndex p)
      in \<lparr>pvPort = p, pvIndex = pIndex p, pvName = pName p,
          pvSwitchInterfaceName = switchInterfaceName (pIndex p),
          pvPhysicalIfName = gatewayInterfaceName prof (pIndex p),
          pvRole = gatewayPortRole p, pvNetworkGroup = networkGroup,
          pvSourceInterface = trim_space (pInterface p), pvUplink = pUplink p,
          pvEnabled = (\<not> pDisabled p), pvUp = pUp p, pvSpeed = speed,
          pvMedia = effectivePortMedia p speed, pvMACs = pMACs p, pvNeighbors = pNeighbors p,
          pvTopology = map_option (\<lambda>e. (edgeNeighbor e, edgeDirection e)) (lastEdge topo (pIndex p)),
          pvGatewayInterface = \<lparr>ifvName = gatewayName, ifvIfName = gatewayName, ifvComment = pName p,
            ifvMAC = portMAC (idMAC ident) p, ifvIP = ip, ifvNetmask = netmask, ifvIPv6 = cloneIPv6 (pIPv6 p),
            ifvAddress = interfaceAddressCIDR ip netmask, ifvNetworkGroup = networkGroup\<rparr>\<rparr>)"

definition BuildPortViews :: "profile \<Rightarrow> identity \<Rightarrow> port list \<Rightarrow> topology_resolution \<Rightarrow> port_view list" where
  "BuildPortViews prof ident ports topo = map (portView prof ident topo) ports"

definition interfaceAddresses :: "interface_view \<Rightarrow> string list" where
  "interfaceAddresses iface =
     (let address = trim_space (ifvAddress iface) in
      (if address \<noteq> [] then [address] else []) @ cloneIPv6 (ifvIPv6 iface))"

section \<open>LLDP rows and MAC tables (topology.go)\<close>

record lldp_row =
  lrChassisID :: string
  lrIsWired :: bool
  lrLocalPortIdx :: int
  lrLocalPortName :: string
  lrPortID :: string

definition lldpRow :: "port_view \<Rightarrow> topology_neighbor \<Rightarrow> lldp_row" where
  "lldpRow v n =
     (let portID0 = trim_space (nbRemotePortID n);
          portID = (if portID0 = [] \<and> nbRemotePort n > 0 then ''Port '' @ itoa (nbRemotePort n) else portID0)
      in \<lparr>lrChassisID = to_lower (trim_space (nbMAC n)), lrIsWired = True, lrLocalPortIdx = pvIndex v,
          lrLocalPortName = pvName v, lrPortID = portID\<rparr>)"

definition lldpRows :: "port_view \<Rightarrow> lldp_row list" where
  "lldpRows v =
     (case pvTopology v of
        None \<Rightarrow> []
      | Some (sel, _) \<Rightarrow>
          map (lldpRow v) (filter (\<lambda>n. nbSource n = NeighborSourceLLDP \<and>
             to_lower (trim_space (nbMAC n)) = to_lower (trim_space (nbMAC sel))) (pvNeighbors v)))"

definition lldpTable :: "port_view list \<Rightarrow> lldp_row list" where
  "lldpTable ports = concat (map lldpRows ports)"

definition topologyMACEntry :: "topology_neighbor \<Rightarrow> mac_table_entry" where
  "topologyMACEntry n =
     \<lparr>macMAC = to_lower (trim_space (nbMAC n)), macHostname = trim_space (nbHostname n),
      macIP = trim_space (nbIP n), macAge = firstNonZero (nbAge n) 4, macUptime = firstNonZero (nbUptime n) 1200,
      macVLAN = nbVLAN n, macStatic = nbStatic n, macType = trim_space (nbDeviceType n)\<rparr>"

definition downstreamMACTable :: "port_view \<Rightarrow> mac_table_entry list" where
  "downstreamMACTable v =
     (case pvTopology v of
        Some (n, DirectionDownstream) \<Rightarrow> [topologyMACEntry n]
      | _ \<Rightarrow> []) @ pvMACs v"

section \<open>Telemetry helpers (telemetry_helpers.go)\<close>

definition formatUptime :: "int \<Rightarrow> string" where
  "formatUptime seconds0 =
     (let s = (if seconds0 < 1 then 1 else seconds0);
          days = go_div s 86400; s = s - go_div s 86400 * 86400;
          hours = go_div s 3600; s = s - go_div s 3600 * 3600;
          minutes = go_div s 60; s = s - go_div s 60 * 60
      in if days > 0 then itoa days @ ''d'' @ itoa hours @ ''h'' @ itoa minutes @ ''m'' @ itoa s @ ''s''
         else if hours > 0 then itoa hours @ ''h'' @ itoa minutes @ ''m'' @ itoa s @ ''s''
         else if minutes > 0 then itoa minutes @ ''m'' @ itoa s @ ''s''
         else itoa s @ ''s'')"

definition gatewaySysID :: "string \<Rightarrow> int" where
  "gatewaySysID macText =
     (case ParseMAC macText of
        None \<Rightarrow> 42615
      | Some mac \<Rightarrow> if length mac < 2 then 42615
          else uint (mac ! (length mac - 2)) * 256 + uint (mac ! (length mac - 1)))"

section \<open>Names tell ports apart\<close>

lemma digits_value_snoc: "digits_value (s @ [c]) = digits_value s * 10 + (ord c - 48)"
  by (simp add: digits_value_def)

lemma digits_value_itoa [simp]: "digits_value (nat_itoa n) = n"
proof (induction n rule: nat_itoa.induct)
  case (1 n)
  have d: "ord (char_of (48 + k) :: char) - 48 = k" if "k < 10" for k :: nat
    using that by simp
  show ?case
  proof (cases "n < 10")
    case True
    then show ?thesis using d [of n] by (subst nat_itoa.simps) (simp add: digits_value_def)
  next
    case False
    then show ?thesis using 1 d [of "n mod 10"] by (subst nat_itoa.simps) (simp add: digits_value_snoc)
  qed
qed

lemma nat_itoa_inject: "nat_itoa m = nat_itoa n \<longleftrightarrow> m = n"
  by (metis digits_value_itoa)

lemma itoa_inject: "0 \<le> i \<Longrightarrow> 0 \<le> j \<Longrightarrow> itoa i = itoa j \<longleftrightarrow> i = j"
  by (simp add: itoa_def nat_itoa_inject nat_eq_iff)

lemma gatewayInterfaceName_inject:
  assumes "1 \<le> i" and "1 \<le> j"
  shows "gatewayInterfaceName prof i = gatewayInterfaceName prof j \<longleftrightarrow> i = j"
  using assms itoa_inject [of "i - 1" "j - 1"] by (simp add: gatewayInterfaceName_def Let_def)

lemma mac_string_inject: "length a = length b \<Longrightarrow> mac_string a = mac_string b \<longleftrightarrow> a = b"
  by (metis mac_groups_string option.inject)

lemma interfaceMAC_inject:
  assumes "ParseMAC baseMAC = Some mac"
  shows "interfaceMAC baseMAC i = interfaceMAC baseMAC j \<longleftrightarrow> 256 dvd (i - j)"
proof -
  have p: "(2 :: int) ^ LENGTH(8) = 256" by simp
  have "interfaceMAC baseMAC i = interfaceMAC baseMAC j \<longleftrightarrow> (word_of_int (i - 1) :: byte) = word_of_int (j - 1)"
    using assms unfolding interfaceMAC_def option.case mac_string_inject
    by (simp add: mac_string_inject del: word_of_int_eq_iff wi_hom_syms)
  also have "\<dots> \<longleftrightarrow> (i - 1) mod 256 = (j - 1) mod 256"
    unfolding word_of_int_eq_iff take_bit_eq_mod p by (rule refl)
  also have "\<dots> \<longleftrightarrow> 256 dvd (i - j)" unfolding mod_eq_dvd_iff by simp
  finally show ?thesis .
qed

section \<open>Netmasks\<close>

definition byte_bits :: "byte \<Rightarrow> bool list" where
  "byte_bits v = map (bit v) [7, 6, 5, 4, 3, 2, 1, 0]"

lemma length_byte_bits [simp]: "length (byte_bits v) = 8"
  by (simp add: byte_bits_def)

lemma byte_bits_eq: "byte_bits v = byte_bits w \<longleftrightarrow> v = w"
proof
  assume eq: "byte_bits v = byte_bits w"
  have "bit v n = bit w n" if "n < LENGTH(8)" for n
  proof -
    have "n = 7 \<or> n = 6 \<or> n = 5 \<or> n = 4 \<or> n = 3 \<or> n = 2 \<or> n = 1 \<or> n = 0"
      using that by simp linarith
    then show ?thesis using eq by (elim disjE) (simp_all add: byte_bits_def)
  qed
  then show "v = w" by (rule bit_word_eqI)
qed simp

lemma byte_bits_zero: "list_ex (\<lambda>x. x) (byte_bits v) \<longleftrightarrow> v \<noteq> 0"
  using byte_bits_eq [of v 0] by (auto simp: byte_bits_def)

lemma byte_bits_push: "byte_bits (push_bit 1 v) = tl (byte_bits v) @ [False]"
  by (simp only: byte_bits_def list.map list.sel append.simps bit_push_bit_iff) simp

lemma byte_bits_hd: "v AND 0x80 \<noteq> 0 \<longleftrightarrow> hd (byte_bits v)"
  using bit_iff_and_push_bit_not_eq_0 [of v 7] by (simp add: byte_bits_def)

lemma leadingOnes_bits:
  assumes "n \<le> 8" and "leadingOnes n v = (k, w)"
  shows "k = length (takeWhile (\<lambda>x. x) (take n (byte_bits v))) \<and> byte_bits w = drop k (byte_bits v) @ replicate k False"
  using assms
proof (induction n arbitrary: v k w)
  case (Suc n)
  obtain b bs where v: "byte_bits v = b # bs" by (cases "byte_bits v") (auto simp: byte_bits_def)
  then have len: "length bs = 7" using length_byte_bits [of v] by simp
  show ?case
  proof (cases "v AND 0x80 = 0")
    case True
    then have "\<not> b" using byte_bits_hd [of v] v by simp
    then show ?thesis using True Suc.prems v by simp
  next
    case False
    then have b: "b" using byte_bits_hd [of v] v by simp
    obtain j where j: "leadingOnes n (push_bit 1 v) = (j, w)" "k = Suc j"
      using Suc.prems(2) False by (auto split: prod.splits)
    have p: "byte_bits (push_bit 1 v) = bs @ [False]" using byte_bits_push [of v] v by simp
    have "j = length (takeWhile (\<lambda>x. x) (take n (bs @ [False])))"
      and w: "byte_bits w = drop j (bs @ [False]) @ replicate j False"
      using Suc.IH [OF _ j(1)] Suc.prems(1) p by simp_all
    then have jn: "j = length (takeWhile (\<lambda>x. x) (take n bs))" using len Suc.prems(1) by simp
    also have "\<dots> \<le> length (take n bs)" by (rule length_takeWhile_le)
    finally have "j \<le> length bs" by simp
    then show ?thesis using v b jn w j(2) by (simp add: replicate_append_same [symmetric])
  qed
qed simp

lemma byte_bits_ff: "byte_bits v = replicate 8 True \<longleftrightarrow> v = 0xff"
proof -
  have "byte_bits 0xff = replicate 8 True" by code_simp
  then show ?thesis using byte_bits_eq [of v "0xff"] by metis
qed

lemma byte_bits_0: "byte_bits v = replicate 8 False \<longleftrightarrow> v = 0"
proof -
  have "byte_bits 0 = replicate 8 False" by code_simp
  then show ?thesis using byte_bits_eq [of v 0] by metis
qed

lemma append_eq_split: "length xs = n \<Longrightarrow> xs @ ys = zs \<longleftrightarrow> xs = take n zs \<and> ys = drop n zs"
  by (auto simp: append_eq_conv_conj)

lemma mask_zeros: "concat (map byte_bits vs) = replicate (8 * length vs) False \<longleftrightarrow> \<not> list_ex (\<lambda>x. x \<noteq> 0) vs"
proof (induction vs)
  case (Cons v vs)
  have "concat (map byte_bits (v # vs)) = replicate (8 * length (v # vs)) False \<longleftrightarrow>
      byte_bits v = replicate 8 False \<and> concat (map byte_bits vs) = replicate (8 * length vs) False"
    using append_eq_split [of "byte_bits v" 8 "concat (map byte_bits vs)" "replicate (8 * length (v # vs)) False"] by simp
  then show ?case using Cons.IH byte_bits_0 [of v] by simp
qed simp

lemma leadingOnes_byte:
  assumes "leadingOnes 8 v = (k, w)"
  shows "w = 0 \<longleftrightarrow> byte_bits v = replicate k True @ replicate (8 - k) False"
    and "k \<le> 8" and "byte_bits v = replicate n True @ replicate (8 - n) False \<Longrightarrow> n \<le> 8 \<Longrightarrow> k = n"
proof -
  have k: "k = length (takeWhile (\<lambda>x. x) (byte_bits v))"
    and w: "byte_bits w = drop k (byte_bits v) @ replicate k False"
    using leadingOnes_bits [OF _ assms] by simp_all
  show k8: "k \<le> 8" using length_takeWhile_le [of "\<lambda>x. x" "byte_bits v"] k by simp
  have tw: "takeWhile (\<lambda>x. x) (byte_bits v) = replicate k True"
    unfolding k by (rule replicate_length_same [symmetric]) (auto dest: set_takeWhileD)
  then have bits: "byte_bits v = replicate k True @ drop k (byte_bits v)"
    using takeWhile_dropWhile_id [of "\<lambda>x. x" "byte_bits v"] k by (metis dropWhile_eq_drop)
  have z: "replicate 8 False = replicate (8 - k) False @ replicate k False"
    using k8 by (simp add: replicate_add [symmetric])
  have "w = 0 \<longleftrightarrow> drop k (byte_bits v) @ replicate k False = replicate (8 - k) False @ replicate k False"
    using byte_bits_0 [of w] w z by simp
  also have "\<dots> \<longleftrightarrow> byte_bits v = replicate k True @ replicate (8 - k) False"
    using bits by (metis append_same_eq same_append_eq)
  finally show "w = 0 \<longleftrightarrow> byte_bits v = replicate k True @ replicate (8 - k) False" .
  show "k = n" if "byte_bits v = replicate n True @ replicate (8 - n) False" "n \<le> 8"
    using k unfolding that(1) by (cases "8 - n") (simp_all add: takeWhile_append)
qed

text \<open>The mask length is found exactly for the masks that are ones followed by zeros.\<close>

lemma simpleMaskLength_bits:
  "simpleMaskLength bs = Some n \<longleftrightarrow>
     n \<le> 8 * length bs \<and> concat (map byte_bits bs) = replicate n True @ replicate (8 * length bs - n) False"
proof (induction bs arbitrary: n)
  case (Cons v vs)
  let ?r = "replicate n True @ replicate (8 * length (v # vs) - n) False"
  have split: "concat (map byte_bits (v # vs)) = ?r \<longleftrightarrow>
      byte_bits v = take 8 ?r \<and> concat (map byte_bits vs) = drop 8 ?r"
    using append_eq_split [of "byte_bits v" 8] by simp
  show ?case
  proof (cases "8 \<le> n")
    case True
    then have "concat (map byte_bits (v # vs)) = ?r \<longleftrightarrow> v = 0xff \<and>
        concat (map byte_bits vs) = replicate (n - 8) True @ replicate (8 * length vs - (n - 8)) False"
      unfolding split byte_bits_ff [symmetric] by (simp add: add.commute)
    moreover have "simpleMaskLength (v # vs) = Some n \<longleftrightarrow> v = 0xff \<and> simpleMaskLength vs = Some (n - 8)"
    proof (cases "v = 0xff")
      case False
      obtain k w where k: "leadingOnes 8 v = (k, w)" by fastforce
      have "w \<noteq> 0" if "k = 8" using leadingOnes_byte(1) [OF k] byte_bits_ff [of v] False that by simp
      then have "simpleMaskLength (v # vs) \<noteq> Some n" using False k leadingOnes_byte(2) [OF k] True by auto
      then show ?thesis using False by blast
    next
      case v: True
      then show ?thesis using True by (cases "simpleMaskLength vs") auto
    qed
    ultimately show ?thesis using Cons.IH [of "n - 8"] True by auto
  next
    case False
    then have "concat (map byte_bits (v # vs)) = ?r \<longleftrightarrow>
        byte_bits v = replicate n True @ replicate (8 - n) False \<and> \<not> list_ex (\<lambda>x. x \<noteq> 0) vs"
      unfolding split mask_zeros [symmetric] by simp
    moreover have "simpleMaskLength (v # vs) = Some n \<longleftrightarrow>
        byte_bits v = replicate n True @ replicate (8 - n) False \<and> \<not> list_ex (\<lambda>x. x \<noteq> 0) vs"
    proof (cases "v = 0xff")
      case True
      have "False \<in> set (replicate n True @ replicate (8 - n) False)" using False by simp
      moreover have "False \<notin> set (byte_bits v)" using True byte_bits_ff [of v] by simp
      ultimately have "byte_bits v \<noteq> replicate n True @ replicate (8 - n) False" by metis
      moreover have "simpleMaskLength (v # vs) \<noteq> Some n" using True False by (cases "simpleMaskLength vs") simp_all
      ultimately show ?thesis by blast
    next
      case v: False
      obtain k w where k: "leadingOnes 8 v = (k, w)" by fastforce
      then have "simpleMaskLength (v # vs) = Some n \<longleftrightarrow> w = 0 \<and> \<not> list_ex (\<lambda>x. x \<noteq> 0) vs \<and> k = n"
        using v by simp
      moreover have "n \<le> 8" using False by simp
      ultimately show ?thesis using leadingOnes_byte(1) [OF k] leadingOnes_byte(3) [OF k] by metis
    qed
    ultimately show ?thesis using False by simp
  qed
qed simp

end
