(* ===== verification/Payload_Switch.thy ===== *)
theory Payload_Switch
  imports Payload_View
begin

text \<open>
  The inform payload of a switch (\<open>payload/switch.go\<close>) and the part every payload shares
  (\<open>payload/base.go\<close>).

  The lemmas show that a row never carries traffic no source reported, that the rows repeat the
  port views in order, and that the root summary is the selected uplink seen from the device: the
  directions of the uplink's own row are swapped and nothing else is counted.
\<close>

section \<open>The shared part (base.go)\<close>

record base_payload =
  bpMAC :: string
  bpIP :: string
  bpHostname :: string
  bpModel :: string
  bpModelDisplay :: string
  bpType :: string
  bpVersion :: string
  bpSerial :: string
  bpNumPort :: int
  bpState :: int
  bpAdopted :: bool
  bpDefault :: bool
  bpDiscoveryResponse :: bool
  bpRequiredVersion :: string
  bpCFGVersion :: string
  bpUptime :: int
  bpTime :: int
  bpInformURL :: string
  bpManagementVLAN :: int
  bpInformIP :: string

definition identityUptime :: "int \<Rightarrow> int" where
  "identityUptime uptime = (if uptime < 1 then 1 else uptime)"

text \<open>\<open>InformState\<close> as the code's integer: \<open>InformStateUnknown\<close> is 0, \<open>InformStateUpgrade\<close> is 4.\<close>

definition informStateValid :: "int \<Rightarrow> bool" where
  "informStateValid state \<longleftrightarrow> 0 \<le> state \<and> state \<le> 4"

definition informState :: "identity \<Rightarrow> int option" where
  "informState ident =
     (if idInformStateSet ident then (if informStateValid (idInformState ident) then Some (idInformState ident) else None)
      else if idAdopted ident then Some 2 else Some 1)"

section \<open>Rows (switch.go)\<close>

record switch_interface_row =
  siName :: string
  siMAC :: string
  siIP :: string
  siNumPort :: int
  siUp :: bool
  siSpeed :: int
  siFullDuplex :: bool
  siVLAN :: int
  siManagementVLAN :: int
  siCounters :: counter_fields
  siByteRates :: optional_rate_fields
  siBitRates :: gateway_rate_fields

record switch_ethernet_row =
  seName :: string
  seMAC :: string
  seNumPort :: "int option"

record switch_last_connection =
  scConnected :: bool
  scMAC :: string
  scIP :: string
  scHostname :: string
  scType :: string

record switch_port_row =
  spPortIdx :: int
  spIfName :: string
  spName :: string
  spEnable :: bool
  spUp :: bool
  spIsUplink :: bool
  spOpMode :: string
  spFullDuplex :: bool
  spAutoneg :: bool
  spFlowctrlRX :: bool
  spFlowctrlTX :: bool
  spPortPOE :: bool
  spPOEEnable :: bool
  spPOECaps :: int
  spSatisfaction :: int
  spSTPState :: string
  spSTPPathcost :: int
  spMACTable :: "mac_table_entry list"
  spLastConnection :: "switch_last_connection option"
  spLink :: link_fields
  spCounters :: counter_fields
  spByteRates :: optional_rate_fields
  spBitRates :: gateway_rate_fields
  spSourceInterface :: string

record switch_last_uplink_row =
  suPortIdx :: int
  suUplinkMAC :: string
  suUplinkRemotePort :: int
  suType :: string

record traffic_summary =
  tsBytes :: "int option"
  tsRXBytes :: "int option"
  tsTXBytes :: "int option"
  tsBytesRate :: "int option"
  tsRXBytesRate :: "int option"
  tsTXBytesRate :: "int option"
  tsRXRate :: "int option"
  tsTXRate :: "int option"

definition emptySummary :: traffic_summary where
  "emptySummary = \<lparr>tsBytes = None, tsRXBytes = None, tsTXBytes = None, tsBytesRate = None, tsRXBytesRate = None,
     tsTXBytesRate = None, tsRXRate = None, tsTXRate = None\<rparr>"

record switch_payload =
  swBase :: base_payload
  swSummary :: traffic_summary
  swIfTable :: "switch_interface_row list"
  swEthernetTable :: "switch_ethernet_row list"
  swPortTable :: "switch_port_row list"
  swUplink :: string
  swLastUplink :: "switch_last_uplink_row option"
  swLLDPTable :: "lldp_row list"

section \<open>The selected uplink\<close>

definition switchInterfaceCountersFor :: "port_view list \<Rightarrow> counter_fields" where
  "switchInterfaceCountersFor ports =
     (case find pvUplink ports of None \<Rightarrow> emptyCounters | Some v \<Rightarrow> portCounterFields (pvPort v))"

definition switchInterfaceRatesFor :: "port_view list \<Rightarrow> optional_rate_fields \<times> gateway_rate_fields" where
  "switchInterfaceRatesFor ports =
     (case find pvUplink ports of
        None \<Rightarrow> (emptyRates, emptyBitRates)
      | Some v \<Rightarrow>
          if \<not> pTrafficRatesSet (pvPort v) then (emptyRates, emptyBitRates)
          else (case portRateFields (pvPort v) of (rx, tx) \<Rightarrow>
            (\<lparr>orBytesRate = Some (wrap64 (rx + tx)), orRXBytesRate = Some rx, orTXBytesRate = Some tx\<rparr>,
             \<lparr>grRXRate = Some (bitsPerSecond rx), grTXRate = Some (bitsPerSecond tx)\<rparr>)))"

definition upstreamView :: "port_view \<Rightarrow> bool" where
  "upstreamView v \<longleftrightarrow> (case pvTopology v of Some (_, DirectionUpstream) \<Rightarrow> True | _ \<Rightarrow> False)"

definition switchLastUplinkRowFor :: "port_view list \<Rightarrow> switch_last_uplink_row option" where
  "switchLastUplinkRowFor ports =
     (case find upstreamView ports of
        None \<Rightarrow> None
      | Some v \<Rightarrow>
          map_option (\<lambda>(n, _). \<lparr>suPortIdx = pvIndex v, suUplinkMAC = to_lower (trim_space (nbMAC n)),
            suUplinkRemotePort = nbRemotePort n, suType = payloadTypeWire\<rparr>) (pvTopology v))"

text \<open>The body shared by the summaries of both renderers: the device faces its uplink, so the
  directions of the port are swapped.\<close>

definition uplinkSummary :: "port_view \<Rightarrow> traffic_summary" where
  "uplinkSummary v =
     (let p = pvPort v;
          out = (if pCountersSet p
                 then emptySummary\<lparr>tsBytes := Some (wrap64 (pRXBytes p + pTXBytes p)),
                        tsRXBytes := Some (pTXBytes p), tsTXBytes := Some (pRXBytes p)\<rparr>
                 else emptySummary)
      in if pTrafficRatesSet p
         then (let rx = (if pvUp v then pTXBytesRate p else 0); tx = (if pvUp v then pRXBytesRate p else 0)
               in out\<lparr>tsBytesRate := Some (wrap64 (rx + tx)), tsRXBytesRate := Some rx, tsTXBytesRate := Some tx,
                      tsRXRate := Some (bitsPerSecond rx), tsTXRate := Some (bitsPerSecond tx)\<rparr>)
         else out)"

definition switchTrafficSummaryFor :: "port_view list \<Rightarrow> traffic_summary" where
  "switchTrafficSummaryFor ports =
     (case find pvUplink ports of
        None \<Rightarrow> emptySummary
      | Some v \<Rightarrow>
          if \<not> pCountersSet (pvPort v) \<and> \<not> pTrafficRatesSet (pvPort v) then emptySummary else uplinkSummary v)"

section \<open>The tables\<close>

definition incrementMAC :: "string \<Rightarrow> string" where
  "incrementMAC macText =
     (case ParseMAC macText of
        None \<Rightarrow> macText
      | Some mac \<Rightarrow> mac_string (butlast mac @ [List.last mac + 1]))"

definition switchLastConnectionFor :: "mac_table_entry list \<Rightarrow> switch_last_connection option" where
  "switchLastConnectionFor entries =
     (case entries of
        [] \<Rightarrow> None
      | e # _ \<Rightarrow> Some \<lparr>scConnected = True, scMAC = macMAC e, scIP = macIP e, scHostname = macHostname e,
                       scType = macType e\<rparr>)"

definition portRow :: "port_view \<Rightarrow> switch_port_row" where
  "portRow v =
     (let p = pvPort v;
          macTable = downstreamMACTable v;
          link = (if pvUplink v \<and> pSpeed p \<le> 0 then portLinkFields 0 (effectivePortMedia p 0)
                  else portLinkFields (pvSpeed v) (pvMedia v));
          bitRates = (if pvUplink v \<and> pTrafficRatesSet p
                      then (case portRateFields p of (rx, tx) \<Rightarrow>
                        \<lparr>grRXRate = Some (bitsPerSecond rx), grTXRate = Some (bitsPerSecond tx)\<rparr>)
                      else emptyBitRates)
      in \<lparr>spPortIdx = pvIndex v, spIfName = pvSwitchInterfaceName v, spName = pvName v, spEnable = pvEnabled v,
          spUp = pvUp v, spIsUplink = pvUplink v, spOpMode = payloadModeSwitch, spFullDuplex = True,
          spAutoneg = True, spFlowctrlRX = False, spFlowctrlTX = False, spPortPOE = False, spPOEEnable = False,
          spPOECaps = 0, spSatisfaction = 100, spSTPState = ''forwarding'', spSTPPathcost = 20000,
          spMACTable = macTable, spLastConnection = switchLastConnectionFor macTable, spLink = link,
          spCounters = portCounterFields p, spByteRates = explicitPortRateFields p, spBitRates = bitRates,
          spSourceInterface = pvSourceInterface v\<rparr>)"

definition portTable :: "port_view list \<Rightarrow> switch_port_row list" where
  "portTable ports = map portRow ports"

definition managementInterfaceSpeed :: "port list \<Rightarrow> int" where
  "managementInterfaceSpeed ports =
     (case find (\<lambda>p. pUplink p \<and> pSpeed p > 0) ports of
        Some p \<Rightarrow> pSpeed p
      | None \<Rightarrow> if ports \<noteq> [] \<and> pSpeed (hd ports) > 0 then pSpeed (hd ports) else 0)"

definition managementSpeed :: "port list \<Rightarrow> int" where
  "managementSpeed ports = (let speed = managementInterfaceSpeed ports in if speed > 0 then speed else 1000)"

definition switchManagementInterfaceRow ::
  "string \<Rightarrow> identity \<Rightarrow> port_view list \<Rightarrow> int \<Rightarrow> int \<Rightarrow> switch_interface_row" where
  "switchManagementInterfaceRow ifaceName ident ports numPorts ifSpeed =
     (case switchInterfaceRatesFor ports of (byteRates, bitRates) \<Rightarrow>
        \<lparr>siName = ifaceName, siMAC = idMAC ident, siIP = idIP ident, siNumPort = numPorts, siUp = True,
         siSpeed = ifSpeed, siFullDuplex = True, siVLAN = idManagementVLAN ident,
         siManagementVLAN = idManagementVLAN ident, siCounters = switchInterfaceCountersFor ports,
         siByteRates = byteRates, siBitRates = bitRates\<rparr>)"

definition buildSwitchPayload ::
  "base_payload \<Rightarrow> profile \<Rightarrow> identity \<Rightarrow> port_view list \<Rightarrow> int \<Rightarrow> int \<Rightarrow> switch_payload" where
  "buildSwitchPayload base prof ident ports numPorts ifSpeed =
     (let name0 = payloadManagementInterface (profPayload prof);
          ifaceName = (if trim_space name0 = [] then ''eth0'' else name0)
      in \<lparr>swBase = base, swSummary = switchTrafficSummaryFor ports,
          swIfTable = [switchManagementInterfaceRow ifaceName ident ports numPorts ifSpeed],
          swEthernetTable = [\<lparr>seName = ifaceName, seMAC = idMAC ident, seNumPort = Some numPorts\<rparr>,
             \<lparr>seName = ''srv0'', seMAC = incrementMAC (idMAC ident), seNumPort = None\<rparr>],
          swPortTable = portTable ports, swUplink = ifaceName,
          swLastUplink = switchLastUplinkRowFor ports, swLLDPTable = lldpTable ports\<rparr>)"

section \<open>Only observed traffic\<close>

lemma portCounterFields_simps [simp]:
  "\<not> pCountersSet p \<Longrightarrow> portCounterFields p = emptyCounters"
  "cfRXBytes (portCounterFields p) = (if pCountersSet p then Some (pRXBytes p) else None)"
  "cfTXBytes (portCounterFields p) = (if pCountersSet p then Some (pTXBytes p) else None)"
  "cfRXPackets (portCounterFields p) = (if pCountersSet p then Some (pRXPackets p) else None)"
  "cfTXPackets (portCounterFields p) = (if pCountersSet p then Some (pTXPackets p) else None)"
  "cfRXErrors (portCounterFields p) = (if pCountersSet p then Some (pRXErrors p) else None)"
  "cfTXErrors (portCounterFields p) = (if pCountersSet p then Some (pTXErrors p) else None)"
  by (simp_all add: portCounterFields_def emptyCounters_def)

lemma explicitPortRateFields_simps [simp]:
  "orRXBytesRate (explicitPortRateFields p) = (if pTrafficRatesSet p then Some (fst (portRateFields p)) else None)"
  "orTXBytesRate (explicitPortRateFields p) = (if pTrafficRatesSet p then Some (snd (portRateFields p)) else None)"
  "orBytesRate (explicitPortRateFields p) =
     (if pTrafficRatesSet p then Some (wrap64 (fst (portRateFields p) + snd (portRateFields p))) else None)"
  by (simp_all add: explicitPortRateFields_def emptyRates_def split: prod.splits)

lemma gatewayPortRateFields_simps [simp]:
  "grRXRate (gatewayPortRateFields p) =
     (if pTrafficRatesSet p then Some (bitsPerSecond (fst (portRateFields p))) else None)"
  "grTXRate (gatewayPortRateFields p) =
     (if pTrafficRatesSet p then Some (bitsPerSecond (snd (portRateFields p))) else None)"
  by (simp_all add: gatewayPortRateFields_def emptyBitRates_def split: prod.splits)

lemma portRateFields_down [simp]: "\<not> pUp p \<Longrightarrow> portRateFields p = (0, 0)"
  by (simp add: portRateFields_def)

lemma uplinkSummary_swaps:
  assumes "pvUp v = pUp (pvPort v)"
  shows "tsRXBytes (uplinkSummary v) = cfTXBytes (portCounterFields (pvPort v))"
    and "tsTXBytes (uplinkSummary v) = cfRXBytes (portCounterFields (pvPort v))"
    and "tsRXBytesRate (uplinkSummary v) = orTXBytesRate (explicitPortRateFields (pvPort v))"
    and "tsTXBytesRate (uplinkSummary v) = orRXBytesRate (explicitPortRateFields (pvPort v))"
    and "tsBytesRate (uplinkSummary v) = orBytesRate (explicitPortRateFields (pvPort v))"
    and "tsRXRate (uplinkSummary v) = grTXRate (gatewayPortRateFields (pvPort v))"
    and "tsTXRate (uplinkSummary v) = grRXRate (gatewayPortRateFields (pvPort v))"
  using assms
  by (simp_all add: uplinkSummary_def emptySummary_def Let_def portRateFields_def add.commute)

lemma uplinkSummary_silent:
  "\<not> pCountersSet (pvPort v) \<Longrightarrow> \<not> pTrafficRatesSet (pvPort v) \<Longrightarrow> uplinkSummary v = emptySummary"
  by (simp add: uplinkSummary_def Let_def)

lemma switchTrafficSummaryFor_eq:
  "switchTrafficSummaryFor ports = (case find pvUplink ports of None \<Rightarrow> emptySummary | Some v \<Rightarrow> uplinkSummary v)"
  by (simp add: switchTrafficSummaryFor_def uplinkSummary_silent split: option.splits)

lemma switchInterfaceRatesFor_eq:
  "switchInterfaceRatesFor ports =
     (case find pvUplink ports of
        None \<Rightarrow> (emptyRates, emptyBitRates)
      | Some v \<Rightarrow> (explicitPortRateFields (pvPort v), gatewayPortRateFields (pvPort v)))"
  by (simp add: switchInterfaceRatesFor_def explicitPortRateFields_def gatewayPortRateFields_def
      split: option.splits prod.splits)

lemma portRow_fields:
  "spPortIdx (portRow v) = pvIndex v" "spUp (portRow v) = pvUp v" "spEnable (portRow v) = pvEnabled v"
  "spIsUplink (portRow v) = pvUplink v" "spCounters (portRow v) = portCounterFields (pvPort v)"
  "spByteRates (portRow v) = explicitPortRateFields (pvPort v)"
  "pvUplink v \<Longrightarrow> spBitRates (portRow v) = gatewayPortRateFields (pvPort v)"
  "\<not> pvUplink v \<Longrightarrow> spBitRates (portRow v) = emptyBitRates"
  "spMACTable (portRow v) = downstreamMACTable v" "spIfName (portRow v) = pvSwitchInterfaceName v"
  by (simp_all add: portRow_def Let_def gatewayPortRateFields_def split: prod.splits)

lemma portView_fields:
  "pvPort (portView prof ident topo p) = p" "pvIndex (portView prof ident topo p) = pIndex p"
  "pvUp (portView prof ident topo p) = pUp p" "pvEnabled (portView prof ident topo p) = (\<not> pDisabled p)"
  "pvUplink (portView prof ident topo p) = pUplink p" "pvMACs (portView prof ident topo p) = pMACs p"
  "pvNeighbors (portView prof ident topo p) = pNeighbors p"
  "pvTopology (portView prof ident topo p) =
     map_option (\<lambda>e. (edgeNeighbor e, edgeDirection e)) (lastEdge topo (pIndex p))"
  "pvSpeed (portView prof ident topo p) = effectivePortSpeed p"
  "pvSourceInterface (portView prof ident topo p) = trim_space (pInterface p)"
  "pvRole (portView prof ident topo p) = gatewayPortRole p"
  "pvPhysicalIfName (portView prof ident topo p) = gatewayInterfaceName prof (pIndex p)"
  "ifvIfName (pvGatewayInterface (portView prof ident topo p)) = gatewayInterfaceName prof (pIndex p)"
  "pvSwitchInterfaceName (portView prof ident topo p) = switchInterfaceName (pIndex p)"
  by (simp_all add: portView_def Let_def)

lemma find_map: "find P (map f xs) = map_option f (find (P \<circ> f) xs)"
  by (induction xs) simp_all

lemma find_filter_single: "filter P xs = [x] \<Longrightarrow> find P xs = Some x"
  by (induction xs) (auto split: if_splits)

text \<open>One uplink port: its row, the interface row and the root summary.\<close>

lemma uplink_views:
  assumes "filter pUplink ports = [u]"
  shows "find pvUplink (BuildPortViews prof ident ports topo) = Some (portView prof ident topo u)"
    and "filter spIsUplink (portTable (BuildPortViews prof ident ports topo)) = [portRow (portView prof ident topo u)]"
    and "pUplink u"
proof -
  have c: "pvUplink \<circ> portView prof ident topo = pUplink" by (rule ext) (simp add: portView_fields)
  show "find pvUplink (BuildPortViews prof ident ports topo) = Some (portView prof ident topo u)"
    using find_filter_single [OF assms] by (simp add: BuildPortViews_def find_map c)
  have "spIsUplink \<circ> (portRow \<circ> portView prof ident topo) = pUplink"
    by (rule ext) (simp add: portView_fields portRow_fields)
  then show "filter spIsUplink (portTable (BuildPortViews prof ident ports topo)) = [portRow (portView prof ident topo u)]"
    using assms by (simp add: BuildPortViews_def portTable_def filter_map comp_assoc)
  show "pUplink u" using assms by (metis (mono_tags) filter_eq_Cons_iff)
qed

end
