(* ===== verification/Payload_Gateway.thy ===== *)
theory Payload_Gateway
  imports Payload_Switch
begin

text \<open>
  The tables of the gateway payload (\<open>payload/gateway_tables.go\<close>, \<open>gateway_network.go\<close>,
  \<open>gateway_neighbors.go\<close>, \<open>gateway_health.go\<close>, with the row types of \<open>gateway_types.go\<close>).

  A logical interface is rendered once: \<open>logicalInterfacePorts\<close> keeps, for every interface name, the
  view with the strongest signal. The lemmas show that against a reference definition, that ports
  with distinct indices never compete for a name, and which port each summary row is taken from.
\<close>

section \<open>Row types (gateway_types.go)\<close>

record gateway_last_connection =
  gcMAC :: string
  gcSource :: string
  gcIP :: string
  gcHostname :: string
  gcType :: string

record connection_fields =
  cnConnected :: bool
  cnLastConnection :: "gateway_last_connection option"

record gateway_network_stats =
  nsCounters :: counter_fields
  nsByteRates :: optional_rate_fields
  nsBitRates :: gateway_rate_fields

record gateway_assignment_fields =
  gaPortConfID :: string
  gaNetworkConfID :: string
  gaNativeNetworkConfID :: string
  gaNetworkName :: string
  gaVLAN :: int

record gateway_ethernet_table_row =
  etMAC :: string
  etPortIdx :: int
  etNumPort :: int
  etName :: string
  etIfName :: string
  etMedia :: string
  etPortPOE :: bool
  etSpeedCaps :: int

record gateway_if_row =
  giName :: string
  giIfName :: string
  giComment :: string
  giPortIdx :: int
  giMAC :: string
  giIP :: string
  giNetmask :: string
  giIPv6 :: "string list"
  giNumPort :: int
  giUp :: bool
  giEnable :: bool
  giNetworkGroup :: string
  giFullDuplex :: bool
  giPhysicalPorts :: "int list"
  giVLAN :: int
  giManagementVLAN :: int
  giLink :: link_fields
  giCounters :: counter_fields
  giByteRates :: optional_rate_fields
  giBitRates :: gateway_rate_fields
  giSourceInterface :: string
  giConnection :: connection_fields

record gateway_host_row =
  ghMAC :: string
  ghAge :: int
  ghAuthorized :: bool
  ghUptime :: int
  ghHostname :: string
  ghIP :: string
  ghType :: string
  ghVLAN :: int
  ghStatic :: bool

record gateway_network_row =
  gnName :: string
  gnIfName :: string
  gnGatewayInterfaceName :: string
  gnPortIdx :: int
  gnMAC :: string
  gnNetworkGroup :: string
  gnIP :: string
  gnNetmask :: string
  gnAddress :: string
  gnAddresses :: "string list"
  gnUp :: string
  gnL1Up :: string
  gnAutoneg :: string
  gnDuplex :: string
  gnSpeed :: string
  gnMaxSpeed :: string
  gnMTU :: string
  gnStats :: gateway_network_stats
  gnSourceInterface :: string
  gnConnection :: connection_fields
  gnHostTable :: "gateway_host_row list"

record gateway_config_network_row =
  wcType :: string
  wcName :: string
  wcIfName :: string
  wcPortIdx :: int
  wcNetworkGroup :: string
  wcUplinkIfName :: string
  wcIP :: "string option"
  wcNetmask :: "string option"
  wcSpeed :: "string option"
  wcAutoneg :: "bool option"
  wcFullDuplex :: "bool option"
  wcDHCPOptions :: "unit list"

record gateway_config_lan_row =
  lcName :: string
  lcIfName :: string
  lcPortIdx :: int
  lcNetworkGroup :: string
  lcIP :: "string option"
  lcNetmask :: "string option"
  lcUplinkIfName :: string
  lcNetworkConfID :: string
  lcNativeNetworkConfID :: string
  lcNetworkName :: string
  lcDHCPEnabled :: bool
  lcDHCPRangeStart :: string
  lcDHCPRangeStop :: string
  lcCIDR :: string
  lcVLAN :: int

record gateway_wan_inventory_row =
  wiEnabled :: bool
  wiInterface :: string
  wiIPv4 :: string
  wiIPv6 :: "string list"
  wiMAC :: string
  wiPlugged :: bool
  wiPort :: int
  wiType :: string

record gateway_port_row =
  gpPortIdx :: int
  gpIfName :: string
  gpName :: string
  gpMAC :: string
  gpIP :: string
  gpNetworkGroup :: string
  gpRole :: string
  gpType :: string
  gpNumPort :: int
  gpEnable :: bool
  gpUp :: bool
  gpConnected :: bool
  gpIsUplink :: bool
  gpOpMode :: string
  gpFullDuplex :: bool
  gpAutoneg :: bool
  gpFlowctrlRX :: bool
  gpFlowctrlTX :: bool
  gpPortPOE :: bool
  gpPOEEnable :: bool
  gpPOECaps :: int
  gpPOEClass :: string
  gpPOEPower :: string
  gpMACTable :: "mac_table_entry list option"
  gpMACTableIPv6 :: "mac_table_entry list option"
  gpAssignment :: gateway_assignment_fields
  gpLink :: gateway_port_link_fields
  gpCounters :: counter_fields
  gpByteRates :: optional_rate_fields
  gpBitRates :: gateway_rate_fields
  gpSourceInterface :: string
  gpConnection :: connection_fields

record gateway_port_stats_row =
  gsPortIdx :: int
  gsName :: string
  gsIfName :: string
  gsMAC :: string
  gsType :: string
  gsNumPort :: int
  gsMedia :: string
  gsSpeed :: int
  gsSpeedCaps :: int
  gsEnable :: bool
  gsUp :: bool
  gsIsUplink :: bool
  gsFullDuplex :: bool
  gsAutoneg :: bool
  gsFlowctrlRX :: bool
  gsFlowctrlTX :: bool
  gsPortPOE :: bool
  gsPOEEnable :: bool
  gsPOEClass :: string
  gsPOEPower :: string
  gsMACTable :: "mac_table_entry list option"
  gsCounters :: counter_fields
  gsByteRates :: optional_rate_fields
  gsBitRates :: gateway_rate_fields

record gateway_config_port_row =
  gfName :: string
  gfIfName :: string
  gfPortIdx :: int
  gfNetworkGroup :: string
  gfRole :: string
  gfUp :: bool
  gfEnable :: bool
  gfIsUplink :: bool
  gfAssignment :: gateway_assignment_fields
  gfLink :: link_fields
  gfSourceInterface :: string
  gfConnection :: connection_fields

record gateway_ethernet_override_row =
  eoName :: string
  eoIfName :: string
  eoPortIdx :: int
  eoMAC :: string
  eoNetworkGroup :: string
  eoRole :: string
  eoUp :: bool
  eoEnable :: bool
  eoDisabled :: bool
  eoAssignment :: gateway_assignment_fields
  eoLink :: link_fields
  eoSourceInterface :: string
  eoConnection :: connection_fields

record gateway_reported_network_row =
  rnName :: string
  rnIfName :: string
  rnPortIdx :: int
  rnNetworkGroup :: string
  rnType :: string
  rnIP :: string
  rnNetmask :: string
  rnAddress :: string
  rnAddresses :: "string list"
  rnUp :: bool
  rnSourceInterface :: string
  rnConnection :: connection_fields

record gateway_uplink_row =
  guName :: string
  guIfName :: string
  guPortIdx :: int
  guMAC :: string
  guType :: string
  guNetworkGroup :: string
  guUplinkIfName :: string
  guIP :: string
  guUp :: bool
  guEnable :: bool
  guFullDuplex :: bool
  guVLAN :: int
  guManagementVLAN :: int
  guLink :: link_fields
  guCounters :: counter_fields
  guByteRates :: optional_rate_fields
  guBitRates :: gateway_rate_fields
  guSourceInterface :: string
  guConnection :: connection_fields

section \<open>Connections and clients (gateway_neighbors.go)\<close>

definition neighborConnection :: "topology_neighbor \<Rightarrow> gateway_last_connection" where
  "neighborConnection n =
     \<lparr>gcMAC = to_lower (trim_space (nbMAC n)), gcSource = connectionSourceMACTable, gcIP = trim_space (nbIP n),
      gcHostname = trim_space (nbHostname n), gcType = trim_space (nbDeviceType n)\<rparr>"

definition clientConnection :: "mac_table_entry \<Rightarrow> gateway_last_connection" where
  "clientConnection e =
     \<lparr>gcMAC = to_lower (trim_space (macMAC e)), gcSource = connectionSourceMACTable, gcIP = trim_space (macIP e),
      gcHostname = trim_space (macHostname e), gcType = trim_space (macType e)\<rparr>"

definition gatewayConnectionFields :: "port_view \<Rightarrow> connection_fields" where
  "gatewayConnectionFields v =
     \<lparr>cnConnected = pvUp v,
      cnLastConnection = (if \<not> pvUp v \<or> \<not> pvUplink v then None
        else (case pvTopology v of Some (n, DirectionUpstream) \<Rightarrow> Some (neighborConnection n) | _ \<Rightarrow> None))\<rparr>"

definition firstClientMAC :: "mac_table_entry list \<Rightarrow> mac_table_entry option" where
  "firstClientMAC entries = find (\<lambda>e. trim_space (macMAC e) \<noteq> []) entries"

definition physicalConnectionFields :: "port_view \<Rightarrow> connection_fields" where
  "physicalConnectionFields v =
     \<lparr>cnConnected = pvUp v,
      cnLastConnection = (if \<not> pvUp v then None
        else (case pvTopology v of
                Some (n, DirectionDownstream) \<Rightarrow> Some (neighborConnection n)
              | _ \<Rightarrow> map_option clientConnection (firstClientMAC (pvMACs v))))\<rparr>"

text \<open>\<open>None\<close> is the nil slice, which JSON renders as null or omits.\<close>

definition portMACTable :: "port_view \<Rightarrow> mac_table_entry list option" where
  "portMACTable v = (let out = downstreamMACTable v in if out = [] then None else Some out)"

definition gatewayHostEntryVisible :: "string \<Rightarrow> bool" where
  "gatewayHostEntryVisible entryType \<longleftrightarrow>
     (let t = to_lower (trim_space entryType) in t = [] \<or> t = deviceTypeClient)"

definition gatewayHostRow :: "mac_table_entry \<Rightarrow> gateway_host_row" where
  "gatewayHostRow e =
     \<lparr>ghMAC = to_lower (trim_space (macMAC e)), ghAge = macAge e, ghAuthorized = True,
      ghUptime = firstNonZero (macUptime e) 1200, ghHostname = trim_space (macHostname e),
      ghIP = trim_space (macIP e), ghType = trim_space (macType e),
      ghVLAN = (if macVLAN e > 0 then macVLAN e else 0), ghStatic = macStatic e\<rparr>"

definition gatewayHostTable :: "port_view \<Rightarrow> gateway_host_row list" where
  "gatewayHostTable v =
     map gatewayHostRow (filter (\<lambda>e. gatewayHostEntryVisible (trim_space (macType e))) (pMACs (pvPort v)))"

section \<open>Interfaces (gateway_tables.go)\<close>

definition physicalIfName :: "port_view \<Rightarrow> string" where
  "physicalIfName v =
     (let ifname = trim_space (pvPhysicalIfName v) in
      if ifname \<noteq> [] then ifname else trim_space (ifvIfName (pvGatewayInterface v)))"

definition gatewayIsLogicalRole :: "string \<Rightarrow> bool" where
  "gatewayIsLogicalRole role \<longleftrightarrow> normalizeGatewayRole role \<in>
     {gatewayPortRoleWAN, gatewayPortRoleWAN2, gatewayPortRoleLAN, gatewayPortRoleLAN2}"

definition gatewayInterfaceViewScore :: "port_view \<Rightarrow> int" where
  "gatewayInterfaceViewScore v =
     (if pvUp v then 4 else 0) + (if trim_space (pvSourceInterface v) \<noteq> [] then 2 else 0) +
     (if pvUplink v then 1 else 0)"

definition gatewayPreferInterfaceView :: "port_view \<Rightarrow> port_view \<Rightarrow> bool" where
  "gatewayPreferInterfaceView candidate current =
     (let a = gatewayInterfaceViewScore candidate; b = gatewayInterfaceViewScore current in
      if a \<noteq> b then a > b else pvIndex candidate < pvIndex current)"

definition logicalName :: "port_view \<Rightarrow> string" where
  "logicalName v = trim_space (ifvIfName (pvGatewayInterface v))"

text \<open>One round of the loop: \<open>out\<close> holds one view per name, so the position the code remembers in
  \<open>seen\<close> is the place of the only view with that name.\<close>

fun addLogical :: "port_view \<Rightarrow> port_view list \<Rightarrow> port_view list" where
  "addLogical v [] = [v]"
| "addLogical v (w # ws) =
     (if logicalName w = logicalName v then (if gatewayPreferInterfaceView v w then v else w) # ws
      else w # addLogical v ws)"

definition logicalInterfacePorts :: "port_view list \<Rightarrow> port_view list" where
  "logicalInterfacePorts ports =
     fold (\<lambda>v out. if \<not> gatewayIsLogicalRole (pvRole v) \<or> logicalName v = [] then out else addLogical v out) ports []"

definition uplinkViewIndex :: "port_view list \<Rightarrow> int" where
  "uplinkViewIndex ports = (case find pvUplink ports of Some v \<Rightarrow> pvIndex v | None \<Rightarrow> 1)"

definition networkName :: "port_view \<Rightarrow> string" where
  "networkName v =
     (let n = trim_space (pNetworkName (pvPort v)); g = trim_space (pvNetworkGroup v) in
      if n \<noteq> [] then n
      else if \<not> gatewayIsLogicalRole (pvRole v) then []
      else if g \<noteq> [] then to_lower g
      else to_lower (normalizeGatewayRole (pvRole v)))"

definition assignmentFields :: "port_view \<Rightarrow> gateway_assignment_fields" where
  "assignmentFields v =
     (let p = pvPort v in
      \<lparr>gaPortConfID = trim_space (pPortConfID p), gaNetworkConfID = trim_space (pNetworkConfID p),
       gaNativeNetworkConfID = trim_space (pNativeNetworkConfID p), gaNetworkName = networkName v,
       gaVLAN = pVLAN p\<rparr>)"

definition gatewayNetworkInterfaceName :: "port_view \<Rightarrow> string" where
  "gatewayNetworkInterfaceName v =
     (let role = gatewayPortRole (pvPort v) in
      if (role = gatewayPortRoleLAN \<or> role = gatewayPortRoleLAN2) \<and> physicalIfName v \<noteq> [] then physicalIfName v
      else ifvIfName (pvGatewayInterface v))"

definition portTableIP :: "port_view \<Rightarrow> string" where
  "portTableIP v =
     (let ip = trim_space (ifvIP (pvGatewayInterface v)) in if ip = gatewayNoIP then [] else ip)"

section \<open>Tables (gateway_tables.go)\<close>

definition gatewayPortRowFor :: "bool \<Rightarrow> port_view \<Rightarrow> gateway_port_row" where
  "gatewayPortRowFor macTableIPv6Requested v =
     (let iface = pvGatewayInterface v; ifname = physicalIfName v in
      \<lparr>gpPortIdx = pvIndex v, gpIfName = ifname, gpName = ifname,
       gpMAC = to_lower (trim_space (ifvMAC iface)), gpIP = portTableIP v,
       gpNetworkGroup = ifvNetworkGroup iface, gpRole = pvRole v, gpType = ''ethernet'', gpNumPort = 1,
       gpEnable = pvEnabled v, gpUp = pvUp v, gpConnected = pvUp v, gpIsUplink = pvUplink v,
       gpOpMode = payloadModeSwitch, gpFullDuplex = True, gpAutoneg = True, gpFlowctrlRX = False,
       gpFlowctrlTX = False, gpPortPOE = False, gpPOEEnable = False, gpPOECaps = 0,
       gpPOEClass = ''Class 0'', gpPOEPower = ''0.00'', gpMACTable = portMACTable v,
       gpMACTableIPv6 = (if macTableIPv6Requested then Some [] else None),
       gpAssignment = assignmentFields v, gpLink = gatewayPortLinkFieldsFor (pvSpeed v) (pvMedia v),
       gpCounters = portCounterFields (pvPort v), gpByteRates = explicitPortRateFields (pvPort v),
       gpBitRates = gatewayPortRateFields (pvPort v), gpSourceInterface = pvSourceInterface v,
       gpConnection = physicalConnectionFields v\<rparr>)"

definition gatewayPortTable :: "port_view list \<Rightarrow> bool \<Rightarrow> gateway_port_row list" where
  "gatewayPortTable ports macTableIPv6Requested = map (gatewayPortRowFor macTableIPv6Requested) ports"

definition gatewayPortStatsTable :: "port_view list \<Rightarrow> gateway_port_stats_row list" where
  "gatewayPortStatsTable ports =
     map (\<lambda>v. let iface = pvGatewayInterface v; ifname = physicalIfName v in
       \<lparr>gsPortIdx = pvIndex v, gsName = ifname, gsIfName = ifname,
        gsMAC = to_lower (trim_space (ifvMAC iface)), gsType = ''ethernet'', gsNumPort = 1,
        gsMedia = pvMedia v, gsSpeed = pvSpeed v, gsSpeedCaps = gatewaySpeedCapsCode (pvSpeed v) (pvMedia v),
        gsEnable = pvEnabled v, gsUp = pvUp v, gsIsUplink = pvUplink v, gsFullDuplex = True, gsAutoneg = True,
        gsFlowctrlRX = False, gsFlowctrlTX = False, gsPortPOE = False, gsPOEEnable = False,
        gsPOEClass = ''Class 0'', gsPOEPower = ''0.00'', gsMACTable = portMACTable v,
        gsCounters = portCounterFields (pvPort v), gsByteRates = explicitPortRateFields (pvPort v),
        gsBitRates = gatewayPortRateFields (pvPort v)\<rparr>) ports"

definition gatewayEthernetTable :: "port_view list \<Rightarrow> gateway_ethernet_table_row list" where
  "gatewayEthernetTable ports =
     map (\<lambda>v. let ifname = physicalIfName v in
       \<lparr>etMAC = to_lower (trim_space (ifvMAC (pvGatewayInterface v))), etPortIdx = pvIndex v, etNumPort = 1,
        etName = ifname, etIfName = ifname, etMedia = pvMedia v, etPortPOE = False,
        etSpeedCaps = gatewaySpeedCapsCode (pvSpeed v) (pvMedia v)\<rparr>) ports"

definition gatewayConfigPortTable :: "port_view list \<Rightarrow> gateway_config_port_row list" where
  "gatewayConfigPortTable ports =
     map (\<lambda>v. \<lparr>gfName = pvName v, gfIfName = physicalIfName v, gfPortIdx = pvIndex v,
        gfNetworkGroup = pvNetworkGroup v, gfRole = pvRole v, gfUp = pvUp v, gfEnable = pvEnabled v,
        gfIsUplink = pvUplink v, gfAssignment = assignmentFields v,
        gfLink = portLinkFields (pvSpeed v) (pvMedia v), gfSourceInterface = pvSourceInterface v,
        gfConnection = physicalConnectionFields v\<rparr>) ports"

definition unassignedGroup :: "port_view \<Rightarrow> bool" where
  "unassignedGroup v \<longleftrightarrow> equal_fold (trim_space (pvNetworkGroup v)) gatewayNetworkGroupNone"

definition needsAllEthernetOverrides :: "port_view list \<Rightarrow> bool" where
  "needsAllEthernetOverrides ports \<longleftrightarrow>
     list_ex (\<lambda>v. (\<not> gatewayIsLogicalRole (pvRole v) \<and> unassignedGroup v) \<or>
        trim_space (pPortConfID (pvPort v)) \<noteq> [] \<or> trim_space (pNetworkConfID (pvPort v)) \<noteq> [] \<or>
        trim_space (pNativeNetworkConfID (pvPort v)) \<noteq> []) ports"

definition disabledEthernetOverride :: "port_view \<Rightarrow> gateway_ethernet_override_row" where
  "disabledEthernetOverride v =
     (let ifname = physicalIfName v in
      \<lparr>eoName = ifname, eoIfName = ifname, eoPortIdx = pvIndex v,
       eoMAC = to_lower (trim_space (ifvMAC (pvGatewayInterface v))),
       eoNetworkGroup = gatewayNetworkGroupNone, eoRole = pvRole v, eoUp = False, eoEnable = False,
       eoDisabled = True,
       eoAssignment = \<lparr>gaPortConfID = [], gaNetworkConfID = [], gaNativeNetworkConfID = [], gaNetworkName = [],
         gaVLAN = 0\<rparr>,
       eoLink = \<lparr>lkSpeed = 0, lkMaxSpeed = 0, lkSpeedCaps = [], lkMedia = []\<rparr>,
       eoSourceInterface = pvSourceInterface v,
       eoConnection = \<lparr>cnConnected = False, cnLastConnection = None\<rparr>\<rparr>)"

definition assignedEthernetOverride :: "port_view \<Rightarrow> gateway_ethernet_override_row" where
  "assignedEthernetOverride v =
     (let ifname = physicalIfName v in
      \<lparr>eoName = ifname, eoIfName = ifname, eoPortIdx = pvIndex v,
       eoMAC = to_lower (trim_space (ifvMAC (pvGatewayInterface v))),
       eoNetworkGroup = pvNetworkGroup v, eoRole = pvRole v, eoUp = pvUp v, eoEnable = pvEnabled v,
       eoDisabled = False, eoAssignment = assignmentFields v,
       eoLink = portLinkFields (pvSpeed v) (pvMedia v), eoSourceInterface = pvSourceInterface v,
       eoConnection = physicalConnectionFields v\<rparr>)"

definition ethernetOverrideFor :: "bool \<Rightarrow> port_view \<Rightarrow> gateway_ethernet_override_row list" where
  "ethernetOverrideFor allPorts v =
     (let role = gatewayPortRole (pvPort v) in
      if \<not> gatewayIsLogicalRole (pvRole v) then
        (if allPorts \<and> unassignedGroup v then [disabledEthernetOverride v] else [])
      else if \<not> allPorts \<and> role \<noteq> gatewayPortRoleLAN \<and> role \<noteq> gatewayPortRoleLAN2 then []
      else if trim_space (physicalIfName v) = [] then []
      else [assignedEthernetOverride v])"

definition gatewayEthernetOverrides :: "port_view list \<Rightarrow> gateway_ethernet_override_row list" where
  "gatewayEthernetOverrides ports =
     concat (map (ethernetOverrideFor (needsAllEthernetOverrides ports)) ports)"

definition gatewayIfRowFor :: "identity \<Rightarrow> int \<Rightarrow> port_view \<Rightarrow> gateway_if_row" where
  "gatewayIfRowFor ident uplinkIndex v =
     (let iface = pvGatewayInterface v;
          vlan = (if pvIndex v = uplinkIndex then idManagementVLAN ident else 0) in
      \<lparr>giName = ifvName iface, giIfName = ifvIfName iface, giComment = ifvComment iface,
       giPortIdx = pvIndex v, giMAC = ifvMAC iface, giIP = ifvIP iface, giNetmask = ifvNetmask iface,
       giIPv6 = cloneIPv6 (ifvIPv6 iface), giNumPort = 1, giUp = pvUp v, giEnable = pvEnabled v,
       giNetworkGroup = ifvNetworkGroup iface, giFullDuplex = True, giPhysicalPorts = [pvIndex v],
       giVLAN = vlan, giManagementVLAN = vlan, giLink = portLinkFields (pvSpeed v) (pvMedia v),
       giCounters = portCounterFields (pvPort v), giByteRates = explicitPortRateFields (pvPort v),
       giBitRates = gatewayPortRateFields (pvPort v), giSourceInterface = pvSourceInterface v,
       giConnection = gatewayConnectionFields v\<rparr>)"

text \<open>The uplink index is looked up among the logical interfaces, not among all ports.\<close>

definition gatewayIfTable :: "identity \<Rightarrow> port_view list \<Rightarrow> gateway_if_row list" where
  "gatewayIfTable ident ports0 =
     (let ports = logicalInterfacePorts ports0
      in map (gatewayIfRowFor ident (uplinkViewIndex ports)) ports)"

definition gatewayNetworkTable :: "port_view list \<Rightarrow> gateway_network_row list" where
  "gatewayNetworkTable ports =
     map (\<lambda>v. let iface = pvGatewayInterface v; ifname = gatewayNetworkInterfaceName v in
       \<lparr>gnName = ifvName iface, gnIfName = ifname, gnGatewayInterfaceName = ifname, gnPortIdx = pvIndex v,
        gnMAC = ifvMAC iface, gnNetworkGroup = ifvNetworkGroup iface, gnIP = ifvIP iface,
        gnNetmask = ifvNetmask iface, gnAddress = ifvAddress iface, gnAddresses = interfaceAddresses iface,
        gnUp = boolText (pvUp v), gnL1Up = boolText (pvUp v), gnAutoneg = ''true'', gnDuplex = ''full'',
        gnSpeed = itoa (pvSpeed v), gnMaxSpeed = itoa (pvSpeed v), gnMTU = ''1500'',
        gnStats = \<lparr>nsCounters = portCounterFields (pvPort v), nsByteRates = explicitPortRateFields (pvPort v),
          nsBitRates = gatewayPortRateFields (pvPort v)\<rparr>,
        gnSourceInterface = pvSourceInterface v,
        gnConnection = \<lparr>cnConnected = pvUp v, cnLastConnection = None\<rparr>,
        gnHostTable = gatewayHostTable v\<rparr>) (logicalInterfacePorts ports)"

definition gatewayReportedNetworks :: "port_view list \<Rightarrow> gateway_reported_network_row list" where
  "gatewayReportedNetworks ports =
     map (\<lambda>v. let iface = pvGatewayInterface v in
       \<lparr>rnName = ifvNetworkGroup iface, rnIfName = gatewayNetworkInterfaceName v, rnPortIdx = pvIndex v,
        rnNetworkGroup = ifvNetworkGroup iface, rnType = pvRole v, rnIP = ifvIP iface,
        rnNetmask = ifvNetmask iface, rnAddress = ifvAddress iface, rnAddresses = interfaceAddresses iface,
        rnUp = pvUp v, rnSourceInterface = pvSourceInterface v,
        rnConnection = \<lparr>cnConnected = pvUp v, cnLastConnection = None\<rparr>\<rparr>) (logicalInterfacePorts ports)"

section \<open>Network roles (gateway_network.go)\<close>

definition roleActive :: "port_view \<Rightarrow> bool" where
  "roleActive v \<longleftrightarrow> pvUp v \<and> (pvUplink v \<or> trim_space (pvSourceInterface v) \<noteq> [])"

definition gatewayRoleCandidates :: "port_view list \<Rightarrow> string \<Rightarrow> port_view list" where
  "gatewayRoleCandidates ports role =
     (let matches = filter (\<lambda>v. gatewayPortRole (pvPort v) = role) ports; active = filter roleActive matches in
      if active \<noteq> [] then active else if matches \<noteq> [] then matches else ports)"

text \<open>The loops over the candidates skip those of another role and stop at the first that is left.\<close>

definition roleView :: "port_view list \<Rightarrow> string \<Rightarrow> port_view option" where
  "roleView ports role = find (\<lambda>v. gatewayPortRole (pvPort v) = role) (gatewayRoleCandidates ports role)"

definition gatewayConfigNetwork :: "port_view list \<Rightarrow> string \<Rightarrow> gateway_config_network_row \<times> bool" where
  "gatewayConfigNetwork ports role =
     (case roleView ports role of
        None \<Rightarrow> (\<lparr>wcType = payloadTypeDHCP, wcName = [], wcIfName = [], wcPortIdx = 0, wcNetworkGroup = [],
                  wcUplinkIfName = [], wcIP = None, wcNetmask = None, wcSpeed = None, wcAutoneg = None,
                  wcFullDuplex = None, wcDHCPOptions = []\<rparr>, False)
      | Some v \<Rightarrow>
          (let iface = pvGatewayInterface v;
               speed = (if pvSpeed v > 0 \<and> \<not> pvUp v then itoa (pvSpeed v) else ''auto'')
           in (\<lparr>wcType = payloadTypeDHCP, wcName = ifvNetworkGroup iface, wcIfName = ifvIfName iface,
                wcPortIdx = pvIndex v, wcNetworkGroup = ifvNetworkGroup iface,
                wcUplinkIfName = ifvIfName iface, wcIP = Some (ifvIP iface), wcNetmask = Some (ifvNetmask iface),
                wcSpeed = Some speed, wcAutoneg = Some True, wcFullDuplex = Some True, wcDHCPOptions = []\<rparr>, True)))"

definition lanPass :: "bool \<Rightarrow> string \<Rightarrow> port_view list \<Rightarrow> port_view option" where
  "lanPass activeOnly role ports =
     find (\<lambda>v. gatewayPortRole (pvPort v) = role \<and>
             \<not> (activeOnly \<and> \<not> pvUp v \<and> trim_space (pvSourceInterface v) = [])) ports"

fun firstSome :: "'a option list \<Rightarrow> 'a option" where
  "firstSome [] = None"
| "firstSome (Some x # _) = Some x"
| "firstSome (None # xs) = firstSome xs"

definition gatewayLANConfigPort :: "port_view list \<Rightarrow> port_view option" where
  "gatewayLANConfigPort ports =
     firstSome [lanPass True gatewayPortRoleLAN ports, lanPass True gatewayPortRoleLAN2 ports,
                lanPass False gatewayPortRoleLAN ports, lanPass False gatewayPortRoleLAN2 ports]"

definition gatewayConfigLAN :: "port_view list \<Rightarrow> gateway_config_lan_row option" where
  "gatewayConfigLAN ports =
     map_option (\<lambda>v. let iface = pvGatewayInterface v;
          lanIfName = (if physicalIfName v = [] then ifvIfName iface else physicalIfName v);
          vlan = (if pVLAN (pvPort v) \<le> 0 then 1 else pVLAN (pvPort v))
        in \<lparr>lcName = ifvNetworkGroup iface, lcIfName = lanIfName, lcPortIdx = pvIndex v,
            lcNetworkGroup = ifvNetworkGroup iface, lcIP = Some (ifvIP iface),
            lcNetmask = Some (ifvNetmask iface), lcUplinkIfName = lanIfName,
            lcNetworkConfID = trim_space (pNetworkConfID (pvPort v)),
            lcNativeNetworkConfID = trim_space (pNativeNetworkConfID (pvPort v)),
            lcNetworkName = networkName v, lcDHCPEnabled = False, lcDHCPRangeStart = [],
            lcDHCPRangeStop = [], lcCIDR = ifvAddress iface, lcVLAN = vlan\<rparr>)
       (gatewayLANConfigPort ports)"

definition gatewayTrafficSummaryFor :: "port_view list \<Rightarrow> string \<Rightarrow> traffic_summary" where
  "gatewayTrafficSummaryFor ports role =
     (case roleView ports role of None \<Rightarrow> emptySummary | Some v \<Rightarrow> uplinkSummary v)"

definition wanInventoryRow :: "port_view \<Rightarrow> gateway_wan_inventory_row" where
  "wanInventoryRow v =
     (let iface = pvGatewayInterface v in
      \<lparr>wiEnabled = pvEnabled v, wiInterface = ifvIfName iface, wiIPv4 = ifvIP iface,
       wiIPv6 = cloneIPv6 (ifvIPv6 iface), wiMAC = ifvMAC iface, wiPlugged = pvUp v, wiPort = pvIndex v,
       wiType = to_upper (ifvNetworkGroup iface)\<rparr>)"

definition gatewayWans :: "port_view list \<Rightarrow> gateway_wan_inventory_row list" where
  "gatewayWans ports =
     map wanInventoryRow (concat (map (\<lambda>role. case roleView ports role of None \<Rightarrow> [] | Some v \<Rightarrow> [v])
       [gatewayPortRoleWAN, gatewayPortRoleWAN2]))"

section \<open>Uplink (gateway_health.go, gateway_identity.go)\<close>

definition gatewayUplinkTable :: "identity \<Rightarrow> port_view list \<Rightarrow> gateway_uplink_row list" where
  "gatewayUplinkTable ident ports =
     (case find (\<lambda>v. pvIndex v = uplinkViewIndex ports) ports of
        None \<Rightarrow> []
      | Some v \<Rightarrow>
          (let iface = pvGatewayInterface v in
           [\<lparr>guName = ifvName iface, guIfName = ifvIfName iface, guPortIdx = pvIndex v, guMAC = ifvMAC iface,
             guType = payloadTypeWire, guNetworkGroup = ifvNetworkGroup iface,
             guUplinkIfName = ifvIfName iface, guIP = ifvIP iface, guUp = pvUp v, guEnable = pvEnabled v,
             guFullDuplex = True, guVLAN = idManagementVLAN ident, guManagementVLAN = idManagementVLAN ident,
             guLink = portLinkFields (pvSpeed v) (pvMedia v), guCounters = portCounterFields (pvPort v),
             guByteRates = explicitPortRateFields (pvPort v), guBitRates = gatewayPortRateFields (pvPort v),
             guSourceInterface = pvSourceInterface v, guConnection = gatewayConnectionFields v\<rparr>]))"

definition gatewayLastWANIP :: "port_view list \<Rightarrow> string" where
  "gatewayLastWANIP ports =
     (case roleView ports gatewayPortRoleWAN of None \<Rightarrow> [] | Some v \<Rightarrow> ifvIP (pvGatewayInterface v))"

definition gatewayUplinkInterfaceName :: "profile \<Rightarrow> port_view list \<Rightarrow> string" where
  "gatewayUplinkInterfaceName prof ports =
     (case find (\<lambda>v. pvUplink v \<and> trim_space (ifvIfName (pvGatewayInterface v)) \<noteq> []) ports of
        Some v \<Rightarrow> ifvIfName (pvGatewayInterface v)
      | None \<Rightarrow> gatewayInterfaceName prof (uplinkViewIndex ports))"

definition gatewayHasEth1 :: "port_view list \<Rightarrow> bool" where
  "gatewayHasEth1 ports \<longleftrightarrow> list_ex (\<lambda>v. logicalName v = ''eth1'') ports"

section \<open>One view per interface name\<close>

definition isLogicalView :: "port_view \<Rightarrow> bool" where
  "isLogicalView v \<longleftrightarrow> gatewayIsLogicalRole (pvRole v) \<and> logicalName v \<noteq> []"

lemma logicalInterfacePorts_filter:
  "logicalInterfacePorts ports = fold addLogical (filter isLogicalView ports) []"
proof -
  have "fold (\<lambda>v out. if \<not> gatewayIsLogicalRole (pvRole v) \<or> logicalName v = [] then out else addLogical v out) vs out
      = fold addLogical (filter isLogicalView vs) out" for vs out
    by (induction vs arbitrary: out) (simp_all add: isLogicalView_def)
  then show ?thesis by (simp add: logicalInterfacePorts_def)
qed

text \<open>Preference is the order on (score, reversed index); it is a strict weak order.\<close>

lemma prefer_irrefl [simp]: "\<not> gatewayPreferInterfaceView v v"
  by (simp add: gatewayPreferInterfaceView_def)

lemma prefer_negtrans:
  "\<not> gatewayPreferInterfaceView u v \<Longrightarrow> \<not> gatewayPreferInterfaceView v w \<Longrightarrow> \<not> gatewayPreferInterfaceView u w"
  by (auto simp: gatewayPreferInterfaceView_def Let_def split: if_splits)

lemma prefer_asym: "gatewayPreferInterfaceView u v \<Longrightarrow> \<not> gatewayPreferInterfaceView v u"
  by (auto simp: gatewayPreferInterfaceView_def Let_def split: if_splits)

definition best_of :: "port_view list \<Rightarrow> port_view \<Rightarrow> bool" where
  "best_of vs w \<longleftrightarrow> w \<in> set vs \<and> (\<forall>v\<in>set vs. logicalName v = logicalName w \<longrightarrow> \<not> gatewayPreferInterfaceView v w)"

lemma addLogical_names:
  "map logicalName (addLogical v out) =
     (if logicalName v \<in> set (map logicalName out) then map logicalName out else map logicalName out @ [logicalName v])"
  by (induction out) auto

lemma addLogical_mem:
  assumes "distinct (map logicalName out)"
  shows "w \<in> set (addLogical v out) \<longleftrightarrow>
     (if logicalName w = logicalName v
      then (\<exists>u\<in>set out. logicalName u = logicalName v \<and> w = (if gatewayPreferInterfaceView v u then v else u)) \<or>
           logicalName v \<notin> set (map logicalName out) \<and> w = v
      else w \<in> set out)"
  using assms
proof (induction out)
  case (Cons a out)
  show ?case
  proof (cases "logicalName a = logicalName v")
    case True
    then have "\<forall>u\<in>set out. logicalName u \<noteq> logicalName v" using Cons.prems by (auto simp: image_iff)
    then show ?thesis using True by auto
  next
    case False
    then show ?thesis using Cons by auto
  qed
qed auto

lemma addLogical_best:
  assumes d: "distinct (map logicalName out)" and n: "set (map logicalName out) = logicalName ` set vs"
    and b: "\<forall>w\<in>set out. best_of vs w" and w: "w \<in> set (addLogical v out)"
  shows "best_of (vs @ [v]) w"
proof (cases "logicalName w = logicalName v")
  case False
  then have "w \<in> set out" using w addLogical_mem [OF d, of w v] by simp
  then show ?thesis using b False by (auto simp: best_of_def)
next
  case True
  then consider (old) u where "u \<in> set out" "logicalName u = logicalName v" "w = (if gatewayPreferInterfaceView v u then v else u)"
    | (new) "logicalName v \<notin> logicalName ` set vs" "w = v"
    using w addLogical_mem [OF d, of w v] n by auto
  then show ?thesis
  proof cases
    case old
    then have u: "u \<in> set vs" "\<forall>x\<in>set vs. logicalName x = logicalName u \<longrightarrow> \<not> gatewayPreferInterfaceView x u"
      using b by (auto simp: best_of_def)
    show ?thesis
    proof (cases "gatewayPreferInterfaceView v u")
      case True
      then have "\<not> gatewayPreferInterfaceView x v" if "x \<in> set vs" "logicalName x = logicalName v" for x
        using u(2) that old(2) prefer_negtrans [of x u v] prefer_asym [of v u] by auto
      then show ?thesis using True old(3) by (auto simp: best_of_def)
    next
      case False
      then show ?thesis using u old by (auto simp: best_of_def)
    qed
  next
    case new
    then have "logicalName x \<noteq> logicalName v" if "x \<in> set vs" for x using that by (metis imageI)
    then show ?thesis using new(2) by (auto simp: best_of_def)
  qed
qed

lemma fold_addLogical:
  "distinct (map logicalName (fold addLogical vs [])) \<and>
   map logicalName (fold addLogical vs []) = rev (remdups (rev (map logicalName vs))) \<and>
   (\<forall>w\<in>set (fold addLogical vs []). best_of vs w)"
proof (induction vs rule: rev_induct)
  case (snoc v vs)
  let ?o = "fold addLogical vs []"
  have names: "set (map logicalName ?o) = logicalName ` set vs" using snoc by simp
  have "map logicalName (addLogical v ?o) = rev (remdups (rev (map logicalName (vs @ [v]))))"
    using snoc names by (simp add: addLogical_names)
  moreover have "\<forall>w\<in>set (addLogical v ?o). best_of (vs @ [v]) w"
    using addLogical_best [of ?o vs _ v] snoc names by blast
  ultimately show ?case by simp
qed simp

lemma logicalInterfacePorts_best:
  "distinct (map logicalName (logicalInterfacePorts ports))"
  "map logicalName (logicalInterfacePorts ports) = rev (remdups (rev (map logicalName (filter isLogicalView ports))))"
  "\<forall>w\<in>set (logicalInterfacePorts ports). best_of (filter isLogicalView ports) w"
  using fold_addLogical [of "filter isLogicalView ports"] by (simp_all add: logicalInterfacePorts_filter)

text \<open>Without a shared name nothing is dropped.\<close>

lemma addLogical_new: "logicalName v \<notin> logicalName ` set out \<Longrightarrow> addLogical v out = out @ [v]"
  by (induction out) auto

lemma fold_addLogical_distinct:
  "distinct (map logicalName (out @ vs)) \<Longrightarrow> fold addLogical vs out = out @ vs"
proof (induction vs arbitrary: out)
  case (Cons v vs)
  then have "addLogical v out = out @ [v]" by (intro addLogical_new) auto
  then show ?case using Cons.IH [of "out @ [v]"] Cons.prems by simp
qed simp

section \<open>Interface names of numbered ports\<close>

lemma nat_itoa_digits: "list_all is_digit (nat_itoa n)" "nat_itoa n \<noteq> []"
proof (induction n rule: nat_itoa.induct)
  case (1 n)
  have d: "is_digit (char_of (48 + k))" if "k < 10" for k :: nat using that by (simp add: is_digit_def)
  show "list_all is_digit (nat_itoa n)" using 1 d [of n] d [of "n mod 10"] by (subst nat_itoa.simps) simp
  show "nat_itoa n \<noteq> []" by (subst nat_itoa.simps) simp
qed

lemma digit_no_space:
  "is_digit d \<Longrightarrow> \<not> is_ascii_space d" "is_digit d \<Longrightarrow> \<not> space2 a d" "is_digit d \<Longrightarrow> \<not> space3 a b d"
  "is_digit d \<Longrightarrow> \<not> space3 a d c"
  by (auto simp: is_digit_def is_ascii_space_def space2_def space3_def)

lemma trim_space_numbered:
  assumes "trim_space p = p" and "p \<noteq> []" and "0 \<le> i"
  shows "trim_space (p @ itoa i) = p @ itoa i"
proof -
  obtain ds where ds: "itoa i = ds" "list_all is_digit ds" "ds \<noteq> []"
    using assms(3) nat_itoa_digits [of "nat i"] by (simp add: itoa_def)
  have "space_len p = 0" using assms(1) trim_space_eq_iff by blast
  then have l: "space_len (p @ ds) = 0"
    using assms(2) ds(2) digit_no_space
    by (cases p rule: space_len.cases; cases ds rule: space_len.cases) (auto split: if_splits)
  obtain d ds' where r: "rev ds = d # ds'" using ds(3) by (cases "rev ds") auto
  then have "is_digit d" using ds(2) by (metis list.pred_inject(2) list_all_rev)
  then have "space_len_rev (rev (p @ ds)) = 0"
    using r digit_no_space by (cases "rev (p @ ds)" rule: space_len_rev.cases) (auto simp: r)
  then show ?thesis using l ds(1) by (simp add: trim_space_eq_iff)
qed

lemma gatewayInterfaceName_trimmed [simp]:
  "trim_space (gatewayInterfaceName prof i) = gatewayInterfaceName prof i" "gatewayInterfaceName prof i \<noteq> []"
proof -
  let ?q = "trim_space (payloadGatewayInterfacePrefix (profPayload prof))"
  have "trim_space ''eth'' = ''eth''" by code_simp
  then show "trim_space (gatewayInterfaceName prof i) = gatewayInterfaceName prof i"
    using trim_space_numbered [of ?q "(if i < 1 then 1 else i) - 1"] trim_space_numbered [of "''eth''" "(if i < 1 then 1 else i) - 1"]
    by (simp add: gatewayInterfaceName_def Let_def del: append.simps)
  show "gatewayInterfaceName prof i \<noteq> []" by (simp add: gatewayInterfaceName_def Let_def)
qed

lemma portView_logical:
  "logicalName (portView prof ident topo p) = gatewayInterfaceName prof (pIndex p)"
  "isLogicalView (portView prof ident topo p) \<longleftrightarrow> gatewayIsLogicalRole (gatewayPortRole p)"
  "physicalIfName (portView prof ident topo p) = gatewayInterfaceName prof (pIndex p)"
  by (simp_all add: logicalName_def isLogicalView_def portView_fields physicalIfName_def Let_def)

lemma logicalInterfacePorts_numbered:
  assumes "distinct (map pIndex ports)" and "\<forall>p\<in>set ports. 1 \<le> pIndex p"
  shows "logicalInterfacePorts (BuildPortViews prof ident ports topo) =
    BuildPortViews prof ident (filter (\<lambda>p. gatewayIsLogicalRole (gatewayPortRole p)) ports) topo"
proof -
  let ?vs = "filter isLogicalView (BuildPortViews prof ident ports topo)"
  have f: "?vs = BuildPortViews prof ident (filter (\<lambda>p. gatewayIsLogicalRole (gatewayPortRole p)) ports) topo"
    by (simp add: BuildPortViews_def filter_map comp_def portView_logical)
  have "distinct (map logicalName (BuildPortViews prof ident ports topo))"
    using assms unfolding BuildPortViews_def distinct_map inj_on_def
    by (auto simp: portView_logical gatewayInterfaceName_inject portView_fields dest: arg_cong [where f = pvPort])
  then have "distinct (map logicalName ?vs)" by (rule distinct_map_filter)
  then show ?thesis using fold_addLogical_distinct [of "[]" ?vs] f by (simp add: logicalInterfacePorts_filter)
qed

section \<open>Role selection\<close>

lemma find_some_in: "find P xs = Some x \<Longrightarrow> x \<in> set xs \<and> P x"
  by (induction xs) (auto split: if_splits)

lemma roleView_Some:
  assumes "roleView ports role = Some v"
  shows "v \<in> set ports" and "gatewayPortRole (pvPort v) = role"
    and "\<exists>w\<in>set ports. gatewayPortRole (pvPort w) = role \<and> roleActive w \<Longrightarrow> roleActive v"
proof -
  have v: "v \<in> set (gatewayRoleCandidates ports role)" and r: "gatewayPortRole (pvPort v) = role"
    using find_some_in [OF assms [unfolded roleView_def]] by simp_all
  show "v \<in> set ports" using v by (auto simp: gatewayRoleCandidates_def Let_def split: if_splits)
  show "gatewayPortRole (pvPort v) = role" by (rule r)
  assume "\<exists>w\<in>set ports. gatewayPortRole (pvPort w) = role \<and> roleActive w"
  then have "filter roleActive (filter (\<lambda>v. gatewayPortRole (pvPort v) = role) ports) \<noteq> []"
    by (auto simp: filter_empty_conv)
  then show "roleActive v" using v by (auto simp: gatewayRoleCandidates_def Let_def)
qed

lemma roleView_None: "roleView ports role = None \<longleftrightarrow> (\<forall>v\<in>set ports. gatewayPortRole (pvPort v) \<noteq> role)"
proof -
  have "(\<forall>v\<in>set (gatewayRoleCandidates ports role). gatewayPortRole (pvPort v) \<noteq> role) \<longleftrightarrow>
      (\<forall>v\<in>set ports. gatewayPortRole (pvPort v) \<noteq> role)"
    by (auto simp: gatewayRoleCandidates_def Let_def filter_empty_conv)
  then show ?thesis by (simp add: roleView_def find_None_iff Ball_def)
qed

end
