(* ===== verification/Device_Profile.thy ===== *)
theory Device_Profile
  imports Ports
begin

text \<open>
  Device profiles (\<open>internal/device/profile*.go\<close>) and the registry they are loaded into
  (\<open>registry*.go\<close>): defaults, normalisation, validation, inheritance between YAML documents,
  registration, lookup and loading of external files, and the controller policies that are bound to
  exact built-in products (\<open>profile_protocol.go\<close>, \<open>inform_schedule.go\<close>, \<open>controller_reporting.go\<close>).

  The YAML library is third-party code: \<open>parse\<close> stands for its decoder of a file into a node tree and
  \<open>decode\<close> for its strict decoder of a tree into a profile. The merge of two trees is the repository's
  own code and is modelled on nodes with the fields it reads. Copies (\<open>cloneProfile\<close>,
  \<open>cloneYAMLNode\<close>) are the identity on values.

  The lemmas show that whatever is loaded, every record of the registry is a valid profile, that names
  and models stay unique unless a built-in record is overridden, that the overlay of an inherited
  document wins key by key, and that the port groups of a valid profile describe exactly its ports.
\<close>

section \<open>Constants (profile_config.go, registry.go)\<close>

definition schemaVersion :: int where "schemaVersion = 1"
definition stabilityExperimental :: string where "stabilityExperimental = ''experimental''"
definition stabilityTested :: string where "stabilityTested = ''tested''"
definition stabilityExternal :: string where "stabilityExternal = ''external''"
definition defaultSwitchVersion :: string where "defaultSwitchVersion = ''7.4.1.16850''"
definition defaultGatewayVersion :: string where "defaultGatewayVersion = ''5.0.16.30689''"
definition sourceTypeBuiltIn :: string where "sourceTypeBuiltIn = ''built-in''"
definition sourceTypeExternal :: string where "sourceTypeExternal = ''external''"

section \<open>Normalisation and defaults (profile.go, profile_defaults.go)\<close>

definition NormalizeProfile :: "profile \<Rightarrow> profile" where
  "NormalizeProfile p =
     (let pl = profPayload p in
      p\<lparr>profExtends := trim_space (profExtends p), profName := trim_space (profName p),
        profModel := trim_space (profModel p), profModelDisplay := trim_space (profModelDisplay p),
        profDeviceType := trim_space (profDeviceType p), profVersion := trim_space (profVersion p),
        profPortMedia := trim_space (profPortMedia p), profUplinkMedia := trim_space (profUplinkMedia p),
        profStability := trim_space (profStability p),
        profValidatedControllerVersions := map trim_space (profValidatedControllerVersions p),
        profPayload := pl\<lparr>payloadKind := trim_space (payloadKind pl),
          payloadRequiredVersion := trim_space (payloadRequiredVersion pl),
          payloadManagementInterface := trim_space (payloadManagementInterface pl),
          payloadGatewayInterfacePrefix := trim_space (payloadGatewayInterfacePrefix pl)\<rparr>,
        profDescription := trim_space (profDescription p)\<rparr>)"

definition defaultPayloadKind :: "string \<Rightarrow> string" where
  "defaultPayloadKind deviceType =
     (if trim_space deviceType \<in> {''ugw'', ''uxg'', ''udm''} then ''gateway'' else ''switch'')"

definition setDefaultString :: "string \<Rightarrow> string \<Rightarrow> string" where
  "setDefaultString target v = (if target = [] then v else target)"

definition setDefaultInt :: "int \<Rightarrow> int \<Rightarrow> int" where
  "setDefaultInt target v = (if target = 0 then v else target)"

definition applyProfileDefaults :: "profile \<Rightarrow> profile" where
  "applyProfileDefaults p =
     (let pl = profPayload p in
      p\<lparr>profSchemaVersion := setDefaultInt (profSchemaVersion p) schemaVersion,
        profStability := setDefaultString (profStability p) stabilityExperimental,
        profPayload := pl\<lparr>payloadKind := setDefaultString (payloadKind pl) (defaultPayloadKind (profDeviceType p)),
          payloadRequiredVersion := setDefaultString (payloadRequiredVersion pl) ''5.0.0'',
          payloadManagementInterface := setDefaultString (payloadManagementInterface pl) ''eth0'',
          payloadGatewayInterfacePrefix := setDefaultString (payloadGatewayInterfacePrefix pl) ''eth''\<rparr>\<rparr>)"

section \<open>Validation (profile_validate.go)\<close>

datatype profile_error = BadSchemaVersion | NameRequired | ModelRequired | NotPositive string | Negative string
  | GroupCount nat | GroupSpeed nat | GroupsTotal int int | ManyUplinkGroups
  | TooManyValues string int int | ValueWhitespace string nat | BadRole nat string
  | BadPayloadKind string | ManagementRequired | BadManagement string | PrefixRequired | BadPrefix string
  | NoTestedVersions | BadStability string | BadControllerVersion nat string

text \<open>The first error of a sequence of checks, each of which returns early.\<close>

fun firstError :: "'e option list \<Rightarrow> 'e option" where
  "firstError [] = None"
| "firstError (Some e # _) = Some e"
| "firstError (None # es) = firstError es"

text \<open>A loop over an indexed list that returns at the first element with an error.\<close>

fun indexedError :: "nat \<Rightarrow> (nat \<Rightarrow> 'a \<Rightarrow> 'e option) \<Rightarrow> 'a list \<Rightarrow> 'e option" where
  "indexedError i check [] = None"
| "indexedError i check (x # xs) = (case check i x of Some e \<Rightarrow> Some e | None \<Rightarrow> indexedError (Suc i) check xs)"

definition isConcreteControllerVersion :: "string \<Rightarrow> bool" where
  "isConcreteControllerVersion v \<longleftrightarrow>
     (let parts = go_split CHR ''.'' v in
      length parts \<ge> 3 \<and> list_all (\<lambda>part. part \<noteq> [] \<and> list_all is_digit part) parts)"

definition validateMaturity :: "profile \<Rightarrow> profile_error option" where
  "validateMaturity p =
     firstError [
       (if profStability p = stabilityExperimental \<or> profStability p = stabilityExternal then None
        else if profStability p = stabilityTested
          then (if profValidatedControllerVersions p = [] then Some NoTestedVersions else None)
        else Some (BadStability (profStability p))),
       indexedError 0 (\<lambda>i v. if isConcreteControllerVersion v then None else Some (BadControllerVersion i v))
         (profValidatedControllerVersions p)]"

definition checkGroup :: "nat \<Rightarrow> port_group \<Rightarrow> profile_error option" where
  "checkGroup i g = (if grpCount g < 1 then Some (GroupCount i) else if grpSpeed g < 0 then Some (GroupSpeed i) else None)"

definition validatePortGroups :: "profile \<Rightarrow> profile_error option" where
  "validatePortGroups p =
     (let groups = profPortGroups p;
          tot = sum_list (map grpCount groups);
          uplinkGroups = length (filter grpUplink groups)
      in firstError [
           indexedError 0 checkGroup groups,
           (if groups \<noteq> [] \<and> tot \<noteq> profPorts p then Some (GroupsTotal tot (profPorts p)) else None),
           (if uplinkGroups > 1 then Some ManyUplinkGroups else None)])"

definition validateOneBasedStrings :: "string \<Rightarrow> int \<Rightarrow> string list \<Rightarrow> profile_error option" where
  "validateOneBasedStrings field ports vs =
     firstError [
       (if int (length vs) > ports then Some (TooManyValues field (int (length vs)) ports) else None),
       indexedError 0 (\<lambda>i v. if contains_any v [CHR 0x0D, CHR 0x0A, CHR 0x09] then Some (ValueWhitespace field i) else None) vs]"

definition checkRole :: "nat \<Rightarrow> string \<Rightarrow> profile_error option" where
  "checkRole i role0 =
     (let role = to_lower (trim_space role0) in
      if role = [] \<or> role \<in> {''wan'', ''lan'', ''wan2'', ''lan2''} then None else Some (BadRole i role))"

definition validatePortRoles :: "profile \<Rightarrow> profile_error option" where
  "validatePortRoles p =
     firstError [validateOneBasedStrings ''port_roles'' (profPorts p) (profPortRoles p),
                 indexedError 0 checkRole (profPortRoles p)]"

definition validatePayload :: "profile \<Rightarrow> profile_error option" where
  "validatePayload p =
     (let pl = profPayload p; mgmt = payloadManagementInterface pl; prefix = payloadGatewayInterfacePrefix pl in
      firstError [
        (if to_lower (trim_space (payloadKind pl)) \<in> {''switch'', ''gateway''} then None
         else Some (BadPayloadKind (payloadKind pl))),
        (if trim_space mgmt = [] then Some ManagementRequired else None),
        (if CHR ''/'' \<in> set mgmt then Some (BadManagement mgmt) else None),
        (if trim_space prefix = [] then Some PrefixRequired else None),
        (if contains_any prefix [CHR ''/'', CHR '' '', CHR 0x09, CHR 0x0D, CHR 0x0A] then Some (BadPrefix prefix) else None)])"

definition validateProfile :: "profile \<Rightarrow> profile_error option" where
  "validateProfile p =
     firstError [
       (if profSchemaVersion p \<noteq> schemaVersion then Some BadSchemaVersion else None),
       (if profName p = [] then Some NameRequired else None),
       (if profModel p = [] then Some ModelRequired else None),
       (if profPorts p < 1 then Some (NotPositive ''ports'') else None),
       (if profPortSpeed p < 0 then Some (Negative ''port_speed'') else None),
       (if profUplinkSpeed p < 0 then Some (Negative ''uplink_speed'') else None),
       validatePortGroups p,
       validateOneBasedStrings ''port_names'' (profPorts p) (profPortNames p),
       validatePortRoles p,
       validateOneBasedStrings ''port_network_groups'' (profPorts p) (profPortNetworkGroups p),
       validatePayload p,
       validateMaturity p]"

section \<open>Inheritance of YAML documents (profile_yaml.go)\<close>

datatype yaml_kind = ZeroNode | DocumentNode | SequenceNode | MappingNode | ScalarNode | AliasNode

datatype yaml_node = YamlNode (ynKind: yaml_kind) (ynTag: string) (ynValue: string)
  (ynContent: "yaml_node list") (ynAlias: "yaml_node option")

fun unwrapDocument :: "yaml_node \<Rightarrow> yaml_node" where
  "unwrapDocument (YamlNode DocumentNode t v (c # cs) a) = unwrapDocument c"
| "unwrapDocument n = n"

fun unwrapAlias :: "yaml_node \<Rightarrow> yaml_node" where
  "unwrapAlias (YamlNode AliasNode t v cs (Some a)) = unwrapAlias a"
| "unwrapAlias n = n"

definition yamlDocumentContent :: "yaml_node \<Rightarrow> yaml_node option" where
  "yamlDocumentContent n = (let n = unwrapAlias (unwrapDocument n) in if ynKind n = ZeroNode then None else Some n)"

definition yamlDocument :: "yaml_node \<Rightarrow> yaml_node" where
  "yamlDocument content = YamlNode DocumentNode [] [] [content] None"

text \<open>The loop of \<open>yamlMappingKeyIndex\<close> over the content of a mapping: keys are at even positions.\<close>

fun keyIndex :: "string \<Rightarrow> yaml_node list \<Rightarrow> nat option" where
  "keyIndex key (k # v # rest) = (if ynValue k = key then Some 0 else map_option ((+) 2) (keyIndex key rest))"
| "keyIndex key _ = None"

function (sequential) mergeYAMLNodes :: "yaml_node \<Rightarrow> yaml_node \<Rightarrow> yaml_node"
  and mergeContent :: "yaml_node list \<Rightarrow> yaml_node list \<Rightarrow> yaml_node list" where
  "mergeYAMLNodes (YamlNode MappingNode t v base a) (YamlNode MappingNode t' v' overlay a') =
     YamlNode MappingNode t v (mergeContent base overlay) a"
| "mergeYAMLNodes base overlay = overlay"
| "mergeContent merged (k # v # rest) =
     (case keyIndex (ynValue k) merged of
        None \<Rightarrow> mergeContent (merged @ [k, v]) rest
      | Some i \<Rightarrow> mergeContent (merged[i + 1 := mergeYAMLNodes (merged ! (i + 1)) v]) rest)"
| "mergeContent merged _ = merged"
  by pat_completeness auto
termination
  by (relation "measure (case_sum (\<lambda>(b, n). size n) (\<lambda>(m, ns). size_list size ns))") auto

definition mergeProfileDocuments :: "yaml_node \<Rightarrow> yaml_node \<Rightarrow> yaml_node option" where
  "mergeProfileDocuments base overlay =
     map_option yamlDocument
       (case (yamlDocumentContent base, yamlDocumentContent overlay) of
          (None, o') \<Rightarrow> o'
        | (Some b, None) \<Rightarrow> Some b
        | (Some b, Some o') \<Rightarrow> Some (mergeYAMLNodes b o'))"

section \<open>The registry (registry.go, registry_register.go, registry_lookup.go, registry_clone.go)\<close>

record profile_record =
  recSource :: string
  recBuiltin :: bool
  recOrder :: int
  recProfile :: profile
  recDocument :: yaml_node

datatype register_error = DuplicateName string | DuplicateModel string

fun registerRecord :: "profile_record \<Rightarrow> profile_record list \<Rightarrow> register_error + profile_record list" where
  "registerRecord new [] = Inr [new]"
| "registerRecord new (r # rs) =
     (let nameDuplicate = (profName (recProfile r) = profName (recProfile new));
          modelDuplicate = equal_fold (profModel (recProfile r)) (profModel (recProfile new))
      in if \<not> nameDuplicate \<and> \<not> modelDuplicate
         then (case registerRecord new rs of Inl e \<Rightarrow> Inl e | Inr rs' \<Rightarrow> Inr (r # rs'))
         else if profAllowBuiltinOverride (recProfile new) \<and> recBuiltin r then Inr (new # rs)
         else if nameDuplicate then Inl (DuplicateName (profName (recProfile new)))
         else Inl (DuplicateModel (profModel (recProfile new))))"

definition profileWithSource :: "profile_record \<Rightarrow> profile" where
  "profileWithSource r =
     (recProfile r)\<lparr>profSource := recSource r,
        profSourceType := (if recBuiltin r then sourceTypeBuiltIn else sourceTypeExternal)\<rparr>"

definition answers :: "string \<Rightarrow> profile_record \<Rightarrow> bool" where
  "answers name r \<longleftrightarrow> to_lower (profName (recProfile r)) = name \<or> to_lower (profModel (recProfile r)) = name"

definition lookupRecord :: "profile_record list \<Rightarrow> string \<Rightarrow> profile_record option" where
  "lookupRecord records name = find (answers (to_lower (trim_space name))) records"

definition LookupProfile :: "profile_record list \<Rightarrow> string \<Rightarrow> profile option" where
  "LookupProfile records name = map_option profileWithSource (lookupRecord records name)"

text \<open>\<open>sort.SliceStable\<close> by order and then by name (compared byte by byte).\<close>

fun string_less :: "string \<Rightarrow> string \<Rightarrow> bool" where
  "string_less [] [] = False"
| "string_less [] (_ # _) = True"
| "string_less (_ # _) [] = False"
| "string_less (a # as) (b # bs) = (ord a < ord b \<or> ord a = ord b \<and> string_less as bs)"

definition recordBefore :: "profile_record \<Rightarrow> profile_record \<Rightarrow> bool" where
  "recordBefore a b =
     (if recOrder a \<noteq> recOrder b then recOrder a < recOrder b
      else string_less (profName (recProfile a)) (profName (recProfile b)))"

fun insertRecord :: "profile_record \<Rightarrow> profile_record list \<Rightarrow> profile_record list" where
  "insertRecord r [] = [r]"
| "insertRecord r (x # xs) = (if recordBefore x r then x # insertRecord r xs else r # x # xs)"

definition Profiles :: "profile_record list \<Rightarrow> profile list" where
  "Profiles records = map profileWithSource (foldr insertRecord records [])"

definition ProfileNames :: "profile_record list \<Rightarrow> string" where
  "ProfileNames records = go_join '', '' (map profName (Profiles records))"

section \<open>Loading (profile_decode.go, profile_load.go, profiles_embed.go)\<close>

datatype load_error = ReadFailed | ParseFailed | ExtendsNotFound string | Invalid profile_error
  | Register register_error

text \<open>The functions of the YAML library: the decoder of a file into nodes and the strict decoder of a
  tree into a profile.\<close>

record yaml_lib =
  yamlParse :: "bytes \<Rightarrow> yaml_node option"
  yamlDecode :: "yaml_node \<Rightarrow> profile option"

definition decodeProfileDocument :: "yaml_lib \<Rightarrow> bytes \<Rightarrow> load_error + yaml_node" where
  "decodeProfileDocument lib data =
     (case yamlParse lib data of
        None \<Rightarrow> Inl ParseFailed
      | Some doc \<Rightarrow> (case yamlDocumentContent doc of None \<Rightarrow> Inl ParseFailed | Some _ \<Rightarrow> Inr doc))"

definition decodeProfileYAML :: "yaml_lib \<Rightarrow> yaml_node \<Rightarrow> load_error + profile" where
  "decodeProfileYAML lib document =
     (case yamlDocumentContent document of
        None \<Rightarrow> Inl ParseFailed
      | Some content \<Rightarrow>
          (case yamlDecode lib content of None \<Rightarrow> Inl ParseFailed | Some p \<Rightarrow> Inr (NormalizeProfile p)))"

definition checkedProfile :: "profile \<Rightarrow> load_error + profile" where
  "checkedProfile p0 =
     (let p = applyProfileDefaults p0 in
      case validateProfile p of Some e \<Rightarrow> Inl (Invalid e) | None \<Rightarrow> Inr p)"

definition decodeConfigRecord :: "yaml_lib \<Rightarrow> bytes \<Rightarrow> load_error + (profile \<times> int \<times> yaml_node)" where
  "decodeConfigRecord lib data =
     (case decodeProfileDocument lib data of
        Inl e \<Rightarrow> Inl e
      | Inr document \<Rightarrow>
          (case decodeProfileYAML lib document of
             Inl e \<Rightarrow> Inl e
           | Inr p0 \<Rightarrow> (case checkedProfile p0 of Inl e \<Rightarrow> Inl e | Inr p \<Rightarrow> Inr (p, profOrder p, document))))"

definition mergedExternal ::
  "yaml_lib \<Rightarrow> profile_record list \<Rightarrow> yaml_node \<Rightarrow> profile \<Rightarrow> load_error + (profile \<times> yaml_node)" where
  "mergedExternal lib records document p0 =
     (if trim_space (profExtends p0) = [] then Inr (p0, document)
      else (case lookupRecord records (profExtends p0) of
              None \<Rightarrow> Inl (ExtendsNotFound (profExtends p0))
            | Some base \<Rightarrow>
                (case mergeProfileDocuments (recDocument base) document of
                   None \<Rightarrow> Inl ParseFailed
                 | Some merged \<Rightarrow>
                     (case decodeProfileYAML lib merged of Inl e \<Rightarrow> Inl e | Inr p \<Rightarrow> Inr (p, merged)))))"

definition decodeExternalConfigRecord ::
  "yaml_lib \<Rightarrow> profile_record list \<Rightarrow> bytes \<Rightarrow> load_error + (profile \<times> int \<times> yaml_node)" where
  "decodeExternalConfigRecord lib records data =
     (case decodeProfileDocument lib data of
        Inl e \<Rightarrow> Inl e
      | Inr document \<Rightarrow>
          (case decodeProfileYAML lib document of
             Inl e \<Rightarrow> Inl e
           | Inr p0 \<Rightarrow>
               (case mergedExternal lib records document p0 of
                  Inl e \<Rightarrow> Inl e
                | Inr (p1, merged) \<Rightarrow>
                    (case checkedProfile p1 of Inl e \<Rightarrow> Inl e | Inr p \<Rightarrow> Inr (p, profOrder p0, merged)))))"

definition register ::
  "string \<Rightarrow> bool \<Rightarrow> profile \<times> int \<times> yaml_node \<Rightarrow> profile_record list \<Rightarrow> load_error + profile_record list" where
  "register source builtin decoded records =
     (case decoded of (p, order, document) \<Rightarrow>
        case registerRecord \<lparr>recSource = source, recBuiltin = builtin, recOrder = order, recProfile = p,
               recDocument = document\<rparr> records of
          Inl e \<Rightarrow> Inl (Register e)
        | Inr records' \<Rightarrow> Inr records')"

text \<open>\<open>LoadFile\<close> on the file's content, \<open>None\<close> when it cannot be read. The registry is changed in
  place, so an error leaves the records as they were.\<close>

definition LoadFile ::
  "yaml_lib \<Rightarrow> string \<Rightarrow> bytes option \<Rightarrow> profile_record list \<Rightarrow> profile_record list \<times> load_error option" where
  "LoadFile lib path content records =
     (case content of
        None \<Rightarrow> (records, Some ReadFailed)
      | Some data \<Rightarrow>
          (case decodeExternalConfigRecord lib records data of
             Inl e \<Rightarrow> (records, Some e)
           | Inr decoded \<Rightarrow>
               (case register path False decoded records of
                  Inl e \<Rightarrow> (records, Some e)
                | Inr records' \<Rightarrow> (records', None))))"

text \<open>The loop of \<open>LoadProfilePath\<close> over the sorted files of a directory: it stops at the first error
  and keeps what it has loaded.\<close>

fun LoadFiles ::
  "yaml_lib \<Rightarrow> (string \<times> bytes option) list \<Rightarrow> profile_record list \<Rightarrow> profile_record list \<times> load_error option" where
  "LoadFiles lib [] records = (records, None)"
| "LoadFiles lib ((path, content) # files) records =
     (case LoadFile lib path content records of
        (records', Some e) \<Rightarrow> (records', Some e)
      | (records', None) \<Rightarrow> LoadFiles lib files records')"

text \<open>The built-in records: the embedded files in order; any error is a panic (\<open>None\<close>).\<close>

fun loadBuiltinProfileRecords ::
  "yaml_lib \<Rightarrow> (string \<times> bytes) list \<Rightarrow> profile_record list \<Rightarrow> profile_record list option" where
  "loadBuiltinProfileRecords lib [] records = Some records"
| "loadBuiltinProfileRecords lib ((path, data) # files) records =
     (case decodeConfigRecord lib data of
        Inl e \<Rightarrow> None
      | Inr decoded \<Rightarrow>
          (case register path True decoded records of
             Inl e \<Rightarrow> None
           | Inr records' \<Rightarrow> loadBuiltinProfileRecords lib files records'))"

section \<open>Templates (profile_export.go)\<close>

definition emptyProfile :: profile where
  "emptyProfile = \<lparr>profSource = [], profSourceType = [], profSchemaVersion = 0, profExtends = [],
     profAllowBuiltinOverride = False, profOrder = 0, profName = [], profModel = [], profModelDisplay = [],
     profDeviceType = [], profVersion = [], profPorts = 0, profPortGroups = [], profPortNames = [],
     profPortRoles = [], profPortNetworkGroups = [], profPortSpeed = 0, profUplinkSpeed = 0,
     profPortMedia = [], profUplinkMedia = [], profStability = [], profRecommended = False,
     profValidatedControllerVersions = [],
     profPayload = \<lparr>payloadKind = [], payloadRequiredVersion = [], payloadManagementInterface = [],
       payloadGatewayInterfacePrefix = [], payloadHasDPI = False\<rparr>, profDescription = []\<rparr>"

definition ProfileTemplate :: "string \<Rightarrow> profile option" where
  "ProfileTemplate kind0 =
     (let kind = to_lower (trim_space kind0) in
      if kind = ''switch'' then
        Some (emptyProfile\<lparr>profSchemaVersion := schemaVersion, profName := ''custom-switch'', profModel := ''CUSTOMSW'',
          profModelDisplay := ''Custom Lab Switch'', profDeviceType := ''usw'', profVersion := defaultSwitchVersion,
          profPorts := 8, profPortSpeed := 1000, profUplinkSpeed := 1000, profPortMedia := ''GE'',
          profUplinkMedia := ''GE'', profStability := stabilityExternal,
          profPayload := \<lparr>payloadKind = ''switch'', payloadRequiredVersion = ''5.0.0'',
            payloadManagementInterface = ''eth0'', payloadGatewayInterfacePrefix = [], payloadHasDPI = False\<rparr>,
          profDescription := ''external lab switch profile''\<rparr>)
      else if kind = ''gateway'' then
        Some (emptyProfile\<lparr>profSchemaVersion := schemaVersion, profName := ''custom-gateway'', profModel := ''CUSTOMGW'',
          profModelDisplay := ''Custom Lab Gateway'', profDeviceType := ''uxg'', profVersion := defaultGatewayVersion,
          profPorts := 2, profPortNames := [''WAN'', ''LAN''], profPortRoles := [''wan'', ''lan''],
          profPortNetworkGroups := [''WAN'', ''LAN''], profPortSpeed := 1000, profUplinkSpeed := 1000,
          profPortMedia := ''GE'', profUplinkMedia := ''GE'', profStability := stabilityExternal,
          profPayload := \<lparr>payloadKind = ''gateway'', payloadRequiredVersion = ''5.0.0'',
            payloadManagementInterface = ''eth0'', payloadGatewayInterfacePrefix = ''eth'', payloadHasDPI = False\<rparr>,
          profDescription := ''external lab gateway profile''\<rparr>)
      else None)"

text \<open>\<open>ExportProfileYAML\<close> and \<open>profileYAML\<close> up to the YAML encoder: the profile that is encoded.\<close>

definition ExportProfile :: "profile_record list \<Rightarrow> string \<Rightarrow> profile option" where
  "ExportProfile records name =
     map_option (\<lambda>p. p\<lparr>profAllowBuiltinOverride := (profSourceType p = sourceTypeBuiltIn \<or> profAllowBuiltinOverride p),
         profSource := [], profSourceType := [],
         profSchemaVersion := (if profSchemaVersion p \<noteq> 0 then profSchemaVersion p else schemaVersion),
         profOrder := 0\<rparr>)
       (LookupProfile records name)"

section \<open>Controller policies (profile_protocol.go, inform_schedule.go, controller_reporting.go)\<close>

record protocol_policy =
  ppFirmwareMinimumSeconds :: int
  ppBlockSelection :: bool
  ppControllerClock :: bool
  ppIdleSpeedtest :: bool

definition mainlineSwitchProtocolPolicy :: protocol_policy where
  "mainlineSwitchProtocolPolicy =
     \<lparr>ppFirmwareMinimumSeconds = 30, ppBlockSelection = False, ppControllerClock = True, ppIdleSpeedtest = False\<rparr>"

text \<open>The keys are (source type, name, model, version).\<close>

definition userProfileProtocolPolicies :: "((string \<times> string \<times> string \<times> string) \<times> protocol_policy) list" where
  "userProfileProtocolPolicies =
     map (\<lambda>(name, model). ((sourceTypeBuiltIn, name, model, defaultSwitchVersion), mainlineSwitchProtocolPolicy))
       [(''us16p150'', ''US16P150''), (''us24p250'', ''US24P250''), (''us48p500'', ''US48P500''),
        (''us8'', ''US8''), (''us8p60'', ''US8P60'')] @
     [((sourceTypeBuiltIn, ''uxgpro'', ''UXGPRO'', defaultGatewayVersion),
       \<lparr>ppFirmwareMinimumSeconds = 1, ppBlockSelection = True, ppControllerClock = True, ppIdleSpeedtest = True\<rparr>)]"

definition resolveUserProfileProtocol :: "profile \<Rightarrow> string \<Rightarrow> string \<Rightarrow> protocol_policy option" where
  "resolveUserProfileProtocol p model version =
     map_of userProfileProtocolPolicies (profSourceType p, profName p, model, version)"

record controller_reporting_policy =
  crBlockSelection :: bool
  crControllerClock :: bool
  crIdleSpeedtest :: bool
  crReason :: string

definition profileProtocolNoBinding :: string where
  "profileProtocolNoBinding = ''no controller policy for the exact built-in profile, model, and version''"

definition ResolveControllerReportingPolicy :: "profile \<Rightarrow> string \<Rightarrow> string \<Rightarrow> controller_reporting_policy" where
  "ResolveControllerReportingPolicy p model version =
     (case resolveUserProfileProtocol p model version of
        None \<Rightarrow> \<lparr>crBlockSelection = False, crControllerClock = False, crIdleSpeedtest = False,
                 crReason = profileProtocolNoBinding\<rparr>
      | Some pol \<Rightarrow> \<lparr>crBlockSelection = ppBlockSelection pol, crControllerClock = ppControllerClock pol,
                 crIdleSpeedtest = ppIdleSpeedtest pol, crReason = []\<rparr>)"

record inform_schedule_policy =
  spFirmwareMinimum :: int
  spSupported :: bool
  spReason :: string

definition ResolveInformSchedulePolicy :: "profile \<Rightarrow> string \<Rightarrow> string \<Rightarrow> inform_schedule_policy" where
  "ResolveInformSchedulePolicy p model version =
     (case resolveUserProfileProtocol p model version of
        None \<Rightarrow> \<lparr>spFirmwareMinimum = 0, spSupported = False, spReason = profileProtocolNoBinding\<rparr>
      | Some pol \<Rightarrow>
          if ppFirmwareMinimumSeconds pol \<le> 0
          then \<lparr>spFirmwareMinimum = 0, spSupported = False, spReason = profileProtocolNoBinding\<rparr>
          else \<lparr>spFirmwareMinimum = ppFirmwareMinimumSeconds pol * 1000000000, spSupported = True, spReason = []\<rparr>)"

definition EffectiveMinimum :: "inform_schedule_policy \<Rightarrow> int \<Rightarrow> int" where
  "EffectiveMinimum policy operatorMinimum =
     (if \<not> spSupported policy \<or> spFirmwareMinimum policy \<le> 0 then 0
      else if operatorMinimum > spFirmwareMinimum policy then operatorMinimum
      else spFirmwareMinimum policy)"

section \<open>Inheritance: the overlay wins key by key\<close>

definition yamlGet :: "yaml_node list \<Rightarrow> string \<Rightarrow> yaml_node option" where
  "yamlGet cs key = map_option (\<lambda>i. cs ! (i + 1)) (keyIndex key cs)"

fun yamlKeys :: "yaml_node list \<Rightarrow> string list" where
  "yamlKeys (k # v # rest) = ynValue k # yamlKeys rest"
| "yamlKeys _ = []"

lemma keyIndex_bounds: "keyIndex key cs = Some i \<Longrightarrow> i + 1 < length cs \<and> even i"
  by (induction key cs arbitrary: i rule: keyIndex.induct) (auto split: if_splits)

lemma keyIndex_None: "keyIndex key cs = None \<longleftrightarrow> key \<notin> set (yamlKeys cs)"
  by (induction key cs rule: keyIndex.induct) auto

lemma yamlGet_Cons [simp]:
  "yamlGet (k # v # rest) key = (if ynValue k = key then Some v else yamlGet rest key)"
  "yamlGet [] key = None" "yamlGet [k] key = None"
  by (auto simp: yamlGet_def option.map_comp comp_def intro!: option.map_cong)

lemma yamlGet_append:
  assumes "even (length cs)"
  shows "yamlGet (cs @ ds) key = (case yamlGet cs key of Some w \<Rightarrow> Some w | None \<Rightarrow> yamlGet ds key)"
  using assms by (induction cs rule: yamlKeys.induct) auto

lemma yamlGet_update:
  assumes "keyIndex k cs = Some i"
  shows "yamlGet (cs[i + 1 := x]) key = (if key = k then Some x else yamlGet cs key)"
  using assms
proof (induction cs arbitrary: i rule: yamlKeys.induct)
  case (1 a v rest)
  show ?case
  proof (cases "ynValue a = k")
    case True
    then show ?thesis using 1(2) by auto
  next
    case False
    then obtain j where j: "keyIndex k rest = Some j" "i = j + 2" using 1(2) by auto
    then show ?thesis using 1(1) [OF j(1)] False by auto
  qed
qed auto

lemma mergeContent_get:
  assumes "distinct (yamlKeys overlay)" and "even (length base)"
  shows "yamlGet (mergeContent base overlay) key =
     (case yamlGet overlay key of
        None \<Rightarrow> yamlGet base key
      | Some v \<Rightarrow> (case yamlGet base key of None \<Rightarrow> Some v | Some w \<Rightarrow> Some (mergeYAMLNodes w v)))"
  using assms
proof (induction overlay arbitrary: base rule: yamlKeys.induct)
  case (1 k v rest)
  have rest: "yamlGet rest (ynValue k) = None"
    using 1(2) by (simp add: yamlGet_def keyIndex_None)
  show ?case
  proof (cases "keyIndex (ynValue k) base")
    case None
    then have g: "yamlGet base (ynValue k) = None" by (simp add: yamlGet_def)
    have "yamlGet (mergeContent (base @ [k, v]) rest) key =
        (case yamlGet rest key of None \<Rightarrow> yamlGet (base @ [k, v]) key
         | Some u \<Rightarrow> (case yamlGet (base @ [k, v]) key of None \<Rightarrow> Some u | Some w \<Rightarrow> Some (mergeYAMLNodes w u)))"
      using 1(1) [of "base @ [k, v]"] 1(2,3) by simp
    then show ?thesis
      using None g rest 1(3) by (auto simp: yamlGet_append split: option.splits)
  next
    case (Some i)
    let ?x = "mergeYAMLNodes (base ! (i + 1)) v"
    have g: "yamlGet base (ynValue k) = Some (base ! (i + 1))" using Some by (simp add: yamlGet_def)
    have "yamlGet (mergeContent (base[i + 1 := ?x]) rest) key =
        (case yamlGet rest key of None \<Rightarrow> yamlGet (base[i + 1 := ?x]) key
         | Some u \<Rightarrow> (case yamlGet (base[i + 1 := ?x]) key of None \<Rightarrow> Some u | Some w \<Rightarrow> Some (mergeYAMLNodes w u)))"
      using 1(1) [of "base[i + 1 := ?x]"] 1(2,3) by simp
    then show ?thesis
      using Some g rest yamlGet_update [OF Some, of ?x key] by (auto split: option.splits)
  qed
qed auto

section \<open>Uniqueness of names and models\<close>

definition duplicates :: "profile_record \<Rightarrow> profile_record \<Rightarrow> bool" where
  "duplicates new r \<longleftrightarrow> profName (recProfile r) = profName (recProfile new) \<or>
     equal_fold (profModel (recProfile r)) (profModel (recProfile new))"

definition unique_records :: "profile_record list \<Rightarrow> bool" where
  "unique_records rs \<longleftrightarrow> distinct (map (\<lambda>r. profName (recProfile r)) rs) \<and>
     distinct (map (\<lambda>r. to_lower (profModel (recProfile r))) rs)"

definition valid_record :: "profile_record \<Rightarrow> bool" where
  "valid_record r \<longleftrightarrow> validateProfile (recProfile r) = None"

lemma registerRecord_cases:
  assumes "registerRecord new rs = Inr rs'"
  obtains (added) "rs' = rs @ [new]" "list_all (\<lambda>r. \<not> duplicates new r) rs"
  | (replaced) xs r ys where "rs = xs @ r # ys" "rs' = xs @ new # ys" "recBuiltin r"
      "profAllowBuiltinOverride (recProfile new)" "duplicates new r"
proof -
  have "(rs' = rs @ [new] \<and> list_all (\<lambda>r. \<not> duplicates new r) rs) \<or>
      (\<exists>xs r ys. rs = xs @ r # ys \<and> rs' = xs @ new # ys \<and> recBuiltin r \<and>
         profAllowBuiltinOverride (recProfile new) \<and> duplicates new r)"
    using assms
  proof (induction rs arbitrary: rs')
    case (Cons r rs)
    show ?case
    proof (cases "duplicates new r")
      case True
      then have "rs' = new # rs \<and> recBuiltin r \<and> profAllowBuiltinOverride (recProfile new)"
        using Cons.prems by (auto simp: duplicates_def Let_def split: if_splits)
      then show ?thesis using True by (metis append_Nil)
    next
      case False
      then obtain ss where "registerRecord new rs = Inr ss" "rs' = r # ss"
        using Cons.prems by (auto simp: duplicates_def Let_def split: sum.splits)
      then show ?thesis using Cons.IH [of ss] False by (metis append_Cons list.pred_inject(2))
    qed
  qed simp
  then show thesis using that by blast
qed

lemma registerRecord_valid:
  assumes "registerRecord new rs = Inr rs'" and "valid_record new" and "list_all valid_record rs"
  shows "list_all valid_record rs'"
  using assms by (cases rule: registerRecord_cases) auto

lemma unique_records_add:
  "unique_records rs \<Longrightarrow> list_all (\<lambda>r. \<not> duplicates new r) rs \<Longrightarrow> unique_records (rs @ [new])"
  by (auto simp: unique_records_def duplicates_def equal_fold_def list_all_iff)

lemma checkedProfile_valid: "checkedProfile p0 = Inr p \<Longrightarrow> validateProfile p = None"
  by (auto simp: checkedProfile_def Let_def split: option.splits)

lemma decodeExternal_valid:
  assumes "decodeExternalConfigRecord lib records data = Inr (p, order, doc)"
  shows "validateProfile p = None"
  using assms
  by (auto simp: decodeExternalConfigRecord_def split: sum.splits prod.splits dest: checkedProfile_valid)

text \<open>One file: nothing happens, a valid record is added, or it replaces a built-in one.\<close>

lemma LoadFile_cases:
  assumes "LoadFile lib path content rs = (rs', e)"
  obtains (failed) er where "rs' = rs" "e = Some er"
  | (loaded) new where "e = None" "valid_record new" "recSource new = path" "\<not> recBuiltin new"
      "registerRecord new rs = Inr rs'"
proof (cases e)
  case (Some er)
  then show thesis using assms failed by (auto simp: LoadFile_def split: option.splits sum.splits)
next
  case None
  then obtain data p order doc where d: "decodeExternalConfigRecord lib rs data = Inr (p, order, doc)"
    and r: "register path False (p, order, doc) rs = Inr rs'"
    using assms by (auto simp: LoadFile_def split: option.splits sum.splits)
  let ?new = "\<lparr>recSource = path, recBuiltin = False, recOrder = order, recProfile = p, recDocument = doc\<rparr>"
  have "registerRecord ?new rs = Inr rs'" using r by (auto simp: register_def split: sum.splits)
  then show thesis using None loaded [of ?new] decodeExternal_valid [OF d] by (simp add: valid_record_def)
qed

definition builtins :: "profile_record list \<Rightarrow> nat" where
  "builtins rs = length (filter recBuiltin rs)"

lemma LoadFile_step:
  assumes "LoadFile lib path content rs = (rs', e)"
  shows "list_all valid_record rs \<Longrightarrow> list_all valid_record rs'"
    and "builtins rs' \<le> builtins rs"
    and "builtins rs' = builtins rs \<Longrightarrow> unique_records rs \<Longrightarrow> unique_records rs' \<and> (\<exists>new. rs' = rs @ new)"
proof -
  show "list_all valid_record rs \<Longrightarrow> list_all valid_record rs'"
    using assms by (cases rule: LoadFile_cases) (auto dest: registerRecord_valid)
  have "builtins rs' \<le> builtins rs \<and>
      (builtins rs' = builtins rs \<longrightarrow> unique_records rs \<longrightarrow> unique_records rs' \<and> (\<exists>new. rs' = rs @ new))"
    using assms
  proof (cases rule: LoadFile_cases)
    case (loaded new)
    from loaded(5) show ?thesis
    proof (cases rule: registerRecord_cases)
      case added
      then show ?thesis using unique_records_add [of rs new] loaded(4) by (auto simp: builtins_def)
    next
      case (replaced xs r ys)
      then show ?thesis using loaded(4) by (simp add: builtins_def)
    qed
  qed simp
  then show "builtins rs' \<le> builtins rs"
    and "builtins rs' = builtins rs \<Longrightarrow> unique_records rs \<Longrightarrow> unique_records rs' \<and> (\<exists>new. rs' = rs @ new)"
    by blast+
qed

lemma LoadFiles_step:
  assumes "LoadFiles lib files rs = (rs', e)"
  shows "(list_all valid_record rs \<longrightarrow> list_all valid_record rs') \<and> builtins rs' \<le> builtins rs \<and>
    (builtins rs' = builtins rs \<longrightarrow> unique_records rs \<longrightarrow> unique_records rs' \<and> (\<exists>new. rs' = rs @ new))"
  using assms
proof (induction files arbitrary: rs)
  case (Cons fl fls)
  obtain path content where fl: "fl = (path, content)" by fastforce
  obtain rs1 e1 where l: "LoadFile lib path content rs = (rs1, e1)" by fastforce
  note s = LoadFile_step [OF l]
  show ?case
  proof (cases e1)
    case (Some er)
    then show ?thesis using Cons.prems l s by (auto simp: fl)
  next
    case None
    then have "LoadFiles lib fls rs1 = (rs', e)" using Cons.prems l by (simp add: fl)
    note i = Cons.IH [OF this]
    have "unique_records rs' \<and> (\<exists>new. rs' = rs @ new)" if "builtins rs' = builtins rs" "unique_records rs"
    proof -
      have "builtins rs1 = builtins rs" "builtins rs' = builtins rs1" using i s(2) that(1) by linarith+
      then show ?thesis using i s(3) that(2) by fastforce
    qed
    then show ?thesis using i s(1,2) by auto
  qed
qed simp

section \<open>The ports of a valid profile\<close>

lemma firstError_None: "firstError es = None \<longleftrightarrow> list_all (\<lambda>e. e = None) es"
  by (induction es rule: firstError.induct) auto

lemma indexedError_None:
  assumes "\<And>i x. check i x = None \<longleftrightarrow> P x"
  shows "indexedError n check xs = None \<longleftrightarrow> list_all P xs"
proof (induction xs arbitrary: n)
  case (Cons x xs)
  then show ?case using assms [of n x] by (cases "check n x") auto
qed simp

lemma valid_groups:
  assumes "validateProfile p = None"
  shows "list_all (\<lambda>g. 1 \<le> grpCount g) (profPortGroups p)" and "1 \<le> profPorts p"
    and "profPortGroups p \<noteq> [] \<Longrightarrow> sum_list (map grpCount (profPortGroups p)) = profPorts p"
proof -
  have g: "validatePortGroups p = None" "1 \<le> profPorts p"
    using assms by (auto simp: validateProfile_def firstError_None split: if_splits)
  have "indexedError 0 checkGroup (profPortGroups p) = None"
    using g(1) by (auto simp: validatePortGroups_def Let_def firstError_None)
  moreover have "checkGroup i g = None \<longleftrightarrow> 1 \<le> grpCount g \<and> 0 \<le> grpSpeed g" for i g
    by (auto simp: checkGroup_def)
  ultimately have "list_all (\<lambda>g. 1 \<le> grpCount g \<and> 0 \<le> grpSpeed g) (profPortGroups p)"
    using indexedError_None [of checkGroup "\<lambda>g. 1 \<le> grpCount g \<and> 0 \<le> grpSpeed g"] by blast
  then show "list_all (\<lambda>g. 1 \<le> grpCount g) (profPortGroups p)" by (simp add: list_all_iff)
  show "1 \<le> profPorts p" by (rule g(2))
  show "profPortGroups p \<noteq> [] \<Longrightarrow> sum_list (map grpCount (profPortGroups p)) = profPorts p"
    using g(1) by (auto simp: validatePortGroups_def Let_def firstError_None split: if_splits)
qed

lemma groupTotals_all:
  "list_all (\<lambda>g. 1 \<le> grpCount g) gs \<Longrightarrow> \<exists>u. groupTotals gs tot up = Some (tot + sum_list (map grpCount gs), u)"
proof (induction gs arbitrary: tot up)
  case (Cons g gs)
  then show ?case
    using Cons.IH [of "tot + grpCount g" "if grpUplink g \<and> up = 0 then tot + 1 else up"] by (simp add: add.assoc)
qed simp

definition groupSpeeds :: "int \<Rightarrow> port_group list \<Rightarrow> int list" where
  "groupSpeeds speed gs =
     concat (map (\<lambda>g. replicate (nat (grpCount g)) (if grpSpeed g \<le> 0 then speed else grpSpeed g)) gs)"

lemma length_groupSpeeds: "list_all (\<lambda>g. 1 \<le> grpCount g) gs \<Longrightarrow> int (length (groupSpeeds d gs)) = sum_list (map grpCount gs)"
  by (induction gs) (auto simp: groupSpeeds_def)

lemma generatedPort_speed [simp]: "pSpeed (generatedPort i sp m u pu ns rs gs) = sp"
  by (simp add: generatedPort_def Let_def)

lemma groupPorts_speed:
  "map pSpeed (groupPorts layout up idx g) =
     map (\<lambda>k. if idx + 1 + int k = up then layoutUplinkSpeed layout
            else (if grpSpeed g \<le> 0 then layoutSpeed layout else grpSpeed g)) [0..<nat (grpCount g)]"
  by (simp add: groupPorts_def Let_def comp_def)

lemma groupsPorts_speed:
  assumes "list_all (\<lambda>g. 1 \<le> grpCount g) gs"
  shows "map pSpeed (groupsPorts layout up idx gs) =
    map (\<lambda>k. if idx + 1 + int k = up then layoutUplinkSpeed layout else groupSpeeds (layoutSpeed layout) gs ! k)
      [0..<length (groupSpeeds (layoutSpeed layout) gs)]"
  using assms
proof (induction gs arbitrary: idx)
  case (Cons g gs)
  let ?n = "nat (grpCount g)" and ?s = "groupSpeeds (layoutSpeed layout) gs"
  let ?d = "if grpSpeed g \<le> 0 then layoutSpeed layout else grpSpeed g"
  have c: "1 \<le> grpCount g" and r: "groupSpeeds (layoutSpeed layout) (g # gs) = replicate ?n ?d @ ?s"
    using Cons.prems by (simp_all add: groupSpeeds_def)
  have split: "[0..<?n + length ?s] = [0..<?n] @ map (\<lambda>k. ?n + k) [0..<length ?s]"
    by (simp add: upt_add_eq_append [of 0] map_add_upt add.commute)
  show ?case
    using Cons c unfolding groupsPorts.simps map_append r length_append length_replicate split groupPorts_speed
    by (auto simp: nth_append algebra_simps comp_def)
qed (simp add: groupSpeeds_def)

lemma applyUplinkPort_speed [simp]: "map pSpeed (applyUplinkPort ports t) = map pSpeed ports"
  by (rule nth_equalityI) (auto simp: applyUplinkPort_def Let_def nth_list_update)

definition defaultSpeeds :: "profile \<Rightarrow> port_build_options \<Rightarrow> port_layout" where
  "defaultSpeeds p opts = normalizePortLayout (profilePortLayout p opts)"

lemma BuildPorts_group_speeds:
  assumes v: "validateProfile p = None" and g: "profPortGroups p \<noteq> []"
    and o: "optCount opts \<le> 0" "optLinkSpeed opts \<le> 0"
  obtains u where "map pSpeed (BuildPorts p opts) =
      map (\<lambda>i. if int i + 1 = u then layoutUplinkSpeed (defaultSpeeds p opts)
             else groupSpeeds (layoutSpeed (defaultSpeeds p opts)) (profPortGroups p) ! i) [0..<nat (profPorts p)]"
proof -
  let ?l = "defaultSpeeds p opts" and ?gs = "profPortGroups p"
  note vg = valid_groups [OF v]
  have lg: "layoutPortGroups ?l = ?gs"
    using o(2) by (simp add: defaultSpeeds_def profilePortLayout_def normalizePortLayout_def Let_def)
  obtain u0 where "groupTotals ?gs 0 0 = Some (profPorts p, u0)"
    using groupTotals_all [OF vg(1), of 0 0] vg(3) [OF g] by auto
  then have gp: "groupedSwitchPorts (profPorts p) ?l = groupsPorts ?l (if u0 = 0 then 1 else u0) 0 ?gs"
    using g by (simp add: groupedSwitchPorts_def lg)
  have n: "length (groupSpeeds (layoutSpeed ?l) ?gs) = nat (profPorts p)"
    using length_groupSpeeds [OF vg(1)] vg(3) [OF g] by (metis nat_int)
  have sp: "map pSpeed (groupsPorts ?l (if u0 = 0 then 1 else u0) 0 ?gs) =
      map (\<lambda>k. if int k + 1 = (if u0 = 0 then 1 else u0) then layoutUplinkSpeed ?l
             else groupSpeeds (layoutSpeed ?l) ?gs ! k) [0..<nat (profPorts p)]"
    using groupsPorts_speed [OF vg(1), of ?l _ 0] n by (simp add: add.commute)
  then have "groupsPorts ?l (if u0 = 0 then 1 else u0) 0 ?gs \<noteq> []" using vg(2) by auto
  then have "BuildPorts p opts = applyUplinkPort (groupsPorts ?l (if u0 = 0 then 1 else u0) 0 ?gs) (layoutUplinkPort ?l)"
    using o(1) vg(2) gp by (simp add: BuildPorts_def switchPortsWithLayout_def Let_def defaultSpeeds_def)
  then show thesis using sp that [of "if u0 = 0 then 1 else u0"] by simp
qed

section \<open>Main properties\<close>

text \<open>C26: inheritance between profile documents. Merging an overlay with distinct keys into a base mapping
  gives, for every key, the base value where the overlay has none, the overlay value where the base
  has none, and otherwise the merge of the two; keys are never lost, also for nested mappings.\<close>

theorem merged_profile_inherits:
  assumes "ynKind base = MappingNode" and "ynKind overlay = MappingNode"
    and "even (length (ynContent base))" and "distinct (yamlKeys (ynContent overlay))"
  shows "ynKind (mergeYAMLNodes base overlay) = MappingNode \<and>
    yamlGet (ynContent (mergeYAMLNodes base overlay)) key =
      (case yamlGet (ynContent overlay) key of
         None \<Rightarrow> yamlGet (ynContent base) key
       | Some v \<Rightarrow> Some (case yamlGet (ynContent base) key of None \<Rightarrow> v | Some w \<Rightarrow> mergeYAMLNodes w v))"
  using assms mergeContent_get [of "ynContent overlay" "ynContent base" key]
  by (cases base; cases overlay) (auto split: option.splits)

definition yamlText :: "string \<Rightarrow> yaml_node" where "yamlText s = YamlNode ScalarNode [] s [] None"

definition yamlMap :: "(string \<times> yaml_node) list \<Rightarrow> yaml_node" where
  "yamlMap kvs = YamlNode MappingNode [] [] (concat (map (\<lambda>(k, v). [yamlText k, v]) kvs)) None"

theorem merged_profile_inherits_witness:
  "yamlGet (ynContent (mergeYAMLNodes
      (yamlMap [(''name'', yamlText ''us8''), (''payload'', yamlMap [(''kind'', yamlText ''switch'')])])
      (yamlMap [(''payload'', yamlMap [(''has_dpi'', yamlText ''true'')])]))) ''payload'' =
    Some (yamlMap [(''kind'', yamlText ''switch''), (''has_dpi'', yamlText ''true'')])"
  using merged_profile_inherits [of
      "yamlMap [(''name'', yamlText ''us8''), (''payload'', yamlMap [(''kind'', yamlText ''switch'')])]"
      "yamlMap [(''payload'', yamlMap [(''has_dpi'', yamlText ''true'')])]" "''payload''"]
  by (simp add: yamlMap_def yamlText_def)

text \<open>C27: loading external profiles. Whatever files are loaded, and wherever loading stops with an error,
  every record of the registry is a valid profile and no built-in record is added; and unless a
  built-in record was overridden, the records loaded so far are appended to the registry and profile
  names and (case-folded) models stay unique.\<close>

theorem LoadFiles_registry:
  assumes "LoadFiles lib files rs = (rs', e)" and "list_all valid_record rs" and "unique_records rs"
  shows "list_all valid_record rs' \<and> builtins rs' \<le> builtins rs \<and>
    (builtins rs' = builtins rs \<longrightarrow> unique_records rs' \<and> (\<exists>new. rs' = rs @ new))"
  using LoadFiles_step [OF assms(1)] assms(2,3) by blast

definition labYaml :: yaml_lib where
  "labYaml = \<lparr>yamlParse = \<lambda>data. Some (yamlText (string_of data)),
     yamlDecode = \<lambda>n. map_option (\<lambda>p. p\<lparr>profName := ynValue n\<rparr>) (ProfileTemplate ''switch'')\<rparr>"

definition labFiles :: "(string \<times> bytes option) list" where
  "labFiles = [(''/a.yaml'', Some (bytes_of ''sw'')), (''/b.yaml'', Some []), (''/c.yaml'', None)]"

lemma LoadFiles_lab:
  "snd (LoadFiles labYaml labFiles []) = Some (Invalid NameRequired)"
  "length (fst (LoadFiles labYaml labFiles [])) = 1"
  by code_simp+

theorem LoadFiles_registry_witness:
  "list_all valid_record (fst (LoadFiles labYaml labFiles [])) \<and> length (fst (LoadFiles labYaml labFiles [])) = 1"
  using LoadFiles_registry [of labYaml labFiles "[]"] LoadFiles_lab(2)
  by (cases "LoadFiles labYaml labFiles []") (simp add: unique_records_def)

text \<open>the override gap. An external profile that may override built-in records replaces the first
  record it collides with and is not compared with the records after it: here it takes the name of
  one built-in profile and the model of another one, so two records of the registry have the same
  model and the second built-in record is no longer found by it.\<close>

definition builtinRecord :: "string \<Rightarrow> string \<Rightarrow> profile_record" where
  "builtinRecord name model = \<lparr>recSource = ''built-in'', recBuiltin = True, recOrder = 10,
     recProfile = emptyProfile\<lparr>profName := name, profModel := model\<rparr>, recDocument = yamlMap []\<rparr>"

definition overrideRecord :: profile_record where
  "overrideRecord = \<lparr>recSource = ''/etc/p.yaml'', recBuiltin = False, recOrder = 0,
     recProfile = emptyProfile\<lparr>profName := ''us8'', profModel := ''US16P150'', profAllowBuiltinOverride := True\<rparr>,
     recDocument = yamlMap []\<rparr>"

theorem override_duplicates_model:
  "unique_records [builtinRecord ''us8'' ''US8'', builtinRecord ''us16p150'' ''US16P150''] \<and>
   registerRecord overrideRecord [builtinRecord ''us8'' ''US8'', builtinRecord ''us16p150'' ''US16P150''] =
     Inr [overrideRecord, builtinRecord ''us16p150'' ''US16P150''] \<and>
   \<not> unique_records [overrideRecord, builtinRecord ''us16p150'' ''US16P150''] \<and>
   lookupRecord [overrideRecord, builtinRecord ''us16p150'' ''US16P150''] ''US16P150'' = Some overrideRecord"
proof (intro conjI)
  show "unique_records [builtinRecord ''us8'' ''US8'', builtinRecord ''us16p150'' ''US16P150'']" by code_simp
  show "registerRecord overrideRecord [builtinRecord ''us8'' ''US8'', builtinRecord ''us16p150'' ''US16P150''] =
     Inr [overrideRecord, builtinRecord ''us16p150'' ''US16P150'']"
    by (simp add: overrideRecord_def builtinRecord_def)
  show "\<not> unique_records [overrideRecord, builtinRecord ''us16p150'' ''US16P150'']" by code_simp
  have "answers (to_lower (trim_space ''US16P150'')) overrideRecord" by code_simp
  then show "lookupRecord [overrideRecord, builtinRecord ''us16p150'' ''US16P150''] ''US16P150'' = Some overrideRecord"
    by (simp add: lookupRecord_def)
qed

text \<open>a registered profile is found by its own name exactly when no earlier record answers to it:
  registration compares names with case, lookup without it and with the models as well, so a
  profile that was accepted can be unreachable.\<close>

theorem added_profile_found:
  assumes "registerRecord new rs = Inr (rs @ [new])" and "trim_space (profName (recProfile new)) = profName (recProfile new)"
  shows "lookupRecord (rs @ [new]) (profName (recProfile new)) =
    (case lookupRecord rs (profName (recProfile new)) of None \<Rightarrow> Some new | Some r \<Rightarrow> Some r)"
proof -
  have "answers (to_lower (profName (recProfile new))) new" by (simp add: answers_def)
  moreover have "find P (rs @ [x]) = (case find P rs of None \<Rightarrow> if P x then Some x else None | Some r \<Rightarrow> Some r)" for P x
    by (induction rs) simp_all
  ultimately show ?thesis using assms(2) by (simp add: lookupRecord_def)
qed

definition shadowedRecord :: profile_record where
  "shadowedRecord = \<lparr>recSource = ''/etc/p.yaml'', recBuiltin = False, recOrder = 0,
     recProfile = emptyProfile\<lparr>profName := ''US8'', profModel := ''MYSW''\<rparr>, recDocument = yamlMap []\<rparr>"

theorem added_profile_found_witness:
  "lookupRecord [builtinRecord ''us8'' ''US8'', shadowedRecord] (profName (recProfile shadowedRecord)) =
    Some (builtinRecord ''us8'' ''US8'')"
proof -
  have "registerRecord shadowedRecord [builtinRecord ''us8'' ''US8''] =
      Inr ([builtinRecord ''us8'' ''US8''] @ [shadowedRecord])"
    by (simp add: shadowedRecord_def builtinRecord_def equal_fold_def to_lower_def lower_char_def)
  moreover have n: "profName (recProfile shadowedRecord) = ''US8''" by (simp add: shadowedRecord_def)
  moreover have "trim_space ''US8'' = ''US8''" by code_simp
  moreover have "answers (to_lower (trim_space ''US8'')) (builtinRecord ''us8'' ''US8'')" by code_simp
  ultimately show ?thesis
    using added_profile_found [of shadowedRecord "[builtinRecord ''us8'' ''US8'']"] by (simp add: lookupRecord_def)
qed

text \<open>the port groups of a valid profile. Built without a port count or link speed of the operator,
  the ports are exactly those the groups describe, in order, each with the speed of its group (or the
  profile's), except the one default uplink port, which has the uplink speed.\<close>

theorem valid_profile_group_speeds:
  assumes "validateProfile p = None" and "profPortGroups p \<noteq> []"
    and "optCount opts \<le> 0" and "optLinkSpeed opts \<le> 0"
  shows "int (length (groupSpeeds (layoutSpeed (defaultSpeeds p opts)) (profPortGroups p))) = profPorts p \<and>
    (\<exists>u. map pSpeed (BuildPorts p opts) =
      map (\<lambda>i. if int i + 1 = u then layoutUplinkSpeed (defaultSpeeds p opts)
             else groupSpeeds (layoutSpeed (defaultSpeeds p opts)) (profPortGroups p) ! i) [0..<nat (profPorts p)])"
proof -
  obtain u where "map pSpeed (BuildPorts p opts) =
      map (\<lambda>i. if int i + 1 = u then layoutUplinkSpeed (defaultSpeeds p opts)
             else groupSpeeds (layoutSpeed (defaultSpeeds p opts)) (profPortGroups p) ! i) [0..<nat (profPorts p)]"
    by (rule BuildPorts_group_speeds [OF assms])
  then show ?thesis
    using length_groupSpeeds [OF valid_groups(1) [OF assms(1)]] valid_groups(3) [OF assms(1,2)] by auto
qed

definition groupedProfile :: profile where
  "groupedProfile = (the (ProfileTemplate ''gateway''))\<lparr>profPorts := 3,
     profPortGroups := [\<lparr>grpCount = 2, grpSpeed = 2500, grpMedia = [], grpUplink = False\<rparr>,
       \<lparr>grpCount = 1, grpSpeed = 10000, grpMedia = ''SFP+'', grpUplink = True\<rparr>]\<rparr>"

theorem valid_profile_group_speeds_witness:
  "int (length (groupSpeeds (layoutSpeed (defaultSpeeds groupedProfile \<lparr>optCount = 0, optLinkSpeed = 0, optUplinkSpeed = 0,
      optUplinkPort = 0\<rparr>)) (profPortGroups groupedProfile))) = 3"
proof -
  have "validateProfile groupedProfile = None" "profPortGroups groupedProfile \<noteq> []" "profPorts groupedProfile = 3"
    by code_simp+
  then show ?thesis
    using valid_profile_group_speeds [of groupedProfile
        "\<lparr>optCount = 0, optLinkSpeed = 0, optUplinkSpeed = 0, optUplinkPort = 0\<rparr>"] by simp
qed

text \<open>controller policies are bound to exact built-in products. A profile from outside never enables a
  controller-driven behaviour, and no interval of the controller can go below one second.\<close>

theorem external_profile_inert:
  assumes "LookupProfile rs name = Some p" and "lookupRecord rs name = Some r" and "\<not> recBuiltin r"
  shows "\<not> crBlockSelection (ResolveControllerReportingPolicy p model version) \<and>
    \<not> crControllerClock (ResolveControllerReportingPolicy p model version) \<and>
    \<not> crIdleSpeedtest (ResolveControllerReportingPolicy p model version) \<and>
    EffectiveMinimum (ResolveInformSchedulePolicy p model version) m = 0"
proof -
  have "profSourceType p = sourceTypeExternal" using assms by (auto simp: LookupProfile_def profileWithSource_def)
  then have "resolveUserProfileProtocol p model version = None"
    by (simp add: resolveUserProfileProtocol_def userProfileProtocolPolicies_def sourceTypeBuiltIn_def sourceTypeExternal_def)
  then show ?thesis
    by (simp add: ResolveControllerReportingPolicy_def ResolveInformSchedulePolicy_def EffectiveMinimum_def)
qed

theorem external_profile_inert_witness:
  "EffectiveMinimum (ResolveInformSchedulePolicy (profileWithSource overrideRecord) ''US8'' defaultSwitchVersion) 5 = 0"
proof -
  have "answers (to_lower (trim_space ''us8'')) overrideRecord" by code_simp
  then have l: "lookupRecord [overrideRecord] ''us8'' = Some overrideRecord" by (simp add: lookupRecord_def)
  then have "LookupProfile [overrideRecord] ''us8'' = Some (profileWithSource overrideRecord)" by (simp add: LookupProfile_def)
  then show ?thesis using external_profile_inert [OF _ l] by (simp add: overrideRecord_def)
qed

lemma supported_minimum:
  "spSupported (ResolveInformSchedulePolicy p model version) \<Longrightarrow>
     1000000000 \<le> EffectiveMinimum (ResolveInformSchedulePolicy p model version) m \<and>
     m \<le> EffectiveMinimum (ResolveInformSchedulePolicy p model version) m"
  by (auto simp: ResolveInformSchedulePolicy_def EffectiveMinimum_def split: option.splits if_splits)

lemma ProfileTemplate_kinds:
  "ProfileTemplate kind =
     (if to_lower (trim_space kind) = ''switch'' then ProfileTemplate ''switch''
      else if to_lower (trim_space kind) = ''gateway'' then ProfileTemplate ''gateway'' else None)"
proof -
  have "to_lower (trim_space ''switch'') = ''switch''" "to_lower (trim_space ''gateway'') = ''gateway''" by code_simp+
  then show ?thesis by (simp only: ProfileTemplate_def Let_def) simp
qed

lemma templates_valid:
  assumes "ProfileTemplate kind = Some p"
  shows "validateProfile (applyProfileDefaults p) = None"
proof -
  have "validateProfile (applyProfileDefaults (the (ProfileTemplate ''switch''))) = None"
    "validateProfile (applyProfileDefaults (the (ProfileTemplate ''gateway''))) = None" by code_simp+
  then show ?thesis
    using assms ProfileTemplate_kinds [of kind] by (metis option.distinct(1) option.sel)
qed

end
