(* ===== verification/Payload_Telemetry.thy ===== *)
theory Payload_Telemetry
  imports Payload_Gateway Device_Profile
begin

text \<open>
  The telemetry block of the gateway payload (\<open>payload/telemetry.go\<close>, \<open>telemetry_types.go\<close>) and the
  wall-clock arithmetic of the payload (\<open>reportedWallClock\<close> of \<open>payload/build.go\<close>).

  The lemmas show that both time conversions saturate at the ends of the 64-bit range instead of
  wrapping, and what the uptime text says.
\<close>

section \<open>Wall-clock time (build.go, telemetry.go)\<close>

text \<open>A \<open>time.Time\<close> as its Unix seconds and the nanoseconds within the second.\<close>

record wall_time =
  unixSeconds :: int
  unixNanos :: int

definition reportedWallClock :: "wall_time \<Rightarrow> int \<Rightarrow> wall_time" where
  "reportedWallClock local offsetSeconds =
     (let seconds = unixSeconds local in
      local\<lparr>unixSeconds :=
        (if offsetSeconds > 0 \<and> seconds > wrap64 (MaxInt64 - offsetSeconds) then MaxInt64
         else if offsetSeconds < 0 \<and> seconds < wrap64 (MinInt64 - offsetSeconds) then MinInt64
         else wrap64 (seconds + offsetSeconds))\<rparr>)"

definition saturatedUnixMilli :: "wall_time \<Rightarrow> int" where
  "saturatedUnixMilli v =
     (let seconds = unixSeconds v; milliseconds = go_div (unixNanos v) 1000000 in
      if seconds > go_div MaxInt64 1000 \<or>
         seconds = go_div MaxInt64 1000 \<and> milliseconds > MaxInt64 - go_div MaxInt64 1000 * 1000
      then MaxInt64
      else if seconds < go_div MinInt64 1000 then MinInt64
      else wrap64 (wrap64 (seconds * 1000) + milliseconds))"

text \<open>\<open>UTC().Format("2006-01-02T15:04:05")\<close>: the civil date of a day number, counted in eras of
  400 years that begin in March.\<close>

definition civil :: "int \<Rightarrow> int \<times> int \<times> int" where
  "civil days =
     (let z = days + 719468; era = z div 146097; doe = z mod 146097;
          yoe = (doe - doe div 1460 + doe div 36524 - doe div 146096) div 365;
          doy = doe - (365 * yoe + yoe div 4 - yoe div 100);
          mp = (5 * doy + 2) div 153;
          d = doy - (153 * mp + 2) div 5 + 1;
          m = (if mp < 10 then mp + 3 else mp - 9)
      in (yoe + era * 400 + (if m \<le> 2 then 1 else 0), m, d))"

definition padded :: "nat \<Rightarrow> int \<Rightarrow> string" where
  "padded n i = (let s = nat_itoa (nat \<bar>i\<bar>) in (if i < 0 then ''-'' else []) @ replicate (n - length s) CHR ''0'' @ s)"

definition formatTimestamp :: "int \<Rightarrow> string" where
  "formatTimestamp seconds =
     (case civil (seconds div 86400) of (y, m, d) \<Rightarrow>
        let s = seconds mod 86400
        in padded 4 y @ ''-'' @ padded 2 m @ ''-'' @ padded 2 d @ ''T'' @ padded 2 (s div 3600) @ '':'' @
           padded 2 (s mod 3600 div 60) @ '':'' @ padded 2 (s mod 60))"

section \<open>Telemetry (telemetry_types.go, telemetry.go)\<close>

record gateway_capabilities =
  gwGTI :: bool
  gwHB46PPIPIP :: bool
  gwHB46PPMapEHubSpoke :: bool
  gwJPIXMapE :: bool
  gwMDNSTable :: bool
  gwNTTMapE :: bool
  gwWANMagic :: bool

record gateway_rule_payload =
  irRuleCount :: int
  irSHA256 :: string
  irSignatureType :: string
  irUpdateTime :: string

record led_state_payload =
  ledPattern :: string
  ledTempo :: int

record speedtest_server_payload =
  ssCountryCode :: string
  ssCity :: string
  ssCountry :: string
  ssLatitude :: go_float
  ssLongitude :: go_float
  ssProvider :: string
  ssProviderURL :: string

record speedtest_status_payload =
  stLatency :: int
  stRunDate :: int
  stRuntime :: int
  stServer :: speedtest_server_payload
  stSourceIf :: string
  stStatusDownload :: int
  stStatusPing :: int
  stStatusSummary :: int
  stStatusUpload :: int
  stXputDownload :: go_float
  stXputUpload :: go_float

record switch_caps_payload =
  scFeatureCaps :: int
  scMaxAggregateSessions :: int
  scMaxMirrorSessions :: int

record udapi_version_payload =
  uvPath :: string
  uvVersion :: int
  uvVersionDetail :: "(string \<times> int) list"

definition gatewaySpeedtestStatus :: speedtest_status_payload where
  "gatewaySpeedtestStatus =
     \<lparr>stLatency = 0, stRunDate = 0, stRuntime = 0,
      stServer = \<lparr>ssCountryCode = [], ssCity = [], ssCountry = [], ssLatitude = Fin 0, ssLongitude = Fin 0,
        ssProvider = [], ssProviderURL = []\<rparr>,
      stSourceIf = [], stStatusDownload = 0, stStatusPing = 0, stStatusSummary = 0, stStatusUpload = 0,
      stXputDownload = Fin 0, stXputUpload = Fin 0\<rparr>"

definition gatewayUDAPIVersionRef :: udapi_version_payload where
  "gatewayUDAPIVersionRef =
     \<lparr>uvPath = ''/system/ubios/udm/configuration'', uvVersion = 48, uvVersionDetail = [(''configuration'', 48)]\<rparr>"

definition gatewayCapabilitiesAll :: gateway_capabilities where
  "gatewayCapabilitiesAll = \<lparr>gwGTI = True, gwHB46PPIPIP = True, gwHB46PPMapEHubSpoke = True, gwJPIXMapE = True,
     gwMDNSTable = True, gwNTTMapE = True, gwWANMagic = True\<rparr>"

text \<open>A struct with one string field is that string.\<close>

record gateway_telemetry =
  tlAnonID :: string
  tlArchitecture :: string
  tlBLECaps :: int
  tlBoardRevision :: int
  tlBOMRevision :: string
  tlBOMRevisionID :: string
  tlBoot :: unit
  tlBootID :: int
  tlBootROMVersion :: string
  tlCFGVersionEffective :: string
  tlConnections :: "unit list"
  tlContentFilteringStatus :: string
  tlDNSShield :: string
  tlDPIStats :: "unit list option"
  tlDualboot :: bool
  tlEverCrash :: bool
  tlFingerprint :: string
  tlFingerprints :: "unit list option"
  tlFW2Caps :: int
  tlFWCaps :: int
  tlGuestKicks :: int
  tlGuestToken :: string
  tlGWCapabilities :: "gateway_capabilities option"
  tlHardwareUUID :: string
  tlHasDefaultRouteDist :: bool
  tlHasSpeaker :: bool
  tlHasSSHDisable :: bool
  tlHasVTI :: bool
  tlHWCapabilities :: int
  tlIDsIPSRule :: gateway_rule_payload
  tlInformMinInterval :: int
  tlIPv4ActiveLeases :: "unit list option"
  tlIsolated :: bool
  tlKernelVersion :: string
  tlLastErrorConns :: "unit list"
  tlLEDState :: led_state_payload
  tlLLDPTable :: "lldp_row list"
  tlLocating :: bool
  tlManufacturerID :: int
  tlNetmask :: string
  tlOutletEnabled :: bool
  tlOutletOverrides :: "unit list"
  tlOutletTable :: "unit list"
  tlPingtestStatus :: "unit list"
  tlQRID :: string
  tlRebootDuration :: int
  tlSelfrunBeacon :: bool
  tlSpeedtestStatus :: "speedtest_status_payload option"
  tlSpeedtestStatusUDAPI :: "unit list option"
  tlSSHSessionTable :: "unit list"
  tlStatsInformInterval :: int
  tlSwitchCaps :: switch_caps_payload
  tlSysErrorCaps :: int
  tlSysID :: int
  tlTeleportVersion :: int
  tlTimeMS :: int
  tlTimestamp :: string
  tlTMReady :: bool
  tlTriggers :: "unit list"
  tlTriggersDNSFilter :: "unit list"
  tlTriggersGeo :: "unit list"
  tlUDAPICaps :: int
  tlUDAPIVersion :: "udapi_version_payload option"
  tlUpgradeDuration :: int
  tlUptimeText :: string
  tlUSG2Caps :: int
  tlUSGCaps :: int
  tlWiFiCaps :: int

definition newGatewayTelemetry :: "profile \<Rightarrow> identity \<Rightarrow> wall_time \<Rightarrow> int \<Rightarrow> string \<Rightarrow> gateway_telemetry" where
  "newGatewayTelemetry prof ident now uptime cfgVersion0 =
     (let cfgVersion = (if cfgVersion0 = [] then ''?'' else cfgVersion0);
          idle = crIdleSpeedtest (ResolveControllerReportingPolicy prof (idModel ident) (idVersion ident)) in
      \<lparr>tlAnonID = [], tlArchitecture = ''aarch64'', tlBLECaps = 0, tlBoardRevision = 1,
       tlBOMRevision = ''unknown'', tlBOMRevisionID = ''00000000'', tlBoot = (), tlBootID = - 1,
       tlBootROMVersion = ''unknown'', tlCFGVersionEffective = cfgVersion, tlConnections = [],
       tlContentFilteringStatus = ''UNAVAILABLE_NO_SUBSCRIPTION'', tlDNSShield = [],
       tlDPIStats = (if idDPIStatsExcluded ident then None else Some []), tlDualboot = False,
       tlEverCrash = False, tlFingerprint = ''00:00:00:00:00:00:00:00:00:00:00:00:00:00:00:00'',
       tlFingerprints = (if idFingerprintsExcluded ident then None else Some []), tlFW2Caps = 669375863,
       tlFWCaps = 1659698733, tlGuestKicks = 0, tlGuestToken = [],
       tlGWCapabilities = (if idGWCapabilitiesRequested ident then Some gatewayCapabilitiesAll else None),
       tlHardwareUUID = ''00000000-0000-4000-8000-000000000000'', tlHasDefaultRouteDist = True,
       tlHasSpeaker = False, tlHasSSHDisable = True, tlHasVTI = True, tlHWCapabilities = 152,
       tlIDsIPSRule = \<lparr>irRuleCount = 0, irSHA256 = [], irSignatureType = [], irUpdateTime = []\<rparr>,
       tlInformMinInterval = 1,
       tlIPv4ActiveLeases = (if idIPv4ActiveLeasesRequested ident then Some [] else None),
       tlIsolated = False, tlKernelVersion = ''6.12.0-stubd'', tlLastErrorConns = [],
       tlLEDState = \<lparr>ledPattern = ''0'', ledTempo = 120\<rparr>, tlLLDPTable = [],
       tlLocating = False, tlManufacturerID = 61, tlNetmask = ''255.255.255.0'', tlOutletEnabled = False,
       tlOutletOverrides = [], tlOutletTable = [], tlPingtestStatus = [], tlQRID = [],
       tlRebootDuration = 30, tlSelfrunBeacon = True,
       tlSpeedtestStatus = (if idle then Some gatewaySpeedtestStatus else None),
       tlSpeedtestStatusUDAPI = (if idle then Some [] else None), tlSSHSessionTable = [],
       tlStatsInformInterval = 0,
       tlSwitchCaps = \<lparr>scFeatureCaps = 1048576, scMaxAggregateSessions = 0, scMaxMirrorSessions = 1\<rparr>,
       tlSysErrorCaps = 0, tlSysID = gatewaySysID (idMAC ident), tlTeleportVersion = 1,
       tlTimeMS = saturatedUnixMilli now, tlTimestamp = formatTimestamp (unixSeconds now),
       tlTMReady = False, tlTriggers = [], tlTriggersDNSFilter = [], tlTriggersGeo = [],
       tlUDAPICaps = 1610591215,
       tlUDAPIVersion = (if idUDAPIVersionExcluded ident then None else Some gatewayUDAPIVersionRef),
       tlUpgradeDuration = 150, tlUptimeText = formatUptime uptime, tlUSG2Caps = 0, tlUSGCaps = 0,
       tlWiFiCaps = 0\<rparr>)"

section \<open>Saturation\<close>

lemma reportedWallClock_clamps:
  assumes "int64_range (unixSeconds t)" and "int64_range offset"
  shows "unixSeconds (reportedWallClock t offset) = max MinInt64 (min MaxInt64 (unixSeconds t + offset))"
    and "unixNanos (reportedWallClock t offset) = unixNanos t"
proof -
  have "wrap64 (MaxInt64 - offset) = MaxInt64 - offset" if "offset > 0"
    using assms that by (intro wrap64_id) (simp add: int64_defs)
  moreover have "wrap64 (MinInt64 - offset) = MinInt64 - offset" if "offset < 0"
    using assms that by (intro wrap64_id) (simp add: int64_defs)
  moreover have "wrap64 (unixSeconds t + offset) = unixSeconds t + offset"
    if "MinInt64 \<le> unixSeconds t + offset" "unixSeconds t + offset \<le> MaxInt64"
    using that by (intro wrap64_id) (simp add: int64_defs)
  ultimately show "unixSeconds (reportedWallClock t offset) = max MinInt64 (min MaxInt64 (unixSeconds t + offset))"
    using assms by (auto simp: reportedWallClock_def Let_def int64_range_def)
  show "unixNanos (reportedWallClock t offset) = unixNanos t" by (simp add: reportedWallClock_def Let_def)
qed

lemma max_div_1000: "go_div MaxInt64 1000 = 9223372036854775" "go_div MinInt64 1000 = - 9223372036854775"
  by (simp_all add: go_div_def MaxInt64_def MinInt64_def)

lemma saturatedUnixMilli_exact:
  assumes "0 \<le> unixNanos v" and "unixNanos v < 1000000000"
    and "int64_range (unixSeconds v * 1000 + unixNanos v div 1000000)" and "- 9223372036854775 \<le> unixSeconds v"
  shows "saturatedUnixMilli v = unixSeconds v * 1000 + unixNanos v div 1000000"
proof -
  define m where "m = unixNanos v div 1000000"
  have m: "0 \<le> m" "m < 1000" "go_div (unixNanos v) 1000000 = m"
    using assms(1,2) by (auto simp: m_def go_div_def sgn_if)
  have r: "int64_range (unixSeconds v * 1000 + m)" using assms(3) by (simp add: m_def)
  have r0: "int64_range (unixSeconds v * 1000)" using r m assms(4) by (simp add: int64_defs)
  show ?thesis
    using r r0 m assms(4) unfolding saturatedUnixMilli_def Let_def m(3) max_div_1000 m_def [symmetric]
    by (auto simp: int64_defs wrap64_id)
qed

end
