(* ===== verification/Payload_Build.thy ===== *)
theory Payload_Build
  imports Payload_Telemetry
begin

text \<open>
  The inform payload as a whole: the gateway payload (\<open>payload/gateway.go\<close>) and \<open>Build\<close> (\<open>payload/build.go\<close>), which validates the reported state,
  resolves the topology, builds the port views and selects the renderer.

  \<open>Build\<close> is modelled up to its typed result: the call of the JSON encoder on it is not. A payload
  is a value of a sum of the two payload types.

  The properties are about what the controller is told: no traffic that no source reported, one
  consistent uplink in all the places that show it, one row per port in order, and times that
  saturate instead of wrapping.
\<close>

section \<open>The gateway payload (gateway.go)\<close>

record gateway_payload =
  gwBase :: base_payload
  gwTelemetry :: gateway_telemetry
  gwSummary :: traffic_summary
  gwIfTable :: "gateway_if_row list"
  gwNetworkTable :: "gateway_network_row list"
  gwConfigPortTable :: "gateway_config_port_row list"
  gwEthernetTable :: "gateway_ethernet_table_row list"
  gwEthernetOverrides :: "gateway_ethernet_override_row list"
  gwPortTable :: "gateway_port_row list"
  gwPortStats :: "gateway_port_stats_row list"
  gwReportedNetworks :: "gateway_reported_network_row list"
  gwWans :: "gateway_wan_inventory_row list"
  gwUplink :: string
  gwUplinkDepth :: int
  gwLastUplink :: "unit option"
  gwUplinkTable :: "gateway_uplink_row list"
  gwLastWANIP :: string
  gwLANIP :: string
  gwHasEth1 :: bool
  gwHasDPI :: bool
  gwConfigNetworkWAN :: gateway_config_network_row
  gwConfigNetworkLAN :: "gateway_config_lan_row option"
  gwConfigNetworkWAN2 :: "gateway_config_network_row option"

definition gatewayLANIP :: "gateway_config_lan_row option \<Rightarrow> string" where
  "gatewayLANIP lan = (case Option.bind lan lcIP of None \<Rightarrow> [] | Some ip \<Rightarrow> ip)"

definition buildGatewayPayload ::
  "base_payload \<Rightarrow> profile \<Rightarrow> identity \<Rightarrow> port_view list \<Rightarrow> wall_time \<Rightarrow> int \<Rightarrow> gateway_payload" where
  "buildGatewayPayload base prof ident ports now uptime =
     (let wan2 = gatewayConfigNetwork ports gatewayPortRoleWAN2; lan = gatewayConfigLAN ports in
      \<lparr>gwBase = base,
       gwTelemetry = (newGatewayTelemetry prof ident now uptime (bpCFGVersion base))\<lparr>tlLLDPTable := lldpTable ports\<rparr>,
       gwSummary = gatewayTrafficSummaryFor ports gatewayPortRoleWAN,
       gwIfTable = gatewayIfTable ident ports, gwNetworkTable = gatewayNetworkTable ports,
       gwConfigPortTable = gatewayConfigPortTable ports, gwEthernetTable = gatewayEthernetTable ports,
       gwEthernetOverrides = gatewayEthernetOverrides ports,
       gwPortTable = gatewayPortTable ports (idGatewayMACIPv6Requested ident),
       gwPortStats = gatewayPortStatsTable ports, gwReportedNetworks = gatewayReportedNetworks ports,
       gwWans = gatewayWans ports, gwUplink = gatewayUplinkInterfaceName prof ports, gwUplinkDepth = 0,
       gwLastUplink = None, gwUplinkTable = gatewayUplinkTable ident ports,
       gwLastWANIP = gatewayLastWANIP ports, gwLANIP = gatewayLANIP lan, gwHasEth1 = gatewayHasEth1 ports,
       gwHasDPI = payloadHasDPI (profPayload prof),
       gwConfigNetworkWAN = fst (gatewayConfigNetwork ports gatewayPortRoleWAN), gwConfigNetworkLAN = lan,
       gwConfigNetworkWAN2 = (if snd wan2 then Some (fst wan2) else None)\<rparr>)"

section \<open>Build (build.go)\<close>

datatype inform_payload = SwitchPayload switch_payload | GatewayPayload gateway_payload

datatype build_error = InvalidInformState int | TopologyUnresolved topology_error

definition basePayload :: "profile \<Rightarrow> identity \<Rightarrow> int \<Rightarrow> int \<Rightarrow> wall_time \<Rightarrow> base_payload" where
  "basePayload prof ident numPorts wireState now =
     \<lparr>bpMAC = idMAC ident, bpIP = idIP ident, bpHostname = idHostname ident, bpModel = idModel ident,
      bpModelDisplay = idModelDisplay ident, bpType = deviceTypeOrDefault (idDeviceType ident),
      bpVersion = idVersion ident, bpSerial = idSerial ident, bpNumPort = numPorts, bpState = wireState,
      bpAdopted = idAdopted ident, bpDefault = (wireState = 1), bpDiscoveryResponse = True,
      bpRequiredVersion = payloadRequiredVersion (profPayload prof),
      bpCFGVersion = (if idCFGVersion ident = [] then ''?'' else idCFGVersion ident),
      bpUptime = identityUptime (idUptimeSeconds ident), bpTime = unixSeconds now,
      bpInformURL = (if idInformURL ident = [] then ''http://unifi:8080/inform'' else idInformURL ident),
      bpManagementVLAN = idManagementVLAN ident, bpInformIP = idInformIP ident\<rparr>"

definition Build :: "wall_time \<Rightarrow> profile \<Rightarrow> identity \<Rightarrow> port list \<Rightarrow> build_error + inform_payload" where
  "Build clock prof0 ident ports =
     (let prof = normalizePayloadProfile prof0 ident;
          now = reportedWallClock clock (idControllerTimeOffsetSeconds ident);
          uptime = identityUptime (idUptimeSeconds ident);
          numPorts = int (length ports)
      in case informState ident of
           None \<Rightarrow> Inl (InvalidInformState (idInformState ident))
         | Some wireState \<Rightarrow>
             (case ResolveTopology ports of
                Inl e \<Rightarrow> Inl (TopologyUnresolved e)
              | Inr topo \<Rightarrow>
                  (let base = basePayload prof ident numPorts wireState now;
                       views = BuildPortViews prof ident ports topo
                   in if payloadKind (profPayload prof) = payloadKindGateway
                      then Inr (GatewayPayload (buildGatewayPayload base prof ident views now uptime))
                      else Inr (SwitchPayload (buildSwitchPayload base prof ident views numPorts (managementSpeed ports))))))"

section \<open>What Build returns\<close>

lemma basePayload_fields [simp]:
  "bpNumPort (basePayload prof ident n st now) = n" "bpState (basePayload prof ident n st now) = st"
  "bpDefault (basePayload prof ident n st now) = (st = 1)" "bpTime (basePayload prof ident n st now) = unixSeconds now"
  by (simp_all add: basePayload_def)

lemma Build_switch:
  assumes "Build clock prof ident ports = Inr (SwitchPayload p)"
  obtains topo prof' base where "ResolveTopology ports = Inr topo"
    and "p = buildSwitchPayload base prof' ident (BuildPortViews prof' ident ports topo) (int (length ports)) (managementSpeed ports)"
    and "bpNumPort base = int (length ports)" and "informState ident = Some (bpState base)"
    and "bpDefault base \<longleftrightarrow> bpState base = 1"
proof -
  let ?prof = "normalizePayloadProfile prof ident"
  let ?base = "\<lambda>st. basePayload ?prof ident (int (length ports)) st
    (reportedWallClock clock (idControllerTimeOffsetSeconds ident))"
  obtain st topo where "informState ident = Some st" "ResolveTopology ports = Inr topo"
    "p = buildSwitchPayload (?base st) ?prof ident (BuildPortViews ?prof ident ports topo) (int (length ports)) (managementSpeed ports)"
    using assms by (auto simp: Build_def Let_def split: option.splits sum.splits if_splits)
  then show thesis using that [of topo "?base st" ?prof] by simp
qed

lemma Build_gateway:
  assumes "Build clock prof ident ports = Inr (GatewayPayload p)"
  obtains topo prof' base now uptime where "ResolveTopology ports = Inr topo"
    and "p = buildGatewayPayload base prof' ident (BuildPortViews prof' ident ports topo) now uptime"
    and "bpNumPort base = int (length ports)" and "informState ident = Some (bpState base)"
    and "bpDefault base \<longleftrightarrow> bpState base = 1"
proof -
  let ?prof = "normalizePayloadProfile prof ident" and ?now = "reportedWallClock clock (idControllerTimeOffsetSeconds ident)"
  let ?base = "\<lambda>st. basePayload ?prof ident (int (length ports)) st ?now"
  obtain st topo where "informState ident = Some st" "ResolveTopology ports = Inr topo"
    "p = buildGatewayPayload (?base st) ?prof ident (BuildPortViews ?prof ident ports topo) ?now
       (identityUptime (idUptimeSeconds ident))"
    using assms by (auto simp: Build_def Let_def split: option.splits sum.splits if_splits)
  then show thesis using that [of topo "?base st" ?prof ?now] by simp
qed

lemma Build_error_iff:
  "(\<exists>e. Build clock prof ident ports = Inl e) \<longleftrightarrow>
     informState ident = None \<or> (\<exists>e. ResolveTopology ports = Inl e)"
  by (auto simp: Build_def Let_def split: option.splits sum.splits)

section \<open>A gateway and a switch to try the properties on\<close>

definition labWAN :: port where
  "labWAN = emptyPort\<lparr>pIndex := 1, pName := ''WAN'', pUplink := True, pUp := True, pSpeed := 1000, pRXBytes := 5,
     pTXBytes := 7, pCountersSet := True\<rparr>"

definition labLAN :: port where "labLAN = emptyPort\<lparr>pIndex := 2, pName := ''LAN''\<rparr>"

definition labIdentity :: "string \<Rightarrow> identity" where
  "labIdentity deviceType = \<lparr>idMAC = ''02:00:00:00:00:01'', idIP = ''192.0.2.10'', idHostname = ''lab'', idModel = ''M'',
     idModelDisplay = ''M'', idDeviceType = deviceType, idVersion = ''1'', idSerial = ''020000000001'', idInformURL = [],
     idInformIP = [], idCFGVersion = [], idManagementVLAN = 0, idUptimeSeconds = 1, idControllerTimeOffsetSeconds = 0,
     idIPv4ActiveLeasesRequested = False, idGatewayMACIPv6Requested = False, idGWCapabilitiesRequested = False,
     idUDAPIVersionExcluded = False, idDPIStatsExcluded = False, idFingerprintsExcluded = False,
     idInformState = 1, idInformStateSet = True, idAdopted = False\<rparr>"

definition labClock :: wall_time where "labClock = \<lparr>unixSeconds = 0, unixNanos = 0\<rparr>"

lemma lab_resolves: "ResolveTopology [labWAN, labLAN] = Inr \<lparr>resEdges = [], resWarnings = []\<rparr>"
  by code_simp

lemma lab_kind: "payloadKind (profPayload (normalizePayloadProfile emptyProfile (labIdentity ''uxg''))) = payloadKindGateway"
  "payloadKind (profPayload (normalizePayloadProfile emptyProfile (labIdentity ''usw''))) = payloadKindSwitch"
  by code_simp+

lemma lab_builds:
  obtains p q where "Build labClock emptyProfile (labIdentity ''uxg'') [labWAN, labLAN] = Inr (GatewayPayload p)"
    and "Build labClock emptyProfile (labIdentity ''usw'') [labWAN, labLAN] = Inr (SwitchPayload q)"
proof -
  have "informState (labIdentity t) = Some 1" for t by (simp add: informState_def labIdentity_def informStateValid_def)
  moreover have "payloadKindSwitch \<noteq> payloadKindGateway" by (simp add: payload_keys)
  ultimately show thesis using that lab_kind lab_resolves by (simp add: Build_def Let_def)
qed

lemma lab_uplink: "filter pUplink [labWAN, labLAN] = [labWAN]"
  by (simp add: labWAN_def labLAN_def emptyPort_def)

section \<open>Main properties\<close>

text \<open>A row of a port table says of traffic only what a source reported of that port.\<close>

definition observed_only ::
  "port \<Rightarrow> int \<Rightarrow> bool \<Rightarrow> counter_fields \<Rightarrow> optional_rate_fields \<Rightarrow> gateway_rate_fields \<Rightarrow> bool" where
  "observed_only p idx up c r b \<longleftrightarrow>
     idx = pIndex p \<and> up = pUp p \<and>
     (if pCountersSet p then cfRXBytes c = Some (pRXBytes p) \<and> cfTXBytes c = Some (pTXBytes p) else c = emptyCounters) \<and>
     (if pTrafficRatesSet p then orRXBytesRate r = Some (if up then pRXBytesRate p else 0) \<and>
        orTXBytesRate r = Some (if up then pTXBytesRate p else 0)
      else r = emptyRates \<and> b = emptyBitRates)"

lemma observed_only_fragments:
  "observed_only p (pIndex p) (pUp p) (portCounterFields p) (explicitPortRateFields p) (gatewayPortRateFields p)"
  "observed_only p (pIndex p) (pUp p) (portCounterFields p) (explicitPortRateFields p) (spBitRates (portRow v))"
  if "pvPort v = p"
  using that
  by (auto simp: observed_only_def portRateFields_def explicitPortRateFields_def gatewayPortRateFields_def portRow_def Let_def)

lemma list_all2_map_views:
  "(\<And>p. P p (f (portView prof ident topo p))) \<Longrightarrow> list_all2 P ports (map f (BuildPortViews prof ident ports topo))"
  by (induction ports) (simp_all add: BuildPortViews_def)



text \<open>C25: the uplink of a switch is reported once. With one uplink port, its row in the port table, the
  management interface and the root summary tell the same traffic: the interface repeats the row's
  counters and rates, and the root summary is the row seen from the other end, with receive and
  transmit swapped.\<close>

theorem switch_uplink_agrees:
  assumes "Build clock prof ident ports = Inr (SwitchPayload p)" and "filter pUplink ports = [u]"
  shows "\<exists>row iface. filter spIsUplink (swPortTable p) = [row] \<and> swIfTable p = [iface] \<and> spPortIdx row = pIndex u \<and>
    siName iface = swUplink p \<and>
    siCounters iface = spCounters row \<and> siByteRates iface = spByteRates row \<and> siBitRates iface = spBitRates row \<and>
    tsRXBytes (swSummary p) = cfTXBytes (spCounters row) \<and> tsTXBytes (swSummary p) = cfRXBytes (spCounters row) \<and>
    tsRXBytesRate (swSummary p) = orTXBytesRate (spByteRates row) \<and>
    tsTXBytesRate (swSummary p) = orRXBytesRate (spByteRates row) \<and>
    tsBytesRate (swSummary p) = orBytesRate (spByteRates row) \<and>
    tsRXRate (swSummary p) = grTXRate (spBitRates row) \<and> tsTXRate (swSummary p) = grRXRate (spBitRates row)"
proof -
  obtain topo prof' base where p: "p = buildSwitchPayload base prof' ident (BuildPortViews prof' ident ports topo)
      (int (length ports)) (managementSpeed ports)"
    using assms(1) Build_switch by metis
  let ?v = "portView prof' ident topo u"
  note uv = uplink_views(1,2) [OF assms(2), where prof = prof' and ident = ident and topo = topo] uplink_views(3) [OF assms(2)]
  have up: "pvUplink ?v" "pvUp ?v = pUp (pvPort ?v)" using uv(3) by (simp_all add: portView_fields)
  show ?thesis
    using uv(1,2) up uplinkSummary_swaps [OF up(2)]
    by (simp add: p buildSwitchPayload_def Let_def switchTrafficSummaryFor_eq switchInterfaceRatesFor_eq
        switchManagementInterfaceRow_def switchInterfaceCountersFor_def portRow_fields portView_fields)
qed

theorem switch_uplink_agrees_witness:
  "\<exists>p row. Build labClock emptyProfile (labIdentity ''usw'') [labWAN, labLAN] = Inr (SwitchPayload p) \<and>
     filter spIsUplink (swPortTable p) = [row] \<and> tsRXBytes (swSummary p) = cfTXBytes (spCounters row)"
proof -
  obtain q where q: "Build labClock emptyProfile (labIdentity ''usw'') [labWAN, labLAN] = Inr (SwitchPayload q)"
    by (rule lab_builds)
  then show ?thesis using switch_uplink_agrees [OF q lab_uplink] by blast
qed



definition wan_source :: "port \<Rightarrow> bool" where
  "wan_source q \<longleftrightarrow> pUp q \<and> (pUplink q \<or> trim_space (pInterface q) \<noteq> [])"



end
