(* ===== verification/Topology_Stability.thy ===== *)
theory Topology_Stability
  imports Topology
begin

text \<open>
  What LLDP can do to the topology. Observed neighbours are added to the configured ones of a port
  before the topology is resolved (\<open>internal/device/topology.go\<close>), so a resolution that was checked
  for the configuration alone is run again with them. The main lemma shows that they can never turn a
  resolution that succeeds into one that fails.
\<close>

section \<open>The configured neighbours of a port\<close>

definition configuredOf :: "topology_neighbor list \<Rightarrow> topology_neighbor list" where
  "configuredOf ns = filter (\<lambda>n. nbSource n \<noteq> NeighborSourceLLDP) ns"

text \<open>What decides between neighbours: the address and the source.\<close>

definition nb_id :: "topology_neighbor \<Rightarrow> string \<times> neighbor_source" where
  "nb_id n = (nbMAC n, nbSource n)"

definition same_config :: "port \<Rightarrow> port \<Rightarrow> bool" where
  "same_config p q \<longleftrightarrow> pIndex p = pIndex q \<and> pUplink p = pUplink q \<and>
     map nb_id (configuredOf (pNeighbors p)) = map nb_id (configuredOf (pNeighbors q))"

definition ids :: "neighbor_map \<Rightarrow> (string \<times> string \<times> neighbor_source) list" where
  "ids m = map (\<lambda>(k, n). (k, nb_id n)) m"

lemma collect_configured:
  "fst (collectNeighbors ns (c, l)) = fst (collectNeighbors (configuredOf ns) (c, l'))"
proof (induction ns arbitrary: c l l')
  case (Cons raw ns)
  show ?case
  proof (cases "normalizeTopologyNeighbor raw")
    case None
    then show ?thesis using Cons.IH by (simp add: configuredOf_def)
  next
    case (Some n)
    then have "nbSource n = nbSource raw" by (rule normalize_source)
    then show ?thesis using Some Cons.IH by (simp add: configuredOf_def Let_def)
  qed
qed (simp add: configuredOf_def)

lemma ids_add: "ids c = ids c' \<Longrightarrow> nb_id n = nb_id n' \<Longrightarrow> ids (addNeighbor k n c) = ids (addNeighbor k n' c')"
proof (induction k n c arbitrary: c' rule: addNeighbor.induct)
  case (2 key n k e m)
  then show ?case by (cases c') (auto simp: ids_def nb_id_def)
qed (simp add: ids_def)

lemma nb_id_normalize:
  assumes "nb_id a = nb_id b"
  shows "rel_option (\<lambda>x y. nb_id x = nb_id y) (normalizeTopologyNeighbor a) (normalizeTopologyNeighbor b)"
  using assms by (auto simp: nb_id_def normalizeTopologyNeighbor_def split: option.splits)

lemma collect_ids:
  assumes "map nb_id ns = map nb_id ns'" and "ids c = ids c'"
  shows "ids (fst (collectNeighbors ns (c, l))) = ids (fst (collectNeighbors ns' (c', l')))"
  using assms
proof (induction ns arbitrary: ns' c c' l l')
  case (Cons a ns)
  then obtain b bs where ns': "ns' = b # bs" "nb_id a = nb_id b" "map nb_id ns = map nb_id bs" by auto
  consider "normalizeTopologyNeighbor a = None" "normalizeTopologyNeighbor b = None"
    | x y where "normalizeTopologyNeighbor a = Some x" "normalizeTopologyNeighbor b = Some y" "nb_id x = nb_id y"
    using nb_id_normalize [OF ns'(2)] by (auto elim: option.rel_cases)
  then show ?case
  proof cases
    case 1
    then show ?thesis using Cons.IH [OF ns'(3) Cons.prems(2)] ns'(1) by simp
  next
    case 2
    have "nbSource x = nbSource y" "nbMAC x = nbMAC y" using 2(3) by (simp_all add: nb_id_def)
    then show ?thesis using Cons.IH [OF ns'(3)] ids_add [OF Cons.prems(2) 2(3)] Cons.prems(2) 2 ns'(1) by (simp add: Let_def)
  qed
qed simp

lemma collect_same_config:
  "same_config p q \<Longrightarrow> ids (fst (collectNeighbors (pNeighbors p) ([], []))) = ids (fst (collectNeighbors (pNeighbors q) ([], [])))"
  using collect_configured [of "pNeighbors p" "[]" "[]" "[]"] collect_configured [of "pNeighbors q" "[]" "[]" "[]"]
    collect_ids [of "configuredOf (pNeighbors p)" "configuredOf (pNeighbors q)" "[]" "[]" "[]" "[]"]
  by (simp add: same_config_def)

lemma ids_length: "ids c = ids c' \<Longrightarrow> length c = length c'"
  unfolding ids_def by (metis length_map)

lemma resolve_fails_iff:
  "(\<exists>e. resolvePortNeighbor p = Inl e) \<longleftrightarrow> length (fst (collectNeighbors (pNeighbors p) ([], []))) > 1"
  by (auto simp: resolvePortNeighbor_def split: prod.splits)

text \<open>A configured edge of a port is one of every port with the same configuration, up to what LLDP
  adds to it.\<close>

lemma configured_edge_transfer:
  assumes same: "same_config p q" and e: "e \<in> set (edgeOf p)" and src: "nbSource (edgeNeighbor e) \<noteq> NeighborSourceLLDP"
  shows "\<exists>e'\<in>set (edgeOf q). edgeKey e' = edgeKey e \<and> nbSource (edgeNeighbor e') = nbSource (edgeNeighbor e) \<and>
    edgeDirection e' = edgeDirection e"
proof -
  obtain c l where cl: "collectNeighbors (pNeighbors p) ([], []) = (c, l)" by fastforce
  obtain c' l' where cl': "collectNeighbors (pNeighbors q) ([], []) = (c', l')" by fastforce
  have cc: "ids c = ids c'" using collect_same_config [OF same] cl cl' by simp
  obtain n ws where n: "resolvePortNeighbor p = Inr (Some n, ws)"
    and en: "e = \<lparr>edgeLocalPort = pIndex p, edgeDirection = portDirection p, edgeNeighbor = n\<rparr>"
    using edgeOf_member [OF e] by blast
  have "\<forall>(k, x)\<in>set l. nbSource x = NeighborSourceLLDP"
    using collectNeighbors_sound [OF cl order_refl] by (simp add: from_raws_def)
  then have "length c = 1"
    using n src en by (cases l) (auto simp: resolvePortNeighbor_def cl split: if_splits prod.splits)
  then obtain k x where c: "c = [(k, x)]" by (cases c) auto
  then obtain y where c': "c' = [(k, y)]" "nb_id y = nb_id x" using cc by (auto simp: ids_def)
  then have yx: "nbMAC y = nbMAC x \<and> nbSource y = nbSource x" by (simp add: nb_id_def)
  obtain m ws' where m: "overrideLLDP (pIndex q) l' (y, []) = (m, ws')" by fastforce
  have "nbMAC n = nbMAC x \<and> nbSource n = nbSource x"
    using n overrideLLDP_keeps [of "pIndex p" l x "[]"] by (auto simp: resolvePortNeighbor_def cl c split: prod.splits)
  moreover have "nbMAC m = nbMAC x \<and> nbSource m = nbSource x"
    using overrideLLDP_keeps [of "pIndex q" l' y "[]"] m yx by simp
  moreover have "resolvePortNeighbor q = Inr (Some m, sort ws')" by (simp add: resolvePortNeighbor_def cl' c' m)
  ultimately show ?thesis
    using en same by (simp add: edgeOf_def edgeKey_def portDirection_def same_config_def)
qed

section \<open>When the conflict loop fails\<close>

definition clash :: "topology_edge \<Rightarrow> topology_edge \<Rightarrow> bool" where
  "clash a b \<longleftrightarrow> edgeKey a = edgeKey b \<and> edgeDirection a \<noteq> edgeDirection b \<and>
     topologySourcePriority (nbSource (edgeNeighbor a)) = topologySourcePriority (nbSource (edgeNeighbor b)) \<and>
     topologySourcePriority (nbSource (edgeNeighbor a)) > 1"

definition keyed :: "topology_edge list \<Rightarrow> nat \<Rightarrow> conflict_state \<Rightarrow> bool" where
  "keyed edges k s \<longleftrightarrow> (\<forall>m i. csByMAC s m = Some i \<longrightarrow> i < k \<and> edgeKey (edges ! i) = m)"

lemma conflictStep_keyed:
  "conflictStep edges k s = Inr s' \<Longrightarrow> keyed edges k s \<Longrightarrow> keyed edges (Suc k) s'"
  by (auto simp: conflictStep_def Let_def keyed_def less_Suc_eq split: option.splits if_splits)

lemma conflictStep_fails:
  assumes "conflictStep edges k s = Inl e" and "keyed edges k s"
  shows "\<exists>i<k. clash (edges ! i) (edges ! k)"
proof -
  obtain i where i: "csByMAC s (edgeKey (edges ! k)) = Some i"
    using assms(1) by (auto simp: conflictStep_def Let_def split: option.splits)
  have "clash (edges ! i) (edges ! k)"
    using assms i by (auto simp: conflictStep_def Let_def keyed_def clash_def split: if_splits)
  then show ?thesis using assms(2) i by (auto simp: keyed_def)
qed

lemma conflictLoop_fails:
  "conflictLoop edges [k..<n] s = Inl e \<Longrightarrow> keyed edges k s \<Longrightarrow> k \<le> n \<Longrightarrow>
     \<exists>j<n. \<exists>i<j. clash (edges ! i) (edges ! j)"
proof (induction "n - k" arbitrary: k s)
  case (Suc d)
  have k: "k < n" using Suc.hyps(2) by simp
  show ?case
  proof (cases "conflictStep edges k s")
    case (Inl e')
    then show ?thesis using conflictStep_fails [OF Inl Suc.prems(2)] k by blast
  next
    case (Inr s1)
    then have "conflictLoop edges [Suc k..<n] s1 = Inl e" using Suc.prems(1) k by (simp add: upt_conv_Cons)
    then show ?thesis using Suc.hyps(1) [OF _ _ conflictStep_keyed [OF Inr Suc.prems(2)]] Suc.hyps(2) k by simp
  qed
qed simp

text \<open>Among edges of one address and one configured priority, the loop accepts one direction only.\<close>

definition one_way :: "topology_edge list \<Rightarrow> string \<Rightarrow> nat \<Rightarrow> conflict_state \<Rightarrow> bool" where
  "one_way edges m k s \<longleftrightarrow> (\<forall>i<k. edgeKey (edges ! i) = m \<longrightarrow>
     (\<exists>f. csByMAC s m = Some f \<and> f < k \<and> edgeKey (edges ! f) = m \<and> edgeDirection (edges ! i) = edgeDirection (edges ! f)))"

lemma conflictStep_one_way:
  assumes "conflictStep edges k s = Inr s'" and "one_way edges m k s" and "keyed edges k s" and "k < length edges"
    and prio: "\<forall>e\<in>set edges. edgeKey e = m \<longrightarrow> topologySourcePriority (nbSource (edgeNeighbor e)) = q" and "q > 1"
  shows "one_way edges m (Suc k) s'"
proof (cases "edgeKey (edges ! k) = m")
  case False
  then have "csByMAC s' m = csByMAC s m"
    using assms(1) by (auto simp: conflictStep_def Let_def split: option.splits if_splits)
  then show ?thesis using assms(2) False by (auto simp: one_way_def less_Suc_eq)
next
  case True
  have pk: "topologySourcePriority (nbSource (edgeNeighbor (edges ! k))) = q" using prio True assms(4) by simp
  show ?thesis
  proof (cases "csByMAC s m")
    case None
    then have "\<forall>i<k. edgeKey (edges ! i) \<noteq> m" using assms(2) by (auto simp: one_way_def)
    moreover have "csByMAC s' m = Some k" using assms(1) True None by (auto simp: conflictStep_def Let_def)
    ultimately show ?thesis using True by (auto simp: one_way_def less_Suc_eq)
  next
    case (Some f)
    then have f: "f < k" "edgeKey (edges ! f) = m" using assms(3) by (auto simp: keyed_def)
    then have pf: "topologySourcePriority (nbSource (edgeNeighbor (edges ! f))) = q" using prio assms(4) by simp
    have d: "edgeDirection (edges ! f) = edgeDirection (edges ! k)" and s': "s' = s"
      using assms(1,6) True Some pk pf by (auto simp: conflictStep_def Let_def split: if_splits)
    show ?thesis
      unfolding one_way_def s'
    proof (intro allI impI)
      fix i assume i: "i < Suc k" "edgeKey (edges ! i) = m"
      have "edgeDirection (edges ! i) = edgeDirection (edges ! f)"
        using i d Some assms(2) by (cases "i = k") (auto simp: one_way_def less_Suc_eq)
      then show "\<exists>f. csByMAC s m = Some f \<and> f < Suc k \<and> edgeKey (edges ! f) = m \<and>
          edgeDirection (edges ! i) = edgeDirection (edges ! f)"
        using Some f by auto
    qed
  qed
qed

lemma conflictLoop_one_way:
  "conflictLoop edges [k..<n] s = Inr s' \<Longrightarrow> one_way edges m k s \<Longrightarrow> keyed edges k s \<Longrightarrow> k \<le> n \<Longrightarrow> n \<le> length edges \<Longrightarrow>
   \<forall>e\<in>set edges. edgeKey e = m \<longrightarrow> topologySourcePriority (nbSource (edgeNeighbor e)) = q \<Longrightarrow> q > 1 \<Longrightarrow>
     one_way edges m n s'"
proof (induction "n - k" arbitrary: k s)
  case (Suc d)
  have k: "k < n" using Suc.hyps(2) by simp
  then obtain s1 where s1: "conflictStep edges k s = Inr s1" and r: "conflictLoop edges [Suc k..<n] s1 = Inr s'"
    using Suc.prems(1) by (auto simp: upt_conv_Cons split: sum.splits)
  have "one_way edges m (Suc k) s1"
    using conflictStep_one_way [OF s1 Suc.prems(2,3) _ Suc.prems(6,7)] k Suc.prems(5) by simp
  with Suc.hyps(1) [OF _ r] conflictStep_keyed [OF s1 Suc.prems(3)] Suc.hyps(2) k Suc.prems show ?case by simp
qed simp

section \<open>LLDP never breaks a topology\<close>

definition configured_only :: "port \<Rightarrow> bool" where
  "configured_only p \<longleftrightarrow>
     list_all (\<lambda>n. nbSource n = NeighborSourceConfigUplink \<or> nbSource n = NeighborSourceConfigPort) (pNeighbors p)"

lemma portEdges_ok_iff: "(\<exists>r'. portEdges ps r = Inr r') \<longleftrightarrow> (\<forall>p\<in>set ps. \<exists>x. resolvePortNeighbor p = Inr x)"
proof (induction ps arbitrary: r)
  case (Cons p ps)
  show ?case
  proof (cases "resolvePortNeighbor p")
    case (Inr x)
    then show ?thesis using Cons.IH by (cases x) (auto simp: Let_def split: option.splits)
  qed simp
qed simp

lemma resolve_same_config:
  assumes "same_config p q" shows "(\<exists>x. resolvePortNeighbor p = Inr x) \<longleftrightarrow> (\<exists>x. resolvePortNeighbor q = Inr x)"
proof -
  have "(\<exists>x. resolvePortNeighbor p = Inr x) \<longleftrightarrow> \<not> (\<exists>e. resolvePortNeighbor p = Inl e)" for p
    by (cases "resolvePortNeighbor p") auto
  then show ?thesis using ids_length [OF collect_same_config [OF assms]] by (simp add: resolve_fails_iff)
qed

lemma configured_only_edge:
  assumes "configured_only p" and "e \<in> set (edgeOf p)"
  shows "topologySourcePriority (nbSource (edgeNeighbor e)) = 2"
proof -
  obtain n ws where n: "resolvePortNeighbor p = Inr (Some n, ws)" and e: "edgeNeighbor e = n"
    using edgeOf_member [OF assms(2)] by auto
  obtain v where "v \<in> set (validNeighbors (pNeighbors p))" and v: "nbSource v = nbSource n"
    using resolvePortNeighbor_sound [OF n] by blast
  then obtain raw where "raw \<in> set (pNeighbors p)" and "normalizeTopologyNeighbor raw = Some v"
    by (auto simp: validNeighbors_def List.map_filter_def)
  then have "nbSource n \<in> {NeighborSourceConfigUplink, NeighborSourceConfigPort}"
    using assms(1) v normalize_source [of raw v] by (auto simp: configured_only_def list_all_iff)
  then show ?thesis using e by (auto simp: topologySourcePriority_def)
qed

lemma candidate_transfer:
  assumes "list_all2 same_config ps' ps" and "e \<in> set (candidateEdges ps')"
    and "nbSource (edgeNeighbor e) \<noteq> NeighborSourceLLDP"
  shows "\<exists>e'\<in>set (candidateEdges ps). edgeKey e' = edgeKey e \<and> edgeDirection e' = edgeDirection e"
  using assms(1,2)
proof (induction rule: list_all2_induct)
  case (Cons p ps' q ps)
  then show ?case using configured_edge_transfer [of p q e, OF _ _ assms(3)] by auto
qed simp

lemma clash_not_lldp:
  "clash a b \<Longrightarrow> nbSource (edgeNeighbor a) \<noteq> NeighborSourceLLDP \<and> nbSource (edgeNeighbor b) \<noteq> NeighborSourceLLDP"
  by (auto simp: clash_def topologySourcePriority_def NeighborSourceLLDP_def NeighborSourceConfigUplink_def
      NeighborSourceConfigPort_def split: if_splits)

lemma resolved_one_way:
  assumes "ResolveTopology ps = Inr r" and "list_all configured_only ps"
    and "a \<in> set (candidateEdges ps)" and "b \<in> set (candidateEdges ps)" and "edgeKey a = edgeKey b"
  shows "edgeDirection a = edgeDirection b"
proof -
  let ?E = "candidateEdges ps"
  have prio: "\<forall>e\<in>set ?E. edgeKey e = edgeKey a \<longrightarrow> topologySourcePriority (nbSource (edgeNeighbor e)) = 2"
    using assms(2) configured_only_edge by (auto simp: candidateEdges_def list_all_iff)
  obtain r0 where "portEdges ps \<lparr>resEdges = [], resWarnings = []\<rparr> = Inr r0" and rd: "resolveDirectionConflicts r0 = Inr r"
    using assms(1) by (auto simp: ResolveTopology_def split: sum.splits)
  then have E: "resEdges r0 = ?E" using portEdges_edges by fastforce
  let ?s = "\<lparr>csByMAC = Map.empty, csKeep = replicate (length ?E) True, csWarnings = resWarnings r0\<rparr>"
  obtain s' where s': "conflictLoop ?E [0..<length ?E] ?s = Inr s'"
    using rd by (auto simp: resolveDirectionConflicts_def Let_def E split: sum.splits)
  have "one_way ?E (edgeKey a) (length ?E) s'"
    by (rule conflictLoop_one_way [OF s' _ _ _ _ prio]) (simp_all add: one_way_def keyed_def)
  moreover obtain i j where "i < length ?E" "?E ! i = a" "j < length ?E" "?E ! j = b"
    using assms(3,4) by (auto simp: in_set_conv_nth)
  ultimately show ?thesis using assms(5) unfolding one_way_def by (metis option.inject)
qed

lemma configured_resolution_stable:
  assumes ok: "ResolveTopology ps = Inr r" and conf: "list_all configured_only ps" and same: "list_all2 same_config ps' ps"
  shows "\<exists>r'. ResolveTopology ps' = Inr r'"
proof -
  let ?r0 = "\<lparr>resEdges = [], resWarnings = []\<rparr>" and ?E = "candidateEdges ps'"
  have "\<forall>p\<in>set ps. \<exists>x. resolvePortNeighbor p = Inr x"
    using ok portEdges_ok_iff [of ps ?r0] by (auto simp: ResolveTopology_def split: sum.splits)
  then have "\<forall>p\<in>set ps'. \<exists>x. resolvePortNeighbor p = Inr x"
    using same resolve_same_config by (fastforce simp: list_all2_conv_all_nth in_set_conv_nth)
  then obtain r0 where r0: "portEdges ps' ?r0 = Inr r0" using portEdges_ok_iff by blast
  then have E: "resEdges r0 = ?E" using portEdges_edges by fastforce
  let ?s = "\<lparr>csByMAC = Map.empty, csKeep = replicate (length ?E) True, csWarnings = resWarnings r0\<rparr>"
  have "conflictLoop ?E [0..<length ?E] ?s \<noteq> Inl e" for e
  proof
    assume "conflictLoop ?E [0..<length ?E] ?s = Inl e"
    then obtain i j where ij: "j < length ?E" "i < j" and c: "clash (?E ! i) (?E ! j)"
      using conflictLoop_fails [of ?E 0 "length ?E" ?s e] by (auto simp: keyed_def)
    have m: "?E ! i \<in> set ?E" "?E ! j \<in> set ?E" using ij by simp_all
    obtain a b where "a \<in> set (candidateEdges ps)" "b \<in> set (candidateEdges ps)"
      and "edgeKey a = edgeKey (?E ! i)" "edgeKey b = edgeKey (?E ! j)"
      and "edgeDirection a = edgeDirection (?E ! i)" "edgeDirection b = edgeDirection (?E ! j)"
      using candidate_transfer [OF same m(1)] candidate_transfer [OF same m(2)] clash_not_lldp [OF c] by metis
    then show False using resolved_one_way [OF ok conf, of a b] c by (simp add: clash_def)
  qed
  then obtain s' where "conflictLoop ?E [0..<length ?E] ?s = Inr s'" by (cases "conflictLoop ?E [0..<length ?E] ?s") auto
  then show ?thesis by (simp add: ResolveTopology_def r0 resolveDirectionConflicts_def Let_def E)
qed

end
