(* ===== verification/Port_Overrides.thy ===== *)
theory Port_Overrides
  imports Ports
begin

text \<open>
  Per-port overrides of \<open>internal/device\<close>: \<open>override_types.go\<close>, \<open>override_fields.go\<close> (the table of text
  fields), \<open>override_counter.go\<close>, \<open>override_data.go\<close> (the setter order), \<open>override_apply.go\<close>,
  \<open>override_values.go\<close> and \<open>overrides.go\<close>.

  The properties: overrides touch only the ports they name and never numbering, uplink or profile
  data; a disabled port ends without link, speed, addresses and clients; normalizing overrides first
  makes no difference; validated overrides keep ports valid; and what health results change.
\<close>

section \<open>Overrides (override_types.go, health_types.go)\<close>

record port_override =
  oPort :: int
  oName :: string
  oInterface :: string
  oMAC :: string
  oIP :: string
  oNetmask :: string
  oIPv6 :: "string list"
  oRole :: string
  oNetworkGroup :: string
  oPortConfID :: string
  oNetworkConfID :: string
  oNativeNetworkConfID :: string
  oNetworkName :: string
  oVLAN :: int
  oWANUptimePercent :: "go_float option"
  oWANLatencyMS :: int
  oWANDowntimeSeconds :: int
  oWANConnected :: "bool option"
  oSpeed :: int
  oMedia :: string
  oUp :: "bool option"
  oDisabled :: bool
  oRXBytes :: int
  oTXBytes :: int
  oRXPackets :: int
  oTXPackets :: int
  oRXErrors :: int
  oTXErrors :: int
  oCountersSet :: bool
  oRXBytesRate :: int
  oTXBytesRate :: int
  oTrafficRatesSet :: bool

definition emptyOverride :: port_override where
  "emptyOverride = \<lparr>oPort = 0, oName = [], oInterface = [], oMAC = [], oIP = [], oNetmask = [], oIPv6 = [],
     oRole = [], oNetworkGroup = [], oPortConfID = [], oNetworkConfID = [], oNativeNetworkConfID = [],
     oNetworkName = [], oVLAN = 0, oWANUptimePercent = None, oWANLatencyMS = 0, oWANDowntimeSeconds = 0,
     oWANConnected = None, oSpeed = 0, oMedia = [], oUp = None, oDisabled = False, oRXBytes = 0, oTXBytes = 0,
     oRXPackets = 0, oTXPackets = 0, oRXErrors = 0, oTXErrors = 0, oCountersSet = False, oRXBytesRate = 0,
     oTXBytesRate = 0, oTrafficRatesSet = False\<rparr>"

record wan_health_result =
  whPort :: int
  whConnected :: bool
  whLatencyMS :: int
  whDowntimeSeconds :: int
  whUptimePercent :: go_float

section \<open>Text fields (override_fields.go, override_data.go)\<close>

datatype override_normalizer = TrimSpace | LowerTrimmed | NormalizeRole | NormalizeNetworkGroup

datatype override_text_key = TextName | TextInterface | TextMAC | TextIP | TextNetmask | TextRole
  | TextNetworkGroup | TextMedia | TextPortConfID | TextNetworkConfID | TextNativeNetworkConfID | TextNetworkName

datatype override_validator = ValidateNone | ValidateInterface | ValidateMAC | ValidateIPv4 | ValidateNetmask
  | ValidateRole | ValidateNetworkGroup

record override_string_field =
  fldKey :: override_text_key
  fldNormalizer :: override_normalizer
  fldValidator :: override_validator
  fldApplyAfterSpeed :: bool

definition textField :: "override_text_key \<Rightarrow> override_normalizer \<Rightarrow> override_validator \<Rightarrow> override_string_field" where
  "textField k n v = \<lparr>fldKey = k, fldNormalizer = n, fldValidator = v, fldApplyAfterSpeed = False\<rparr>"

definition portOverrideStringFields :: "override_string_field list" where
  "portOverrideStringFields =
     [textField TextName TrimSpace ValidateNone,
      textField TextInterface TrimSpace ValidateInterface,
      textField TextMAC LowerTrimmed ValidateMAC,
      textField TextIP TrimSpace ValidateIPv4,
      textField TextNetmask TrimSpace ValidateNetmask,
      textField TextRole NormalizeRole ValidateRole,
      textField TextNetworkGroup NormalizeNetworkGroup ValidateNetworkGroup,
      (textField TextMedia TrimSpace ValidateNone)\<lparr>fldApplyAfterSpeed := True\<rparr>,
      textField TextPortConfID TrimSpace ValidateNone,
      textField TextNetworkConfID TrimSpace ValidateNone,
      textField TextNativeNetworkConfID TrimSpace ValidateNone,
      textField TextNetworkName TrimSpace ValidateNone]"

fun getText :: "override_text_key \<Rightarrow> port_override \<Rightarrow> string" where
  "getText TextName ov = oName ov"
| "getText TextInterface ov = oInterface ov"
| "getText TextMAC ov = oMAC ov"
| "getText TextIP ov = oIP ov"
| "getText TextNetmask ov = oNetmask ov"
| "getText TextRole ov = oRole ov"
| "getText TextNetworkGroup ov = oNetworkGroup ov"
| "getText TextMedia ov = oMedia ov"
| "getText TextPortConfID ov = oPortConfID ov"
| "getText TextNetworkConfID ov = oNetworkConfID ov"
| "getText TextNativeNetworkConfID ov = oNativeNetworkConfID ov"
| "getText TextNetworkName ov = oNetworkName ov"

fun setOverrideText :: "override_text_key \<Rightarrow> string \<Rightarrow> port_override \<Rightarrow> port_override" where
  "setOverrideText TextName v ov = ov\<lparr>oName := v\<rparr>"
| "setOverrideText TextInterface v ov = ov\<lparr>oInterface := v\<rparr>"
| "setOverrideText TextMAC v ov = ov\<lparr>oMAC := v\<rparr>"
| "setOverrideText TextIP v ov = ov\<lparr>oIP := v\<rparr>"
| "setOverrideText TextNetmask v ov = ov\<lparr>oNetmask := v\<rparr>"
| "setOverrideText TextRole v ov = ov\<lparr>oRole := v\<rparr>"
| "setOverrideText TextNetworkGroup v ov = ov\<lparr>oNetworkGroup := v\<rparr>"
| "setOverrideText TextMedia v ov = ov\<lparr>oMedia := v\<rparr>"
| "setOverrideText TextPortConfID v ov = ov\<lparr>oPortConfID := v\<rparr>"
| "setOverrideText TextNetworkConfID v ov = ov\<lparr>oNetworkConfID := v\<rparr>"
| "setOverrideText TextNativeNetworkConfID v ov = ov\<lparr>oNativeNetworkConfID := v\<rparr>"
| "setOverrideText TextNetworkName v ov = ov\<lparr>oNetworkName := v\<rparr>"

fun setPortText :: "override_text_key \<Rightarrow> string \<Rightarrow> port \<Rightarrow> port" where
  "setPortText TextName v p = p\<lparr>pName := v\<rparr>"
| "setPortText TextInterface v p = p\<lparr>pInterface := v\<rparr>"
| "setPortText TextMAC v p = p\<lparr>pMAC := v\<rparr>"
| "setPortText TextIP v p = p\<lparr>pIP := v\<rparr>"
| "setPortText TextNetmask v p = p\<lparr>pNetmask := v\<rparr>"
| "setPortText TextRole v p = p\<lparr>pRole := v\<rparr>"
| "setPortText TextNetworkGroup v p = p\<lparr>pNetworkGroup := v\<rparr>"
| "setPortText TextMedia v p = p\<lparr>pMedia := v\<rparr>"
| "setPortText TextPortConfID v p = p\<lparr>pPortConfID := v\<rparr>"
| "setPortText TextNetworkConfID v p = p\<lparr>pNetworkConfID := v\<rparr>"
| "setPortText TextNativeNetworkConfID v p = p\<lparr>pNativeNetworkConfID := v\<rparr>"
| "setPortText TextNetworkName v p = p\<lparr>pNetworkName := v\<rparr>"

text \<open>\<open>setPort\<close> with \<open>setNonEmptyString\<close>.\<close>

definition setPort :: "override_string_field \<Rightarrow> string \<Rightarrow> port \<Rightarrow> port" where
  "setPort f v p = (if v \<noteq> [] then setPortText (fldKey f) v p else p)"

definition normalizeText :: "override_string_field \<Rightarrow> string \<Rightarrow> string" where
  "normalizeText f v =
     (case fldNormalizer f of
        LowerTrimmed \<Rightarrow> to_lower (trim_space v)
      | NormalizeRole \<Rightarrow> normalizeGatewayRole v
      | NormalizeNetworkGroup \<Rightarrow> normalizeNetworkGroup v
      | TrimSpace \<Rightarrow> trim_space v)"

definition fieldText :: "override_string_field \<Rightarrow> port_override \<Rightarrow> string" where
  "fieldText f ov = normalizeText f (getText (fldKey f) ov)"

definition validGatewayRole :: "string \<Rightarrow> bool" where
  "validGatewayRole role \<longleftrightarrow> role \<in> set [''wan'', ''lan'', ''wan2'', ''lan2'', ''unassigned'']"

datatype override_error = BadOverridePort | BadOverrideSpeed | BadOverrideVLAN | BadUptimePercent | BadLatency
  | BadDowntime | BadInterface | BadOverrideMAC | BadOverrideIP | BadOverrideNetmask | BadRole
  | BadNetworkGroup | EmptyOverride

text \<open>\<open>net.ParseIP(value).To4() == nil\<close>: \<open>To4\<close> of the nil address is nil.\<close>

definition is_ipv4_text :: "string \<Rightarrow> bool" where
  "is_ipv4_text v \<longleftrightarrow> (case ParseIP v of None \<Rightarrow> False | Some ip \<Rightarrow> To4 ip \<noteq> None)"

definition validateText :: "override_string_field \<Rightarrow> port_override \<Rightarrow> override_error option" where
  "validateText f ov =
     (let v = fieldText f ov in
      if v = [] then None
      else (case fldValidator f of
              ValidateNone \<Rightarrow> None
            | ValidateInterface \<Rightarrow> if go_contains v ''/'' then Some BadInterface else None
            | ValidateMAC \<Rightarrow> if ParseMAC v = None then Some BadOverrideMAC else None
            | ValidateIPv4 \<Rightarrow> if is_ipv4_text v then None else Some BadOverrideIP
            | ValidateNetmask \<Rightarrow> if is_ipv4_text v then None else Some BadOverrideNetmask
            | ValidateRole \<Rightarrow> if validGatewayRole v then None else Some BadRole
            | ValidateNetworkGroup \<Rightarrow>
                if contains_any v [CHR 0x0D, CHR 0x0A, CHR 0x09] then Some BadNetworkGroup else None))"

definition portOverrideStringsEmpty :: "port_override \<Rightarrow> bool" where
  "portOverrideStringsEmpty ov \<longleftrightarrow> list_all (\<lambda>f. fieldText f ov = []) portOverrideStringFields"

section \<open>Counters (override_counter.go)\<close>

datatype port_counter_key = CounterRXBytes | CounterTXBytes | CounterRXPackets | CounterTXPackets
  | CounterRXErrors | CounterTXErrors

fun getCounter :: "port_counter_key \<Rightarrow> port_override \<Rightarrow> int" where
  "getCounter CounterRXBytes ov = oRXBytes ov"
| "getCounter CounterTXBytes ov = oTXBytes ov"
| "getCounter CounterRXPackets ov = oRXPackets ov"
| "getCounter CounterTXPackets ov = oTXPackets ov"
| "getCounter CounterRXErrors ov = oRXErrors ov"
| "getCounter CounterTXErrors ov = oTXErrors ov"

fun setCounter :: "port_counter_key \<Rightarrow> int \<Rightarrow> port \<Rightarrow> port" where
  "setCounter CounterRXBytes v p = p\<lparr>pRXBytes := v\<rparr>"
| "setCounter CounterTXBytes v p = p\<lparr>pTXBytes := v\<rparr>"
| "setCounter CounterRXPackets v p = p\<lparr>pRXPackets := v\<rparr>"
| "setCounter CounterTXPackets v p = p\<lparr>pTXPackets := v\<rparr>"
| "setCounter CounterRXErrors v p = p\<lparr>pRXErrors := v\<rparr>"
| "setCounter CounterTXErrors v p = p\<lparr>pTXErrors := v\<rparr>"

definition portCounterOverrides :: "port_counter_key list" where
  "portCounterOverrides =
     [CounterRXBytes, CounterTXBytes, CounterRXPackets, CounterTXPackets, CounterRXErrors, CounterTXErrors]"

section \<open>Setters (override_apply.go)\<close>

type_synonym port_override_setter = "port_override \<Rightarrow> port \<Rightarrow> port"

definition setPortOverrideAssignment :: port_override_setter where
  "setPortOverrideAssignment ov p =
     (let p = p\<lparr>pVLAN := oVLAN ov\<rparr> in if oIPv6 ov \<noteq> [] then p\<lparr>pIPv6 := oIPv6 ov\<rparr> else p)"

definition setPortOverrideStrings :: port_override_setter where
  "setPortOverrideStrings ov p =
     fold (\<lambda>f p. if fldApplyAfterSpeed f then p else setPort f (fieldText f ov) p) portOverrideStringFields p"

definition setPortOverrideSpeed :: port_override_setter where
  "setPortOverrideSpeed ov p =
     (if oSpeed ov \<le> 0 then p
      else let p = p\<lparr>pSpeed := oSpeed ov\<rparr>
           in if trim_space (oMedia ov) = [] then p\<lparr>pMedia := mediaForSpeed (oSpeed ov)\<rparr> else p)"

definition setPortOverrideWANHealth :: port_override_setter where
  "setPortOverrideWANHealth ov p =
     p\<lparr>pWANUptimePercent := oWANUptimePercent ov, pWANLatencyMS := oWANLatencyMS ov,
       pWANDowntimeSeconds := oWANDowntimeSeconds ov, pWANConnected := oWANConnected ov\<rparr>"

definition setPortOverrideCounters :: port_override_setter where
  "setPortOverrideCounters ov p =
     (let p = fold (\<lambda>k p. if oCountersSet ov \<or> getCounter k ov \<noteq> 0 then setCounter k (getCounter k ov) p else p)
                portCounterOverrides p
      in if oCountersSet ov then p\<lparr>pCountersSet := True\<rparr> else p)"

definition setPortOverrideRates :: port_override_setter where
  "setPortOverrideRates ov p =
     (if \<not> oTrafficRatesSet ov then p
      else p\<lparr>pRXBytesRate := oRXBytesRate ov, pTXBytesRate := oTXBytesRate ov, pTrafficRatesEnabled := True,
             pTrafficRatesSet := True\<rparr>)"

definition setPortOverrideMedia :: port_override_setter where
  "setPortOverrideMedia ov p =
     fold (\<lambda>f p. if fldApplyAfterSpeed f then setPort f (fieldText f ov) p else p) portOverrideStringFields p"

definition setPortOverrideLinkState :: port_override_setter where
  "setPortOverrideLinkState ov p =
     (case oUp ov of
        None \<Rightarrow> p
      | Some up \<Rightarrow> (let p = p\<lparr>pUp := up\<rparr> in if \<not> up \<and> oSpeed ov \<le> 0 then p\<lparr>pSpeed := 0\<rparr> else p))"

definition setPortOverrideDisabled :: port_override_setter where
  "setPortOverrideDisabled ov p =
     (if \<not> oDisabled ov then p
      else p\<lparr>pDisabled := True, pUp := False, pSpeed := 0, pIPv6 := [], pMACs := []\<rparr>)"

definition portOverrideSetters :: "port_override_setter list" where
  "portOverrideSetters =
     [setPortOverrideStrings, setPortOverrideAssignment, setPortOverrideSpeed, setPortOverrideWANHealth,
      setPortOverrideCounters, setPortOverrideRates, setPortOverrideMedia, setPortOverrideLinkState,
      setPortOverrideDisabled]"

section \<open>Applying and validating (overrides.go, override_values.go)\<close>

definition applySetters :: "port_override \<Rightarrow> port \<Rightarrow> port" where
  "applySetters ov p = fold (\<lambda>setter p. setter ov p) portOverrideSetters p"

definition applyPortOverride :: "port_override \<Rightarrow> port list \<Rightarrow> port list" where
  "applyPortOverride ov ports =
     (if oPort ov < 1 \<or> oPort ov > int (length ports) then ports
      else ports[nat (oPort ov - 1) := applySetters ov (ports ! nat (oPort ov - 1))])"

definition ApplyPortOverrides :: "port list \<Rightarrow> port_override list \<Rightarrow> port list" where
  "ApplyPortOverrides ports overrides =
     (if overrides = [] \<or> ports = [] then ports else fold applyPortOverride overrides ports)"

definition clampFloat64 :: "go_float \<Rightarrow> go_float \<Rightarrow> go_float \<Rightarrow> go_float" where
  "clampFloat64 v minimum maximum =
     (if float_less v minimum then minimum else if float_less maximum v then maximum else v)"

definition nonNegativeInt :: "int \<Rightarrow> int" where
  "nonNegativeInt v = (if v < 0 then 0 else v)"

definition healthOverride :: "wan_health_result \<Rightarrow> port_override" where
  "healthOverride r =
     emptyOverride\<lparr>oPort := whPort r, oWANConnected := Some (whConnected r),
       oWANLatencyMS := nonNegativeInt (whLatencyMS r), oWANDowntimeSeconds := nonNegativeInt (whDowntimeSeconds r),
       oWANUptimePercent := Some (clampFloat64 (whUptimePercent r) (Fin 0) (Fin 100))\<rparr>"

definition WANHealthOverrides :: "wan_health_result list \<Rightarrow> port_override list" where
  "WANHealthOverrides results = map healthOverride (filter (\<lambda>r. \<not> whPort r < 1) results)"

definition PortOverrideEmpty :: "port_override \<Rightarrow> bool" where
  "PortOverrideEmpty ov \<longleftrightarrow>
     portOverrideStringsEmpty ov \<and> oSpeed ov = 0 \<and> oIPv6 ov = [] \<and> oUp ov = None \<and> \<not> oDisabled ov \<and>
     oRXBytes ov = 0 \<and> oTXBytes ov = 0 \<and> oRXPackets ov = 0 \<and> oTXPackets ov = 0 \<and> oRXErrors ov = 0 \<and>
     oTXErrors ov = 0 \<and> \<not> oCountersSet ov \<and> oVLAN ov = 0 \<and> oWANUptimePercent ov = None \<and>
     oWANLatencyMS ov = 0 \<and> oWANDowntimeSeconds ov = 0 \<and> oWANConnected ov = None \<and> \<not> oTrafficRatesSet ov"

fun firstTextError :: "override_string_field list \<Rightarrow> port_override \<Rightarrow> override_error option" where
  "firstTextError [] ov = None"
| "firstTextError (f # fs) ov = (case validateText f ov of Some e \<Rightarrow> Some e | None \<Rightarrow> firstTextError fs ov)"

definition ValidatePortOverride :: "port_override \<Rightarrow> int \<Rightarrow> override_error option" where
  "ValidatePortOverride ov portCount =
     (if oPort ov < 1 \<or> oPort ov > portCount then Some BadOverridePort
      else if oSpeed ov < 0 then Some BadOverrideSpeed
      else if oVLAN ov < 0 then Some BadOverrideVLAN
      else if (case oWANUptimePercent ov of None \<Rightarrow> False | Some v \<Rightarrow> float_less v (Fin 0) \<or> float_less (Fin 100) v)
      then Some BadUptimePercent
      else if oWANLatencyMS ov < 0 then Some BadLatency
      else if oWANDowntimeSeconds ov < 0 then Some BadDowntime
      else (case firstTextError portOverrideStringFields ov of
              Some e \<Rightarrow> Some e
            | None \<Rightarrow> if PortOverrideEmpty ov then Some EmptyOverride else None))"

definition NormalizePortOverride :: "port_override \<Rightarrow> port_override" where
  "NormalizePortOverride ov0 =
     fold (\<lambda>f ov. setOverrideText (fldKey f) (fieldText f ov) ov) portOverrideStringFields ov0"

section \<open>Frames\<close>

text \<open>What identifies a port, and is never touched by an override.\<close>

definition port_identity :: "port \<Rightarrow> int \<times> bool \<times> bool \<times> string \<times> topology_neighbor list" where
  "port_identity p = (pIndex p, pUplink p, pProfileUplink p, pProfileRole p, pNeighbors p)"

lemma fold_view: "(\<And>x p. g (h x p) = g p) \<Longrightarrow> g (fold h xs p) = g p"
  by (induction xs arbitrary: p) simp_all

lemma setPort_identity: "port_identity (setPort f v p) = port_identity p"
  by (cases "fldKey f") (simp_all add: setPort_def port_identity_def)

lemma setCounter_identity: "port_identity (setCounter k v p) = port_identity p"
  by (cases k) (simp_all add: port_identity_def)

lemma setter_identity:
  "port_identity (setPortOverrideStrings ov p) = port_identity p"
  "port_identity (setPortOverrideMedia ov p) = port_identity p"
  "port_identity (setPortOverrideCounters ov p) = port_identity p"
  "port_identity (setPortOverrideAssignment ov p) = port_identity p"
  "port_identity (setPortOverrideSpeed ov p) = port_identity p"
  "port_identity (setPortOverrideWANHealth ov p) = port_identity p"
  "port_identity (setPortOverrideRates ov p) = port_identity p"
  "port_identity (setPortOverrideLinkState ov p) = port_identity p"
  "port_identity (setPortOverrideDisabled ov p) = port_identity p"
proof -
  show "port_identity (setPortOverrideStrings ov p) = port_identity p"
    unfolding setPortOverrideStrings_def by (rule fold_view) (simp add: setPort_identity)
  show "port_identity (setPortOverrideMedia ov p) = port_identity p"
    unfolding setPortOverrideMedia_def by (rule fold_view) (simp add: setPort_identity)
  have "port_identity (q\<lparr>pCountersSet := b\<rparr>) = port_identity q" for q b by (simp add: port_identity_def)
  moreover have "port_identity (fold (\<lambda>k p. if oCountersSet ov \<or> getCounter k ov \<noteq> 0 then setCounter k (getCounter k ov) p else p)
      ks p) = port_identity p" for ks
    by (rule fold_view) (simp add: setCounter_identity)
  ultimately show "port_identity (setPortOverrideCounters ov p) = port_identity p"
    unfolding setPortOverrideCounters_def Let_def by (cases "oCountersSet ov") (simp_all only: if_True if_False)
qed (simp_all add: port_identity_def setPortOverrideAssignment_def setPortOverrideSpeed_def Let_def
      setPortOverrideWANHealth_def setPortOverrideRates_def setPortOverrideLinkState_def setPortOverrideDisabled_def
      split: option.splits)

lemma applySetters_identity: "port_identity (applySetters ov p) = port_identity p"
  by (simp add: applySetters_def portOverrideSetters_def setter_identity)

lemma applySetters_disabled:
  assumes "oDisabled ov"
  shows "pDisabled (applySetters ov p) \<and> \<not> pUp (applySetters ov p) \<and> pSpeed (applySetters ov p) = 0 \<and>
     pIPv6 (applySetters ov p) = [] \<and> pMACs (applySetters ov p) = []"
  using assms by (simp add: applySetters_def portOverrideSetters_def setPortOverrideDisabled_def)

lemma applyPortOverride_length [simp]: "length (applyPortOverride ov ps) = length ps"
  by (simp add: applyPortOverride_def)

lemma applyPortOverride_other:
  "i < length ps \<Longrightarrow> oPort ov \<noteq> int i + 1 \<Longrightarrow> applyPortOverride ov ps ! i = ps ! i"
  by (auto simp: applyPortOverride_def nth_list_update)

lemma applyPortOverride_named:
  "i < length ps \<Longrightarrow> oPort ov = int i + 1 \<Longrightarrow> applyPortOverride ov ps ! i = applySetters ov (ps ! i)"
  by (simp add: applyPortOverride_def)

text \<open>The port at one position sees the overrides that name it, in order.\<close>

lemma ApplyPortOverrides_nth:
  assumes "i < length ps"
  shows "ApplyPortOverrides ps ovs ! i = fold applySetters (filter (\<lambda>ov. oPort ov = int i + 1) ovs) (ps ! i)"
    and "length (ApplyPortOverrides ps ovs) = length ps"
proof -
  have "fold applyPortOverride ovs ps ! i = fold applySetters (filter (\<lambda>ov. oPort ov = int i + 1) ovs) (ps ! i) \<and>
      length (fold applyPortOverride ovs ps) = length ps"
    using assms
    by (induction ovs arbitrary: ps) (simp_all add: applyPortOverride_other applyPortOverride_named)
  then show "ApplyPortOverrides ps ovs ! i = fold applySetters (filter (\<lambda>ov. oPort ov = int i + 1) ovs) (ps ! i)"
    and "length (ApplyPortOverrides ps ovs) = length ps"
    using assms by (auto simp: ApplyPortOverrides_def)
qed

section \<open>Normalization\<close>

lemma normalizeText_idem [simp]: "normalizeText f (normalizeText f v) = normalizeText f v"
  by (cases "fldNormalizer f")
    (simp_all add: normalizeText_def normalizeGatewayRole_def normalizeNetworkGroup_def trim_space_lower)

lemma getText_setOverrideText:
  "getText k (setOverrideText k' v ov) = (if k = k' then v else getText k ov)"
  by (cases k; cases k') simp_all

text \<open>Normalizing rewrites text fields only, each to its normal form.\<close>

lemma getText_normalize_fold:
  "distinct (map fldKey fs) \<Longrightarrow>
     getText k (fold (\<lambda>f ov. setOverrideText (fldKey f) (fieldText f ov) ov) fs ov) =
       (case find (\<lambda>f. fldKey f = k) fs of Some f \<Rightarrow> fieldText f ov | None \<Rightarrow> getText k ov)"
proof (induction fs arbitrary: ov)
  case (Cons f fs)
  let ?ov = "setOverrideText (fldKey f) (fieldText f ov) ov"
  have other: "fieldText g ?ov = fieldText g ov" if "fldKey g \<noteq> fldKey f" for g
    using that by (simp add: fieldText_def getText_setOverrideText)
  have none: "find (\<lambda>g. fldKey g = fldKey f) fs = None"
    using Cons.prems by (simp add: find_None_iff) (metis image_eqI)
  show ?case
  proof (cases "fldKey f = k")
    case True
    then show ?thesis using Cons none by (simp add: getText_setOverrideText)
  next
    case False
    show ?thesis
    proof (cases "find (\<lambda>g. fldKey g = k) fs")
      case None
      then show ?thesis using Cons False by (simp add: getText_setOverrideText)
    next
      case (Some g)
      then have "fldKey g = k" by (auto simp: find_Some_iff)
      then show ?thesis using Cons False Some other [of g] by simp
    qed
  qed
qed simp

lemma string_fields_distinct: "distinct (map fldKey portOverrideStringFields)"
  by (simp add: portOverrideStringFields_def textField_def)

lemma string_fields_find: "f \<in> set portOverrideStringFields \<Longrightarrow> find (\<lambda>g. fldKey g = fldKey f) portOverrideStringFields = Some f"
  by (auto simp: portOverrideStringFields_def textField_def)

lemma fieldText_Normalize:
  "f \<in> set portOverrideStringFields \<Longrightarrow> fieldText f (NormalizePortOverride ov) = fieldText f ov"
  unfolding NormalizePortOverride_def fieldText_def [of f "fold _ _ _"]
    getText_normalize_fold [OF string_fields_distinct] string_fields_find
  by (simp add: fieldText_def)

text \<open>The fields a setter reads besides the text fields are not changed by normalizing.\<close>

definition override_rest :: "port_override \<Rightarrow> port_override" where
  "override_rest ov = ov\<lparr>oName := [], oInterface := [], oMAC := [], oIP := [], oNetmask := [], oRole := [],
     oNetworkGroup := [], oMedia := [], oPortConfID := [], oNetworkConfID := [], oNativeNetworkConfID := [],
     oNetworkName := []\<rparr>"

lemma override_rest_fields:
  "override_rest a = override_rest b \<Longrightarrow>
     oPort a = oPort b \<and> oIPv6 a = oIPv6 b \<and> oVLAN a = oVLAN b \<and> oWANUptimePercent a = oWANUptimePercent b \<and>
     oWANLatencyMS a = oWANLatencyMS b \<and> oWANDowntimeSeconds a = oWANDowntimeSeconds b \<and>
     oWANConnected a = oWANConnected b \<and> oSpeed a = oSpeed b \<and> oUp a = oUp b \<and> oDisabled a = oDisabled b \<and>
     oRXBytes a = oRXBytes b \<and> oTXBytes a = oTXBytes b \<and> oRXPackets a = oRXPackets b \<and>
     oTXPackets a = oTXPackets b \<and> oRXErrors a = oRXErrors b \<and> oTXErrors a = oTXErrors b \<and>
     oCountersSet a = oCountersSet b \<and> oRXBytesRate a = oRXBytesRate b \<and> oTXBytesRate a = oTXBytesRate b \<and>
     oTrafficRatesSet a = oTrafficRatesSet b"
  by (cases a, cases b) (simp add: override_rest_def)

lemma override_rest_Normalize: "override_rest (NormalizePortOverride ov) = override_rest ov"
proof -
  have "override_rest (setOverrideText k v ov) = override_rest ov" for k v ov
    by (cases k) (simp_all add: override_rest_def)
  then show ?thesis unfolding NormalizePortOverride_def by (rule fold_view)
qed

lemmas Normalize_rest = override_rest_fields [OF override_rest_Normalize]

lemma media_field: "fieldText ((textField TextMedia TrimSpace ValidateNone)\<lparr>fldApplyAfterSpeed := True\<rparr>) ov = trim_space (oMedia ov)"
  by (simp add: fieldText_def textField_def normalizeText_def)

lemma Normalize_media: "trim_space (oMedia (NormalizePortOverride ov)) = trim_space (oMedia ov)"
  using fieldText_Normalize [of "(textField TextMedia TrimSpace ValidateNone)\<lparr>fldApplyAfterSpeed := True\<rparr>" ov]
  unfolding media_field by (simp add: portOverrideStringFields_def)

lemma fold_fields_cong:
  "(\<And>f. f \<in> set fs \<Longrightarrow> t f = t' f) \<Longrightarrow>
     fold (\<lambda>f p. if c f then p else setPort f (t f) p) fs p = fold (\<lambda>f p. if c f then p else setPort f (t' f) p) fs p"
  "(\<And>f. f \<in> set fs \<Longrightarrow> t f = t' f) \<Longrightarrow>
     fold (\<lambda>f p. if c f then setPort f (t f) p else p) fs p = fold (\<lambda>f p. if c f then setPort f (t' f) p else p) fs p"
  by (induction fs arbitrary: p) simp_all

lemma getCounter_Normalize: "getCounter k (NormalizePortOverride ov) = getCounter k ov"
  by (cases k) (simp_all add: Normalize_rest)

lemma applySetters_Normalize: "applySetters (NormalizePortOverride ov) p = applySetters ov p"
proof -
  let ?n = "NormalizePortOverride ov"
  have "setPortOverrideStrings ?n = setPortOverrideStrings ov" "setPortOverrideMedia ?n = setPortOverrideMedia ov"
    unfolding setPortOverrideStrings_def setPortOverrideMedia_def
    by (rule ext, rule fold_fields_cong, rule fieldText_Normalize, assumption)+
  moreover have "setPortOverrideAssignment ?n = setPortOverrideAssignment ov"
    "setPortOverrideSpeed ?n = setPortOverrideSpeed ov" "setPortOverrideWANHealth ?n = setPortOverrideWANHealth ov"
    "setPortOverrideCounters ?n = setPortOverrideCounters ov" "setPortOverrideRates ?n = setPortOverrideRates ov"
    "setPortOverrideLinkState ?n = setPortOverrideLinkState ov" "setPortOverrideDisabled ?n = setPortOverrideDisabled ov"
    by (intro ext, simp only: setPortOverrideAssignment_def setPortOverrideSpeed_def setPortOverrideWANHealth_def
        setPortOverrideCounters_def setPortOverrideRates_def setPortOverrideLinkState_def setPortOverrideDisabled_def
        Normalize_rest Normalize_media getCounter_Normalize)+
  ultimately show ?thesis by (simp add: applySetters_def portOverrideSetters_def)
qed

lemma validateText_Normalize:
  "f \<in> set portOverrideStringFields \<Longrightarrow> validateText f (NormalizePortOverride ov) = validateText f ov"
  by (simp add: validateText_def fieldText_Normalize)

lemma firstTextError_cong:
  "(\<And>f. f \<in> set fs \<Longrightarrow> validateText f a = validateText f b) \<Longrightarrow> firstTextError fs a = firstTextError fs b"
  by (induction fs) (simp_all split: option.splits)

lemma PortOverrideEmpty_Normalize: "PortOverrideEmpty (NormalizePortOverride ov) = PortOverrideEmpty ov"
proof -
  have "portOverrideStringsEmpty (NormalizePortOverride ov) = portOverrideStringsEmpty ov"
    unfolding portOverrideStringsEmpty_def list_all_iff by (simp add: fieldText_Normalize)
  then show ?thesis by (simp only: PortOverrideEmpty_def Normalize_rest)
qed

lemma ValidatePortOverride_Normalize: "ValidatePortOverride (NormalizePortOverride ov) n = ValidatePortOverride ov n"
  by (simp only: ValidatePortOverride_def Normalize_rest PortOverrideEmpty_Normalize
      firstTextError_cong [of portOverrideStringFields "NormalizePortOverride ov" ov, OF validateText_Normalize])

section \<open>Validated overrides\<close>

text \<open>What the payload renderer may rely on for one port.\<close>

definition port_valid :: "port \<Rightarrow> bool" where
  "port_valid p \<longleftrightarrow> 0 \<le> pSpeed p \<and> 0 \<le> pVLAN p \<and> 0 \<le> pWANLatencyMS p \<and> 0 \<le> pWANDowntimeSeconds p \<and>
     (pRole p = [] \<or> validGatewayRole (pRole p)) \<and> (pMAC p = [] \<or> ParseMAC (pMAC p) \<noteq> None) \<and>
     (pIP p = [] \<or> is_ipv4_text (pIP p)) \<and> (pNetmask p = [] \<or> is_ipv4_text (pNetmask p)) \<and>
     \<not> go_contains (pInterface p) ''/'' \<and> \<not> contains_any (pNetworkGroup p) [CHR 0x0D, CHR 0x0A, CHR 0x09]"

lemma firstTextError_None: "firstTextError fs ov = None \<longleftrightarrow> (\<forall>f\<in>set fs. validateText f ov = None)"
  by (induction fs) (auto split: option.splits)

fun text_validator :: "override_text_key \<Rightarrow> override_validator" where
  "text_validator TextInterface = ValidateInterface"
| "text_validator TextMAC = ValidateMAC"
| "text_validator TextIP = ValidateIPv4"
| "text_validator TextNetmask = ValidateNetmask"
| "text_validator TextRole = ValidateRole"
| "text_validator TextNetworkGroup = ValidateNetworkGroup"
| "text_validator _ = ValidateNone"

lemma text_validator_field: "f \<in> set portOverrideStringFields \<Longrightarrow> fldValidator f = text_validator (fldKey f)"
proof -
  have "list_all (\<lambda>f. fldValidator f = text_validator (fldKey f)) portOverrideStringFields"
    by (simp add: portOverrideStringFields_def textField_def)
  then show "f \<in> set portOverrideStringFields \<Longrightarrow> fldValidator f = text_validator (fldKey f)"
    by (simp add: list_all_iff)
qed

lemma setPort_valid:
  assumes "f \<in> set portOverrideStringFields" "validateText f ov = None" "port_valid p"
  shows "port_valid (setPort f (fieldText f ov) p)"
proof (cases "fieldText f ov = []")
  case True
  then show ?thesis using assms(3) by (simp add: setPort_def)
next
  case False
  have v: "case fldValidator f of ValidateNone \<Rightarrow> True | ValidateInterface \<Rightarrow> \<not> go_contains (fieldText f ov) ''/''
      | ValidateMAC \<Rightarrow> ParseMAC (fieldText f ov) \<noteq> None | ValidateIPv4 \<Rightarrow> is_ipv4_text (fieldText f ov)
      | ValidateNetmask \<Rightarrow> is_ipv4_text (fieldText f ov) | ValidateRole \<Rightarrow> validGatewayRole (fieldText f ov)
      | ValidateNetworkGroup \<Rightarrow> \<not> contains_any (fieldText f ov) [CHR 0x0D, CHR 0x0A, CHR 0x09]"
    using assms(2) False
    by (cases "fldValidator f") (simp_all add: validateText_def Let_def split: if_splits)
  have "port_valid (setPortText (fldKey f) (fieldText f ov) p)"
    using v assms(3) unfolding text_validator_field [OF assms(1)] port_valid_def by (cases "fldKey f") simp_all
  then show ?thesis using False by (simp add: setPort_def)
qed

lemma fold_valid: "(\<And>x p. x \<in> set xs \<Longrightarrow> port_valid p \<Longrightarrow> port_valid (h x p)) \<Longrightarrow> port_valid p \<Longrightarrow> port_valid (fold h xs p)"
  by (induction xs arbitrary: p) simp_all

lemma port_valid_updates [simp]:
  "port_valid (p\<lparr>pMedia := m\<rparr>) = port_valid p" "port_valid (p\<lparr>pIPv6 := a\<rparr>) = port_valid p"
  "port_valid (p\<lparr>pUp := b\<rparr>) = port_valid p" "port_valid (p\<lparr>pCountersSet := b\<rparr>) = port_valid p"
  by (simp_all add: port_valid_def)

lemma setCounter_valid: "port_valid (setCounter k v p) = port_valid p"
  by (cases k) (simp_all add: port_valid_def)

lemma ValidatePortOverride_None:
  assumes "ValidatePortOverride ov n = None"
  shows "1 \<le> oPort ov" "oPort ov \<le> n" "0 \<le> oSpeed ov" "0 \<le> oVLAN ov" "0 \<le> oWANLatencyMS ov"
    "0 \<le> oWANDowntimeSeconds ov" "\<And>f. f \<in> set portOverrideStringFields \<Longrightarrow> validateText f ov = None"
    "\<not> PortOverrideEmpty ov"
proof -
  have e: "firstTextError portOverrideStringFields ov = None"
    using assms unfolding ValidatePortOverride_def by (simp split: if_splits option.splits)
  then show "\<And>f. f \<in> set portOverrideStringFields \<Longrightarrow> validateText f ov = None"
    by (simp add: firstTextError_None)
  show "1 \<le> oPort ov" "oPort ov \<le> n" "0 \<le> oSpeed ov" "0 \<le> oVLAN ov" "0 \<le> oWANLatencyMS ov"
    "0 \<le> oWANDowntimeSeconds ov" "\<not> PortOverrideEmpty ov"
    using assms e unfolding ValidatePortOverride_def by (auto split: if_splits)
qed

lemma applySetters_valid:
  assumes "ValidatePortOverride ov n = None" "port_valid p"
  shows "port_valid (applySetters ov p)"
proof -
  note v = ValidatePortOverride_None [OF assms(1)]
  have "port_valid (setPortOverrideStrings ov p)" "port_valid (setPortOverrideMedia ov p)" if "port_valid p" for p
    unfolding setPortOverrideStrings_def setPortOverrideMedia_def using that
    by (auto intro!: fold_valid setPort_valid v(7))
  moreover have "port_valid (setPortOverrideCounters ov p)" if "port_valid p" for p
    unfolding setPortOverrideCounters_def Let_def using that by (auto intro!: fold_valid simp: setCounter_valid)
  moreover have "port_valid (setPortOverrideAssignment ov p)" "port_valid (setPortOverrideSpeed ov p)"
    "port_valid (setPortOverrideWANHealth ov p)" "port_valid (setPortOverrideRates ov p)"
    "port_valid (setPortOverrideLinkState ov p)" "port_valid (setPortOverrideDisabled ov p)" if "port_valid p" for p
    using that v(3-6)
    by (simp_all add: setPortOverrideAssignment_def setPortOverrideSpeed_def Let_def setPortOverrideWANHealth_def
        setPortOverrideRates_def setPortOverrideLinkState_def setPortOverrideDisabled_def split: option.splits)
      (simp_all add: port_valid_def)
  ultimately show ?thesis using assms(2) by (simp add: applySetters_def portOverrideSetters_def)
qed

section \<open>Properties\<close>

text \<open>C29: overrides are confined and the last word on a disabled port. Applying any list of overrides keeps
  the number of ports and of every port its index, uplink marks, profile role and neighbours; a port
  that no override names is unchanged; and when the last override that names a port disables it, the
  port ends disabled, down, at speed 0, without IPv6 addresses and learned clients.\<close>

theorem ApplyPortOverrides_confined:
  assumes "i < length ports"
  shows "length (ApplyPortOverrides ports ovs) = length ports \<and>
    port_identity (ApplyPortOverrides ports ovs ! i) = port_identity (ports ! i) \<and>
    ((\<forall>ov\<in>set ovs. oPort ov \<noteq> int i + 1) \<longrightarrow> ApplyPortOverrides ports ovs ! i = ports ! i) \<and>
    (\<forall>ov. oPort ov = int i + 1 \<and> oDisabled ov \<longrightarrow>
       (let p = ApplyPortOverrides ports (ovs @ [ov]) ! i
        in pDisabled p \<and> \<not> pUp p \<and> pSpeed p = 0 \<and> pIPv6 p = [] \<and> pMACs p = []))"
proof -
  note nth = ApplyPortOverrides_nth(1) [OF assms] and len = ApplyPortOverrides_nth(2) [OF assms]
  have "port_identity (fold applySetters xs p) = port_identity p" for xs p
    by (rule fold_view) (rule applySetters_identity)
  moreover have "filter (\<lambda>ov. oPort ov = int i + 1) ovs = []" if "\<forall>ov\<in>set ovs. oPort ov \<noteq> int i + 1"
    using that by (simp add: filter_empty_conv)
  ultimately show ?thesis using len by (auto simp: nth Let_def applySetters_disabled)
qed

theorem ApplyPortOverrides_confined_witness:
  "pDisabled (ApplyPortOverrides [samplePort] ([] @ [emptyOverride\<lparr>oPort := 1, oDisabled := True\<rparr>]) ! 0) \<and>
   length (ApplyPortOverrides [samplePort] []) = 1"
  using ApplyPortOverrides_confined [of 0 "[samplePort]" "[]"] by (simp add: Let_def)

text \<open>normalizing is transparent. Overrides can be normalized for status and plan output before they
  are validated or applied: the verdict of \<open>ValidatePortOverride\<close> and the resulting ports are the same.\<close>

theorem NormalizePortOverride_transparent:
  "ApplyPortOverrides ports (map NormalizePortOverride ovs) = ApplyPortOverrides ports ovs \<and>
   ValidatePortOverride (NormalizePortOverride ov) n = ValidatePortOverride ov n"
proof -
  have "applyPortOverride (NormalizePortOverride ov) = applyPortOverride ov" for ov
    by (rule ext) (simp add: applyPortOverride_def Normalize_rest applySetters_Normalize)
  then show ?thesis
    by (simp add: ApplyPortOverrides_def fold_map comp_def ValidatePortOverride_Normalize)
qed

text \<open>validated overrides keep a port valid: a non-negative speed and VLAN, a known gateway role,
  parseable MAC and IPv4 addresses, an interface name without a slash and a single-line network
  group, whatever combination of overrides is applied.\<close>

theorem validated_overrides_keep_valid:
  assumes "\<forall>ov\<in>set ovs. ValidatePortOverride ov (int (length ports)) = None"
    and "i < length ports" and "port_valid (ports ! i)"
  shows "port_valid (ApplyPortOverrides ports ovs ! i)"
  unfolding ApplyPortOverrides_nth(1) [OF assms(2)]
  by (rule fold_valid) (use assms in \<open>auto intro: applySetters_valid\<close>)

theorem validated_overrides_keep_valid_witness:
  "port_valid (ApplyPortOverrides [samplePort] [emptyOverride\<lparr>oPort := 1, oSpeed := 10000\<rparr>] ! 0)"
proof (rule validated_overrides_keep_valid)
  have "portOverrideStringsEmpty emptyOverride" and t: "fieldText f (emptyOverride\<lparr>oPort := 1, oSpeed := 10000\<rparr>) = []" for f
    by (cases "fldKey f"; simp add: portOverrideStringsEmpty_def fieldText_def emptyOverride_def normalizeText_def
        normalizeGatewayRole_def normalizeNetworkGroup_def list_all_iff portOverrideStringFields_def textField_def
        split: override_normalizer.splits)+
  then have "firstTextError fs (emptyOverride\<lparr>oPort := 1, oSpeed := 10000\<rparr>) = None" for fs
    by (simp add: firstTextError_None validateText_def)
  then show "\<forall>ov\<in>set [emptyOverride\<lparr>oPort := 1, oSpeed := 10000\<rparr>]. ValidatePortOverride ov (int (length [samplePort])) = None"
    by (simp add: ValidatePortOverride_def PortOverrideEmpty_def emptyOverride_def)
  show "port_valid ([samplePort] ! 0)"
    by (simp add: port_valid_def samplePort_def emptyPort_def validGatewayRole_def contains_any_def)
qed simp

text \<open>what a WAN health sample changes. Besides the four WAN telemetry fields, which are set to the
  sample within their bounds, applying it resets the VLAN of the port to 0; nothing else changes.\<close>

theorem WANHealthOverrides_effect:
  assumes "1 \<le> whPort r" and "whPort r \<le> int (length ports)"
  shows "ApplyPortOverrides ports (WANHealthOverrides [r]) =
    ports[nat (whPort r - 1) := (ports ! nat (whPort r - 1))
      \<lparr>pVLAN := 0, pWANConnected := Some (whConnected r), pWANLatencyMS := max 0 (whLatencyMS r),
       pWANDowntimeSeconds := max 0 (whDowntimeSeconds r),
       pWANUptimePercent := Some (clampFloat64 (whUptimePercent r) (Fin 0) (Fin 100))\<rparr>]"
proof -
  let ?o = "healthOverride r"
  have t: "fieldText f ?o = []" for f
    by (cases "fldKey f"; simp add: fieldText_def healthOverride_def emptyOverride_def normalizeText_def
        normalizeGatewayRole_def normalizeNetworkGroup_def split: override_normalizer.splits)
  have "setPortOverrideStrings ?o p = p" "setPortOverrideMedia ?o p = p" for p
    using fold_view [of "\<lambda>p. p"]
    by (simp_all add: setPortOverrideStrings_def setPortOverrideMedia_def t setPort_def fold_view [of "\<lambda>p. p"])
  then have "applySetters ?o p = p\<lparr>pVLAN := 0, pWANConnected := Some (whConnected r), pWANLatencyMS := max 0 (whLatencyMS r),
       pWANDowntimeSeconds := max 0 (whDowntimeSeconds r),
       pWANUptimePercent := Some (clampFloat64 (whUptimePercent r) (Fin 0) (Fin 100))\<rparr>" for p
    by (simp add: applySetters_def portOverrideSetters_def setPortOverrideAssignment_def setPortOverrideSpeed_def
        setPortOverrideWANHealth_def setPortOverrideCounters_def portCounterOverrides_def setPortOverrideRates_def
        setPortOverrideLinkState_def setPortOverrideDisabled_def healthOverride_def emptyOverride_def nonNegativeInt_def)
  moreover have "oPort ?o = whPort r" by (simp add: healthOverride_def)
  ultimately show ?thesis
    using assms by (auto simp: ApplyPortOverrides_def WANHealthOverrides_def applyPortOverride_def)
qed

theorem WANHealthOverrides_effect_witness:
  "pVLAN samplePort = 7 \<and>
   pVLAN (ApplyPortOverrides [samplePort] (WANHealthOverrides [\<lparr>whPort = 1, whConnected = True, whLatencyMS = 12,
     whDowntimeSeconds = 0, whUptimePercent = Fin 100\<rparr>]) ! 0) = 0"
  using WANHealthOverrides_effect [of "\<lparr>whPort = 1, whConnected = True, whLatencyMS = 12,
     whDowntimeSeconds = 0, whUptimePercent = Fin 100\<rparr>" "[samplePort]"]
  by (simp add: samplePort_def)

end
