(* ===== verification/Observe.thy ===== *)
theory Observe
  imports Ports "HOL-Library.Char_ord" "HOL-Library.List_Lexorder" "HOL-Library.Product_Lexorder" "HOL-Library.Multiset"
begin

text \<open>
  Passive bridge observation of \<open>internal/observe\<close>: \<open>model.go\<close>, \<open>snapshot_types.go\<close>, \<open>classify.go\<close>,
  \<open>snapshot_members.go\<close>, \<open>snapshot_macs.go\<close>, \<open>snapshot_normalize.go\<close>, \<open>snapshot_stats.go\<close>,
  \<open>snapshot.go\<close> and \<open>snapshot_apply.go\<close>.

  A Go map is an association list with distinct keys whose order stands for the order in which one run
  ranges over it: what is proved for every list holds for every iteration order. The host is an
  argument: the files of a sysfs tree, and the bridge observation a source returns. An index out of
  range, a panic in Go, makes \<open>Apply\<close> return \<open>None\<close>.
\<close>

section \<open>Types (model.go, snapshot_types.go)\<close>

datatype bridge_member_role = RoleUnknown | RoleUplink | RoleAccess | RoleBridge | RoleIgnored

record interface_stats =
  stUp :: "bool option"
  stCountersSet :: bool
  stRXBytes :: int
  stTXBytes :: int
  stRXPackets :: int
  stTXPackets :: int
  stRXErrors :: int
  stTXErrors :: int
  stSpeedMbps :: int

definition emptyStats :: interface_stats where
  "emptyStats = \<lparr>stUp = None, stCountersSet = False, stRXBytes = 0, stTXBytes = 0, stRXPackets = 0,
     stTXPackets = 0, stRXErrors = 0, stTXErrors = 0, stSpeedMbps = 0\<rparr>"

record port_observation =
  obPort :: int
  obInterface :: string
  obMAC :: string
  obIP :: string
  obNetmask :: string
  obIPv6 :: "string list"
  obUp :: "bool option"
  obSpeedMbps :: int
  obMedia :: string
  obStats :: interface_stats
  obMACs :: "mac_table_entry list"
  obDisabled :: bool
  obUnmapped :: bool

type_synonym member_macs = "(string \<times> mac_table_entry list) list"
type_synonym member_roles = "(string \<times> bridge_member_role) list"

record bridge_observation =
  brBridge :: string
  brUplinkInterface :: string
  brUplink :: port_observation
  brMemberMACs :: member_macs
  brRemoteMACs :: "(string \<times> bool) list"
  brMemberPorts :: "(string \<times> port_observation) list"
  brMemberPortMap :: "(string \<times> int) list"
  brMemberRoles :: member_roles

record observe_config =
  ocInterface :: string
  ocBridge :: string
  ocIgnoredMembers :: "string list"
  ocMemberPortMap :: "(string \<times> int) list"

record snapshot =
  snUplinkPortIndex :: int
  snInterface :: string
  snBridge :: string
  snUp :: "bool option"
  snStats :: interface_stats
  snMACs :: "mac_table_entry list"
  snDeviceMACs :: member_macs
  snRemoteMACs :: "string list"
  snMemberPorts :: "(string \<times> port_observation) list"
  snMemberPortMap :: "(string \<times> int) list"
  snMemberRoles :: member_roles

section \<open>Classification (classify.go)\<close>

definition memberNameKey :: "string \<Rightarrow> string" where
  "memberNameKey v = to_lower (trim_space v)"

definition isVirtualAccessMember :: "string \<Rightarrow> bool" where
  "isVirtualAccessMember name \<longleftrightarrow>
     list_ex (has_prefix (memberNameKey name)) [''tap'', ''veth'', ''fwpr'', ''fwln'', ''fwbr'', ''epair'', ''vnet'']"

definition isPhysicalMember :: "string \<Rightarrow> bool" where
  "isPhysicalMember name \<longleftrightarrow>
     list_ex (has_prefix (memberNameKey name))
       [''eth'', ''eno'', ''ens'', ''enp'', ''enx'', ''bond'', ''team'', ''lagg'', ''em'', ''igb'', ''ix'', ''ixl'', ''ice'',
        ''bnxt'', ''bge'', ''re'', ''vtnet'']"

definition ClassifyMember :: "string \<Rightarrow> string \<Rightarrow> string \<Rightarrow> bridge_member_role" where
  "ClassifyMember member bridge uplinkInterface =
     (let name = memberNameKey member in
      if name = [] then RoleUnknown
      else if memberNameKey bridge \<noteq> [] \<and> name = memberNameKey bridge then RoleBridge
      else if memberNameKey uplinkInterface \<noteq> [] \<and> name = memberNameKey uplinkInterface then RoleUplink
      else if isVirtualAccessMember name then RoleAccess
      else RoleUnknown)"

definition ClassifyMembers :: "member_macs \<Rightarrow> string \<Rightarrow> string \<Rightarrow> member_roles" where
  "ClassifyMembers memberMACs bridge uplinkInterface =
     (let roles = map (\<lambda>(m, _). (m, ClassifyMember m bridge uplinkInterface)) memberMACs;
          physicalCandidates = filter (\<lambda>(m, r). r = RoleUnknown \<and> isPhysicalMember m) roles
      in if trim_space uplinkInterface = [] \<and> length physicalCandidates = 1
         then map (\<lambda>(m, r). (m, if m = fst (hd physicalCandidates) then RoleUplink else r)) roles
         else roles)"

text \<open>A range over a map that returns on the first match, for \<open>memberRole\<close> and \<open>roleByMember\<close>.\<close>

definition foldedLookup :: "(string \<times> 'a) list \<Rightarrow> string \<Rightarrow> 'a option" where
  "foldedLookup m k = map_option snd (find (\<lambda>(k', _). memberNameKey k' = memberNameKey k) m)"

definition memberRole :: "member_roles \<Rightarrow> string \<Rightarrow> bridge_member_role" where
  "memberRole roles member =
     (case map_of roles (trim_space member) of
        Some r \<Rightarrow> r
      | None \<Rightarrow> (case foldedLookup roles member of Some r \<Rightarrow> r | None \<Rightarrow> RoleUnknown))"

definition ignoredMemberSet :: "string list \<Rightarrow> string list" where
  "ignoredMemberSet values = remdups (filter (\<lambda>k. k \<noteq> []) (map memberNameKey values))"

definition ApplyIgnoredMembers :: "member_roles \<Rightarrow> string list \<Rightarrow> member_roles" where
  "ApplyIgnoredMembers roles ignoredMembers =
     (let ignored = ignoredMemberSet ignoredMembers in
      if ignored = [] then roles
      else let out = map (\<lambda>(m, r). (m, if memberNameKey m \<in> set ignored then RoleIgnored else r)) roles
           in out @ map (\<lambda>m. (m, RoleIgnored)) (filter (\<lambda>m. foldedLookup out m = None) ignored))"

section \<open>Member order (snapshot_members.go)\<close>

definition isUplinkDevice :: "string \<Rightarrow> string \<Rightarrow> bool" where
  "isUplinkDevice deviceName iface \<longleftrightarrow> memberNameKey deviceName \<noteq> [] \<and> memberNameKey deviceName = memberNameKey iface"

definition isBridgeDevice :: "string \<Rightarrow> string \<Rightarrow> bool" where
  "isBridgeDevice deviceName bridge \<longleftrightarrow> memberNameKey deviceName \<noteq> [] \<and> memberNameKey deviceName = memberNameKey bridge"

definition firstNumber :: "string \<Rightarrow> int" where
  "firstNumber v =
     (let digits = takeWhile is_digit (dropWhile (\<lambda>c. \<not> is_digit c) v) in
      case parse_int64 digits of ParsedInt n \<Rightarrow> n | _ \<Rightarrow> 0)"

definition deviceSortKey :: "string \<Rightarrow> string \<Rightarrow> string \<Rightarrow> int \<times> int \<times> string" where
  "deviceSortKey deviceName iface bridge =
     (let name = memberNameKey deviceName;
          rank = (if isUplinkDevice name iface then 0
                  else if isBridgeDevice name bridge then 90
                  else if has_prefix name ''tap'' then 10
                  else if has_prefix name ''veth'' then 20
                  else if has_prefix name ''fwln'' \<or> has_prefix name ''fwpr'' \<or> has_prefix name ''fwbr'' then 30
                  else 50)
      in (rank, firstNumber name, name))"

definition sortedDeviceNames :: "member_macs \<Rightarrow> string \<Rightarrow> string \<Rightarrow> string list" where
  "sortedDeviceNames deviceMACs iface bridge = sort_key (\<lambda>n. deviceSortKey n iface bridge) (map fst deviceMACs)"

section \<open>MAC groups (snapshot_macs.go)\<close>

definition normalizedMACKey :: "string \<Rightarrow> string" where
  "normalizedMACKey v = (case ParseMAC (trim_space v) of None \<Rightarrow> [] | Some mac \<Rightarrow> to_lower (mac_string mac))"

definition RemoteMACsByBridgeMember :: "member_macs \<Rightarrow> member_roles \<Rightarrow> string \<Rightarrow> string list" where
  "RemoteMACsByBridgeMember memberMACs roles iface =
     filter (\<lambda>k. k \<noteq> [])
       (concat (map (\<lambda>(m, macs). if memberRole roles m \<noteq> RoleUplink \<and> \<not> isUplinkDevice m iface then []
                                 else map (\<lambda>e. normalizedMACKey (macMAC e)) macs) memberMACs))"

definition filterRemoteMACEntries :: "mac_table_entry list \<Rightarrow> string list \<Rightarrow> mac_table_entry list" where
  "filterRemoteMACEntries entries remoteMACs =
     filter (\<lambda>e. \<not> (normalizedMACKey (macMAC e) \<noteq> [] \<and> normalizedMACKey (macMAC e) \<in> set remoteMACs)) entries"

definition normalizeRemoteMACSet :: "(string \<times> bool) list \<Rightarrow> string list" where
  "normalizeRemoteMACSet values = filter (\<lambda>k. k \<noteq> []) (map (\<lambda>(v, _). normalizedMACKey v) (filter snd values))"

definition flattenDeviceMACsByRole ::
  "member_macs \<Rightarrow> member_roles \<Rightarrow> string \<Rightarrow> string \<Rightarrow> string list \<Rightarrow> mac_table_entry list" where
  "flattenDeviceMACsByRole deviceMACs roles iface bridge remoteMACs =
     concat (map (\<lambda>n. if memberRole roles n \<in> {RoleBridge, RoleIgnored} then []
                      else filterRemoteMACEntries (the (map_of deviceMACs n)) remoteMACs)
       (sortedDeviceNames deviceMACs iface bridge))"

section \<open>Normalization (snapshot_normalize.go)\<close>

text \<open>
  The three functions differ in the value type only. Two keys that trim to the same text overwrite
  each other in the order of the range: a later entry wins.
\<close>

definition normalizeKeys :: "(string \<times> 'a) list \<Rightarrow> (string \<times> 'a) list" where
  "normalizeKeys values =
     fold (\<lambda>(m, v) out. if trim_space m = [] then out
                        else filter (\<lambda>(k, _). k \<noteq> trim_space m) out @ [(trim_space m, v)]) values []"

definition normalizeMemberPortMap :: "(string \<times> int) list \<Rightarrow> (string \<times> int) list" where
  "normalizeMemberPortMap = normalizeKeys"

definition normalizeMemberPorts :: "(string \<times> port_observation) list \<Rightarrow> (string \<times> port_observation) list" where
  "normalizeMemberPorts = normalizeKeys"

definition normalizeMemberRoles :: "member_roles \<Rightarrow> member_roles" where
  "normalizeMemberRoles = normalizeKeys"

section \<open>The snapshot (snapshot.go)\<close>

text \<open>\<open>HostSnapshotFromSource\<close> on the observation \<open>source.Bridge\<close> returned for the trimmed configuration.\<close>

definition hostSnapshot :: "bridge_observation \<Rightarrow> observe_config \<Rightarrow> int \<Rightarrow> snapshot" where
  "hostSnapshot bridge cfg index =
     (let iface = trim_space (brUplinkInterface bridge);
          br = trim_space (brBridge bridge);
          stats0 = obStats (brUplink bridge);
          stats = (if stSpeedMbps stats0 = 0 then stats0\<lparr>stSpeedMbps := obSpeedMbps (brUplink bridge)\<rparr> else stats0);
          roles0 = normalizeMemberRoles (brMemberRoles bridge);
          roles1 = (if roles0 = [] then ClassifyMembers (brMemberMACs bridge) br iface else roles0);
          roles = ApplyIgnoredMembers roles1 (ocIgnoredMembers cfg);
          remote0 = normalizeRemoteMACSet (brRemoteMACs bridge);
          remote = (if remote0 = [] then RemoteMACsByBridgeMember (brMemberMACs bridge) roles iface else remote0)
      in \<lparr>snUplinkPortIndex = index, snInterface = iface, snBridge = br, snUp = obUp (brUplink bridge),
          snStats = stats, snMACs = flattenDeviceMACsByRole (brMemberMACs bridge) roles iface br remote,
          snDeviceMACs = brMemberMACs bridge, snRemoteMACs = remote,
          snMemberPorts = normalizeMemberPorts (brMemberPorts bridge),
          snMemberPortMap = normalizeMemberPortMap (brMemberPortMap bridge), snMemberRoles = roles\<rparr>)"

section \<open>Counters (snapshot_stats.go)\<close>

text \<open>The accessors of the field table, in its order.\<close>

definition interfaceStatsValues :: "interface_stats \<Rightarrow> int list" where
  "interfaceStatsValues st =
     [stRXBytes st, stTXBytes st, stRXPackets st, stTXPackets st, stRXErrors st, stTXErrors st]"

definition hasCounters :: "interface_stats \<Rightarrow> bool" where
  "hasCounters st \<longleftrightarrow> stCountersSet st \<or> list_ex (\<lambda>v. v \<noteq> 0) (interfaceStatsValues st)"

definition setPortCounters :: "interface_stats \<Rightarrow> port \<Rightarrow> port" where
  "setPortCounters st p =
     p\<lparr>pRXBytes := stRXBytes st, pTXBytes := stTXBytes st, pRXPackets := stRXPackets st,
       pTXPackets := stTXPackets st, pRXErrors := stRXErrors st, pTXErrors := stTXErrors st\<rparr>"

definition applyInterfaceStatsToPort :: "interface_stats \<Rightarrow> port \<Rightarrow> port" where
  "applyInterfaceStatsToPort st p = (setPortCounters st p)\<lparr>pCountersSet := True\<rparr>"

text \<open>\<open>readInt64\<close> on a sysfs tree: the content of a file, \<open>None\<close> when it cannot be read.\<close>

definition readInt64 :: "(string \<Rightarrow> string option) \<Rightarrow> string \<Rightarrow> int option" where
  "readInt64 sysfs path =
     (case sysfs path of
        None \<Rightarrow> None
      | Some d \<Rightarrow> (case parse_int64 (trim_space d) of ParsedInt v \<Rightarrow> Some v | _ \<Rightarrow> None))"

definition counterOr0 :: "int option \<Rightarrow> int" where
  "counterOr0 v = (case v of None \<Rightarrow> 0 | Some x \<Rightarrow> x)"

text \<open>The statistics and whether an error is returned with them; an invalid name gives no statistics.\<close>

definition ReadInterfaceStats :: "(string \<Rightarrow> string option) \<Rightarrow> string \<Rightarrow> interface_stats \<times> bool" where
  "ReadInterfaceStats sysfs iface0 =
     (let iface = trim_space iface0 in
      if iface = [] \<or> go_contains iface ''/'' then (emptyStats, True)
      else let base = ''class/net/'' @ iface;
               rd = (\<lambda>n. readInt64 sysfs (base @ ''/statistics/'' @ n));
               vs = map rd [''rx_bytes'', ''tx_bytes'', ''rx_packets'', ''tx_packets'', ''rx_errors'', ''tx_errors''];
               speed = readInt64 sysfs (base @ ''/speed'');
               carrier = readInt64 sysfs (base @ ''/carrier'')
           in (\<lparr>stUp = (if carrier = Some 0 then Some False else if carrier = Some 1 then Some True else None),
                stCountersSet = list_all (\<lambda>v. v \<noteq> None) vs,
                stRXBytes = counterOr0 (vs ! 0), stTXBytes = counterOr0 (vs ! 1), stRXPackets = counterOr0 (vs ! 2),
                stTXPackets = counterOr0 (vs ! 3), stRXErrors = counterOr0 (vs ! 4), stTXErrors = counterOr0 (vs ! 5),
                stSpeedMbps = (case speed of Some v \<Rightarrow> if v > 0 then v else 0 | None \<Rightarrow> 0)\<rparr>,
               list_ex (\<lambda>v. v = None) vs \<or> speed = None))"

section \<open>Applying a snapshot (snapshot_apply.go)\<close>

definition clearObservedPortState :: "port \<Rightarrow> port" where
  "clearObservedPortState p =
     setPortCounters emptyStats (p\<lparr>pUp := False, pSpeed := 0, pMACs := [], pCountersSet := False\<rparr>)"

definition memberPortObservation :: "(string \<times> port_observation) list \<Rightarrow> string \<Rightarrow> port_observation option" where
  "memberPortObservation observations member =
     (case map_of observations (trim_space member) of
        Some ob \<Rightarrow> Some ob
      | None \<Rightarrow> foldedLookup observations member)"

definition applyMemberPortObservation :: "(string \<times> port_observation) list \<Rightarrow> string \<Rightarrow> port \<Rightarrow> port" where
  "applyMemberPortObservation observations member p0 =
     (let p = clearObservedPortState p0 in
      case memberPortObservation observations member of
        None \<Rightarrow> p
      | Some ob \<Rightarrow>
          (let p1 = (if trim_space (obInterface ob) \<noteq> [] then p\<lparr>pInterface := trim_space (obInterface ob)\<rparr> else p);
               up = (obUp ob = Some True);
               p2 = p1\<lparr>pUp := up, pSpeed := (if up \<and> obSpeedMbps ob > 0 then obSpeedMbps ob else pSpeed p1)\<rparr>;
               p3 = (if trim_space (obMedia ob) \<noteq> [] then p2\<lparr>pMedia := trim_space (obMedia ob)\<rparr> else p2)
           in if hasCounters (obStats ob) then applyInterfaceStatsToPort (obStats ob) p3 else p3))"

definition validPinnedPortSet :: "(string \<times> int) list \<Rightarrow> int \<Rightarrow> int list" where
  "validPinnedPortSet values portCount = filter (\<lambda>p. 1 \<le> p \<and> p \<le> portCount) (map snd values)"

text \<open>Update of \<open>ports[i - 1]\<close> for an index in range.\<close>

definition updatePort :: "int \<Rightarrow> (port \<Rightarrow> port) \<Rightarrow> port list \<Rightarrow> port list" where
  "updatePort i f ports = ports[nat (i - 1) := f (ports ! nat (i - 1))]"

record member_state =
  msPorts :: "port list"
  msUsed :: "int list"
  msAccess :: "int list"

text \<open>
  One iteration of the loop over the member names. \<open>msAccess\<close> holds the access indexes not yet handed
  out (\<open>accessIndexes[nextAccess:]\<close>).
\<close>

definition memberStep :: "snapshot \<Rightarrow> int \<Rightarrow> string list \<Rightarrow> string \<Rightarrow> member_state \<Rightarrow> member_state" where
  "memberStep sn uplinkIndex remoteMACs n s =
     (let macs0 = the (map_of (snDeviceMACs sn) n);
          role = memberRole (snMemberRoles sn) n
      in if macs0 = [] \<or> role = RoleBridge \<or> role = RoleIgnored then s
         else if role = RoleUplink \<or> isUplinkDevice n (snInterface sn) then
           s\<lparr>msPorts := updatePort uplinkIndex
                (\<lambda>p. let q = applyMemberPortObservation (snMemberPorts sn) n p in if n \<noteq> [] then q\<lparr>pName := n\<rparr> else q) (msPorts s),
             msUsed := uplinkIndex # msUsed s\<rparr>
         else let macs = filterRemoteMACEntries macs0 remoteMACs in
           if macs = [] then s
           else let pinned = (case map_of (snMemberPortMap sn) (trim_space n) of Some i \<Rightarrow> i | None \<Rightarrow> 0);
                    isPinned = (1 \<le> pinned \<and> pinned \<le> int (length (msPorts s)));
                    index0 = (if isPinned then pinned else if msAccess s \<noteq> [] then hd (msAccess s) else uplinkIndex);
                    access = (if isPinned then msAccess s else tl (msAccess s));
                    portIndex = (if index0 < 1 \<or> index0 > int (length (msPorts s)) then uplinkIndex else index0)
                in \<lparr>msPorts = updatePort portIndex
                       (\<lambda>p. let q = applyMemberPortObservation (snMemberPorts sn) n p;
                                q1 = q\<lparr>pMACs := pMACs q @ macs\<rparr>
                            in if n \<noteq> [] \<and> portIndex \<noteq> uplinkIndex then q1\<lparr>pName := n\<rparr> else q1) (msPorts s),
                    msUsed = portIndex # msUsed s, msAccess = access\<rparr>)"

definition effectiveRemoteMACs :: "snapshot \<Rightarrow> string list" where
  "effectiveRemoteMACs sn =
     (let remote = normalizeRemoteMACSet (map (\<lambda>k. (k, True)) (snRemoteMACs sn)) in
      if remote = [] then RemoteMACsByBridgeMember (snDeviceMACs sn) (snMemberRoles sn) (snInterface sn) else remote)"

definition applyDeviceMACs :: "port list \<Rightarrow> snapshot \<Rightarrow> int \<Rightarrow> port list" where
  "applyDeviceMACs ports0 sn uplinkIndex =
     (let ports = map (\<lambda>p. p\<lparr>pMACs := []\<rparr>) ports0;
          pinned = validPinnedPortSet (snMemberPortMap sn) (int (length ports));
          access = filter (\<lambda>i. i \<noteq> uplinkIndex \<and> i \<notin> set pinned) (map pIndex ports);
          s = fold (memberStep sn uplinkIndex (effectiveRemoteMACs sn))
                (sortedDeviceNames (snDeviceMACs sn) (snInterface sn) (snBridge sn))
                \<lparr>msPorts = ports, msUsed = [uplinkIndex], msAccess = access\<rparr>
      in map (\<lambda>p. if pIndex p \<in> set (msUsed s) then p else clearObservedPortState p) (msPorts s))"

definition observedUplinkIndex :: "port list \<Rightarrow> int" where
  "observedUplinkIndex ports = (case find pUplink ports of Some p \<Rightarrow> pIndex p | None \<Rightarrow> 1)"

definition applyUplinkState :: "snapshot \<Rightarrow> port \<Rightarrow> port" where
  "applyUplinkState sn p =
     (let up = (snUp sn = Some True);
          q = p\<lparr>pUp := up, pSpeed := (if up then stSpeedMbps (snStats sn) else 0)\<rparr>
      in if hasCounters (snStats sn) then applyInterfaceStatsToPort (snStats sn) q else q)"

definition Apply :: "port list \<Rightarrow> snapshot \<Rightarrow> port list option" where
  "Apply ports sn =
     (if ports = [] then Some ports
      else let n = int (length ports);
               index = (if snUplinkPortIndex sn < 1 \<or> snUplinkPortIndex sn > n then observedUplinkIndex ports
                        else snUplinkPortIndex sn)
           in if index < 1 \<or> index > n then None
              else let out = updatePort index (applyUplinkState sn) ports in
                if snDeviceMACs sn \<noteq> [] then Some (applyDeviceMACs out sn index)
                else if snMACs sn \<noteq> [] then Some (updatePort index (\<lambda>p. p\<lparr>pMACs := snMACs sn\<rparr>) out)
                else Some out)"

section \<open>Roles\<close>

lemma memberNameKey_idem [simp]: "memberNameKey (memberNameKey v) = memberNameKey v"
  by (simp add: memberNameKey_def trim_space_lower)

lemma memberNameKey_trim [simp]: "memberNameKey (trim_space v) = memberNameKey v"
  by (simp add: memberNameKey_def)

lemma foldedLookup_Some: "foldedLookup m k = Some v \<Longrightarrow> \<exists>k'. (k', v) \<in> set m \<and> memberNameKey k' = memberNameKey k"
  by (force simp: foldedLookup_def find_Some_iff set_conv_nth)

lemma foldedLookup_None: "foldedLookup m k = None \<longleftrightarrow> (\<forall>(k', v)\<in>set m. memberNameKey k' \<noteq> memberNameKey k)"
  by (auto simp: foldedLookup_def find_None_iff)

lemma memberRole_all:
  assumes "\<forall>(k, r)\<in>set roles. memberNameKey k = memberNameKey m \<longrightarrow> r = x"
    and "\<exists>(k, r)\<in>set roles. memberNameKey k = memberNameKey m"
  shows "memberRole roles m = x"
proof (cases "map_of roles (trim_space m)")
  case (Some r)
  then have "(trim_space m, r) \<in> set roles" by (rule map_of_SomeD)
  then have "r = x" using assms(1) by fastforce
  with Some show ?thesis by (simp add: memberRole_def)
next
  case None
  have "foldedLookup roles m \<noteq> None" using assms(2) by (auto simp: foldedLookup_None)
  then obtain r where r: "foldedLookup roles m = Some r" by blast
  then have "r = x" using foldedLookup_Some [OF r] assms(1) by fastforce
  with None r show ?thesis by (simp add: memberRole_def)
qed

lemma ApplyIgnoredMembers_ignored:
  assumes "memberNameKey m \<in> set (ignoredMemberSet ign)"
  shows "memberRole (ApplyIgnoredMembers roles ign) m = RoleIgnored"
proof (rule memberRole_all)
  let ?i = "ignoredMemberSet ign"
  let ?out = "map (\<lambda>(m, r). (m, if memberNameKey m \<in> set ?i then RoleIgnored else r)) roles"
  have "?i \<noteq> []" using assms by force
  then have e: "ApplyIgnoredMembers roles ign = ?out @ map (\<lambda>m. (m, RoleIgnored)) (filter (\<lambda>m. foldedLookup ?out m = None) ?i)"
    unfolding ApplyIgnoredMembers_def Let_def by (rule if_not_P)
  have "r = RoleIgnored" if "(k, r) \<in> set (ApplyIgnoredMembers roles ign)" "memberNameKey k = memberNameKey m" for k r
  proof -
    from that(1) show ?thesis
      unfolding e set_append
    proof (rule UnE)
      assume "(k, r) \<in> set ?out"
      then show ?thesis using that(2) assms by auto
    qed auto
  qed
  then show "\<forall>(k, r)\<in>set (ApplyIgnoredMembers roles ign). memberNameKey k = memberNameKey m \<longrightarrow> r = RoleIgnored"
    by blast
  show "\<exists>(k, r)\<in>set (ApplyIgnoredMembers roles ign). memberNameKey k = memberNameKey m"
  proof (cases "foldedLookup ?out m = None")
    case True
    then have "foldedLookup ?out (memberNameKey m) = None" unfolding foldedLookup_None memberNameKey_idem .
    then have "memberNameKey m \<in> set (filter (\<lambda>m. foldedLookup ?out m = None) ?i)"
      using assms unfolding set_filter by blast
    then have "(memberNameKey m, RoleIgnored) \<in> set (ApplyIgnoredMembers roles ign)"
      unfolding e set_append set_map by (intro UnI2 imageI)
    then show ?thesis by (rule bexI [rotated]) simp
  next
    case False
    then obtain r where "foldedLookup ?out m = Some r" by blast
    from foldedLookup_Some [OF this] obtain k' where k: "(k', r) \<in> set ?out" "memberNameKey k' = memberNameKey m" by blast
    from k(1) have "(k', r) \<in> set (ApplyIgnoredMembers roles ign)" unfolding e set_append by (rule UnI1)
    then show ?thesis by (rule bexI [rotated]) (simp add: k(2))
  qed
qed

section \<open>What a snapshot may change\<close>

text \<open>What identifies a port and what the operator configured is not observed.\<close>

definition observed_frame :: "port \<Rightarrow> int \<times> bool \<times> bool \<times> string \<times> string \<times> int \<times> string \<times> topology_neighbor list" where
  "observed_frame p = (pIndex p, pUplink p, pProfileUplink p, pProfileRole p, pRole p, pVLAN p, pIP p, pNeighbors p)"

lemma frame_applyStats [simp]: "observed_frame (applyInterfaceStatsToPort st p) = observed_frame p"
  by (simp add: observed_frame_def applyInterfaceStatsToPort_def setPortCounters_def)

lemma frame_updates [simp]:
  "observed_frame (p\<lparr>pName := n\<rparr>) = observed_frame p" "observed_frame (p\<lparr>pMACs := m\<rparr>) = observed_frame p"
  "observed_frame (p\<lparr>pMedia := n\<rparr>) = observed_frame p" "observed_frame (p\<lparr>pInterface := n\<rparr>) = observed_frame p"
  "observed_frame (p\<lparr>pUp := b, pSpeed := x\<rparr>) = observed_frame p"
  by (simp_all add: observed_frame_def)

lemma frame_clear [simp]: "observed_frame (clearObservedPortState p) = observed_frame p"
  by (simp add: observed_frame_def clearObservedPortState_def setPortCounters_def)

lemma frame_member [simp]: "observed_frame (applyMemberPortObservation obs m p) = observed_frame p"
  by (simp add: applyMemberPortObservation_def Let_def split: option.splits)

lemma frame_uplink [simp]: "observed_frame (applyUplinkState sn p) = observed_frame p"
  by (simp add: applyUplinkState_def Let_def)

lemma frame_updatePort:
  "(\<And>p. observed_frame (f p) = observed_frame p) \<Longrightarrow> map observed_frame (updatePort i f ports) = map observed_frame ports"
  by (cases "nat (i - 1) < length ports") (simp_all add: updatePort_def map_update_same list_update_beyond)

lemma frame_memberStep: "map observed_frame (msPorts (memberStep sn u rm n s)) = map observed_frame (msPorts s)"
  unfolding memberStep_def Let_def by (simp add: frame_updatePort)

lemma frame_applyDeviceMACs: "map observed_frame (applyDeviceMACs ports sn u) = map observed_frame ports"
proof -
  have "map observed_frame (msPorts (fold (memberStep sn u rm) ns s)) = map observed_frame (msPorts s)" for rm ns s
    by (induction ns arbitrary: s) (simp_all add: frame_memberStep)
  moreover have "observed_frame (if c then p else clearObservedPortState p) = observed_frame p" for c p
    by simp
  ultimately show ?thesis unfolding applyDeviceMACs_def Let_def map_map comp_def by (simp add: comp_def)
qed

text \<open>The clients a member may put on a port.\<close>

definition client_ok :: "snapshot \<Rightarrow> mac_table_entry \<Rightarrow> bool" where
  "client_ok sn e \<longleftrightarrow>
     (\<exists>(m, macs)\<in>set (snDeviceMACs sn). e \<in> set macs \<and> memberRole (snMemberRoles sn) m \<in> {RoleUnknown, RoleAccess} \<and>
        \<not> isUplinkDevice m (snInterface sn)) \<and>
     (normalizedMACKey (macMAC e) = [] \<or> normalizedMACKey (macMAC e) \<notin> set (effectiveRemoteMACs sn))"

definition clients_ok :: "snapshot \<Rightarrow> port list \<Rightarrow> bool" where
  "clients_ok sn ports \<longleftrightarrow> (\<forall>p\<in>set ports. \<forall>e\<in>set (pMACs p). client_ok sn e)"

lemma member_MACs_Nil [simp]: "pMACs (applyMemberPortObservation obs m p) = []"
  by (simp add: applyMemberPortObservation_def clearObservedPortState_def applyInterfaceStatsToPort_def
      setPortCounters_def Let_def split: option.splits)

lemma clients_ok_updatePort:
  assumes "clients_ok sn ports" and "\<And>p. \<forall>e\<in>set (pMACs (f p)). client_ok sn e"
  shows "clients_ok sn (updatePort i f ports)"
  using assms set_update_subset_insert [of ports "nat (i - 1)" "f (ports ! nat (i - 1))"]
  unfolding clients_ok_def updatePort_def by blast

lemma clients_ok_memberStep:
  assumes n: "n \<in> fst ` set (snDeviceMACs sn)" and ok: "clients_ok sn (msPorts s)"
  shows "clients_ok sn (msPorts (memberStep sn u (effectiveRemoteMACs sn) n s))"
proof -
  obtain macs where m: "map_of (snDeviceMACs sn) n = Some macs" "(n, macs) \<in> set (snDeviceMACs sn)"
    using n by (metis map_of_SomeD map_of_eq_None_iff not_Some_eq)
  let ?role = "memberRole (snMemberRoles sn) n"
  show ?thesis
  proof (cases "macs = [] \<or> ?role = RoleBridge \<or> ?role = RoleIgnored")
    case True
    then show ?thesis using ok m(1) by (simp add: memberStep_def Let_def)
  next
    case False
    show ?thesis
    proof (cases "?role = RoleUplink \<or> isUplinkDevice n (snInterface sn)")
      case True
      then show ?thesis using ok m(1) False by (simp add: memberStep_def Let_def clients_ok_updatePort)
    next
      case acc: False
      have r: "?role \<in> {RoleUnknown, RoleAccess}" using False acc by (cases ?role) simp_all
      have "\<forall>e\<in>set (filterRemoteMACEntries macs (effectiveRemoteMACs sn)). client_ok sn e"
        using m(2) r acc by (auto simp: client_ok_def filterRemoteMACEntries_def)
      then show ?thesis using ok m(1) False acc
        by (simp add: memberStep_def Let_def) (simp add: clients_ok_updatePort)
    qed
  qed
qed

lemma clients_ok_applyDeviceMACs: "clients_ok sn (applyDeviceMACs ports sn u)"
proof -
  have "clients_ok sn (msPorts (fold (memberStep sn u (effectiveRemoteMACs sn)) ns s))"
    if "set ns \<subseteq> fst ` set (snDeviceMACs sn)" "clients_ok sn (msPorts s)" for ns s
    using that by (induction ns arbitrary: s) (simp_all add: clients_ok_memberStep)
  moreover have "set (sortedDeviceNames (snDeviceMACs sn) i b) \<subseteq> fst ` set (snDeviceMACs sn)" for i b
    by (simp add: sortedDeviceNames_def)
  moreover have "clients_ok sn (map (\<lambda>p. p\<lparr>pMACs := []\<rparr>) ports)" by (simp add: clients_ok_def)
  moreover have "clients_ok sn (map (\<lambda>p. if c p then p else clearObservedPortState p) ps)" if "clients_ok sn ps" for c ps
    using that by (auto simp: clients_ok_def clearObservedPortState_def setPortCounters_def)
  ultimately show ?thesis unfolding applyDeviceMACs_def Let_def by simp
qed

lemma observedUplinkIndex_range:
  assumes "ports_shape n u ports"
  shows "1 \<le> observedUplinkIndex ports \<and> observedUplinkIndex ports \<le> int n"
proof (cases "find pUplink ports")
  case None
  then show ?thesis using assms by (simp add: observedUplinkIndex_def ports_shape_def)
next
  case (Some p)
  then obtain i where "i < length ports" "p = ports ! i" by (auto simp: find_Some_iff)
  then show ?thesis
    using Some ports_shape_nth [OF assms, of i] ports_shape_length [OF assms] by (simp add: observedUplinkIndex_def)
qed

lemma Apply_cases:
  assumes "ports_shape n u ports"
  obtains index where "1 \<le> index" "index \<le> int (length ports)"
    and "Apply ports sn = Some (let out = updatePort index (applyUplinkState sn) ports in
       if snDeviceMACs sn \<noteq> [] then applyDeviceMACs out sn index
       else if snMACs sn \<noteq> [] then updatePort index (\<lambda>p. p\<lparr>pMACs := snMACs sn\<rparr>) out else out)"
proof -
  let ?i = "if snUplinkPortIndex sn < 1 \<or> snUplinkPortIndex sn > int (length ports) then observedUplinkIndex ports
            else snUplinkPortIndex sn"
  have l: "length ports = n" by (rule ports_shape_length [OF assms])
  have r: "1 \<le> ?i" "?i \<le> int (length ports)" using observedUplinkIndex_range [OF assms] l by auto
  define i where "i = ?i"
  have ne: "ports \<noteq> []" using assms l by (auto simp: ports_shape_def)
  have "1 \<le> i" "i \<le> int (length ports)" using r by (simp_all add: i_def)
  moreover from this have "Apply ports sn = Some (let out = updatePort i (applyUplinkState sn) ports in
       if snDeviceMACs sn \<noteq> [] then applyDeviceMACs out sn i
       else if snMACs sn \<noteq> [] then updatePort i (\<lambda>p. p\<lparr>pMACs := snMACs sn\<rparr>) out else out)"
    unfolding Apply_def Let_def i_def [symmetric] using ne by simp
  ultimately show thesis using that by blast
qed

section \<open>Properties\<close>

text \<open>C17: applying an observation is safe. On a numbered port list it never indexes out of range, and it
  keeps the number of ports and of every port its index, uplink marks, roles, VLAN, address and
  neighbours. When bridge members were observed, every client listed on a port was learned on a member
  that is neither the uplink, the bridge nor ignored, and is not known to live behind the uplink.\<close>

theorem Apply_safe:
  assumes "ports_shape n u ports"
  shows "\<exists>out. Apply ports sn = Some out \<and> map observed_frame out = map observed_frame ports \<and>
    (snDeviceMACs sn \<noteq> [] \<longrightarrow> (\<forall>p\<in>set out. \<forall>e\<in>set (pMACs p). client_ok sn e))"
proof -
  obtain i where "Apply ports sn = Some (let out = updatePort i (applyUplinkState sn) ports in
       if snDeviceMACs sn \<noteq> [] then applyDeviceMACs out sn i
       else if snMACs sn \<noteq> [] then updatePort i (\<lambda>p. p\<lparr>pMACs := snMACs sn\<rparr>) out else out)"
    by (rule Apply_cases [OF assms])
  then show ?thesis
    using clients_ok_applyDeviceMACs [of sn "updatePort i (applyUplinkState sn) ports" i]
    by (simp add: Let_def frame_applyDeviceMACs frame_updatePort clients_ok_def)
qed

text \<open>A switch with two ports, its uplink \<open>eth0\<close> up, and two virtual machines on the bridge.\<close>

definition tapEntry :: "string \<Rightarrow> mac_table_entry" where
  "tapEntry mac = \<lparr>macMAC = mac, macHostname = [], macIP = [], macAge = 4, macUptime = 1200, macVLAN = 0, macStatic = False,
     macType = ''client''\<rparr>"

definition twoPorts :: "port list" where
  "twoPorts = [emptyPort\<lparr>pIndex := 1, pUplink := True, pUp := True, pSpeed := 1000\<rparr>,
     emptyPort\<lparr>pIndex := 2, pUp := True, pSpeed := 1000\<rparr>]"

definition twoTaps :: snapshot where
  "twoTaps = \<lparr>snUplinkPortIndex = 1, snInterface = ''eth0'', snBridge = ''br0'', snUp = Some True,
     snStats = emptyStats\<lparr>stSpeedMbps := 1000\<rparr>, snMACs = [],
     snDeviceMACs = [(''tap1'', [tapEntry ''02:00:00:00:00:11'']), (''tap2'', [tapEntry ''02:00:00:00:00:12''])],
     snRemoteMACs = [], snMemberPorts = [], snMemberPortMap = [], snMemberRoles = []\<rparr>"

lemma twoPorts_shape: "ports_shape 2 1 twoPorts"
  by (simp add: ports_shape_def twoPorts_def emptyPort_def upt_rec)

theorem Apply_safe_witness:
  "\<exists>out. Apply twoPorts twoTaps = Some out \<and> map observed_frame out = map observed_frame twoPorts"
  using Apply_safe [OF twoPorts_shape, of twoTaps] by blast

text \<open>ignored means ignored. A bridge member the configuration ignores, in whatever letter case and with
  whatever surrounding blanks, has the role \<open>ignored\<close> afterwards, whether or not the source classified it.\<close>

theorem ApplyIgnoredMembers_complete:
  assumes "v \<in> set ignoredMembers" and "memberNameKey v \<noteq> []" and "memberNameKey m = memberNameKey v"
  shows "memberRole (ApplyIgnoredMembers roles ignoredMembers) m = RoleIgnored"
  by (rule ApplyIgnoredMembers_ignored) (use assms in \<open>simp add: ignoredMemberSet_def\<close>)

theorem ApplyIgnoredMembers_complete_witness:
  "memberRole (ApplyIgnoredMembers [(''eth1'', RoleUnknown)] ['' ETH1'']) ''eth1'' = RoleIgnored"
proof (rule ApplyIgnoredMembers_complete)
  show "memberNameKey '' ETH1'' \<noteq> []" and "memberNameKey ''eth1'' = memberNameKey '' ETH1''" by code_simp+
qed simp

text \<open>the assignment of members to ports is reproducible. However the map of members is iterated, as long
  as no two members have names that differ in letter case or blanks only, they are visited in the
  same order.\<close>

theorem sortedDeviceNames_deterministic:
  assumes "mset deviceMACs = mset deviceMACs'" and "inj_on memberNameKey (fst ` set deviceMACs)"
    and "distinct (map fst deviceMACs)"
  shows "sortedDeviceNames deviceMACs iface bridge = sortedDeviceNames deviceMACs' iface bridge"
proof -
  have k: "snd (snd (deviceSortKey a iface bridge)) = memberNameKey a" for a
    by (simp add: deviceSortKey_def Let_def)
  have "inj_on (\<lambda>n. deviceSortKey n iface bridge) (set (map fst deviceMACs))"
  proof (rule inj_onI)
    fix x y assume "x \<in> set (map fst deviceMACs)" "y \<in> set (map fst deviceMACs)"
      "deviceSortKey x iface bridge = deviceSortKey y iface bridge"
    then show "x = y" using inj_onD [OF assms(2), of x y] k [of x] k [of y] by simp
  qed
  moreover have "mset (map fst deviceMACs) = mset (map fst deviceMACs')" using assms(1) by (metis mset_map)
  ultimately show ?thesis
    unfolding sortedDeviceNames_def by (intro sort_key_inj_key_eq) simp_all
qed

theorem sortedDeviceNames_deterministic_witness:
  "sortedDeviceNames [(''tap10'', []), (''eth0'', []), (''tap2'', [])] ''eth0'' ''br0'' =
   sortedDeviceNames [(''eth0'', []), (''tap2'', []), (''tap10'', [])] ''eth0'' ''br0''"
proof (rule sortedDeviceNames_deterministic)
  have "map memberNameKey [''tap10'', ''eth0'', ''tap2''] = [''tap10'', ''eth0'', ''tap2'']" by code_simp
  then show "inj_on memberNameKey (fst ` set [(''tap10'', []), (''eth0'', []), (''tap2'', [])])"
    by (auto simp: inj_on_def)
qed simp_all

lemma tap_names:
  "memberNameKey ''tap1'' = ''tap1''" "memberNameKey ''tap2'' = ''tap2''" "memberNameKey ''eth0'' = ''eth0''"
  "memberNameKey ''br0'' = ''br0''" "trim_space ''tap1'' = ''tap1''" "trim_space ''tap2'' = ''tap2''"
proof -
  have t: "trim_space ''tap1'' = ''tap1''" "trim_space ''tap2'' = ''tap2''" "trim_space ''eth0'' = ''eth0''" "trim_space ''br0'' = ''br0''"
    by (simp_all add: trim_space_eq_iff is_ascii_space_def space2_def space3_def)
  then show "memberNameKey ''tap1'' = ''tap1''" "memberNameKey ''tap2'' = ''tap2''" "memberNameKey ''eth0'' = ''eth0''"
    "memberNameKey ''br0'' = ''br0''" "trim_space ''tap1'' = ''tap1''" "trim_space ''tap2'' = ''tap2''"
    by (simp_all add: memberNameKey_def to_lower_def lower_char_def)
qed

lemma tap_numbers: "firstNumber ''tap1'' = 1" "firstNumber ''tap2'' = 2"
  by (simp_all add: firstNumber_def is_digit_def parse_int64_def digits_value_def MaxInt64_def MinInt64_def)

lemma twoTaps_eval:
  "sortedDeviceNames (snDeviceMACs twoTaps) (snInterface twoTaps) (snBridge twoTaps) = [''tap1'', ''tap2'']"
  "effectiveRemoteMACs twoTaps = []"
proof -
  have d: "deviceSortKey ''tap1'' ''eth0'' ''br0'' = (10, 1, ''tap1'')" "deviceSortKey ''tap2'' ''eth0'' ''br0'' = (10, 2, ''tap2'')"
    by (simp_all add: deviceSortKey_def isUplinkDevice_def isBridgeDevice_def tap_names tap_numbers has_prefix_def)
  then show "sortedDeviceNames (snDeviceMACs twoTaps) (snInterface twoTaps) (snBridge twoTaps) = [''tap1'', ''tap2'']"
    by (simp add: sortedDeviceNames_def twoTaps_def less_eq_prod_def)
  show "effectiveRemoteMACs twoTaps = []"
    by (simp add: effectiveRemoteMACs_def twoTaps_def normalizeRemoteMACSet_def RemoteMACsByBridgeMember_def
        memberRole_def foldedLookup_def isUplinkDevice_def tap_names)
qed

lemma clear_fields [simp]:
  "pUp (clearObservedPortState p) = False" "pSpeed (clearObservedPortState p) = 0"
  "pMACs (clearObservedPortState p) = []" "pIndex (clearObservedPortState p) = pIndex p"
  by (simp_all add: clearObservedPortState_def setPortCounters_def)

lemma member_unobserved: "applyMemberPortObservation [] m p = clearObservedPortState p"
  by (simp add: applyMemberPortObservation_def memberPortObservation_def foldedLookup_def)

lemma twoTaps_steps:
  "memberStep twoTaps 1 [] ''tap1'' \<lparr>msPorts = [p, q], msUsed = [1], msAccess = [2]\<rparr> =
     \<lparr>msPorts = [p, (clearObservedPortState q)\<lparr>pMACs := [tapEntry ''02:00:00:00:00:11''], pName := ''tap1''\<rparr>],
      msUsed = [2, 1], msAccess = []\<rparr>"
  "memberStep twoTaps 1 [] ''tap2'' \<lparr>msPorts = [p, q], msUsed = [2, 1], msAccess = []\<rparr> =
     \<lparr>msPorts = [(clearObservedPortState p)\<lparr>pMACs := [tapEntry ''02:00:00:00:00:12'']\<rparr>, q],
      msUsed = [1, 2, 1], msAccess = []\<rparr>"
  by (simp_all add: memberStep_def twoTaps_def tap_names isUplinkDevice_def updatePort_def memberRole_def
      foldedLookup_def member_unobserved filterRemoteMACEntries_def)

text \<open>a member without a free port takes over the uplink. With the uplink observed up at 1000 Mbps, one
  access port and two members, the second member falls back to the uplink port, whose observed link
  state is cleared: the rendered uplink is down and lists a local client.\<close>

theorem overflow_member_clears_uplink:
  "snUp twoTaps = Some True \<and> map_option (map (\<lambda>p. (pUp p, pSpeed p, map macMAC (pMACs p)))) (Apply twoPorts twoTaps) =
     Some [(False, 0, [''02:00:00:00:00:12'']), (False, 0, [''02:00:00:00:00:11''])]"
proof -
  let ?f = "\<lambda>p. (pUp p, pSpeed p, map macMAC (pMACs p))"
  define p q where "p = applyUplinkState twoTaps (hd twoPorts)" and "q = hd (tl twoPorts)"
  have i: "pIndex p = 1" "pIndex q = 2"
    by (simp_all add: p_def q_def applyUplinkState_def twoTaps_def emptyStats_def hasCounters_def
        interfaceStatsValues_def twoPorts_def emptyPort_def)
  have "Apply twoPorts twoTaps = Some (applyDeviceMACs [p, q] twoTaps 1)"
    by (simp add: p_def q_def Apply_def twoPorts_def twoTaps_def updatePort_def)
  moreover have "snMemberPortMap twoTaps = []" by (simp add: twoTaps_def)
  ultimately have "Apply twoPorts twoTaps = Some
      [(clearObservedPortState (p\<lparr>pMACs := []\<rparr>))\<lparr>pMACs := [tapEntry ''02:00:00:00:00:12'']\<rparr>,
       (clearObservedPortState (q\<lparr>pMACs := []\<rparr>))\<lparr>pMACs := [tapEntry ''02:00:00:00:00:11''], pName := ''tap1''\<rparr>]"
    using i unfolding applyDeviceMACs_def Let_def twoTaps_eval by (simp add: validPinnedPortSet_def twoTaps_steps)
  moreover have "macMAC (tapEntry m) = m" for m by (simp add: tapEntry_def)
  ultimately show ?thesis by (simp add: twoTaps_def)
qed

end
