(* ===== verification/Go_Text.thy ===== *)
theory Go_Text
  imports Go_Prelude
begin

text \<open>
  Text handling of \<open>strings\<close> and \<open>bufio\<close> that the parsers of host command output use: \<open>strings.Fields\<close>,
  the lines a \<open>bufio.Scanner\<close> delivers, trimming of a prefix or of a set of characters, and
  \<open>strconv.Atoi\<close> with the error replaced by 0.
\<close>

section \<open>Fields\<close>

definition flush_word :: "string \<Rightarrow> string list \<Rightarrow> string list" where
  "flush_word w ws = (if w = [] then ws else w # ws)"

text \<open>\<open>strings.Fields\<close>: \<open>w\<close> is the field read so far.\<close>

function fields_from :: "string \<Rightarrow> string \<Rightarrow> string list" where
  "fields_from w [] = flush_word w []"
| "fields_from w (a # r) =
     (if space_len (a # r) = 0 then fields_from (w @ [a]) r
      else flush_word w (fields_from [] (drop (space_len (a # r)) (a # r))))"
  by pat_completeness auto
termination
proof (relation "measure (\<lambda>(w, s). length s)")
  show "(([], drop (space_len (a # r)) (a # r)), w, a # r) \<in> measure (\<lambda>(w, s). length s)"
    if "space_len (a # r) \<noteq> 0" for w a r
    using drop_space_len_less [OF that] by simp
qed simp_all

definition go_fields :: "string \<Rightarrow> string list" where
  "go_fields s = fields_from [] s"

declare fields_from.simps(2) [simp del]

lemma flush_word_set: "x \<in> set (flush_word w ws) \<longleftrightarrow> w \<noteq> [] \<and> x = w \<or> x \<in> set ws"
  by (auto simp: flush_word_def)

lemma fields_from_not_Nil: "x \<in> set (fields_from w s) \<Longrightarrow> x \<noteq> []"
proof (induction w s rule: fields_from.induct)
  case (1 w)
  then show ?case by (auto simp: flush_word_def split: if_splits)
next
  case (2 w a r)
  then show ?case
    by (cases "space_len (a # r) = 0") (auto simp: fields_from.simps(2) [of w a r] flush_word_set)
qed

lemma go_fields_not_Nil: "x \<in> set (go_fields s) \<Longrightarrow> x \<noteq> []"
  by (simp add: go_fields_def fields_from_not_Nil)

lemma fields_from_chars: "x \<in> set (fields_from w s) \<Longrightarrow> set x \<subseteq> set w \<union> set s"
proof (induction w s rule: fields_from.induct)
  case (1 w)
  then show ?case by (auto simp: flush_word_def split: if_splits)
next
  case (2 w a r)
  show ?case
  proof (cases "space_len (a # r) = 0")
    case True
    then show ?thesis using 2 by (fastforce simp: fields_from.simps(2) [of w a r])
  next
    case False
    then have "x = w \<or> x \<in> set (fields_from [] (drop (space_len (a # r)) (a # r)))"
      using 2(3) by (auto simp: fields_from.simps(2) [of w a r] flush_word_set)
    moreover have "set (drop (space_len (a # r)) (a # r)) \<subseteq> set (a # r)" by (rule set_drop_subset)
    ultimately show ?thesis using 2(2) [OF False] by fastforce
  qed
qed

section \<open>Lines\<close>

text \<open>
  \<open>bufio.Scanner\<close> with \<open>ScanLines\<close>: lines without their ending, a carriage return before it included. A
  line that does not fit the buffer of 64 KiB ends the scan.
\<close>

definition maxScanLine :: nat where "maxScanLine = 64 * 1024"

definition drop_cr :: "string \<Rightarrow> string" where
  "drop_cr l = (if l \<noteq> [] \<and> last l = CHR 0x0D then butlast l else l)"

definition scanner_lines :: "string \<Rightarrow> string list" where
  "scanner_lines s =
     (let ls = go_split CHR 0x0A s;
          ls = (if last ls = [] then butlast ls else ls)
      in map drop_cr (takeWhile (\<lambda>l. length l < maxScanLine) ls))"

section \<open>Prefixes, cut sets and numbers\<close>

definition trim_prefix :: "string \<Rightarrow> string \<Rightarrow> string" where
  "trim_prefix s p = (if has_prefix s p then drop (length p) s else s)"

definition trim_char :: "char \<Rightarrow> string \<Rightarrow> string" where
  "trim_char c s = rev (dropWhile (\<lambda>x. x = c) (rev (dropWhile (\<lambda>x. x = c) s)))"

text \<open>The value of \<open>strconv.Atoi\<close>, 0 when it fails.\<close>

definition atoi0 :: "string \<Rightarrow> int" where
  "atoi0 s = (case parse_int64 s of ParsedInt n \<Rightarrow> n | _ \<Rightarrow> 0)"


end
