(* ===== verification/Host_Interface.thy ===== *)
theory Host_Interface
  imports Port_Overrides Observe Go_Text
begin

text \<open>
  The interface source of \<open>internal/observe/ifsource\<close>: the texts of \<open>ifconfig\<close> and \<open>netstat\<close>
  (\<open>ifconfig.go\<close>, \<open>counters.go\<close>), the observation assembled from them (\<open>source.go\<close>), its overlay on a
  configured override (\<open>apply.go\<close>) and the refresh of all overrides (\<open>refresh.go\<close>).

  The host is an argument: the interface found by name with its addresses (\<open>address.go\<close>), the sysfs
  tree, what the two commands print, and at which of its three checks the context has expired.
\<close>

section \<open>ifconfig (ifconfig.go)\<close>

record host_details =
  hdUp :: "bool option"
  hdSpeed :: int
  hdMedia :: string

definition emptyDetails :: host_details where
  "emptyDetails = \<lparr>hdUp = None, hdSpeed = 0, hdMedia = []\<rparr>"

definition speedFromMediaLine :: "string \<Rightarrow> int" where
  "speedFromMediaLine line =
     (if go_contains line ''25g'' then 25000
      else if go_contains line ''10g'' then 10000
      else if go_contains line ''5g'' then 5000
      else if go_contains line ''2.5g'' \<or> go_contains line ''2500base'' then 2500
      else if go_contains line ''1000base'' \<or> go_contains line ''1g'' then 1000
      else if go_contains line ''100base'' then 100
      else if go_contains line ''10base'' then 10
      else 0)"

definition mediaFromMediaLine :: "string \<Rightarrow> string" where
  "mediaFromMediaLine line =
     (if list_ex (go_contains line) [''sfp28'', ''25gbase''] then ''SFP28''
      else if list_ex (go_contains line)
        [''sfp+'', ''twinax'', ''10gbase-sr'', ''10gbase-lr'', ''10gbase-lrm'', ''10gbase-er'', ''10gbase-cr'', ''10gbase-cu'']
      then ''SFP+''
      else if speedFromMediaLine line > 0 then ''GE''
      else [])"

definition ifconfigLine :: "string \<Rightarrow> host_details \<Rightarrow> host_details" where
  "ifconfigLine line0 details =
     (let lower = to_lower (trim_space line0) in
      if has_prefix lower ''status:'' then
        details\<lparr>hdUp := Some (go_contains lower ''active'' \<or> go_contains lower ''up'')\<rparr>
      else if has_prefix lower ''media:'' then
        details\<lparr>hdSpeed := speedFromMediaLine lower, hdMedia := mediaFromMediaLine lower\<rparr>
      else details)"

definition parseIfconfigDetails :: "string \<Rightarrow> host_details" where
  "parseIfconfigDetails output = fold ifconfigLine (go_split CHR 0x0A output) emptyDetails"

section \<open>netstat (counters.go)\<close>

text \<open>The columns of the counter table, in its order, and the record they fill.\<close>

definition netstatIndexes :: "nat list" where
  "netstatIndexes = [4, 5, 7, 8, 9, 10]"

definition netstatCounters :: "int list \<Rightarrow> interface_stats" where
  "netstatCounters vs =
     emptyStats\<lparr>stRXPackets := vs ! 0, stRXErrors := vs ! 1, stRXBytes := vs ! 2, stTXPackets := vs ! 3,
       stTXErrors := vs ! 4, stTXBytes := vs ! 5, stCountersSet := True\<rparr>"

fun parseColumns :: "string list \<Rightarrow> nat list \<Rightarrow> int list option" where
  "parseColumns row [] = Some []"
| "parseColumns row (i # is) =
     (case parse_int64 (row ! i) of
        ParsedInt v \<Rightarrow> map_option (Cons v) (parseColumns row is)
      | _ \<Rightarrow> None)"

definition netstatRow :: "string \<Rightarrow> string list \<Rightarrow> bool" where
  "netstatRow ifaceName row \<longleftrightarrow>
     \<not> (length row < 11 \<or> row ! 0 \<noteq> ifaceName \<or> \<not> has_prefix (row ! 2) ''<Link#'')"

text \<open>The first row of the interface decides; \<open>None\<close> is the result \<open>false\<close>.\<close>

definition parseNetstatCounters :: "string \<Rightarrow> string \<Rightarrow> interface_stats option" where
  "parseNetstatCounters output ifaceName =
     (case find (netstatRow ifaceName) (map go_fields (go_split CHR 0x0A output)) of
        None \<Rightarrow> None
      | Some row \<Rightarrow> map_option netstatCounters (parseColumns row netstatIndexes))"

definition mergeInterfaceStats :: "interface_stats \<Rightarrow> interface_stats \<Rightarrow> interface_stats" where
  "mergeInterfaceStats primary fallback =
     (let pick = (\<lambda>g. if \<not> stCountersSet primary \<and> g primary = 0 then g fallback else g primary)
      in primary\<lparr>stRXPackets := pick stRXPackets, stRXErrors := pick stRXErrors, stRXBytes := pick stRXBytes,
           stTXPackets := pick stTXPackets, stTXErrors := pick stTXErrors, stTXBytes := pick stTXBytes,
           stCountersSet := (stCountersSet primary \<or> stCountersSet fallback),
           stSpeedMbps := (if stSpeedMbps primary = 0 then stSpeedMbps fallback else stSpeedMbps primary)\<rparr>)"

section \<open>One interface (source.go)\<close>

record host_iface =
  hiMAC :: bytes
  hiFlagUp :: bool
  hiIP :: string
  hiNetmask :: string
  hiIPv6 :: "string list"

record host_env =
  heIface :: "string \<Rightarrow> host_iface option"
  heLinux :: bool
  heSysfs :: "string \<Rightarrow> string option"
  heIfconfig :: "string \<Rightarrow> string option"
  heNetstat :: "string \<Rightarrow> string option"
  heExpired :: "string \<Rightarrow> nat \<Rightarrow> bool"

definition emptyObservation :: port_observation where
  "emptyObservation = \<lparr>obPort = 0, obInterface = [], obMAC = [], obIP = [], obNetmask = [], obIPv6 = [], obUp = None,
     obSpeedMbps = 0, obMedia = [], obStats = emptyStats, obMACs = [], obDisabled = False, obUnmapped = False\<rparr>"

definition readHostInterfaceDetails :: "host_env \<Rightarrow> string \<Rightarrow> host_details" where
  "readHostInterfaceDetails env ifaceName =
     (case heIfconfig env ifaceName of None \<Rightarrow> emptyDetails | Some out \<Rightarrow> parseIfconfigDetails out)"

definition readHostInterfaceCounters :: "host_env \<Rightarrow> string \<Rightarrow> interface_stats option" where
  "readHostInterfaceCounters env ifaceName =
     (case heNetstat env ifaceName of None \<Rightarrow> None | Some out \<Rightarrow> parseNetstatCounters out ifaceName)"

text \<open>Link state and identity as the kernel reports them, before the commands are asked.\<close>

definition kernelObservation :: "host_env \<Rightarrow> string \<Rightarrow> host_iface \<Rightarrow> port_observation" where
  "kernelObservation env ifaceName iface =
     (let out = emptyObservation\<lparr>obInterface := ifaceName, obMAC := (if hiMAC iface \<noteq> [] then mac_string (hiMAC iface) else []),
                  obUp := Some (hiFlagUp iface), obIP := hiIP iface, obNetmask := hiNetmask iface, obIPv6 := hiIPv6 iface\<rparr>
      in if heLinux env then
           (let stats = fst (ReadInterfaceStats (heSysfs env) ifaceName)
            in out\<lparr>obStats := stats, obUp := stUp stats, obSpeedMbps := stSpeedMbps stats\<rparr>)
         else out)"

definition applyDetails :: "host_details \<Rightarrow> port_observation \<Rightarrow> port_observation" where
  "applyDetails d out =
     out\<lparr>obUp := (if hdUp d \<noteq> None then hdUp d else obUp out),
       obSpeedMbps := (if obSpeedMbps out \<le> 0 \<and> hdSpeed d > 0 then hdSpeed d else obSpeedMbps out),
       obMedia := (if trim_space (obMedia out) = [] then hdMedia d else obMedia out)\<rparr>"

text \<open>The observation and whether an error is returned with it.\<close>

definition ObserveInterface :: "host_env \<Rightarrow> string \<Rightarrow> port_observation \<times> bool" where
  "ObserveInterface env ifaceName0 =
     (let ifaceName = trim_space ifaceName0;
          out0 = emptyObservation\<lparr>obInterface := ifaceName\<rparr>
      in if ifaceName = [] \<or> heExpired env ifaceName 0 then (out0, True)
         else case heIface env ifaceName of
                None \<Rightarrow> (out0, True)
              | Some iface \<Rightarrow>
                  (let out1 = kernelObservation env ifaceName iface;
                       err = (heLinux env \<and> snd (ReadInterfaceStats (heSysfs env) ifaceName))
                   in if heExpired env ifaceName 1 then (out1, True)
                      else let out2 = applyDetails (readHostInterfaceDetails env ifaceName) out1 in
                        if heExpired env ifaceName 2 then (out2, True)
                        else let out3 = (case readHostInterfaceCounters env ifaceName of
                                           None \<Rightarrow> out2
                                         | Some c \<Rightarrow> out2\<lparr>obStats := mergeInterfaceStats (obStats out2) c\<rparr>);
                                 out4 = (if obUp out3 \<noteq> Some True
                                         then out3\<lparr>obSpeedMbps := 0, obStats := (obStats out3)\<lparr>stSpeedMbps := 0\<rparr>\<rparr> else out3)
                             in (out4, err)))"

section \<open>Overlay and refresh (apply.go, refresh.go)\<close>

definition observationHasCounters :: "interface_stats \<Rightarrow> bool" where
  "observationHasCounters st \<longleftrightarrow> list_ex (\<lambda>v. v \<noteq> 0) (interfaceStatsValues st)"

definition ApplyObservation :: "port_observation \<Rightarrow> port_override \<Rightarrow> port_override" where
  "ApplyObservation ob ov =
     (let st = obStats ob;
          up = (case oUp ov of Some u \<Rightarrow> u | None \<Rightarrow> obUp ob = Some True)
      in ov\<lparr>oInterface := (if trim_space (oInterface ov) = [] then trim_space (obInterface ob) else oInterface ov),
           oMAC := (if trim_space (oMAC ov) = [] then obMAC ob else oMAC ov),
           oUp := Some up,
           oIP := (if trim_space (oIP ov) = [] then obIP ob else oIP ov),
           oNetmask := (if trim_space (oNetmask ov) = [] then obNetmask ob else oNetmask ov),
           oIPv6 := (if oIPv6 ov = [] then obIPv6 ob else oIPv6 ov),
           oSpeed := (if oSpeed ov \<le> 0 \<and> up \<and> obSpeedMbps ob > 0 then obSpeedMbps ob else oSpeed ov),
           oMedia := (if trim_space (oMedia ov) = [] then obMedia ob else oMedia ov),
           oRXPackets := stRXPackets st, oRXErrors := stRXErrors st, oRXBytes := stRXBytes st,
           oTXPackets := stTXPackets st, oTXErrors := stTXErrors st, oTXBytes := stTXBytes st,
           oCountersSet := (stCountersSet st \<or> observationHasCounters st)\<rparr>)"

text \<open>The warnings are the ports and interfaces whose read returned an error.\<close>

definition refreshOverride :: "(string \<Rightarrow> port_observation \<times> bool) \<Rightarrow> port_override \<Rightarrow> port_override" where
  "refreshOverride reader ov =
     (let iface = trim_space (oInterface ov) in
      if iface = [] then ov else ApplyObservation (fst (reader iface)) (ov\<lparr>oInterface := iface\<rparr>))"

definition RefreshOverrides ::
  "(string \<Rightarrow> port_observation \<times> bool) \<Rightarrow> port_override list \<Rightarrow> port_override list \<times> (int \<times> string) list" where
  "RefreshOverrides reader configured =
     (map (refreshOverride reader) configured,
      map (\<lambda>ov. (oPort ov, trim_space (oInterface ov)))
        (filter (\<lambda>ov. trim_space (oInterface ov) \<noteq> [] \<and> snd (reader (trim_space (oInterface ov)))) configured))"

section \<open>Properties\<close>

lemma applySetters_link:
  "oUp ov = Some False \<Longrightarrow> \<not> pUp (applySetters ov p)"
  "oUp ov = Some False \<Longrightarrow> oSpeed ov \<le> 0 \<Longrightarrow> pSpeed (applySetters ov p) = 0"
  by (simp_all add: applySetters_def portOverrideSetters_def setPortOverrideDisabled_def setPortOverrideLinkState_def Let_def)

lemma ApplyPortOverrides_last:
  assumes "1 \<le> oPort ov" "oPort ov \<le> int (length ports)"
  shows "\<exists>p. ApplyPortOverrides ports (ovs @ [ov]) ! nat (oPort ov - 1) = applySetters ov p"
proof -
  have "nat (oPort ov - 1) < length ports" "int (nat (oPort ov - 1)) + 1 = oPort ov" using assms by linarith+
  then show ?thesis using ApplyPortOverrides_nth(1) [of "nat (oPort ov - 1)" ports "ovs @ [ov]"] by auto
qed


definition offlineHost :: host_env where
  "offlineHost = \<lparr>heIface = (\<lambda>_. None), heLinux = True, heSysfs = (\<lambda>_. None), heIfconfig = (\<lambda>_. None),
     heNetstat = (\<lambda>_. None), heExpired = (\<lambda>_ _. False)\<rparr>"


text \<open>a completed read reports no speed for a link that is not up. Unless the context expires on the way,
  an observed interface whose state is down or unknown has speed 0, also in its statistics.\<close>

theorem ObserveInterface_speed_needs_link:
  assumes "\<not> heExpired env (trim_space name) 1" and "\<not> heExpired env (trim_space name) 2" and "obUp (fst (ObserveInterface env name)) \<noteq> Some True"
  shows "obSpeedMbps (fst (ObserveInterface env name)) = 0 \<and> stSpeedMbps (obStats (fst (ObserveInterface env name))) = 0"
  using assms
  by (auto simp: ObserveInterface_def Let_def emptyObservation_def emptyStats_def split: option.splits if_splits)

theorem ObserveInterface_speed_needs_link_witness:
  "obSpeedMbps (fst (ObserveInterface (offlineHost\<lparr>heIface := \<lambda>_. Some \<lparr>hiMAC = [], hiFlagUp = False, hiIP = [], hiNetmask = [],
     hiIPv6 = []\<rparr>, heLinux := False, heIfconfig := \<lambda>_. Some ''media: 1000baseT''\<rparr>) ''eth7'')) = 0"
proof -
  define env where "env = offlineHost\<lparr>heIface := \<lambda>_. Some \<lparr>hiMAC = [], hiFlagUp = False, hiIP = [], hiNetmask = [],
     hiIPv6 = []\<rparr>, heLinux := False, heIfconfig := \<lambda>_. Some ''media: 1000baseT''\<rparr>"
  have n: "trim_space ''eth7'' = ''eth7''"
    by (simp add: trim_space_eq_iff is_ascii_space_def space2_def space3_def)
  have "to_lower (trim_space ''media: 1000baseT'') = ''media: 1000baset''" by code_simp
  then have "hdUp (parseIfconfigDetails ''media: 1000baseT'') = None"
    by (simp add: parseIfconfigDetails_def ifconfigLine_def has_prefix_def emptyDetails_def Let_def)
  then have "obUp (fst (ObserveInterface env ''eth7'')) = Some False"
    by (simp add: ObserveInterface_def n env_def offlineHost_def kernelObservation_def applyDetails_def
        readHostInterfaceDetails_def readHostInterfaceCounters_def Let_def)
  then show ?thesis
    using ObserveInterface_speed_needs_link [of env "''eth7''"] by (simp add: env_def offlineHost_def)
qed

text \<open>what the operator configured wins over what the host reports, with one exception. Non-blank names and
  addresses, a configured link state, speed and IPv6 list survive the overlay, and the fields that no
  observation carries are untouched; but the six counters and whether they are known are replaced
  by the observed ones even where the operator had set them.\<close>

theorem ApplyObservation_operator_wins:
  "(trim_space (oInterface ov) \<noteq> [] \<longrightarrow> oInterface (ApplyObservation ob ov) = oInterface ov) \<and>
   (trim_space (oMAC ov) \<noteq> [] \<longrightarrow> oMAC (ApplyObservation ob ov) = oMAC ov) \<and>
   (trim_space (oIP ov) \<noteq> [] \<longrightarrow> oIP (ApplyObservation ob ov) = oIP ov) \<and>
   (trim_space (oNetmask ov) \<noteq> [] \<longrightarrow> oNetmask (ApplyObservation ob ov) = oNetmask ov) \<and>
   (trim_space (oMedia ov) \<noteq> [] \<longrightarrow> oMedia (ApplyObservation ob ov) = oMedia ov) \<and>
   (oIPv6 ov \<noteq> [] \<longrightarrow> oIPv6 (ApplyObservation ob ov) = oIPv6 ov) \<and>
   (oUp ov \<noteq> None \<longrightarrow> oUp (ApplyObservation ob ov) = oUp ov) \<and>
   (oSpeed ov > 0 \<longrightarrow> oSpeed (ApplyObservation ob ov) = oSpeed ov) \<and>
   (oPort (ApplyObservation ob ov), oName (ApplyObservation ob ov), oRole (ApplyObservation ob ov),
    oVLAN (ApplyObservation ob ov), oDisabled (ApplyObservation ob ov)) =
     (oPort ov, oName ov, oRole ov, oVLAN ov, oDisabled ov) \<and>
   (oRXBytes (ApplyObservation ob ov), oTXBytes (ApplyObservation ob ov), oCountersSet (ApplyObservation ob ov)) =
     (stRXBytes (obStats ob), stTXBytes (obStats ob), hasCounters (obStats ob))"
  by (auto simp: ApplyObservation_def Let_def hasCounters_def observationHasCounters_def)

theorem ApplyObservation_operator_wins_witness:
  "oMAC (ApplyObservation emptyObservation (emptyOverride\<lparr>oMAC := ''02:00:00:00:00:01'', oRXBytes := 5\<rparr>)) = ''02:00:00:00:00:01'' \<and>
   oRXBytes (ApplyObservation emptyObservation (emptyOverride\<lparr>oMAC := ''02:00:00:00:00:01'', oRXBytes := 5\<rparr>)) = 0"
proof -
  have "trim_space ''02:00:00:00:00:01'' \<noteq> []" by code_simp
  then show ?thesis
    using ApplyObservation_operator_wins [of "emptyOverride\<lparr>oMAC := ''02:00:00:00:00:01'', oRXBytes := 5\<rparr>" emptyObservation]
    by (simp add: emptyObservation_def emptyStats_def)
qed

text \<open>two texts of \<open>ifconfig\<close> are misread. The status line of a link without carrier, \<open>inactive\<close>, contains
  the word \<open>active\<close> and is read as up; and a 2.5 Gbit/s medium written \<open>2.5Gbase\<close> contains \<open>5g\<close> and is
  read as 5 Gbit/s.\<close>

theorem parseIfconfigDetails_misreads:
  "hdUp (parseIfconfigDetails ''status: inactive'') = Some True \<and>
   hdSpeed (parseIfconfigDetails ''media: Ethernet 2.5Gbase-T'') = 5000"
proof
  have "to_lower (trim_space ''status: inactive'') = ''status: inactive''" by code_simp
  then show "hdUp (parseIfconfigDetails ''status: inactive'') = Some True"
    by (simp add: parseIfconfigDetails_def ifconfigLine_def has_prefix_def)
  have "to_lower (trim_space ''media: Ethernet 2.5Gbase-T'') = ''media: ethernet 2.5gbase-t''" by code_simp
  then show "hdSpeed (parseIfconfigDetails ''media: Ethernet 2.5Gbase-T'') = 5000"
    by (simp add: parseIfconfigDetails_def ifconfigLine_def has_prefix_def speedFromMediaLine_def)
qed

end
