(* ===== verification/Bridge_Source.thy ===== *)
theory Bridge_Source
  imports Host_Interface
begin

text \<open>
  Where bridge observations come from: the parsers of \<open>bridge fdb show\<close> (\<open>internal/adapters/linuxbridge\<close>)
  and of \<open>ifconfig bridge addr\<close> (\<open>internal/adapters/freebsdifconfig\<close>), the conversion of their rows to
  clients (\<open>internal/observe/snapshot_fdb.go\<close> and \<open>freebsd.go\<close>), the ARP table (\<open>arp.go\<close>), and the
  observation the platform assembles (\<open>internal/platform/bridge.go\<close> and \<open>interface.go\<close>).

  What the commands print and what the files hold are arguments; \<open>None\<close> stands for a failed command or
  read. The properties follow a row of text up to the port it is rendered on.
\<close>

section \<open>Linux forwarding database (linuxbridge/fdb.go)\<close>

record fdb_entry =
  fdbMAC :: string
  fdbDevice :: string
  fdbVLAN :: int
  fdbDynamic :: bool
  fdbStatic :: bool
  fdbLocal :: bool
  fdbPermanent :: bool
  fdbSelf :: bool

text \<open>The loop over \<open>fields[i]\<close> and \<open>fields[i+1]\<close>.\<close>

definition fdbAttribute :: "string \<times> string \<Rightarrow> fdb_entry \<Rightarrow> fdb_entry" where
  "fdbAttribute kv entry =
     (case kv of (key, arg) \<Rightarrow>
        if key = ''dev'' then entry\<lparr>fdbDevice := arg\<rparr>
        else if key = ''vlan'' then
          (case parse_int64 arg of ParsedInt v \<Rightarrow> entry\<lparr>fdbVLAN := v\<rparr> | _ \<Rightarrow> entry)
        else entry)"

definition parseFDBRow :: "string list \<Rightarrow> fdb_entry option" where
  "parseFDBRow row =
     (if row = [] \<or> \<not> go_contains (hd row) '':'' then None
      else let entry = \<lparr>fdbMAC = to_lower (hd row), fdbDevice = [], fdbVLAN = 0,
                 fdbDynamic = (''dynamic'' \<in> set (tl row)), fdbStatic = (''static'' \<in> set (tl row)),
                 fdbLocal = (''local'' \<in> set (tl row)), fdbPermanent = (''permanent'' \<in> set (tl row)),
                 fdbSelf = (''self'' \<in> set (tl row))\<rparr>
           in Some (fold fdbAttribute (zip (tl row) (tl (tl row))) entry))"

definition ParseFDB :: "string \<Rightarrow> fdb_entry list" where
  "ParseFDB output = List.map_filter (\<lambda>l. parseFDBRow (go_fields l)) (scanner_lines output)"

section \<open>FreeBSD bridge addresses (freebsdifconfig/bridge.go)\<close>

record bridge_address =
  baMAC :: string
  baVLAN :: int
  baInterface :: string
  baAge :: int
  baStatic :: bool
  baLocal :: bool

definition parseOptionalInt :: "string \<Rightarrow> int" where
  "parseOptionalInt v = atoi0 (trim_char CHR '','' (trim_space v))"

definition parseVLAN :: "string \<Rightarrow> int" where
  "parseVLAN v = parseOptionalInt (trim_prefix (to_lower (trim_space v)) ''vlan'')"

definition parseBridgeRow :: "string list \<Rightarrow> bridge_address option" where
  "parseBridgeRow row =
     (if length row < 2 then None
      else let mac = to_lower (trim_space (hd row)) in
        case ParseMAC mac of
          None \<Rightarrow> None
        | Some _ \<Rightarrow>
            (let vlanSet = has_prefix (to_lower (row ! 1)) ''vlan'';
                 rest = (if vlanSet then drop 2 row else drop 1 row)
             in if rest = [] then None
                else let flags = map to_lower (tl rest) in
                  Some \<lparr>baMAC = mac, baVLAN = (if vlanSet then parseVLAN (row ! 1) else 0),
                        baInterface = trim_space (hd rest),
                        baAge = (if tl rest \<noteq> [] then parseOptionalInt (hd (tl rest)) else 0),
                        baStatic = list_ex (\<lambda>f. go_contains f ''static'') flags,
                        baLocal = list_ex (\<lambda>f. go_contains f ''local'' \<or> go_contains f ''self'') flags\<rparr>))"

definition ParseBridgeAddr :: "string \<Rightarrow> bridge_address list" where
  "ParseBridgeAddr output = List.map_filter (\<lambda>l. parseBridgeRow (go_fields l)) (scanner_lines output)"

section \<open>Clients per member (snapshot_fdb.go, freebsd.go)\<close>

definition unicastMAC :: "string \<Rightarrow> bool" where
  "unicastMAC text = (case ParseMAC text of None \<Rightarrow> False | Some mac \<Rightarrow> mac \<noteq> [] \<and> hd mac AND 1 = 0)"

definition learnedFDBEntry :: "fdb_entry \<Rightarrow> bool" where
  "learnedFDBEntry entry \<longleftrightarrow>
     unicastMAC (fdbMAC entry) \<and> \<not> (fdbLocal entry \<or> fdbPermanent entry \<or> fdbSelf entry) \<and>
     (fdbDynamic entry \<or> fdbStatic entry \<or> \<not> fdbLocal entry \<and> \<not> fdbPermanent entry)"

definition learnedFreeBSDBridgeEntry :: "bridge_address \<Rightarrow> bool" where
  "learnedFreeBSDBridgeEntry entry \<longleftrightarrow>
     unicastMAC (baMAC entry) \<and> \<not> baLocal entry \<and> trim_space (baInterface entry) \<noteq> []"

definition defaultBridgeAge :: "int \<Rightarrow> int" where
  "defaultBridgeAge v = (if v > 0 then v else 4)"

definition clientEntry :: "string \<Rightarrow> int \<Rightarrow> int \<Rightarrow> mac_table_entry" where
  "clientEntry mac age vlan =
     \<lparr>macMAC = mac, macHostname = [], macIP = [], macAge = age, macUptime = 1200, macVLAN = vlan, macStatic = False,
      macType = ''client''\<rparr>"

text \<open>\<open>out[k] = append(out[k], v)\<close>.\<close>

fun appendAt :: "string \<Rightarrow> 'a \<Rightarrow> (string \<times> 'a list) list \<Rightarrow> (string \<times> 'a list) list" where
  "appendAt k v [] = [(k, [v])]"
| "appendAt k v ((k', vs) # m) = (if k' = k then (k', vs @ [v]) # m else (k', vs) # appendAt k v m)"

text \<open>
  The loop both conversions share: skip what was not learned, skip a client already seen on the member,
  append the rest. The key of \<open>seen\<close> is the text \<open>member|mac\<close>.
\<close>

definition groupStep ::
  "('r \<Rightarrow> bool) \<Rightarrow> ('r \<Rightarrow> string) \<Rightarrow> ('r \<Rightarrow> mac_table_entry) \<Rightarrow> 'r \<Rightarrow> member_macs \<times> string list \<Rightarrow> member_macs \<times> string list" where
  "groupStep learned member client r st =
     (case st of (out, seen) \<Rightarrow>
        let key = member r @ ''|'' @ macMAC (client r) in
        if \<not> learned r \<or> key \<in> set seen then (out, seen)
        else (appendAt (member r) (client r) out, key # seen))"

definition MACEntriesByDevice :: "fdb_entry list \<Rightarrow> member_macs" where
  "MACEntriesByDevice entries =
     fst (fold (groupStep learnedFDBEntry (\<lambda>e. trim_space (fdbDevice e)) (\<lambda>e. clientEntry (fdbMAC e) 4 (fdbVLAN e)))
       entries ([], []))"

definition FreeBSDMACsByInterface :: "bridge_address list \<Rightarrow> member_macs" where
  "FreeBSDMACsByInterface entries =
     fst (fold (groupStep learnedFreeBSDBridgeEntry (\<lambda>e. trim_space (baInterface e))
         (\<lambda>e. clientEntry (baMAC e) (defaultBridgeAge (baAge e)) (baVLAN e)))
       entries ([], []))"

section \<open>ARP (arp.go)\<close>

record arp_entry =
  arpIP :: string
  arpMAC :: string
  arpDevice :: string

definition zeroMAC :: "bytes \<Rightarrow> bool" where
  "zeroMAC mac = list_all (\<lambda>b. b = 0) mac"

definition parseARPRow :: "string list \<Rightarrow> arp_entry option" where
  "parseARPRow row =
     (if length row < 6 \<or> equal_fold (hd row) ''IP'' then None
      else case ParseIP (hd row) of
             None \<Rightarrow> None
           | Some ip \<Rightarrow>
               (case To4 ip of
                  None \<Rightarrow> None
                | Some ip4 \<Rightarrow>
                    (case ParseMAC (row ! 3) of
                       None \<Rightarrow> None
                     | Some mac \<Rightarrow>
                         if mac = [] \<or> hd mac AND 1 \<noteq> 0 \<or> zeroMAC mac then None
                         else Some \<lparr>arpIP = ipv4_string ip4, arpMAC = to_lower (mac_string mac),
                                    arpDevice = trim_space (row ! 5)\<rparr>)))"

definition ParseARPTable :: "string \<Rightarrow> arp_entry list" where
  "ParseARPTable text = List.map_filter (\<lambda>l. parseARPRow (go_fields l)) (scanner_lines text)"

definition arpByMAC :: "arp_entry list \<Rightarrow> string \<Rightarrow> arp_entry list" where
  "arpByMAC entries key =
     filter (\<lambda>e. normalizedMACKey (arpMAC e) \<noteq> [] \<and> trim_space (arpIP e) \<noteq> [] \<and> normalizedMACKey (arpMAC e) = key) entries"

definition arpEntryForMAC :: "string \<Rightarrow> string \<Rightarrow> arp_entry list \<Rightarrow> arp_entry option" where
  "arpEntryForMAC member mac arps =
     (case arpByMAC arps (normalizedMACKey mac) of
        [] \<Rightarrow> None
      | e # es \<Rightarrow>
          (case find (\<lambda>x. to_lower (trim_space (arpDevice x)) = to_lower (trim_space member)) (e # es) of
             Some x \<Rightarrow> Some x
           | None \<Rightarrow> Some e))"

definition enrichEntry :: "arp_entry list \<Rightarrow> string \<Rightarrow> mac_table_entry \<Rightarrow> mac_table_entry" where
  "enrichEntry arps member e =
     (if trim_space (macIP e) \<noteq> [] then e
      else case arpEntryForMAC member (macMAC e) arps of None \<Rightarrow> e | Some a \<Rightarrow> e\<lparr>macIP := arpIP a\<rparr>)"

definition EnrichMACsFromARP :: "member_macs \<Rightarrow> arp_entry list \<Rightarrow> member_macs" where
  "EnrichMACsFromARP memberMACs arps =
     (if memberMACs = [] \<or> arps = [] then memberMACs
      else map (\<lambda>(m, macs). (m, map (enrichEntry arps m) macs)) memberMACs)"

section \<open>The platform (interface.go, bridge.go)\<close>

record platform_env =
  peHost :: host_env
  peGoos :: string
  peProc :: "(string \<Rightarrow> interface_stats option) option"
  peFDB :: "string \<Rightarrow> string option"
  peBridgeAddr :: "string \<Rightarrow> string option"
  peARP :: "string option"

text \<open>
  \<open>hostPlatform.Interface\<close>: \<open>peProc\<close> is the procfs snapshot when that source is enabled and was read. The
  counter merge of the platform package is field by field the one of \<open>ifsource\<close>.
\<close>

definition hostInterface :: "platform_env \<Rightarrow> string \<Rightarrow> port_observation \<times> bool" where
  "hostInterface env iface =
     (case ObserveInterface (peHost env) iface of (ob, err) \<Rightarrow>
        if heExpired (peHost env) (trim_space iface) 3 \<or> peGoos env \<noteq> ''linux'' then (ob, err)
        else case peProc env of
               None \<Rightarrow> (ob, err)
             | Some proc \<Rightarrow>
                 (case proc (trim_space iface) of
                    None \<Rightarrow> (ob, err)
                  | Some st \<Rightarrow> (ob\<lparr>obStats := mergeInterfaceStats (obStats ob) st\<rparr>, err)))"

record bridge_config =
  bcBridge :: string
  bcUplinkInterface :: string
  bcIgnoredMembers :: "string list"
  bcMemberPortMap :: "(string \<times> int) list"

definition ClassifyMembersWithIgnores :: "member_macs \<Rightarrow> string \<Rightarrow> string \<Rightarrow> string list \<Rightarrow> member_roles" where
  "ClassifyMembersWithIgnores memberMACs bridge uplinkInterface ignored =
     ApplyIgnoredMembers (ClassifyMembers memberMACs bridge uplinkInterface) ignored"

definition cloneMemberPortMap :: "(string \<times> int) list \<Rightarrow> (string \<times> int) list" where
  "cloneMemberPortMap = normalizeKeys"

definition roleForMember :: "member_roles \<Rightarrow> string \<Rightarrow> bridge_member_role" where
  "roleForMember roles member =
     (case map_of roles (trim_space member) of
        Some r \<Rightarrow> r
      | None \<Rightarrow> (case find (\<lambda>(n, _). to_lower (trim_space n) = to_lower (trim_space member)) roles of
                   Some (_, r) \<Rightarrow> r
                 | None \<Rightarrow> RoleUnknown))"

definition bridgeMemberObservations ::
  "(string \<Rightarrow> port_observation \<times> bool) \<Rightarrow> member_macs \<Rightarrow> member_roles \<Rightarrow> (string \<times> port_observation) list" where
  "bridgeMemberObservations reader memberMACs roles =
     List.map_filter (\<lambda>(member, _).
       let role = roleForMember roles member; ob = fst (reader member) in
       if role = RoleBridge \<or> role = RoleIgnored then None
       else if trim_space (obInterface ob) \<noteq> [] \<or> obSpeedMbps ob > 0 \<or> obUp ob \<noteq> None then Some (member, ob)
       else None) memberMACs"

definition invalidBridgeName :: "string \<Rightarrow> bool" where
  "invalidBridgeName bridge \<longleftrightarrow> trim_space bridge = [] \<or> go_contains (trim_space bridge) ''/''"

definition linuxBridgeFDB :: "platform_env \<Rightarrow> string \<Rightarrow> fdb_entry list option" where
  "linuxBridgeFDB env bridge =
     (if invalidBridgeName bridge then None else map_option ParseFDB (peFDB env (trim_space bridge)))"

definition freeBSDBridgeAddr :: "platform_env \<Rightarrow> string \<Rightarrow> bridge_address list option" where
  "freeBSDBridgeAddr env bridge =
     (if invalidBridgeName bridge then None else map_option ParseBridgeAddr (peBridgeAddr env (trim_space bridge)))"

definition enrichMACsFromLocalARP :: "platform_env \<Rightarrow> member_macs \<Rightarrow> member_macs" where
  "enrichMACsFromLocalARP env memberMACs =
     (case peARP env of None \<Rightarrow> memberMACs | Some text \<Rightarrow> EnrichMACsFromARP memberMACs (ParseARPTable text))"

definition bridgeStart :: "bridge_config \<Rightarrow> bridge_observation" where
  "bridgeStart cfg =
     \<lparr>brBridge = trim_space (bcBridge cfg), brUplinkInterface = trim_space (bcUplinkInterface cfg), brUplink = emptyObservation,
      brMemberMACs = [], brRemoteMACs = [], brMemberPorts = [], brMemberPortMap = cloneMemberPortMap (bcMemberPortMap cfg),
      brMemberRoles = []\<rparr>"

text \<open>What both systems do with the members once they are read.\<close>

definition withMembers :: "platform_env \<Rightarrow> bridge_config \<Rightarrow> member_macs \<Rightarrow> bridge_observation \<Rightarrow> bridge_observation" where
  "withMembers env cfg macs ob =
     (let roles = ClassifyMembersWithIgnores macs (brBridge ob) (brUplinkInterface ob) (bcIgnoredMembers cfg)
      in ob\<lparr>brMemberMACs := macs, brMemberRoles := roles,
           brRemoteMACs := map (\<lambda>k. (k, True)) (RemoteMACsByBridgeMember macs roles (brUplinkInterface ob)),
           brMemberPorts := bridgeMemberObservations (hostInterface env) macs roles\<rparr>)"

definition withUplink :: "platform_env \<Rightarrow> bridge_observation \<Rightarrow> bridge_observation" where
  "withUplink env ob =
     (if brUplinkInterface ob \<noteq> [] then ob\<lparr>brUplink := fst (hostInterface env (brUplinkInterface ob))\<rparr> else ob)"

definition linuxBridge :: "platform_env \<Rightarrow> bridge_config \<Rightarrow> bridge_observation" where
  "linuxBridge env cfg =
     (let ob = withUplink env (bridgeStart cfg) in
      if brBridge ob = [] then ob
      else case linuxBridgeFDB env (brBridge ob) of
             None \<Rightarrow> ob
           | Some entries \<Rightarrow> withMembers env cfg (enrichMACsFromLocalARP env (MACEntriesByDevice entries)) ob)"

definition freebsdBridge :: "platform_env \<Rightarrow> bridge_config \<Rightarrow> bridge_observation" where
  "freebsdBridge env cfg =
     (let ob = bridgeStart cfg in
      withUplink env
        (if brBridge ob = [] then ob
         else case freeBSDBridgeAddr env (brBridge ob) of
                None \<Rightarrow> ob
              | Some entries \<Rightarrow> withMembers env cfg (FreeBSDMACsByInterface entries) ob))"

definition platformBridge :: "platform_env \<Rightarrow> bridge_config \<Rightarrow> bridge_observation" where
  "platformBridge env cfg =
     (if peGoos env = ''linux'' then linuxBridge env cfg
      else if peGoos env = ''freebsd'' then freebsdBridge env cfg
      else bridgeStart cfg)"

text \<open>\<open>HostSnapshotFromSource\<close> on this platform.\<close>

definition HostSnapshotFromSource :: "platform_env \<Rightarrow> observe_config \<Rightarrow> int \<Rightarrow> snapshot" where
  "HostSnapshotFromSource env cfg uplinkPortIndex =
     hostSnapshot (platformBridge env \<lparr>bcBridge = trim_space (ocBridge cfg), bcUplinkInterface = trim_space (ocInterface cfg),
       bcIgnoredMembers = ocIgnoredMembers cfg, bcMemberPortMap = normalizeMemberPortMap (ocMemberPortMap cfg)\<rparr>)
       cfg uplinkPortIndex"

section \<open>Grouping rows\<close>

lemma appendAt_member:
  "(k', vs) \<in> set (appendAt k v m) \<Longrightarrow> x \<in> set vs \<Longrightarrow>
     (k' = k \<and> x = v) \<or> (\<exists>us. (k', us) \<in> set m \<and> x \<in> set us)"
proof (induction m)
  case (Cons p m)
  obtain k1 us where p: "p = (k1, us)" by fastforce
  show ?case using Cons by (cases "k1 = k") (auto simp: p)
qed auto

text \<open>
  The contract of a source of rows: what it takes for learned has a unicast address. The grouping loop
  then lists per member only learned rows, each client once.
\<close>

locale row_source =
  fixes learned :: "'r \<Rightarrow> bool" and member :: "'r \<Rightarrow> string" and client :: "'r \<Rightarrow> mac_table_entry"
  assumes learned_unicast: "learned r \<Longrightarrow> unicastMAC (macMAC (client r))"
begin

lemma group_sound:
  assumes "(m, macs) \<in> set (fst (fold (groupStep learned member client) rows st))" and "e \<in> set macs"
  shows "(\<exists>r\<in>set rows. learned r \<and> member r = m \<and> client r = e) \<or>
    (\<exists>us. (m, us) \<in> set (fst st) \<and> e \<in> set us)"
  using assms
proof (induction rows arbitrary: st)
  case (Cons r rows)
  obtain out seen where st: "st = (out, seen)" by fastforce
  let ?st = "groupStep learned member client r st"
  from Cons.IH [of ?st] Cons.prems
  consider (row) "\<exists>r\<in>set rows. learned r \<and> member r = m \<and> client r = e"
    | (earlier) us where "(m, us) \<in> set (fst ?st)" "e \<in> set us" by auto
  then show ?case
  proof cases
    case row
    then show ?thesis by auto
  next
    case earlier
    then show ?thesis
      using appendAt_member [of m us "member r" "client r" out e]
      by (auto simp: st groupStep_def Let_def split: if_splits)
  qed
qed auto

lemma group_clients:
  assumes "(m, macs) \<in> set (fst (fold (groupStep learned member client) rows ([], [])))" and "e \<in> set macs"
  shows "\<exists>r\<in>set rows. learned r \<and> member r = m \<and> client r = e \<and> unicastMAC (macMAC e)"
  using group_sound [OF assms] learned_unicast by fastforce

end

interpretation fdb: row_source learnedFDBEntry "\<lambda>e. trim_space (fdbDevice e)" "\<lambda>e. clientEntry (fdbMAC e) 4 (fdbVLAN e)"
  by unfold_locales (simp add: learnedFDBEntry_def clientEntry_def)

interpretation freebsd: row_source learnedFreeBSDBridgeEntry "\<lambda>e. trim_space (baInterface e)"
  "\<lambda>e. clientEntry (baMAC e) (defaultBridgeAge (baAge e)) (baVLAN e)"
  by unfold_locales (simp add: learnedFreeBSDBridgeEntry_def clientEntry_def)

lemma map_filter_set: "y \<in> set (List.map_filter f xs) \<Longrightarrow> \<exists>x\<in>set xs. f x = Some y"
  by (auto simp: List.map_filter_def)

lemma fdbAttribute_flags [simp]:
  "fdbMAC (fold fdbAttribute kvs e) = fdbMAC e" "fdbLocal (fold fdbAttribute kvs e) = fdbLocal e"
  "fdbPermanent (fold fdbAttribute kvs e) = fdbPermanent e" "fdbSelf (fold fdbAttribute kvs e) = fdbSelf e"
  by (induction kvs arbitrary: e) (auto simp: fdbAttribute_def split: parse_int_result.splits prod.splits if_splits)

text \<open>A client of the Linux table: the row it was learned from.\<close>

definition fdb_row :: "string \<Rightarrow> mac_table_entry \<Rightarrow> bool" where
  "fdb_row output e \<longleftrightarrow> (\<exists>l\<in>set (scanner_lines output). go_fields l \<noteq> [] \<and> to_lower (hd (go_fields l)) = macMAC e \<and>
     set (tl (go_fields l)) \<inter> {''local'', ''permanent'', ''self''} = {})"

lemma MACEntriesByDevice_rows:
  assumes "(m, macs) \<in> set (MACEntriesByDevice (ParseFDB output))" "e \<in> set macs"
  shows "unicastMAC (macMAC e) \<and> fdb_row output e"
proof -
  obtain r where r: "r \<in> set (ParseFDB output)" "learnedFDBEntry r" "clientEntry (fdbMAC r) 4 (fdbVLAN r) = e" "unicastMAC (macMAC e)"
    using fdb.group_clients [of m macs "ParseFDB output" e] assms by (auto simp: MACEntriesByDevice_def)
  obtain l where l: "l \<in> set (scanner_lines output)" "parseFDBRow (go_fields l) = Some r"
    using map_filter_set r(1) unfolding ParseFDB_def by fastforce
  have "go_fields l \<noteq> [] \<and> to_lower (hd (go_fields l)) = fdbMAC r \<and>
      set (tl (go_fields l)) \<inter> {''local'', ''permanent'', ''self''} = {}"
    using l(2) r(2) by (auto simp: parseFDBRow_def Let_def learnedFDBEntry_def split: if_splits)
  moreover have "macMAC e = fdbMAC r" using r(3) by (auto simp: clientEntry_def)
  ultimately show ?thesis using l(1) r(4) unfolding fdb_row_def by metis
qed

text \<open>ARP rows add addresses and nothing else.\<close>

lemma enrichEntry_frame: "(enrichEntry arps m e)\<lparr>macIP := x\<rparr> = e\<lparr>macIP := x\<rparr>"
  by (simp add: enrichEntry_def split: option.splits)

lemma enrichEntry_MAC [simp]: "macMAC (enrichEntry arps m e) = macMAC e"
  by (simp add: enrichEntry_def split: option.splits)

lemma arpEntryForMAC_sound:
  "arpEntryForMAC m mac arps = Some a \<Longrightarrow>
     a \<in> set arps \<and> normalizedMACKey (arpMAC a) = normalizedMACKey mac \<and> normalizedMACKey mac \<noteq> [] \<and> trim_space (arpIP a) \<noteq> []"
proof -
  assume a: "arpEntryForMAC m mac arps = Some a"
  have "find P xs = Some x \<Longrightarrow> x \<in> set xs" for P and x :: arp_entry and xs
    by (auto simp: find_Some_iff)
  then have "a \<in> set (arpByMAC arps (normalizedMACKey mac))"
    using a by (fastforce simp: arpEntryForMAC_def simp del: find.simps split: list.splits option.splits)
  then show ?thesis by (auto simp: arpByMAC_def)
qed

lemma enrich_member:
  assumes "(m, macs) \<in> set (EnrichMACsFromARP memberMACs arps)" "e \<in> set macs"
  shows "\<exists>us e0. (m, us) \<in> set memberMACs \<and> e0 \<in> set us \<and> macMAC e = macMAC e0"
proof (cases "memberMACs = [] \<or> arps = []")
  case True
  then show ?thesis using assms unfolding EnrichMACsFromARP_def by auto
next
  case False
  then obtain us where us: "(m, us) \<in> set memberMACs" "macs = map (enrichEntry arps m) us"
    using assms(1) by (auto simp: EnrichMACsFromARP_def)
  then obtain e0 where "e0 \<in> set us" "e = enrichEntry arps m e0" using assms(2) by auto
  with us(1) show ?thesis by auto
qed

section \<open>From a row of text to a port\<close>

lemma snDeviceMACs_hostSnapshot [simp]: "snDeviceMACs (hostSnapshot br cfg i) = brMemberMACs br"
  by (simp add: hostSnapshot_def Let_def)

lemma snMACs_empty: "brMemberMACs br = [] \<Longrightarrow> snMACs (hostSnapshot br cfg i) = []"
  by (simp add: hostSnapshot_def Let_def flattenDeviceMACsByRole_def sortedDeviceNames_def)

lemma brMemberMACs_helpers [simp]:
  "brMemberMACs (withMembers env cfg macs ob) = macs" "brMemberMACs (withUplink env ob) = brMemberMACs ob"
  "brMemberMACs (bridgeStart cfg) = []" "brBridge (bridgeStart cfg) = trim_space (bcBridge cfg)" "brBridge (withUplink env ob) = brBridge ob"
  by (simp_all add: withMembers_def withUplink_def bridgeStart_def Let_def)

text \<open>Every client of the Linux bridge observation is a row of the table that was printed.\<close>

lemma linuxBridge_rows:
  assumes "(m, macs) \<in> set (brMemberMACs (linuxBridge env cfg))" "e \<in> set macs"
  shows "\<exists>output. peFDB env (trim_space (bcBridge cfg)) = Some output \<and> unicastMAC (macMAC e) \<and> fdb_row output e"
proof -
  obtain entries where en: "linuxBridgeFDB env (trim_space (bcBridge cfg)) = Some entries"
    and m: "(m, macs) \<in> set (enrichMACsFromLocalARP env (MACEntriesByDevice entries))"
    using assms by (auto simp: linuxBridge_def Let_def split: if_splits option.splits)
  obtain tbl where o: "peFDB env (trim_space (bcBridge cfg)) = Some tbl" "entries = ParseFDB tbl"
    using en by (auto simp: linuxBridgeFDB_def split: if_splits)
  obtain us e0 where "(m, us) \<in> set (MACEntriesByDevice entries)" "e0 \<in> set us" "macMAC e = macMAC e0"
    using m assms(2) enrich_member unfolding enrichMACsFromLocalARP_def by (fastforce split: option.splits)
  then show ?thesis using MACEntriesByDevice_rows [of m us "the (peFDB env (trim_space (bcBridge cfg)))" e0] o by (auto simp: fdb_row_def)
qed

lemma Apply_clients:
  assumes "ports_shape n u ports" "Apply ports sn = Some out" "list_all (\<lambda>p. pMACs p = []) ports"
    and "snDeviceMACs sn = [] \<Longrightarrow> snMACs sn = []" and "p \<in> set out" and "e \<in> set (pMACs p)"
  shows "\<exists>(m, macs)\<in>set (snDeviceMACs sn). e \<in> set macs"
proof -
  obtain i where i: "1 \<le> i" "i \<le> int (length ports)"
    and o: "Apply ports sn = Some (let out = updatePort i (applyUplinkState sn) ports in
       if snDeviceMACs sn \<noteq> [] then applyDeviceMACs out sn i
       else if snMACs sn \<noteq> [] then updatePort i (\<lambda>p. p\<lparr>pMACs := snMACs sn\<rparr>) out else out)"
    by (rule Apply_cases [OF assms(1)])
  show ?thesis
  proof (cases "snDeviceMACs sn = []")
    case True
    have "pMACs (applyUplinkState sn q) = pMACs q" for q
      by (simp add: applyUplinkState_def Let_def applyInterfaceStatsToPort_def setPortCounters_def)
    then have "\<forall>q\<in>set (updatePort i (applyUplinkState sn) ports). pMACs q = []"
      using assms(3) i set_update_subset_insert [of ports "nat (i - 1)" "applyUplinkState sn (ports ! nat (i - 1))"]
      by (fastforce simp: updatePort_def list_all_iff)
    then show ?thesis using o assms(2,4-6) True by (auto simp: Let_def)
  next
    case False
    then have "out = applyDeviceMACs (updatePort i (applyUplinkState sn) ports) sn i" using o assms(2) by (simp add: Let_def)
    then have "client_ok sn e"
      using clients_ok_applyDeviceMACs [of sn "updatePort i (applyUplinkState sn) ports" i] assms(5,6) by (simp add: clients_ok_def)
    then show ?thesis by (auto simp: client_ok_def)
  qed
qed

section \<open>Properties\<close>

text \<open>C12: no client is invented. On Linux, every client address that a bridge observation puts on a rendered
  port is the unicast address of a row that the bridge command printed for the configured bridge, and
  that row is not marked local, permanent or self.\<close>

theorem rendered_clients_learned:
  assumes "peGoos env = ''linux''" and "ports_shape n u ports" and "list_all (\<lambda>p. pMACs p = []) ports"
    and "Apply ports (HostSnapshotFromSource env cfg i) = Some out"
  shows "list_all (\<lambda>p. list_all (\<lambda>e. \<exists>output. peFDB env (trim_space (ocBridge cfg)) = Some output \<and>
     unicastMAC (macMAC e) \<and> fdb_row output e) (pMACs p)) out"
proof -
  define bc where "bc = \<lparr>bcBridge = trim_space (ocBridge cfg), bcUplinkInterface = trim_space (ocInterface cfg),
     bcIgnoredMembers = ocIgnoredMembers cfg, bcMemberPortMap = normalizeMemberPortMap (ocMemberPortMap cfg)\<rparr>"
  have sn: "HostSnapshotFromSource env cfg i = hostSnapshot (linuxBridge env bc) cfg i"
    using assms(1) by (simp add: HostSnapshotFromSource_def platformBridge_def bc_def)
  have b: "trim_space (bcBridge bc) = trim_space (ocBridge cfg)" by (simp add: bc_def)
  show ?thesis
    unfolding list_all_iff
  proof (intro ballI)
    fix p e assume "p \<in> set out" "e \<in> set (pMACs p)"
    then obtain m macs where "(m, macs) \<in> set (brMemberMACs (linuxBridge env bc))" "e \<in> set macs"
      using Apply_clients [OF assms(2,4,3)] snMACs_empty [of "linuxBridge env bc"] unfolding sn by fastforce
    then show "\<exists>output. peFDB env (trim_space (ocBridge cfg)) = Some output \<and> unicastMAC (macMAC e) \<and> fdb_row output e"
      using linuxBridge_rows b by metis
  qed
qed

definition labEnv :: platform_env where
  "labEnv = \<lparr>peHost = offlineHost, peGoos = ''linux'', peProc = None,
     peFDB = (\<lambda>_. Some ''02:00:00:00:00:11 dev tap1 master vmbr0''), peBridgeAddr = (\<lambda>_. None), peARP = None\<rparr>"

definition labConfig :: observe_config where
  "labConfig = \<lparr>ocInterface = ''eno1'', ocBridge = ''vmbr0'', ocIgnoredMembers = [], ocMemberPortMap = []\<rparr>"

theorem rendered_clients_learned_witness:
  "list_all (\<lambda>p. list_all (\<lambda>e. unicastMAC (macMAC e)) (pMACs p)) (the (Apply twoPorts (HostSnapshotFromSource labEnv labConfig 1)))"
proof -
  have "list_all (\<lambda>p. pMACs p = []) twoPorts" by (simp add: twoPorts_def emptyPort_def)
  moreover obtain out where "Apply twoPorts (HostSnapshotFromSource labEnv labConfig 1) = Some out"
    using Apply_cases [OF twoPorts_shape, of "HostSnapshotFromSource labEnv labConfig 1"] by metis
  ultimately show ?thesis
    using rendered_clients_learned [OF _ twoPorts_shape, of labEnv labConfig 1 out] by (auto simp: labEnv_def list_all_iff)
qed

text \<open>ARP rows only fill gaps. Enriching the clients of a bridge keeps members, order and every field but the
  address; an address that is already known stays; and a new one is that of an ARP row with the same
  hardware address.\<close>

theorem EnrichMACsFromARP_fills_gaps:
  "EnrichMACsFromARP memberMACs arps = map (\<lambda>(m, macs). (m, map (enrichEntry arps m) macs)) memberMACs \<and>
   (enrichEntry arps m e)\<lparr>macIP := x\<rparr> = e\<lparr>macIP := x\<rparr> \<and>
   (enrichEntry arps m e = e \<or>
    trim_space (macIP e) = [] \<and>
    (\<exists>a. a \<in> set arps \<and> normalizedMACKey (arpMAC a) = normalizedMACKey (macMAC e) \<and> macIP (enrichEntry arps m e) = arpIP a))"
proof (intro conjI)
  have n: "enrichEntry [] m e = e" for m e by (simp add: enrichEntry_def arpEntryForMAC_def arpByMAC_def)
  have "map (\<lambda>(m, macs). (m, map (enrichEntry [] m) macs)) memberMACs = memberMACs"
    by (rule map_idI) (auto intro!: map_idI simp: n)
  then show "EnrichMACsFromARP memberMACs arps = map (\<lambda>(m, macs). (m, map (enrichEntry arps m) macs)) memberMACs"
    by (auto simp: EnrichMACsFromARP_def)
  show "enrichEntry arps m e = e \<or> trim_space (macIP e) = [] \<and>
    (\<exists>a. a \<in> set arps \<and> normalizedMACKey (arpMAC a) = normalizedMACKey (macMAC e) \<and> macIP (enrichEntry arps m e) = arpIP a)"
    using arpEntryForMAC_sound [of m "macMAC e" arps] by (auto simp: enrichEntry_def split: option.splits)
qed (rule enrichEntry_frame)

end
