(* ===== verification/Runtime_Ports.thy ===== *)
theory Runtime_Ports
  imports Bridge_Source Topology
begin

text \<open>
  The port list of a heartbeat, \<open>portsForRuntime\<close> of \<open>cmd/unifi-stubd/operation_ports.go\<close>, with the stages
  it runs: \<open>platform.go\<close> (interface-backed overrides), \<open>internal/observe/portmap\<close>, \<open>operation_bridge.go\<close>,
  \<open>wan_health.go\<close>, \<open>operation_lldp.go\<close>. The traffic rates added afterwards are in
  \<open>Traffic_Rates\<close>, the uplink speed of \<open>device_ports.go\<close> in \<open>Runtime_Payload\<close>.

  The host is the platform of \<open>Bridge_Source\<close>; the passive LLDP neighbours, the results of the WAN probes
  and the egress link are arguments. A stage that would index out of range returns \<open>None\<close>. What the
  daemon only logs is returned beside the ports.
\<close>

section \<open>Configuration (config/model.go, flags.go)\<close>

record bridge_member_port_map =
  bmMember :: string
  bmPort :: int

record bridge_observe =
  boBridge :: string
  boUplinkInterface :: string
  boIgnoredMembers :: "string list"
  boMemberPortMap :: "bridge_member_port_map list"

record port_mapping =
  pmPort :: int
  pmInterface :: string
  pmDisabled :: bool
  pmUnmapped :: bool

record wan_health_target =
  wtPort :: int
  wtHost :: string

record wan_health_config =
  wcSource :: string
  wcIntervalSeconds :: int
  wcTimeoutMS :: int
  wcTargets :: "wan_health_target list"

text \<open>The flags the port stages read.\<close>

record runtime_flags =
  flOperationMode :: string
  flPortCount :: int
  flLinkSpeed :: int
  flUplinkSpeed :: string
  flUplinkPort :: int
  flUplinkNeighbor :: "topology_neighbor option"
  flPortNeighbors :: "port_neighbor list"
  flPortOverrides :: "port_override list"
  flWanHealth :: wan_health_config
  flBridgeObserve :: bridge_observe
  flPortMappings :: "port_mapping list"
  flObserveInterface :: string
  flObserveBridge :: string
  flLldpSource :: string

record lldp_neighbor =
  llInterface :: string
  llChassisID :: string
  llChassisMAC :: string
  llSystemName :: string
  llPortID :: string
  llPortDescription :: string
  llCapabilities :: "string list"
  llManagementIP :: string

record runtime_env =
  rePlatform :: platform_env
  reLLDP :: "string \<Rightarrow> lldp_neighbor list"
  reMeasure :: "wan_health_target list \<Rightarrow> wan_health_result list"

definition operationModeStub :: string where "operationModeStub = ''stub''"
definition operationModeObserve :: string where "operationModeObserve = ''observe''"
definition operationModeBridgeObserve :: string where "operationModeBridgeObserve = ''bridge-observe''"
definition operationModePortMap :: string where "operationModePortMap = ''port-map''"
definition operationModeHostDirect :: string where "operationModeHostDirect = ''host-direct''"

definition normalizeMode :: "string \<Rightarrow> string" where
  "normalizeMode v0 =
     (let v = to_lower (trim_space v0) in
      if v = [] then operationModeStub
      else if v = operationModeObserve then operationModeBridgeObserve
      else v)"

section \<open>Bridge observation (operation_bridge.go)\<close>

definition effectiveBridgeObserve :: "runtime_flags \<Rightarrow> bridge_observe" where
  "effectiveBridgeObserve flags =
     (let cfg = flBridgeObserve flags;
          cfg = (if trim_space (boBridge cfg) = [] then cfg\<lparr>boBridge := trim_space (flObserveBridge flags)\<rparr> else cfg)
      in if trim_space (boUplinkInterface cfg) = []
         then cfg\<lparr>boUplinkInterface := trim_space (flObserveInterface flags)\<rparr> else cfg)"

definition bridgeMemberPortMap :: "bridge_member_port_map list \<Rightarrow> (string \<times> int) list" where
  "bridgeMemberPortMap mappings = normalizeKeys (map (\<lambda>m. (bmMember m, bmPort m)) mappings)"

section \<open>Explicit port map (portmap/mapping.go, platform/interface.go)\<close>

definition platformPorts :: "platform_env \<Rightarrow> port_mapping list \<Rightarrow> int \<Rightarrow> port_observation option" where
  "platformPorts env mappings =
     fold (\<lambda>m out.
       if trim_space (pmInterface m) \<noteq> [] then out(pmPort m \<mapsto> (fst (hostInterface env (pmInterface m)))\<lparr>obPort := pmPort m\<rparr>)
       else if pmDisabled m then out(pmPort m \<mapsto> emptyObservation\<lparr>obPort := pmPort m, obUp := Some False, obDisabled := True\<rparr>)
       else if pmUnmapped m then out(pmPort m \<mapsto> emptyObservation\<lparr>obPort := pmPort m, obUnmapped := True\<rparr>)
       else out) mappings Map.empty"

definition observePortMappings :: "port_mapping list \<Rightarrow> port_mapping list" where
  "observePortMappings mappings = map (\<lambda>m. m\<lparr>pmInterface := trim_space (pmInterface m)\<rparr>) mappings"

definition OverrideFromObservation :: "int \<Rightarrow> port_observation \<Rightarrow> port_override" where
  "OverrideFromObservation port ob =
     ApplyObservation ob (emptyOverride\<lparr>oPort := (if obPort ob > 0 then obPort ob else port),
       oInterface := trim_space (obInterface ob)\<rparr>)"

definition disabledOverride :: "int \<Rightarrow> port_override" where
  "disabledOverride port = emptyOverride\<lparr>oPort := port, oUp := Some False, oDisabled := True\<rparr>"

definition OverridesFromObservation :: "port_mapping list \<Rightarrow> (int \<Rightarrow> port_observation option) \<Rightarrow> port_override list" where
  "OverridesFromObservation mappings observed =
     List.map_filter (\<lambda>m.
       if trim_space (pmInterface m) \<noteq> [] then
         Some (OverrideFromObservation (pmPort m) (case observed (pmPort m) of Some ob \<Rightarrow> ob | None \<Rightarrow> emptyObservation))
       else if pmDisabled m then Some (disabledOverride (pmPort m))
       else None) mappings"

definition OverridesFromSource :: "platform_env \<Rightarrow> port_mapping list \<Rightarrow> port_override list" where
  "OverridesFromSource env mappings =
     (if mappings = [] then []
      else OverridesFromObservation mappings (platformPorts env (observePortMappings mappings)))"

definition enrichOverrides :: "platform_env \<Rightarrow> port_override list \<Rightarrow> port_override list" where
  "enrichOverrides env overrides = fst (RefreshOverrides (hostInterface env) overrides)"

section \<open>WAN health (wan_health.go)\<close>

definition NormalizeSource :: "string \<Rightarrow> string" where
  "NormalizeSource v = (if to_lower (trim_space v) = [] then ''off'' else to_lower (trim_space v))"

definition isWANRole :: "string \<Rightarrow> bool" where
  "isWANRole role \<longleftrightarrow> to_lower (trim_space role) \<in> {''wan'', ''wan2''}"

definition isGatewayProfile :: "profile \<Rightarrow> bool" where
  "isGatewayProfile prof \<longleftrightarrow> equal_fold (trim_space (payloadKind (profPayload prof))) ''gateway''"

text \<open>A map from port to whether its last explicit role is a WAN role.\<close>

definition explicitWANPorts :: "port_override list \<Rightarrow> int \<Rightarrow> bool option" where
  "explicitWANPorts overrides =
     fold (\<lambda>ov out. if oPort ov < 1 \<or> trim_space (oRole ov) = [] then out else out(oPort ov \<mapsto> isWANRole (oRole ov)))
       overrides Map.empty"

definition probeTargets :: "wan_health_config \<Rightarrow> port list \<Rightarrow> (int \<Rightarrow> bool option) \<Rightarrow> wan_health_target list" where
  "probeTargets cfg ports explicit =
     map (\<lambda>t. t\<lparr>wtHost := trim_space (wtHost t)\<rparr>)
       (filter (\<lambda>t. \<not> (wtPort t < 1 \<or> wtPort t > int (length ports)) \<and>
          explicit (wtPort t) = Some True \<and> isWANRole (pRole (ports ! nat (wtPort t - 1)))) (wcTargets cfg))"

definition applyWANHealth :: "runtime_env \<Rightarrow> runtime_flags \<Rightarrow> profile \<Rightarrow> port list \<Rightarrow> port list" where
  "applyWANHealth env flags prof ports =
     (if NormalizeSource (wcSource (flWanHealth flags)) \<noteq> ''ping'' \<or> \<not> isGatewayProfile prof then ports
      else let targets = probeTargets (flWanHealth flags) ports (explicitWANPorts (flPortOverrides flags)) in
        if targets = [] then ports
        else ApplyPortOverrides ports (WANHealthOverrides (reMeasure env targets)))"

section \<open>LLDP (operation_lldp.go)\<close>

definition ipv4Text :: "string \<Rightarrow> string" where
  "ipv4Text v =
     (case ParseIP (trim_space v) of
        None \<Rightarrow> []
      | Some ip \<Rightarrow> (case To4 ip of None \<Rightarrow> [] | Some ip4 \<Rightarrow> ipv4_string ip4))"

text \<open>\<open>None\<close> stands for the empty neighbour, which has no address and is skipped.\<close>

definition lldpTopologyNeighbor :: "lldp_neighbor \<Rightarrow> topology_neighbor option" where
  "lldpTopologyNeighbor n =
     (let mac = (if trim_space (llChassisMAC n) = [] then trim_space (llChassisID n) else trim_space (llChassisMAC n));
          remote = (if trim_space (llPortID n) = [] then trim_space (llPortDescription n) else trim_space (llPortID n))
      in case ParseMAC mac of
           None \<Rightarrow> None
         | Some parsed \<Rightarrow>
             Some \<lparr>nbMAC = mac_string parsed, nbHostname = trim_space (llSystemName n), nbIP = ipv4Text (llManagementIP n),
                   nbDeviceType = ''lldp'', nbVLAN = 0, nbAge = 4, nbUptime = 1200, nbRemotePort = ParseRemotePortID remote,
                   nbRemotePortID = remote, nbSource = NeighborSourceLLDP, nbStatic = False\<rparr>)"

definition uplinkPortIndex :: "port list \<Rightarrow> int" where
  "uplinkPortIndex ports = (case find pUplink ports of Some p \<Rightarrow> pIndex p | None \<Rightarrow> 1)"

definition bindInterface :: "string \<Rightarrow> int \<Rightarrow> (string \<Rightarrow> int option) \<Rightarrow> string \<Rightarrow> int option" where
  "bindInterface iface port out = (if to_lower (trim_space iface) = [] then out else out(to_lower (trim_space iface) \<mapsto> port))"

definition lldpInterfacePortMap :: "runtime_flags \<Rightarrow> port list \<Rightarrow> string \<Rightarrow> int option" where
  "lldpInterfacePortMap flags ports =
     (let bo = effectiveBridgeObserve flags;
          m0 = bindInterface (boUplinkInterface bo) (uplinkPortIndex ports) Map.empty;
          m1 = fold (\<lambda>m. bindInterface (bmMember m) (bmPort m)) (boMemberPortMap bo) m0;
          m2 = fold (\<lambda>m. bindInterface (pmInterface m) (pmPort m)) (flPortMappings flags) m1
      in fold (\<lambda>ov. bindInterface (oInterface ov) (oPort ov)) (flPortOverrides flags) m2)"

definition addLLDP :: "(string \<Rightarrow> int option) \<Rightarrow> lldp_neighbor \<Rightarrow> port list \<Rightarrow> port list" where
  "addLLDP portByInterface n ports =
     (let i = (case portByInterface (to_lower (trim_space (llInterface n))) of Some i \<Rightarrow> i | None \<Rightarrow> 0) in
      if i < 1 \<or> i > int (length ports) then ports
      else case lldpTopologyNeighbor n of
             None \<Rightarrow> ports
           | Some entry \<Rightarrow>
               if trim_space (nbMAC entry) = [] then ports
               else ports[nat (i - 1) := (ports ! nat (i - 1))\<lparr>pNeighbors := pNeighbors (ports ! nat (i - 1)) @ [entry]\<rparr>])"

definition applyLLDPNeighbors :: "runtime_env \<Rightarrow> runtime_flags \<Rightarrow> port list \<Rightarrow> port list" where
  "applyLLDPNeighbors env flags ports =
     (if trim_space (flLldpSource flags) = [] \<or> equal_fold (trim_space (flLldpSource flags)) ''off'' then ports
      else let neighbors = reLLDP env (flLldpSource flags) in
        if neighbors = [] then ports
        else fold (addLLDP (lldpInterfacePortMap flags ports)) neighbors ports)"

section \<open>The runtime ports (operation_ports.go)\<close>

definition markObservedUplinkSource :: "port list \<Rightarrow> string \<Rightarrow> port list" where
  "markObservedUplinkSource ports iface0 =
     (let iface = trim_space iface0; index = uplinkPortIndex ports in
      if iface = [] \<or> ports = [] then ports
      else if index < 1 \<or> index > int (length ports) \<or> trim_space (pInterface (ports ! nat (index - 1))) \<noteq> [] then ports
      else ports[nat (index - 1) := (ports ! nat (index - 1))\<lparr>pInterface := iface\<rparr>])"

text \<open>What is logged: an unresolvable topology, or its warnings, active mapped ports without an address, and a
  gateway uplink without a WAN role.\<close>

datatype topology_log = TopologyFailed topology_error | TopologyWarning string | NoPortMAC int | GatewayUplinkRole int

definition gatewayUplinkLog :: "port list \<Rightarrow> topology_log list" where
  "gatewayUplinkLog ports =
     (case find pUplink ports of
        None \<Rightarrow> []
      | Some p \<Rightarrow> if to_lower (trim_space (pRole p)) \<notin> {''wan'', ''wan2''} then [GatewayUplinkRole (pIndex p)] else [])"

definition finalizeRuntimeTopology :: "profile \<Rightarrow> port list \<Rightarrow> port list \<times> topology_log list" where
  "finalizeRuntimeTopology prof ports =
     (case ResolveTopology ports of
        Inl e \<Rightarrow> (ports, [TopologyFailed e])
      | Inr r \<Rightarrow>
          (ports, map TopologyWarning (resWarnings r) @
             map (\<lambda>p. NoPortMAC (pIndex p))
               (filter (\<lambda>p. pUp p \<and> trim_space (pInterface p) \<noteq> [] \<and> trim_space (pMAC p) = []) ports) @
             (if isGatewayProfile prof then gatewayUplinkLog ports else [])))"

text \<open>The stages every mode ends with, from the operator's overrides on.\<close>

definition operatorStages :: "runtime_env \<Rightarrow> runtime_flags \<Rightarrow> profile \<Rightarrow> port list \<Rightarrow> port list" where
  "operatorStages env flags prof ports =
     (let ports = ApplyPortOverrides ports (flPortOverrides flags);
          ports = applyWANHealth env flags prof ports;
          ports = applyLLDPNeighbors env flags ports;
          ports = ApplyPortNeighbors ports (flPortNeighbors flags)
      in ApplyUplinkNeighbor ports (flUplinkNeighbor flags))"

text \<open>The observation stage: a port map, nothing, or a bridge, by mode.\<close>

definition observationStage :: "runtime_env \<Rightarrow> runtime_flags \<Rightarrow> port list \<Rightarrow> port list option" where
  "observationStage env flags ports =
     (let mode = normalizeMode (flOperationMode flags) in
      if mode = operationModePortMap then
        Some (ApplyPortOverrides ports (OverridesFromSource (rePlatform env) (flPortMappings flags)))
      else if mode \<noteq> operationModeBridgeObserve \<and> mode \<noteq> operationModeHostDirect then Some ports
      else let bo = effectiveBridgeObserve flags;
               sn = HostSnapshotFromSource (rePlatform env)
                      \<lparr>ocInterface = trim_space (boUplinkInterface bo), ocBridge = trim_space (boBridge bo),
                       ocIgnoredMembers = boIgnoredMembers bo, ocMemberPortMap = bridgeMemberPortMap (boMemberPortMap bo)\<rparr>
                      (uplinkPortIndex ports)
           in map_option (\<lambda>ports. markObservedUplinkSource ports (boUplinkInterface bo)) (Apply ports sn))"

definition portsForRuntime ::
  "runtime_env \<Rightarrow> runtime_flags \<Rightarrow> profile \<Rightarrow> port_build_options \<Rightarrow> (port list \<times> topology_log list) option" where
  "portsForRuntime env flags0 prof buildOptions =
     (let flags = flags0\<lparr>flPortOverrides := enrichOverrides (rePlatform env) (flPortOverrides flags0)\<rparr>
      in map_option (\<lambda>ports. finalizeRuntimeTopology prof (operatorStages env flags prof ports))
           (observationStage env flags (BuildPorts prof buildOptions)))"

section \<open>Stages keep the shape of the port list\<close>

text \<open>
  The contract of a stage: on a numbered port list it returns one, of the same length, in which every
  port keeps its index, its uplink mark and what the profile says of it.
\<close>

definition stage_id :: "port \<Rightarrow> int \<times> bool \<times> bool \<times> string" where
  "stage_id p = (pIndex p, pUplink p, pProfileUplink p, pProfileRole p)"

lemma ports_shape_cong:
  assumes "map stage_id out = map stage_id ports" "ports_shape n u ports"
  shows "ports_shape n u out"
proof -
  have "map (fst \<circ> stage_id) out = map (fst \<circ> stage_id) ports" using assms(1) by (metis map_map)
  then have i: "map pIndex out = map pIndex ports" by (simp add: stage_id_def comp_def)
  have "stage_id p \<in> stage_id ` set ports" if "p \<in> set out" for p
    using that assms(1) by (metis image_eqI image_set)
  then show ?thesis using assms(2) i unfolding ports_shape_def stage_id_def by fastforce
qed

locale port_stage =
  fixes stage :: "port list \<Rightarrow> port list option"
  assumes stage_keeps: "ports_shape n u ports \<Longrightarrow> \<exists>out. stage ports = Some out \<and> map stage_id out = map stage_id ports"
begin

lemma stage_shape:
  assumes "ports_shape n u ports"
  obtains out where "stage ports = Some out" "ports_shape n u out" "map stage_id out = map stage_id ports"
  using stage_keeps [OF assms] ports_shape_cong assms by metis

end

lemma port_stage_bind:
  assumes "port_stage f" "port_stage g"
  shows "port_stage (\<lambda>ports. Option.bind (f ports) g)"
proof
  fix n u ports assume "ports_shape n u ports"
  then obtain mid where m: "f ports = Some mid" "ports_shape n u mid" "map stage_id mid = map stage_id ports"
    by (rule port_stage.stage_shape [OF assms(1)])
  obtain out where "g mid = Some out" "map stage_id out = map stage_id mid"
    by (rule port_stage.stage_shape [OF assms(2) m(2)])
  then show "\<exists>out. Option.bind (f ports) g = Some out \<and> map stage_id out = map stage_id ports"
    using m by simp
qed

lemma port_stage_total: "(\<And>ports. map stage_id (f ports) = map stage_id ports) \<Longrightarrow> port_stage (\<lambda>ports. Some (f ports))"
  by unfold_locales simp

lemma stage_id_overrides: "map stage_id (ApplyPortOverrides ports ovs) = map stage_id ports"
proof (cases "ports = []")
  case False
  then have len: "length (ApplyPortOverrides ports ovs) = length ports" using ApplyPortOverrides_nth(2) [of 0] by simp
  have id: "stage_id (fold applySetters xs q) = stage_id q" for xs q
  proof (rule fold_view)
    show "stage_id (applySetters x p) = stage_id p" for x p
      using applySetters_identity [of x p] by (simp add: port_identity_def stage_id_def)
  qed
  show ?thesis by (rule nth_equalityI) (simp_all add: len ApplyPortOverrides_nth(1) id)
qed (simp add: ApplyPortOverrides_def)

lemma stage_id_frame: "map port_frame out = map port_frame ports \<Longrightarrow> map stage_id out = map stage_id ports"
proof -
  assume "map port_frame out = map port_frame ports"
  then have "map (stage_id \<circ> port_frame) out = map (stage_id \<circ> port_frame) ports" by (metis map_map)
  then show ?thesis by (simp add: comp_def stage_id_def [abs_def] port_frame_def)
qed

lemma addLLDP_frame: "map port_frame (addLLDP m n ports) = map port_frame ports"
  by (auto simp: addLLDP_def Let_def port_frame_def intro!: map_update_same split: option.splits)

lemma applyLLDPNeighbors_frame: "map port_frame (applyLLDPNeighbors env flags ports) = map port_frame ports"
proof -
  have "map port_frame (fold (addLLDP m) ns ps) = map port_frame ps" for m ns ps
    by (induction ns arbitrary: ps) (simp_all add: addLLDP_frame)
  then show ?thesis by (simp add: applyLLDPNeighbors_def Let_def)
qed

lemma stage_id_WANHealth: "map stage_id (applyWANHealth env flags prof ports) = map stage_id ports"
  by (simp add: applyWANHealth_def Let_def stage_id_overrides)

lemma stage_id_markUplink: "map stage_id (markObservedUplinkSource ports iface) = map stage_id ports"
  by (auto simp: markObservedUplinkSource_def Let_def stage_id_def intro!: map_update_same)

lemmas stage_id_stages = stage_id_overrides stage_id_WANHealth stage_id_frame [OF applyLLDPNeighbors_frame]
  stage_id_frame [OF ApplyPortNeighbors_frame] stage_id_frame [OF ApplyUplinkNeighbor_frame]

interpretation operator: port_stage "\<lambda>ports. Some (operatorStages env flags prof ports)" for env flags prof
  by (rule port_stage_total) (simp add: operatorStages_def Let_def stage_id_stages)

lemma Apply_observed_frame:
  assumes "ports_shape n u ports"
  shows "\<exists>out. Apply ports sn = Some out \<and> map observed_frame out = map observed_frame ports"
proof -
  obtain i where "Apply ports sn = Some (let out = updatePort i (applyUplinkState sn) ports in
       if snDeviceMACs sn \<noteq> [] then applyDeviceMACs out sn i
       else if snMACs sn \<noteq> [] then updatePort i (\<lambda>p. p\<lparr>pMACs := snMACs sn\<rparr>) out else out)"
    by (rule Apply_cases [OF assms])
  then show ?thesis by (simp add: Let_def frame_applyDeviceMACs frame_updatePort)
qed

lemma stage_id_observed:
  assumes "map observed_frame out = map observed_frame ports"
  shows "map stage_id out = map stage_id ports"
proof -
  let ?sel = "\<lambda>(a, b, c, d, r). (a, b, c, d)"
  have "stage_id p = ?sel (observed_frame p)" for p by (simp add: stage_id_def observed_frame_def)
  then have e: "map stage_id ps = map ?sel (map observed_frame ps)" for ps by simp
  show ?thesis unfolding e by (simp only: assms)
qed

lemma observed_keeps:
  "ports_shape n u ports \<Longrightarrow> \<exists>out. Apply ports sn = Some out \<and> map stage_id out = map stage_id ports"
  using Apply_observed_frame stage_id_observed by blast

interpretation observed: port_stage "\<lambda>ports. Apply ports (sn ports)" for sn
  by (rule port_stage.intro) (rule observed_keeps)

lemma map_option_as_bind: "map_option f x = Option.bind x (\<lambda>y. Some (f y))"
  by (cases x) simp_all

interpretation observation: port_stage "observationStage env flags" for env flags
proof -
  define bo sn where "bo = effectiveBridgeObserve flags"
    and "sn ports = HostSnapshotFromSource (rePlatform env)
      \<lparr>ocInterface = trim_space (boUplinkInterface bo), ocBridge = trim_space (boBridge bo), ocIgnoredMembers = boIgnoredMembers bo,
       ocMemberPortMap = bridgeMemberPortMap (boMemberPortMap bo)\<rparr> (uplinkPortIndex ports)" for ports
  have marked: "port_stage (\<lambda>ports. Option.bind (Apply ports (sn ports)) (\<lambda>out. Some (markObservedUplinkSource out (boUplinkInterface bo))))"
    by (rule port_stage_bind [OF observed.port_stage_axioms port_stage_total]) (rule stage_id_markUplink)
  have plain: "port_stage Some" using port_stage_total [of "\<lambda>p. p"] by simp
  have mapped: "port_stage (\<lambda>ports. Some (ApplyPortOverrides ports ovs))" for ovs
    by (rule port_stage_total) (rule stage_id_overrides)
  let ?mode = "normalizeMode (flOperationMode flags)"
  consider (map) "?mode = operationModePortMap"
    | (stub) "?mode \<noteq> operationModePortMap" "?mode \<noteq> operationModeBridgeObserve \<and> ?mode \<noteq> operationModeHostDirect"
    | (bridge) "?mode \<noteq> operationModePortMap" "\<not> (?mode \<noteq> operationModeBridgeObserve \<and> ?mode \<noteq> operationModeHostDirect)" by blast
  then show "port_stage (observationStage env flags)"
  proof cases
    case map
    then show ?thesis using mapped unfolding observationStage_def Let_def by simp
  next
    case stub
    then show ?thesis using plain unfolding observationStage_def Let_def by simp
  next
    case bridge
    have "observationStage env flags = (\<lambda>ports. Option.bind (Apply ports (sn ports))
        (\<lambda>out. Some (markObservedUplinkSource out (boUplinkInterface bo))))"
      using bridge unfolding observationStage_def Let_def sn_def bo_def map_option_as_bind by (simp only: if_False)
    then show ?thesis using marked by simp
  qed
qed

section \<open>Link state after the operator's overrides\<close>

definition link_view :: "port \<Rightarrow> bool \<times> bool \<times> int" where
  "link_view p = (pDisabled p, pUp p, pSpeed p)"

lemma link_view_health: "link_view (applySetters (healthOverride r) p) = link_view p"
proof -
  have strings: "link_view (setPort f v q) = link_view q" for f v q
    by (cases "fldKey f") (simp_all add: setPort_def link_view_def)
  have "link_view (fold (\<lambda>f q. if c f then q else setPort f (t f) q) fs q) = link_view q"
    and "link_view (fold (\<lambda>f q. if c f then setPort f (t f) q else q) fs q) = link_view q" for c t fs q
    by (rule fold_view, simp add: strings)+
  then have "link_view (setPortOverrideStrings (healthOverride r) q) = link_view q"
    and "link_view (setPortOverrideMedia (healthOverride r) q) = link_view q" for q
    by (simp_all only: setPortOverrideStrings_def setPortOverrideMedia_def)
  moreover have "link_view (setPortOverrideAssignment (healthOverride r) q) = link_view q"
    and "link_view (setPortOverrideSpeed (healthOverride r) q) = link_view q"
    and "link_view (setPortOverrideWANHealth (healthOverride r) q) = link_view q"
    and "link_view (setPortOverrideCounters (healthOverride r) q) = link_view q"
    and "link_view (setPortOverrideRates (healthOverride r) q) = link_view q"
    and "link_view (setPortOverrideLinkState (healthOverride r) q) = link_view q"
    and "link_view (setPortOverrideDisabled (healthOverride r) q) = link_view q" for q
    by (simp_all add: link_view_def setPortOverrideAssignment_def setPortOverrideSpeed_def setPortOverrideWANHealth_def
        setPortOverrideCounters_def portCounterOverrides_def setPortOverrideRates_def setPortOverrideLinkState_def
        setPortOverrideDisabled_def healthOverride_def emptyOverride_def)
  ultimately show ?thesis by (simp add: applySetters_def portOverrideSetters_def)
qed

lemma link_view_WANHealth:
  assumes "i < length ports"
  shows "link_view (applyWANHealth env flags prof ports ! i) = link_view (ports ! i)"
proof -
  have "link_view (fold applySetters (filter c (map healthOverride rs)) p) = link_view p" for c rs p
    by (induction rs arbitrary: p) (simp_all add: link_view_health)
  then have "link_view (ApplyPortOverrides ports (WANHealthOverrides rs) ! i) = link_view (ports ! i)" for rs
    using assms by (simp add: ApplyPortOverrides_nth(1) WANHealthOverrides_def)
  then show ?thesis by (simp add: applyWANHealth_def Let_def)
qed

lemma link_view_frame:
  assumes "map port_frame out = map port_frame ports" "i < length ports"
  shows "link_view (out ! i) = link_view (ports ! i)"
proof -
  have len: "length out = length ports" using assms(1) by (rule map_eq_imp_length_eq)
  then have "port_frame (out ! i) = port_frame (ports ! i)" using assms by (metis nth_map)
  moreover have "link_view p = link_view (port_frame p)" for p by (simp add: link_view_def port_frame_def)
  ultimately show ?thesis by metis
qed

lemma length_applyWANHealth [simp]: "length (applyWANHealth env flags prof ports) = length ports"
  by (rule map_eq_imp_length_eq [OF stage_id_WANHealth])

lemma length_applyLLDPNeighbors [simp]: "length (applyLLDPNeighbors env flags ports) = length ports"
  by (rule map_eq_imp_length_eq [OF applyLLDPNeighbors_frame])

lemma operatorStages_link:
  assumes "i < length ports"
  shows "link_view (operatorStages env flags prof ports ! i) = link_view (ApplyPortOverrides ports (flPortOverrides flags) ! i)"
proof -
  have l: "i < length (ApplyPortOverrides ports (flPortOverrides flags))"
    using assms by (simp add: ApplyPortOverrides_nth(2))
  have "map port_frame (operatorStages env flags prof ports) =
      map port_frame (applyWANHealth env flags prof (ApplyPortOverrides ports (flPortOverrides flags)))"
    by (simp add: operatorStages_def Let_def ApplyUplinkNeighbor_frame ApplyPortNeighbors_frame applyLLDPNeighbors_frame)
  from link_view_frame [OF this, of i] show ?thesis using l by (simp add: link_view_WANHealth)
qed

text \<open>Every run: the generated ports, the observation of the mode, the operator's stages.\<close>

lemma portsForRuntime_stages:
  fixes env flags prof opts
  defines "fl \<equiv> flags\<lparr>flPortOverrides := enrichOverrides (rePlatform env) (flPortOverrides flags)\<rparr>"
  obtains u mid logs where "ports_shape (nat (requestedPorts prof opts)) u mid"
    and "1 \<le> optUplinkPort opts \<and> optUplinkPort opts \<le> requestedPorts prof opts \<longrightarrow> u = optUplinkPort opts"
    and "portsForRuntime env flags prof opts = Some (operatorStages env fl prof mid, logs)"
proof -
  obtain u where b: "ports_shape (nat (requestedPorts prof opts)) u (BuildPorts prof opts)"
    and u: "1 \<le> optUplinkPort opts \<and> optUplinkPort opts \<le> requestedPorts prof opts \<longrightarrow> u = optUplinkPort opts"
    by (rule BuildPorts_shape)
  obtain mid where m: "observationStage env fl (BuildPorts prof opts) = Some mid"
      "ports_shape (nat (requestedPorts prof opts)) u mid"
    by (rule observation.stage_shape [OF b])
  have "fst (finalizeRuntimeTopology prof ps) = ps" for ps by (simp add: finalizeRuntimeTopology_def split: sum.splits)
  then obtain logs where "finalizeRuntimeTopology prof (operatorStages env fl prof mid) = (operatorStages env fl prof mid, logs)"
    by (metis prod.collapse)
  then have "portsForRuntime env flags prof opts = Some (operatorStages env fl prof mid, logs)"
    using m(1) by (simp add: portsForRuntime_def Let_def fl_def)
  with m(2) u show thesis by (rule that)
qed

section \<open>Properties\<close>



text \<open>A gateway with two ports whose second port the operator disabled.\<close>

definition labProfile :: profile where
  "labProfile = \<lparr>profSource = [], profSourceType = [], profSchemaVersion = 1, profExtends = [], profAllowBuiltinOverride = False,
     profOrder = 0, profName = ''lab'', profModel = ''UGW3'', profModelDisplay = [], profDeviceType = ''ugw'', profVersion = [],
     profPorts = 2, profPortGroups = [], profPortNames = [], profPortRoles = [''wan'', ''lan''], profPortNetworkGroups = [],
     profPortSpeed = 1000, profUplinkSpeed = 1000, profPortMedia = ''GE'', profUplinkMedia = ''GE'', profStability = [],
     profRecommended = False, profValidatedControllerVersions = [],
     profPayload = \<lparr>payloadKind = ''gateway'', payloadRequiredVersion = [], payloadManagementInterface = [],
       payloadGatewayInterfacePrefix = [], payloadHasDPI = False\<rparr>, profDescription = []\<rparr>"

definition labFlags :: runtime_flags where
  "labFlags = \<lparr>flOperationMode = ''bridge-observe'', flPortCount = 2, flLinkSpeed = 0, flUplinkSpeed = [], flUplinkPort = 0,
     flUplinkNeighbor = None, flPortNeighbors = [], flPortOverrides = [emptyOverride\<lparr>oPort := 2, oDisabled := True\<rparr>],
     flWanHealth = \<lparr>wcSource = [], wcIntervalSeconds = 10, wcTimeoutMS = 1000, wcTargets = []\<rparr>,
     flBridgeObserve = \<lparr>boBridge = ''vmbr0'', boUplinkInterface = ''eno1'', boIgnoredMembers = [], boMemberPortMap = []\<rparr>,
     flPortMappings = [], flObserveInterface = [], flObserveBridge = [], flLldpSource = []\<rparr>"

definition labRuntime :: runtime_env where
  "labRuntime = \<lparr>rePlatform = labEnv, reLLDP = (\<lambda>_. []), reMeasure = (\<lambda>_. [])\<rparr>"

definition labOptions :: port_build_options where
  "labOptions = \<lparr>optCount = 2, optLinkSpeed = 0, optUplinkSpeed = 0, optUplinkPort = 0\<rparr>"


end
