(* ===== verification/Settings.thy ===== *)
theory Settings
  imports Runtime_Ports
begin

text \<open>
  The layered settings of the daemon: the configuration document (\<open>internal/config/model.go\<close>,
  \<open>types.go\<close>, \<open>defaults.go\<close>), the flags (\<open>cmd/unifi-stubd/flags.go\<close>), the registry that ties one to the
  other (\<open>settings*.go\<close>), the overlay of the document on the flags (\<open>config.go\<close>) and the conversion of
  configured neighbours (\<open>config_neighbors.go\<close>).

  A setting is a record with the flag's name, the field it writes, as a getter and a setter, and the
  value it takes from a configuration; durations are nanoseconds in 64 bits. The parsing of YAML and of
  the command line are libraries: a parsed configuration, the flags after parsing and the set of flags
  that were given are arguments. The flags of the port stages are the record of \<open>Runtime_Ports\<close>.
\<close>

section \<open>The configuration (config/model.go, types.go, defaults.go)\<close>

definition automaticValue :: string where "automaticValue = ''auto''"
definition sourceOffValue :: string where "sourceOffValue = ''off''"

record management_lan =
  mlEnabled :: bool
  mlVLAN :: int
  mlNetworkName :: string
  mlMode :: string
  mlInterface :: string
  mlIP :: string
  mlControllerReachable :: string
  mlAdoptionStrategy :: string

definition emptyManagementLAN :: management_lan where
  "emptyManagementLAN = \<lparr>mlEnabled = False, mlVLAN = 0, mlNetworkName = [], mlMode = [], mlInterface = [], mlIP = [],
     mlControllerReachable = [], mlAdoptionStrategy = []\<rparr>"

text \<open>\<open>UplinkNeighbor\<close>, and \<open>PortNeighbor\<close> without its port.\<close>

record config_neighbor =
  cnMAC :: string
  cnName :: string
  cnHostname :: string
  cnIP :: string
  cnVLAN :: int
  cnStatic :: bool
  cnType :: string
  cnAge :: int
  cnUptime :: int
  cnRemotePort :: int

record app_config =
  cgOperationMode :: string
  cgControllerURL :: string
  cgProfile :: string
  cgProfileFile :: string
  cgProfileDir :: string
  cgMAC :: string
  cgIP :: string
  cgHostname :: string
  cgModel :: string
  cgModelDisplay :: string
  cgPorts :: int
  cgLinkSpeed :: int
  cgUplinkSpeed :: string
  cgUplinkPort :: int
  cgUplinkNeighbor :: "config_neighbor option"
  cgPortNeighbors :: "(int \<times> config_neighbor) list"
  cgPortOverrides :: "port_override list"
  cgWANHealth :: wan_health_config
  cgBridgeObserve :: bridge_observe
  cgPortMappings :: "port_mapping list"
  cgObserveInterface :: string
  cgObserveBridge :: string
  cgLLDPSource :: string
  cgTrafficRatesEnabled :: bool
  cgProcSource :: string
  cgInstanceGuard :: string
  cgInstanceGuardPath :: string
  cgVersion :: string
  cgIntervalSeconds :: int
  cgControllerIntervalMinSeconds :: int
  cgControllerIntervalMaxSeconds :: int
  cgInformBackoffMaxSeconds :: int
  cgInformBackoffJitterPercent :: int
  cgNoDiscovery :: bool
  cgDiscoveryInterface :: string
  cgDiscoveryTargets :: "string list"
  cgManagementLAN :: management_lan
  cgSSHListen :: string
  cgSSHUser :: string
  cgSSHPassword :: string
  cgSSHHostKeyPath :: string
  cgStatePath :: string
  cgStatusPath :: string

definition DefaultConfig :: app_config where
  "DefaultConfig = \<lparr>cgOperationMode = ''stub'',
     cgControllerURL = [],
     cgProfile = [],
     cgProfileFile = [],
     cgProfileDir = [],
     cgMAC = automaticValue,
     cgIP = ''192.168.1.50'',
     cgHostname = automaticValue,
     cgModel = [],
     cgModelDisplay = [],
     cgPorts = 0,
     cgLinkSpeed = 0,
     cgUplinkSpeed = automaticValue,
     cgUplinkPort = 0,
     cgUplinkNeighbor = None,
     cgPortNeighbors = [],
     cgPortOverrides = [],
     cgWANHealth = \<lparr>wcSource = sourceOffValue, wcIntervalSeconds = 10, wcTimeoutMS = 1000, wcTargets = []\<rparr>,
     cgBridgeObserve = \<lparr>boBridge = [], boUplinkInterface = [], boIgnoredMembers = [], boMemberPortMap = []\<rparr>,
     cgPortMappings = [],
     cgObserveInterface = [],
     cgObserveBridge = [],
     cgLLDPSource = sourceOffValue,
     cgTrafficRatesEnabled = False,
     cgProcSource = sourceOffValue,
     cgInstanceGuard = ''fail'',
     cgInstanceGuardPath = ''/var/lib/unifi-stubd/instance.lock'',
     cgVersion = [],
     cgIntervalSeconds = 10,
     cgControllerIntervalMinSeconds = 5,
     cgControllerIntervalMaxSeconds = 60,
     cgInformBackoffMaxSeconds = 300,
     cgInformBackoffJitterPercent = 20,
     cgNoDiscovery = False,
     cgDiscoveryInterface = [],
     cgDiscoveryTargets = [],
     cgManagementLAN = emptyManagementLAN,
     cgSSHListen = [],
     cgSSHUser = ''ubnt'',
     cgSSHPassword = ''ubnt'',
     cgSSHHostKeyPath = ''/var/lib/unifi-stubd/ssh_host_rsa_key'',
     cgStatePath = ''/var/lib/unifi-stubd/adoption.env'',
     cgStatusPath = ''/var/lib/unifi-stubd/status.json''\<rparr>"

section \<open>The flags (flags.go)\<close>

record serve_flags =
  sfConfigPath :: string
  sfProfileName :: string
  sfProfileFile :: string
  sfProfileDir :: string
  sfListProfiles :: bool
  sfValidate :: bool
  sfConfigMigrate :: bool
  sfConfigMigrateDryRun :: bool
  sfProfileValidate :: string
  sfProfileExport :: string
  sfProfileTemplate :: string
  sfMacText :: string
  sfIpText :: string
  sfHostname :: string
  sfModel :: string
  sfModelDisplay :: string
  sfVersion :: string
  sfBinaryVersion :: bool
  sfPort :: runtime_flags
  sfTrafficRatesEnabled :: bool
  sfProcSource :: string
  sfInstanceGuard :: string
  sfInstanceGuardPath :: string
  sfController :: string
  sfInterval :: int
  sfControllerIntervalMin :: int
  sfControllerIntervalMax :: int
  sfInformBackoffMax :: int
  sfInformBackoffJitterPercent :: int
  sfDryRun :: bool
  sfDryRunPlan :: bool
  sfStatus :: bool
  sfStatusJSON :: bool
  sfOnce :: bool
  sfNoDiscovery :: bool
  sfDiscoveryInterface :: string
  sfDiscoveryTargets :: "string list"
  sfManagementLAN :: management_lan
  sfSshListen :: string
  sfSshUser :: string
  sfSshPassword :: string
  sfSshHostKey :: string
  sfSshState :: string
  sfStatusPath :: string

section \<open>The registry of settings (settings.go and its groups)\<close>

datatype setting_value = SettingText string | SettingInt int | SettingBool bool

record runtime_setting =
  rsFlag :: string
  rsGet :: "serve_flags \<Rightarrow> setting_value"
  rsPut :: "setting_value \<Rightarrow> serve_flags \<Rightarrow> serve_flags"
  rsDefault :: "app_config \<Rightarrow> setting_value"
  rsSource :: "app_config \<Rightarrow> setting_value option"

text \<open>A setting of each type from its two accessors; a value of another type is not written. The interval
  alone is skipped when the configured value is not positive.\<close>

definition stringSetting :: "string \<Rightarrow> (serve_flags \<Rightarrow> string) \<Rightarrow> (string \<Rightarrow> serve_flags \<Rightarrow> serve_flags) \<Rightarrow>
    (app_config \<Rightarrow> string) \<Rightarrow> runtime_setting" where
  "stringSetting name target setter source = \<lparr>rsFlag = name, rsGet = (\<lambda>f. SettingText (target f)),
     rsPut = (\<lambda>v f. case v of SettingText t \<Rightarrow> setter t f | _ \<Rightarrow> f), rsDefault = (\<lambda>c. SettingText (source c)),
     rsSource = (\<lambda>c. Some (SettingText (source c)))\<rparr>"

definition intSetting :: "string \<Rightarrow> (serve_flags \<Rightarrow> int) \<Rightarrow> (int \<Rightarrow> serve_flags \<Rightarrow> serve_flags) \<Rightarrow>
    (app_config \<Rightarrow> int) \<Rightarrow> runtime_setting" where
  "intSetting name target setter source = \<lparr>rsFlag = name, rsGet = (\<lambda>f. SettingInt (target f)),
     rsPut = (\<lambda>v f. case v of SettingInt t \<Rightarrow> setter t f | _ \<Rightarrow> f), rsDefault = (\<lambda>c. SettingInt (source c)),
     rsSource = (\<lambda>c. Some (SettingInt (source c)))\<rparr>"

definition boolSetting :: "string \<Rightarrow> (serve_flags \<Rightarrow> bool) \<Rightarrow> (bool \<Rightarrow> serve_flags \<Rightarrow> serve_flags) \<Rightarrow>
    (app_config \<Rightarrow> bool) \<Rightarrow> runtime_setting" where
  "boolSetting name target setter source = \<lparr>rsFlag = name, rsGet = (\<lambda>f. SettingBool (target f)),
     rsPut = (\<lambda>v f. case v of SettingBool t \<Rightarrow> setter t f | _ \<Rightarrow> f), rsDefault = (\<lambda>c. SettingBool (source c)),
     rsSource = (\<lambda>c. Some (SettingBool (source c)))\<rparr>"

text \<open>\<open>time.Duration(seconds) * time.Second\<close>\<close>

definition configSeconds :: "int \<Rightarrow> int" where
  "configSeconds seconds = wrap64 (wrap64 seconds * 1000000000)"

definition secondsDurationSetting :: "string \<Rightarrow> (serve_flags \<Rightarrow> int) \<Rightarrow> (int \<Rightarrow> serve_flags \<Rightarrow> serve_flags) \<Rightarrow>
    (app_config \<Rightarrow> int) \<Rightarrow> runtime_setting" where
  "secondsDurationSetting name target setter source = intSetting name target setter (\<lambda>c. configSeconds (source c))"

definition intervalSetting :: runtime_setting where
  "intervalSetting = \<lparr>rsFlag = ''interval'', rsGet = (\<lambda>f. SettingInt (sfInterval f)),
     rsPut = (\<lambda>v f. case v of SettingInt t \<Rightarrow> f\<lparr>sfInterval := t\<rparr> | _ \<Rightarrow> f),
     rsDefault = (\<lambda>c. SettingInt (configSeconds (cgIntervalSeconds c))),
     rsSource = (\<lambda>c. if cgIntervalSeconds c > 0 then Some (SettingInt (configSeconds (cgIntervalSeconds c))) else None)\<rparr>"

definition deviceRuntimeSettings :: "runtime_setting list" where
  "deviceRuntimeSettings =
    [stringSetting ''operation-mode'' (\<lambda>f. flOperationMode (sfPort f)) (\<lambda>v f. f\<lparr>sfPort := (sfPort f)\<lparr>flOperationMode := v\<rparr>\<rparr>) (\<lambda>c. cgOperationMode c),
     stringSetting ''profile'' (\<lambda>f. sfProfileName f) (\<lambda>v f. f\<lparr>sfProfileName := v\<rparr>) (\<lambda>c. cgProfile c),
     stringSetting ''profile-file'' (\<lambda>f. sfProfileFile f) (\<lambda>v f. f\<lparr>sfProfileFile := v\<rparr>) (\<lambda>c. cgProfileFile c),
     stringSetting ''profile-dir'' (\<lambda>f. sfProfileDir f) (\<lambda>v f. f\<lparr>sfProfileDir := v\<rparr>) (\<lambda>c. cgProfileDir c),
     stringSetting ''mac'' (\<lambda>f. sfMacText f) (\<lambda>v f. f\<lparr>sfMacText := v\<rparr>) (\<lambda>c. cgMAC c),
     stringSetting ''ip'' (\<lambda>f. sfIpText f) (\<lambda>v f. f\<lparr>sfIpText := v\<rparr>) (\<lambda>c. cgIP c),
     stringSetting ''hostname'' (\<lambda>f. sfHostname f) (\<lambda>v f. f\<lparr>sfHostname := v\<rparr>) (\<lambda>c. cgHostname c),
     stringSetting ''model'' (\<lambda>f. sfModel f) (\<lambda>v f. f\<lparr>sfModel := v\<rparr>) (\<lambda>c. cgModel c),
     stringSetting ''model-display'' (\<lambda>f. sfModelDisplay f) (\<lambda>v f. f\<lparr>sfModelDisplay := v\<rparr>) (\<lambda>c. cgModelDisplay c),
     stringSetting ''firmware-version'' (\<lambda>f. sfVersion f) (\<lambda>v f. f\<lparr>sfVersion := v\<rparr>) (\<lambda>c. cgVersion c),
     intSetting ''ports'' (\<lambda>f. flPortCount (sfPort f)) (\<lambda>v f. f\<lparr>sfPort := (sfPort f)\<lparr>flPortCount := v\<rparr>\<rparr>) (\<lambda>c. cgPorts c),
     intSetting ''link-speed'' (\<lambda>f. flLinkSpeed (sfPort f)) (\<lambda>v f. f\<lparr>sfPort := (sfPort f)\<lparr>flLinkSpeed := v\<rparr>\<rparr>) (\<lambda>c. cgLinkSpeed c),
     stringSetting ''uplink-speed'' (\<lambda>f. flUplinkSpeed (sfPort f)) (\<lambda>v f. f\<lparr>sfPort := (sfPort f)\<lparr>flUplinkSpeed := v\<rparr>\<rparr>) (\<lambda>c. cgUplinkSpeed c),
     intSetting ''uplink-port'' (\<lambda>f. flUplinkPort (sfPort f)) (\<lambda>v f. f\<lparr>sfPort := (sfPort f)\<lparr>flUplinkPort := v\<rparr>\<rparr>) (\<lambda>c. cgUplinkPort c)]"

definition observationRuntimeSettings :: "runtime_setting list" where
  "observationRuntimeSettings =
    [stringSetting ''observe-interface'' (\<lambda>f. flObserveInterface (sfPort f)) (\<lambda>v f. f\<lparr>sfPort := (sfPort f)\<lparr>flObserveInterface := v\<rparr>\<rparr>) (\<lambda>c. cgObserveInterface c),
     stringSetting ''observe-bridge'' (\<lambda>f. flObserveBridge (sfPort f)) (\<lambda>v f. f\<lparr>sfPort := (sfPort f)\<lparr>flObserveBridge := v\<rparr>\<rparr>) (\<lambda>c. cgObserveBridge c),
     stringSetting ''bridge-observe-bridge'' (\<lambda>f. boBridge (flBridgeObserve (sfPort f))) (\<lambda>v f. f\<lparr>sfPort := (sfPort f)\<lparr>flBridgeObserve := (flBridgeObserve (sfPort f))\<lparr>boBridge := v\<rparr>\<rparr>\<rparr>) (\<lambda>c. boBridge (cgBridgeObserve c)),
     stringSetting ''bridge-observe-uplink-interface'' (\<lambda>f. boUplinkInterface (flBridgeObserve (sfPort f))) (\<lambda>v f. f\<lparr>sfPort := (sfPort f)\<lparr>flBridgeObserve := (flBridgeObserve (sfPort f))\<lparr>boUplinkInterface := v\<rparr>\<rparr>\<rparr>) (\<lambda>c. boUplinkInterface (cgBridgeObserve c)),
     stringSetting ''lldp-source'' (\<lambda>f. flLldpSource (sfPort f)) (\<lambda>v f. f\<lparr>sfPort := (sfPort f)\<lparr>flLldpSource := v\<rparr>\<rparr>) (\<lambda>c. cgLLDPSource c),
     boolSetting ''traffic-rates-enabled'' (\<lambda>f. sfTrafficRatesEnabled f) (\<lambda>v f. f\<lparr>sfTrafficRatesEnabled := v\<rparr>) (\<lambda>c. cgTrafficRatesEnabled c),
     stringSetting ''proc-source'' (\<lambda>f. sfProcSource f) (\<lambda>v f. f\<lparr>sfProcSource := v\<rparr>) (\<lambda>c. cgProcSource c)]"

definition networkRuntimeSettings :: "runtime_setting list" where
  "networkRuntimeSettings =
    [stringSetting ''controller'' (\<lambda>f. sfController f) (\<lambda>v f. f\<lparr>sfController := v\<rparr>) (\<lambda>c. cgControllerURL c),
     intervalSetting,
     secondsDurationSetting ''controller-interval-min'' (\<lambda>f. sfControllerIntervalMin f) (\<lambda>v f. f\<lparr>sfControllerIntervalMin := v\<rparr>) (\<lambda>c. cgControllerIntervalMinSeconds c),
     secondsDurationSetting ''controller-interval-max'' (\<lambda>f. sfControllerIntervalMax f) (\<lambda>v f. f\<lparr>sfControllerIntervalMax := v\<rparr>) (\<lambda>c. cgControllerIntervalMaxSeconds c),
     secondsDurationSetting ''inform-backoff-max'' (\<lambda>f. sfInformBackoffMax f) (\<lambda>v f. f\<lparr>sfInformBackoffMax := v\<rparr>) (\<lambda>c. cgInformBackoffMaxSeconds c),
     intSetting ''inform-backoff-jitter-percent'' (\<lambda>f. sfInformBackoffJitterPercent f) (\<lambda>v f. f\<lparr>sfInformBackoffJitterPercent := v\<rparr>) (\<lambda>c. cgInformBackoffJitterPercent c),
     boolSetting ''no-discovery'' (\<lambda>f. sfNoDiscovery f) (\<lambda>v f. f\<lparr>sfNoDiscovery := v\<rparr>) (\<lambda>c. cgNoDiscovery c),
     stringSetting ''discovery-interface'' (\<lambda>f. sfDiscoveryInterface f) (\<lambda>v f. f\<lparr>sfDiscoveryInterface := v\<rparr>) (\<lambda>c. cgDiscoveryInterface c)]"

definition managementRuntimeSettings :: "runtime_setting list" where
  "managementRuntimeSettings =
    [boolSetting ''management-lan-enabled'' (\<lambda>f. mlEnabled (sfManagementLAN f)) (\<lambda>v f. f\<lparr>sfManagementLAN := (sfManagementLAN f)\<lparr>mlEnabled := v\<rparr>\<rparr>) (\<lambda>c. mlEnabled (cgManagementLAN c)),
     intSetting ''management-lan-vlan'' (\<lambda>f. mlVLAN (sfManagementLAN f)) (\<lambda>v f. f\<lparr>sfManagementLAN := (sfManagementLAN f)\<lparr>mlVLAN := v\<rparr>\<rparr>) (\<lambda>c. mlVLAN (cgManagementLAN c)),
     stringSetting ''management-lan-mode'' (\<lambda>f. mlMode (sfManagementLAN f)) (\<lambda>v f. f\<lparr>sfManagementLAN := (sfManagementLAN f)\<lparr>mlMode := v\<rparr>\<rparr>) (\<lambda>c. mlMode (cgManagementLAN c)),
     stringSetting ''management-lan-interface'' (\<lambda>f. mlInterface (sfManagementLAN f)) (\<lambda>v f. f\<lparr>sfManagementLAN := (sfManagementLAN f)\<lparr>mlInterface := v\<rparr>\<rparr>) (\<lambda>c. mlInterface (cgManagementLAN c)),
     stringSetting ''management-lan-ip'' (\<lambda>f. mlIP (sfManagementLAN f)) (\<lambda>v f. f\<lparr>sfManagementLAN := (sfManagementLAN f)\<lparr>mlIP := v\<rparr>\<rparr>) (\<lambda>c. mlIP (cgManagementLAN c)),
     stringSetting ''management-lan-network'' (\<lambda>f. mlNetworkName (sfManagementLAN f)) (\<lambda>v f. f\<lparr>sfManagementLAN := (sfManagementLAN f)\<lparr>mlNetworkName := v\<rparr>\<rparr>) (\<lambda>c. mlNetworkName (cgManagementLAN c)),
     stringSetting ''management-lan-controller-reachable'' (\<lambda>f. mlControllerReachable (sfManagementLAN f)) (\<lambda>v f. f\<lparr>sfManagementLAN := (sfManagementLAN f)\<lparr>mlControllerReachable := v\<rparr>\<rparr>) (\<lambda>c. mlControllerReachable (cgManagementLAN c)),
     stringSetting ''management-lan-adoption-strategy'' (\<lambda>f. mlAdoptionStrategy (sfManagementLAN f)) (\<lambda>v f. f\<lparr>sfManagementLAN := (sfManagementLAN f)\<lparr>mlAdoptionStrategy := v\<rparr>\<rparr>) (\<lambda>c. mlAdoptionStrategy (cgManagementLAN c))]"

definition serviceRuntimeSettings :: "runtime_setting list" where
  "serviceRuntimeSettings =
    [stringSetting ''instance-guard'' (\<lambda>f. sfInstanceGuard f) (\<lambda>v f. f\<lparr>sfInstanceGuard := v\<rparr>) (\<lambda>c. cgInstanceGuard c),
     stringSetting ''instance-guard-path'' (\<lambda>f. sfInstanceGuardPath f) (\<lambda>v f. f\<lparr>sfInstanceGuardPath := v\<rparr>) (\<lambda>c. cgInstanceGuardPath c),
     stringSetting ''ssh-listen'' (\<lambda>f. sfSshListen f) (\<lambda>v f. f\<lparr>sfSshListen := v\<rparr>) (\<lambda>c. cgSSHListen c),
     stringSetting ''ssh-user'' (\<lambda>f. sfSshUser f) (\<lambda>v f. f\<lparr>sfSshUser := v\<rparr>) (\<lambda>c. cgSSHUser c),
     stringSetting ''ssh-password'' (\<lambda>f. sfSshPassword f) (\<lambda>v f. f\<lparr>sfSshPassword := v\<rparr>) (\<lambda>c. cgSSHPassword c),
     stringSetting ''ssh-host-key'' (\<lambda>f. sfSshHostKey f) (\<lambda>v f. f\<lparr>sfSshHostKey := v\<rparr>) (\<lambda>c. cgSSHHostKeyPath c),
     stringSetting ''ssh-state'' (\<lambda>f. sfSshState f) (\<lambda>v f. f\<lparr>sfSshState := v\<rparr>) (\<lambda>c. cgStatePath c),
     stringSetting ''status-path'' (\<lambda>f. sfStatusPath f) (\<lambda>v f. f\<lparr>sfStatusPath := v\<rparr>) (\<lambda>c. cgStatusPath c)]"

definition runtimeSettings :: "runtime_setting list" where
  "runtimeSettings = deviceRuntimeSettings @ observationRuntimeSettings @ networkRuntimeSettings @
     managementRuntimeSettings @ serviceRuntimeSettings"

text \<open>\<open>register\<close> stores the default in the field; the command line is parsed afterwards. \<open>apply\<close> copies the
  configured value.\<close>

definition applySetting :: "app_config \<Rightarrow> runtime_setting \<Rightarrow> serve_flags \<Rightarrow> serve_flags" where
  "applySetting c s f = (case rsSource s c of None \<Rightarrow> f | Some v \<Rightarrow> rsPut s v f)"

definition registerRuntimeSettings :: "serve_flags \<Rightarrow> app_config \<Rightarrow> serve_flags" where
  "registerRuntimeSettings f defaults = fold (\<lambda>s. rsPut s (rsDefault s defaults)) runtimeSettings f"

section \<open>Configured neighbours (config_neighbors.go)\<close>

definition defaultNeighborAge :: "int \<Rightarrow> int" where "defaultNeighborAge age = (if age = 0 then 4 else age)"

definition defaultNeighborUptime :: "int \<Rightarrow> int" where "defaultNeighborUptime up = (if up = 0 then 1200 else up)"

definition defaultNeighborType :: "string \<Rightarrow> string" where
  "defaultNeighborType t = (if trim_space t = [] then ''usw'' else trim_space t)"

definition defaultPortNeighborType :: "string \<Rightarrow> string" where
  "defaultPortNeighborType t = (if trim_space t = [] then ''client'' else trim_space t)"

definition defaultNeighborHostname :: "string \<Rightarrow> string \<Rightarrow> string" where
  "defaultNeighborHostname hostname name = (if trim_space hostname \<noteq> [] then trim_space hostname else trim_space name)"

definition configUplinkNeighbor :: "config_neighbor option \<Rightarrow> topology_neighbor option" where
  "configUplinkNeighbor neighbor =
     (case neighbor of
        None \<Rightarrow> None
      | Some n \<Rightarrow>
          if trim_space (cnMAC n) = [] then None
          else Some \<lparr>nbMAC = trim_space (cnMAC n), nbHostname = defaultNeighborHostname (cnHostname n) (cnName n),
                 nbIP = trim_space (cnIP n), nbDeviceType = defaultNeighborType (cnType n), nbVLAN = cnVLAN n,
                 nbAge = defaultNeighborAge (cnAge n), nbUptime = defaultNeighborUptime (cnUptime n),
                 nbRemotePort = cnRemotePort n, nbRemotePortID = [], nbSource = NeighborSourceConfigUplink,
                 nbStatic = cnStatic n\<rparr>)"

definition configPortNeighbors :: "(int \<times> config_neighbor) list \<Rightarrow> port_neighbor list" where
  "configPortNeighbors neighbors =
     map (\<lambda>(port, n). \<lparr>pnPort = port,
            pnEntry = \<lparr>macMAC = trim_space (cnMAC n), macHostname = defaultNeighborHostname (cnHostname n) (cnName n),
              macIP = trim_space (cnIP n), macAge = defaultNeighborAge (cnAge n), macUptime = defaultNeighborUptime (cnUptime n),
              macVLAN = cnVLAN n, macStatic = cnStatic n, macType = defaultPortNeighborType (cnType n)\<rparr>,
            pnRemotePort = cnRemotePort n\<rparr>)
       (filter (\<lambda>(port, n). trim_space (cnMAC n) \<noteq> []) neighbors)"

section \<open>The overlay (config.go)\<close>

text \<open>\<open>loadConfig\<close>: what \<open>Load\<close> answers for a path is an argument.\<close>

datatype load_result = Loaded app_config | NotExist | LoadFailed

definition loadConfig :: "(string \<Rightarrow> load_result) \<Rightarrow> string \<Rightarrow> bool \<Rightarrow> app_config option" where
  "loadConfig loader path explicit =
     (if trim_space path = [] then Some DefaultConfig
      else (case loader path of
              Loaded c \<Rightarrow> Some c
            | NotExist \<Rightarrow> if explicit then None else Some DefaultConfig
            | LoadFailed \<Rightarrow> None))"

definition applySettings :: "app_config \<Rightarrow> (string \<Rightarrow> bool) \<Rightarrow> serve_flags \<Rightarrow> serve_flags" where
  "applySettings cfg changed flags =
     fold (\<lambda>s f. if \<not> changed (rsFlag s) then applySetting cfg s f else f) runtimeSettings flags"

definition setPortFlags :: "(runtime_flags \<Rightarrow> runtime_flags) \<Rightarrow> serve_flags \<Rightarrow> serve_flags" where
  "setPortFlags u f = f\<lparr>sfPort := u (sfPort f)\<rparr>"

definition setBridgeObserve :: "(bridge_observe \<Rightarrow> bridge_observe) \<Rightarrow> runtime_flags \<Rightarrow> runtime_flags" where
  "setBridgeObserve u p = p\<lparr>flBridgeObserve := u (flBridgeObserve p)\<rparr>"

definition applyConfig :: "app_config \<Rightarrow> (string \<Rightarrow> bool) \<Rightarrow> serve_flags \<Rightarrow> serve_flags" where
  "applyConfig cfg changed flags =
     (let f = applySettings cfg changed flags;
          f = (if \<not> changed ''bridge-member-port''
               then setPortFlags (setBridgeObserve (\<lambda>b. b\<lparr>boMemberPortMap := boMemberPortMap (cgBridgeObserve cfg)\<rparr>)) f else f);
          f = (if \<not> changed ''bridge-ignore-member''
               then setPortFlags (setBridgeObserve (\<lambda>b. b\<lparr>boIgnoredMembers := boIgnoredMembers (cgBridgeObserve cfg)\<rparr>)) f else f);
          f = (if \<not> changed ''port-map'' then setPortFlags (\<lambda>p. p\<lparr>flPortMappings := cgPortMappings cfg\<rparr>) f else f)
      in (setPortFlags (\<lambda>p. p\<lparr>flUplinkNeighbor := configUplinkNeighbor (cgUplinkNeighbor cfg),
            flPortNeighbors := configPortNeighbors (cgPortNeighbors cfg), flPortOverrides := cgPortOverrides cfg,
            flWanHealth := cgWANHealth cfg\<rparr>) f)\<lparr>sfDiscoveryTargets := cgDiscoveryTargets cfg\<rparr>)"

section \<open>Every setting has a field of its own\<close>

definition lawful :: "runtime_setting \<Rightarrow> bool" where
  "lawful s \<longleftrightarrow> (\<forall>c v f. rsSource s c = Some v \<longrightarrow> rsGet s (rsPut s v f) = v)"

definition apart :: "runtime_setting \<Rightarrow> runtime_setting \<Rightarrow> bool" where
  "apart s t \<longleftrightarrow> (\<forall>v f. rsGet s (rsPut t v f) = rsGet s f)"

lemmas setting_defs = stringSetting_def intSetting_def boolSetting_def secondsDurationSetting_def intervalSetting_def

lemmas settings_groups = deviceRuntimeSettings_def observationRuntimeSettings_def networkRuntimeSettings_def
  managementRuntimeSettings_def serviceRuntimeSettings_def

lemma settings_lawful: "list_all lawful runtimeSettings"
  by (simp add: runtimeSettings_def settings_groups setting_defs lawful_def)

fun all_pairs :: "('a \<Rightarrow> 'a \<Rightarrow> bool) \<Rightarrow> 'a list \<Rightarrow> bool" where
  "all_pairs P [] = True"
| "all_pairs P (x # xs) = (list_all (\<lambda>y. P x y \<and> P y x) xs \<and> all_pairs P xs)"

definition both_apart :: "runtime_setting list \<Rightarrow> runtime_setting list \<Rightarrow> bool" where
  "both_apart xs ys \<longleftrightarrow> list_all (\<lambda>x. list_all (\<lambda>y. apart x y \<and> apart y x) ys) xs"

lemma all_pairs_append: "all_pairs apart (xs @ ys) \<longleftrightarrow> all_pairs apart xs \<and> all_pairs apart ys \<and> both_apart xs ys"
  by (induction xs) (auto simp: both_apart_def)

lemma both_apart_append: "both_apart xs (ys @ zs) \<longleftrightarrow> both_apart xs ys \<and> both_apart xs zs"
  by (auto simp: both_apart_def list_all_iff)

lemma groups_all_pairs:
  "all_pairs apart deviceRuntimeSettings" "all_pairs apart observationRuntimeSettings"
  "all_pairs apart networkRuntimeSettings" "all_pairs apart managementRuntimeSettings" "all_pairs apart serviceRuntimeSettings"
  by (simp_all add: settings_groups setting_defs apart_def split: setting_value.split)

lemma groups_apart:
  "both_apart deviceRuntimeSettings observationRuntimeSettings" "both_apart deviceRuntimeSettings networkRuntimeSettings"
  "both_apart deviceRuntimeSettings managementRuntimeSettings" "both_apart deviceRuntimeSettings serviceRuntimeSettings"
  "both_apart observationRuntimeSettings networkRuntimeSettings" "both_apart observationRuntimeSettings managementRuntimeSettings"
  "both_apart observationRuntimeSettings serviceRuntimeSettings" "both_apart networkRuntimeSettings managementRuntimeSettings"
  "both_apart networkRuntimeSettings serviceRuntimeSettings" "both_apart managementRuntimeSettings serviceRuntimeSettings"
  by (simp_all add: both_apart_def settings_groups setting_defs apart_def split: setting_value.split)

lemma settings_all_pairs: "all_pairs apart runtimeSettings"
  using groups_all_pairs groups_apart by (simp add: runtimeSettings_def all_pairs_append both_apart_append)

text \<open>What a layered field is worth: the flag's value when the flag was given, the configured one otherwise.\<close>

definition layered :: "app_config \<Rightarrow> (string \<Rightarrow> bool) \<Rightarrow> serve_flags \<Rightarrow> runtime_setting \<Rightarrow> setting_value" where
  "layered cfg changed flags s =
     (if changed (rsFlag s) then rsGet s flags
      else case rsSource s cfg of None \<Rightarrow> rsGet s flags | Some v \<Rightarrow> v)"

lemma fold_apart:
  assumes "list_all (apart s) xs"
  shows "rsGet s (fold (\<lambda>s f. if \<not> changed (rsFlag s) then applySetting cfg s f else f) xs f) = rsGet s f"
  using assms by (induction xs arbitrary: f) (auto simp: apart_def applySetting_def split: option.split)

lemma fold_layered:
  assumes "all_pairs apart xs" and "list_all lawful xs" and "s \<in> set xs"
  shows "rsGet s (fold (\<lambda>s f. if \<not> changed (rsFlag s) then applySetting cfg s f else f) xs f) = layered cfg changed f s"
  using assms
proof (induction xs arbitrary: f)
  case (Cons x xs)
  let ?step = "\<lambda>s f. if \<not> changed (rsFlag s) then applySetting cfg s f else f"
  show ?case
  proof (cases "s = x")
    case True
    have a: "list_all (apart x) xs" using Cons.prems(1) by (simp add: list_all_iff)
    have b: "rsGet x (?step x f) = layered cfg changed f x"
      using Cons.prems(2) by (auto simp: layered_def applySetting_def lawful_def split: option.split)
    show ?thesis unfolding True fold_simps comp_apply fold_apart [OF a, of changed cfg] by (rule b)
  next
    case False
    then have s: "s \<in> set xs" using Cons.prems(3) by simp
    then have "apart s x" using Cons.prems(1) by (simp add: list_all_iff)
    then have "rsGet s (?step x f) = rsGet s f" by (auto simp: apart_def applySetting_def split: option.split)
    then have "layered cfg changed (?step x f) s = layered cfg changed f s" by (simp only: layered_def)
    then show ?thesis using Cons.IH [of "?step x f"] Cons.prems s by simp
  qed
qed simp

text \<open>The lists and records that \<open>applyConfig\<close> copies afterwards are not settings.\<close>

definition unset_fields :: "runtime_setting \<Rightarrow> bool" where
  "unset_fields s \<longleftrightarrow>
     (\<forall>f v. rsGet s (setPortFlags (setBridgeObserve (\<lambda>b. b\<lparr>boMemberPortMap := v\<rparr>)) f) = rsGet s f) \<and>
     (\<forall>f v. rsGet s (setPortFlags (setBridgeObserve (\<lambda>b. b\<lparr>boIgnoredMembers := v\<rparr>)) f) = rsGet s f) \<and>
     (\<forall>f v. rsGet s (setPortFlags (\<lambda>p. p\<lparr>flPortMappings := v\<rparr>) f) = rsGet s f) \<and>
     (\<forall>f n ns ov w. rsGet s (setPortFlags (\<lambda>p. p\<lparr>flUplinkNeighbor := n, flPortNeighbors := ns, flPortOverrides := ov,
        flWanHealth := w\<rparr>) f) = rsGet s f) \<and>
     (\<forall>f v. rsGet s (f\<lparr>sfDiscoveryTargets := v\<rparr>) = rsGet s f)"

lemma settings_unset: "list_all unset_fields runtimeSettings"
  by (simp add: runtimeSettings_def settings_groups setting_defs unset_fields_def setPortFlags_def setBridgeObserve_def)

section \<open>Main properties\<close>


end
