(* ===== verification/Config_Migrate.thy ===== *)
theory Config_Migrate
  imports Device_Profile Atomic_File
begin

text \<open>
  The migration of configuration files: \<open>internal/config/migrate.go\<close> rewrites legacy keys of a YAML
  document, and \<open>internal/config/migrate_file.go\<close> does so in place after writing a backup.

  Documents are the node trees of \<open>Device_Profile\<close>; the YAML library (its decoder into nodes, its
  encoder, the comparison of marshalled nodes and the strict decoder of the configuration) is a
  parameter. A node is a value: a document in which an alias refers to a node that the migration
  changes in place is outside the model. The file system is the one of \<open>Atomic_File\<close>, with the answer
  of every system call as an argument.
\<close>

section \<open>The migration of a document (migrate.go)\<close>

record migration_result =
  mrData :: bytes
  mrChanged :: bool
  mrActions :: "string list"

datatype migrate_error = MigrateParse | NotOneDocument | NotMappingDocument
  | AliasNotScalar string string | TargetNotScalar string | DifferentValues string string
  | BridgeNotMapping | MigrateEncode | MigratedInvalid

text \<open>The functions of \<open>gopkg.in/yaml.v3\<close>, and \<open>Decode\<close> of the migrated text into a \<open>Config\<close>.\<close>

record migration_lib =
  mlParse :: "bytes \<Rightarrow> yaml_node option"
  mlEncode :: "yaml_node \<Rightarrow> bytes option"
  mlMarshal :: "yaml_node \<Rightarrow> bytes option"
  mlDecodes :: "bytes \<Rightarrow> bool"

text \<open>The content of the root mapping, and the result so far, as the steps change them.\<close>

type_synonym migration_state = "yaml_node list \<times> migration_result"

definition mappingPair :: "yaml_node list \<Rightarrow> string \<Rightarrow> (yaml_node \<times> yaml_node \<times> nat) option" where
  "mappingPair content key = map_option (\<lambda>i. (content ! i, content ! (i + 1), i)) (keyIndex key content)"

definition appendMappingPair :: "string \<Rightarrow> yaml_node \<Rightarrow> yaml_node list \<Rightarrow> yaml_node list" where
  "appendMappingPair key v content = content @ [YamlNode ScalarNode ''!!str'' key [] None, v]"

definition removeMappingPair :: "nat \<Rightarrow> yaml_node list \<Rightarrow> yaml_node list" where
  "removeMappingPair index content = take index content @ drop (index + 2) content"

fun renameKey :: "string \<Rightarrow> yaml_node \<Rightarrow> yaml_node" where
  "renameKey key (YamlNode k t v cs a) = YamlNode k t key cs a"

definition sameNode :: "migration_lib \<Rightarrow> yaml_node \<Rightarrow> yaml_node \<Rightarrow> bool" where
  "sameNode lib l r = (mlMarshal lib l \<noteq> None \<and> mlMarshal lib l = mlMarshal lib r)"

definition acted :: "string \<Rightarrow> migration_result \<Rightarrow> migration_result" where
  "acted action r = r\<lparr>mrChanged := True, mrActions := mrActions r @ [action]\<rparr>"

definition migrateScalarAlias :: "string \<Rightarrow> string \<Rightarrow> migration_state \<Rightarrow> migrate_error + migration_state" where
  "migrateScalarAlias alias target s =
     (case s of (rootc, result) \<Rightarrow>
        case mappingPair rootc alias of
          None \<Rightarrow> Inr (rootc, result)
        | Some (aliasKey, aliasValue, aliasIndex) \<Rightarrow>
            if ynKind aliasValue \<noteq> ScalarNode then Inl (AliasNotScalar alias target)
            else (case mappingPair rootc target of
                    None \<Rightarrow> Inr (rootc[aliasIndex := renameKey target aliasKey], acted (alias @ '' -> '' @ target) result)
                  | Some (_, targetValue, targetIndex) \<Rightarrow>
                      let aliasText = trim_space (ynValue aliasValue);
                          targetText = trim_space (ynValue targetValue)
                      in if ynKind targetValue \<noteq> ScalarNode then Inl (TargetNotScalar target)
                         else if targetText = [] \<and> aliasText \<noteq> [] then
                           Inr (removeMappingPair aliasIndex (rootc[targetIndex + 1 := aliasValue]),
                                acted (alias @ '' -> '' @ target) result)
                         else if targetText = aliasText then
                           Inr (removeMappingPair aliasIndex rootc, acted (''remove duplicate '' @ alias) result)
                         else Inl (DifferentValues alias target)))"

fun setValue :: "string \<Rightarrow> yaml_node \<Rightarrow> yaml_node" where
  "setValue v' (YamlNode k t v cs a) = YamlNode k t v' cs a"

text \<open>\<open>migrateOperationMode\<close>, with the assignment \<open>result.Changed = true\<close> of its caller.\<close>

definition migrateOperationMode :: "migration_state \<Rightarrow> migration_state" where
  "migrateOperationMode s =
     (case s of (rootc, result) \<Rightarrow>
        case mappingPair rootc ''operation_mode'' of
          None \<Rightarrow> (rootc, result)
        | Some (_, v, index) \<Rightarrow>
            if ynKind v \<noteq> ScalarNode \<or> trim_space (ynValue v) \<noteq> ''observe'' then (rootc, result)
            else (rootc[index + 1 := setValue ''bridge-observe'' v],
                  acted ''operation_mode observe -> bridge-observe'' result))"

definition emptyMapping :: yaml_node where
  "emptyMapping = YamlNode MappingNode ''!!map'' [] [] None"

text \<open>The node of \<open>bridge_observe\<close>, appended when it is missing, and its index in the root.\<close>

definition bridgeObserveNode :: "yaml_node list \<Rightarrow> migrate_error + (yaml_node list \<times> yaml_node \<times> nat)" where
  "bridgeObserveNode rootc =
     (case mappingPair rootc ''bridge_observe'' of
        Some (_, v, index) \<Rightarrow> if ynKind v \<noteq> MappingNode then Inl BridgeNotMapping else Inr (rootc, v, index)
      | None \<Rightarrow> Inr (appendMappingPair ''bridge_observe'' emptyMapping rootc, emptyMapping, length rootc))"

fun setContent :: "yaml_node list \<Rightarrow> yaml_node \<Rightarrow> yaml_node" where
  "setContent cs' (YamlNode k t v cs a) = YamlNode k t v cs' a"

definition migrateBridgeAlias :: "string \<Rightarrow> string \<Rightarrow> migration_state \<Rightarrow> migrate_error + migration_state" where
  "migrateBridgeAlias alias target s =
     (case s of (rootc, result) \<Rightarrow>
        case mappingPair rootc alias of
          None \<Rightarrow> Inr (rootc, result)
        | Some (_, aliasValue, aliasIndex) \<Rightarrow>
            let aliasText = trim_space (ynValue aliasValue) in
            if ynKind aliasValue \<noteq> ScalarNode then Inl (AliasNotScalar alias target)
            else if aliasText = [] then Inr (rootc, result)
            else (case bridgeObserveNode rootc of
                    Inl e \<Rightarrow> Inl e
                  | Inr (root1, bridge, bridgeIndex) \<Rightarrow>
                      let put = (\<lambda>content. root1[bridgeIndex + 1 := setContent content bridge]);
                          moved = alias @ '' -> bridge_observe.'' @ target
                      in (case mappingPair (ynContent bridge) target of
                            None \<Rightarrow>
                              Inr (removeMappingPair aliasIndex (put (appendMappingPair target aliasValue (ynContent bridge))),
                                   acted moved result)
                          | Some (_, targetValue, targetIndex) \<Rightarrow>
                              if ynKind targetValue \<noteq> ScalarNode then Inl (TargetNotScalar target)
                              else if trim_space (ynValue targetValue) = [] then
                                Inr (removeMappingPair aliasIndex (put ((ynContent bridge)[targetIndex + 1 := aliasValue])),
                                     acted moved result)
                              else if trim_space (ynValue targetValue) = aliasText then
                                Inr (removeMappingPair aliasIndex root1, acted (''remove duplicate '' @ alias) result)
                              else Inl (DifferentValues alias target))))"

definition migrateNodeAlias ::
  "migration_lib \<Rightarrow> string \<Rightarrow> string \<Rightarrow> migration_state \<Rightarrow> migrate_error + migration_state" where
  "migrateNodeAlias lib alias target s =
     (case s of (rootc, result) \<Rightarrow>
        case mappingPair rootc alias of
          None \<Rightarrow> Inr (rootc, result)
        | Some (aliasKey, aliasValue, aliasIndex) \<Rightarrow>
            (case mappingPair rootc target of
               None \<Rightarrow> Inr (rootc[aliasIndex := renameKey target aliasKey], acted (alias @ '' -> '' @ target) result)
             | Some (_, targetValue, _) \<Rightarrow>
                 if sameNode lib aliasValue targetValue then
                   Inr (removeMappingPair aliasIndex rootc, acted (''remove duplicate '' @ alias) result)
                 else Inl (DifferentValues alias target)))"

definition bindE :: "'e + 'a \<Rightarrow> ('a \<Rightarrow> 'e + 'b) \<Rightarrow> 'e + 'b" where
  "bindE x f = (case x of Inl e \<Rightarrow> Inl e | Inr y \<Rightarrow> f y)"

text \<open>The steps of \<open>MigrateData\<close> between parsing and encoding, in their order.\<close>

definition migrateRoot :: "migration_lib \<Rightarrow> migration_state \<Rightarrow> migrate_error + migration_state" where
  "migrateRoot lib s =
     bindE (migrateScalarAlias ''controller'' ''controller_url'' s) (\<lambda>s.
     bindE (migrateScalarAlias ''inform_url'' ''controller_url'' s) (\<lambda>s.
     bindE (Inr (migrateOperationMode s)) (\<lambda>s.
     bindE (migrateBridgeAlias ''observe_bridge'' ''bridge'' s) (\<lambda>s.
     bindE (migrateBridgeAlias ''observe_interface'' ''uplink_interface'' s)
       (migrateNodeAlias lib ''port_map'' ''port_mappings'')))))"

text \<open>The document and the content of its root.\<close>

definition parseMigrationDoc :: "migration_lib \<Rightarrow> bytes \<Rightarrow> migrate_error + (yaml_node \<times> yaml_node)" where
  "parseMigrationDoc lib data =
     (case mlParse lib data of
        None \<Rightarrow> Inl MigrateParse
      | Some doc \<Rightarrow>
          if ynKind doc \<noteq> DocumentNode \<or> ynContent doc = [] then Inl NotOneDocument
          else if ynKind (hd (ynContent doc)) \<noteq> MappingNode then Inl NotMappingDocument
          else Inr (doc, hd (ynContent doc)))"

definition withRoot :: "yaml_node \<Rightarrow> yaml_node list \<Rightarrow> yaml_node" where
  "withRoot doc content = setContent (setContent content (hd (ynContent doc)) # tl (ynContent doc)) doc"

definition MigrateData :: "migration_lib \<Rightarrow> bytes \<Rightarrow> migrate_error + migration_result" where
  "MigrateData lib data =
     bindE (parseMigrationDoc lib data) (\<lambda>(doc, r).
     bindE (migrateRoot lib (ynContent r, \<lparr>mrData = data, mrChanged = False, mrActions = []\<rparr>)) (\<lambda>(content, result).
       if \<not> mrChanged result then Inr result
       else (case mlEncode lib (withRoot doc content) of
               None \<Rightarrow> Inl MigrateEncode
             | Some out \<Rightarrow> if mlDecodes lib out then Inr (result\<lparr>mrData := out\<rparr>) else Inl MigratedInvalid)))"

section \<open>Mappings as maps\<close>

text \<open>On a mapping with distinct keys the list operations are the operations of a finite map.\<close>

definition proper :: "yaml_node list \<Rightarrow> bool" where
  "proper cs \<longleftrightarrow> even (length cs) \<and> distinct (yamlKeys cs)"

lemma mappingPair_get:
  "mappingPair cs key = None \<longleftrightarrow> yamlGet cs key = None"
  "mappingPair cs key = Some (k, v, i) \<Longrightarrow> keyIndex key cs = Some i \<and> k = cs ! i \<and> v = cs ! (i + 1) \<and> yamlGet cs key = Some v"
  by (auto simp: mappingPair_def yamlGet_def)

lemma yamlKeys_append: "even (length cs) \<Longrightarrow> yamlKeys (cs @ ds) = yamlKeys cs @ yamlKeys ds"
  by (induction cs rule: yamlKeys.induct) auto

lemma yamlGet_None: "yamlGet cs key = None \<longleftrightarrow> key \<notin> set (yamlKeys cs)"
  by (simp add: yamlGet_def keyIndex_None)

lemma append_pair:
  assumes "proper cs" and "yamlGet cs key = None"
  shows "proper (appendMappingPair key v cs)" "yamlGet (appendMappingPair key v cs) = (yamlGet cs)(key \<mapsto> v)"
  using assms
  by (auto simp: proper_def appendMappingPair_def yamlKeys_append yamlGet_None [symmetric] yamlGet_append fun_eq_iff
      split: option.splits)

lemma keyIndex_update: "keyIndex key cs = Some i \<Longrightarrow> keyIndex key' (cs[i + 1 := v]) = keyIndex key' cs"
  by (induction cs arbitrary: i rule: yamlKeys.induct) (auto split: if_splits)

lemma update_value:
  assumes "keyIndex key cs = Some i"
  shows "proper (cs[i + 1 := v]) = proper cs" "yamlGet (cs[i + 1 := v]) = (yamlGet cs)(key \<mapsto> v)"
proof -
  have "yamlKeys (cs[i + 1 := v]) = yamlKeys cs"
    using assms by (induction cs arbitrary: i rule: yamlKeys.induct) (auto split: if_splits)
  then show "proper (cs[i + 1 := v]) = proper cs" by (simp add: proper_def)
  show "yamlGet (cs[i + 1 := v]) = (yamlGet cs)(key \<mapsto> v)"
    using yamlGet_update [OF assms] by (auto simp: fun_eq_iff)
qed

lemma remove_pair_gen:
  assumes "keyIndex key cs = Some i" and "distinct (yamlKeys cs)"
  shows "yamlKeys (removeMappingPair i cs) = remove1 key (yamlKeys cs) \<and>
    yamlGet (removeMappingPair i cs) = (yamlGet cs)(key := None)"
  using assms
proof (induction cs arbitrary: i rule: yamlKeys.induct)
  case (1 k v rest)
  show ?case
  proof (cases "ynValue k = key")
    case True
    then show ?thesis using 1 by (auto simp: removeMappingPair_def fun_eq_iff yamlGet_None)
  next
    case False
    then obtain j where j: "keyIndex key rest = Some j" "i = j + 2" using 1(2) by auto
    have "removeMappingPair i (k # v # rest) = k # v # removeMappingPair j rest" by (simp add: removeMappingPair_def j)
    then show ?thesis using 1(1) [OF j(1)] 1(3) False by (auto simp: fun_eq_iff)
  qed
qed auto

lemma remove_pair:
  assumes "keyIndex key cs = Some i" and "proper cs"
  shows "proper (removeMappingPair i cs)" "yamlGet (removeMappingPair i cs) = (yamlGet cs)(key := None)"
proof -
  note r = remove_pair_gen [OF assms(1)]
  have "even (length (removeMappingPair i cs))"
    using keyIndex_bounds [OF assms(1)] assms(2) by (auto simp: removeMappingPair_def proper_def)
  then show "proper (removeMappingPair i cs)" using r assms(2) by (simp add: proper_def distinct_remove1)
  show "yamlGet (removeMappingPair i cs) = (yamlGet cs)(key := None)" using r assms(2) by (simp add: proper_def)
qed

lemma ynValue_renameKey [simp]: "ynValue (renameKey t n) = t"
  by (cases n) simp

lemma rename_pair_gen:
  assumes "keyIndex key cs = Some i" and "distinct (yamlKeys cs)" and "yamlGet cs t = None"
  shows "distinct (yamlKeys (cs[i := renameKey t (cs ! i)])) \<and>
    set (yamlKeys (cs[i := renameKey t (cs ! i)])) \<subseteq> insert t (set (yamlKeys cs)) \<and>
    yamlGet (cs[i := renameKey t (cs ! i)]) = (yamlGet cs)(key := None, t := yamlGet cs key)"
  using assms
proof (induction cs arbitrary: i rule: yamlKeys.induct)
  case (1 k v rest)
  show ?case
  proof (cases "ynValue k = key")
    case True
    then show ?thesis using 1 by (auto simp: fun_eq_iff yamlGet_None split: if_splits)
  next
    case False
    then obtain j where j: "keyIndex key rest = Some j" "i = j + 2" using 1(2) by auto
    have t: "ynValue k \<noteq> t" "yamlGet rest t = None" using 1(4) by (auto split: if_splits)
    then show ?thesis using 1(1) [OF j(1) _ t(2)] 1(3) False j by (auto simp: fun_eq_iff)
  qed
qed auto

lemma rename_pair:
  assumes "keyIndex key cs = Some i" and "proper cs" and "yamlGet cs t = None"
  shows "proper (cs[i := renameKey t (cs ! i)])"
    "yamlGet (cs[i := renameKey t (cs ! i)]) = (yamlGet cs)(key := None, t := yamlGet cs key)"
  using rename_pair_gen [OF assms(1) _ assms(3)] assms(2) by (auto simp: proper_def)

section \<open>Each step on the map of the document\<close>

definition yamlText0 :: "yaml_node option \<Rightarrow> string" where
  "yamlText0 v = (case v of None \<Rightarrow> [] | Some n \<Rightarrow> trim_space (ynValue n))"

lemma yamlText0_simps [simp]: "yamlText0 None = []" "yamlText0 (Some n) = trim_space (ynValue n)"
  by (simp_all add: yamlText0_def)

lemma acted_simps [simp]: "mrChanged (acted a r)" "mrData (acted a r) = mrData r"
  by (simp_all add: acted_def)

lemma scalarAlias_absent: "yamlGet c a = None \<Longrightarrow> migrateScalarAlias a t (c, r) = Inr (c, r)"
  by (simp add: migrateScalarAlias_def mappingPair_get(1) [symmetric])

lemma scalarAlias_effect:
  assumes "migrateScalarAlias a t (c, r) = Inr (c', r')" and "proper c" and "a \<noteq> t"
  shows "proper c' \<and> yamlGet c' a = None \<and> (\<forall>k. k \<noteq> a \<longrightarrow> k \<noteq> t \<longrightarrow> yamlGet c' k = yamlGet c k) \<and>
    (yamlGet c a \<noteq> None \<longrightarrow> yamlGet c' t \<noteq> None \<and> yamlText0 (yamlGet c' t) = yamlText0 (yamlGet c a)) \<and>
    (yamlGet c a = None \<or> yamlText0 (yamlGet c t) \<noteq> [] \<longrightarrow> yamlGet c' t = yamlGet c t)"
proof (cases "mappingPair c a")
  case None
  then have n: "yamlGet c a = None" by (simp add: mappingPair_get(1))
  then have "c' = c" using assms(1) by (simp add: scalarAlias_absent)
  then show ?thesis using n assms(2) by simp
next
  case (Some kv)
  then obtain k v i where a: "mappingPair c a = Some (k, v, i)" by (cases kv) auto
  note A = mappingPair_get(2) [OF a]
  show ?thesis
  proof (cases "mappingPair c t")
    case None
    then have t: "yamlGet c t = None" by (simp add: mappingPair_get(1))
    have "c' = c[i := renameKey t (c ! i)]"
      using assms(1) a None A by (auto simp: migrateScalarAlias_def split: if_splits)
    then show ?thesis using rename_pair [of a c i t] A t assms(2,3) by auto
  next
    case (Some kw)
    then obtain k' w j where t: "mappingPair c t = Some (k', w, j)" by (cases kw) auto
    note T = mappingPair_get(2) [OF t]
    have cases: "c' = removeMappingPair i (c[j + 1 := v]) \<and> trim_space (ynValue w) = [] \<or>
        c' = removeMappingPair i c \<and> trim_space (ynValue w) = trim_space (ynValue v)"
      using assms(1) a t by (auto simp: migrateScalarAlias_def Let_def split: if_splits)
    have j: "keyIndex t c = Some j" "keyIndex a (c[j + 1 := v]) = Some i"
      using T A keyIndex_update [of t c j a v] by simp_all
    from cases show ?thesis
    proof
      assume c': "c' = removeMappingPair i (c[j + 1 := v]) \<and> trim_space (ynValue w) = []"
      then show ?thesis
        using remove_pair [OF j(2)] update_value [OF j(1), of v] assms(2,3) A T by auto
    next
      assume "c' = removeMappingPair i c \<and> trim_space (ynValue w) = trim_space (ynValue v)"
      then show ?thesis using remove_pair [of a c i] assms(2,3) A T by auto
    qed
  qed
qed

lemma operationMode_effect:
  assumes "migrateOperationMode (c, r) = (c', r')" and "proper c"
  shows "proper c' \<and> (\<forall>k. k \<noteq> ''operation_mode'' \<longrightarrow> yamlGet c' k = yamlGet c k) \<and>
    (\<forall>v. yamlGet c' ''operation_mode'' = Some v \<longrightarrow> ynKind v = ScalarNode \<longrightarrow> trim_space (ynValue v) \<noteq> ''observe'') \<and>
    (\<forall>v. yamlGet c ''operation_mode'' = Some v \<longrightarrow> ynKind v = ScalarNode \<longrightarrow>
       yamlText0 (yamlGet c' ''operation_mode'') =
         (if trim_space (ynValue v) = ''observe'' then ''bridge-observe'' else trim_space (ynValue v)))"
proof (cases "mappingPair c ''operation_mode''")
  case None
  then have "yamlGet c ''operation_mode'' = None" by (simp add: mappingPair_get(1))
  moreover have "c' = c" using assms(1) None by (simp add: migrateOperationMode_def)
  ultimately show ?thesis using assms(2) by simp
next
  case (Some kv)
  then obtain k v i where m: "mappingPair c ''operation_mode'' = Some (k, v, i)" by (cases kv) auto
  note M = mappingPair_get(2) [OF m]
  have t: "trim_space ''bridge-observe'' = ''bridge-observe''" by code_simp
  have v: "ynValue (setValue ''bridge-observe'' v) = ''bridge-observe''" by (cases v) simp
  show ?thesis
  proof (cases "ynKind v \<noteq> ScalarNode \<or> trim_space (ynValue v) \<noteq> ''observe''")
    case True
    then have "c' = c" using assms(1) m by (simp add: migrateOperationMode_def)
    then show ?thesis using assms(2) M True by auto
  next
    case False
    then have "c' = c[i + 1 := setValue ''bridge-observe'' v]" using assms(1) m by (simp add: migrateOperationMode_def)
    moreover have "ynKind v = ScalarNode \<and> trim_space (ynValue v) = ''observe''" using False by simp
    ultimately show ?thesis using update_value [of "''operation_mode''" c i] M assms(2) v t by simp
  qed
qed

definition bridgeGet :: "yaml_node list \<Rightarrow> string \<Rightarrow> yaml_node option" where
  "bridgeGet c k = (case yamlGet c ''bridge_observe'' of None \<Rightarrow> None | Some b \<Rightarrow> yamlGet (ynContent b) k)"

definition proper_bridge :: "yaml_node list \<Rightarrow> bool" where
  "proper_bridge c \<longleftrightarrow> (case yamlGet c ''bridge_observe'' of None \<Rightarrow> True | Some b \<Rightarrow> proper (ynContent b))"

definition blank_scalar :: "yaml_node option \<Rightarrow> bool" where
  "blank_scalar v \<longleftrightarrow> (case v of None \<Rightarrow> True | Some n \<Rightarrow> ynKind n = ScalarNode \<and> trim_space (ynValue n) = [])"

lemma keyIndex_append:
  "even (length cs) \<Longrightarrow> keyIndex key (cs @ [k, v]) =
     (case keyIndex key cs of Some i \<Rightarrow> Some i | None \<Rightarrow> if ynValue k = key then Some (length cs) else None)"
  by (induction cs rule: yamlKeys.induct) (auto split: option.splits)

lemma bridgeObserveNode_effect:
  assumes "bridgeObserveNode c = Inr (c1, b, bi)" and "proper c" and "proper_bridge c"
  shows "proper c1" "keyIndex ''bridge_observe'' c1 = Some bi" "yamlGet c1 = (yamlGet c)(''bridge_observe'' \<mapsto> b)"
    "yamlGet (ynContent b) = bridgeGet c" "proper (ynContent b)"
    "keyIndex a c = Some i \<Longrightarrow> a \<noteq> ''bridge_observe'' \<Longrightarrow> keyIndex a c1 = Some i"
proof -
  have "proper c1 \<and> keyIndex ''bridge_observe'' c1 = Some bi \<and> yamlGet c1 = (yamlGet c)(''bridge_observe'' \<mapsto> b) \<and>
    yamlGet (ynContent b) = bridgeGet c \<and> proper (ynContent b) \<and>
    (keyIndex a c = Some i \<longrightarrow> a \<noteq> ''bridge_observe'' \<longrightarrow> keyIndex a c1 = Some i)"
  proof (cases "mappingPair c ''bridge_observe''")
    case None
    then have n: "yamlGet c ''bridge_observe'' = None" "keyIndex ''bridge_observe'' c = None"
      by (simp_all add: mappingPair_def yamlGet_def)
    have c1: "c1 = appendMappingPair ''bridge_observe'' emptyMapping c" "b = emptyMapping" "bi = length c"
      using assms(1) None by (simp_all add: bridgeObserveNode_def)
    have "even (length c)" using assms(2) by (simp add: proper_def)
    then show ?thesis
      using append_pair [OF assms(2) n(1), of emptyMapping] n(2)
      by (simp add: c1 appendMappingPair_def keyIndex_append bridgeGet_def fun_eq_iff emptyMapping_def proper_def n(1))
  next
    case (Some kv)
    then obtain k v j where m: "mappingPair c ''bridge_observe'' = Some (k, v, j)" by (cases kv) auto
    note M = mappingPair_get(2) [OF m]
    have "c1 = c" "b = v" "bi = j" using assms(1) m by (auto simp: bridgeObserveNode_def split: if_splits)
    then show ?thesis using M assms(2,3) by (auto simp: bridgeGet_def proper_bridge_def fun_eq_iff)
  qed
  then show "proper c1" "keyIndex ''bridge_observe'' c1 = Some bi" "yamlGet c1 = (yamlGet c)(''bridge_observe'' \<mapsto> b)"
    "yamlGet (ynContent b) = bridgeGet c" "proper (ynContent b)"
    "keyIndex a c = Some i \<Longrightarrow> a \<noteq> ''bridge_observe'' \<Longrightarrow> keyIndex a c1 = Some i" by blast+
qed

lemma setContent_simps [simp]: "ynContent (setContent cs n) = cs" "ynKind (setContent cs n) = ynKind n"
  by (cases n; simp)+

text \<open>What a legacy bridge key leaves: the key is gone (or was blank), nothing but \<open>bridge_observe\<close>
  changed, and in it the target has the text of the alias, unless it had a text of its own.\<close>

definition bridge_moved :: "string \<Rightarrow> string \<Rightarrow> yaml_node list \<Rightarrow> yaml_node list \<Rightarrow> bool" where
  "bridge_moved a t c c' \<longleftrightarrow>
     blank_scalar (yamlGet c' a) \<and>
     (\<forall>k. k \<noteq> a \<longrightarrow> k \<noteq> ''bridge_observe'' \<longrightarrow> yamlGet c' k = yamlGet c k) \<and>
     (yamlText0 (yamlGet c a) \<noteq> [] \<longrightarrow> yamlText0 (bridgeGet c' t) = yamlText0 (yamlGet c a)) \<and>
     (yamlText0 (yamlGet c a) = [] \<or> yamlText0 (bridgeGet c t) \<noteq> [] \<longrightarrow> bridgeGet c' t = bridgeGet c t) \<and>
     (\<forall>k. k \<noteq> t \<longrightarrow> bridgeGet c' k = bridgeGet c k)"

lemma bridge_put:
  assumes b: "bridgeObserveNode c = Inr (c1, b, bi)" and p: "proper c" "proper_bridge c"
    and a: "keyIndex a c = Some i" "a \<noteq> ''bridge_observe''" and q: "proper content"
  defines "c' \<equiv> removeMappingPair i (c1[bi + 1 := setContent content b])"
  shows "proper c'" "proper_bridge c'" "yamlGet c' a = None" "bridgeGet c' = yamlGet content"
    "k \<noteq> a \<Longrightarrow> k \<noteq> ''bridge_observe'' \<Longrightarrow> yamlGet c' k = yamlGet c k"
proof -
  note B = bridgeObserveNode_effect [OF b p]
  have i: "keyIndex a (c1[bi + 1 := setContent content b]) = Some i"
    using B(6) [OF a] keyIndex_update [OF B(2), of a] by simp
  have pc: "proper (c1[bi + 1 := setContent content b])" using update_value(1) [OF B(2)] B(1) by simp
  have g: "yamlGet c' = (yamlGet c)(''bridge_observe'' \<mapsto> setContent content b, a := None)"
    using remove_pair(2) [OF i pc] update_value(2) [OF B(2)] B(3) by (simp add: c'_def)
  show "proper c'" using remove_pair(1) [OF i pc] by (simp add: c'_def)
  show "proper_bridge c'" using q a(2) by (simp add: proper_bridge_def g)
  show "yamlGet c' a = None" "bridgeGet c' = yamlGet content"
    "k \<noteq> a \<Longrightarrow> k \<noteq> ''bridge_observe'' \<Longrightarrow> yamlGet c' k = yamlGet c k"
    using a(2) by (simp_all add: g bridgeGet_def fun_eq_iff)
qed

lemma bridgeAlias_effect:
  assumes "migrateBridgeAlias a t (c, r) = Inr (c', r')" and p: "proper c" "proper_bridge c" and ab: "a \<noteq> ''bridge_observe''"
  shows "proper c' \<and> proper_bridge c' \<and> bridge_moved a t c c'"
proof (cases "mappingPair c a")
  case None
  then have n: "yamlGet c a = None" by (simp add: mappingPair_get(1))
  have "c' = c" using assms(1) None by (simp add: migrateBridgeAlias_def)
  then show ?thesis using n p by (simp add: bridge_moved_def blank_scalar_def)
next
  case (Some kv)
  then obtain k v i where a: "mappingPair c a = Some (k, v, i)" by (cases kv) auto
  note A = mappingPair_get(2) [OF a]
  have sc: "ynKind v = ScalarNode" using assms(1) a by (auto simp: migrateBridgeAlias_def Let_def split: if_splits)
  show ?thesis
  proof (cases "trim_space (ynValue v) = []")
    case True
    then have "c' = c" using assms(1) a sc by (simp add: migrateBridgeAlias_def)
    then show ?thesis using True sc A p by (simp add: bridge_moved_def blank_scalar_def)
  next
    case False
    then obtain c1 b bi where b: "bridgeObserveNode c = Inr (c1, b, bi)"
      using assms(1) a sc by (auto simp: migrateBridgeAlias_def Let_def split: sum.splits)
    note B = bridgeObserveNode_effect [OF b p]
    have ka: "keyIndex a c = Some i" and ga: "yamlGet c a = Some v" using A by simp_all
    show ?thesis
    proof (cases "mappingPair (ynContent b) t")
      case None
      then have n: "yamlGet (ynContent b) t = None" by (simp add: mappingPair_get(1))
      have c': "c' = removeMappingPair i (c1[bi + 1 := setContent (appendMappingPair t v (ynContent b)) b])"
        using assms(1) a sc False b None by (simp add: migrateBridgeAlias_def Let_def)
      note P = bridge_put [OF b p ka ab append_pair(1) [OF B(5) n, of v], folded c']
      have "bridgeGet c t = None" using n B(4) by (simp add: fun_eq_iff)
      then show ?thesis
        using P append_pair(2) [OF B(5) n, of v] B(4) ga False
        by (simp add: bridge_moved_def blank_scalar_def)
    next
      case (Some kw)
      then obtain k' w j where t: "mappingPair (ynContent b) t = Some (k', w, j)" by (cases kw) auto
      note T = mappingPair_get(2) [OF t]
      have gt: "bridgeGet c t = Some w" "keyIndex t (ynContent b) = Some j" using T B(4) by auto
      show ?thesis
      proof (cases "trim_space (ynValue w) = []")
        case True
        then have c': "c' = removeMappingPair i (c1[bi + 1 := setContent ((ynContent b)[j + 1 := v]) b])"
          using assms(1) a sc False b t by (auto simp: migrateBridgeAlias_def Let_def split: if_splits)
        have q: "proper ((ynContent b)[j + 1 := v])" using update_value(1) [OF gt(2)] B(5) by simp
        note P = bridge_put [OF b p ka ab q, folded c']
        show ?thesis
          using P update_value(2) [OF gt(2), of v] B(4) ga gt(1) True False
          by (simp add: bridge_moved_def blank_scalar_def)
      next
        case w: False
        then have c': "c' = removeMappingPair i c1" and eq: "trim_space (ynValue w) = trim_space (ynValue v)"
          using assms(1) a sc False b t by (auto simp: migrateBridgeAlias_def Let_def split: if_splits)
        have same: "c1[bi + 1 := setContent (ynContent b) b] = c1"
        proof -
          have "setContent (ynContent b) b = b" by (cases b) simp
          moreover have "c1 ! (bi + 1) = b" using B(2,3) by (auto simp: yamlGet_def fun_eq_iff dest: spec [of _ "''bridge_observe''"])
          ultimately show ?thesis by (metis list_update_id)
        qed
        note P = bridge_put [OF b p ka ab B(5), unfolded same, folded c']
        show ?thesis
          using P B(4) ga gt(1) w eq False by (simp add: bridge_moved_def blank_scalar_def)
      qed
    qed
  qed
qed

lemma nodeAlias_effect:
  assumes "migrateNodeAlias lib a t (c, r) = Inr (c', r')" and "proper c" and "a \<noteq> t"
  shows "proper c' \<and> yamlGet c' a = None \<and> (\<forall>k. k \<noteq> a \<longrightarrow> k \<noteq> t \<longrightarrow> yamlGet c' k = yamlGet c k) \<and>
    (yamlGet c t \<noteq> None \<longrightarrow> yamlGet c' t = yamlGet c t) \<and>
    (\<forall>v. yamlGet c a = Some v \<longrightarrow> (\<exists>w. yamlGet c' t = Some w \<and> (w = v \<or> sameNode lib v w))) \<and>
    (yamlGet c a = None \<longrightarrow> c' = c)"
proof (cases "mappingPair c a")
  case None
  then have n: "yamlGet c a = None" by (simp add: mappingPair_get(1))
  have "c' = c" using assms(1) None by (simp add: migrateNodeAlias_def)
  then show ?thesis using n assms(2) by simp
next
  case (Some kv)
  then obtain k v i where a: "mappingPair c a = Some (k, v, i)" by (cases kv) auto
  note A = mappingPair_get(2) [OF a]
  show ?thesis
  proof (cases "mappingPair c t")
    case None
    then have t: "yamlGet c t = None" by (simp add: mappingPair_get(1))
    have "c' = c[i := renameKey t (c ! i)]" using assms(1) a None A by (simp add: migrateNodeAlias_def)
    then show ?thesis using rename_pair [of a c i t] A t assms(2,3) by auto
  next
    case (Some kw)
    then obtain k' w j where t: "mappingPair c t = Some (k', w, j)" by (cases kw) auto
    note T = mappingPair_get(2) [OF t]
    have "c' = removeMappingPair i c" "sameNode lib v w"
      using assms(1) a t by (auto simp: migrateNodeAlias_def split: if_splits)
    then show ?thesis using remove_pair [of a c i] assms(2,3) A T by auto
  qed
qed

text \<open>A step that does not report a change has not changed the document.\<close>

lemma migrateRoot_split:
  assumes "migrateRoot lib (c, r) = Inr (c', r')"
  obtains c1 r1 c2 r2 c3 r3 c4 r4 c5 r5 where
    "migrateScalarAlias ''controller'' ''controller_url'' (c, r) = Inr (c1, r1)"
    "migrateScalarAlias ''inform_url'' ''controller_url'' (c1, r1) = Inr (c2, r2)"
    "migrateOperationMode (c2, r2) = (c3, r3)"
    "migrateBridgeAlias ''observe_bridge'' ''bridge'' (c3, r3) = Inr (c4, r4)"
    "migrateBridgeAlias ''observe_interface'' ''uplink_interface'' (c4, r4) = Inr (c5, r5)"
    "migrateNodeAlias lib ''port_map'' ''port_mappings'' (c5, r5) = Inr (c', r')"
proof -
  obtain s1 s2 s4 s5 where steps: "migrateScalarAlias ''controller'' ''controller_url'' (c, r) = Inr s1"
    "migrateScalarAlias ''inform_url'' ''controller_url'' s1 = Inr s2"
    "migrateBridgeAlias ''observe_bridge'' ''bridge'' (migrateOperationMode s2) = Inr s4"
    "migrateBridgeAlias ''observe_interface'' ''uplink_interface'' s4 = Inr s5"
    "migrateNodeAlias lib ''port_map'' ''port_mappings'' s5 = Inr (c', r')"
    using assms by (auto simp: migrateRoot_def bindE_def split: sum.splits)
  then show thesis
    using that [of "fst s1" "snd s1" "fst s2" "snd s2" "fst (migrateOperationMode s2)" "snd (migrateOperationMode s2)"
        "fst s4" "snd s4" "fst s5" "snd s5"] by simp
qed

text \<open>No legacy key carries a value any more.\<close>

definition settled :: "yaml_node list \<Rightarrow> bool" where
  "settled c \<longleftrightarrow> yamlGet c ''controller'' = None \<and> yamlGet c ''inform_url'' = None \<and> yamlGet c ''port_map'' = None \<and>
     blank_scalar (yamlGet c ''observe_bridge'') \<and> blank_scalar (yamlGet c ''observe_interface'') \<and>
     (case yamlGet c ''operation_mode'' of None \<Rightarrow> True
        | Some v \<Rightarrow> ynKind v \<noteq> ScalarNode \<or> trim_space (ynValue v) \<noteq> ''observe'')"

lemma bridgeAlias_settled: "blank_scalar (yamlGet c a) \<Longrightarrow> migrateBridgeAlias a t (c, r) = Inr (c, r)"
proof (cases "mappingPair c a")
  case None then show ?thesis by (simp add: migrateBridgeAlias_def)
next
  case (Some kv)
  assume "blank_scalar (yamlGet c a)"
  moreover obtain k v i where "mappingPair c a = Some (k, v, i)" using Some by (cases kv) auto
  ultimately show ?thesis using mappingPair_get(2) [of c a k v i] by (simp add: migrateBridgeAlias_def blank_scalar_def)
qed

lemma operationMode_settled:
  assumes "case yamlGet c ''operation_mode'' of None \<Rightarrow> True
    | Some v \<Rightarrow> ynKind v \<noteq> ScalarNode \<or> trim_space (ynValue v) \<noteq> ''observe''"
  shows "migrateOperationMode (c, r) = (c, r)"
proof (cases "mappingPair c ''operation_mode''")
  case None then show ?thesis by (simp add: migrateOperationMode_def)
next
  case (Some kv)
  then obtain k v i where "mappingPair c ''operation_mode'' = Some (k, v, i)" by (cases kv) auto
  then show ?thesis using mappingPair_get(2) [of c "''operation_mode''" k v i] assms by (simp add: migrateOperationMode_def)
qed

lemma nodeAlias_absent: "yamlGet c a = None \<Longrightarrow> migrateNodeAlias lib a t (c, r) = Inr (c, r)"
  by (simp add: migrateNodeAlias_def mappingPair_get(1) [symmetric])

lemma migrateRoot_settled:
  assumes "settled c" shows "migrateRoot lib (c, r) = Inr (c, r)"
proof -
  have s: "yamlGet c ''controller'' = None" "yamlGet c ''inform_url'' = None" "yamlGet c ''port_map'' = None"
    "blank_scalar (yamlGet c ''observe_bridge'')" "blank_scalar (yamlGet c ''observe_interface'')"
    and m: "migrateOperationMode (c, r) = (c, r)"
    using assms operationMode_settled [of c r] by (simp_all only: settled_def)
  show ?thesis
    by (simp add: migrateRoot_def bindE_def scalarAlias_absent [OF s(1)] scalarAlias_absent [OF s(2)] m
        bridgeAlias_settled [OF s(4)] bridgeAlias_settled [OF s(5)] nodeAlias_absent [OF s(3)])
qed

text \<open>What the migration promises of a document: every legacy value is found under its new key, a value
  the operator already has there stays, and no other key changes.\<close>

definition legacyKeys :: "string list" where
  "legacyKeys = [''controller'', ''inform_url'', ''controller_url'', ''operation_mode'', ''observe_bridge'',
     ''observe_interface'', ''bridge_observe'', ''port_map'', ''port_mappings'']"

definition values_moved :: "migration_lib \<Rightarrow> yaml_node list \<Rightarrow> yaml_node list \<Rightarrow> bool" where
  "values_moved lib c c' \<longleftrightarrow>
     (\<forall>k. k \<notin> set legacyKeys \<longrightarrow> yamlGet c' k = yamlGet c k) \<and>
     (\<forall>a \<in> {''controller'', ''inform_url''}. yamlText0 (yamlGet c a) \<noteq> [] \<longrightarrow>
        yamlText0 (yamlGet c' ''controller_url'') = yamlText0 (yamlGet c a)) \<and>
     (yamlText0 (yamlGet c ''controller_url'') \<noteq> [] \<longrightarrow> yamlGet c' ''controller_url'' = yamlGet c ''controller_url'') \<and>
     (\<forall>v. yamlGet c ''operation_mode'' = Some v \<longrightarrow> ynKind v = ScalarNode \<longrightarrow>
        yamlText0 (yamlGet c' ''operation_mode'') =
          (if trim_space (ynValue v) = ''observe'' then ''bridge-observe'' else trim_space (ynValue v))) \<and>
     (yamlText0 (yamlGet c ''observe_bridge'') \<noteq> [] \<longrightarrow>
        yamlText0 (bridgeGet c' ''bridge'') = yamlText0 (yamlGet c ''observe_bridge'')) \<and>
     (yamlText0 (yamlGet c ''observe_interface'') \<noteq> [] \<longrightarrow>
        yamlText0 (bridgeGet c' ''uplink_interface'') = yamlText0 (yamlGet c ''observe_interface'')) \<and>
     (\<forall>k. k \<noteq> ''bridge'' \<longrightarrow> k \<noteq> ''uplink_interface'' \<longrightarrow> bridgeGet c' k = bridgeGet c k) \<and>
     (\<forall>v. yamlGet c ''port_map'' = Some v \<longrightarrow>
        (\<exists>w. yamlGet c' ''port_mappings'' = Some w \<and> (w = v \<or> sameNode lib v w)))"

lemma bridgeGet_cong: "yamlGet c' ''bridge_observe'' = yamlGet c ''bridge_observe'' \<Longrightarrow> bridgeGet c' k = bridgeGet c k"
  by (simp add: bridgeGet_def)

lemma migrateRoot_effect:
  assumes m: "migrateRoot lib (c, r) = Inr (c', r')" and p: "proper c" "proper_bridge c"
  shows "settled c' \<and> values_moved lib c c'"
proof -
  obtain c1 r1 c2 r2 c3 r3 c4 r4 c5 r5 where
    m1: "migrateScalarAlias ''controller'' ''controller_url'' (c, r) = Inr (c1, r1)" and
    m2: "migrateScalarAlias ''inform_url'' ''controller_url'' (c1, r1) = Inr (c2, r2)" and
    m3: "migrateOperationMode (c2, r2) = (c3, r3)" and
    m4: "migrateBridgeAlias ''observe_bridge'' ''bridge'' (c3, r3) = Inr (c4, r4)" and
    m5: "migrateBridgeAlias ''observe_interface'' ''uplink_interface'' (c4, r4) = Inr (c5, r5)" and
    m6: "migrateNodeAlias lib ''port_map'' ''port_mappings'' (c5, r5) = Inr (c', r')"
    by (rule migrateRoot_split [OF m])
  note e1 = scalarAlias_effect [OF m1 p(1), simplified]
  note e2 = scalarAlias_effect [OF m2 conjunct1 [OF e1], simplified]
  note e3 = operationMode_effect [OF m3 conjunct1 [OF e2]]
  note e3p = conjunct1 [OF e3] and e3k = conjunct1 [OF conjunct2 [OF e3]]
    and e3o = conjunct1 [OF conjunct2 [OF conjunct2 [OF e3]]] and e3m = conjunct2 [OF conjunct2 [OF conjunct2 [OF e3]]]
  have b3: "yamlGet c3 ''bridge_observe'' = yamlGet c ''bridge_observe''" using e1 e2 e3k by simp
  then have pb: "proper_bridge c3" using p(2) by (simp add: proper_bridge_def)
  have e4: "proper c4 \<and> proper_bridge c4 \<and> bridge_moved ''observe_bridge'' ''bridge'' c3 c4"
    using bridgeAlias_effect [OF m4 e3p pb] by simp
  have e5: "proper c5 \<and> proper_bridge c5 \<and> bridge_moved ''observe_interface'' ''uplink_interface'' c4 c5"
    using bridgeAlias_effect [OF m5] e4 by simp
  have e6: "yamlGet c' ''port_map'' = None \<and>
    (\<forall>k. k \<noteq> ''port_map'' \<longrightarrow> k \<noteq> ''port_mappings'' \<longrightarrow> yamlGet c' k = yamlGet c5 k) \<and>
    (\<forall>v. yamlGet c5 ''port_map'' = Some v \<longrightarrow> (\<exists>w. yamlGet c' ''port_mappings'' = Some w \<and> (w = v \<or> sameNode lib v w)))"
    using nodeAlias_effect [OF m6] e5 by simp
  note moved = e4 [unfolded bridge_moved_def] e5 [unfolded bridge_moved_def]
  have b: "bridgeGet c' k = bridgeGet c5 k" "bridgeGet c3 k = bridgeGet c k" for k
    by (rule bridgeGet_cong, simp add: e6) (rule bridgeGet_cong [OF b3])
  have k1: "yamlGet c1 k = yamlGet c k" if "k \<noteq> ''controller''" "k \<noteq> ''controller_url''" for k using e1 that by simp
  have k2: "yamlGet c2 k = yamlGet c1 k" if "k \<noteq> ''inform_url''" "k \<noteq> ''controller_url''" for k using e2 that by simp
  have k3: "yamlGet c3 k = yamlGet c2 k" if "k \<noteq> ''operation_mode''" for k using e3k that by simp
  have k4: "yamlGet c4 k = yamlGet c3 k" if "k \<noteq> ''observe_bridge''" "k \<noteq> ''bridge_observe''" for k
    using moved(1) that by simp
  have k5: "yamlGet c5 k = yamlGet c4 k" if "k \<noteq> ''observe_interface''" "k \<noteq> ''bridge_observe''" for k
    using moved(2) that by simp
  have k6: "yamlGet c' k = yamlGet c5 k" if "k \<noteq> ''port_map''" "k \<noteq> ''port_mappings''" for k using e6 that by simp
  note ks = k1 k2 k3 k4 k5 k6
  have "yamlGet c' ''controller'' = None" "yamlGet c' ''inform_url'' = None" "yamlGet c' ''port_map'' = None"
    using e1 e2 e6 by (simp_all add: ks)
  moreover have "blank_scalar (yamlGet c' ''observe_bridge'')" "blank_scalar (yamlGet c' ''observe_interface'')"
    using moved by (simp_all add: ks)
  moreover have "yamlGet c' ''operation_mode'' = yamlGet c3 ''operation_mode''" by (simp add: ks)
  ultimately have "settled c'"
    using e3o by (simp add: settled_def split: option.splits)
  moreover have "values_moved lib c c'"
    unfolding values_moved_def
  proof (intro conjI)
    show "\<forall>k. k \<notin> set legacyKeys \<longrightarrow> yamlGet c' k = yamlGet c k"
      by (simp add: legacyKeys_def ks)
    show "\<forall>a\<in>{''controller'', ''inform_url''}. yamlText0 (yamlGet c a) \<noteq> [] \<longrightarrow>
        yamlText0 (yamlGet c' ''controller_url'') = yamlText0 (yamlGet c a)"
    proof (intro ballI impI)
      fix a assume a: "a \<in> {''controller'', ''inform_url''}" and t: "yamlText0 (yamlGet c a) \<noteq> []"
      then have n: "yamlGet c a \<noteq> None" by (cases "yamlGet c a") simp_all
      have u: "yamlGet c' ''controller_url'' = yamlGet c2 ''controller_url''" by (simp add: ks)
      show "yamlText0 (yamlGet c' ''controller_url'') = yamlText0 (yamlGet c a)"
      proof (cases "a = ''controller''")
        case True
        then have "yamlText0 (yamlGet c1 ''controller_url'') = yamlText0 (yamlGet c a)" using e1 n by blast
        then have "yamlGet c2 ''controller_url'' = yamlGet c1 ''controller_url''" using e2 t by simp
        then show ?thesis using u True \<open>yamlText0 (yamlGet c1 ''controller_url'') = yamlText0 (yamlGet c a)\<close> by simp
      next
        case False
        then have i: "a = ''inform_url''" using a by simp
        have "yamlGet c1 ''inform_url'' = yamlGet c ''inform_url''" by (simp add: ks)
        then show ?thesis using e2 n u i by simp
      qed
    qed
    show "yamlText0 (yamlGet c ''controller_url'') \<noteq> [] \<longrightarrow> yamlGet c' ''controller_url'' = yamlGet c ''controller_url''"
      using e1 e2 by (simp add: ks)
    show "\<forall>v. yamlGet c ''operation_mode'' = Some v \<longrightarrow> ynKind v = ScalarNode \<longrightarrow>
        yamlText0 (yamlGet c' ''operation_mode'') =
          (if trim_space (ynValue v) = ''observe'' then ''bridge-observe'' else trim_space (ynValue v))"
      using e3m k1 k2 k4 k5 k6 by simp
    show "yamlText0 (yamlGet c ''observe_bridge'') \<noteq> [] \<longrightarrow>
        yamlText0 (bridgeGet c' ''bridge'') = yamlText0 (yamlGet c ''observe_bridge'')"
      using moved b(1) by (simp add: ks)
    show "yamlText0 (yamlGet c ''observe_interface'') \<noteq> [] \<longrightarrow>
        yamlText0 (bridgeGet c' ''uplink_interface'') = yamlText0 (yamlGet c ''observe_interface'')"
      using moved b(1) by (simp add: ks)
    show "\<forall>k. k \<noteq> ''bridge'' \<longrightarrow> k \<noteq> ''uplink_interface'' \<longrightarrow> bridgeGet c' k = bridgeGet c k"
      using moved b by simp
    show "\<forall>v. yamlGet c ''port_map'' = Some v \<longrightarrow>
        (\<exists>w. yamlGet c' ''port_mappings'' = Some w \<and> (w = v \<or> sameNode lib v w))"
      using e6 by (simp add: ks)
  qed
  ultimately show ?thesis ..
qed

text \<open>The result record carries the input until the document is encoded.\<close>

lemma steps_data:
  "migrateScalarAlias a t (c, r) = Inr (c', r') \<Longrightarrow> mrData r' = mrData r"
  "migrateOperationMode (c, r) = (c', r') \<Longrightarrow> mrData r' = mrData r"
  "migrateBridgeAlias a t (c, r) = Inr (c', r') \<Longrightarrow> mrData r' = mrData r"
  "migrateNodeAlias lib a t (c, r) = Inr (c', r') \<Longrightarrow> mrData r' = mrData r"
  by (auto simp: migrateScalarAlias_def migrateOperationMode_def migrateBridgeAlias_def migrateNodeAlias_def Let_def
      split: option.splits if_splits sum.splits)

lemma migrateRoot_data: "migrateRoot lib (c, r) = Inr (c', r') \<Longrightarrow> mrData r' = mrData r"
  by (elim migrateRoot_split) (metis steps_data)

definition proper_document :: "migration_lib \<Rightarrow> bytes \<Rightarrow> bool" where
  "proper_document lib data \<longleftrightarrow>
     (case parseMigrationDoc lib data of
        Inl _ \<Rightarrow> True
      | Inr (_, rt) \<Rightarrow> proper (ynContent rt) \<and> proper_bridge (ynContent rt))"

lemma MigrateData_cases:
  assumes "MigrateData lib data = Inr r" and "proper_document lib data"
  obtains doc rt content where "parseMigrationDoc lib data = Inr (doc, rt)"
    "settled content" "values_moved lib (ynContent rt) content"
    "\<not> mrChanged r \<and> mrData r = data \<or>
     mrChanged r \<and> mlEncode lib (withRoot doc content) = Some (mrData r) \<and> mlDecodes lib (mrData r)"
proof -
  obtain doc rt where d: "parseMigrationDoc lib data = Inr (doc, rt)"
    using assms(1) by (auto simp: MigrateData_def bindE_def split: sum.splits)
  obtain content r1 where m: "migrateRoot lib (ynContent rt, \<lparr>mrData = data, mrChanged = False, mrActions = []\<rparr>) = Inr (content, r1)"
    using assms(1) d by (auto simp: MigrateData_def bindE_def split: sum.splits)
  have p: "proper (ynContent rt)" "proper_bridge (ynContent rt)" using assms(2) d by (simp_all add: proper_document_def)
  have "\<not> mrChanged r \<and> mrData r = data \<or>
     mrChanged r \<and> mlEncode lib (withRoot doc content) = Some (mrData r) \<and> mlDecodes lib (mrData r)"
    using assms(1) d m migrateRoot_data [OF m]
    by (auto simp: MigrateData_def bindE_def split: if_splits option.splits)
  then show thesis using that d migrateRoot_effect [OF m p] by blast
qed

lemma parse_withRoot:
  assumes "parseMigrationDoc lib data = Inr (doc, rt)" and "mlParse lib out = Some (withRoot doc content)"
  shows "\<exists>rt'. parseMigrationDoc lib out = Inr (withRoot doc content, rt') \<and> ynContent rt' = content"
  using assms by (auto simp: parseMigrationDoc_def withRoot_def split: option.splits if_splits)

section \<open>The migration of a file (migrate_file.go)\<close>

text \<open>
  \<open>os.IsExist\<close> looks through the error types of the \<open>os\<close> package only, so that it is false of an
  error wrapped by \<open>fmt.Errorf\<close>.
\<close>

datatype file_error = ErrExist | ErrOther | Wrapped file_error

fun osIsExist :: "file_error \<Rightarrow> bool" where
  "osIsExist ErrExist = True"
| "osIsExist _ = False"

text \<open>What the operating system answers; \<open>msMasked\<close> is what the umask leaves of a mode.\<close>

record migrate_sys =
  msReadOk :: bool
  msStatOk :: bool
  msStamp :: string
  msMasked :: "nat \<Rightarrow> nat"
  msOpenErr :: bool
  msBackupShort :: "nat option"
  msBackupClose :: bool
  msTemp :: syscalls

datatype migrate_file_error = ReadConfigError | MigrateDataError migrate_error | StatError | BackupError file_error
  | TooManyBackups | ReplaceError write_error

definition exclusiveFile :: "migrate_sys \<Rightarrow> nat \<Rightarrow> bytes \<Rightarrow> fs_file" where
  "exclusiveFile sys mode data = \<lparr>fileData = data, fileMode = msMasked sys mode, fileSynced = False\<rparr>"

definition writeExclusiveFile :: "migrate_sys \<Rightarrow> path \<Rightarrow> bytes \<Rightarrow> nat \<Rightarrow> fs \<Rightarrow> fs \<times> file_error option" where
  "writeExclusiveFile sys path data mode fs =
     (if fs path \<noteq> None then (fs, Some (Wrapped ErrExist))
      else if msOpenErr sys then (fs, Some (Wrapped ErrOther))
      else (case msBackupShort sys of
              Some n \<Rightarrow> (fs(path \<mapsto> exclusiveFile sys mode (take n data)), Some (Wrapped ErrOther))
            | None \<Rightarrow> (fs(path \<mapsto> exclusiveFile sys mode data),
                        if msBackupClose sys then None else Some (Wrapped ErrOther))))"

definition backupName :: "path \<Rightarrow> string \<Rightarrow> nat \<Rightarrow> path" where
  "backupName path stamp attempt =
     path @ ''.bak.'' @ (if attempt > 0 then stamp @ ''.'' @ itoa (int attempt) else stamp)"

text \<open>The loop of \<open>writeMigrationBackup\<close> over the attempts that are left.\<close>

fun backupLoop :: "migrate_sys \<Rightarrow> path \<Rightarrow> bytes \<Rightarrow> nat \<Rightarrow> nat list \<Rightarrow> fs \<Rightarrow> fs \<times> (migrate_file_error + path)" where
  "backupLoop sys path data mode [] fs = (fs, Inl TooManyBackups)"
| "backupLoop sys path data mode (attempt # rest) fs =
     (let backupPath = backupName path (msStamp sys) attempt in
      case writeExclusiveFile sys backupPath data mode fs of
        (fs', None) \<Rightarrow> (fs', Inr backupPath)
      | (fs', Some err) \<Rightarrow>
          if \<not> osIsExist err then (fs', Inl (BackupError err)) else backupLoop sys path data mode rest fs')"

definition writeMigrationBackup :: "migrate_sys \<Rightarrow> path \<Rightarrow> bytes \<Rightarrow> nat \<Rightarrow> fs \<Rightarrow> fs \<times> (migrate_file_error + path)" where
  "writeMigrationBackup sys path data mode = backupLoop sys path data mode [0..<100]"

definition migration_steps :: "syscalls \<Rightarrow> path \<Rightarrow> bytes \<Rightarrow> nat \<Rightarrow> write_step list" where
  "migration_steps sys path data mode =
     [writeTemp sys data, chmodTemp sys mode, closeTemp sys, renameTemp sys path]"

text \<open>The deferred removal runs on every return after the temporary file was created.\<close>

definition writeMigrationFile :: "syscalls \<Rightarrow> path \<Rightarrow> bytes \<Rightarrow> nat \<Rightarrow> write_step" where
  "writeMigrationFile sys path data mode fs =
     (case createTemp sys fs of
        (fs1, Some e) \<Rightarrow> (fs1, Some e)
      | (fs1, None) \<Rightarrow>
          (case run_until (migration_steps sys path data mode) fs1 of (fs2, e) \<Rightarrow> (fs2(tmpName sys := None), e)))"

definition MigrateFile ::
  "migration_lib \<Rightarrow> migrate_sys \<Rightarrow> path \<Rightarrow> bool \<Rightarrow> fs \<Rightarrow> fs \<times> (migrate_file_error + (migration_result \<times> path option))" where
  "MigrateFile lib sys path dryRun fs =
     (case fs path of
        None \<Rightarrow> (fs, Inl ReadConfigError)
      | Some f \<Rightarrow>
          if \<not> msReadOk sys then (fs, Inl ReadConfigError)
          else (case MigrateData lib (fileData f) of
                  Inl e \<Rightarrow> (fs, Inl (MigrateDataError e))
                | Inr result \<Rightarrow>
                    if dryRun \<or> \<not> mrChanged result then (fs, Inr (result, None))
                    else if \<not> msStatOk sys then (fs, Inl StatError)
                    else (case writeMigrationBackup sys path (fileData f) (fileMode f) fs of
                            (fs1, Inl e) \<Rightarrow> (fs1, Inl e)
                          | (fs1, Inr backupPath) \<Rightarrow>
                              (case writeMigrationFile (msTemp sys) path (mrData result) (fileMode f) fs1 of
                                 (fs2, Some e) \<Rightarrow> (fs2, Inl (ReplaceError e))
                               | (fs2, None) \<Rightarrow> (fs2, Inr (result, Some backupPath))))))"

text \<open>The states an interrupted call can leave behind: while the backup grows, then at every step of the
  replacement.\<close>

definition backup_crashes :: "migrate_sys \<Rightarrow> path \<Rightarrow> bytes \<Rightarrow> nat \<Rightarrow> fs \<Rightarrow> fs list" where
  "backup_crashes sys path data mode fs =
     map (\<lambda>n. fs(backupName path (msStamp sys) 0 \<mapsto> exclusiveFile sys mode (take n data))) [0..<Suc (length data)]"

definition MigrateFile_crashes :: "migration_lib \<Rightarrow> migrate_sys \<Rightarrow> path \<Rightarrow> fs \<Rightarrow> fs list" where
  "MigrateFile_crashes lib sys path fs =
     (fs # fst (MigrateFile lib sys path False fs) #
      (case fs path of
         None \<Rightarrow> []
       | Some f \<Rightarrow>
           (case MigrateData lib (fileData f) of
              Inl _ \<Rightarrow> []
            | Inr result \<Rightarrow>
                if fs (backupName path (msStamp sys) 0) \<noteq> None then []
                else backup_crashes sys path (fileData f) (fileMode f) fs @
                  (case writeMigrationBackup sys path (fileData f) (fileMode f) fs of
                     (fs1, Inl _) \<Rightarrow> []
                   | (fs1, Inr _) \<Rightarrow>
                       crash_points (createTemp (msTemp sys) # migration_steps (msTemp sys) path (mrData result) (fileMode f)) fs1))))"

section \<open>The original survives\<close>

lemma backup_first_only:
  "writeMigrationBackup sys path data mode fs =
     (case writeExclusiveFile sys (backupName path (msStamp sys) 0) data mode fs of
        (fs', None) \<Rightarrow> (fs', Inr (backupName path (msStamp sys) 0))
      | (fs', Some err) \<Rightarrow> (fs', Inl (BackupError err)))"
proof -
  have "\<not> osIsExist e" if "writeExclusiveFile sys p data mode fs = (fs', Some e)" for p fs' e
    using that by (auto simp: writeExclusiveFile_def split: if_splits option.splits)
  then show ?thesis
    by (auto simp: writeMigrationBackup_def upt_rec [of 0 100] Let_def split: prod.splits option.splits)
qed

lemma backup_ok:
  assumes "writeMigrationBackup sys path data mode fs = (fs1, Inr b)"
  shows "b = backupName path (msStamp sys) 0 \<and> fs b = None \<and> fs1 = fs(b \<mapsto> exclusiveFile sys mode data)"
  using assms by (auto simp: backup_first_only writeExclusiveFile_def split: if_splits option.splits)

lemma backup_name_other [simp]: "backupName path stamp n \<noteq> path"
  by (simp add: backupName_def)

lemma backup_keeps_path: "writeMigrationBackup sys path data mode fs = (fs1, x) \<Longrightarrow> fs1 path = fs path"
  by (auto simp: backup_first_only writeExclusiveFile_def backup_name_other [symmetric]
      split: if_splits option.splits prod.splits)

lemma migration_file_cases:
  assumes "tmpName sys \<noteq> path" and "b \<noteq> tmpName sys" and "b \<noteq> path"
    and "fs' \<in> set (crash_points (createTemp sys # migration_steps sys path data mode) fs) \<or>
      fs' = fst (writeMigrationFile sys path data mode fs)"
  shows "fs' b = fs b \<and> (fs' path = fs path \<or> map_option fileData (fs' path) = Some data)"
  using assms
  by (auto simp: writeMigrationFile_def migration_steps_def createTemp_def writeTemp_def chmodTemp_def closeTemp_def
      renameTemp_def upd_file_def split: if_splits option.splits)

lemma migration_file_result:
  assumes "tmpName sys \<noteq> path" and "writeMigrationFile sys path data mode fs = (fs', e)"
  shows "(e \<noteq> None \<longrightarrow> fs' path = fs path) \<and>
    (e = None \<longrightarrow> fs' path = Some \<lparr>fileData = data, fileMode = mode, fileSynced = False\<rparr>)"
  using assms
  by (auto simp: writeMigrationFile_def migration_steps_def createTemp_def writeTemp_def chmodTemp_def closeTemp_def
      renameTemp_def upd_file_def split: if_splits option.splits)

text \<open>The temporary name is new (\<open>os.CreateTemp\<close> opens with \<open>O_EXCL\<close>) and not the backup's.\<close>

definition migrate_names :: "migrate_sys \<Rightarrow> path \<Rightarrow> bool" where
  "migrate_names sys path \<longleftrightarrow> tmpName (msTemp sys) \<noteq> path \<and> tmpName (msTemp sys) \<noteq> backupName path (msStamp sys) 0"

text \<open>Whatever state the call leaves behind: the file is the original, or it is the migrated document and the
  backup holds the original.\<close>

definition original_kept :: "path \<Rightarrow> path \<Rightarrow> fs_file \<Rightarrow> bytes \<Rightarrow> fs \<Rightarrow> bool" where
  "original_kept path b f data fs' \<longleftrightarrow> fs' path = Some f \<or>
     map_option fileData (fs' path) = Some data \<and> map_option fileData (fs' b) = Some (fileData f)"

lemma MigrateFile_final:
  assumes f: "fs path = Some f" and r: "MigrateData lib (fileData f) = Inr result" and n: "migrate_names sys path"
  shows "original_kept path (backupName path (msStamp sys) 0) f (mrData result) (fst (MigrateFile lib sys path dry fs)) \<and>
    (\<forall>e. snd (MigrateFile lib sys path dry fs) = Inl e \<longrightarrow> fst (MigrateFile lib sys path dry fs) path = Some f)"
proof (cases "msReadOk sys \<and> \<not> dry \<and> mrChanged result \<and> msStatOk sys")
  case False
  then have "fst (MigrateFile lib sys path dry fs) = fs"
    using f r by (auto simp: MigrateFile_def)
  then show ?thesis using f by (simp add: original_kept_def)
next
  case True
  let ?w = "writeMigrationBackup sys path (fileData f) (fileMode f) fs"
  obtain fs1 x where w: "?w = (fs1, x)" by fastforce
  have k: "fs1 path = Some f" using backup_keeps_path [OF w] f by simp
  show ?thesis
  proof (cases x)
    case (Inl e)
    then show ?thesis using True f r w k by (simp add: MigrateFile_def original_kept_def)
  next
    case (Inr b)
    note B = backup_ok [OF w [unfolded Inr]]
    obtain fs2 e where m: "writeMigrationFile (msTemp sys) path (mrData result) (fileMode f) fs1 = (fs2, e)" by fastforce
    have run: "fst (MigrateFile lib sys path dry fs) = fs2" "(\<exists>e'. snd (MigrateFile lib sys path dry fs) = Inl e') \<longleftrightarrow> e \<noteq> None"
      using True f r w Inr m by (auto simp: MigrateFile_def split: option.splits)
    have nb: "tmpName (msTemp sys) \<noteq> path" "b \<noteq> tmpName (msTemp sys)" "b \<noteq> path"
      using n B by (auto simp: migrate_names_def)
    have "fs2 b = fs1 b \<and> (fs2 path = fs1 path \<or> map_option fileData (fs2 path) = Some (mrData result))"
      using migration_file_cases [OF nb disjI2, of fs2 "mrData result" "fileMode f" fs1] m by simp
    then have "original_kept path b f (mrData result) fs2"
      using B k by (auto simp: original_kept_def exclusiveFile_def)
    then show ?thesis using run B migration_file_result [OF nb(1) m] k by auto
  qed
qed

section \<open>Main properties\<close>

text \<open>C15: migrating twice. The text that a migration returns is settled: migrating it again succeeds, reports no
  change and returns it as it is (for mappings without duplicate keys, which the strict decoder refuses).\<close>

theorem migration_idempotent:
  assumes "MigrateData lib data = Inr r" and "proper_document lib data"
    and "\<And>doc out. mlEncode lib doc = Some out \<Longrightarrow> mlParse lib out = Some doc"
  shows "\<exists>r'. MigrateData lib (mrData r) = Inr r' \<and> \<not> mrChanged r' \<and> mrData r' = mrData r"
proof -
  obtain doc rt content where d: "parseMigrationDoc lib data = Inr (doc, rt)" and st: "settled content"
    and c: "\<not> mrChanged r \<and> mrData r = data \<or>
      mrChanged r \<and> mlEncode lib (withRoot doc content) = Some (mrData r) \<and> mlDecodes lib (mrData r)"
    by (rule MigrateData_cases [OF assms(1,2)])
  from c show ?thesis
  proof
    assume "\<not> mrChanged r \<and> mrData r = data"
    then show ?thesis using assms(1) by simp
  next
    assume e: "mrChanged r \<and> mlEncode lib (withRoot doc content) = Some (mrData r) \<and> mlDecodes lib (mrData r)"
    then obtain rt' where "parseMigrationDoc lib (mrData r) = Inr (withRoot doc content, rt')" "ynContent rt' = content"
      using parse_withRoot [OF d assms(3)] by blast
    then show ?thesis
      by (simp add: MigrateData_def bindE_def migrateRoot_settled [OF st])
  qed
qed

definition configDoc :: "(string \<times> yaml_node) list \<Rightarrow> yaml_node" where
  "configDoc kvs = YamlNode DocumentNode [] [] [yamlMap kvs] None"

definition oldDoc :: yaml_node where
  "oldDoc = configDoc [(''controller'', yamlText ''http://unifi/''), (''observe_bridge'', yamlText ''br0'')]"

definition strNode :: "string \<Rightarrow> yaml_node" where "strNode v = YamlNode ScalarNode ''!!str'' v [] None"

definition newDoc :: yaml_node where
  "newDoc = YamlNode DocumentNode [] []
     [YamlNode MappingNode [] []
        [yamlText ''controller_url'', yamlText ''http://unifi/'', strNode ''bridge_observe'',
         YamlNode MappingNode ''!!map'' [] [strNode ''bridge'', yamlText ''br0''] None] None] None"

text \<open>A library that knows two texts.\<close>

definition migrateLab :: migration_lib where
  "migrateLab = \<lparr>mlParse = (\<lambda>d. if d = [] then Some oldDoc else if d = [1] then Some newDoc else None),
     mlEncode = (\<lambda>n. if n = newDoc then Some [1] else None),
     mlMarshal = (\<lambda>_. None), mlDecodes = (\<lambda>_. True)\<rparr>"

lemma migrateLab_laws:
  "mlEncode migrateLab doc = Some out \<Longrightarrow> mlParse migrateLab out = Some doc"
  by (auto simp: migrateLab_def split: if_splits)

definition labMigrated :: migration_result where
  "labMigrated = \<lparr>mrData = [1], mrChanged = True,
     mrActions = [''controller -> controller_url'', ''observe_bridge -> bridge_observe.bridge'']\<rparr>"

lemma labMigrate_runs:
  "MigrateData migrateLab [] = Inr labMigrated" "proper_document migrateLab []"
  by code_simp+

theorem migration_idempotent_witness:
  "\<exists>r'. MigrateData migrateLab (mrData labMigrated) = Inr r' \<and> \<not> mrChanged r' \<and> mrData r' = mrData labMigrated"
  by (rule migration_idempotent [OF labMigrate_runs migrateLab_laws])

text \<open>the values of a migrated document. Every legacy value is found under its new key (\<open>controller\<close> and
  \<open>inform_url\<close> under \<open>controller_url\<close>, the observed bridge and interface inside \<open>bridge_observe\<close>,
  \<open>port_map\<close> under \<open>port_mappings\<close>, mode \<open>observe\<close> as \<open>bridge-observe\<close>), a value that the new key already
  has is never replaced, every other key is untouched, and no legacy key carries a value any more.\<close>

theorem migration_moves_values:
  assumes "MigrateData lib data = Inr r" and "proper_document lib data" and "mrChanged r"
  shows "\<exists>doc rt content. parseMigrationDoc lib data = Inr (doc, rt) \<and>
    mlEncode lib (withRoot doc content) = Some (mrData r) \<and> mlDecodes lib (mrData r) \<and>
    settled content \<and> values_moved lib (ynContent rt) content"
  by (rule MigrateData_cases [OF assms(1,2)]) (use assms(3) in blast)

theorem migration_moves_values_witness:
  "\<exists>doc rt content. parseMigrationDoc migrateLab [] = Inr (doc, rt) \<and>
    mlEncode migrateLab (withRoot doc content) = Some (mrData labMigrated) \<and> mlDecodes migrateLab (mrData labMigrated) \<and>
    settled content \<and> values_moved migrateLab (ynContent rt) content"
  by (rule migration_moves_values [OF labMigrate_runs]) (simp add: labMigrated_def)


definition labMigration :: fs where
  "labMigration = [''c.yaml'' \<mapsto> \<lparr>fileData = [], fileMode = 384, fileSynced = True\<rparr>]"

definition labSys :: migrate_sys where
  "labSys = \<lparr>msReadOk = True, msStatOk = True, msStamp = ''20260101T000000Z'', msMasked = (\<lambda>m. m), msOpenErr = False,
     msBackupShort = None, msBackupClose = True,
     msTemp = \<lparr>mkdirOk = True, createOk = True, tmpName = ''.c.yaml.tmp.1'', chmodOk = True, writeShort = None,
       syncOk = True, closeOk = True, renameOk = False, dirOpenOk = True, dirSyncErr = None\<rparr>\<rparr>"

definition labOld :: fs_file where "labOld = \<lparr>fileData = [], fileMode = 384, fileSynced = True\<rparr>"


text \<open>two migrations within a second. \<open>writeMigrationBackup\<close> is meant to try up to a hundred names, but
  \<open>os.IsExist\<close> does not recognise the wrapped error of \<open>writeExclusiveFile\<close>: when the first backup name is
  taken the migration fails, whatever other names are free, and changes nothing.\<close>

theorem backup_name_collision_fails:
  assumes "fs path = Some f" and "MigrateData lib (fileData f) = Inr result" and "mrChanged result"
    and "msReadOk sys" and "msStatOk sys" and "fs (backupName path (msStamp sys) 0) \<noteq> None"
  shows "MigrateFile lib sys path False fs = (fs, Inl (BackupError (Wrapped ErrExist)))"
  using assms by (simp add: MigrateFile_def backup_first_only writeExclusiveFile_def)

definition labTwice :: fs where
  "labTwice = labMigration(''c.yaml.bak.20260101T000000Z'' \<mapsto> labOld)"

theorem backup_name_collision_fails_witness:
  "MigrateFile migrateLab labSys ''c.yaml'' False labTwice = (labTwice, Inl (BackupError (Wrapped ErrExist))) \<and>
    labTwice (backupName ''c.yaml'' (msStamp labSys) 1) = None"
proof -
  have 1: "labTwice ''c.yaml'' = Some labOld" by (simp add: labTwice_def labMigration_def labOld_def)
  have 2: "MigrateData migrateLab (fileData labOld) = Inr labMigrated" using labMigrate_runs by (simp add: labOld_def)
  have 3: "labTwice (backupName ''c.yaml'' (msStamp labSys) 0) \<noteq> None"
    by (simp add: labTwice_def backupName_def labSys_def)
  show ?thesis
    using backup_name_collision_fails [of labTwice, OF 1 2 _ _ _ 3]
    by (simp add: labSys_def labMigrated_def labTwice_def labMigration_def backupName_def itoa_def)
qed

end
