(* ===== verification/Host_Address.thy ===== *)
theory Host_Address
  imports Go_Net Go_Text
begin

text \<open>
  The addresses of the host and the link towards the controller, \<open>internal/platform/link.go\<close>, with the
  functions of package \<open>net\<close> it uses. What the kernel returns is the record \<open>addr_env\<close>: the interfaces
  with their addresses (\<open>None\<close> where the call fails), the local address of a connected datagram socket,
  and the speed files of sysfs.
\<close>

section \<open>Package net\<close>

text \<open>\<open>net.SplitHostPort\<close>; \<open>None\<close> is the error.\<close>

definition SplitHostPort :: "string \<Rightarrow> (string \<times> string) option" where
  "SplitHostPort hostport =
     (case cut_last CHR '':'' hostport of
        None \<Rightarrow> None
      | Some (front, port) \<Rightarrow>
          if hd hostport = CHR ''['' then
            (case go_cut CHR '']'' hostport of
               None \<Rightarrow> None
             | Some (opened, rest) \<Rightarrow>
                 if rest \<noteq> CHR '':'' # port then None
                 else if CHR ''['' \<in> set (tl hostport) \<or> CHR '']'' \<in> set rest then None
                 else Some (tl opened, port))
          else if CHR '':'' \<in> set front \<or> CHR ''['' \<in> set hostport \<or> CHR '']'' \<in> set hostport then None
          else Some (front, port))"

text \<open>\<open>net.JoinHostPort\<close>: an IPv6 host is put in brackets.\<close>

definition JoinHostPort :: "string \<Rightarrow> string \<Rightarrow> string" where
  "JoinHostPort host port =
     (if CHR '':'' \<in> set host then ''['' @ host @ '']:'' @ port else host @ '':'' @ port)"

text \<open>\<open>URL.Port\<close>\<close>

definition url_Port :: "url \<Rightarrow> string" where
  "url_Port u =
     (case cut_last CHR '':'' (urlHost u) of
        None \<Rightarrow> []
      | Some (h, port) \<Rightarrow> if validOptionalPort (CHR '':'' # port) then port else [])"

text \<open>\<open>IP.Equal\<close>: an IPv4 address equals its 16-byte form.\<close>

definition ip_equal :: "bytes \<Rightarrow> bytes \<Rightarrow> bool" where
  "ip_equal a b \<longleftrightarrow>
     (if length a = length b then a = b
      else if length a = 4 \<and> length b = 16 then take 12 b = v4InV6Prefix \<and> a = drop 12 b
      else if length a = 16 \<and> length b = 4 then take 12 a = v4InV6Prefix \<and> drop 12 a = b
      else False)"

text \<open>\<open>IP.String\<close>: dotted decimals, or the groups of an IPv6 address with its first longest run of at
  least two zero groups as \<open>::\<close>.\<close>

fun nat_hex :: "nat \<Rightarrow> string" where
  "nat_hex n = (if n < 16 then [hex_digit n] else nat_hex (n div 16) @ [hex_digit (n mod 16)])"

declare nat_hex.simps [simp del]

fun hex_groups :: "bytes \<Rightarrow> nat list" where
  "hex_groups (a # b # r) = (unat a * 256 + unat b) # hex_groups r"
| "hex_groups r = []"

definition zero_run :: "nat list \<Rightarrow> nat \<times> nat" where
  "zero_run gs =
     fold (\<lambda>i (s, e). let j = i + length (takeWhile (\<lambda>g. g = 0) (drop i gs))
             in if j - i \<ge> 2 \<and> j - i > e - s then (i, j) else (s, e)) [0..<length gs] (255, 255)"

definition ipv6_string :: "bytes \<Rightarrow> string" where
  "ipv6_string ip =
     (let gs = hex_groups ip; (s, e) = zero_run gs in
      if s < length gs
      then go_join '':'' (map nat_hex (take s gs)) @ ''::'' @ go_join '':'' (map nat_hex (drop e gs))
      else go_join '':'' (map nat_hex gs))"

definition IP_String :: "bytes \<Rightarrow> string" where
  "IP_String ip =
     (if ip = [] then ''<nil>''
      else if length ip \<noteq> 4 \<and> length ip \<noteq> 16 then ''?'' @ hex_encode ip
      else case To4 ip of Some ip4 \<Rightarrow> ipv4_string ip4 | None \<Rightarrow> ipv6_string ip)"

section \<open>Interfaces (link.go, types.go)\<close>

text \<open>An address that is neither a network nor a plain IP address is \<open>None\<close>.\<close>

record net_iface =
  niName :: string
  niUp :: bool
  niMAC :: bytes
  niAddrs :: "bytes option list option"

record addr_env =
  aeInterfaces :: "net_iface list option"
  aeByName :: "string \<Rightarrow> net_iface option"
  aeDial :: "string \<Rightarrow> bytes option"
  aeGoos :: string
  aeSpeedFile :: "string \<Rightarrow> string option"

record interface_identity =
  iiMAC :: bytes
  iiIPv4 :: "bytes list"

definition InterfaceIdentity :: "addr_env \<Rightarrow> string \<Rightarrow> interface_identity option" where
  "InterfaceIdentity env name0 =
     (let name = trim_space name0 in
      if name = [] \<or> CHR ''/'' \<in> set name then None
      else case aeByName env name of
             None \<Rightarrow> None
           | Some iface \<Rightarrow>
               (case niAddrs iface of
                  None \<Rightarrow> None
                | Some addrs \<Rightarrow>
                    Some \<lparr>iiMAC = niMAC iface,
                          iiIPv4 = List.map_filter (\<lambda>a. Option.bind a To4) addrs\<rparr>))"

text \<open>\<open>None\<close> is the error.\<close>

definition interfaceOwnsIPv4 :: "net_iface \<Rightarrow> bytes \<Rightarrow> bool option" where
  "interfaceOwnsIPv4 iface ip =
     map_option (list_ex (\<lambda>a. case a of None \<Rightarrow> False | Some current \<Rightarrow> ip_equal current ip)) (niAddrs iface)"

text \<open>The loop over all interfaces: an address that was found wins over a read error before it.\<close>

fun anyOwnsIPv4 :: "bytes \<Rightarrow> bool \<Rightarrow> net_iface list \<Rightarrow> bool option" where
  "anyOwnsIPv4 ip readErr [] = (if readErr then None else Some False)"
| "anyOwnsIPv4 ip readErr (iface # ifaces) =
     (case interfaceOwnsIPv4 iface ip of
        None \<Rightarrow> anyOwnsIPv4 ip True ifaces
      | Some assigned \<Rightarrow> if assigned then Some True else anyOwnsIPv4 ip readErr ifaces)"

definition IPv4Assigned :: "addr_env \<Rightarrow> string \<Rightarrow> bytes \<Rightarrow> bool option" where
  "IPv4Assigned env iface0 ip0 =
     (case To4 ip0 of
        None \<Rightarrow> None
      | Some ip \<Rightarrow>
          let iface = trim_space iface0 in
          if iface \<noteq> [] then
            (case aeByName env iface of None \<Rightarrow> None | Some selected \<Rightarrow> interfaceOwnsIPv4 selected ip)
          else (case aeInterfaces env of None \<Rightarrow> None | Some ifaces \<Rightarrow> anyOwnsIPv4 ip False ifaces))"

section \<open>The link towards a target (link.go)\<close>

definition targetAddress :: "string \<Rightarrow> string option" where
  "targetAddress target0 =
     (let target = trim_space target0 in
      if target = [] then None
      else if \<not> go_contains target ''://'' then
        (case SplitHostPort target of
           Some (host, port) \<Rightarrow> Some (JoinHostPort host port)
         | None \<Rightarrow> Some (JoinHostPort target ''9''))
      else case url_Parse target of
             None \<Rightarrow> None
           | Some parsed \<Rightarrow>
               let host = Hostname parsed in
               if host = [] then None
               else Some (JoinHostPort host
                      (if url_Port parsed \<noteq> [] then url_Port parsed
                       else if urlScheme parsed = ''https'' then ''443'' else ''80'')))"

text \<open>The first interface that is up and owns the address.\<close>

fun firstUpOwner :: "bytes \<Rightarrow> net_iface list \<Rightarrow> net_iface option" where
  "firstUpOwner ip [] = None"
| "firstUpOwner ip (iface # ifaces) =
     (if niUp iface \<and> interfaceOwnsIPv4 iface ip = Some True then Some iface else firstUpOwner ip ifaces)"

definition interfaceByIP :: "addr_env \<Rightarrow> bytes \<Rightarrow> net_iface option" where
  "interfaceByIP env ip = Option.bind (aeInterfaces env) (firstUpOwner ip)"

definition interfaceSpeedMbps :: "addr_env \<Rightarrow> string \<Rightarrow> int option" where
  "interfaceSpeedMbps env name =
     (if CHR ''/'' \<in> set name \<or> aeGoos env \<noteq> ''linux'' then None
      else case aeSpeedFile env name of
             None \<Rightarrow> None
           | Some data \<Rightarrow>
               (case parse_int64 (trim_space data) of
                  ParsedInt speed \<Rightarrow> if speed \<le> 0 then None else Some speed
                | _ \<Rightarrow> None))"

record egress_link =
  egInterface :: string
  egSpeedMbps :: int
  egLocalIP :: bytes

definition EgressLink :: "addr_env \<Rightarrow> string \<Rightarrow> egress_link option" where
  "EgressLink env target =
     Option.bind (targetAddress target) (\<lambda>address.
     Option.bind (aeDial env address) (\<lambda>local_ip.
     Option.bind (interfaceByIP env local_ip) (\<lambda>iface.
     map_option (\<lambda>speed. \<lparr>egInterface = niName iface, egSpeedMbps = speed, egLocalIP = local_ip\<rparr>)
       (interfaceSpeedMbps env (niName iface)))))"

section \<open>What the host owns\<close>

text \<open>Some interface of the host has the address.\<close>

definition host_owns :: "addr_env \<Rightarrow> bytes \<Rightarrow> bool" where
  "host_owns env ip \<longleftrightarrow> (\<exists>ifaces iface addrs current. aeInterfaces env = Some ifaces \<and> iface \<in> set ifaces \<and>
     niAddrs iface = Some addrs \<and> Some current \<in> set addrs \<and> ip_equal current ip)"

definition iface_owns :: "addr_env \<Rightarrow> string \<Rightarrow> bytes \<Rightarrow> bool" where
  "iface_owns env name ip \<longleftrightarrow> (\<exists>iface addrs current. aeByName env name = Some iface \<and>
     niAddrs iface = Some addrs \<and> Some current \<in> set addrs \<and> ip_equal current ip)"

lemma To4_length: "To4 ip = Some v \<Longrightarrow> length v = 4"
  by (auto simp: To4_def split: if_splits)

lemma To4_idem: "To4 ip = Some v \<Longrightarrow> To4 v = Some v"
  using To4_length [of ip v] by (simp add: To4_def [of v])

lemma To4_equal: "To4 ip = Some v \<Longrightarrow> ip_equal ip v"
  by (auto simp: To4_def ip_equal_def split: if_splits)

lemma owns_elem:
  "interfaceOwnsIPv4 iface ip = Some True \<Longrightarrow>
     \<exists>addrs current. niAddrs iface = Some addrs \<and> Some current \<in> set addrs \<and> ip_equal current ip"
  by (fastforce simp: interfaceOwnsIPv4_def list_ex_iff split: option.splits)

lemma anyOwns_elem:
  "anyOwnsIPv4 ip e ifaces = Some True \<Longrightarrow> \<exists>iface\<in>set ifaces. interfaceOwnsIPv4 iface ip = Some True"
  by (induction ifaces arbitrary: e) (auto split: option.splits if_splits)

lemma assigned_anywhere:
  assumes "IPv4Assigned env [] ip = Some True" and "To4 ip = Some v"
  shows "host_owns env v"
proof -
  obtain ifaces where i: "aeInterfaces env = Some ifaces" and a: "anyOwnsIPv4 v False ifaces = Some True"
    using assms by (auto simp: IPv4Assigned_def split: option.splits)
  obtain iface where "iface \<in> set ifaces" "interfaceOwnsIPv4 iface v = Some True" using anyOwns_elem [OF a] by blast
  then show ?thesis using i owns_elem unfolding host_owns_def by blast
qed

lemma assigned_to:
  assumes "IPv4Assigned env name ip = Some True" and "To4 ip = Some v" and "trim_space name \<noteq> []"
  shows "iface_owns env (trim_space name) v"
proof -
  obtain iface where i: "aeByName env (trim_space name) = Some iface" and o: "interfaceOwnsIPv4 iface v = Some True"
    using assms by (auto simp: IPv4Assigned_def Let_def split: option.splits)
  show ?thesis using i owns_elem [OF o] unfolding iface_owns_def by blast
qed

lemma identity_owns:
  assumes "InterfaceIdentity env name = Some ident" and "ip \<in> set (iiIPv4 ident)"
  shows "iface_owns env (trim_space name) ip \<and> To4 ip = Some ip"
proof -
  obtain iface addrs where i: "aeByName env (trim_space name) = Some iface" "niAddrs iface = Some addrs"
    and ident: "iiIPv4 ident = List.map_filter (\<lambda>a. Option.bind a To4) addrs"
    using assms(1) by (auto simp: InterfaceIdentity_def Let_def split: if_splits option.splits)
  obtain current where c: "Some current \<in> set addrs" "To4 current = Some ip"
    using assms(2) unfolding ident by (auto simp: List.map_filter_def bind_eq_Some_conv)
  then show ?thesis using i To4_equal To4_idem unfolding iface_owns_def by blast
qed

end
