(* ===== verification/Runtime_Payload.thy ===== *)
theory Runtime_Payload
  imports Settings Heartbeat Payload_Build Topology_Stability Host_Address
begin

text \<open>
  From resolved settings to the payload of a heartbeat: the management LAN (\<open>management_lan_settings.go\<close>,
  \<open>management_lan_identity.go\<close> of \<open>cmd/unifi-stubd\<close>), the identity of the device
  (\<open>device_identity.go\<close>, \<open>device_profile.go\<close>, \<open>serve_identity.go\<close>), the build options of its ports
  (\<open>device_ports.go\<close>) and the payload (\<open>device_payload.go\<close>).

  The operating system is the record \<open>host_services\<close>: name resolution, the host name, SHA-256 and the
  addresses of \<open>Host_Address\<close>. Where the code ends the process (\<open>log.Fatalf\<close>) a function returns \<open>None\<close>.
\<close>

section \<open>Management LAN (management_lan.go, management_lan_settings.go)\<close>

definition managementLANModeMetadataOnly :: string where "managementLANModeMetadataOnly = ''metadata-only''"
definition managementLANModePreexistingInterface :: string where
  "managementLANModePreexistingInterface = ''preexisting-interface''"
definition managementLANModePlannedHostVLAN :: string where "managementLANModePlannedHostVLAN = ''planned-host-vlan''"
definition managementLANReachOff :: string where "managementLANReachOff = ''off''"
definition managementLANReachWarn :: string where "managementLANReachWarn = ''warn''"
definition managementLANReachRequired :: string where "managementLANReachRequired = ''required''"
definition managementLANAdoptUntaggedFirst :: string where "managementLANAdoptUntaggedFirst = ''untagged-first''"
definition managementLANAdoptTaggedOnly :: string where "managementLANAdoptTaggedOnly = ''tagged-only''"

lemmas managementLAN_names = managementLANModeMetadataOnly_def managementLANModePreexistingInterface_def
  managementLANModePlannedHostVLAN_def managementLANReachOff_def managementLANReachWarn_def
  managementLANReachRequired_def managementLANAdoptUntaggedFirst_def managementLANAdoptTaggedOnly_def

definition effectiveManagementLAN :: "serve_flags \<Rightarrow> management_lan" where
  "effectiveManagementLAN flags =
     (let cfg = sfManagementLAN flags;
          mode = to_lower (trim_space (mlMode cfg));
          reach = to_lower (trim_space (mlControllerReachable cfg));
          adopt = to_lower (trim_space (mlAdoptionStrategy cfg));
          cfg = cfg\<lparr>mlMode := (if mode = [] then managementLANModeMetadataOnly else mode),
                  mlInterface := trim_space (mlInterface cfg), mlIP := trim_space (mlIP cfg),
                  mlNetworkName := trim_space (mlNetworkName cfg),
                  mlControllerReachable := (if reach = [] then managementLANReachOff else reach),
                  mlAdoptionStrategy := (if adopt = [] then managementLANAdoptUntaggedFirst else adopt)\<rparr>
      in if mlVLAN cfg > 0 \<or> mlMode cfg \<noteq> managementLANModeMetadataOnly \<or> mlInterface cfg \<noteq> [] \<or>
            mlIP cfg \<noteq> [] \<or> mlNetworkName cfg \<noteq> []
         then cfg\<lparr>mlEnabled := True\<rparr> else cfg)"

definition managementRequested :: "serve_flags \<Rightarrow> bool" where
  "managementRequested flags =
     (let cfg = sfManagementLAN flags in
      mlEnabled cfg \<or> mlVLAN cfg \<noteq> 0 \<or>
      trim_space (mlMode cfg) \<noteq> [] \<and> \<not> equal_fold (trim_space (mlMode cfg)) managementLANModeMetadataOnly \<or>
      trim_space (mlInterface cfg) \<noteq> [] \<or> trim_space (mlIP cfg) \<noteq> [] \<or> trim_space (mlNetworkName cfg) \<noteq> [] \<or>
      trim_space (mlControllerReachable cfg) \<noteq> [] \<and>
        \<not> equal_fold (trim_space (mlControllerReachable cfg)) managementLANReachOff \<or>
      trim_space (mlAdoptionStrategy cfg) \<noteq> [] \<and>
        \<not> equal_fold (trim_space (mlAdoptionStrategy cfg)) managementLANAdoptUntaggedFirst)"

definition effectiveManagementVLAN :: "serve_flags \<Rightarrow> int" where
  "effectiveManagementVLAN flags = mlVLAN (effectiveManagementLAN flags)"

definition statusManagementLAN :: "serve_flags \<Rightarrow> management_lan option" where
  "statusManagementLAN flags =
     (let cfg = effectiveManagementLAN flags in if \<not> mlEnabled cfg then None else Some cfg)"

section \<open>Addresses for discovery and inform (management_lan_identity.go)\<close>

definition managementLANSourceIP :: "serve_flags \<Rightarrow> bytes \<Rightarrow> bytes option" where
  "managementLANSourceIP flags ip =
     (let cfg = effectiveManagementLAN flags in
      if \<not> mlEnabled cfg \<or> mlMode cfg \<noteq> managementLANModePreexistingInterface then None else To4 ip)"

definition hostHasIPv4 :: "bytes \<Rightarrow> addr_env \<Rightarrow> bool" where
  "hostHasIPv4 ip env \<longleftrightarrow> IPv4Assigned env [] ip = Some True"

definition interfaceHasIPv4 :: "string \<Rightarrow> bytes \<Rightarrow> addr_env \<Rightarrow> bool" where
  "interfaceHasIPv4 ifaceName ip env \<longleftrightarrow> IPv4Assigned env ifaceName ip = Some True"

definition informSourceIP :: "serve_flags \<Rightarrow> bytes \<Rightarrow> addr_env \<Rightarrow> bytes option" where
  "informSourceIP flags ip env =
     (case managementLANSourceIP flags ip of
        Some source \<Rightarrow> Some source
      | None \<Rightarrow>
          (case To4 ip of
             None \<Rightarrow> None
           | Some candidate \<Rightarrow> if \<not> hostHasIPv4 candidate env then None else Some candidate))"

definition effectiveDiscoveryInterface :: "serve_flags \<Rightarrow> string" where
  "effectiveDiscoveryInterface flags =
     (if trim_space (sfDiscoveryInterface flags) \<noteq> [] then trim_space (sfDiscoveryInterface flags)
      else let cfg = effectiveManagementLAN flags in
        if mlEnabled cfg \<and> mlMode cfg = managementLANModePreexistingInterface then mlInterface cfg else [])"

text \<open>The errors of the identity and of the management LAN.\<close>

datatype serve_error = InvalidIPv4 | InvalidMAC | InvalidManagementIP | ManagementInterfaceNotFound | ManagementNoIPv4
  | InvalidVLAN int | SwitchProfilesOnly | InvalidManagementMode string | InvalidReachable string
  | InvalidAdoptionStrategy string | PlannedDryRunOnly | ManagementInterfaceRequired | InvalidManagementInterface string
  | ManagementIPNotAssigned | ControllerUnreachable

definition managementLANInterfaceIP :: "management_lan \<Rightarrow> addr_env \<Rightarrow> serve_error + bytes" where
  "managementLANInterfaceIP cfg env =
     (case InterfaceIdentity env (mlInterface cfg) of
        None \<Rightarrow> Inl ManagementInterfaceNotFound
      | Some ident \<Rightarrow> (case iiIPv4 ident of ip # _ \<Rightarrow> Inr ip | [] \<Rightarrow> Inl ManagementNoIPv4))"

definition resolveManagementIP :: "serve_flags \<Rightarrow> bytes \<Rightarrow> addr_env \<Rightarrow> serve_error + bytes" where
  "resolveManagementIP flags fallback env =
     (let cfg = effectiveManagementLAN flags in
      if \<not> mlEnabled cfg \<or> mlMode cfg \<noteq> managementLANModePreexistingInterface then Inr fallback
      else if mlIP cfg \<noteq> [] then
        (case Option.bind (ParseIP (mlIP cfg)) To4 of None \<Rightarrow> Inl InvalidManagementIP | Some ip \<Rightarrow> Inr ip)
      else managementLANInterfaceIP cfg env)"

section \<open>Identity (device_identity.go, profile.go, device_profile.go)\<close>

record host_services =
  hsLookup :: "string \<Rightarrow> bytes list option"
  hsHostname :: "string option"
  hsSha256 :: "bytes \<Rightarrow> bytes"
  hsAddr :: addr_env

definition resolveInformIP :: "host_services \<Rightarrow> string \<Rightarrow> string" where
  "resolveInformIP os informURL =
     (case url_Parse (trim_space informURL) of
        None \<Rightarrow> []
      | Some parsed \<Rightarrow>
          (let host = Hostname parsed in
           if host = [] then []
           else case ParseIP host of
                  Some ip \<Rightarrow> IP_String ip
                | None \<Rightarrow>
                    (case hsLookup os host of
                       None \<Rightarrow> []
                     | Some ips \<Rightarrow>
                         (case List.map_filter To4 ips of
                            v4 # _ \<Rightarrow> IP_String v4
                          | [] \<Rightarrow> (case ips of ip # _ \<Rightarrow> IP_String ip | [] \<Rightarrow> [])))))"

definition resolveHostname :: "host_services \<Rightarrow> string \<Rightarrow> string" where
  "resolveHostname os v0 =
     (let v = trim_space v0 in
      if v \<noteq> [] \<and> to_lower v \<noteq> automaticValue then v
      else case hsHostname os of
             Some host \<Rightarrow> if trim_space host \<noteq> [] then trim_space host else ''unifi-stubd''
           | None \<Rightarrow> ''unifi-stubd'')"

definition AutoMAC :: "host_services \<Rightarrow> string \<Rightarrow> bytes" where
  "AutoMAC os seed =
     (let digest = hsSha256 os (bytes_of (trim_space seed)); mac = take 6 digest
      in mac[0 := ((mac ! 0) OR 2) AND 254])"

definition hostInterfaceMAC :: "string \<Rightarrow> addr_env \<Rightarrow> bytes option" where
  "hostInterfaceMAC ifaceName0 env =
     (let ifaceName = trim_space ifaceName0 in
      if ifaceName = [] \<or> CHR ''/'' \<in> set ifaceName then None
      else case InterfaceIdentity env ifaceName of
             None \<Rightarrow> None
           | Some ident \<Rightarrow> if iiMAC ident = [] then None else Some (iiMAC ident))"

definition autoSeed :: "string \<Rightarrow> profile \<Rightarrow> string \<Rightarrow> string" where
  "autoSeed hostname prof model = go_join ''|'' [''unifi-stubd'', hostname, profName prof, model]"

definition resolveMAC :: "host_services \<Rightarrow> string \<Rightarrow> string \<Rightarrow> profile \<Rightarrow> string \<Rightarrow> string \<Rightarrow> string \<Rightarrow> bytes option" where
  "resolveMAC os v0 hostname prof model operationMode ifaceName =
     (let v = trim_space v0 in
      if equal_fold v ''host'' then
        (if operationMode \<noteq> operationModeHostDirect then None else hostInterfaceMAC ifaceName (hsAddr os))
      else if v = [] \<or> equal_fold v automaticValue then Some (AutoMAC os (autoSeed hostname prof model))
      else ParseMAC v)"

text \<open>\<open>applyProfile\<close>: what the operator left empty comes from the profile.\<close>

definition setFlagDefault :: "string \<Rightarrow> string \<Rightarrow> string" where
  "setFlagDefault target v = (if target = [] then v else target)"

definition setFlagDefaultInt :: "int \<Rightarrow> int \<Rightarrow> int" where
  "setFlagDefaultInt target v = (if target = 0 then v else target)"

definition applyProfile :: "profile \<Rightarrow> serve_flags \<Rightarrow> serve_flags" where
  "applyProfile prof flags =
     flags\<lparr>sfModel := setFlagDefault (sfModel flags) (profModel prof),
       sfModelDisplay := setFlagDefault (sfModelDisplay flags) (profModelDisplay prof),
       sfVersion := setFlagDefault (sfVersion flags) (profVersion prof),
       sfPort := (sfPort flags)\<lparr>flPortCount := setFlagDefaultInt (flPortCount (sfPort flags)) (profPorts prof)\<rparr>\<rparr>"

section \<open>Build options of the ports (device_ports.go)\<close>

definition effectiveUplinkSpeedMode :: "runtime_flags \<Rightarrow> string" where
  "effectiveUplinkSpeedMode flags =
     (let v = trim_space (flUplinkSpeed flags) in
      if \<not> equal_fold v automaticValue then v
      else if normalizeMode (flOperationMode flags) \<noteq> operationModeBridgeObserve then v
      else if trim_space (boUplinkInterface (effectiveBridgeObserve flags)) = [] then v
      else ''profile'')"

text \<open>The loop over the ports of the profile, for the last copper port and the last port that are not the uplink.\<close>

fun copperCandidate :: "int \<times> int \<Rightarrow> port list \<Rightarrow> int \<times> int" where
  "copperCandidate (candidate, fallback) [] = (candidate, fallback)"
| "copperCandidate (candidate, fallback) (p # ps) =
     (if pUplink p then copperCandidate (candidate, fallback) ps
      else copperCandidate (if equal_fold (trim_space (pMedia p)) ''GE'' then pIndex p else candidate, pIndex p) ps)"

definition effectiveUplinkPort :: "profile \<Rightarrow> runtime_flags \<Rightarrow> int" where
  "effectiveUplinkPort prof flags =
     (if flUplinkPort flags > 0 then flUplinkPort flags
      else if normalizeMode (flOperationMode flags) \<noteq> operationModeBridgeObserve then flUplinkPort flags
      else if trim_space (boUplinkInterface (effectiveBridgeObserve flags)) = [] then flUplinkPort flags
      else if \<not> equal_fold (trim_space (payloadKind (profPayload prof))) ''switch'' then flUplinkPort flags
      else let ports = BuildPorts prof \<lparr>optCount = 0, optLinkSpeed = 0, optUplinkSpeed = 0, optUplinkPort = 0\<rparr>;
               media = (case find pUplink ports of Some p \<Rightarrow> trim_space (pMedia p) | None \<Rightarrow> [])
           in if media = [] \<or> equal_fold media ''GE'' then flUplinkPort flags
              else let (candidate, fallback) = copperCandidate (0, 0) ports
                   in if candidate = 0 then fallback else candidate)"

definition resolveUplinkSpeed :: "addr_env \<Rightarrow> port_build_options \<Rightarrow> string \<Rightarrow> string \<Rightarrow> port_build_options option" where
  "resolveUplinkSpeed env options v0 target =
     (let v = trim_space (to_lower v0) in
      if v = [] \<or> v = ''profile'' then Some options
      else if v = automaticValue then
        (case EgressLink env target of
           None \<Rightarrow> Some options
         | Some link \<Rightarrow> Some (options\<lparr>optUplinkSpeed := egSpeedMbps link\<rparr>))
      else (case parse_int64 v of
              ParsedInt speed \<Rightarrow> if speed \<le> 0 then None else Some (options\<lparr>optUplinkSpeed := speed\<rparr>)
            | _ \<Rightarrow> None))"

definition resolvePortBuildOptions ::
  "addr_env \<Rightarrow> int \<Rightarrow> int \<Rightarrow> int \<Rightarrow> string \<Rightarrow> string \<Rightarrow> port_build_options option" where
  "resolvePortBuildOptions env portCount linkSpeed uplinkPort uplinkSpeed controller =
     resolveUplinkSpeed env
       \<lparr>optCount = portCount, optLinkSpeed = linkSpeed, optUplinkSpeed = 0, optUplinkPort = uplinkPort\<rparr>
       uplinkSpeed controller"

section \<open>The identity of a run (serve_identity.go)\<close>

record serve_identity =
  sidMAC :: bytes
  sidIP :: bytes
  sidHostname :: string
  sidBuildOptions :: port_build_options

text \<open>\<open>None\<close> when the process ends.\<close>

definition resolveServeIdentity :: "host_services \<Rightarrow> serve_flags \<Rightarrow> profile \<Rightarrow> (serve_error + serve_identity) option" where
  "resolveServeIdentity os flags prof =
     (let hostname = resolveHostname os (sfHostname flags) in
      Option.bind (resolvePortBuildOptions (hsAddr os) (flPortCount (sfPort flags)) (flLinkSpeed (sfPort flags))
          (effectiveUplinkPort prof (sfPort flags)) (effectiveUplinkSpeedMode (sfPort flags)) (sfController flags))
        (\<lambda>options.
      map_option (\<lambda>mac.
         case Option.bind (ParseIP (sfIpText flags)) To4 of
           None \<Rightarrow> Inl InvalidIPv4
         | Some ip \<Rightarrow>
             (case resolveManagementIP flags ip (hsAddr os) of
                Inl e \<Rightarrow> Inl e
              | Inr ip' \<Rightarrow> Inr \<lparr>sidMAC = mac, sidIP = ip', sidHostname = hostname, sidBuildOptions = options\<rparr>))
        (resolveMAC os (sfMacText flags) hostname prof (sfModel flags) (flOperationMode (sfPort flags))
           (flObserveInterface (sfPort flags)))))"

section \<open>The payload (device_payload.go)\<close>

record controller_payload_state =
  cpTimeOffsetSeconds :: int
  cpBlocks :: block_selection

fun informStateNumber :: "inform_state \<Rightarrow> int" where
  "informStateNumber InformStateUnknown = 0"
| "informStateNumber InformStateDefault = 1"
| "informStateNumber InformStateManaged = 2"
| "informStateNumber InformStateSelfrun = 3"
| "informStateNumber InformStateUpgrade = 4"

definition refreshPortUptime :: "int \<Rightarrow> port \<Rightarrow> port" where
  "refreshPortUptime up p =
     p\<lparr>pMACs := map (\<lambda>m. if macUptime m < up then m\<lparr>macUptime := up\<rparr> else m) (pMACs p),
       pNeighbors := map (\<lambda>n. if nbUptime n < up then n\<lparr>nbUptime := up\<rparr> else n) (pNeighbors p)\<rparr>"

definition refreshPortUptimes :: "port list \<Rightarrow> int \<Rightarrow> port list" where
  "refreshPortUptimes ports up = (if up < 1 \<or> ports = [] then ports else map (refreshPortUptime up) ports)"

definition buildPayload ::
  "wall_time \<Rightarrow> identity \<Rightarrow> profile \<Rightarrow> adoption_store \<Rightarrow> port list \<Rightarrow> build_error + inform_payload" where
  "buildPayload clock ident prof store ports =
     (let ident = ident\<lparr>idCFGVersion := CFGVersion store, idAdopted := (AuthKey store \<noteq> []),
                idInformState := informStateNumber (controllerInformState store), idInformStateSet := True\<rparr>;
          ident = (if StoreVersion store \<noteq> [] then ident\<lparr>idVersion := StoreVersion store\<rparr> else ident)
      in Build clock prof ident ports)"

definition payloadForIdentity ::
  "host_services \<Rightarrow> wall_time \<Rightarrow> bytes \<Rightarrow> bytes \<Rightarrow> string \<Rightarrow> string \<Rightarrow> adoption_store \<Rightarrow> serve_flags \<Rightarrow> profile \<Rightarrow>
   port list \<Rightarrow> int \<Rightarrow> controller_payload_state \<Rightarrow> build_error + inform_payload" where
  "payloadForIdentity os clock mac ip hostname informURL store flags prof ports uptimeSeconds ctl =
     buildPayload clock
       \<lparr>idMAC = mac_string mac, idIP = IP_String ip, idHostname = hostname, idModel = sfModel flags,
        idModelDisplay = sfModelDisplay flags, idDeviceType = profDeviceType prof, idVersion = sfVersion flags,
        idSerial = serialFromMAC mac, idInformURL = informURL, idInformIP = resolveInformIP os informURL,
        idCFGVersion = [], idManagementVLAN = effectiveManagementVLAN flags, idUptimeSeconds = uptimeSeconds,
        idControllerTimeOffsetSeconds = cpTimeOffsetSeconds ctl,
        idIPv4ActiveLeasesRequested = Includes (cpBlocks ctl) ''ipv4_active_leases'',
        idGatewayMACIPv6Requested = Includes (cpBlocks ctl) ''port_table.mac_table_ipv6'',
        idGWCapabilitiesRequested = Includes (cpBlocks ctl) ''gw_caps'',
        idUDAPIVersionExcluded = Excludes (cpBlocks ctl) ''udapi_version'',
        idDPIStatsExcluded = Excludes (cpBlocks ctl) ''dpi_stats'',
        idFingerprintsExcluded = Excludes (cpBlocks ctl) ''fingerprints'',
        idInformState = 0, idInformStateSet = False, idAdopted = False\<rparr>
       prof store (refreshPortUptimes ports uptimeSeconds)"

end
