(* ===== verification/Operation_Validate.thy ===== *)
theory Operation_Validate
  imports Runtime_Payload Device_Profile
begin

text \<open>
  The checks between parsed settings and a running daemon: \<open>operation_validate.go\<close>,
  \<open>operation_source_validate.go\<close>, \<open>operation_port_validate.go\<close>, \<open>operation_identity_validate.go\<close>,
  the validation part of \<open>wan_health.go\<close>, \<open>operation_bridge.go\<close>, \<open>instance_guard.go\<close>,
  \<open>inform_schedule.go\<close>, \<open>management_lan_validate.go\<close>, \<open>management_lan_reach.go\<close>, and their order in
  \<open>serve_validate.go\<close>, \<open>profiles.go\<close> and \<open>serve_prepare.go\<close> of \<open>cmd/unifi-stubd\<close>.

  Checks that collect errors return their list, checks that stop at the first one an option. The
  reader of the configuration file, the profile files and the probe of the controller's TCP port are
  arguments; the addresses of the host are those of \<open>Host_Address\<close>, and \<open>None\<close> for the validation
  that must not touch the host.
\<close>

section \<open>Errors\<close>

datatype source_error = BadSourceName string string | SourceUnchecked string string | SourceNotFound string string
  | BadMember string | BadMemberPort int string | DuplicateMember string | DuplicateMemberPort int string string
  | DuplicateIgnored string | IgnoresBridge string | IgnoresUplink string | IgnoresPinned string
  | BadMappingPort int | DuplicateMappingPort int | MappingSources int | MissingMapping int

datatype neighbor_problem = NeighborPort | NeighborMAC | NeighborVLAN | NeighborIP | NeighborRemotePort

datatype operation_error = BadOperationMode string | BadLldpSource string | BadProcSource string
  | BadInstanceGuard string | EmptyInstanceGuardPath string | HostMACOnlyDirect | MacvlanPlannedOnly
  | BadDiscoveryInterface string | BadUplinkPort int | BadUplinkNeighbor neighbor_problem
  | BadPortNeighbor int neighbor_problem | BadPortOverride override_error | TopologyInvalid topology_error
  | BadHealthSource string | BadHealthInterval int | BadHealthTimeout int | HealthTargetsRequired
  | BadHealthTargetPort int | BadHealthTargetHost int | HealthGatewayOnly | HealthNotExplicit int
  | HealthRole int | SourceErrors "source_error list" | ServeError serve_error | BadSchedule schedule_error
  | ConfigUnreadable | RegistryError load_error | RegistryPath string | UnknownProfile string | UnknownExport

section \<open>Modes and optional sources (operation_validate.go, instance_guard.go)\<close>

definition operationModeMacvlan :: string where "operationModeMacvlan = ''macvlan''"

definition instanceGuardFail :: string where "instanceGuardFail = ''fail''"
definition instanceGuardWarn :: string where "instanceGuardWarn = ''warn''"
definition instanceGuardOff :: string where "instanceGuardOff = ''off''"

definition normalizeInstanceGuard :: "string \<Rightarrow> string" where
  "normalizeInstanceGuard v = (if to_lower (trim_space v) = [] then instanceGuardFail else to_lower (trim_space v))"

definition validateInstanceGuard :: "serve_flags \<Rightarrow> operation_error + serve_flags" where
  "validateInstanceGuard flags =
     (let guard = normalizeInstanceGuard (sfInstanceGuard flags); flags = flags\<lparr>sfInstanceGuard := guard\<rparr> in
      if guard \<notin> {instanceGuardFail, instanceGuardWarn, instanceGuardOff} then Inl (BadInstanceGuard guard)
      else if guard \<noteq> instanceGuardOff \<and> trim_space (sfInstanceGuardPath flags) = [] then Inl (EmptyInstanceGuardPath guard)
      else Inr flags)"

definition normalizeWANHealthConfig :: "serve_flags \<Rightarrow> serve_flags" where
  "normalizeWANHealthConfig =
     setPortFlags (\<lambda>p. p\<lparr>flWanHealth := (flWanHealth p)\<lparr>wcSource := NormalizeSource (wcSource (flWanHealth p))\<rparr>\<rparr>)"

definition optionalSource :: "string \<Rightarrow> string" where
  "optionalSource v = (if to_lower (trim_space v) = [] then ''off'' else to_lower (trim_space v))"

text \<open>The normalized fields are all written before the first check; an error discards them in the code too.\<close>

definition normalizeOperation :: "serve_flags \<Rightarrow> serve_flags" where
  "normalizeOperation flags =
     (setPortFlags (\<lambda>p. p\<lparr>flOperationMode := normalizeMode (flOperationMode p),
        flLldpSource := optionalSource (flLldpSource p)\<rparr>) flags)\<lparr>sfProcSource := optionalSource (sfProcSource flags)\<rparr>"

text \<open>The checks after the instance guard.\<close>

definition validateModeFlags :: "serve_flags \<Rightarrow> operation_error + serve_flags" where
  "validateModeFlags flags0 =
     (let mode = flOperationMode (sfPort flags0); flags = normalizeWANHealthConfig flags0 in
      if equal_fold (trim_space (sfMacText flags0)) ''host'' \<and> mode \<noteq> operationModeHostDirect then Inl HostMACOnlyDirect
      else if mode = operationModeMacvlan \<and> \<not> sfDryRunPlan flags then Inl MacvlanPlannedOnly
      else if CHR ''/'' \<in> set (trim_space (sfDiscoveryInterface flags))
      then Inl (BadDiscoveryInterface (trim_space (sfDiscoveryInterface flags)))
      else Inr flags)"

definition validateOperationFlags :: "serve_flags \<Rightarrow> operation_error + serve_flags" where
  "validateOperationFlags flags0 =
     (let flags = normalizeOperation flags0; mode = flOperationMode (sfPort flags); lldp = flLldpSource (sfPort flags) in
      if mode \<notin> {operationModeStub, operationModeBridgeObserve, operationModePortMap, operationModeHostDirect,
                 operationModeMacvlan} then Inl (BadOperationMode mode)
      else if lldp \<noteq> ''off'' \<and> lldp \<noteq> ''lldpd'' then Inl (BadLldpSource lldp)
      else if sfProcSource flags \<noteq> ''off'' \<and> sfProcSource flags \<noteq> ''procfs'' then Inl (BadProcSource (sfProcSource flags))
      else case validateInstanceGuard flags of Inl e \<Rightarrow> Inl e | Inr flags \<Rightarrow> validateModeFlags flags)"

section \<open>Source mappings (operation_source_validate.go, operation_bridge.go)\<close>

definition validateInterfaceName :: "string \<Rightarrow> string \<Rightarrow> bool \<Rightarrow> addr_env option \<Rightarrow> source_error option" where
  "validateInterfaceName field0 v0 live addresses =
     (let v = trim_space v0 in
      if v = [] then None
      else if CHR ''/'' \<in> set v then Some (BadSourceName field0 v)
      else if live then
        (case addresses of
           None \<Rightarrow> Some (SourceUnchecked field0 v)
         | Some env \<Rightarrow> if InterfaceIdentity env v = None then Some (SourceNotFound field0 v) else None)
      else None)"

definition errorList :: "'e option \<Rightarrow> 'e list" where
  "errorList e = (case e of None \<Rightarrow> [] | Some x \<Rightarrow> [x])"

text \<open>The loops carry the members and ports seen so far; an entry that is absent counts as the empty name.\<close>

fun validateBridgeMemberPortMap ::
  "string list \<Rightarrow> (int \<Rightarrow> string) \<Rightarrow> bridge_member_port_map list \<Rightarrow> source_error list" where
  "validateBridgeMemberPortMap seenMembers seenPorts [] = []"
| "validateBridgeMemberPortMap seenMembers seenPorts (m # ms) =
     (let member = trim_space (bmMember m) in
      if member = [] then validateBridgeMemberPortMap seenMembers seenPorts ms
      else (if member \<in> set seenMembers then [DuplicateMember member] else []) @
           (if seenPorts (bmPort m) \<noteq> [] then [DuplicateMemberPort (bmPort m) (seenPorts (bmPort m)) member] else []) @
           validateBridgeMemberPortMap (member # seenMembers) (seenPorts(bmPort m := member)) ms)"

definition bridgeMemberKey :: "string \<Rightarrow> string" where "bridgeMemberKey v = to_lower (trim_space v)"

fun ignoredMemberErrors :: "bridge_observe \<Rightarrow> string list \<Rightarrow> string list \<Rightarrow> source_error list" where
  "ignoredMemberErrors cfg seen [] = []"
| "ignoredMemberErrors cfg seen (member # ms) =
     (let key = bridgeMemberKey member in
      if key = [] then ignoredMemberErrors cfg seen ms
      else (if key \<in> set seen then [DuplicateIgnored (trim_space member)]
            else if key = bridgeMemberKey (boBridge cfg) then [IgnoresBridge (trim_space member)]
            else if key = bridgeMemberKey (boUplinkInterface cfg) then [IgnoresUplink (trim_space member)]
            else if key \<in> set (map (bridgeMemberKey \<circ> bmMember) (boMemberPortMap cfg)) then [IgnoresPinned (trim_space member)]
            else []) @ ignoredMemberErrors cfg (key # seen) ms)"

definition validateIgnoredMembers :: "bridge_observe \<Rightarrow> source_error list" where
  "validateIgnoredMembers cfg = ignoredMemberErrors cfg [] (boIgnoredMembers cfg)"

definition memberMappingErrors :: "runtime_flags \<Rightarrow> bridge_member_port_map \<Rightarrow> source_error list" where
  "memberMappingErrors flags m =
     (let member = trim_space (bmMember m) in
      (if member = [] \<or> CHR ''/'' \<in> set member then [BadMember (bmMember m)] else []) @
      (if bmPort m < 1 \<or> bmPort m > flPortCount flags then [BadMemberPort (bmPort m) member] else []))"

definition validateObserveSources :: "runtime_flags \<Rightarrow> bool \<Rightarrow> addr_env option \<Rightarrow> source_error list" where
  "validateObserveSources flags live addresses =
     (let cfg = effectiveBridgeObserve flags in
      errorList (validateInterfaceName ''bridge_observe.bridge'' (boBridge cfg) live addresses) @
      errorList (validateInterfaceName ''bridge_observe.uplink_interface'' (boUplinkInterface cfg) live addresses) @
      concat (map (\<lambda>m. errorList (validateInterfaceName ''bridge_observe.ignored_members'' m live addresses))
        (boIgnoredMembers cfg)) @
      concat (map (memberMappingErrors flags) (boMemberPortMap cfg)) @
      validateBridgeMemberPortMap [] (\<lambda>_. []) (boMemberPortMap cfg) @
      validateIgnoredMembers cfg)"

text \<open>The number of sources an entry of the port map sets.\<close>

definition mappingSources :: "port_mapping \<Rightarrow> nat" where
  "mappingSources m =
     (if trim_space (pmInterface m) \<noteq> [] then 1 else 0) + (if pmDisabled m then 1 else 0) + (if pmUnmapped m then 1 else 0)"

definition mappingErrors :: "bool \<Rightarrow> addr_env option \<Rightarrow> port_mapping \<Rightarrow> source_error list" where
  "mappingErrors live addresses m =
     (if trim_space (pmInterface m) \<noteq> []
      then errorList (validateInterfaceName ''port_mappings.interface'' (pmInterface m) live addresses) else []) @
     (if mappingSources m \<noteq> 1 then [MappingSources (pmPort m)] else [])"

fun portMappingLoop ::
  "int \<Rightarrow> bool \<Rightarrow> addr_env option \<Rightarrow> int list \<Rightarrow> port_mapping list \<Rightarrow> source_error list \<times> int list" where
  "portMappingLoop n live addresses seen [] = ([], seen)"
| "portMappingLoop n live addresses seen (m # ms) =
     (if pmPort m < 1 \<or> pmPort m > n
      then (let (errs, s) = portMappingLoop n live addresses seen ms in (BadMappingPort (pmPort m) # errs, s))
      else (let (errs, s) = portMappingLoop n live addresses (pmPort m # seen) ms
            in ((if pmPort m \<in> set seen then [DuplicateMappingPort (pmPort m)] else []) @
                mappingErrors live addresses m @ errs, s)))"

definition validatePortMapSources :: "runtime_flags \<Rightarrow> bool \<Rightarrow> addr_env option \<Rightarrow> source_error list" where
  "validatePortMapSources flags live addresses =
     (let (errs, seen) = portMappingLoop (flPortCount flags) live addresses [] (flPortMappings flags)
      in errs @ map MissingMapping (filter (\<lambda>p. p \<notin> set seen) [1..flPortCount flags]))"

definition validateSourceMappings :: "serve_flags \<Rightarrow> bool \<Rightarrow> addr_env option \<Rightarrow> operation_error option" where
  "validateSourceMappings flags live addresses =
     (let mode = normalizeMode (flOperationMode (sfPort flags));
          errs = (if mode = operationModeBridgeObserve then validateObserveSources (sfPort flags) live addresses
                  else if mode = operationModePortMap then validatePortMapSources (sfPort flags) live addresses
                  else [])
      in if errs = [] then None else Some (SourceErrors errs))"

section \<open>Neighbours, overrides and topology (operation_port_validate.go)\<close>

definition invalidIPv4 :: "string \<Rightarrow> bool" where
  "invalidIPv4 v \<longleftrightarrow> trim_space v \<noteq> [] \<and> Option.bind (ParseIP (trim_space v)) To4 = None"

definition uplinkNeighborProblem :: "topology_neighbor \<Rightarrow> neighbor_problem option" where
  "uplinkNeighborProblem n =
     (if ParseMAC (nbMAC n) = None then Some NeighborMAC
      else if nbVLAN n < 0 then Some NeighborVLAN
      else if invalidIPv4 (nbIP n) then Some NeighborIP
      else if nbRemotePort n < 0 \<or> nbRemotePort n > 65535 then Some NeighborRemotePort
      else None)"

definition portNeighborProblem :: "int \<Rightarrow> port_neighbor \<Rightarrow> neighbor_problem option" where
  "portNeighborProblem portCount n =
     (if pnPort n < 1 \<or> pnPort n > portCount then Some NeighborPort
      else if ParseMAC (macMAC (pnEntry n)) = None then Some NeighborMAC
      else if macVLAN (pnEntry n) < 0 then Some NeighborVLAN
      else if invalidIPv4 (macIP (pnEntry n)) then Some NeighborIP
      else if pnRemotePort n < 0 \<or> pnRemotePort n > 65535 then Some NeighborRemotePort
      else None)"

text \<open>The error of the first element that has one.\<close>

fun firstErrorOf :: "('a \<Rightarrow> 'e option) \<Rightarrow> 'a list \<Rightarrow> 'e option" where
  "firstErrorOf check [] = None"
| "firstErrorOf check (x # xs) = (case check x of Some e \<Rightarrow> Some e | None \<Rightarrow> firstErrorOf check xs)"

definition previewOptions :: "profile \<Rightarrow> runtime_flags \<Rightarrow> port_build_options" where
  "previewOptions prof flags =
     \<lparr>optCount = flPortCount flags, optLinkSpeed = flLinkSpeed flags, optUplinkSpeed = 0,
      optUplinkPort = effectiveUplinkPort prof flags\<rparr>"

definition previewPorts :: "profile \<Rightarrow> runtime_flags \<Rightarrow> port list" where
  "previewPorts prof flags =
     ApplyUplinkNeighbor (ApplyPortNeighbors (BuildPorts prof (previewOptions prof flags)) (flPortNeighbors flags))
       (flUplinkNeighbor flags)"

definition validatePortOverrides :: "runtime_flags \<Rightarrow> profile \<Rightarrow> operation_error option" where
  "validatePortOverrides flags prof =
     (if flUplinkPort flags < 0 \<or> flUplinkPort flags > flPortCount flags then Some (BadUplinkPort (flUplinkPort flags))
      else case Option.bind (flUplinkNeighbor flags) uplinkNeighborProblem of
        Some e \<Rightarrow> Some (BadUplinkNeighbor e)
      | None \<Rightarrow>
        (case firstErrorOf (\<lambda>n. map_option (BadPortNeighbor (pnPort n)) (portNeighborProblem (flPortCount flags) n))
                (flPortNeighbors flags) of
           Some e \<Rightarrow> Some e
         | None \<Rightarrow>
             (case firstErrorOf (\<lambda>ov. map_option BadPortOverride (ValidatePortOverride ov (flPortCount flags)))
                     (flPortOverrides flags) of
                Some e \<Rightarrow> Some e
              | None \<Rightarrow>
                  (case ResolveTopology (previewPorts prof flags) of
                     Inl e \<Rightarrow> Some (TopologyInvalid e)
                   | Inr _ \<Rightarrow> None))))"

section \<open>Identity (operation_identity_validate.go)\<close>

definition validateIdentityFlags :: "serve_flags \<Rightarrow> operation_error option" where
  "validateIdentityFlags flags =
     (if Option.bind (ParseIP (trim_space (sfIpText flags))) To4 = None then Some (ServeError InvalidIPv4)
      else let macText = trim_space (sfMacText flags) in
        if macText = [] \<or> equal_fold macText automaticValue \<or> equal_fold macText ''host'' then None
        else if ParseMAC macText = None then Some (ServeError InvalidMAC) else None)"

section \<open>WAN health (wan_health.go)\<close>

definition healthTargetError :: "runtime_flags \<Rightarrow> wan_health_target \<Rightarrow> operation_error option" where
  "healthTargetError flags t =
     (if wtPort t < 1 \<or> wtPort t > flPortCount flags then Some (BadHealthTargetPort (wtPort t))
      else if trim_space (wtHost t) = [] then Some (BadHealthTargetHost (wtPort t)) else None)"

definition validateWANHealthConfig :: "runtime_flags \<Rightarrow> operation_error option" where
  "validateWANHealthConfig flags =
     (let cfg = flWanHealth flags; source = NormalizeSource (wcSource cfg) in
      if source \<notin> {''off'', ''static'', ''ping''} then Some (BadHealthSource (wcSource cfg))
      else if wcIntervalSeconds cfg \<le> 0 then Some (BadHealthInterval (wcIntervalSeconds cfg))
      else if wcTimeoutMS cfg \<le> 0 then Some (BadHealthTimeout (wcTimeoutMS cfg))
      else if source = ''ping'' \<and> wcTargets cfg = [] then Some HealthTargetsRequired
      else firstErrorOf (healthTargetError flags) (wcTargets cfg))"

definition healthPreviewPorts :: "runtime_flags \<Rightarrow> profile \<Rightarrow> port list" where
  "healthPreviewPorts flags prof = ApplyPortOverrides (BuildPorts prof (previewOptions prof flags)) (flPortOverrides flags)"

definition wanTargetError :: "runtime_flags \<Rightarrow> profile \<Rightarrow> wan_health_target \<Rightarrow> operation_error option" where
  "wanTargetError flags prof t =
     (let ports = healthPreviewPorts flags prof in
      if explicitWANPorts (flPortOverrides flags) (wtPort t) \<noteq> Some True then Some (HealthNotExplicit (wtPort t))
      else if wtPort t < 1 \<or> wtPort t > int (length ports) then None
      else if \<not> isWANRole (pRole (ports ! nat (wtPort t - 1))) then Some (HealthRole (wtPort t)) else None)"

definition validateWANHealthTargets :: "runtime_flags \<Rightarrow> profile \<Rightarrow> operation_error option" where
  "validateWANHealthTargets flags prof =
     (if NormalizeSource (wcSource (flWanHealth flags)) \<noteq> ''ping'' then None
      else if \<not> isGatewayProfile prof then Some HealthGatewayOnly
      else firstErrorOf (wanTargetError flags prof) (wcTargets (flWanHealth flags)))"

section \<open>Management LAN (management_lan_validate.go, management_lan_reach.go)\<close>

definition controllerHostPort :: "string \<Rightarrow> string option" where
  "controllerHostPort rawURL =
     (case url_Parse (trim_space rawURL) of
        None \<Rightarrow> None
      | Some parsed \<Rightarrow>
          if Hostname parsed = [] then None
          else Some (JoinHostPort (Hostname parsed)
                 (if url_Port parsed \<noteq> [] then url_Port parsed
                  else if urlScheme parsed = ''https'' then ''443'' else ''80'')))"

text \<open>\<open>dialTCP\<close> tells whether a connection from a local address succeeds.\<close>

definition checkControllerReachability ::
  "(string \<Rightarrow> bytes \<Rightarrow> bool) \<Rightarrow> serve_flags \<Rightarrow> management_lan \<Rightarrow> bytes \<Rightarrow> serve_error option" where
  "checkControllerReachability dialTCP flags cfg sourceIP =
     (if mlControllerReachable cfg = managementLANReachOff then None
      else case controllerHostPort (sfController flags) of
             None \<Rightarrow> Some ControllerUnreachable
           | Some hostPort \<Rightarrow> if dialTCP hostPort sourceIP then None else Some ControllerUnreachable)"

definition reachabilityVerdict :: "management_lan \<Rightarrow> serve_error option \<Rightarrow> serve_error option" where
  "reachabilityVerdict cfg e =
     (case e of None \<Rightarrow> None | Some err \<Rightarrow> if mlControllerReachable cfg = managementLANReachRequired then Some err else None)"

definition validatePreexistingManagement ::
  "(string \<Rightarrow> bytes \<Rightarrow> bool) \<Rightarrow> serve_flags \<Rightarrow> management_lan \<Rightarrow> addr_env option \<Rightarrow> serve_error option" where
  "validatePreexistingManagement dialTCP flags cfg addresses =
     (case addresses of
        None \<Rightarrow> Some ManagementInterfaceNotFound
      | Some env \<Rightarrow>
          (case managementLANInterfaceIP cfg env of
             Inl e \<Rightarrow> Some e
           | Inr sourceIP \<Rightarrow>
               if mlIP cfg \<noteq> [] then
                 (case Option.bind (ParseIP (mlIP cfg)) To4 of
                    None \<Rightarrow> Some InvalidManagementIP
                  | Some configured \<Rightarrow>
                      if \<not> ip_equal configured sourceIP \<and> \<not> interfaceHasIPv4 (mlInterface cfg) configured env
                      then Some ManagementIPNotAssigned
                      else reachabilityVerdict cfg (checkControllerReachability dialTCP flags cfg configured))
               else reachabilityVerdict cfg (checkControllerReachability dialTCP flags cfg sourceIP)))"

definition validateManagementLAN ::
  "(string \<Rightarrow> bytes \<Rightarrow> bool) \<Rightarrow> serve_flags \<Rightarrow> profile \<Rightarrow> bool \<Rightarrow> addr_env option \<Rightarrow> serve_error option" where
  "validateManagementLAN dialTCP flags prof live addresses =
     (let cfg = effectiveManagementLAN flags in
      if mlVLAN cfg < 0 \<or> mlVLAN cfg > 4094 then Some (InvalidVLAN (mlVLAN cfg))
      else if \<not> mlEnabled cfg then None
      else if managementRequested flags \<and> to_lower (trim_space (payloadKind (profPayload prof))) \<noteq> ''switch''
      then Some SwitchProfilesOnly
      else if mlMode cfg \<notin> {managementLANModeMetadataOnly, managementLANModePreexistingInterface,
                              managementLANModePlannedHostVLAN} then Some (InvalidManagementMode (mlMode cfg))
      else if mlControllerReachable cfg \<notin> {managementLANReachOff, managementLANReachWarn, managementLANReachRequired}
      then Some (InvalidReachable (mlControllerReachable cfg))
      else if mlAdoptionStrategy cfg \<notin> {managementLANAdoptUntaggedFirst, managementLANAdoptTaggedOnly}
      then Some (InvalidAdoptionStrategy (mlAdoptionStrategy cfg))
      else if mlMode cfg = managementLANModePlannedHostVLAN \<and> \<not> sfDryRunPlan flags then Some PlannedDryRunOnly
      else if mlMode cfg = managementLANModeMetadataOnly then None
      else if mlInterface cfg = [] then Some ManagementInterfaceRequired
      else if CHR ''/'' \<in> set (mlInterface cfg) then Some (InvalidManagementInterface (mlInterface cfg))
      else if mlMode cfg = managementLANModePreexistingInterface \<and> live
      then validatePreexistingManagement dialTCP flags cfg addresses
      else None)"

section \<open>The inform schedule (inform_schedule.go)\<close>

definition informScheduleConfig :: "serve_flags \<Rightarrow> inform_schedule_policy \<Rightarrow> schedule_config" where
  "informScheduleConfig flags policy =
     \<lparr>BaseInterval = sfInterval flags, ControllerIntervalMin = sfControllerIntervalMin flags,
      ControllerIntervalMax = sfControllerIntervalMax flags, FirmwareIntervalMin = spFirmwareMinimum policy,
      ControllerHints = spSupported policy, BackoffMax = sfInformBackoffMax flags,
      JitterPercent = sfInformBackoffJitterPercent flags\<rparr>"

definition validateInformSchedule :: "serve_flags \<Rightarrow> inform_schedule_policy \<Rightarrow> operation_error option" where
  "validateInformSchedule flags policy =
     map_option BadSchedule (ValidateScheduleConfig (informScheduleConfig flags policy))"

section \<open>The start of the daemon (serve_prepare.go, serve_validate.go, profiles.go)\<close>

text \<open>The errors of a sequence of checks: the first one.\<close>

definition orElse :: "'e option \<Rightarrow> 'e option \<Rightarrow> 'e option" where
  "orElse a b = (case a of Some e \<Rightarrow> Some e | None \<Rightarrow> b)"

text \<open>What the start reads from outside: the configuration loader, the built-in profile records, the files
  behind a profile path (\<open>None\<close> when it cannot be read), the addresses of the host and the TCP probe.\<close>

record start_env =
  stLoad :: "string \<Rightarrow> load_result"
  stBuiltin :: "profile_record list"
  stFiles :: "string \<Rightarrow> (string \<times> bytes option) list option"
  stYaml :: yaml_lib
  stAddr :: addr_env
  stDial :: "string \<Rightarrow> bytes \<Rightarrow> bool"

fun loadProfilePaths :: "start_env \<Rightarrow> string list \<Rightarrow> profile_record list \<Rightarrow> operation_error + profile_record list" where
  "loadProfilePaths st [] records = Inr records"
| "loadProfilePaths st (path # paths) records =
     (if path = [] then loadProfilePaths st paths records
      else case stFiles st path of
             None \<Rightarrow> Inl (RegistryPath path)
           | Some files \<Rightarrow>
               (case LoadFiles (stYaml st) files records of
                  (records', Some e) \<Rightarrow> Inl (RegistryError e)
                | (records', None) \<Rightarrow> loadProfilePaths st paths records'))"

definition loadProfileRegistry :: "start_env \<Rightarrow> serve_flags \<Rightarrow> operation_error + profile_record list" where
  "loadProfileRegistry st flags =
     loadProfilePaths st [trim_space (sfProfileDir flags), trim_space (sfProfileFile flags)] (stBuiltin st)"

definition validateServeRuntime ::
  "start_env \<Rightarrow> serve_flags \<Rightarrow> profile \<Rightarrow> inform_schedule_policy \<Rightarrow> operation_error option" where
  "validateServeRuntime st flags prof policy =
     orElse (validateInformSchedule flags policy)
     (orElse (validateWANHealthConfig (sfPort flags))
     (orElse (map_option ServeError (validateManagementLAN (stDial st) flags prof False None))
       (validateSourceMappings flags False None)))"

definition validateLiveServeSources :: "start_env \<Rightarrow> serve_flags \<Rightarrow> profile \<Rightarrow> operation_error option" where
  "validateLiveServeSources st flags prof =
     (if sfDryRunPlan flags then None
      else orElse (validateSourceMappings flags True (Some (stAddr st)))
             (map_option ServeError (validateManagementLAN (stDial st) flags prof True (Some (stAddr st)))))"

definition validateRuntime :: "start_env \<Rightarrow> serve_flags \<Rightarrow> profile \<Rightarrow> operation_error option" where
  "validateRuntime st flags prof =
     orElse (validateIdentityFlags flags)
     (orElse (validatePortOverrides (sfPort flags) prof)
     (orElse (validateWANHealthTargets (sfPort flags) prof)
     (orElse (validateSourceMappings flags True (Some (stAddr st)))
       (map_option ServeError (validateManagementLAN (stDial st) flags prof True (Some (stAddr st)))))))"

record prepared =
  prFlags :: serve_flags
  prProfile :: profile
  prSchedulePolicy :: inform_schedule_policy
  prReportingPolicy :: controller_reporting_policy

text \<open>The start ends with an error, with a command that is done, or with a prepared run.\<close>

datatype start_result = StartError operation_error | StartDone | Prepared prepared

definition doneUnless :: "operation_error option \<Rightarrow> start_result" where
  "doneUnless e = (case e of Some err \<Rightarrow> StartError err | None \<Rightarrow> StartDone)"

definition prepareServeRuntime :: "start_env \<Rightarrow> (string \<Rightarrow> bool) \<Rightarrow> serve_flags \<Rightarrow> start_result" where
  "prepareServeRuntime st changed flags0 =
     (case loadConfig (stLoad st) (sfConfigPath flags0) (changed ''config'') of
        None \<Rightarrow> StartError ConfigUnreadable
      | Some cfg \<Rightarrow>
          let flags1 = applyConfig cfg changed flags0 in
          (case loadProfileRegistry st flags1 of
             Inl e \<Rightarrow> StartError e
           | Inr registry \<Rightarrow>
               if sfListProfiles flags1 then StartDone
               else if trim_space (sfProfileExport flags1) \<noteq> [] then
                 (case ExportProfile registry (sfProfileExport flags1) of
                    None \<Rightarrow> StartError UnknownExport | Some _ \<Rightarrow> StartDone)
               else (case validateOperationFlags flags1 of
                  Inl e \<Rightarrow> StartError e
                | Inr flags2 \<Rightarrow>
                    (case LookupProfile registry (sfProfileName flags2) of
                       None \<Rightarrow> StartError (UnknownProfile (sfProfileName flags2))
                     | Some prof \<Rightarrow>
                         let flags = applyProfile prof flags2;
                             policy = ResolveInformSchedulePolicy prof (sfModel flags) (sfVersion flags);
                             reporting = ResolveControllerReportingPolicy prof (sfModel flags) (sfVersion flags) in
                         (case validateServeRuntime st flags prof policy of
                            Some e \<Rightarrow> StartError e
                          | None \<Rightarrow>
                              if sfValidate flags then doneUnless (validateRuntime st flags prof)
                              else (case orElse (validateLiveServeSources st flags prof)
                                         (orElse (validatePortOverrides (sfPort flags) prof)
                                           (validateWANHealthTargets (sfPort flags) prof)) of
                                 Some e \<Rightarrow> StartError e
                               | None \<Rightarrow> Prepared \<lparr>prFlags = flags, prProfile = prof, prSchedulePolicy = policy,
                                            prReportingPolicy = reporting\<rparr>))))))"

end
