(* ===== verification/Traffic_Rates.thy ===== *)
theory Traffic_Rates
  imports Ports
begin

text \<open>
  Traffic rates: the tracker of \<open>internal/observe/rates.go\<close> and its use on the ports of a heartbeat,
  \<open>cmd/unifi-stubd/traffic_rates.go\<close>. A rate is computed in \<open>float64\<close>; the model rounds every operation to
  the nearest number with 53 significant bits, ties to even, on exact rationals. Exponents are not
  bounded: all quantities lie far inside the normal range. The clock is monotonic, in nanoseconds.
  The conversion of a quotient of 2^63 and more to \<open>int64\<close> is left to the platform by the language and
  is an argument, \<open>outOfRange\<close>.
\<close>

section \<open>Binary floating point\<close>

fun bit_length :: "nat \<Rightarrow> nat" where
  "bit_length n = (if n = 0 then 0 else Suc (bit_length (n div 2)))"

declare bit_length.simps [simp del]

definition pow2 :: "int \<Rightarrow> rat" where
  "pow2 e = (if 0 \<le> e then 2 ^ nat e else 1 / 2 ^ nat (- e))"

definition round_half_even :: "rat \<Rightarrow> int" where
  "round_half_even x =
     (let f = floor x; d = x - of_int f in
      if d < 1 / 2 then f else if 1 / 2 < d then f + 1 else if even f then f else f + 1)"

definition f64_exponent :: "rat \<Rightarrow> int" where
  "f64_exponent x =
     (let (p, q) = quotient_of x; e = int (bit_length (nat p)) - int (bit_length (nat q)) - 53
      in if 2 ^ 53 \<le> x / pow2 e then e + 1 else e)"

definition round_positive :: "rat \<Rightarrow> rat" where
  "round_positive x = of_int (round_half_even (x / pow2 (f64_exponent x))) * pow2 (f64_exponent x)"

definition round_f64 :: "rat \<Rightarrow> rat" where
  "round_f64 x = (if x = 0 then 0 else if x < 0 then - round_positive (- x) else round_positive x)"

text \<open>\<open>Duration.Seconds\<close> and the conversion of a \<open>float64\<close> to \<open>int64\<close>.\<close>

definition duration_seconds :: "int \<Rightarrow> rat" where
  "duration_seconds d =
     (let sec = go_div d 1000000000; nsec = d - sec * 1000000000
      in round_f64 (round_f64 (of_int sec) + round_f64 (round_f64 (of_int nsec) / 1000000000)))"

definition f64_to_int64 :: "(rat \<Rightarrow> int) \<Rightarrow> rat \<Rightarrow> int" where
  "f64_to_int64 outOfRange x =
     (let t = (if x < 0 then - floor (- x) else floor x) in if int64_range t then t else outOfRange x)"

section \<open>The tracker (rates.go)\<close>

record rate_sample =
  smTime :: int
  smRX :: int
  smTX :: int

type_synonym rate_tracker = "string \<Rightarrow> rate_sample option"

text \<open>\<open>Time.Sub\<close> saturates.\<close>

definition time_sub :: "int \<Rightarrow> int \<Rightarrow> int" where
  "time_sub a b = (if a - b > MaxInt64 then MaxInt64 else if a - b < MinInt64 then MinInt64 else a - b)"

definition hasByteCounters :: "int \<Rightarrow> int \<Rightarrow> bool" where
  "hasByteCounters rx tx \<longleftrightarrow> rx > 0 \<or> tx > 0"

definition byteRate :: "(rat \<Rightarrow> int) \<Rightarrow> int \<Rightarrow> int \<Rightarrow> int \<Rightarrow> int" where
  "byteRate outOfRange current previous elapsed =
     f64_to_int64 outOfRange (round_f64 (round_f64 (of_int (wrap64 (current - previous))) / duration_seconds elapsed))"

text \<open>The rates, \<open>None\<close> when they are not set, and the tracker with the current sample.\<close>

definition Rates ::
  "(rat \<Rightarrow> int) \<Rightarrow> rate_tracker \<Rightarrow> int \<Rightarrow> string \<Rightarrow> int \<Rightarrow> int \<Rightarrow> bool \<Rightarrow> (int \<times> int) option \<times> rate_tracker" where
  "Rates outOfRange tracker now key0 rx tx up =
     (let key = to_lower (trim_space key0) in
      if key = [] \<or> \<not> hasByteCounters rx tx then (None, tracker)
      else let tracker' = tracker(key \<mapsto> \<lparr>smTime = now, smRX = rx, smTX = tx\<rparr>) in
        case tracker key of
          None \<Rightarrow> (None, tracker')
        | Some prev \<Rightarrow>
            if \<not> up then (None, tracker')
            else let elapsed = time_sub now (smTime prev) in
              if duration_seconds elapsed \<le> 0 \<or> rx < smRX prev \<or> tx < smTX prev then (None, tracker')
              else (Some (byteRate outOfRange rx (smRX prev) elapsed, byteRate outOfRange tx (smTX prev) elapsed), tracker'))"

section \<open>The ports (traffic_rates.go)\<close>

definition trafficRateKey :: "port \<Rightarrow> string" where
  "trafficRateKey p = trim_space (pInterface p)"

definition applyTrafficRate :: "(rat \<Rightarrow> int) \<Rightarrow> int \<Rightarrow> rate_tracker \<Rightarrow> port \<Rightarrow> port \<times> rate_tracker" where
  "applyTrafficRate outOfRange now tracker p0 =
     (let p = p0\<lparr>pTrafficRatesEnabled := True\<rparr>; key = trafficRateKey p in
      if key = [] \<or> \<not> pCountersSet p then (p, tracker)
      else case Rates outOfRange tracker now key (pRXBytes p) (pTXBytes p) (pUp p) of
             (None, tracker') \<Rightarrow> (p, tracker')
           | (Some (rx, tx), tracker') \<Rightarrow>
               (p\<lparr>pRXBytesRate := rx, pTXBytesRate := tx, pTrafficRatesSet := True\<rparr>, tracker'))"

fun applyTrafficRates :: "(rat \<Rightarrow> int) \<Rightarrow> int \<Rightarrow> rate_tracker \<Rightarrow> port list \<Rightarrow> port list \<times> rate_tracker" where
  "applyTrafficRates outOfRange now tracker [] = ([], tracker)"
| "applyTrafficRates outOfRange now tracker (p # ps) =
     (let (p', tracker') = applyTrafficRate outOfRange now tracker p;
          (ps', tracker'') = applyTrafficRates outOfRange now tracker' ps
      in (p' # ps', tracker''))"

section \<open>Rounding errs by at most one part in 2^53\<close>

lemma bit_length_bounds: "n > 0 \<Longrightarrow> 2 ^ (bit_length n - 1) \<le> n \<and> n < 2 ^ bit_length n \<and> bit_length n > 0"
proof (induction n rule: bit_length.induct)
  case (1 n)
  show ?case
  proof (cases "n div 2 = 0")
    case True
    then have "n = 1" using 1 by simp
    then show ?thesis by (simp add: bit_length.simps)
  next
    case False
    then have ih: "2 ^ (bit_length (n div 2) - 1) \<le> n div 2" "n div 2 < 2 ^ bit_length (n div 2)" "bit_length (n div 2) > 0"
      using 1 by simp_all
    have b: "bit_length n = Suc (bit_length (n div 2))" using 1(2) by (simp add: bit_length.simps)
    have "(2::nat) ^ bit_length (n div 2) = 2 * 2 ^ (bit_length (n div 2) - 1)"
      using ih(3) by (metis power_eq_if not_gr_zero)
    then have "2 ^ bit_length (n div 2) \<le> n" using ih(1) by linarith
    moreover have "n < 2 * 2 ^ bit_length (n div 2)" using ih(2) by linarith
    ultimately show ?thesis using b by simp
  qed
qed

lemma pow2_pos [simp]: "0 < pow2 e" "0 \<le> pow2 e" "pow2 e \<noteq> 0"
  by (simp_all add: pow2_def)

lemma pow2_powr: "real_of_rat (pow2 e) = 2 powi e"
  by (simp add: pow2_def power_int_def of_rat_divide of_rat_power power_one_over)

lemma pow2_add: "pow2 (a + b) = pow2 a * pow2 b"
proof -
  have "real_of_rat (pow2 (a + b)) = real_of_rat (pow2 a * pow2 b)"
    by (simp add: pow2_powr of_rat_mult power_int_add)
  then show ?thesis by simp
qed

lemma pow2_nat: "pow2 (int n) = 2 ^ n"
  by (simp add: pow2_def)

lemma f64_exponent_lower:
  assumes "0 < x" shows "2 ^ 52 \<le> x / pow2 (f64_exponent x)"
proof -
  obtain p q where pq: "quotient_of x = (p, q)" by fastforce
  then have x: "x = of_int p / of_int q" and q: "0 < q" using quotient_of_div quotient_of_denom_pos by blast+
  have p: "0 < p" using assms x q by (simp add: zero_less_divide_iff)
  define a b where "a = bit_length (nat p)" and "b = bit_length (nat q)"
  have a: "2 ^ (a - 1) \<le> nat p" "a > 0" and b: "nat q < 2 ^ b"
    using bit_length_bounds [of "nat p"] bit_length_bounds [of "nat q"] p q by (simp_all add: a_def b_def)
  have "of_nat (2 ^ (a - 1)) \<le> (of_nat (nat p) :: rat)" using a(1) of_nat_le_iff by blast
  then have pa: "2 ^ (a - 1) \<le> (of_int p :: rat)" using p by simp
  have "of_nat (nat q) < (of_nat (2 ^ b) :: rat)" using b of_nat_less_iff by blast
  then have qb: "(of_int q :: rat) < 2 ^ b" using q by simp
  define e where "e = int a - int b - 53"
  have "int (a - 1) = 52 + e + int b" using a(2) by (simp add: e_def)
  then have "pow2 52 * pow2 e * pow2 (int b) = 2 ^ (a - 1)" by (simp only: pow2_nat [symmetric] pow2_add [symmetric])
  then have k: "2 ^ 52 * pow2 e * 2 ^ b = (2 ^ (a - 1) :: rat)" by (simp only: pow2_nat) (simp add: pow2_def)
  have "2 ^ 52 * pow2 e * of_int q \<le> 2 ^ 52 * pow2 e * 2 ^ b" using qb by (intro mult_left_mono) auto
  then have "2 ^ 52 * pow2 e * of_int q \<le> of_int p" using k pa by linarith
  then have lower: "2 ^ 52 \<le> x / pow2 e" using q by (simp add: x field_simps)
  have f: "f64_exponent x = (if 2 ^ 53 \<le> x / pow2 e then e + 1 else e)"
    by (simp add: f64_exponent_def pq a_def b_def e_def Let_def)
  show ?thesis
  proof (cases "2 ^ 53 \<le> x / pow2 e")
    case True
    have h: "x / pow2 (e + 1) = x / pow2 e / 2" by (simp add: pow2_add) (simp add: pow2_def)
    have "2 ^ 52 \<le> x / pow2 e / 2" using True by simp
    then show ?thesis using True f by (simp only: h if_True)
  qed (use f lower in simp)
qed

lemma round_half_even_error: "\<bar>of_int (round_half_even x) - x\<bar> \<le> 1 / 2"
proof -
  have "of_int \<lfloor>x\<rfloor> \<le> x" "x < of_int \<lfloor>x\<rfloor> + 1" by linarith+
  then show ?thesis by (auto simp: round_half_even_def Let_def abs_le_iff)
qed

definition ulp :: rat where "ulp = 1 / 2 ^ 53"

lemma round_f64_error:
  assumes "0 \<le> x" shows "\<bar>round_f64 x - x\<bar> \<le> ulp * x"
proof (cases "x = 0")
  case False
  then have x: "0 < x" using assms by simp
  let ?s = "pow2 (f64_exponent x)"
  let ?m = "x / ?s"
  have s: "0 < ?s" by simp
  have "round_f64 x - x = (of_int (round_half_even ?m) - ?m) * ?s"
    using x s by (simp add: round_f64_def round_positive_def algebra_simps)
  then have "\<bar>round_f64 x - x\<bar> = \<bar>of_int (round_half_even ?m) - ?m\<bar> * ?s" using s by (simp add: abs_mult)
  also have "\<dots> \<le> 1 / 2 * ?s" using round_half_even_error [of ?m] s by (intro mult_right_mono) auto
  also have "\<dots> \<le> ulp * x"
  proof -
    have "2 ^ 52 * ?s \<le> x" using f64_exponent_lower [OF x] s by (simp add: field_simps)
    then show ?thesis by (simp add: ulp_def field_simps)
  qed
  finally show ?thesis .
qed (simp add: round_f64_def)

lemma round_f64_bounds: "0 \<le> x \<Longrightarrow> (1 - ulp) * x \<le> round_f64 x" "0 \<le> x \<Longrightarrow> round_f64 x \<le> (1 + ulp) * x"
  using round_f64_error [of x] by (simp_all add: abs_le_iff algebra_simps)

text \<open>Sums, quotients and roundings of numbers with a bounded relative error.\<close>

definition near :: "nat \<Rightarrow> rat \<Rightarrow> rat \<Rightarrow> bool" where
  "near k x y \<longleftrightarrow> (1 - ulp) ^ k * y \<le> x \<and> x \<le> (1 + ulp) ^ k * y"

lemma ulp_small: "0 < ulp" "ulp < 1"
  by (simp_all add: ulp_def)

lemma near_round: "near k x y \<Longrightarrow> 0 \<le> y \<Longrightarrow> near (Suc k) (round_f64 x) y"
proof -
  assume w: "near k x y" and y: "0 \<le> y"
  have "0 \<le> (1 - ulp) ^ k * y" using ulp_small y by simp
  then have x: "0 \<le> x" using w by (simp add: near_def)
  have e: "(1 - ulp) * x \<le> round_f64 x" "round_f64 x \<le> (1 + ulp) * x"
    using round_f64_bounds [OF x] by blast+
  have "(1 - ulp) * ((1 - ulp) ^ k * y) \<le> (1 - ulp) * x" "(1 + ulp) * x \<le> (1 + ulp) * ((1 + ulp) ^ k * y)"
    using w ulp_small by (auto simp: near_def intro!: mult_left_mono)
  then show ?thesis using e by (simp add: near_def mult.assoc)
qed

lemma near_refl: "near 0 x x"
  by (simp add: near_def)

lemma near_weaken: "near k x y \<Longrightarrow> k \<le> m \<Longrightarrow> 0 \<le> y \<Longrightarrow> near m x y"
proof -
  assume w: "near k x y" and m: "k \<le> m" and y: "0 \<le> y"
  have "(1 - ulp) ^ m \<le> (1 - ulp) ^ k" using m ulp_small by (intro power_decreasing) auto
  moreover have "(1 + ulp) ^ k \<le> (1 + ulp) ^ m" using m ulp_small by (intro power_increasing) auto
  ultimately show ?thesis
    using w y mult_right_mono [of "(1 - ulp) ^ m" "(1 - ulp) ^ k" y] mult_right_mono [of "(1 + ulp) ^ k" "(1 + ulp) ^ m" y]
    by (auto simp: near_def)
qed

lemma near_add: "near k a b \<Longrightarrow> near k c d \<Longrightarrow> near k (a + c) (b + d)"
  by (auto simp: near_def algebra_simps)

lemma near_div: "near k a b \<Longrightarrow> 0 < c \<Longrightarrow> near k (a / c) (b / c)"
  by (auto simp: near_def divide_simps)

lemma duration_seconds_near:
  assumes "0 \<le> d" shows "near 3 (duration_seconds d) (of_int d / 1000000000)"
proof -
  define sec nsec where "sec = go_div d 1000000000" and "nsec = d - sec * 1000000000"
  have g: "sec = d div 1000000000" using assms by (simp add: sec_def go_div_nonneg)
  then have n: "nsec = d mod 1000000000" by (simp add: nsec_def minus_div_mult_eq_mod)
  have pos: "0 \<le> sec" "0 \<le> nsec" using assms g n by simp_all
  have d: "of_int d / 1000000000 = of_int sec + of_int nsec / (1000000000::rat)"
  proof -
    have "d = sec * 1000000000 + nsec" by (simp add: nsec_def)
    then have "(of_int d :: rat) = of_int sec * 1000000000 + of_int nsec" by (metis of_int_add of_int_mult of_int_numeral)
    then show ?thesis by (simp add: field_simps)
  qed
  have "near 1 (round_f64 (of_int sec)) (of_int sec)" using near_round [OF near_refl, of "of_int sec"] pos by simp
  then have s: "near 2 (round_f64 (of_int sec)) (of_int sec)" using near_weaken pos by force
  have "near 1 (round_f64 (of_int nsec) / 1000000000) (of_int nsec / 1000000000)"
    using near_div [OF near_round [OF near_refl, of "of_int nsec"], of 1000000000] pos by simp
  from near_round [OF this] pos
  have t: "near 2 (round_f64 (round_f64 (of_int nsec) / 1000000000)) (of_int nsec / 1000000000)" by (simp add: numeral_2_eq_2)
  have "0 \<le> of_int sec + of_int nsec / (1000000000::rat)" using pos by simp
  from near_round [OF near_add [OF s t] this] show ?thesis
    unfolding duration_seconds_def Let_def d sec_def [symmetric] nsec_def [symmetric] by (simp add: numeral_3_eq_3)
qed

lemma near_pos: "near k x y \<Longrightarrow> 0 < y \<Longrightarrow> 0 < x"
proof -
  assume n: "near k x y" and y: "0 < y"
  have "0 < (1 - ulp) ^ k * y" using y ulp_small by simp
  then show "0 < x" using n by (simp add: near_def)
qed

lemma duration_positive: "0 < d \<Longrightarrow> 0 < duration_seconds d"
  using near_pos [OF duration_seconds_near, of d] by simp

section \<open>The rate of two samples\<close>

lemma ulp_budget: "(1 + ulp) ^ 2 \<le> (1 + 1 / 2 ^ 50) * (1 - ulp) ^ 3" "(1 - 1 / 2 ^ 50) * (1 + ulp) ^ 3 \<le> (1 - ulp) ^ 2"
  by (simp_all add: ulp_def power2_eq_square power3_eq_cube)

lemma quotient_near:
  assumes a: "near 1 a d" and e: "near 3 e t" and d: "0 \<le> d" and t: "0 < t"
  shows "(1 - 1 / 2 ^ 50) * (d / t) \<le> round_f64 (a / e)" and "round_f64 (a / e) \<le> (1 + 1 / 2 ^ 50) * (d / t)"
    and "0 \<le> round_f64 (a / e)"
proof -
  have u: "0 < 1 - ulp" "0 < 1 + ulp" using ulp_small by simp_all
  have ab: "(1 - ulp) * d \<le> a" "a \<le> (1 + ulp) * d" using a by (simp_all add: near_def)
  have eb: "(1 - ulp) ^ 3 * t \<le> e" "e \<le> (1 + ulp) ^ 3 * t" using e by (simp_all add: near_def)
  have e0: "0 < e" by (rule near_pos [OF e t])
  have a0: "0 \<le> a" using ab(1) mult_nonneg_nonneg [of "1 - ulp" d] u d by linarith
  have q0: "0 \<le> a / e" using a0 e0 by simp
  have r: "(1 - ulp) * (a / e) \<le> round_f64 (a / e)" "round_f64 (a / e) \<le> (1 + ulp) * (a / e)"
    using round_f64_bounds [OF q0] by blast+
  show "0 \<le> round_f64 (a / e)" using r(1) mult_nonneg_nonneg [of "1 - ulp" "a / e"] u q0 by linarith
  have dt: "0 \<le> d / t" using d t by simp
  have "a / e \<le> ((1 + ulp) * d) / ((1 - ulp) ^ 3 * t)"
    by (rule frac_le) (use ab eb e0 a0 u t in auto)
  then have "(1 + ulp) * (a / e) \<le> (1 + ulp) * (((1 + ulp) * d) / ((1 - ulp) ^ 3 * t))"
    using u by (intro mult_left_mono) auto
  also have "\<dots> = (1 + ulp) ^ 2 / (1 - ulp) ^ 3 * (d / t)" by (simp add: power2_eq_square)
  also have "\<dots> \<le> (1 + 1 / 2 ^ 50) * (d / t)"
    by (rule mult_right_mono [OF _ dt]) (use ulp_budget(1) u in \<open>simp add: pos_divide_le_eq\<close>)
  finally show "round_f64 (a / e) \<le> (1 + 1 / 2 ^ 50) * (d / t)" using r(2) by linarith
  have "((1 - ulp) * d) / ((1 + ulp) ^ 3 * t) \<le> a / e"
    by (rule frac_le) (use ab eb e0 a0 u t d in auto)
  then have "(1 - ulp) * (((1 - ulp) * d) / ((1 + ulp) ^ 3 * t)) \<le> (1 - ulp) * (a / e)"
    using u by (intro mult_left_mono) auto
  moreover have "(1 - ulp) * (((1 - ulp) * d) / ((1 + ulp) ^ 3 * t)) = (1 - ulp) ^ 2 / (1 + ulp) ^ 3 * (d / t)"
    by (simp add: power2_eq_square)
  moreover have "(1 - 1 / 2 ^ 50) * (d / t) \<le> (1 - ulp) ^ 2 / (1 + ulp) ^ 3 * (d / t)"
    by (rule mult_right_mono [OF _ dt]) (use ulp_budget(2) u in \<open>simp add: pos_le_divide_eq\<close>)
  ultimately show "(1 - 1 / 2 ^ 50) * (d / t) \<le> round_f64 (a / e)" using r(1) by linarith
qed

text \<open>The exact number of bytes per second between two samples.\<close>

definition exactRate :: "int \<Rightarrow> int \<Rightarrow> int \<Rightarrow> rat" where
  "exactRate current previous elapsed = of_int (current - previous) / (of_int elapsed / 1000000000)"

lemma byteRate_accurate:
  assumes "0 \<le> previous" and "previous \<le> current" and "current \<le> MaxInt64" and "0 < elapsed"
    and small: "exactRate current previous elapsed < 2 ^ 62"
  shows "0 \<le> byteRate oor current previous elapsed \<and>
    (1 - 1 / 2 ^ 50) * exactRate current previous elapsed - 1 < of_int (byteRate oor current previous elapsed) \<and>
    of_int (byteRate oor current previous elapsed) \<le> (1 + 1 / 2 ^ 50) * exactRate current previous elapsed"
proof -
  let ?d = "of_int (current - previous) :: rat" and ?t = "of_int elapsed / 1000000000 :: rat"
  let ?q = "?d / ?t" and ?r = "round_f64 (round_f64 ?d / duration_seconds elapsed)"
  have w: "wrap64 (current - previous) = current - previous"
    using assms by (intro wrap64_id) (simp add: int64_range_def MinInt64_def)
  have d: "0 \<le> ?d" and t: "0 < ?t" using assms by simp_all
  have "near 1 (round_f64 ?d) ?d" using near_round [OF near_refl d] by simp
  moreover have "near 3 (duration_seconds elapsed) ?t" using assms by (intro duration_seconds_near) simp
  ultimately have r: "(1 - 1 / 2 ^ 50) * ?q \<le> ?r" "?r \<le> (1 + 1 / 2 ^ 50) * ?q" "0 \<le> ?r"
    using quotient_near d t by blast+
  have small': "?q < 2 ^ 62" using small by (simp add: exactRate_def)
  have "(1 + 1 / 2 ^ 50) * ?q \<le> (1 + 1 / 2 ^ 50) * 2 ^ 62" using small' by (intro mult_left_mono) auto
  then have "?r < 2 ^ 63" using r(2) by simp
  then have "\<lfloor>?r\<rfloor> < 2 ^ 63" by (simp add: floor_less_iff)
  moreover have "0 \<le> \<lfloor>?r\<rfloor>" using r(3) by simp
  ultimately have "int64_range \<lfloor>?r\<rfloor>" by (simp add: int64_range_def MinInt64_def MaxInt64_def)
  then have b: "byteRate oor current previous elapsed = \<lfloor>?r\<rfloor>"
    using r(3) w by (simp add: byteRate_def f64_to_int64_def Let_def)
  have "of_int \<lfloor>?r\<rfloor> \<le> ?r" "?r - 1 < of_int \<lfloor>?r\<rfloor>" by linarith+
  then show ?thesis unfolding b exactRate_def using r \<open>0 \<le> \<lfloor>?r\<rfloor>\<close> by linarith
qed

section \<open>Properties\<close>

definition rate_frame :: "port \<Rightarrow> port" where
  "rate_frame p = p\<lparr>pTrafficRatesEnabled := False, pTrafficRatesSet := False, pRXBytesRate := 0, pTXBytesRate := 0\<rparr>"

lemma applyTrafficRates_frame: "map rate_frame (fst (applyTrafficRates oor now tr ps)) = map rate_frame ps"
proof (induction ps arbitrary: tr)
  case (Cons p ps)
  have "rate_frame (fst (applyTrafficRate oor now tr p)) = rate_frame p"
    by (auto simp: applyTrafficRate_def rate_frame_def Let_def split: prod.splits option.splits)
  then show ?case using Cons.IH [of "snd (applyTrafficRate oor now tr p)"] by (simp add: case_prod_unfold Let_def)
qed simp

lemma Rates_cases:
  assumes "Rates oor tr now key rx tx up = (Some (rr, rt), tr')"
  obtains prev where "tr (to_lower (trim_space key)) = Some prev" and "up" and "smRX prev \<le> rx" and "smTX prev \<le> tx"
    and "0 < duration_seconds (time_sub now (smTime prev))"
    and "rr = byteRate oor rx (smRX prev) (time_sub now (smTime prev))"
    and "rt = byteRate oor tx (smTX prev) (time_sub now (smTime prev))"
  using assms by (auto simp: Rates_def Let_def split: if_splits option.splits)


definition labSample :: rate_sample where "labSample = \<lparr>smTime = 0, smRX = 1000, smTX = 0\<rparr>"


end
