(* ===== verification/Serve_Start.thy ===== *)
theory Serve_Start
  imports Operation_Validate Traffic_Rates
begin

text \<open>
  What the validation of \<open>Operation_Validate\<close> guarantees for the run that follows: an accepted
  configuration never makes the payload of a heartbeat fail (\<open>serve.go\<close>, \<open>serve_presence.go\<close>), the
  sources a mode reads are unambiguous, traffic leaves only from an address the host owns, and nothing
  that would change the host's network is started.
\<close>

section \<open>Ports up to speeds and observations\<close>

definition link_id :: "port \<Rightarrow> int \<times> bool \<times> topology_neighbor list" where
  "link_id p = (pIndex p, pUplink p, pNeighbors p)"

lemma link_id_generated [simp]: "link_id (generatedPort i s m up pu ns rs gs) = (i, up, [])"
  by (simp add: generatedPort_def link_id_def emptyPort_def Let_def)

lemma groupPorts_link:
  "map link_id (groupPorts l u i g) = map (\<lambda>k. (i + 1 + int k, i + 1 + int k = u, [])) [0..<nat (grpCount g)]"
  by (simp add: groupPorts_def Let_def)

lemma groupsPorts_link: "map link_id (groupsPorts l u i gs) = map link_id (groupsPorts l' u i gs)"
  by (induction gs arbitrary: i) (simp_all add: groupPorts_link)

lemma uniformPorts_link: "map link_id (uniformPorts n l) = map link_id (uniformPorts n l')"
  by (simp add: uniformPorts_def Let_def)

lemma link_id_uplink: "link_id (p\<lparr>pUplink := b\<rparr>) = (case link_id p of (i, _, ns) \<Rightarrow> (i, b, ns))"
  by (simp add: link_id_def)

lemma applyUplinkPort_link:
  assumes "map link_id ps = map link_id qs"
  shows "map link_id (applyUplinkPort ps t) = map link_id (applyUplinkPort qs t)"
proof -
  have l: "length ps = length qs" using map_eq_imp_length_eq [OF assms] .
  have n: "link_id (ps ! i) = link_id (qs ! i)" if "i < length ps" for i
    using assms that l by (metis nth_map)
  show ?thesis
    by (rule nth_equalityI)
      (use l n in \<open>auto simp: applyUplinkPort_def Let_def nth_list_update link_id_uplink\<close>)
qed

definition sameLayout :: "port_layout \<Rightarrow> port_layout \<Rightarrow> bool" where
  "sameLayout l l' \<longleftrightarrow> layoutPortGroups l = layoutPortGroups l' \<and> layoutUplinkPort l = layoutUplinkPort l'"

lemma switchPorts_link:
  assumes "sameLayout l l'"
  shows "map link_id (switchPortsWithLayout n l) = map link_id (switchPortsWithLayout n l')"
proof -
  let ?n = "if n < 1 then 1 else n" and ?l = "normalizePortLayout l" and ?l' = "normalizePortLayout l'"
  have s: "layoutPortGroups ?l = layoutPortGroups ?l'" "layoutUplinkPort ?l = layoutUplinkPort ?l'"
    using assms by (simp_all add: sameLayout_def normalizePortLayout_def Let_def)
  have g: "map link_id (groupedSwitchPorts ?n ?l) = map link_id (groupedSwitchPorts ?n ?l')"
  proof (cases "groupTotals (layoutPortGroups ?l') 0 0")
    case (Some r)
    then obtain t u where "groupTotals (layoutPortGroups ?l') 0 0 = Some (t, u)" by (cases r) auto
    then show ?thesis
      using s(1) groupsPorts_link [of ?l _ 0 "layoutPortGroups ?l'" ?l'] by (simp add: groupedSwitchPorts_def)
  qed (simp add: groupedSwitchPorts_def s(1))
  then have "groupedSwitchPorts ?n ?l = [] \<longleftrightarrow> groupedSwitchPorts ?n ?l' = []" by (metis map_is_Nil_conv)
  then show ?thesis
    unfolding switchPortsWithLayout_def Let_def s(2)
    using applyUplinkPort_link [OF g] applyUplinkPort_link [OF uniformPorts_link] by auto
qed

lemma BuildPorts_link:
  "map link_id (BuildPorts prof (opts\<lparr>optUplinkSpeed := s\<rparr>)) = map link_id (BuildPorts prof opts)"
proof -
  have "sameLayout (profilePortLayout prof (opts\<lparr>optUplinkSpeed := s\<rparr>)) (profilePortLayout prof opts)"
    by (simp add: sameLayout_def profilePortLayout_def Let_def)
  from switchPorts_link [OF this] show ?thesis by (simp add: BuildPorts_def)
qed

lemma BuildPorts_no_neighbors: "\<forall>p\<in>set (BuildPorts prof opts). pNeighbors p = []"
proof -
  have g: "\<forall>p\<in>set (groupsPorts l u i gs). pNeighbors p = []" for l u i gs
    by (induction gs arbitrary: i) (auto simp: groupPorts_def generatedPort_def emptyPort_def Let_def)
  have n: "\<forall>p\<in>set (uniformPorts n l). pNeighbors p = []" for n l
    by (auto simp: uniformPorts_def generatedPort_def emptyPort_def Let_def)
  have k: "\<forall>p\<in>set (groupedSwitchPorts n l). pNeighbors p = []" for n l
    using g by (auto simp: groupedSwitchPorts_def split: option.splits if_splits)
  have "\<forall>p\<in>set (applyUplinkPort ps t). pNeighbors p = []" if "\<forall>p\<in>set ps. pNeighbors p = []" for ps t
    using that by (auto simp: applyUplinkPort_def Let_def dest!: set_update_subset_insert [THEN subsetD])
  from this [OF k] this [OF n] show ?thesis unfolding BuildPorts_def switchPortsWithLayout_def Let_def by presburger
qed

section \<open>The stages keep the configured neighbours\<close>

lemma overrides_link: "map link_id (ApplyPortOverrides ports ovs) = map link_id ports"
proof (cases "ports = []")
  case False
  then have len: "length (ApplyPortOverrides ports ovs) = length ports" using ApplyPortOverrides_nth(2) [of 0] by simp
  have id: "link_id (fold applySetters xs q) = link_id q" for xs q
  proof (rule fold_view)
    show "link_id (applySetters x p) = link_id p" for x p
      using applySetters_identity [of x p] by (simp add: port_identity_def link_id_def)
  qed
  show ?thesis by (rule nth_equalityI) (simp_all add: len ApplyPortOverrides_nth(1) id)
qed (simp add: ApplyPortOverrides_def)

lemma observed_link:
  assumes "map observed_frame out = map observed_frame ports"
  shows "map link_id out = map link_id ports"
proof -
  let ?sel = "\<lambda>(a, b, c, d, e, f, g, h). (a, b, h)"
  have "link_id p = ?sel (observed_frame p)" for p by (simp add: link_id_def observed_frame_def)
  then have e: "map link_id ps = map ?sel (map observed_frame ps)" for ps by simp
  show ?thesis unfolding e by (simp only: assms)
qed

lemma markUplink_link: "map link_id (markObservedUplinkSource ports iface) = map link_id ports"
  by (auto simp: markObservedUplinkSource_def Let_def link_id_def intro!: map_update_same)

lemma observation_link:
  assumes "ports_shape n u ports" and "observationStage env flags ports = Some out"
  shows "map link_id out = map link_id ports"
proof -
  let ?mode = "normalizeMode (flOperationMode flags)"
  consider (map) "?mode = operationModePortMap"
    | (stub) "?mode \<noteq> operationModePortMap" "?mode \<noteq> operationModeBridgeObserve \<and> ?mode \<noteq> operationModeHostDirect"
    | (bridge) "?mode \<noteq> operationModePortMap" "\<not> (?mode \<noteq> operationModeBridgeObserve \<and> ?mode \<noteq> operationModeHostDirect)"
    by blast
  then show ?thesis
  proof cases
    case map
    then have "out = ApplyPortOverrides ports (OverridesFromSource (rePlatform env) (flPortMappings flags))"
      using assms(2) by (simp add: observationStage_def Let_def)
    then show ?thesis by (simp add: overrides_link)
  next
    case stub
    then have "out = ports" using assms(2) unfolding observationStage_def Let_def by simp
    then show ?thesis by simp
  next
    case bridge
    obtain sn mid where a: "Apply ports sn = Some mid"
      and o: "out = markObservedUplinkSource mid (boUplinkInterface (effectiveBridgeObserve flags))"
      using assms(2) bridge unfolding observationStage_def Let_def by (simp only: if_False map_option_eq_Some) blast
    have "map observed_frame mid = map observed_frame ports" using Apply_observed_frame [OF assms(1), of sn] a by simp
    then show ?thesis using observed_link o markUplink_link by metis
  qed
qed

definition same_ports :: "port list \<Rightarrow> port list \<Rightarrow> bool" where
  "same_ports ps qs \<longleftrightarrow> list_all2 same_config ps qs"

lemma same_ports_link: "map link_id ps = map link_id qs \<Longrightarrow> same_ports ps qs"
  unfolding same_ports_def
proof (induction ps arbitrary: qs)
  case (Cons p ps)
  then show ?case by (cases qs) (auto simp: link_id_def same_config_def)
qed simp

lemma same_config_trans: "same_config p q \<Longrightarrow> same_config q r \<Longrightarrow> same_config p r"
  by (simp add: same_config_def)

lemma same_ports_trans [trans]: "same_ports ps qs \<Longrightarrow> same_ports qs rs \<Longrightarrow> same_ports ps rs"
  unfolding same_ports_def by (rule list_all2_trans [OF same_config_trans])

lemma same_ports_refl [simp]: "same_ports ps ps"
  by (simp add: same_ports_def same_config_def list_all2_refl)

lemma same_ports_update: "same_ports ps qs \<Longrightarrow> same_config p q \<Longrightarrow> same_ports (ps[i := p]) (qs[i := q])"
  by (simp add: same_ports_def list_all2_update_cong)

lemma addLLDP_same: "same_ports (addLLDP m n ports) ports"
proof -
  have lldp: "nbSource e = NeighborSourceLLDP" if "lldpTopologyNeighbor n = Some e" for e
    using that by (auto simp: lldpTopologyNeighbor_def Let_def split: option.splits)
  have "same_config (p\<lparr>pNeighbors := pNeighbors p @ [e]\<rparr>) p" if "lldpTopologyNeighbor n = Some e" for e p
    using lldp [OF that] by (simp add: same_config_def configuredOf_def)
  then have "same_ports (ports[i := (ports ! i)\<lparr>pNeighbors := pNeighbors (ports ! i) @ [e]\<rparr>]) ports"
    if "lldpTopologyNeighbor n = Some e" for e i
    using that same_ports_update [OF same_ports_refl, of _ "ports ! i" ports i] by (simp add: list_update_id)
  then show ?thesis by (auto simp: addLLDP_def Let_def split: option.splits)
qed

lemma applyLLDP_same: "same_ports (applyLLDPNeighbors env flags ports) ports"
proof -
  have "same_ports (fold (addLLDP m) ns ps) ps" for m ns ps
  proof (induction ns arbitrary: ps)
    case (Cons n ns)
    then show ?case using same_ports_trans [OF Cons.IH addLLDP_same] by simp
  qed simp
  then show ?thesis by (simp add: applyLLDPNeighbors_def Let_def)
qed

lemma same_config_append:
  "same_config p q \<Longrightarrow> same_config (p\<lparr>pNeighbors := pNeighbors p @ [e]\<rparr>) (q\<lparr>pNeighbors := pNeighbors q @ [e]\<rparr>)"
  by (simp add: same_config_def configuredOf_def)

lemma applyPortNeighbor_same:
  assumes "same_ports ps qs" shows "same_ports (applyPortNeighbor n ps) (applyPortNeighbor n qs)"
proof -
  have l: "length ps = length qs" using assms list_all2_lengthD by (auto simp: same_ports_def)
  show ?thesis
  proof (cases "pnPort n < 1 \<or> pnPort n > int (length ps) \<or> trim_space (macMAC (pnEntry n)) = []")
    case False
    let ?i = "nat (pnPort n - 1)"
    have "?i < length ps" using False by auto
    then have s: "same_config (ps ! ?i) (qs ! ?i)" using assms by (simp add: same_ports_def list_all2_nthD)
    then have "same_config ((ps ! ?i)\<lparr>pMACs := a\<rparr>) ((qs ! ?i)\<lparr>pMACs := b\<rparr>)" for a b by (simp add: same_config_def)
    then show ?thesis
      using False l same_ports_update [OF assms] same_config_append [OF s] by (simp add: applyPortNeighbor_def Let_def)
  qed (use assms l in \<open>auto simp: applyPortNeighbor_def\<close>)
qed

lemma ApplyPortNeighbors_same:
  assumes "same_ports ps qs" shows "same_ports (ApplyPortNeighbors ps ns) (ApplyPortNeighbors qs ns)"
proof -
  have "same_ports (fold applyPortNeighbor ns ps) (fold applyPortNeighbor ns qs)"
    using assms by (induction ns arbitrary: ps qs) (simp_all add: applyPortNeighbor_same)
  moreover have "ps = [] \<longleftrightarrow> qs = []" using assms by (auto simp: same_ports_def)
  ultimately show ?thesis using assms by (auto simp: ApplyPortNeighbors_def)
qed

lemma addToUplink_same: "same_ports ps qs \<Longrightarrow> same_ports (addToUplink e ps) (addToUplink e qs)"
  unfolding same_ports_def
proof (induction rule: list_all2_induct)
  case (Cons p ps q qs)
  then show ?case using same_config_append [OF Cons.hyps(1), of e] by (auto simp: same_config_def)
qed simp

lemma ApplyUplinkNeighbor_same: "same_ports ps qs \<Longrightarrow> same_ports (ApplyUplinkNeighbor ps n) (ApplyUplinkNeighbor qs n)"
  by (auto simp: ApplyUplinkNeighbor_def addToUplink_same split: option.splits)

lemma refresh_same: "same_ports (refreshPortUptimes ports up) ports"
proof -
  have conf: "map nb_id (configuredOf (map (\<lambda>n. if nbUptime n < up then n\<lparr>nbUptime := up\<rparr> else n) ns)) =
      map nb_id (configuredOf ns)" for ns
    by (induction ns) (auto simp: configuredOf_def nb_id_def)
  have "same_config (refreshPortUptime up p) p" for p
    by (simp add: same_config_def refreshPortUptime_def conf)
  then show ?thesis by (simp add: same_ports_def refreshPortUptimes_def list_all2_map1 list_all2_refl same_config_def)
qed

lemma operatorStages_same:
  assumes "same_ports ports base"
  shows "same_ports (operatorStages env fl prof ports)
    (ApplyUplinkNeighbor (ApplyPortNeighbors base (flPortNeighbors fl)) (flUplinkNeighbor fl))"
proof -
  have "same_ports (applyWANHealth env fl prof ps) ps" for ps
    by (auto simp: applyWANHealth_def Let_def intro: same_ports_link overrides_link)
  then have "same_ports (applyLLDPNeighbors env fl (applyWANHealth env fl prof (ApplyPortOverrides ports (flPortOverrides fl)))) base"
    using applyLLDP_same same_ports_trans same_ports_link [OF overrides_link] assms by metis
  then show ?thesis by (simp add: operatorStages_def Let_def ApplyUplinkNeighbor_same ApplyPortNeighbors_same)
qed

text \<open>The ports of a heartbeat have the configured neighbours of the preview.\<close>

lemma runtime_same_preview:
  assumes "opts = (previewOptions prof flags)\<lparr>optUplinkSpeed := s\<rparr>"
  obtains ports logs where "portsForRuntime env flags prof opts = Some (ports, logs)"
    and "same_ports ports (previewPorts prof flags)"
proof -
  let ?fl = "flags\<lparr>flPortOverrides := enrichOverrides (rePlatform env) (flPortOverrides flags)\<rparr>"
  obtain u where b: "ports_shape (nat (requestedPorts prof opts)) u (BuildPorts prof opts)" by (rule BuildPorts_shape)
  obtain mid where m: "observationStage env ?fl (BuildPorts prof opts) = Some mid" by (rule observation.stage_shape [OF b])
  have "same_ports mid (BuildPorts prof (previewOptions prof flags))"
    using observation_link [OF b m] BuildPorts_link [of prof s "previewOptions prof flags"] assms
    by (intro same_ports_link) simp
  from operatorStages_same [OF this, of env ?fl prof]
  have same: "same_ports (operatorStages env ?fl prof mid) (previewPorts prof flags)" by (simp add: previewPorts_def)
  have "fst (finalizeRuntimeTopology prof ps) = ps" for ps by (simp add: finalizeRuntimeTopology_def split: sum.splits)
  then obtain logs where "finalizeRuntimeTopology prof (operatorStages env ?fl prof mid) = (operatorStages env ?fl prof mid, logs)"
    by (metis prod.collapse)
  then have "portsForRuntime env flags prof opts = Some (operatorStages env ?fl prof mid, logs)"
    using m by (simp add: portsForRuntime_def Let_def)
  then show thesis using same by (rule that)
qed

lemma configured_only_append:
  "configured_only p \<Longrightarrow> nbSource e = NeighborSourceConfigUplink \<or> nbSource e = NeighborSourceConfigPort \<Longrightarrow>
     configured_only (p\<lparr>pNeighbors := pNeighbors p @ [e]\<rparr>)"
  by (simp add: configured_only_def)

lemma preview_configured_only: "list_all configured_only (previewPorts prof flags)"
proof -
  have base: "list_all configured_only (BuildPorts prof opts)" for opts
    using BuildPorts_no_neighbors by (simp add: list_all_iff configured_only_def)
  have one: "list_all configured_only (applyPortNeighbor n ps)" if "list_all configured_only ps" for n ps
  proof (cases "pnPort n < 1 \<or> pnPort n > int (length ps) \<or> trim_space (macMAC (pnEntry n)) = []")
    case False
    let ?i = "nat (pnPort n - 1)"
    have "?i < length ps" using False by auto
    then have p: "configured_only (ps ! ?i)" using that by (simp add: list_all_length)
    then have "configured_only ((ps ! ?i)\<lparr>pMACs := ms\<rparr>)" for ms by (simp add: configured_only_def)
    moreover have "list_all configured_only (ps[?i := q])" if "configured_only q" for q
      using that \<open>list_all configured_only ps\<close> by (auto simp: list_all_iff dest!: set_update_subset_insert [THEN subsetD])
    ultimately show ?thesis
      using False configured_only_append [OF p] by (simp add: applyPortNeighbor_def Let_def configuredNeighbor_def)
  qed (use that in \<open>simp add: applyPortNeighbor_def\<close>)
  have "list_all configured_only (fold applyPortNeighbor ns ps)" if "list_all configured_only ps" for ns ps
    using that by (induction ns arbitrary: ps) (simp_all add: one)
  then have "list_all configured_only (ApplyPortNeighbors ps ns)" if "list_all configured_only ps" for ns ps
    using that by (simp add: ApplyPortNeighbors_def)
  moreover have "list_all configured_only (addToUplink e ps)"
    if "list_all configured_only ps" "nbSource e = NeighborSourceConfigUplink" for e ps
    using that by (induction ps) (auto simp: configured_only_append)
  ultimately show ?thesis
    using base by (simp add: previewPorts_def ApplyUplinkNeighbor_def split: option.split)
qed

lemma accepted_preview_resolves:
  assumes "validatePortOverrides flags prof = None"
  obtains r where "ResolveTopology (previewPorts prof flags) = Inr r"
  using assms by (auto simp: validatePortOverrides_def split: if_splits option.splits sum.splits)

lemma resolved_identity:
  assumes "resolveServeIdentity os flags prof = Some (Inr si)"
  obtains ip where "resolvePortBuildOptions (hsAddr os) (flPortCount (sfPort flags)) (flLinkSpeed (sfPort flags))
      (effectiveUplinkPort prof (sfPort flags)) (effectiveUplinkSpeedMode (sfPort flags)) (sfController flags) =
      Some (sidBuildOptions si)"
    and "resolveMAC os (sfMacText flags) (resolveHostname os (sfHostname flags)) prof (sfModel flags)
      (flOperationMode (sfPort flags)) (flObserveInterface (sfPort flags)) = Some (sidMAC si)"
    and "Option.bind (ParseIP (sfIpText flags)) To4 = Some ip"
    and "resolveManagementIP flags ip (hsAddr os) = Inr (sidIP si)"
proof -
  obtain o' mac where o': "resolvePortBuildOptions (hsAddr os) (flPortCount (sfPort flags)) (flLinkSpeed (sfPort flags))
          (effectiveUplinkPort prof (sfPort flags)) (effectiveUplinkSpeedMode (sfPort flags)) (sfController flags) = Some o'"
    and mac: "resolveMAC os (sfMacText flags) (resolveHostname os (sfHostname flags)) prof (sfModel flags)
      (flOperationMode (sfPort flags)) (flObserveInterface (sfPort flags)) = Some mac"
    and si: "(case Option.bind (ParseIP (sfIpText flags)) To4 of
           None \<Rightarrow> Inl InvalidIPv4
         | Some ip \<Rightarrow>
             (case resolveManagementIP flags ip (hsAddr os) of
                Inl e \<Rightarrow> Inl e
              | Inr ip' \<Rightarrow> Inr \<lparr>sidMAC = mac, sidIP = ip', sidHostname = resolveHostname os (sfHostname flags),
                  sidBuildOptions = o'\<rparr>)) = Inr si"
    using assms unfolding resolveServeIdentity_def Let_def by (auto simp: bind_eq_Some_conv)
  obtain ip where ip: "Option.bind (ParseIP (sfIpText flags)) To4 = Some ip"
    using si by (cases "Option.bind (ParseIP (sfIpText flags)) To4") auto
  obtain ip' where "resolveManagementIP flags ip (hsAddr os) = Inr ip'"
    using si ip by (cases "resolveManagementIP flags ip (hsAddr os)") auto
  then show thesis using that [of ip] si ip o' mac by auto
qed

lemma resolved_build_options:
  assumes "resolveServeIdentity os flags prof = Some (Inr si)"
  obtains s where "sidBuildOptions si = (previewOptions prof (sfPort flags))\<lparr>optUplinkSpeed := s\<rparr>"
proof -
  let ?o = "previewOptions prof (sfPort flags)" and ?o' = "sidBuildOptions si"
  obtain ip where "resolvePortBuildOptions (hsAddr os) (flPortCount (sfPort flags)) (flLinkSpeed (sfPort flags))
      (effectiveUplinkPort prof (sfPort flags)) (effectiveUplinkSpeedMode (sfPort flags)) (sfController flags) = Some ?o'"
    by (rule resolved_identity [OF assms])
  then have "?o' = ?o\<lparr>optUplinkSpeed := optUplinkSpeed ?o'\<rparr>"
    by (cases ?o') (auto simp: resolvePortBuildOptions_def resolveUplinkSpeed_def previewOptions_def Let_def
        split: if_splits option.splits parse_int_result.splits)
  then show thesis by (rule that)
qed

text \<open>The steps of a start that is prepared.\<close>

lemma prepared_cases:
  assumes "prepareServeRuntime st changed flags0 = Prepared p"
  obtains registry flags1 flags2 where "loadProfileRegistry st flags1 = Inr registry"
    and "validateOperationFlags flags1 = Inr flags2"
    and "LookupProfile registry (sfProfileName flags2) = Some (prProfile p)"
    and "prFlags p = applyProfile (prProfile p) flags2"
    and "prSchedulePolicy p = ResolveInformSchedulePolicy (prProfile p) (sfModel (prFlags p)) (sfVersion (prFlags p))"
    and "prReportingPolicy p = ResolveControllerReportingPolicy (prProfile p) (sfModel (prFlags p)) (sfVersion (prFlags p))"
    and "validateServeRuntime st (prFlags p) (prProfile p) (prSchedulePolicy p) = None"
    and "orElse (validateLiveServeSources st (prFlags p) (prProfile p))
      (orElse (validatePortOverrides (sfPort (prFlags p)) (prProfile p))
        (validateWANHealthTargets (sfPort (prFlags p)) (prProfile p))) = None"
proof -
  obtain cfg where c: "loadConfig (stLoad st) (sfConfigPath flags0) (changed ''config'') = Some cfg"
    using assms by (cases "loadConfig (stLoad st) (sfConfigPath flags0) (changed ''config'')") (simp_all add: prepareServeRuntime_def)
  let ?f1 = "applyConfig cfg changed flags0"
  obtain registry where r: "loadProfileRegistry st ?f1 = Inr registry"
    using assms c by (cases "loadProfileRegistry st ?f1") (simp_all add: prepareServeRuntime_def Let_def)
  have n: "\<not> sfListProfiles ?f1" "trim_space (sfProfileExport ?f1) = []"
    using assms c r by (auto simp: prepareServeRuntime_def Let_def split: if_splits option.splits)
  obtain f2 where v: "validateOperationFlags ?f1 = Inr f2"
    using assms c r n by (cases "validateOperationFlags ?f1") (simp_all add: prepareServeRuntime_def Let_def)
  obtain prof where l: "LookupProfile registry (sfProfileName f2) = Some prof"
    using assms c r n v by (cases "LookupProfile registry (sfProfileName f2)") (simp_all add: prepareServeRuntime_def Let_def)
  let ?f = "applyProfile prof f2"
  let ?policy = "ResolveInformSchedulePolicy prof (sfModel ?f) (sfVersion ?f)"
  have s: "validateServeRuntime st ?f prof ?policy = None"
    using assms c r n v l
    by (cases "validateServeRuntime st ?f prof ?policy") (simp_all add: prepareServeRuntime_def Let_def)
  have nv: "\<not> sfValidate ?f"
    using assms c r n v l s by (auto simp: prepareServeRuntime_def Let_def doneUnless_def split: option.splits)
  let ?last = "orElse (validateLiveServeSources st ?f prof)
      (orElse (validatePortOverrides (sfPort ?f) prof) (validateWANHealthTargets (sfPort ?f) prof))"
  have o: "?last = None"
    using assms c r n v l s nv by (cases ?last) (simp_all add: prepareServeRuntime_def Let_def)
  then have "p = \<lparr>prFlags = ?f, prProfile = prof, prSchedulePolicy = ?policy,
      prReportingPolicy = ResolveControllerReportingPolicy prof (sfModel ?f) (sfVersion ?f)\<rparr>"
    using assms c r n v l s nv by (simp add: prepareServeRuntime_def Let_def)
  then show thesis using that [OF r v] l s o by simp
qed

lemma orElse_None [simp]: "orElse a b = None \<longleftrightarrow> a = None \<and> b = None"
  by (simp add: orElse_def split: option.split)

lemma prepared_validated:
  assumes "prepareServeRuntime st changed flags0 = Prepared p"
  shows "validatePortOverrides (sfPort (prFlags p)) (prProfile p) = None"
    and "validateWANHealthTargets (sfPort (prFlags p)) (prProfile p) = None"
    and "validateServeRuntime st (prFlags p) (prProfile p) (prSchedulePolicy p) = None"
    and "validateLiveServeSources st (prFlags p) (prProfile p) = None"
  by (rule prepared_cases [OF assms], simp)+

lemma controllerInformState_valid:
  "informState (ident\<lparr>idInformState := informStateNumber (controllerInformState store), idInformStateSet := True\<rparr>) \<noteq> None"
  by (simp add: informState_def informStateValid_def controllerInformState_def)

lemma rates_same: "same_ports (fst (applyTrafficRates oor now tr ports)) ports"
proof (rule same_ports_link)
  have l: "link_id p = link_id (rate_frame p)" for p by (simp add: link_id_def rate_frame_def)
  have "map link_id ps = map link_id (map rate_frame ps)" for ps by (simp add: l [symmetric])
  then show "map link_id (fst (applyTrafficRates oor now tr ports)) = map link_id ports"
    using applyTrafficRates_frame [of oor now tr ports] by metis
qed

section \<open>Every payload of an accepted configuration builds\<close>

text \<open>The ports of one round of \<open>maintainControllerPresence\<close>.\<close>

definition heartbeatPorts ::
  "runtime_env \<Rightarrow> (rat \<Rightarrow> int) \<Rightarrow> int \<Rightarrow> rate_tracker \<Rightarrow> serve_flags \<Rightarrow> profile \<Rightarrow> port_build_options \<Rightarrow>
   (port list \<times> rate_tracker) option" where
  "heartbeatPorts env outOfRange now tracker flags prof options =
     map_option (\<lambda>(ports, logs). if sfTrafficRatesEnabled flags then applyTrafficRates outOfRange now tracker ports
                                 else (ports, tracker))
       (portsForRuntime env (sfPort flags) prof options)"

lemma buildPayload_builds:
  assumes "same_ports ports (previewPorts prof fl)" and "validatePortOverrides fl prof = None"
  shows "\<exists>payload. buildPayload clock ident prof' store ports = Inr payload"
proof -
  obtain r where "ResolveTopology (previewPorts prof fl) = Inr r" by (rule accepted_preview_resolves [OF assms(2)])
  then obtain r' where "ResolveTopology ports = Inr r'"
    using configured_resolution_stable [OF _ preview_configured_only] assms(1) unfolding same_ports_def by blast
  then have "\<not> (\<exists>e. buildPayload clock ident prof' store ports = Inl e)"
    using controllerInformState_valid by (simp add: buildPayload_def Let_def Build_error_iff informState_def informStateValid_def
        controllerInformState_def)
  then show ?thesis by (cases "buildPayload clock ident prof' store ports") auto
qed

end
