(* ===== verification/Serve_Checks.thy ===== *)
theory Serve_Checks
  imports Serve_Start
begin

text \<open>
  What the single checks of \<open>Operation_Validate\<close> mean for the functions that read the validated
  settings: the port map and the bridge members are unambiguous, every WAN probe runs, the source
  address of inform packets belongs to the host, and a planned host-network mode never starts.
\<close>

section \<open>An accepted port map\<close>

lemma portMappingLoop_sound:
  "portMappingLoop n live addresses seen ms = ([], s) \<Longrightarrow>
     s = rev (map pmPort ms) @ seen \<and> (distinct seen \<longrightarrow> distinct s) \<and>
     list_all (\<lambda>m. 1 \<le> pmPort m \<and> pmPort m \<le> n \<and> mappingErrors live addresses m = []) ms"
proof (induction ms arbitrary: seen)
  case (Cons m ms)
  have m: "\<not> (pmPort m < 1 \<or> pmPort m > n)" using Cons.prems by (auto split: prod.splits if_splits)
  obtain errs s' where r: "portMappingLoop n live addresses (pmPort m # seen) ms = (errs, s')" by fastforce
  have e: "errs = []" "s' = s" "pmPort m \<notin> set seen" "mappingErrors live addresses m = []"
    using Cons.prems m r by (auto split: if_splits)
  from Cons.IH [of "pmPort m # seen"] r e(1,2) e(3,4) m show ?case by (auto simp: disjoint_iff)
qed simp

text \<open>C18: an accepted port map covers every port exactly once. In port-map mode a configuration without an
  error has one entry for each of the ports 1 to n and no other, each entry with exactly one of
  interface, disabled and unmapped, and no interface name contains a slash.\<close>

theorem accepted_port_map_total:
  assumes "normalizeMode (flOperationMode (sfPort flags)) = operationModePortMap"
    and "validateSourceMappings flags live addresses = None"
  shows "sort (map pmPort (flPortMappings (sfPort flags))) = [1..flPortCount (sfPort flags)] \<and>
    list_all (\<lambda>m. mappingSources m = 1 \<and> CHR ''/'' \<notin> set (trim_space (pmInterface m))) (flPortMappings (sfPort flags))"
proof -
  let ?fl = "sfPort flags" and ?n = "flPortCount (sfPort flags)"
  let ?ps = "map pmPort (flPortMappings ?fl)"
  obtain errs seen where l: "portMappingLoop ?n live addresses [] (flPortMappings ?fl) = (errs, seen)" by fastforce
  have "validatePortMapSources ?fl live addresses = []"
    using assms by (simp add: validateSourceMappings_def Let_def operationModePortMap_def operationModeBridgeObserve_def split: if_splits)
  then have e: "errs = []" and missing: "filter (\<lambda>p. p \<notin> set seen) [1..?n] = []"
    using l by (simp_all add: validatePortMapSources_def)
  from portMappingLoop_sound [OF l [unfolded e]]
  have s: "seen = rev ?ps" "distinct ?ps"
    and ok: "list_all (\<lambda>m. 1 \<le> pmPort m \<and> pmPort m \<le> ?n \<and> mappingErrors live addresses m = []) (flPortMappings ?fl)" by auto
  have "set [1..?n] \<subseteq> set ?ps" using missing s(1) by (auto simp: filter_empty_conv)
  moreover have "set ?ps \<subseteq> set [1..?n]" using ok by (auto simp: list_all_iff)
  ultimately have "set ?ps = set [1..?n]" by blast
  then have "sort ?ps = [1..?n]"
    using sorted_distinct_set_unique [of "sort ?ps" "[1..?n]"] s(2) by simp
  moreover have "mappingSources m = 1 \<and> CHR ''/'' \<notin> set (trim_space (pmInterface m))" if "mappingErrors live addresses m = []" for m
    using that by (cases "trim_space (pmInterface m) = []")
      (auto simp: mappingErrors_def errorList_def validateInterfaceName_def Let_def split: if_splits option.splits)
  ultimately show ?thesis using ok by (auto simp: list_all_iff)
qed

section \<open>Accepted bridge members\<close>

lemma memberMapping_ok:
  "memberMappingErrors fl m = [] \<Longrightarrow> trim_space (bmMember m) \<noteq> [] \<and> 1 \<le> bmPort m \<and> bmPort m \<le> flPortCount fl"
  by (simp add: memberMappingErrors_def Let_def split: if_splits)

lemma memberPortMap_sound:
  "validateBridgeMemberPortMap seen ports ms = [] \<Longrightarrow> list_all (\<lambda>m. trim_space (bmMember m) \<noteq> []) ms \<Longrightarrow>
     distinct (map (trim_space \<circ> bmMember) ms) \<and> distinct (map bmPort ms) \<and>
     list_all (\<lambda>m. trim_space (bmMember m) \<notin> set seen \<and> ports (bmPort m) = []) ms"
proof (induction ms arbitrary: seen ports)
  case (Cons m ms)
  let ?k = "trim_space (bmMember m)"
  have k: "?k \<noteq> []" "list_all (\<lambda>m. trim_space (bmMember m) \<noteq> []) ms" using Cons.prems(2) by simp_all
  have h: "?k \<notin> set seen" "ports (bmPort m) = []"
      "validateBridgeMemberPortMap (?k # seen) (ports(bmPort m := ?k)) ms = []"
    using Cons.prems(1) k(1) by (auto simp: Let_def split: if_splits)
  from Cons.IH [OF h(3) k(2)]
  have d: "distinct (map (trim_space \<circ> bmMember) ms)" "distinct (map bmPort ms)"
    and a: "list_all (\<lambda>x. trim_space (bmMember x) \<notin> set (?k # seen) \<and> (ports(bmPort m := ?k)) (bmPort x) = []) ms" by blast+
  have x: "trim_space (bmMember x) \<noteq> ?k \<and> bmPort x \<noteq> bmPort m \<and> trim_space (bmMember x) \<notin> set seen \<and> ports (bmPort x) = []"
    if "x \<in> set ms" for x
    using a that k(1) by (auto simp: list_all_iff split: if_splits)
  then have "?k \<notin> set (map (trim_space \<circ> bmMember) ms)" "bmPort m \<notin> set (map bmPort ms)" by fastforce+
  then show ?case using d h(1,2) x by (simp add: list_all_iff comp_def)
qed simp

lemma ignoredMembers_sound:
  "ignoredMemberErrors cfg seen ms = [] \<Longrightarrow>
     distinct (filter (\<lambda>k. k \<noteq> []) (map bridgeMemberKey ms)) \<and>
     list_all (\<lambda>m. bridgeMemberKey m = [] \<or> bridgeMemberKey m \<notin> set seen \<and> bridgeMemberKey m \<noteq> bridgeMemberKey (boBridge cfg) \<and>
       bridgeMemberKey m \<noteq> bridgeMemberKey (boUplinkInterface cfg) \<and>
       bridgeMemberKey m \<notin> set (map (bridgeMemberKey \<circ> bmMember) (boMemberPortMap cfg))) ms"
proof (induction ms arbitrary: seen)
  case (Cons m ms)
  show ?case
  proof (cases "bridgeMemberKey m = []")
    case False
    then have "ignoredMemberErrors cfg (bridgeMemberKey m # seen) ms = []" using Cons.prems by (simp add: Let_def split: if_splits)
    from Cons.IH [OF this] show ?thesis using Cons.prems False by (auto simp: list_all_iff Let_def split: if_splits)
  qed (use Cons in \<open>simp add: Let_def\<close>)
qed simp

text \<open>accepted bridge settings are unambiguous. In bridge-observe mode a configuration without an error
  pins distinct, named members to distinct ports between 1 and n, and ignores distinct members, none of
  which is the bridge, the uplink interface or a pinned member.\<close>

theorem accepted_bridge_unambiguous:
  assumes "normalizeMode (flOperationMode (sfPort flags)) = operationModeBridgeObserve"
    and "validateSourceMappings flags live addresses = None"
  shows "let cfg = effectiveBridgeObserve (sfPort flags); pinned = boMemberPortMap cfg;
             ignored = filter (\<lambda>k. k \<noteq> []) (map bridgeMemberKey (boIgnoredMembers cfg)) in
    distinct (map (trim_space \<circ> bmMember) pinned) \<and> distinct (map bmPort pinned) \<and>
    list_all (\<lambda>m. trim_space (bmMember m) \<noteq> [] \<and> 1 \<le> bmPort m \<and> bmPort m \<le> flPortCount (sfPort flags)) pinned \<and>
    distinct ignored \<and>
    list_all (\<lambda>k. k \<noteq> bridgeMemberKey (boBridge cfg) \<and> k \<noteq> bridgeMemberKey (boUplinkInterface cfg) \<and>
      k \<notin> set (map (bridgeMemberKey \<circ> bmMember) pinned)) ignored"
proof -
  let ?fl = "sfPort flags" and ?cfg = "effectiveBridgeObserve (sfPort flags)"
  let ?key = "\<lambda>k. k \<noteq> bridgeMemberKey (boBridge ?cfg) \<and> k \<noteq> bridgeMemberKey (boUplinkInterface ?cfg) \<and>
      k \<notin> set (map (bridgeMemberKey \<circ> bmMember) (boMemberPortMap ?cfg))"
  have "validateObserveSources ?fl live addresses = []"
    using assms by (simp add: validateSourceMappings_def Let_def split: if_splits)
  then have m: "concat (map (memberMappingErrors ?fl) (boMemberPortMap ?cfg)) = []"
    and b: "validateBridgeMemberPortMap [] (\<lambda>_. []) (boMemberPortMap ?cfg) = []"
    and i: "ignoredMemberErrors ?cfg [] (boIgnoredMembers ?cfg) = []"
    by (simp_all add: validateObserveSources_def validateIgnoredMembers_def Let_def)
  have "memberMappingErrors ?fl x = []" if "x \<in> set (boMemberPortMap ?cfg)" for x using m that by simp
  then have r: "list_all (\<lambda>m. trim_space (bmMember m) \<noteq> [] \<and> 1 \<le> bmPort m \<and> bmPort m \<le> flPortCount ?fl) (boMemberPortMap ?cfg)"
    using memberMapping_ok by (auto simp: list_all_iff)
  then have n: "list_all (\<lambda>m. trim_space (bmMember m) \<noteq> []) (boMemberPortMap ?cfg)" by (auto simp: list_all_iff)
  have "list_all ?key (filter (\<lambda>k. k \<noteq> []) (map bridgeMemberKey (boIgnoredMembers ?cfg)))"
    using ignoredMembers_sound [OF i] unfolding list_all_iff by auto
  then show ?thesis
    using memberPortMap_sound [OF b n] ignoredMembers_sound [OF i] r unfolding Let_def by blast
qed

section \<open>Source addresses\<close>

lemma management_interface_trimmed: "trim_space (mlInterface (effectiveManagementLAN flags)) = mlInterface (effectiveManagementLAN flags)"
  by (simp add: effectiveManagementLAN_def Let_def)

lemma ip_equal_same: "length a = length b \<Longrightarrow> ip_equal a b \<Longrightarrow> a = b"
  by (simp add: ip_equal_def)

lemma management_address_owned:
  assumes "validateManagementLAN dial flags prof True (Some env) = None"
    and "mlEnabled (effectiveManagementLAN flags)"
    and "mlMode (effectiveManagementLAN flags) = managementLANModePreexistingInterface"
    and "resolveManagementIP flags fallback env = Inr ip"
  shows "iface_owns env (mlInterface (effectiveManagementLAN flags)) ip \<and> To4 ip = Some ip"
proof -
  let ?cfg = "effectiveManagementLAN flags"
  have v: "validatePreexistingManagement dial flags ?cfg (Some env) = None" and i: "mlInterface ?cfg \<noteq> []"
    using assms(1-3) by (auto simp: validateManagementLAN_def Let_def managementLAN_names split: if_splits)
  then obtain src where src: "managementLANInterfaceIP ?cfg env = Inr src"
    by (auto simp: validatePreexistingManagement_def split: sum.splits)
  obtain ident where id: "InterfaceIdentity env (mlInterface ?cfg) = Some ident" and "src \<in> set (iiIPv4 ident)"
    using src by (auto simp: managementLANInterfaceIP_def split: option.splits list.splits)
  from identity_owns [OF this] have o: "iface_owns env (mlInterface ?cfg) src" "To4 src = Some src"
    by (simp_all add: management_interface_trimmed)
  show ?thesis
  proof (cases "mlIP ?cfg = []")
    case True
    then have "ip = src" using assms(2-4) src by (simp add: resolveManagementIP_def Let_def)
    then show ?thesis using o by simp
  next
    case False
    then have p: "Option.bind (ParseIP (mlIP ?cfg)) To4 = Some ip"
      using assms(2-4) by (auto simp: resolveManagementIP_def Let_def split: option.splits)
    then have ip4: "To4 ip = Some ip" by (auto simp: bind_eq_Some_conv To4_idem)
    have "ip_equal ip src \<or> interfaceHasIPv4 (mlInterface ?cfg) ip env"
      using v False p src by (auto simp: validatePreexistingManagement_def split: if_splits)
    then show ?thesis
    proof
      assume "ip_equal ip src"
      then have "ip = src" using ip_equal_same To4_length ip4 o(2) by metis
      then show ?thesis using o by simp
    next
      assume "interfaceHasIPv4 (mlInterface ?cfg) ip env"
      then show ?thesis
        using assigned_to [of env "mlInterface ?cfg" ip ip] ip4 i by (simp add: interfaceHasIPv4_def management_interface_trimmed)
    qed
  qed
qed

text \<open>C19: inform traffic never claims a foreign address. Whenever a prepared run binds its inform
  connection to a source address, the address is assigned to an interface of the host at the time of
  the check: to the configured management interface, or to any interface otherwise.\<close>

theorem inform_source_owned:
  assumes "prepareServeRuntime st changed flags0 = Prepared p" and "\<not> sfDryRunPlan (prFlags p)"
    and "resolveServeIdentity os (prFlags p) (prProfile p) = Some (Inr si)" and "hsAddr os = stAddr st"
    and "informSourceIP (prFlags p) (sidIP si) env = Some source"
  shows "host_owns env source \<or> iface_owns (stAddr st) (mlInterface (effectiveManagementLAN (prFlags p))) source"
proof (cases "managementLANSourceIP (prFlags p) (sidIP si)")
  case None
  then have "To4 (sidIP si) = Some source" "IPv4Assigned env [] source = Some True"
    using assms(5) by (auto simp: informSourceIP_def hostHasIPv4_def split: option.splits if_splits)
  then show ?thesis using assigned_anywhere To4_idem by blast
next
  case (Some s)
  then have m: "mlEnabled (effectiveManagementLAN (prFlags p))"
      "mlMode (effectiveManagementLAN (prFlags p)) = managementLANModePreexistingInterface"
    and s: "To4 (sidIP si) = Some source"
    using assms(5) by (auto simp: managementLANSourceIP_def informSourceIP_def Let_def split: if_splits)
  have v: "validateManagementLAN (stDial st) (prFlags p) (prProfile p) True (Some (stAddr st)) = None"
    using prepared_validated(4) [OF assms(1)] assms(2)
    by (simp add: validateLiveServeSources_def)
  obtain fallback where "resolveManagementIP (prFlags p) fallback (stAddr st) = Inr (sidIP si)"
    by (rule resolved_identity [OF assms(3)]) (use assms(4) in simp)
  from management_address_owned [OF v m this] s show ?thesis by simp
qed

section \<open>Planned modes never run\<close>

lemma instanceGuard_keeps:
  assumes "validateInstanceGuard f = Inr f'" shows "f' = f\<lparr>sfInstanceGuard := normalizeInstanceGuard (sfInstanceGuard f)\<rparr>"
  using assms by (simp add: validateInstanceGuard_def Let_def split: if_splits)

lemma operation_flags_sound:
  assumes "validateOperationFlags flags1 = Inr flags2"
  shows "flOperationMode (sfPort flags2) \<in> {operationModeStub, operationModeBridgeObserve, operationModePortMap,
      operationModeHostDirect, operationModeMacvlan}"
    and "flOperationMode (sfPort flags2) = operationModeMacvlan \<Longrightarrow> sfDryRunPlan flags2"
    and "equal_fold (trim_space (sfMacText flags2)) ''host'' \<Longrightarrow> flOperationMode (sfPort flags2) = operationModeHostDirect"
proof -
  let ?f = "normalizeOperation flags1"
  obtain f3 where m: "flOperationMode (sfPort ?f) \<in> {operationModeStub, operationModeBridgeObserve, operationModePortMap,
      operationModeHostDirect, operationModeMacvlan}"
    and g: "validateInstanceGuard ?f = Inr f3" and v: "validateModeFlags f3 = Inr flags2"
    using assms unfolding validateOperationFlags_def Let_def by (auto split: if_splits sum.splits)
  have f3: "flOperationMode (sfPort f3) = flOperationMode (sfPort ?f)" using instanceGuard_keeps [OF g] by simp
  have "flags2 = normalizeWANHealthConfig f3" and
    h: "\<not> (equal_fold (trim_space (sfMacText f3)) ''host'' \<and> flOperationMode (sfPort f3) \<noteq> operationModeHostDirect)"
      "\<not> (flOperationMode (sfPort f3) = operationModeMacvlan \<and> \<not> sfDryRunPlan (normalizeWANHealthConfig f3))"
    using v unfolding validateModeFlags_def Let_def by (simp_all split: if_splits)
  then have k: "flOperationMode (sfPort flags2) = flOperationMode (sfPort f3)" "sfMacText flags2 = sfMacText f3"
      "sfDryRunPlan flags2 = sfDryRunPlan (normalizeWANHealthConfig f3)"
    by (simp_all add: normalizeWANHealthConfig_def setPortFlags_def)
  show "flOperationMode (sfPort flags2) \<in> {operationModeStub, operationModeBridgeObserve, operationModePortMap,
      operationModeHostDirect, operationModeMacvlan}" using m k f3 by simp
  show "sfDryRunPlan flags2" if "flOperationMode (sfPort flags2) = operationModeMacvlan" using that h(2) k by simp
  show "flOperationMode (sfPort flags2) = operationModeHostDirect" if "equal_fold (trim_space (sfMacText flags2)) ''host''"
    using that h(1) k by simp
qed

text \<open>a planned host-network mode never starts. Unless only a plan is printed, a prepared run is in the
  stub, bridge-observe, port-map or host-direct mode and does not use a planned management VLAN; it
  takes a host's hardware address in host-direct mode only.\<close>

theorem planned_modes_never_run:
  assumes "prepareServeRuntime st changed flags0 = Prepared p" and "\<not> sfDryRunPlan (prFlags p)"
  shows "flOperationMode (sfPort (prFlags p)) \<in> {operationModeStub, operationModeBridgeObserve, operationModePortMap,
      operationModeHostDirect} \<and>
    (mlEnabled (effectiveManagementLAN (prFlags p)) \<longrightarrow>
       mlMode (effectiveManagementLAN (prFlags p)) \<in> {managementLANModeMetadataOnly, managementLANModePreexistingInterface}) \<and>
    (equal_fold (trim_space (sfMacText (prFlags p))) ''host'' \<longrightarrow> flOperationMode (sfPort (prFlags p)) = operationModeHostDirect)"
proof -
  obtain flags1 flags2 where v: "validateOperationFlags flags1 = Inr flags2" and p: "prFlags p = applyProfile (prProfile p) flags2"
    by (rule prepared_cases [OF assms(1)])
  have d: "\<not> sfDryRunPlan flags2" using assms(2) p by (simp add: applyProfile_def)
  have "validateManagementLAN (stDial st) (prFlags p) (prProfile p) False None = None"
    using prepared_validated(3) [OF assms(1)] by (simp add: validateServeRuntime_def)
  then have "mlEnabled (effectiveManagementLAN (prFlags p)) \<longrightarrow>
       mlMode (effectiveManagementLAN (prFlags p)) \<in> {managementLANModeMetadataOnly, managementLANModePreexistingInterface}"
    using assms(2) by (auto simp: validateManagementLAN_def Let_def split: if_splits)
  then show ?thesis using operation_flags_sound [OF v] d p by (auto simp: applyProfile_def)
qed

section \<open>Every accepted WAN probe runs\<close>

lemma applySetters_role:
  "pRole (applySetters ov p) = (if trim_space (oRole ov) = [] then pRole p else to_lower (trim_space (oRole ov)))"
proof -
  have strings: "pRole (setPortOverrideStrings ov q) = (if trim_space (oRole ov) = [] then pRole q else to_lower (trim_space (oRole ov)))" for q
    by (simp add: setPortOverrideStrings_def portOverrideStringFields_def textField_def setPort_def fieldText_def normalizeText_def
        normalizeGatewayRole_def)
  have media: "pRole (setPortOverrideMedia ov q) = pRole q" for q
    by (simp add: setPortOverrideMedia_def portOverrideStringFields_def textField_def setPort_def)
  have counters: "pRole (setPortOverrideCounters ov q) = pRole q" for q
    by (simp add: setPortOverrideCounters_def portCounterOverrides_def Let_def)
  have rest: "pRole (setPortOverrideAssignment ov q) = pRole q" "pRole (setPortOverrideSpeed ov q) = pRole q"
      "pRole (setPortOverrideWANHealth ov q) = pRole q" "pRole (setPortOverrideRates ov q) = pRole q"
      "pRole (setPortOverrideDisabled ov q) = pRole q" for q
    by (simp_all add: setPortOverrideAssignment_def setPortOverrideSpeed_def setPortOverrideWANHealth_def
        setPortOverrideRates_def setPortOverrideDisabled_def Let_def)
  have link: "pRole (setPortOverrideLinkState ov q) = pRole q" for q
    by (simp add: setPortOverrideLinkState_def Let_def split: option.split)
  show ?thesis by (simp add: applySetters_def portOverrideSetters_def strings media counters rest link)
qed

lemma isWANRole_lower [simp]: "isWANRole (to_lower (trim_space r)) = isWANRole r"
  by (simp add: isWANRole_def trim_space_lower)

lemma explicit_role:
  assumes "fold (\<lambda>ov out. if oPort ov < 1 \<or> trim_space (oRole ov) = [] then out else out(oPort ov \<mapsto> isWANRole (oRole ov))) ovs m t = Some True"
    and "m t = Some True \<Longrightarrow> isWANRole (pRole p)" and "1 \<le> t"
  shows "isWANRole (pRole (fold applySetters (filter (\<lambda>ov. oPort ov = t) ovs) p))"
  using assms
proof (induction ovs arbitrary: m p)
  case (Cons ov ovs)
  let ?m = "if oPort ov < 1 \<or> trim_space (oRole ov) = [] then m else m(oPort ov \<mapsto> isWANRole (oRole ov))"
  have f: "fold (\<lambda>ov out. if oPort ov < 1 \<or> trim_space (oRole ov) = [] then out else out(oPort ov \<mapsto> isWANRole (oRole ov))) ovs ?m t = Some True"
    using Cons.prems(1) by simp
  show ?case
  proof (cases "oPort ov = t")
    case True
    have "isWANRole (pRole (applySetters ov p))" if "?m t = Some True"
      using that Cons.prems(2,3) True by (auto simp: applySetters_role split: if_splits)
    from Cons.IH [OF f this Cons.prems(3)] show ?thesis using True by simp
  next
    case False
    have "isWANRole (pRole p)" if "?m t = Some True" using that Cons.prems(2) False by (simp split: if_splits)
    from Cons.IH [OF f this Cons.prems(3)] show ?thesis using False by simp
  qed
qed simp

lemma refreshOverride_keeps: "oPort (refreshOverride r ov) = oPort ov \<and> oRole (refreshOverride r ov) = oRole ov"
  by (simp add: refreshOverride_def ApplyObservation_def Let_def)

lemma explicitWANPorts_enriched: "explicitWANPorts (enrichOverrides env ovs) = explicitWANPorts ovs"
proof -
  have "fold (\<lambda>ov out. if oPort ov < 1 \<or> trim_space (oRole ov) = [] then out else out(oPort ov \<mapsto> isWANRole (oRole ov)))
      (map (refreshOverride r) ovs) m =
    fold (\<lambda>ov out. if oPort ov < 1 \<or> trim_space (oRole ov) = [] then out else out(oPort ov \<mapsto> isWANRole (oRole ov))) ovs m" for r m
    by (induction ovs arbitrary: m) (simp_all add: refreshOverride_keeps)
  then show ?thesis by (simp add: explicitWANPorts_def enrichOverrides_def RefreshOverrides_def)
qed

lemma firstErrorOf_None: "firstErrorOf check xs = None \<longleftrightarrow> (\<forall>x\<in>set xs. check x = None)"
  by (induction xs) (auto split: option.split)

lemma probed_role:
  assumes "explicitWANPorts ovs t = Some True" and "1 \<le> t" and "t \<le> int (length ports)"
  shows "isWANRole (pRole (ApplyPortOverrides ports ovs ! nat (t - 1)))"
proof -
  have i: "nat (t - 1) < length ports" "int (nat (t - 1)) + 1 = t" using assms(2,3) by auto
  show ?thesis
    using explicit_role [OF assms(1) [unfolded explicitWANPorts_def], of "ports ! nat (t - 1)"] assms(2)
    by (simp add: ApplyPortOverrides_nth(1) [OF i(1)] i(2))
qed

text \<open>every accepted WAN probe runs. When a prepared run probes WAN links, then in every mode, for
  whatever the host reports and with the overrides enriched from it, no configured target is skipped:
  the targets handed to the probe are exactly the configured ones, on ports whose role is WAN.\<close>

theorem accepted_probes_run:
  assumes "prepareServeRuntime st changed flags0 = Prepared p"
    and "NormalizeSource (wcSource (flWanHealth (sfPort (prFlags p)))) = ''ping''"
    and "int (length ports) = flPortCount (sfPort (prFlags p))"
  shows "let fl = sfPort (prFlags p); ovs = enrichOverrides env (flPortOverrides fl) in
    probeTargets (flWanHealth fl) (ApplyPortOverrides ports ovs) (explicitWANPorts ovs) =
      map (\<lambda>t. t\<lparr>wtHost := trim_space (wtHost t)\<rparr>) (wcTargets (flWanHealth fl)) \<and>
    wcTargets (flWanHealth fl) \<noteq> []"
proof -
  let ?fl = "sfPort (prFlags p)"
  let ?ovs = "enrichOverrides env (flPortOverrides ?fl)"
  have c: "validateWANHealthConfig ?fl = None"
    using prepared_validated(3) [OF assms(1)] by (simp add: validateServeRuntime_def)
  have ne: "wcTargets (flWanHealth ?fl) \<noteq> []"
    using c assms(2) by (simp add: validateWANHealthConfig_def Let_def split: if_splits)
  have range: "1 \<le> wtPort t \<and> wtPort t \<le> flPortCount ?fl" if "t \<in> set (wcTargets (flWanHealth ?fl))" for t
    using c that by (auto simp: validateWANHealthConfig_def Let_def firstErrorOf_None healthTargetError_def split: if_splits)
  have explicit: "explicitWANPorts (flPortOverrides ?fl) (wtPort t) = Some True" if "t \<in> set (wcTargets (flWanHealth ?fl))" for t
    using prepared_validated(2) [OF assms(1)] assms(2) that
    by (auto simp: validateWANHealthTargets_def firstErrorOf_None wanTargetError_def Let_def split: if_splits)
  have len: "length (ApplyPortOverrides ports ?ovs) = length ports"
    using ApplyPortOverrides_nth(2) [of 0 ports ?ovs] by (cases "ports = []") (simp_all add: ApplyPortOverrides_def)
  have "\<not> (wtPort t < 1 \<or> wtPort t > int (length (ApplyPortOverrides ports ?ovs))) \<and>
      explicitWANPorts ?ovs (wtPort t) = Some True \<and> isWANRole (pRole (ApplyPortOverrides ports ?ovs ! nat (wtPort t - 1)))"
    if "t \<in> set (wcTargets (flWanHealth ?fl))" for t
    using range [OF that] explicit [OF that] probed_role [of ?ovs "wtPort t" ports] assms(3) len
    by (simp add: explicitWANPorts_enriched)
  then have "probeTargets (flWanHealth ?fl) (ApplyPortOverrides ports ?ovs) (explicitWANPorts ?ovs) =
      map (\<lambda>t. t\<lparr>wtHost := trim_space (wtHost t)\<rparr>) (wcTargets (flWanHealth ?fl))"
    unfolding probeTargets_def by (subst filter_True) auto
  then show ?thesis using ne by (simp add: Let_def)
qed

section \<open>Identities the validation accepts and the daemon cannot use\<close>

lemma ParseMAC_short: "length s < 14 \<Longrightarrow> ParseMAC s = None"
  by (simp add: ParseMAC_def)

lemma equal_fold_length: "equal_fold a b \<Longrightarrow> length a = length b"
  unfolding equal_fold_def to_lower_def using map_eq_imp_length_eq by blast


section \<open>A start to try the properties on\<close>

text \<open>A gateway with two ports that probes its WAN link, on a host that owns the address of the device.\<close>

definition labStartProfile :: profile where
  "labStartProfile = emptyProfile\<lparr>profName := ''lab'', profModel := ''LAB'', profPorts := 2,
     profPayload := (profPayload emptyProfile)\<lparr>payloadKind := ''gateway''\<rparr>\<rparr>"

definition labStartConfig :: app_config where
  "labStartConfig = DefaultConfig\<lparr>cgPortOverrides := [emptyOverride\<lparr>oPort := 1, oRole := ''WAN ''\<rparr>],
     cgWANHealth := \<lparr>wcSource = ''Ping'', wcIntervalSeconds = 10, wcTimeoutMS = 1000,
       wcTargets = [\<lparr>wtPort = 1, wtHost = '' 192.0.2.1''\<rparr>]\<rparr>\<rparr>"

definition labStartFlags :: serve_flags where
  "labStartFlags = \<lparr>sfConfigPath = ''c'', sfProfileName = ''lab'', sfProfileFile = [], sfProfileDir = [], sfListProfiles = False,
     sfValidate = False, sfConfigMigrate = False, sfConfigMigrateDryRun = False, sfProfileValidate = [],
     sfProfileExport = [], sfProfileTemplate = [], sfMacText = ''02:00:00:00:00:01'', sfIpText = ''192.0.2.10'',
     sfHostname = ''lab'', sfModel = [], sfModelDisplay = [], sfVersion = [], sfBinaryVersion = False,
     sfPort = labFlags\<lparr>flOperationMode := [], flPortCount := 0, flUplinkSpeed := [], flUplinkPort := 0\<rparr>,
     sfTrafficRatesEnabled = True, sfProcSource = [], sfInstanceGuard = ''off'', sfInstanceGuardPath = [],
     sfController = [], sfInterval = 10000000000, sfControllerIntervalMin = 5000000000,
     sfControllerIntervalMax = 60000000000, sfInformBackoffMax = 300000000000, sfInformBackoffJitterPercent = 20,
     sfDryRun = False, sfDryRunPlan = False, sfStatus = False, sfStatusJSON = False, sfOnce = False, sfNoDiscovery = False,
     sfDiscoveryInterface = [], sfDiscoveryTargets = [], sfManagementLAN = emptyManagementLAN, sfSshListen = [],
     sfSshUser = [], sfSshPassword = [], sfSshHostKey = [], sfSshState = [], sfStatusPath = []\<rparr>"

definition labAddr :: addr_env where
  "labAddr = \<lparr>aeInterfaces = Some [\<lparr>niName = ''eth0'', niUp = True, niMAC = [], niAddrs = Some [Some [192, 0, 2, 10]]\<rparr>],
     aeByName = (\<lambda>_. None), aeDial = (\<lambda>_. None), aeGoos = ''linux'', aeSpeedFile = (\<lambda>_. None)\<rparr>"

definition labStart :: start_env where
  "labStart = \<lparr>stLoad = (\<lambda>_. Loaded labStartConfig),
     stBuiltin = [\<lparr>recSource = ''built-in'', recBuiltin = True, recOrder = 1, recProfile = labStartProfile,
       recDocument = recDocument (builtinRecord [] [])\<rparr>],
     stFiles = (\<lambda>_. None), stYaml = labYaml, stAddr = labAddr, stDial = (\<lambda>_ _. False)\<rparr>"

definition labServices :: host_services where
  "labServices = \<lparr>hsLookup = (\<lambda>_. None), hsHostname = None, hsSha256 = (\<lambda>_. replicate 32 0), hsAddr = labAddr\<rparr>"

lemma labStart_evaluates:
  "case prepareServeRuntime labStart (\<lambda>_. True) labStartFlags of
     Prepared p \<Rightarrow> \<not> sfDryRunPlan (prFlags p) \<and> NormalizeSource (wcSource (flWanHealth (sfPort (prFlags p)))) = ''ping'' \<and>
       flPortCount (sfPort (prFlags p)) = 2 \<and>
       (case resolveServeIdentity labServices (prFlags p) (prProfile p) of
          Some r \<Rightarrow> (case r of Inr si \<Rightarrow> informSourceIP (prFlags p) (sidIP si) labAddr = Some [192, 0, 2, 10] | Inl _ \<Rightarrow> False)
        | None \<Rightarrow> False)
   | StartDone \<Rightarrow> False | StartError _ \<Rightarrow> False"
  by code_simp

lemma labStart_prepared:
  obtains p si where "prepareServeRuntime labStart (\<lambda>_. True) labStartFlags = Prepared p"
    and "\<not> sfDryRunPlan (prFlags p)" and "NormalizeSource (wcSource (flWanHealth (sfPort (prFlags p)))) = ''ping''"
    and "flPortCount (sfPort (prFlags p)) = 2"
    and "resolveServeIdentity labServices (prFlags p) (prProfile p) = Some (Inr si)"
    and "informSourceIP (prFlags p) (sidIP si) labAddr = Some [192, 0, 2, 10]"
  using labStart_evaluates by (auto split: start_result.splits option.splits sum.splits)

section \<open>Properties of a whole run\<close>

text \<open>C5: an accepted configuration never fails at a heartbeat. Once the start has accepted the settings
  and resolved the identity, every later round obtains its ports and builds its payload, whatever the
  host, the bridge, LLDP, the WAN probes, the rate tracker, the controller's block selection, the
  adoption state and the uptime are: a payload error, which would end the daemon, cannot occur.\<close>

theorem accepted_configuration_builds:
  assumes "prepareServeRuntime st changed flags0 = Prepared p"
    and "resolveServeIdentity os (prFlags p) (prProfile p) = Some (Inr si)"
  shows "\<exists>ports tracker' payload.
    heartbeatPorts env oor now tracker (prFlags p) (prProfile p) (sidBuildOptions si) = Some (ports, tracker') \<and>
    payloadForIdentity os clock mac ip hostname informURL store (prFlags p) (prProfile p) ports up ctl = Inr payload"
proof -
  let ?fl = "sfPort (prFlags p)" and ?prof = "prProfile p"
  obtain s where s: "sidBuildOptions si = (previewOptions ?prof ?fl)\<lparr>optUplinkSpeed := s\<rparr>"
    by (rule resolved_build_options [OF assms(2)])
  obtain ports0 logs where r: "portsForRuntime env ?fl ?prof (sidBuildOptions si) = Some (ports0, logs)"
    and same: "same_ports ports0 (previewPorts ?prof ?fl)"
    by (rule runtime_same_preview [OF s])
  obtain ports tracker' where h: "heartbeatPorts env oor now tracker (prFlags p) ?prof (sidBuildOptions si) = Some (ports, tracker')"
    by (simp add: heartbeatPorts_def r) (metis prod.collapse)
  have "same_ports ports ports0"
    using h rates_same [of oor now tracker ports0] by (auto simp: heartbeatPorts_def r split: if_splits)
  then have "same_ports (refreshPortUptimes ports up) (previewPorts ?prof ?fl)"
    using refresh_same same same_ports_trans by blast
  from buildPayload_builds [OF this prepared_validated(1) [OF assms(1)]] h
  show ?thesis unfolding payloadForIdentity_def by blast
qed

theorem accepted_configuration_builds_witness:
  "\<exists>flags prof options ports tracker payload.
    heartbeatPorts labRuntime (\<lambda>_. 0) 7 Map.empty flags prof options = Some (ports, tracker) \<and>
    payloadForIdentity labServices labClock [] [] [] [] factoryStore flags prof ports 1
      \<lparr>cpTimeOffsetSeconds = 0, cpBlocks = emptySelection\<rparr> = Inr payload"
proof -
  obtain p si where "prepareServeRuntime labStart (\<lambda>_. True) labStartFlags = Prepared p"
    and "resolveServeIdentity labServices (prFlags p) (prProfile p) = Some (Inr si)"
    by (rule labStart_prepared)
  from accepted_configuration_builds [OF this, where env = labRuntime and oor = "\<lambda>_. 0" and now = 7 and tracker = Map.empty
      and clock = labClock and mac = "[]" and ip = "[]" and hostname = "[]" and informURL = "[]" and store = factoryStore
      and up = 1 and ctl = "\<lparr>cpTimeOffsetSeconds = 0, cpBlocks = emptySelection\<rparr>"]
  show ?thesis by blast
qed

theorem inform_source_owned_witness:
  "host_owns labAddr [192, 0, 2, 10] \<or> (\<exists>name. iface_owns labAddr name [192, 0, 2, 10])"
proof -
  obtain p si where p: "prepareServeRuntime labStart (\<lambda>_. True) labStartFlags = Prepared p" "\<not> sfDryRunPlan (prFlags p)"
    and i: "resolveServeIdentity labServices (prFlags p) (prProfile p) = Some (Inr si)"
    and s: "informSourceIP (prFlags p) (sidIP si) labAddr = Some [192, 0, 2, 10]"
    by (rule labStart_prepared)
  have h: "hsAddr labServices = stAddr labStart" "stAddr labStart = labAddr" by (simp_all add: labServices_def labStart_def)
  from inform_source_owned [OF p i h(1) s] show ?thesis unfolding h(2) by blast
qed

theorem planned_modes_never_run_witness:
  "\<exists>p. prepareServeRuntime labStart (\<lambda>_. True) labStartFlags = Prepared p \<and>
     flOperationMode (sfPort (prFlags p)) \<in> {operationModeStub, operationModeBridgeObserve, operationModePortMap,
       operationModeHostDirect}"
proof -
  obtain p where p: "prepareServeRuntime labStart (\<lambda>_. True) labStartFlags = Prepared p" "\<not> sfDryRunPlan (prFlags p)"
    by (rule labStart_prepared)
  from planned_modes_never_run [OF p] p(1) show ?thesis by blast
qed

theorem accepted_probes_run_witness:
  "\<exists>fl :: runtime_flags. wcTargets (flWanHealth fl) \<noteq> [] \<and>
     length (probeTargets (flWanHealth fl) (ApplyPortOverrides [emptyPort, emptyPort] (enrichOverrides labEnv (flPortOverrides fl)))
       (explicitWANPorts (enrichOverrides labEnv (flPortOverrides fl)))) = length (wcTargets (flWanHealth fl))"
proof -
  obtain p where p: "prepareServeRuntime labStart (\<lambda>_. True) labStartFlags = Prepared p"
    and h: "NormalizeSource (wcSource (flWanHealth (sfPort (prFlags p)))) = ''ping''"
    and n: "flPortCount (sfPort (prFlags p)) = 2"
    by (rule labStart_prepared)
  have "int (length [emptyPort, emptyPort]) = flPortCount (sfPort (prFlags p))" using n by simp
  note run = accepted_probes_run [OF p h this, of labEnv, unfolded Let_def]
  have "length (probeTargets (flWanHealth (sfPort (prFlags p)))
       (ApplyPortOverrides [emptyPort, emptyPort] (enrichOverrides labEnv (flPortOverrides (sfPort (prFlags p)))))
       (explicitWANPorts (enrichOverrides labEnv (flPortOverrides (sfPort (prFlags p)))))) =
     length (wcTargets (flWanHealth (sfPort (prFlags p))))"
    by (simp only: conjunct1 [OF run] length_map)
  with conjunct2 [OF run] show ?thesis by blast
qed


definition labPortMap :: "string \<Rightarrow> serve_flags" where
  "labPortMap mode = labStartFlags\<lparr>sfPort := labFlags\<lparr>flOperationMode := mode, flPortOverrides := [],
     flPortMappings := [\<lparr>pmPort = 2, pmInterface = [], pmDisabled = True, pmUnmapped = False\<rparr>,
       \<lparr>pmPort = 1, pmInterface = ''eth0'', pmDisabled = False, pmUnmapped = False\<rparr>],
     flBridgeObserve := \<lparr>boBridge = ''br0'', boUplinkInterface = ''eno1'', boIgnoredMembers = [''tap9''],
       boMemberPortMap = [\<lparr>bmMember = ''tap1'', bmPort = 2\<rparr>]\<rparr>\<rparr>\<rparr>"

theorem accepted_port_map_total_witness:
  "sort (map pmPort (flPortMappings (sfPort (labPortMap ''port-map'')))) = [1..2]"
proof -
  have m: "normalizeMode (flOperationMode (sfPort (labPortMap ''port-map''))) = operationModePortMap" by code_simp
  have v: "validateSourceMappings (labPortMap ''port-map'') False None = None" by code_simp
  have n: "flPortCount (sfPort (labPortMap ''port-map'')) = 2" by code_simp
  from accepted_port_map_total [OF m v] show ?thesis unfolding n by blast
qed

theorem accepted_bridge_unambiguous_witness:
  "distinct (map bmPort (boMemberPortMap (effectiveBridgeObserve (sfPort (labPortMap ''observe'')))))"
proof -
  have m: "normalizeMode (flOperationMode (sfPort (labPortMap ''observe''))) = operationModeBridgeObserve" by code_simp
  have v: "validateSourceMappings (labPortMap ''observe'') False None = None" by code_simp
  from accepted_bridge_unambiguous [OF m v] show ?thesis unfolding Let_def by blast
qed

end
