(* ===== verification/Interface_Address.thy ===== *)
theory Interface_Address
  imports Host_Address Payload_View
begin

text \<open>
  The rendering of an interface's addresses, \<open>internal/observe/ifsource/address.go\<close>: the first IPv4
  address with its netmask and the global IPv6 addresses with their prefix lengths. \<open>Host_Interface\<close> takes
  these texts as given.
\<close>

text \<open>An address of an interface: a network (address and mask) or another kind.\<close>

datatype interface_addr = IPNetAddr bytes bytes | UnknownAddr

text \<open>\<open>IPMask.Size\<close>: both numbers are 0 for a mask that is not a run of ones followed by zeros.\<close>

definition mask_size :: "bytes \<Rightarrow> nat \<times> nat" where
  "mask_size m = (case simpleMaskLength m of Some n \<Rightarrow> (n, 8 * length m) | None \<Rightarrow> (0, 0))"

text \<open>The predicates of package \<open>net\<close> on a 16-byte address that is not an IPv4 one.\<close>

definition IsUnspecified6 :: "bytes \<Rightarrow> bool" where
  "IsUnspecified6 ip \<longleftrightarrow> ip = replicate 16 0"

definition IsLoopback6 :: "bytes \<Rightarrow> bool" where
  "IsLoopback6 ip \<longleftrightarrow> ip = replicate 15 0 @ [1]"

definition IsMulticast6 :: "bytes \<Rightarrow> bool" where
  "IsMulticast6 ip \<longleftrightarrow> ip ! 0 = 0xff"

definition IsLinkLocalUnicast6 :: "bytes \<Rightarrow> bool" where
  "IsLinkLocalUnicast6 ip \<longleftrightarrow> ip ! 0 = 0xfe \<and> ip ! 1 AND 0xc0 = 0x80"

definition IsLinkLocalMulticast6 :: "bytes \<Rightarrow> bool" where
  "IsLinkLocalMulticast6 ip \<longleftrightarrow> ip ! 0 = 0xff \<and> ip ! 1 AND 0x0f = 0x02"

definition IsGlobalUnicast6 :: "bytes \<Rightarrow> bool" where
  "IsGlobalUnicast6 ip \<longleftrightarrow>
     \<not> IsUnspecified6 ip \<and> \<not> IsLoopback6 ip \<and> \<not> IsMulticast6 ip \<and> \<not> IsLinkLocalUnicast6 ip"

definition ipv6CIDR :: "bytes \<Rightarrow> bytes \<Rightarrow> string" where
  "ipv6CIDR ip m =
     (if To4 ip \<noteq> None \<or> length ip \<noteq> 16 then []
      else if \<not> IsGlobalUnicast6 ip \<or> IsLinkLocalUnicast6 ip \<or> IsLinkLocalMulticast6 ip then []
      else (case mask_size m of
              (ones, bits) \<Rightarrow> if bits \<noteq> 128 then [] else IP_String ip @ ''/'' @ nat_itoa ones))"

text \<open>The loop over the addresses: IPv4 text, netmask and IPv6 texts so far.\<close>

fun addressLoop :: "string \<Rightarrow> string \<Rightarrow> string list \<Rightarrow> interface_addr list \<Rightarrow> string \<times> string \<times> string list" where
  "addressLoop ipv4 netmask ipv6 [] = (ipv4, netmask, ipv6)"
| "addressLoop ipv4 netmask ipv6 (UnknownAddr # as) = addressLoop ipv4 netmask ipv6 as"
| "addressLoop ipv4 netmask ipv6 (IPNetAddr ip m # as) =
     (case To4 ip of
        Some ip4 \<Rightarrow>
          if ipv4 = [] then addressLoop (IP_String ip4) (IP_String m) ipv6 as
          else addressLoop ipv4 netmask ipv6 as
      | None \<Rightarrow>
          (let cidr = ipv6CIDR ip m in
           addressLoop ipv4 netmask (if cidr \<noteq> [] then ipv6 @ [cidr] else ipv6) as))"

text \<open>\<open>None\<close> is an error of \<open>Addrs\<close>.\<close>

definition source_interfaceAddresses :: "interface_addr list option \<Rightarrow> string \<times> string \<times> string list" where
  "source_interfaceAddresses addrs = (case addrs of None \<Rightarrow> ([], [], []) | Some as \<Rightarrow> addressLoop [] [] [] as)"

section \<open>What is rendered\<close>

definition ipv4_nets :: "interface_addr list \<Rightarrow> (bytes \<times> bytes) list" where
  "ipv4_nets = List.map_filter (\<lambda>a. case a of IPNetAddr ip m \<Rightarrow> map_option (\<lambda>ip4. (ip4, m)) (To4 ip) | UnknownAddr \<Rightarrow> None)"

definition ipv6_texts_of :: "interface_addr list \<Rightarrow> string list" where
  "ipv6_texts_of as = filter (\<lambda>t. t \<noteq> [])
     (map (\<lambda>a. case a of IPNetAddr ip m \<Rightarrow> if To4 ip = None then ipv6CIDR ip m else [] | UnknownAddr \<Rightarrow> []) as)"

lemma nets_simps [simp]:
  "ipv4_nets [] = []" "ipv4_nets (UnknownAddr # as) = ipv4_nets as"
  "ipv4_nets (IPNetAddr ip m # as) = (case To4 ip of Some ip4 \<Rightarrow> (ip4, m) # ipv4_nets as | None \<Rightarrow> ipv4_nets as)"
  by (simp_all add: ipv4_nets_def map_filter_simps split: option.split)

lemma texts_simps [simp]:
  "ipv6_texts_of [] = []" "ipv6_texts_of (UnknownAddr # as) = ipv6_texts_of as"
  "ipv6_texts_of (IPNetAddr ip m # as) =
     (if To4 ip = None \<and> ipv6CIDR ip m \<noteq> [] then ipv6CIDR ip m # ipv6_texts_of as else ipv6_texts_of as)"
  by (simp_all add: ipv6_texts_of_def)

lemma go_join_not_Nil: "p \<noteq> [] \<Longrightarrow> go_join sep (p # ps) \<noteq> []"
  by (cases ps) simp_all

lemma nat_itoa_not_Nil: "nat_itoa n \<noteq> []"
  by (simp add: nat_itoa.simps [of n])

lemma ipv4_text: "To4 ip = Some ip4 \<Longrightarrow> IP_String ip4 \<noteq> []"
proof -
  assume a: "To4 ip = Some ip4"
  then have l: "length ip4 = 4" by (auto simp: To4_def split: if_splits)
  then obtain b bs where b: "ip4 = b # bs" by (cases ip4) auto
  have "To4 ip4 = Some ip4" using l by (simp add: To4_def)
  then show ?thesis using l by (simp add: IP_String_def ipv4_string_def b go_join_not_Nil nat_itoa_not_Nil)
qed

lemma addressLoop_found: "ipv4 \<noteq> [] \<Longrightarrow> addressLoop ipv4 netmask ipv6 as = (ipv4, netmask, ipv6 @ ipv6_texts_of as)"
proof (induction as arbitrary: ipv6)
  case (Cons a as)
  then show ?case by (cases a) (auto simp: Let_def split: option.split)
qed simp

text \<open>The first IPv4 network gives address and netmask; every global IPv6 network is listed, in order.\<close>

lemma source_interfaceAddresses_eq:
  "source_interfaceAddresses (Some as) =
     (case ipv4_nets as of
        [] \<Rightarrow> ([], [], ipv6_texts_of as)
      | (ip4, m) # _ \<Rightarrow> (IP_String ip4, IP_String m, ipv6_texts_of as))"
proof -
  have "addressLoop [] [] ipv6 as =
      (case ipv4_nets as of
         [] \<Rightarrow> ([], [], ipv6 @ ipv6_texts_of as)
       | (ip4, m) # _ \<Rightarrow> (IP_String ip4, IP_String m, ipv6 @ ipv6_texts_of as))" for ipv6
  proof (induction as arbitrary: ipv6)
    case (Cons a as)
    show ?case
    proof (cases a)
      case (IPNetAddr ip m)
      show ?thesis
      proof (cases "To4 ip")
        case None
        then show ?thesis using Cons IPNetAddr
          by (simp add: Let_def split: list.split)
      next
        case (Some ip4)
        then show ?thesis using IPNetAddr addressLoop_found [OF ipv4_text [OF Some], of "IP_String m" ipv6 as]
          by simp
      qed
    qed (use Cons in \<open>simp split: list.split\<close>)
  qed simp
  then show ?thesis by (simp add: source_interfaceAddresses_def split: list.split)
qed

end
