(* ===== verification/Instance_Guard.thy ===== *)
theory Instance_Guard
  imports Operation_Validate
begin

text \<open>
  The instance guard, \<open>cmd/unifi-stubd/instance_guard.go\<close>: a daemon holds an advisory lock on a file while it
  runs, so that a second one with the same path does not start. The lock belongs to an open file and is
  released by the kernel when its process ends. Every system call may fail; its outcome is a field of
  \<open>guard_env\<close>. The daemons of a host are a transition system over one lock file, in which they start,
  fail to start, end and are killed in any order and each in its own mode.
\<close>

section \<open>The lock file\<close>

record guard_file =
  gfHolder :: "nat option"
  gfText :: string

record guard_metadata =
  gmPID :: nat
  gmStartTime :: string
  gmProfile :: string
  gmMAC :: string
  gmHostname :: string
  gmVersion :: string

text \<open>\<open>geWritten\<close> is what a failed write leaves in the file; \<open>geMarshal\<close> is the JSON encoder.\<close>

record guard_env =
  geMkdir :: bool
  geOpen :: bool
  geLock :: bool
  geRead :: bool
  geMarshal :: "guard_metadata \<Rightarrow> string option"
  geTruncate :: bool
  geSeek :: bool
  geWrite :: bool
  geWritten :: string
  geUnlock :: bool
  geClose :: bool

datatype guard_error =
    GuardPathEmpty
  | GuardMkdir
  | GuardOpen
  | GuardLock
  | GuardConflict "string option"
  | GuardMarshal
  | GuardTruncate
  | GuardSeek
  | GuardWrite
  | GuardUnlock
  | GuardClose
  | GuardBoth guard_error guard_error

definition instanceGuardConflict :: "guard_env \<Rightarrow> guard_file \<Rightarrow> guard_error" where
  "instanceGuardConflict env gf = GuardConflict (if geRead env then Some (trim_space (gfText gf)) else None)"

text \<open>\<open>openInstanceGuard\<close>: a lock that any open file holds is refused, not waited for.\<close>

definition openInstanceGuard :: "guard_env \<Rightarrow> nat \<Rightarrow> guard_file \<Rightarrow> guard_error option \<times> guard_file" where
  "openInstanceGuard env pid gf =
     (if \<not> geMkdir env then (Some GuardMkdir, gf)
      else if \<not> geOpen env then (Some GuardOpen, gf)
      else if gfHolder gf \<noteq> None then (Some (instanceGuardConflict env gf), gf)
      else if \<not> geLock env then (Some GuardLock, gf)
      else (None, gf\<lparr>gfHolder := Some pid\<rparr>))"

definition writeInstanceGuardMetadata ::
  "guard_env \<Rightarrow> guard_metadata \<Rightarrow> guard_file \<Rightarrow> guard_error option \<times> guard_file" where
  "writeInstanceGuardMetadata env meta gf =
     (case geMarshal env meta of
        None \<Rightarrow> (Some GuardMarshal, gf)
      | Some data \<Rightarrow>
          if \<not> geTruncate env then (Some GuardTruncate, gf)
          else if \<not> geSeek env then (Some GuardSeek, gf\<lparr>gfText := []\<rparr>)
          else if \<not> geWrite env then (Some GuardWrite, gf\<lparr>gfText := geWritten env\<rparr>)
          else (None, gf\<lparr>gfText := data @ [CHR 0x0A]\<rparr>))"

text \<open>\<open>Close\<close> of a handle that is not nil: closing the file releases the lock even if unlocking failed.\<close>

definition closeInstanceGuard :: "guard_env \<Rightarrow> guard_file \<Rightarrow> guard_error option \<times> guard_file" where
  "closeInstanceGuard env gf =
     (if \<not> geUnlock env then Some GuardUnlock else if \<not> geClose env then Some GuardClose else None,
      if geUnlock env \<or> geClose env then gf\<lparr>gfHolder := None\<rparr> else gf)"

text \<open>A handle, no handle but permission to run, or an error that ends the start.\<close>

datatype guard_result = Guarded | Unguarded | GuardRefused guard_error

definition acquireInstanceGuard ::
  "guard_env \<Rightarrow> string \<Rightarrow> string \<Rightarrow> nat \<Rightarrow> guard_metadata \<Rightarrow> guard_file \<Rightarrow> guard_result \<times> guard_file" where
  "acquireInstanceGuard env mode0 path0 pid meta gf =
     (let mode = normalizeInstanceGuard mode0 in
      if mode = instanceGuardOff then (Unguarded, gf)
      else if trim_space path0 = [] then (GuardRefused GuardPathEmpty, gf)
      else case openInstanceGuard env pid gf of
        (Some e, gf1) \<Rightarrow> (if mode = instanceGuardWarn then Unguarded else GuardRefused e, gf1)
      | (None, gf1) \<Rightarrow>
          (case writeInstanceGuardMetadata env meta gf1 of
             (None, gf2) \<Rightarrow> (Guarded, gf2)
           | (Some e, gf2) \<Rightarrow>
               (case closeInstanceGuard env gf2 of
                  (closeErr, gf3) \<Rightarrow>
                    (if mode = instanceGuardWarn then Unguarded
                     else GuardRefused (case closeErr of None \<Rightarrow> e | Some c \<Rightarrow> GuardBoth e c), gf3))))"

section \<open>The daemons of a host\<close>

text \<open>The running processes with their modes.\<close>

record guard_system =
  gsFile :: guard_file
  gsRunning :: "nat \<Rightarrow> string option"

definition dropLock :: "nat \<Rightarrow> guard_file \<Rightarrow> guard_file" where
  "dropLock pid gf = (if gfHolder gf = Some pid then gf\<lparr>gfHolder := None\<rparr> else gf)"

text \<open>A process closes its handle when it has one, which is when it holds the lock.\<close>

inductive guard_step :: "guard_system \<Rightarrow> guard_system \<Rightarrow> bool" where
  start: "gsRunning s pid = None \<Longrightarrow> acquireInstanceGuard env mode path pid meta (gsFile s) = (r, gf) \<Longrightarrow>
    r = Guarded \<or> r = Unguarded \<Longrightarrow>
    guard_step s (s\<lparr>gsFile := gf, gsRunning := (gsRunning s)(pid \<mapsto> mode)\<rparr>)"
| refuse: "gsRunning s pid = None \<Longrightarrow>
    acquireInstanceGuard env mode path pid meta (gsFile s) = (GuardRefused e, gf) \<Longrightarrow>
    guard_step s (s\<lparr>gsFile := dropLock pid gf\<rparr>)"
| finish: "gsRunning s pid = Some mode \<Longrightarrow> gfHolder (gsFile s) = Some pid \<Longrightarrow>
    closeInstanceGuard env (gsFile s) = (err, gf) \<Longrightarrow>
    guard_step s (s\<lparr>gsFile := dropLock pid gf, gsRunning := (gsRunning s)(pid := None)\<rparr>)"
| killed: "gsRunning s pid = Some mode \<Longrightarrow>
    guard_step s (s\<lparr>gsFile := dropLock pid (gsFile s), gsRunning := (gsRunning s)(pid := None)\<rparr>)"

inductive guard_reachable :: "guard_system \<Rightarrow> bool" where
  initial: "guard_reachable \<lparr>gsFile = \<lparr>gfHolder = None, gfText = t\<rparr>, gsRunning = Map.empty\<rparr>"
| step: "guard_reachable s \<Longrightarrow> guard_step s s' \<Longrightarrow> guard_reachable s'"

section \<open>Invariant\<close>

definition strict_mode :: "string \<Rightarrow> bool" where
  "strict_mode mode \<longleftrightarrow> normalizeInstanceGuard mode \<notin> {instanceGuardWarn, instanceGuardOff}"

definition guard_inv :: "guard_system \<Rightarrow> bool" where
  "guard_inv s \<longleftrightarrow>
     (\<forall>p mode. gsRunning s p = Some mode \<longrightarrow> strict_mode mode \<longrightarrow> gfHolder (gsFile s) = Some p) \<and>
     (\<forall>p. gfHolder (gsFile s) = Some p \<longrightarrow> gsRunning s p \<noteq> None)"

lemma write_holder: "writeInstanceGuardMetadata env meta gf = (r, gf') \<Longrightarrow> gfHolder gf' = gfHolder gf"
  by (auto simp: writeInstanceGuardMetadata_def split: option.splits if_splits)

lemma close_holder:
  "closeInstanceGuard env gf = (r, gf') \<Longrightarrow> gfHolder gf' = gfHolder gf \<or> gfHolder gf' = None"
  by (auto simp: closeInstanceGuard_def split: if_splits)

lemma open_holder:
  "openInstanceGuard env pid gf = (r, gf') \<Longrightarrow>
     (r = None \<and> gfHolder gf = None \<and> gfHolder gf' = Some pid) \<or> (r \<noteq> None \<and> gf' = gf)"
  by (auto simp: openInstanceGuard_def split: if_splits)

text \<open>What a start does to the lock: a strict process runs only with the lock, taken from nobody.\<close>

lemma acquire_holder:
  assumes "acquireInstanceGuard env mode path pid meta gf = (r, gf')"
  shows "gfHolder gf' = gfHolder gf \<or> (gfHolder gf = None \<and> gfHolder gf' = Some pid)"
    and "strict_mode mode \<Longrightarrow> r = Guarded \<or> r = Unguarded \<Longrightarrow> gfHolder gf = None \<and> gfHolder gf' = Some pid"
proof -
  obtain o1 gf1 where o1: "openInstanceGuard env pid gf = (o1, gf1)" by fastforce
  obtain w gf2 where w: "writeInstanceGuardMetadata env meta gf1 = (w, gf2)" by fastforce
  obtain c gf3 where c: "closeInstanceGuard env gf2 = (c, gf3)" by fastforce
  note h = open_holder [OF o1] write_holder [OF w] close_holder [OF c]
  show "gfHolder gf' = gfHolder gf \<or> (gfHolder gf = None \<and> gfHolder gf' = Some pid)"
    using assms h by (cases o1; cases w) (auto simp: acquireInstanceGuard_def Let_def o1 w c split: if_splits)
  show "gfHolder gf = None \<and> gfHolder gf' = Some pid" if "strict_mode mode" "r = Guarded \<or> r = Unguarded"
    using assms h that
    by (cases o1; cases w) (auto simp: acquireInstanceGuard_def strict_mode_def Let_def o1 w c split: if_splits)
qed

lemma dropLock_holder:
  "gfHolder (dropLock pid gf) = (if gfHolder gf = Some pid then None else gfHolder gf)"
  by (simp add: dropLock_def)

lemma guard_inv_step:
  assumes "guard_inv s" "guard_step s t"
  shows "guard_inv t"
  using assms(2)
proof (cases rule: guard_step.cases)
  case (start pid env mode path meta r gf)
  have "gfHolder (gsFile s) \<noteq> Some pid" using assms(1) start(2) by (auto simp: guard_inv_def)
  with acquire_holder [OF start(3)] start(4) assms(1) show ?thesis
    unfolding start(1) guard_inv_def by (auto split: if_splits)
next
  case (refuse pid env mode path meta e gf)
  have "gfHolder (gsFile s) \<noteq> Some pid" using assms(1) refuse(2) by (auto simp: guard_inv_def)
  with acquire_holder(1) [OF refuse(3)] assms(1) show ?thesis
    unfolding refuse(1) guard_inv_def by (auto simp: dropLock_holder)
next
  case (finish pid mode env err gf)
  show ?thesis using assms(1) close_holder [OF finish(4)] finish(3)
    unfolding finish(1) guard_inv_def by (auto simp: dropLock_holder)
next
  case (killed pid mode)
  show ?thesis using assms(1) unfolding killed(1) guard_inv_def by (auto simp: dropLock_holder)
qed

lemma guard_inv_reachable: "guard_reachable s \<Longrightarrow> guard_inv s"
proof (induction rule: guard_reachable.induct)
  case (initial t)
  then show ?case by (simp add: guard_inv_def)
next
  case (step s s')
  then show ?case using guard_inv_step by blast
qed

section \<open>Properties\<close>

text \<open>C21: one instance at a time. In every reachable state of the daemons that share a guard path, at most one
  runs in the mode \<open>fail\<close>, whatever failed system calls, crashes and instances in the modes \<open>warn\<close> and
  \<open>off\<close> came before; and a lock that is held is held by a running process, so a crash leaves no stale
  lock behind.\<close>

theorem guard_single_instance:
  assumes "guard_reachable s"
  shows "(\<forall>p q mode mode'. gsRunning s p = Some mode \<longrightarrow> gsRunning s q = Some mode' \<longrightarrow>
      normalizeInstanceGuard mode = instanceGuardFail \<longrightarrow> normalizeInstanceGuard mode' = instanceGuardFail \<longrightarrow>
      p = q \<and> gfHolder (gsFile s) = Some p) \<and>
    (\<forall>p. gfHolder (gsFile s) = Some p \<longrightarrow> gsRunning s p \<noteq> None)"
proof -
  have strict: "strict_mode mode" if "normalizeInstanceGuard mode = instanceGuardFail" for mode
    using that by (simp add: strict_mode_def instanceGuardFail_def instanceGuardWarn_def instanceGuardOff_def)
  have holds: "gfHolder (gsFile s) = Some p"
    if "gsRunning s p = Some mode" "normalizeInstanceGuard mode = instanceGuardFail" for p mode
    using guard_inv_reachable [OF assms] that strict [OF that(2)] unfolding guard_inv_def by blast
  have alive: "gsRunning s p \<noteq> None" if "gfHolder (gsFile s) = Some p" for p
    using guard_inv_reachable [OF assms] that unfolding guard_inv_def by blast
  show ?thesis using holds alive by (metis option.inject)
qed

definition labGuardEnv :: guard_env where
  "labGuardEnv = \<lparr>geMkdir = True, geOpen = True, geLock = True, geRead = True, geMarshal = \<lambda>_. Some ''{}'',
     geTruncate = True, geSeek = True, geWrite = True, geWritten = [], geUnlock = True, geClose = True\<rparr>"

definition labGuardMeta :: guard_metadata where
  "labGuardMeta = \<lparr>gmPID = 1, gmStartTime = [], gmProfile = [], gmMAC = [], gmHostname = [], gmVersion = []\<rparr>"

definition labGuards :: guard_system where
  "labGuards = \<lparr>gsFile = \<lparr>gfHolder = Some 1, gfText = ''{}'' @ [CHR 0x0A]\<rparr>,
     gsRunning = [1 \<mapsto> ''fail'', 2 \<mapsto> ''warn'']\<rparr>"

lemma lab_modes: "normalizeInstanceGuard ''fail'' = ''fail''" "normalizeInstanceGuard ''warn'' = ''warn''"
  "trim_space ''lock'' = ''lock''"
  by code_simp+

lemma labGuards_reachable: "guard_reachable labGuards"
proof -
  let ?s0 = "\<lparr>gsFile = \<lparr>gfHolder = None, gfText = []\<rparr>, gsRunning = Map.empty\<rparr>"
  let ?f1 = "\<lparr>gfHolder = Some 1, gfText = ''{}'' @ [CHR 0x0A]\<rparr>"
  have 1: "acquireInstanceGuard labGuardEnv ''fail'' ''lock'' 1 labGuardMeta (gsFile ?s0) = (Guarded, ?f1)"
    by (simp add: acquireInstanceGuard_def Let_def lab_modes instanceGuardOff_def openInstanceGuard_def
        writeInstanceGuardMetadata_def labGuardEnv_def)
  have 2: "acquireInstanceGuard labGuardEnv ''warn'' ''lock'' 2 labGuardMeta ?f1 = (Unguarded, ?f1)"
    by (simp add: acquireInstanceGuard_def Let_def lab_modes instanceGuardOff_def instanceGuardWarn_def
        openInstanceGuard_def labGuardEnv_def)
  have "guard_step ?s0 (?s0\<lparr>gsFile := ?f1, gsRunning := (gsRunning ?s0)(1 \<mapsto> ''fail'')\<rparr>)"
    by (rule guard_step.start [OF _ 1]) simp_all
  then have "guard_reachable \<lparr>gsFile = ?f1, gsRunning = [1 \<mapsto> ''fail'']\<rparr>"
    using guard_reachable.step [OF guard_reachable.initial] by simp
  moreover have "guard_step \<lparr>gsFile = ?f1, gsRunning = [1 \<mapsto> ''fail'']\<rparr>
      (\<lparr>gsFile = ?f1, gsRunning = [1 \<mapsto> ''fail'']\<rparr>\<lparr>gsFile := ?f1,
        gsRunning := (gsRunning \<lparr>gsFile = ?f1, gsRunning = [1 \<mapsto> ''fail'']\<rparr>)(2 \<mapsto> ''warn'')\<rparr>)"
    by (rule guard_step.start [where r = Unguarded, OF _ _ disjI2 [OF refl]]) (simp, simp, rule 2 [simplified])
  ultimately show ?thesis unfolding labGuards_def using guard_reachable.step by simp
qed

theorem guard_single_instance_witness:
  "gsRunning labGuards 2 = Some ''warn'' \<and> gfHolder (gsFile labGuards) = Some 1 \<and> gsRunning labGuards 1 \<noteq> None"
  using guard_single_instance [OF labGuards_reachable] lab_modes
  by (auto simp: instanceGuardFail_def labGuards_def)

end
