(* ===== verification/Flag_Values.thy ===== *)
theory Flag_Values
  imports Runtime_Ports Payload_Gateway
begin

text \<open>
  The repeated flags of the daemon (\<open>internal/config/flagvalue/mapping.go\<close>): \<open>Set\<close> parses one value and
  appends it, \<open>String\<close> prints the list. \<open>None\<close> is the error of \<open>Set\<close>, which leaves the list as it was.
\<close>

section \<open>StringList\<close>

definition StringList_String :: "string list \<Rightarrow> string" where
  "StringList_String f = go_join '','' f"

definition StringList_Set :: "string list \<Rightarrow> string \<Rightarrow> string list option" where
  "StringList_Set f v0 =
     (let v = trim_space v0 in if v = [] \<or> go_contains v ''/'' then None else Some (f @ [v]))"

section \<open>BridgeMemberPortMap\<close>

definition BridgeMemberPortMap_String :: "bridge_member_port_map list \<Rightarrow> string" where
  "BridgeMemberPortMap_String f = go_join '','' (map (\<lambda>m. bmMember m @ ''='' @ itoa (bmPort m)) f)"

definition BridgeMemberPortMap_Set :: "bridge_member_port_map list \<Rightarrow> string \<Rightarrow> bridge_member_port_map list option" where
  "BridgeMemberPortMap_Set f v =
     (case go_cut CHR ''='' (trim_space v) of
        None \<Rightarrow> None
      | Some (member0, portText) \<Rightarrow>
          (case parse_int64 (trim_space portText) of
             ParsedInt port \<Rightarrow>
               (let member = trim_space member0 in
                if port < 1 \<or> member = [] \<or> go_contains member ''/'' then None
                else Some (f @ [\<lparr>bmMember = member, bmPort = port\<rparr>]))
           | _ \<Rightarrow> None))"

section \<open>PortMapping\<close>

definition go_bool :: "bool \<Rightarrow> string" where
  "go_bool b = (if b then ''true'' else ''false'')"

definition PortMapping_String :: "port_mapping list \<Rightarrow> string" where
  "PortMapping_String f = go_join '';'' (map (\<lambda>m.
     ''port='' @ itoa (pmPort m) @ '',interface='' @ pmInterface m @ '',disabled='' @ go_bool (pmDisabled m) @
     '',unmapped='' @ go_bool (pmUnmapped m)) f)"

definition parseCommaKeyValues :: "string \<Rightarrow> string \<Rightarrow> string option" where
  "parseCommaKeyValues v =
     foldl (\<lambda>out field.
       (case go_cut CHR ''='' (trim_space field) of
          None \<Rightarrow> out
        | Some (key, fieldValue) \<Rightarrow> out(to_lower (trim_space key) \<mapsto> trim_space fieldValue)))
       Map.empty (go_split CHR '','' v)"

text \<open>A missing key of the Go map is the empty string.\<close>

definition key_value :: "(string \<Rightarrow> string option) \<Rightarrow> string \<Rightarrow> string" where
  "key_value m key = (case m key of Some v \<Rightarrow> v | None \<Rightarrow> [])"

definition parseBoolField :: "string \<Rightarrow> bool" where
  "parseBoolField v = (to_lower (trim_space v) \<in> {''1'', ''true'', ''yes'', ''on''})"

definition PortMapping_Set :: "port_mapping list \<Rightarrow> string \<Rightarrow> port_mapping list option" where
  "PortMapping_Set f v =
     (let m = parseCommaKeyValues v in
      case parse_int64 (key_value m ''port'') of
        ParsedInt port \<Rightarrow>
          (if port < 1 then None
           else Some (f @ [\<lparr>pmPort = port, pmInterface = trim_space (key_value m ''interface''),
                           pmDisabled = parseBoolField (key_value m ''disabled''),
                           pmUnmapped = parseBoolField (key_value m ''unmapped'')\<rparr>]))
      | _ \<Rightarrow> None)"

section \<open>What a flag adds\<close>

text \<open>An accepted value appends one entry that is usable: a name without a slash, a positive port.\<close>

lemma StringList_Set_sound:
  "StringList_Set f v = Some g \<Longrightarrow> \<exists>w. g = f @ [w] \<and> w \<noteq> [] \<and> trim_space w = w \<and> \<not> go_contains w ''/''"
  by (auto simp: StringList_Set_def Let_def split: if_splits)

lemma BridgeMemberPortMap_Set_sound:
  "BridgeMemberPortMap_Set f v = Some g \<Longrightarrow>
     \<exists>m. g = f @ [m] \<and> 1 \<le> bmPort m \<and> bmMember m \<noteq> [] \<and> trim_space (bmMember m) = bmMember m"
  by (auto simp: BridgeMemberPortMap_Set_def Let_def split: option.splits prod.splits parse_int_result.splits if_splits)

lemma PortMapping_Set_sound:
  "PortMapping_Set f v = Some g \<Longrightarrow> \<exists>m. g = f @ [m] \<and> 1 \<le> pmPort m \<and> trim_space (pmInterface m) = pmInterface m"
  by (auto simp: PortMapping_Set_def Let_def split: parse_int_result.splits if_splits)

section \<open>A printed entry is read back\<close>

lemma space_len_prefix:
  "space_len p = 0 \<Longrightarrow> p \<noteq> [] \<Longrightarrow> q \<noteq> [] \<Longrightarrow> ord (hd q) < 128 \<Longrightarrow> space_len (p @ q) = 0"
  by (cases p rule: space_len.cases; cases q; cases "tl q")
    (auto simp: space2_def space3_def split: if_splits)

lemma digit_end: "is_digit c \<Longrightarrow> space_len_rev (c # r) = 0"
  by (cases "c # r" rule: space_len_rev.cases)
    (auto simp: is_digit_def is_ascii_space_def space2_def space3_def)

lemma digit_start: "is_digit c \<Longrightarrow> space_len (c # r) = 0"
  by (cases "c # r" rule: space_len.cases)
    (auto simp: is_digit_def is_ascii_space_def space2_def space3_def)

lemma itoa_positive: "1 \<le> n \<Longrightarrow> itoa n = nat_itoa (nat n)"
  by (simp add: itoa_def)

lemma digits_ends:
  assumes "list_all is_digit ds" "ds \<noteq> []"
  shows "space_len ds = 0" "space_len_rev (rev (p @ ds)) = 0"
proof -
  obtain c r where "ds = c # r" using assms(2) by (cases ds) auto
  then show "space_len ds = 0" using assms(1) digit_start by simp
  obtain r' c' where "ds = r' @ [c']" using assms(2) by (cases ds rule: rev_cases) auto
  then show "space_len_rev (rev (p @ ds)) = 0" using assms(1) digit_end by simp
qed

lemma parse_itoa:
  assumes "1 \<le> n" "n \<le> MaxInt64"
  shows "parse_int64 (itoa n) = ParsedInt n"
proof -
  have d: "list_all is_digit (nat_itoa (nat n))" "nat_itoa (nat n) \<noteq> []" by (rule nat_itoa_digits)+
  obtain c r where c: "nat_itoa (nat n) = c # r" using d(2) by (cases "nat_itoa (nat n)") auto
  then have "c \<noteq> CHR ''-''" "c \<noteq> CHR ''+''" using d(1) by (auto simp: is_digit_def)
  then show ?thesis
    using assms d c digits_value_itoa [of "nat n"]
    by (simp add: parse_int64_def itoa_positive Let_def MinInt64_def)
qed

lemma go_cut_first: "sep \<notin> set p \<Longrightarrow> go_cut sep (p @ sep # r) = Some (p, r)"
  by (induction p) auto

lemma BridgeMemberPortMap_roundtrip:
  assumes "bmMember m \<noteq> []" "trim_space (bmMember m) = bmMember m" "1 \<le> bmPort m" "bmPort m \<le> MaxInt64"
    and "CHR ''='' \<notin> set (bmMember m)" "\<not> go_contains (bmMember m) ''/''"
  shows "BridgeMemberPortMap_Set f (BridgeMemberPortMap_String [m]) = Some (f @ [m])"
proof -
  let ?d = "nat_itoa (nat (bmPort m))" and ?t = "bmMember m @ CHR ''='' # itoa (bmPort m)"
  have d: "list_all is_digit ?d" "?d \<noteq> []" by (rule nat_itoa_digits)+
  have "space_len ?t = 0"
    using assms(1,2) space_len_prefix [of "bmMember m" "CHR ''='' # itoa (bmPort m)"] by (simp add: trim_space_eq_iff)
  moreover have "space_len_rev (rev ?t) = 0"
    using digits_ends(2) [OF d, of "bmMember m @ [CHR ''='']"] assms(3) by (simp add: itoa_positive)
  ultimately have t: "trim_space ?t = ?t" by (simp add: trim_space_eq_iff)
  have p: "trim_space (itoa (bmPort m)) = itoa (bmPort m)"
    using digits_ends(1) [OF d] digits_ends(2) [OF d, of "[]"] assms(3) by (simp add: trim_space_eq_iff itoa_positive)
  have "BridgeMemberPortMap_String [m] = ?t" by (simp add: BridgeMemberPortMap_String_def)
  then show ?thesis
    using assms p by (simp add: BridgeMemberPortMap_Set_def t go_cut_first parse_itoa)
qed

end
