(* ===== verification/Go_Any.thy ===== *)
theory Go_Any
  imports Traffic_Rates
begin

text \<open>
  Go's \<open>any\<close> after \<open>json.Unmarshal\<close>: numbers are \<open>float64\<close> values, an object is the list of its members in
  some order, without repeated names. Shared by the readers of documents whose shape is not known.
\<close>

datatype json_any =
    JAnyNull
  | JAnyBool bool
  | JAnyNumber rat
  | JAnyText string
  | JAnyArray "json_any list"
  | JAnyObject "(string \<times> json_any) list"

type_synonym json_object = "(string \<times> json_any) list"

fun is_object :: "json_any \<Rightarrow> bool" where
  "is_object (JAnyObject m) = True"
| "is_object _ = False"

text \<open>The first non-empty result over a list of keys, the loop of several readers.\<close>

fun first_nonempty :: "('k \<Rightarrow> 'b list) \<Rightarrow> 'k list \<Rightarrow> 'b list" where
  "first_nonempty f [] = []"
| "first_nonempty f (k # ks) = (if f k \<noteq> [] then f k else first_nonempty f ks)"

lemma first_nonempty_cong [fundef_cong]:
  "ks = ks' \<Longrightarrow> (\<And>k. k \<in> set ks' \<Longrightarrow> f k = g k) \<Longrightarrow> first_nonempty f ks = first_nonempty g ks'"
  by (induction ks' arbitrary: ks) auto

lemma json_member_size: "map_of m key = Some nested \<Longrightarrow> size nested < size (JAnyObject m)"
proof -
  assume "map_of m key = Some nested"
  then have "(key, nested) \<in> set m" by (rule map_of_SomeD)
  then have "size nested < size_list (size_prod (\<lambda>_. 0) size) m"
    by (induction m) (auto simp: less_Suc_eq_le)
  then show ?thesis by simp
qed

end
