(* ===== verification/Lldp_Source.thy ===== *)
theory Lldp_Source
  imports Go_Any Runtime_Ports
begin

text \<open>
  Passive LLDP neighbours (\<open>internal/platform/lldp.go\<close>): the JSON that \<open>lldpcli\<close> prints becomes a list of
  neighbours. The output of the command is an argument, \<open>None\<close> when it fails; \<open>unmarshal\<close> is the JSON
  library, \<open>sprint\<close> the text that \<open>fmt.Sprint\<close> gives a number or an array. Where the code ranges over a map,
  \<open>order\<close> is the order in which it meets the members.
\<close>

section \<open>Fields\<close>

definition objectValue :: "json_object \<Rightarrow> string \<Rightarrow> json_object option" where
  "objectValue values key = (case map_of values key of Some (JAnyObject m) \<Rightarrow> Some m | _ \<Rightarrow> None)"

text \<open>A missing member and a null are nil, \<open>None\<close> here.\<close>

function scalarString :: "(json_any \<Rightarrow> string) \<Rightarrow> json_any option \<Rightarrow> string" where
  "scalarString sprint None = []"
| "scalarString sprint (Some JAnyNull) = []"
| "scalarString sprint (Some (JAnyText t)) = trim_space t"
| "scalarString sprint (Some (JAnyObject m)) = scalarString sprint (map_of m ''value'')"
| "scalarString sprint (Some (JAnyBool b)) = (if b then ''true'' else ''false'')"
| "scalarString sprint (Some (JAnyNumber n)) = trim_space (sprint (JAnyNumber n))"
| "scalarString sprint (Some (JAnyArray items)) = trim_space (sprint (JAnyArray items))"
  by pat_completeness auto
termination
proof (relation "measure (\<lambda>(sprint, v). case v of None \<Rightarrow> 0 | Some x \<Rightarrow> Suc (size x))", goal_cases)
  case (2 sprint m)
  then show ?case using json_member_size [of m "''value''"] by (auto split: option.split)
qed simp

definition firstValueByKeys :: "(json_any \<Rightarrow> string) \<Rightarrow> json_object \<Rightarrow> string list \<Rightarrow> string" where
  "firstValueByKeys sprint values =
     first_nonempty (\<lambda>key.
       let v = scalarString sprint (map_of values key) in
       if v \<noteq> [] then v
       else case objectValue values key of
         Some object \<Rightarrow> scalarString sprint (map_of object ''value'')
       | None \<Rightarrow> [])"

definition capabilityText :: "(json_any \<Rightarrow> string) \<Rightarrow> json_any \<Rightarrow> string" where
  "capabilityText sprint item =
     (let t = scalarString sprint (Some item) in
      if t \<noteq> [] then t
      else case item of JAnyObject object \<Rightarrow> firstValueByKeys sprint object [''type'', ''value''] | _ \<Rightarrow> [])"

definition valuesByKey :: "(json_any \<Rightarrow> string) \<Rightarrow> json_object \<Rightarrow> string \<Rightarrow> string list" where
  "valuesByKey sprint values key =
     (case map_of values key of
        None \<Rightarrow> []
      | Some (JAnyArray items) \<Rightarrow> filter (\<lambda>t. t \<noteq> []) (map (capabilityText sprint) items)
      | Some v \<Rightarrow> filter (\<lambda>t. t \<noteq> []) [scalarString sprint (Some v)])"

definition looksLikeLeaf :: "json_object \<Rightarrow> bool" where
  "looksLikeLeaf values =
     list_ex (\<lambda>key. map_of values key \<noteq> None) [''id'', ''value'', ''name'', ''descr'', ''mgmt-ip'', ''capability'']"

definition firstNestedObject :: "(json_object \<Rightarrow> json_object) \<Rightarrow> json_object \<Rightarrow> string \<Rightarrow> json_object option" where
  "firstNestedObject order values key =
     (case objectValue values key of
        None \<Rightarrow> None
      | Some container \<Rightarrow>
          if looksLikeLeaf container then Some container
          else case find (\<lambda>(_, v). is_object v) (order container) of
            Some (_, JAnyObject object) \<Rightarrow> Some object
          | _ \<Rightarrow> Some container)"

definition normalizeObjectList :: "json_any \<Rightarrow> json_object list" where
  "normalizeObjectList v =
     (case v of
        JAnyObject m \<Rightarrow> [m]
      | JAnyArray items \<Rightarrow> List.map_filter (\<lambda>item. case item of JAnyObject m \<Rightarrow> Some m | _ \<Rightarrow> None) items
      | _ \<Rightarrow> [])"

text \<open>\<open>strings.FieldsFunc\<close> of \<open>firstMAC\<close>; an empty field does not parse, so keeping it changes nothing.\<close>

fun mac_fields :: "string \<Rightarrow> string list" where
  "mac_fields [] = [[]]"
| "mac_fields (c # cs) =
     (if c \<in> set '' ,;'' then [] # mac_fields cs
      else case mac_fields cs of [] \<Rightarrow> [[c]] | f # fs \<Rightarrow> (c # f) # fs)"

definition macOfField :: "string \<Rightarrow> string" where
  "macOfField field =
     (case ParseMAC (trim_prefix (trim_space field) ''mac:'') of Some mac \<Rightarrow> mac_string mac | None \<Rightarrow> [])"

definition firstMAC :: "string list \<Rightarrow> string" where
  "firstMAC values = first_nonempty (\<lambda>v. first_nonempty macOfField (mac_fields v)) values"

section \<open>Neighbours\<close>

definition parseLLDPInterface ::
  "(json_object \<Rightarrow> json_object) \<Rightarrow> (json_any \<Rightarrow> string) \<Rightarrow> string \<Rightarrow> json_object \<Rightarrow> lldp_neighbor" where
  "parseLLDPInterface order sprint iface raw =
     (let n0 = \<lparr>llInterface = trim_space iface, llChassisID = [], llChassisMAC = [], llSystemName = [],
                llPortID = [], llPortDescription = [], llCapabilities = [], llManagementIP = []\<rparr>;
          n1 = (case firstNestedObject order raw ''chassis'' of
                  None \<Rightarrow> n0
                | Some chassis \<Rightarrow>
                    (let chassisID = firstValueByKeys sprint chassis [''id'', ''chassis-id''] in
                     n0\<lparr>llChassisID := chassisID,
                        llChassisMAC := firstMAC [chassisID, firstValueByKeys sprint chassis [''mac'']],
                        llSystemName := firstValueByKeys sprint chassis [''name'', ''sysname'', ''system-name''],
                        llManagementIP := firstValueByKeys sprint chassis [''mgmt-ip'', ''mgmt_ip'', ''management-ip''],
                        llCapabilities := valuesByKey sprint chassis ''capability''\<rparr>));
          n2 = (case firstNestedObject order raw ''port'' of
                  None \<Rightarrow> n1
                | Some port \<Rightarrow>
                    n1\<lparr>llPortID := firstValueByKeys sprint port [''id'', ''port-id'', ''ifname''],
                       llPortDescription := firstValueByKeys sprint port [''descr'', ''description'', ''port-description'']\<rparr>)
      in if llChassisMAC n2 = []
         then n2\<lparr>llChassisMAC := firstMAC [firstValueByKeys sprint raw [''chassis'', ''chassis-id'', ''chassis_id'']]\<rparr>
         else n2)"

datatype lldp_error = LLDPJson | LLDPRoot | LLDPUnsupported string | LLDPCommand

definition ParseLLDPCLIJSON ::
  "(string \<Rightarrow> json_any option) \<Rightarrow> (json_object \<Rightarrow> json_object) \<Rightarrow> (json_any \<Rightarrow> string) \<Rightarrow> string \<Rightarrow>
     lldp_error + lldp_neighbor list" where
  "ParseLLDPCLIJSON unmarshal order sprint data =
     (case unmarshal data of
        None \<Rightarrow> Inl LLDPJson
      | Some (JAnyObject document) \<Rightarrow>
          (let lldpRoot = (case objectValue document ''lldp'' of Some m \<Rightarrow> m | None \<Rightarrow> document) in
           case objectValue lldpRoot ''interface'' of
             None \<Rightarrow> Inr []
           | Some interfaces \<Rightarrow>
               Inr (filter (\<lambda>n. llInterface n \<noteq> [])
                 (concat (map (\<lambda>(iface, v). map (parseLLDPInterface order sprint iface) (normalizeObjectList v))
                    (order interfaces)))))
      | Some _ \<Rightarrow> Inl LLDPRoot)"

definition platform_normalizedSource :: "string \<Rightarrow> string" where
  "platform_normalizedSource v = (let s = to_lower (trim_space v) in if s = [] then ''off'' else s)"

text \<open>\<open>LLDP\<close>: the neighbours and the warnings.\<close>

definition platform_LLDP ::
  "(string \<Rightarrow> json_any option) \<Rightarrow> (json_object \<Rightarrow> json_object) \<Rightarrow> (json_any \<Rightarrow> string) \<Rightarrow> string option \<Rightarrow> string \<Rightarrow>
     lldp_neighbor list \<times> lldp_error list" where
  "platform_LLDP unmarshal order sprint output source0 =
     (let source = platform_normalizedSource source0 in
      if source = ''off'' then ([], [])
      else if source \<noteq> ''lldpd'' then ([], [LLDPUnsupported source])
      else case output of
        None \<Rightarrow> ([], [LLDPCommand])
      | Some out \<Rightarrow>
          (case ParseLLDPCLIJSON unmarshal order sprint out of
             Inl e \<Rightarrow> ([], [e])
           | Inr neighbors \<Rightarrow> (neighbors, [])))"

text \<open>The LLDP source of \<open>Runtime_Ports\<close> on a host whose \<open>lldpcli\<close> prints \<open>output\<close>.\<close>

definition lldpRuntime ::
  "(string \<Rightarrow> json_any option) \<Rightarrow> (json_object \<Rightarrow> json_object) \<Rightarrow> (json_any \<Rightarrow> string) \<Rightarrow> string option \<Rightarrow>
     runtime_env \<Rightarrow> runtime_env" where
  "lldpRuntime unmarshal order sprint output env =
     env\<lparr>reLLDP := \<lambda>source. fst (platform_LLDP unmarshal order sprint output source)\<rparr>"

section \<open>What a neighbour can contain\<close>

definition mac_text :: "string \<Rightarrow> bool" where
  "mac_text t \<longleftrightarrow> t = [] \<or> (\<exists>mac field. t = mac_string mac \<and> ParseMAC field = Some mac)"

lemma first_nonempty_all: "(\<And>k. P (f k)) \<Longrightarrow> P [] \<Longrightarrow> P (first_nonempty f ks)"
  by (induction ks) simp_all

lemma mac_text_field: "mac_text (macOfField field)"
  by (auto simp: macOfField_def mac_text_def split: option.split)

lemma firstMAC_text: "mac_text (firstMAC values)"
proof -
  have n: "mac_text []" by (simp add: mac_text_def)
  have "mac_text (first_nonempty macOfField (mac_fields v))" for v
    by (rule first_nonempty_all [where P = mac_text, OF mac_text_field n])
  then show ?thesis unfolding firstMAC_def by (rule first_nonempty_all [where P = mac_text, OF _ n])
qed

lemma parseLLDPInterface_fields:
  "llInterface (parseLLDPInterface order sprint iface raw) = trim_space iface"
  "mac_text (llChassisMAC (parseLLDPInterface order sprint iface raw))"
  by (simp_all add: parseLLDPInterface_def Let_def firstMAC_text split: option.split)

text \<open>Every neighbour names the interface it was seen on, and its chassis MAC is empty or the canonical text
  of an address found in the output.\<close>

definition sound_neighbor :: "lldp_neighbor \<Rightarrow> bool" where
  "sound_neighbor n \<longleftrightarrow> llInterface n \<noteq> [] \<and> trim_space (llInterface n) = llInterface n \<and> mac_text (llChassisMAC n)"

lemma parsed_neighbor_sound:
  "llInterface (parseLLDPInterface order sprint iface raw) \<noteq> [] \<Longrightarrow>
     sound_neighbor (parseLLDPInterface order sprint iface raw)"
  by (simp add: sound_neighbor_def parseLLDPInterface_fields)

lemma ParseLLDPCLIJSON_sound:
  assumes "ParseLLDPCLIJSON unmarshal order sprint data = Inr neighbors"
  shows "list_all sound_neighbor neighbors"
proof (cases "unmarshal data")
  case None
  then show ?thesis using assms by (simp add: ParseLLDPCLIJSON_def)
next
  case (Some raw)
  obtain m where raw: "raw = JAnyObject m" using assms Some by (cases raw) (simp_all add: ParseLLDPCLIJSON_def)
  let ?top = "case objectValue m ''lldp'' of Some t \<Rightarrow> t | None \<Rightarrow> m"
  show ?thesis
  proof (cases "objectValue ?top ''interface''")
    case None
    then show ?thesis using assms Some raw by (simp add: ParseLLDPCLIJSON_def Let_def)
  next
    case (Some interfaces)
    then have "neighbors = filter (\<lambda>n. llInterface n \<noteq> [])
        (concat (map (\<lambda>(iface, v). map (parseLLDPInterface order sprint iface) (normalizeObjectList v))
          (order interfaces)))"
      using assms \<open>unmarshal data = Some raw\<close> raw by (simp add: ParseLLDPCLIJSON_def Let_def)
    then show ?thesis using parsed_neighbor_sound by (auto simp: list_all_iff)
  qed
qed

end
