(* ===== verification/Wan_Probe.thy ===== *)
theory Wan_Probe
  imports Runtime_Ports Traffic_Rates
begin

text \<open>
  The WAN health probes, \<open>internal/observe/wanhealth\<close>: running \<open>ping\<close> for every target, reading the latency
  from what it prints, and the sample that is reported. The run of the command is an argument. The two
  regular expressions of \<open>latency.go\<close> are written out as scanners: after a number only a slash, a space
  or the unit can follow, so greedy matching never has to give a character back. Floating point is that
  of \<open>Traffic_Rates\<close>.
\<close>

section \<open>Reading a latency (latency.go)\<close>

definition regexp_word :: "char \<Rightarrow> bool" where
  "regexp_word c \<longleftrightarrow> is_digit c \<or> (65 \<le> ord c \<and> ord c \<le> 90) \<or> (97 \<le> ord c \<and> ord c \<le> 122) \<or> c = CHR ''_''"

definition regexp_space :: "char \<Rightarrow> bool" where
  "regexp_space c \<longleftrightarrow> c \<in> {CHR 0x09, CHR 0x0A, CHR 0x0C, CHR 0x0D, CHR '' ''}"

text \<open>\<open>[0-9]+(?:\.[0-9]+)?\<close>: the number and the rest.\<close>

definition match_number :: "string \<Rightarrow> (string \<times> string) option" where
  "match_number s =
     (let digits = takeWhile is_digit s; rest = dropWhile is_digit s in
      if digits = [] then None
      else if rest \<noteq> [] \<and> hd rest = CHR ''.'' \<and> takeWhile is_digit (tl rest) \<noteq> []
      then Some (digits @ ''.'' @ takeWhile is_digit (tl rest), dropWhile is_digit (tl rest))
      else Some (digits, rest))"

text \<open>\<open>\s*ms\b\<close>.\<close>

definition match_unit :: "string \<Rightarrow> bool" where
  "match_unit s =
     (let r = dropWhile regexp_space s in
      to_lower (take 2 r) = ''ms'' \<and> (drop 2 r = [] \<or> \<not> regexp_word (hd (drop 2 r))))"

definition match_slash :: "string \<Rightarrow> string option" where
  "match_slash s = (if s \<noteq> [] \<and> hd s = CHR ''/'' then Some (tl s) else None)"

text \<open>The submatch of \<open>latencyPattern\<close> at a position that follows the character \<open>prev\<close>.\<close>

definition latency_here :: "char option \<Rightarrow> string \<Rightarrow> string option" where
  "latency_here prev s =
     (if (case prev of Some c \<Rightarrow> regexp_word c | None \<Rightarrow> False) then None
      else if to_lower (take 4 s) \<noteq> ''time'' then None
      else case drop 4 s of
        [] \<Rightarrow> None
      | c # r \<Rightarrow>
          if c \<noteq> CHR ''='' \<and> c \<noteq> CHR ''<'' then None
          else (case match_number r of
                  Some (number, rest) \<Rightarrow> if match_unit rest then Some number else None
                | None \<Rightarrow> None))"

text \<open>The submatch of \<open>summaryPattern\<close>: the second of four numbers.\<close>

definition number_slash :: "string \<Rightarrow> (string \<times> string) option" where
  "number_slash s =
     (case match_number s of
        None \<Rightarrow> None
      | Some (number, rest) \<Rightarrow> map_option (Pair number) (match_slash rest))"

definition summary_here :: "string \<Rightarrow> string option" where
  "summary_here s =
     (if s = [] \<or> hd s \<noteq> CHR ''='' then None
      else case number_slash (dropWhile regexp_space (tl s)) of
        None \<Rightarrow> None
      | Some (_, r1) \<Rightarrow>
          (case number_slash r1 of
             None \<Rightarrow> None
           | Some (average, r2) \<Rightarrow>
               (case number_slash r2 of
                  None \<Rightarrow> None
                | Some (_, r3) \<Rightarrow>
                    (case match_number r3 of
                       None \<Rightarrow> None
                     | Some (_, r4) \<Rightarrow> if match_unit r4 then Some average else None))))"

fun find_latency :: "char option \<Rightarrow> string \<Rightarrow> string option" where
  "find_latency prev [] = None"
| "find_latency prev (c # cs) =
     (case latency_here prev (c # cs) of Some n \<Rightarrow> Some n | None \<Rightarrow> find_latency (Some c) cs)"

fun find_summary :: "string \<Rightarrow> string option" where
  "find_summary [] = None"
| "find_summary (c # cs) = (case summary_here (c # cs) of Some n \<Rightarrow> Some n | None \<Rightarrow> find_summary cs)"

text \<open>\<open>strconv.ParseFloat\<close> of such a number: \<open>None\<close> when it overflows, 0 when it underflows.\<close>

definition number_value :: "string \<Rightarrow> rat" where
  "number_value s =
     (case go_cut CHR ''.'' s of
        None \<Rightarrow> of_nat (digits_value s)
      | Some (whole, decimals) \<Rightarrow> of_nat (digits_value (whole @ decimals)) / 10 ^ List.length decimals)"

definition parse_float_number :: "string \<Rightarrow> rat option" where
  "parse_float_number s =
     (let v = (if number_value s \<le> pow2 (- 1075) then 0 else round_f64 (number_value s))
      in if pow2 1024 \<le> v then None else Some v)"

text \<open>\<open>math.Round\<close>, half away from zero, on a number that is not negative.\<close>

definition math_round :: "rat \<Rightarrow> int" where
  "math_round x = floor (x + 1 / 2)"

definition parseLatencyValue :: "(rat \<Rightarrow> int) \<Rightarrow> string \<Rightarrow> int option" where
  "parseLatencyValue outOfRange v =
     (case parse_float_number v of
        None \<Rightarrow> None
      | Some ms \<Rightarrow>
          (let rounded = f64_to_int64 outOfRange (of_int (math_round ms))
           in Some (if rounded < 1 \<and> ms > 0 then 1 else rounded)))"

definition parseLatencyMS :: "(rat \<Rightarrow> int) \<Rightarrow> string \<Rightarrow> int option" where
  "parseLatencyMS outOfRange output =
     (case find_latency None output of
        Some v \<Rightarrow> parseLatencyValue outOfRange v
      | None \<Rightarrow>
          (case find_summary output of
             Some v \<Rightarrow> parseLatencyValue outOfRange v
           | None \<Rightarrow> None))"

definition durationMS :: "int \<Rightarrow> int" where
  "durationMS d =
     (let q = round_f64 (round_f64 (of_int d) / 1000000);
          ms = (if q < 0 then - math_round (- q) else math_round q)
      in if ms < 1 then 1 else ms)"

definition downtimeSeconds :: "int \<Rightarrow> int \<Rightarrow> int" where
  "downtimeSeconds interval timeout =
     (let seconds = ceiling (duration_seconds (if interval \<le> 0 then timeout else interval))
      in if seconds < 1 then 1 else seconds)"

section \<open>The command (runner.go, errors.go)\<close>

text \<open>A run of \<open>ping\<close>: its output, the time it took in nanoseconds, the error of the expired context and the
  error of the command.\<close>

record ping_run =
  pgOutput :: string
  pgElapsed :: int
  pgExpired :: "string option"
  pgFailed :: "string option"

definition firstNonEmptyLine :: "string \<Rightarrow> string" where
  "firstNonEmptyLine v =
     (case filter (\<lambda>l. l \<noteq> []) (map trim_space (go_split CHR 0x0A v)) of [] \<Rightarrow> [] | l # _ \<Rightarrow> l)"

definition ping_error :: "ping_run \<Rightarrow> string option" where
  "ping_error run =
     (case pgExpired run of
        Some e \<Rightarrow> Some (''ping timeout: '' @ e)
      | None \<Rightarrow>
          (case pgFailed run of
             None \<Rightarrow> None
           | Some e \<Rightarrow>
               (let message = firstNonEmptyLine (pgOutput run)
                in Some (if message \<noteq> [] then e @ '': '' @ message else ''run ping: '' @ e))))"

definition maxErrorLength :: nat where "maxErrorLength = 180"

definition sanitizeError :: "string \<Rightarrow> string" where
  "sanitizeError err =
     (if trim_space err = [] then ''ping failed''
      else let message = go_join '' '' (go_fields (trim_space err)) in
        if List.length message > maxErrorLength then trim_space (take maxErrorLength message) @ ''...'' else message)"

section \<open>Measuring (types.go, measure.go)\<close>

record probe_config =
  pcSource :: string
  pcInterval :: int
  pcTimeout :: int
  pcTargets :: "wan_health_target list"

record probe_result =
  prPort :: int
  prHost :: string
  prConnected :: bool
  prLatencyMS :: int
  prDowntimeSeconds :: int
  prUptimePercent :: go_float
  prLastError :: string

definition positiveDuration :: "int \<Rightarrow> int \<Rightarrow> int" where
  "positiveDuration v fallback = (if v > 0 then v else fallback)"

definition failedProbe :: "int \<Rightarrow> int \<Rightarrow> int \<Rightarrow> string \<Rightarrow> string \<Rightarrow> probe_result" where
  "failedProbe interval timeout port host err =
     \<lparr>prPort = port, prHost = host, prConnected = False, prLatencyMS = 0,
      prDowntimeSeconds = downtimeSeconds interval timeout, prUptimePercent = Fin 0, prLastError = err\<rparr>"

definition measureTarget ::
  "(rat \<Rightarrow> int) \<Rightarrow> (int \<Rightarrow> string \<Rightarrow> ping_run) \<Rightarrow> int \<Rightarrow> int \<Rightarrow> wan_health_target \<Rightarrow> probe_result" where
  "measureTarget outOfRange ping interval timeout target =
     (let host = trim_space (wtHost target) in
      if wtPort target < 1 then failedProbe interval timeout (wtPort target) host ''invalid port''
      else if host = [] then failedProbe interval timeout (wtPort target) host ''host is required''
      else let run = ping timeout host in
        case ping_error run of
          Some e \<Rightarrow> failedProbe interval timeout (wtPort target) host (sanitizeError e)
        | None \<Rightarrow>
            \<lparr>prPort = wtPort target, prHost = host, prConnected = True,
             prLatencyMS = (case parseLatencyMS outOfRange (pgOutput run) of
                              Some latency \<Rightarrow> latency | None \<Rightarrow> durationMS (pgElapsed run)),
             prDowntimeSeconds = 0, prUptimePercent = Fin 100, prLastError = []\<rparr>)"

definition Measure :: "(rat \<Rightarrow> int) \<Rightarrow> (int \<Rightarrow> string \<Rightarrow> ping_run) \<Rightarrow> probe_config \<Rightarrow> probe_result list" where
  "Measure outOfRange ping cfg =
     (if NormalizeSource (pcSource cfg) \<noteq> ''ping'' \<or> pcTargets cfg = [] then []
      else map (measureTarget outOfRange ping
             (positiveDuration (pcInterval cfg) 10000000000) (positiveDuration (pcTimeout cfg) 1000000000))
           (pcTargets cfg))"

section \<open>From configuration to the ports (cmd/unifi-stubd/wan_health.go)\<close>

definition probeConfig :: "wan_health_config \<Rightarrow> wan_health_target list \<Rightarrow> probe_config" where
  "probeConfig cfg targets =
     \<lparr>pcSource = NormalizeSource (wcSource cfg),
      pcInterval = wrap64 (wcIntervalSeconds cfg * 1000000000),
      pcTimeout = wrap64 (wcTimeoutMS cfg * 1000000), pcTargets = targets\<rparr>"

definition deviceHealthResults :: "probe_result list \<Rightarrow> wan_health_result list" where
  "deviceHealthResults results =
     map (\<lambda>r. \<lparr>whPort = prPort r, whConnected = prConnected r, whLatencyMS = prLatencyMS r,
               whDowntimeSeconds = prDowntimeSeconds r, whUptimePercent = prUptimePercent r\<rparr>) results"

text \<open>The measurement that \<open>Runtime_Ports\<close> takes as an argument, on a host with this \<open>ping\<close>.\<close>

definition probeRuntime ::
  "(rat \<Rightarrow> int) \<Rightarrow> (int \<Rightarrow> string \<Rightarrow> ping_run) \<Rightarrow> wan_health_config \<Rightarrow> runtime_env \<Rightarrow> runtime_env" where
  "probeRuntime outOfRange ping cfg env =
     env\<lparr>reMeasure := \<lambda>targets. deviceHealthResults (Measure outOfRange ping (probeConfig cfg targets))\<rparr>"

section \<open>What a sample says\<close>

lemma sanitizeError_bounded: "sanitizeError e \<noteq> [] \<Longrightarrow> List.length (sanitizeError e) \<le> maxErrorLength + 3"
  using length_trim_space [of "take maxErrorLength (go_join '' '' (go_fields (trim_space e)))"]
  by (simp add: sanitizeError_def Let_def maxErrorLength_def split: if_splits)

text \<open>A sample is either up, with no downtime and full availability, or down, with at least a second of
  downtime and no latency: never a mixture.\<close>

lemma measured_consistent:
  "if prConnected (measureTarget oor ping i t target)
   then prDowntimeSeconds (measureTarget oor ping i t target) = 0 \<and>
     prUptimePercent (measureTarget oor ping i t target) = Fin 100 \<and> prLastError (measureTarget oor ping i t target) = []
   else 1 \<le> prDowntimeSeconds (measureTarget oor ping i t target) \<and>
     prUptimePercent (measureTarget oor ping i t target) = Fin 0 \<and> prLatencyMS (measureTarget oor ping i t target) = 0"
  by (simp add: measureTarget_def failedProbe_def downtimeSeconds_def Let_def split: option.split)

lemma parsed_latency_bounds:
  assumes "parse_float_number v = Some ms" "0 \<le> ms" "ms < 2 ^ 62"
  shows "\<exists>l. parseLatencyValue oor v = Some l \<and> 0 \<le> l \<and> (0 < ms \<longrightarrow> 1 \<le> l)"
proof -
  have a: "0 \<le> math_round ms" using assms(2) by (simp add: math_round_def)
  have "ms + 1 / 2 < of_int (2 ^ 62 + 1)" using assms(3) by simp
  then have "math_round ms < 2 ^ 62 + 1" unfolding math_round_def floor_less_iff .
  then have "int64_range (math_round ms)" using a by (simp add: int64_range_def MinInt64_def MaxInt64_def)
  then have "f64_to_int64 oor (of_int (math_round ms)) = math_round ms" using a by (simp add: f64_to_int64_def Let_def)
  then show ?thesis using assms(1) a by (auto simp: parseLatencyValue_def Let_def)
qed

lemma ping_reply_parsed:
  "find_latency None ''64 bytes from 192.0.2.1: icmp_seq=1 ttl=57 time=12.3 ms'' = Some ''12.3''"
  "find_summary ''rtt min/avg/max/mdev = 0.4/1.5/2.6/0.1 ms'' = Some ''1.5''"
  by code_simp+

end
