(* ===== verification/Opnsense_Mapper.thy ===== *)
theory Opnsense_Mapper
  imports Go_Any Settings Payload_Gateway "HOL-Library.AList"
begin

text \<open>
  The OPNsense companion (\<open>internal/opnsense\<close>, \<open>cmd/unifi-stubd-opnsense\<close>): it reads the interface and
  gateway tables of an OPNsense host over its API, maps them to port overrides under the operator's
  source file and lays the operator's own configuration over them.

  A decoded JSON document is a value of \<open>json_any\<close> (\<open>Go_Any\<close>). The order in which Go ranges over a map is
  not defined; where a result could depend on it, the order is an argument (\<open>order\<close>) that may permute the list in any way. Reading files, the environment and the YAML
  library are arguments.
\<close>

section \<open>Texts and numbers (mapper.go)\<close>

text \<open>\<open>strings.FieldsFunc\<close> with the predicate of \<open>firstNumber\<close>: the maximal runs of decimal digits.\<close>

function digit_runs :: "string \<Rightarrow> string list" where
  "digit_runs s =
     (let rest = dropWhile (\<lambda>c. \<not> is_digit c) s in
      if rest = [] then [] else takeWhile is_digit rest # digit_runs (dropWhile is_digit rest))"
  by pat_completeness auto
termination
proof (relation "measure length", goal_cases)
  case (2 s rest)
  have "length rest \<le> length s" unfolding 2(1) by (rule length_dropWhile_le)
  moreover obtain c cs where "rest = c # cs" using 2(2) by (cases rest) auto
  moreover have "is_digit c" using 2(1) \<open>rest = c # cs\<close> hd_dropWhile [of "\<lambda>c. \<not> is_digit c" s]
    by (metis list.distinct(1) list.sel(1))
  moreover have "length (dropWhile is_digit cs) \<le> length cs" by (rule length_dropWhile_le)
  ultimately show ?case by simp
qed simp

declare digit_runs.simps [simp del]

definition number_of_run :: "string \<Rightarrow> int option" where
  "number_of_run field = (case parse_int64 field of ParsedInt n \<Rightarrow> if n > 0 then Some n else None | _ \<Rightarrow> None)"

definition opnsense_firstNumber :: "string \<Rightarrow> int" where
  "opnsense_firstNumber v = (case List.map_filter number_of_run (digit_runs v) of [] \<Rightarrow> 0 | n # _ \<Rightarrow> n)"

definition speedFromText :: "string \<Rightarrow> int" where
  "speedFromText v =
     (let lower = to_lower v in
      if go_contains lower ''25g'' then 25000
      else if go_contains lower ''10g'' then 10000
      else if go_contains lower ''5g'' then 5000
      else if go_contains lower ''2.5g'' \<or> go_contains lower ''2500base'' then 2500
      else if go_contains lower ''1000base'' \<or> go_contains lower ''1g'' then 1000
      else if go_contains lower ''100base'' then 100
      else if go_contains lower ''10base'' then 10
      else opnsense_firstNumber v)"

definition mediaFor :: "string \<Rightarrow> int \<Rightarrow> string" where
  "mediaFor v0 speed =
     (let v = trim_space v0; lower = to_lower v in
      if go_contains lower ''sfp28'' \<or> go_contains lower ''25gbase'' then ''SFP28''
      else if go_contains lower ''sfp+'' \<or> go_contains lower ''10gbase-sr'' \<or>
              go_contains lower ''10gbase-lr'' \<or> go_contains lower ''10gbase-cr'' then ''SFP+''
      else if speed \<ge> 25000 then ''SFP28''
      else if speed \<ge> 10000 \<and> go_contains lower ''sfp'' then ''SFP+''
      else if speed > 0 then ''GE''
      else v)"

definition opnsense_normalizeMAC :: "string \<Rightarrow> string" where
  "opnsense_normalizeMAC v =
     (case ParseMAC (trim_space v) of
        Some mac \<Rightarrow> to_lower (mac_string mac)
      | None \<Rightarrow> to_lower (trim_space v))"

definition parseUp :: "string \<Rightarrow> bool option" where
  "parseUp v0 =
     (let v = to_lower (trim_space v0) in
      if v = [] then None
      else if v \<in> {''1'', ''true'', ''up'', ''active'', ''online'', ''ok'', ''connected''} then Some True
      else if v \<in> {''0'', ''false'', ''down'', ''inactive'', ''offline'', ''no carrier'', ''disconnected''}
      then Some False
      else if go_contains v ''active'' \<or> go_contains v ''up'' then Some True
      else if go_contains v ''down'' \<or> go_contains v ''offline'' then Some False
      else None)"

definition opnsense_isWANRole :: "string \<Rightarrow> bool" where
  "opnsense_isWANRole role = (to_lower (trim_space role) \<in> {''wan'', ''wan2''})"

section \<open>Netmasks\<close>

text \<open>\<open>net.CIDRMask(n, 32)\<close>, byte by byte.\<close>

fun CIDRMask_from :: "nat \<Rightarrow> nat \<Rightarrow> bytes" where
  "CIDRMask_from 0 n = []"
| "CIDRMask_from (Suc k) n =
     (if n \<ge> 8 then 255 # CIDRMask_from k (n - 8) else NOT (drop_bit n 255) # CIDRMask_from k 0)"

definition prefixToNetmask :: "int \<Rightarrow> string" where
  "prefixToNetmask prefix =
     (if prefix < 0 \<or> prefix > 32 then [] else ipv4_string (CIDRMask_from 4 (nat prefix)))"

text \<open>The length of the mask and of the address that \<open>net.ParseCIDR\<close> reads.\<close>

definition parseCIDR_size :: "string \<Rightarrow> (nat \<times> nat) option" where
  "parseCIDR_size s =
     (case go_cut CHR ''/'' s of
        None \<Rightarrow> None
      | Some (addr, len) \<Rightarrow>
          (case ParseAddr addr of
             None \<Rightarrow> None
           | Some (ip, zone) \<Rightarrow>
               if zone \<noteq> [] \<or> len = [] \<or> \<not> list_all is_digit len \<or> digits_value len > 8 * List.length ip then None
               else Some (digits_value len, 8 * List.length ip)))"

definition netmaskFromAddress :: "string \<Rightarrow> string" where
  "netmaskFromAddress v =
     (if \<not> go_contains v ''/'' then []
      else case parseCIDR_size v of
        None \<Rightarrow> []
      | Some (ones, bits) \<Rightarrow> if bits \<noteq> 32 then [] else prefixToNetmask (int ones))"

definition trimCIDR :: "string \<Rightarrow> string" where
  "trimCIDR v = (if go_contains v ''/'' then hd (go_split CHR ''/'' v) else v)"

section \<open>Members of an object\<close>

fun firstString :: "(rat \<Rightarrow> int) \<Rightarrow> json_object \<Rightarrow> string list \<Rightarrow> string" where
  "firstString outOfRange m [] = []"
| "firstString outOfRange m (key # keys) =
     (case map_of m key of
        Some (JAnyText typed) \<Rightarrow>
          (if trim_space typed \<noteq> [] then trim_space typed else firstString outOfRange m keys)
      | Some (JAnyNumber typed) \<Rightarrow> itoa (f64_to_int64 outOfRange typed)
      | Some (JAnyBool typed) \<Rightarrow> (if typed then ''true'' else ''false'')
      | _ \<Rightarrow> firstString outOfRange m keys)"

fun firstInt :: "(rat \<Rightarrow> int) \<Rightarrow> json_object \<Rightarrow> string list \<Rightarrow> int" where
  "firstInt outOfRange m [] = 0"
| "firstInt outOfRange m (key # keys) =
     (case map_of m key of
        Some (JAnyNumber typed) \<Rightarrow> f64_to_int64 outOfRange typed
      | Some (JAnyText typed) \<Rightarrow>
          (if opnsense_firstNumber typed > 0 then opnsense_firstNumber typed else firstInt outOfRange m keys)
      | _ \<Rightarrow> firstInt outOfRange m keys)"

definition firstAddress :: "(rat \<Rightarrow> int) \<Rightarrow> json_object \<Rightarrow> string list \<Rightarrow> string" where
  "firstAddress outOfRange m keys =
     (let v = first_nonempty (\<lambda>key. firstString outOfRange m [key]) keys in
      if go_contains v '','' then trim_space (hd (go_split CHR '','' v)) else v)"

definition trim_slash_space :: "string \<Rightarrow> string" where
  "trim_slash_space s =
     rev (dropWhile (\<lambda>c. c \<in> set ''/ '') (rev (dropWhile (\<lambda>c. c \<in> set ''/ '') s)))"

fun firstNetmask :: "(rat \<Rightarrow> int) \<Rightarrow> json_object \<Rightarrow> string list \<Rightarrow> string" where
  "firstNetmask outOfRange m [] = []"
| "firstNetmask outOfRange m (key # keys) =
     (let v = firstString outOfRange m [key] in
      if v = [] then firstNetmask outOfRange m keys
      else if go_contains v ''.'' then v
      else case parse_int64 (trim_slash_space v) of
        ParsedInt prefix \<Rightarrow> prefixToNetmask prefix
      | _ \<Rightarrow> firstNetmask outOfRange m keys)"

definition appendIPv6 :: "string list \<Rightarrow> string \<Rightarrow> string list" where
  "appendIPv6 out v0 =
     (let v = trim_space v0 in
      if v = [] \<or> has_prefix (to_lower v) ''fe80:'' then out
      else if go_contains v '':'' then out @ [v] else out)"

fun ipv6_texts :: "json_any list \<Rightarrow> string list" where
  "ipv6_texts [] = []"
| "ipv6_texts (JAnyText t # items) = t # ipv6_texts items"
| "ipv6_texts (_ # items) = ipv6_texts items"

definition firstIPv6 :: "json_object \<Rightarrow> string list \<Rightarrow> string list" where
  "firstIPv6 m keys =
     foldl (\<lambda>out key.
       (case map_of m key of
          Some (JAnyArray typed) \<Rightarrow> foldl appendIPv6 out (ipv6_texts typed)
        | Some (JAnyText typed) \<Rightarrow> foldl appendIPv6 out (go_split CHR '','' typed)
        | _ \<Rightarrow> out)) [] keys"

section \<open>The tables of a response\<close>

definition looksLikeInterface :: "json_object \<Rightarrow> bool" where
  "looksLikeInterface m =
     list_ex (\<lambda>key. map_of m key \<noteq> None)
       [''interface'', ''if'', ''ifname'', ''device'', ''mac'', ''macaddr'', ''ipaddr'', ''ipv4'', ''addr4'']"

definition containerKeys :: "string list" where
  "containerKeys = [''interfaces'', ''rows'', ''items'', ''data'', ''response'', ''message'', ''result'']"

definition objectNameKeys :: "string list" where
  "objectNameKeys = [''interface'', ''if'', ''ifname'', ''device'', ''name'']"

text \<open>An entry of an array is filed under its name, an unnamed one under its index; a later one replaces.\<close>

fun array_objects :: "(rat \<Rightarrow> int) \<Rightarrow> nat \<Rightarrow> json_any list \<Rightarrow> json_object \<Rightarrow> json_object" where
  "array_objects outOfRange index [] out = out"
| "array_objects outOfRange index (JAnyObject m # rest) out =
     array_objects outOfRange (Suc index) rest
       (AList.update
          (let name = firstString outOfRange m objectNameKeys in if name \<noteq> [] then name else nat_itoa index)
          (JAnyObject m) out)"
| "array_objects outOfRange index (_ # rest) out = array_objects outOfRange (Suc index) rest out"

text \<open>The recursion descends into a member, so it ends on every document.\<close>

function interfaceObjects :: "(rat \<Rightarrow> int) \<Rightarrow> json_any \<Rightarrow> json_object" where
  "interfaceObjects outOfRange (JAnyObject m) =
     (let objects = first_nonempty
            (\<lambda>key. case map_of m key of
               Some nested \<Rightarrow> interfaceObjects outOfRange nested
             | None \<Rightarrow> []) containerKeys
      in if objects \<noteq> [] then objects
         else if looksLikeInterface m then [([], JAnyObject m)]
         else filter (\<lambda>(key, nested). is_object nested) m)"
| "interfaceObjects outOfRange (JAnyArray items) = array_objects outOfRange 0 items []"
| "interfaceObjects outOfRange JAnyNull = []"
| "interfaceObjects outOfRange (JAnyBool b) = []"
| "interfaceObjects outOfRange (JAnyNumber n) = []"
| "interfaceObjects outOfRange (JAnyText t) = []"
  by pat_completeness auto
termination
  by (relation "measure (\<lambda>(oor, v). size v)") (auto dest: json_member_size)

section \<open>Interfaces and gateways\<close>

record interface_status =
  isInterface :: string
  isName :: string
  isMAC :: string
  isIP :: string
  isNetmask :: string
  isIPv6 :: "string list"
  isUp :: "bool option"
  isSpeedMbps :: int
  isMedia :: string

definition emptyInterfaceStatus :: interface_status where
  "emptyInterfaceStatus = \<lparr>isInterface = [], isName = [], isMAC = [], isIP = [], isNetmask = [], isIPv6 = [],
     isUp = None, isSpeedMbps = 0, isMedia = []\<rparr>"

record gateway_status =
  gsInterface :: string
  gsName :: string
  gsOnline :: "bool option"
  gsLatencyMS :: int

fun decodeInterfaceObject :: "(rat \<Rightarrow> int) \<Rightarrow> string \<Rightarrow> json_any \<Rightarrow> interface_status" where
  "decodeInterfaceObject outOfRange key (JAnyObject m) =
     (let interface0 = firstString outOfRange m
            [''interface'', ''if'', ''ifname'', ''device'', ''identifier'', ''name''];
          ip0 = firstAddress outOfRange m [''ip'', ''ipaddr'', ''ipv4'', ''addr4'', ''address''];
          netmask0 = firstNetmask outOfRange m [''netmask'', ''subnet'', ''subnet_bits'', ''prefix'', ''cidr''];
          speed0 = firstInt outOfRange m [''speed'', ''speed_mbps'', ''media_speed''];
          speed = (if speed0 \<le> 0 then speedFromText (firstString outOfRange m [''media'', ''media_type'', ''status''])
                   else speed0)
      in \<lparr>isInterface = (if interface0 = [] then trim_space key else interface0),
          isName = firstString outOfRange m [''descr'', ''description'', ''label'', ''name''],
          isMAC = opnsense_normalizeMAC (firstString outOfRange m [''mac'', ''macaddr'', ''mac_address'', ''hwaddr'']),
          isIP = (if netmask0 = [] then trimCIDR ip0 else ip0),
          isNetmask = (if netmask0 = [] then netmaskFromAddress ip0 else netmask0),
          isIPv6 = firstIPv6 m [''ipv6'', ''ipaddrv6'', ''addr6'', ''addresses6''],
          isUp = parseUp (firstString outOfRange m
            [''status'', ''link_state'', ''up'', ''enabled'', ''enable'', ''carrier'']),
          isSpeedMbps = speed,
          isMedia = mediaFor (firstString outOfRange m [''media'', ''media_type'']) speed\<rparr>)"
| "decodeInterfaceObject outOfRange key _ = emptyInterfaceStatus"

definition addInterfaceStatus ::
  "(string \<times> interface_status) list \<Rightarrow> interface_status \<Rightarrow> (string \<times> interface_status) list" where
  "addInterfaceStatus out status =
     (if isInterface status = [] then out
      else let out1 = AList.update (to_lower (isInterface status)) status out
        in if isName status \<noteq> [] then AList.update (to_lower (isName status)) status out1 else out1)"

definition DecodeInterfaces ::
  "(rat \<Rightarrow> int) \<Rightarrow> (json_object \<Rightarrow> json_object) \<Rightarrow> json_any \<Rightarrow> (string \<times> interface_status) list" where
  "DecodeInterfaces outOfRange order raw =
     foldl (\<lambda>out (key, v). addInterfaceStatus out (decodeInterfaceObject outOfRange key v)) []
       (order (interfaceObjects outOfRange raw))"

text \<open>Of several objects, the one the iteration meets first is returned.\<close>

definition DecodeInterface ::
  "(rat \<Rightarrow> int) \<Rightarrow> (json_object \<Rightarrow> json_object) \<Rightarrow> json_any \<Rightarrow> string \<Rightarrow> interface_status" where
  "DecodeInterface outOfRange order raw requested =
     (case order (interfaceObjects outOfRange raw) of
        [] \<Rightarrow> emptyInterfaceStatus\<lparr>isInterface := trim_space requested\<rparr>
      | (key, v) # _ \<Rightarrow>
          (let status = decodeInterfaceObject outOfRange key v in
           if isInterface status = [] then status\<lparr>isInterface := trim_space requested\<rparr> else status))"

definition addGatewayStatus ::
  "(string \<times> gateway_status) list \<Rightarrow> gateway_status \<Rightarrow> (string \<times> gateway_status) list" where
  "addGatewayStatus out status =
     (let out1 = (if gsInterface status \<noteq> [] then AList.update (to_lower (gsInterface status)) status out else out)
      in if gsName status \<noteq> [] then AList.update (to_lower (gsName status)) status out1 else out1)"

definition decodeGatewayObject :: "(rat \<Rightarrow> int) \<Rightarrow> string \<Rightarrow> json_object \<Rightarrow> gateway_status" where
  "decodeGatewayObject outOfRange key m =
     (let interface0 = firstString outOfRange m objectNameKeys
      in \<lparr>gsInterface = (if interface0 = [] then trim_space key else interface0),
          gsName = firstString outOfRange m [''name'', ''descr'', ''description'', ''gateway''],
          gsOnline = parseUp (firstString outOfRange m
            [''status'', ''monitor'', ''online'', ''up'', ''gateway_status'']),
          gsLatencyMS = firstInt outOfRange m [''latency'', ''latency_ms'', ''delay'', ''rtt'', ''avgdelay'']\<rparr>)"

definition DecodeGatewayStatuses ::
  "(rat \<Rightarrow> int) \<Rightarrow> (json_object \<Rightarrow> json_object) \<Rightarrow> json_any \<Rightarrow> (string \<times> gateway_status) list" where
  "DecodeGatewayStatuses outOfRange order raw =
     foldl (\<lambda>out (key, v).
       (case v of JAnyObject m \<Rightarrow> addGatewayStatus out (decodeGatewayObject outOfRange key m) | _ \<Rightarrow> out)) []
       (order (interfaceObjects outOfRange raw))"

text \<open>A name is looked up as a key; otherwise the entries are searched in the order of the iteration.\<close>

definition lookupInterfaceStatus ::
  "((string \<times> interface_status) list \<Rightarrow> (string \<times> interface_status) list) \<Rightarrow>
     (string \<times> interface_status) list \<Rightarrow> string \<Rightarrow> interface_status" where
  "lookupInterfaceStatus order entries name0 =
     (let name = to_lower (trim_space name0) in
      if name = [] then emptyInterfaceStatus
      else case map_of entries name of
        Some v \<Rightarrow> v
      | None \<Rightarrow>
          (case find (\<lambda>(_, v). equal_fold (isInterface v) name \<or> equal_fold (isName v) name) (order entries) of
             Some (_, v) \<Rightarrow> v
           | None \<Rightarrow> emptyInterfaceStatus\<lparr>isInterface := name\<rparr>))"

definition lookupGatewayStatus ::
  "((string \<times> gateway_status) list \<Rightarrow> (string \<times> gateway_status) list) \<Rightarrow>
     (string \<times> gateway_status) list \<Rightarrow> string \<Rightarrow> gateway_status option" where
  "lookupGatewayStatus order entries name0 =
     (let name = to_lower (trim_space name0) in
      if name = [] then None
      else case map_of entries name of
        Some v \<Rightarrow> Some v
      | None \<Rightarrow> map_option snd
          (find (\<lambda>(_, v). equal_fold (gsInterface v) name \<or> equal_fold (gsName v) name) (order entries)))"

section \<open>The source file (config.go)\<close>

record interface_mapping =
  imPort :: int
  imInterface :: string
  imName :: string
  imRole :: string
  imNetworkGroup :: string
  imPortConfID :: string
  imNetworkConfID :: string
  imNativeNetworkConfID :: string
  imNetworkName :: string
  imVLAN :: int
  imSpeed :: int
  imMedia :: string

record source_config =
  scBaseURL :: string
  scAPIKeyFile :: string
  scAPISecretFile :: string
  scAPIKeyEnv :: string
  scAPISecretEnv :: string
  scCAFile :: string
  scInsecureSkipVerify :: bool
  scTimeoutMS :: int
  scUplinkPort :: int
  scGatewayStatus :: bool
  scInterfaces :: "interface_mapping list"
  scWANHealth :: wan_health_config

datatype opnsense_error =
    BaseURLRequired
  | TimeoutNotPositive
  | NoInterfaces
  | InvalidMappingPort int
  | DuplicateMappingPort int
  | MappingWithoutInterface int
  | InvalidMappingInterface int string
  | SourceUnreadable
  | SourceYAML
  | SecretFileUnreadable string
  | SecretMissing string
  | SecretEmpty string
  | BaseURLInvalid
  | BaseURLScheme
  | BaseURLWithoutHost
  | TransportFailed
  | InterfaceNameRequired
  | RequestFailed string
  | ResponseUnreadable string
  | ResponseTooLarge string
  | ResponseStatus string int
  | ResponseJSON string
  | SourceRequired
  | BaseConfigFailed
  | MarshalFailed
  | OutputFailed

definition defaultTimeoutMS :: int where "defaultTimeoutMS = 2000"

fun sourceMappingErrors :: "int list \<Rightarrow> interface_mapping list \<Rightarrow> opnsense_error option" where
  "sourceMappingErrors seen [] = None"
| "sourceMappingErrors seen (m # ms) =
     (if imPort m < 1 then Some (InvalidMappingPort (imPort m))
      else if imPort m \<in> set seen then Some (DuplicateMappingPort (imPort m))
      else if trim_space (imInterface m) = [] then Some (MappingWithoutInterface (imPort m))
      else if go_contains (imInterface m) ''/'' then Some (InvalidMappingInterface (imPort m) (imInterface m))
      else sourceMappingErrors (imPort m # seen) ms)"

definition ValidateSourceConfig :: "source_config \<Rightarrow> opnsense_error option" where
  "ValidateSourceConfig cfg =
     (if trim_space (scBaseURL cfg) = [] then Some BaseURLRequired
      else if scTimeoutMS cfg \<le> 0 then Some TimeoutNotPositive
      else if scInterfaces cfg = [] then Some NoInterfaces
      else sourceMappingErrors [] (scInterfaces cfg))"

text \<open>The timeout of a request in nanoseconds.\<close>

definition Timeout :: "source_config \<Rightarrow> int" where
  "Timeout cfg =
     (let timeout = (if scTimeoutMS cfg \<le> 0 then defaultTimeoutMS else scTimeoutMS cfg)
      in wrap64 (timeout * 1000000))"

definition normalizeMapping :: "interface_mapping \<Rightarrow> interface_mapping" where
  "normalizeMapping m = m\<lparr>
     imInterface := trim_space (imInterface m),
     imName := trim_space (imName m),
     imRole := to_lower (trim_space (imRole m)),
     imNetworkGroup := trim_space (imNetworkGroup m),
     imPortConfID := trim_space (imPortConfID m),
     imNetworkConfID := trim_space (imNetworkConfID m),
     imNativeNetworkConfID := trim_space (imNativeNetworkConfID m),
     imNetworkName := trim_space (imNetworkName m),
     imMedia := trim_space (imMedia m)\<rparr>"

definition normalizeSourceConfig :: "source_config \<Rightarrow> source_config" where
  "normalizeSourceConfig cfg = cfg\<lparr>
     scBaseURL := trim_space (scBaseURL cfg),
     scAPIKeyFile := trim_space (scAPIKeyFile cfg),
     scAPISecretFile := trim_space (scAPISecretFile cfg),
     scAPIKeyEnv := trim_space (scAPIKeyEnv cfg),
     scAPISecretEnv := trim_space (scAPISecretEnv cfg),
     scCAFile := trim_space (scCAFile cfg),
     scInterfaces := map normalizeMapping (scInterfaces cfg)\<rparr>"

text \<open>\<open>decode\<close> is the strict YAML decoder, which starts from the defaults; \<open>None\<close> is its error.\<close>

definition emptySource :: source_config where
  "emptySource = \<lparr>scBaseURL = [], scAPIKeyFile = [], scAPISecretFile = [], scAPIKeyEnv = [], scAPISecretEnv = [],
     scCAFile = [], scInsecureSkipVerify = False, scTimeoutMS = defaultTimeoutMS, scUplinkPort = 0,
     scGatewayStatus = False, scInterfaces = [],
     scWANHealth = \<lparr>wcSource = [], wcIntervalSeconds = 0, wcTimeoutMS = 0, wcTargets = []\<rparr>\<rparr>"

definition DecodeSourceConfig ::
  "(string \<Rightarrow> source_config \<Rightarrow> source_config option) \<Rightarrow> string \<Rightarrow> opnsense_error + source_config" where
  "DecodeSourceConfig decode data =
     (case decode data emptySource of
        None \<Rightarrow> Inl SourceYAML
      | Some cfg0 \<Rightarrow>
          (let cfg = normalizeSourceConfig cfg0 in
           case ValidateSourceConfig cfg of Some e \<Rightarrow> Inl e | None \<Rightarrow> Inr cfg))"

definition LoadSourceConfig ::
  "(string \<Rightarrow> source_config \<Rightarrow> source_config option) \<Rightarrow> (string \<Rightarrow> string option) \<Rightarrow> string \<Rightarrow>
     opnsense_error + source_config" where
  "LoadSourceConfig decode readFile path =
     (case readFile path of None \<Rightarrow> Inl SourceUnreadable | Some data \<Rightarrow> DecodeSourceConfig decode data)"

section \<open>Credentials (secrets.go)\<close>

record credentials =
  credKey :: string
  credSecret :: string

definition secretValue ::
  "(string \<Rightarrow> string) \<Rightarrow> (string \<Rightarrow> string option) \<Rightarrow> string \<Rightarrow> string \<Rightarrow> string \<Rightarrow> opnsense_error + string" where
  "secretValue getenv readFile label envName fileName =
     (if envName \<noteq> [] \<and> trim_space (getenv envName) \<noteq> [] then Inr (trim_space (getenv envName))
      else let absent = (if envName = [] \<and> fileName = [] then SecretMissing label else SecretEmpty label) in
        if fileName = [] then Inl absent
        else case readFile fileName of
          None \<Rightarrow> Inl (SecretFileUnreadable label)
        | Some data \<Rightarrow> if trim_space data \<noteq> [] then Inr (trim_space data) else Inl absent)"

definition LoadCredentials ::
  "(string \<Rightarrow> string) \<Rightarrow> (string \<Rightarrow> string option) \<Rightarrow> source_config \<Rightarrow> opnsense_error + credentials" where
  "LoadCredentials getenv readFile cfg =
     (case secretValue getenv readFile ''api_key'' (scAPIKeyEnv cfg) (scAPIKeyFile cfg) of
        Inl e \<Rightarrow> Inl e
      | Inr key \<Rightarrow>
          (case secretValue getenv readFile ''api_secret'' (scAPISecretEnv cfg) (scAPISecretFile cfg) of
             Inl e \<Rightarrow> Inl e
           | Inr secret \<Rightarrow> Inr \<lparr>credKey = key, credSecret = secret\<rparr>))"

section \<open>Overrides (mapper.go)\<close>

definition overrideFromMapping :: "interface_mapping \<Rightarrow> interface_status \<Rightarrow> port_override" where
  "overrideFromMapping m status = emptyOverride\<lparr>
     oPort := imPort m,
     oName := imName m,
     oInterface := (if imInterface m = [] then isInterface status else imInterface m),
     oMAC := isMAC status,
     oIP := isIP status,
     oNetmask := isNetmask status,
     oIPv6 := isIPv6 status,
     oRole := imRole m,
     oNetworkGroup := imNetworkGroup m,
     oPortConfID := imPortConfID m,
     oNetworkConfID := imNetworkConfID m,
     oNativeNetworkConfID := imNativeNetworkConfID m,
     oNetworkName := imNetworkName m,
     oVLAN := imVLAN m,
     oSpeed := (if imSpeed m \<le> 0 then isSpeedMbps status else imSpeed m),
     oMedia := (if imMedia m = [] then isMedia status else imMedia m),
     oUp := isUp status\<rparr>"

definition applyGatewayStatus :: "port_override \<Rightarrow> gateway_status \<Rightarrow> port_override" where
  "applyGatewayStatus ov status =
     (if \<not> opnsense_isWANRole (oRole ov) then ov
      else ov\<lparr>
        oWANConnected := (if oWANConnected ov = None then gsOnline status else oWANConnected ov),
        oWANLatencyMS := (if oWANLatencyMS ov = 0 then gsLatencyMS status else oWANLatencyMS ov),
        oWANUptimePercent :=
          (case oWANUptimePercent ov of
             Some u \<Rightarrow> Some u
           | None \<Rightarrow> map_option (\<lambda>online. Fin (if online then 100 else 0)) (gsOnline status))\<rparr>)"

definition OverridesFromState ::
  "((string \<times> interface_status) list \<Rightarrow> (string \<times> interface_status) list) \<Rightarrow>
     ((string \<times> gateway_status) list \<Rightarrow> (string \<times> gateway_status) list) \<Rightarrow> interface_mapping list \<Rightarrow>
     (string \<times> interface_status) list \<Rightarrow> (string \<times> gateway_status) list \<Rightarrow> port_override list" where
  "OverridesFromState orderI orderG mappings interfaces gateways =
     map (\<lambda>m. let ov = overrideFromMapping m (lookupInterfaceStatus orderI interfaces (imInterface m)) in
       case lookupGatewayStatus orderG gateways (imInterface m) of
         None \<Rightarrow> ov
       | Some gateway \<Rightarrow> applyGatewayStatus ov gateway) mappings"

text \<open>A text or a list wins when it is not empty, a number when it is positive, a pointer when it is set.\<close>

definition overlay_text :: "'a list \<Rightarrow> 'a list \<Rightarrow> 'a list" where
  "overlay_text target source = (if source \<noteq> [] then source else target)"

definition overlay_int :: "int \<Rightarrow> int \<Rightarrow> int" where
  "overlay_int target source = (if source > 0 then source else target)"

definition overlay_option :: "'a option \<Rightarrow> 'a option \<Rightarrow> 'a option" where
  "overlay_option target source = (if source \<noteq> None then source else target)"

definition overlayOverride :: "port_override \<Rightarrow> port_override \<Rightarrow> port_override" where
  "overlayOverride target source = target\<lparr>
     oName := overlay_text (oName target) (oName source),
     oInterface := overlay_text (oInterface target) (oInterface source),
     oMAC := overlay_text (oMAC target) (oMAC source),
     oIP := overlay_text (oIP target) (oIP source),
     oNetmask := overlay_text (oNetmask target) (oNetmask source),
     oIPv6 := overlay_text (oIPv6 target) (oIPv6 source),
     oRole := overlay_text (oRole target) (oRole source),
     oNetworkGroup := overlay_text (oNetworkGroup target) (oNetworkGroup source),
     oPortConfID := overlay_text (oPortConfID target) (oPortConfID source),
     oNetworkConfID := overlay_text (oNetworkConfID target) (oNetworkConfID source),
     oNativeNetworkConfID := overlay_text (oNativeNetworkConfID target) (oNativeNetworkConfID source),
     oNetworkName := overlay_text (oNetworkName target) (oNetworkName source),
     oVLAN := overlay_int (oVLAN target) (oVLAN source),
     oWANUptimePercent := overlay_option (oWANUptimePercent target) (oWANUptimePercent source),
     oWANLatencyMS := overlay_int (oWANLatencyMS target) (oWANLatencyMS source),
     oWANDowntimeSeconds := overlay_int (oWANDowntimeSeconds target) (oWANDowntimeSeconds source),
     oWANConnected := overlay_option (oWANConnected target) (oWANConnected source),
     oSpeed := overlay_int (oSpeed target) (oSpeed source),
     oMedia := overlay_text (oMedia target) (oMedia source),
     oUp := overlay_option (oUp target) (oUp source)\<rparr>"

text \<open>The two loops over a map from port to override; a port below 1 is skipped.\<close>

definition mergeGenerated :: "port_override list \<Rightarrow> (int \<times> port_override) list" where
  "mergeGenerated generated =
     foldl (\<lambda>merged ov. if oPort ov < 1 then merged else AList.update (oPort ov) ov merged) [] generated"

definition mergeBaseOne :: "(int \<times> port_override) list \<Rightarrow> port_override \<Rightarrow> (int \<times> port_override) list" where
  "mergeBaseOne merged ov =
     (if oPort ov < 1 then merged
      else let current = (case map_of merged (oPort ov) of Some c \<Rightarrow> c | None \<Rightarrow> emptyOverride);
               current' = (if oPort current = 0 then current\<lparr>oPort := oPort ov\<rparr> else current)
        in AList.update (oPort ov) (overlayOverride current' ov) merged)"

definition MergeOverrides :: "port_override list \<Rightarrow> port_override list \<Rightarrow> port_override list" where
  "MergeOverrides generated base =
     (let merged = foldl mergeBaseOne (mergeGenerated generated) base
      in map (\<lambda>p. the (map_of merged p)) (sort (map fst merged)))"

section \<open>The generated configuration (render.go)\<close>

definition GenerateConfig ::
  "((string \<times> interface_status) list \<Rightarrow> (string \<times> interface_status) list) \<Rightarrow>
     ((string \<times> gateway_status) list \<Rightarrow> (string \<times> gateway_status) list) \<Rightarrow> app_config \<Rightarrow> source_config \<Rightarrow>
     (string \<times> interface_status) list \<Rightarrow> (string \<times> gateway_status) list \<Rightarrow> app_config" where
  "GenerateConfig orderI orderG base source interfaces gateways =
     (let out1 = base\<lparr>cgPortOverrides :=
            MergeOverrides (OverridesFromState orderI orderG (scInterfaces source) interfaces gateways)
              (cgPortOverrides base)\<rparr>;
          out2 = (if scUplinkPort source > 0 \<and> cgUplinkPort out1 = 0
                  then out1\<lparr>cgUplinkPort := scUplinkPort source\<rparr> else out1)
      in if wcSource (scWANHealth source) \<noteq> [] then out2\<lparr>cgWANHealth := scWANHealth source\<rparr> else out2)"

section \<open>Merging, port by port\<close>

definition port_keys :: "(int \<times> port_override) list \<Rightarrow> bool" where
  "port_keys merged \<longleftrightarrow> distinct (map fst merged) \<and> (\<forall>(p, ov)\<in>set merged. oPort ov = p \<and> 1 \<le> p)"

lemma port_keys_lookup: "port_keys merged \<Longrightarrow> map_of merged p = Some ov \<Longrightarrow> oPort ov = p \<and> 1 \<le> p"
  by (auto simp: port_keys_def dest!: map_of_SomeD)

lemma port_keys_update:
  assumes "port_keys merged" "oPort ov = p" "1 \<le> p"
  shows "port_keys (AList.update p ov merged)"
proof -
  have "oPort v = q \<and> 1 \<le> q" if "(q, v) \<in> set (AList.update p ov merged)" for q v
  proof -
    have d: "distinct (map fst (AList.update p ov merged))"
      using assms(1) by (simp add: port_keys_def distinct_update)
    have "map_of (AList.update p ov merged) q = Some v" using that d by simp
    then have "(if q = p then Some ov else map_of merged q) = Some v" by (simp add: update_conv' split: if_splits)
    then show ?thesis using assms port_keys_lookup [OF assms(1), of q v] by (auto split: if_splits)
  qed
  then show ?thesis using assms(1) by (auto simp: port_keys_def distinct_update)
qed

lemma overlay_port [simp]: "oPort (overlayOverride target source) = oPort target"
  by (simp add: overlayOverride_def)

lemma foldl_overlay_port [simp]: "oPort (foldl overlayOverride s vs) = oPort s"
  by (induction vs arbitrary: s) simp_all

lemma mergeGenerated_snoc:
  "mergeGenerated (g @ [ov]) =
     (if oPort ov < 1 then mergeGenerated g else AList.update (oPort ov) ov (mergeGenerated g))"
  by (simp add: mergeGenerated_def)

lemma mergeGenerated_keys: "port_keys (mergeGenerated g)"
proof (induction g rule: rev_induct)
  case Nil
  then show ?case by (simp add: mergeGenerated_def port_keys_def)
next
  case (snoc ov g)
  then show ?case by (simp add: mergeGenerated_snoc port_keys_update)
qed

lemma mergeGenerated_lookup:
  "map_of (mergeGenerated g) p = (if p < 1 then None else find (\<lambda>v. oPort v = p) (rev g))"
proof (induction g rule: rev_induct)
  case Nil
  then show ?case by (simp add: mergeGenerated_def)
next
  case (snoc ov g)
  then show ?case by (auto simp: mergeGenerated_snoc update_conv')
qed

definition base_start :: "port_override option \<Rightarrow> int \<Rightarrow> port_override" where
  "base_start found p = (case found of Some v \<Rightarrow> v | None \<Rightarrow> emptyOverride\<lparr>oPort := p\<rparr>)"

lemma base_start_port: "(\<And>v. found = Some v \<Longrightarrow> oPort v = p) \<Longrightarrow> oPort (base_start found p) = p"
  by (cases found) (simp_all add: base_start_def)

lemma mergeBaseOne_eq:
  assumes "port_keys merged" "1 \<le> oPort ov"
  shows "mergeBaseOne merged ov =
    AList.update (oPort ov) (overlayOverride (base_start (map_of merged (oPort ov)) (oPort ov)) ov) merged"
proof (cases "map_of merged (oPort ov)")
  case None
  then show ?thesis using assms(2) by (simp add: mergeBaseOne_def base_start_def emptyOverride_def)
next
  case (Some c)
  then have "oPort c = oPort ov" using port_keys_lookup [OF assms(1)] by blast
  then show ?thesis using Some assms(2) by (simp add: mergeBaseOne_def base_start_def)
qed

lemma mergeBaseOne_keys:
  assumes "port_keys merged"
  shows "port_keys (mergeBaseOne merged ov)"
proof (cases "1 \<le> oPort ov")
  case True
  have "oPort (base_start (map_of merged (oPort ov)) (oPort ov)) = oPort ov"
    by (rule base_start_port) (use port_keys_lookup [OF assms] in blast)
  then show ?thesis using assms True by (simp add: mergeBaseOne_eq port_keys_update)
qed (use assms in \<open>simp add: mergeBaseOne_def\<close>)

lemma mergeBase_keys: "port_keys merged \<Longrightarrow> port_keys (foldl mergeBaseOne merged b)"
  by (induction b arbitrary: merged) (simp_all add: mergeBaseOne_keys)

definition overlaid :: "port_override option \<Rightarrow> int \<Rightarrow> port_override list \<Rightarrow> port_override option" where
  "overlaid found p vs = (if vs = [] then found else Some (foldl overlayOverride (base_start found p) vs))"

lemma overlaid_step:
  "overlaid (Some (overlayOverride (base_start found p) v)) p vs = overlaid found p (v # vs)"
  by (simp add: overlaid_def base_start_def)

lemma mergeBase_lookup:
  assumes "port_keys merged"
  shows "map_of (foldl mergeBaseOne merged b) p =
    (if p < 1 then None else overlaid (map_of merged p) p (filter (\<lambda>v. oPort v = p) b))"
  using assms
proof (induction b arbitrary: merged)
  case Nil
  have "\<not> p < 1" if "map_of merged p = Some ov" for ov using port_keys_lookup [OF Nil that] by linarith
  then show ?case by (cases "map_of merged p") (auto simp: overlaid_def)
next
  case (Cons ov b)
  have IH: "map_of (foldl mergeBaseOne merged (ov # b)) p =
      (if p < 1 then None
       else overlaid (map_of (mergeBaseOne merged ov) p) p (filter (\<lambda>v. oPort v = p) b))"
    using Cons.IH [OF mergeBaseOne_keys [OF Cons.prems]] by simp
  show ?case
  proof (cases "1 \<le> oPort ov \<and> oPort ov = p")
    case True
    then show ?thesis unfolding IH
      by (simp add: mergeBaseOne_eq [OF Cons.prems] update_conv' overlaid_step)
  next
    case False
    then have "map_of (mergeBaseOne merged ov) p = map_of merged p"
    proof (cases "1 \<le> oPort ov")
      case True
      then show ?thesis using False by (simp add: mergeBaseOne_eq [OF Cons.prems] update_conv')
    qed (simp add: mergeBaseOne_def)
    then show ?thesis unfolding IH using False by auto
  qed
qed

lemma mergeBaseOne_set:
  "fst ` set (foldl mergeBaseOne merged b) = fst ` set merged \<union> {p \<in> oPort ` set b. 1 \<le> p}"
  by (induction b arbitrary: merged) (auto simp: mergeBaseOne_def Let_def dom_update)

lemma mergeGenerated_set: "fst ` set (mergeGenerated g) = {p \<in> oPort ` set g. 1 \<le> p}"
  by (induction g rule: rev_induct)
    (auto simp: mergeGenerated_snoc dom_update mergeGenerated_def [of "[]"])

definition merged_ports :: "port_override list \<Rightarrow> port_override list \<Rightarrow> int set" where
  "merged_ports generated base = {p \<in> oPort ` (set generated \<union> set base). 1 \<le> p}"

definition merged_override :: "port_override list \<Rightarrow> port_override list \<Rightarrow> int \<Rightarrow> port_override" where
  "merged_override generated base p =
     foldl overlayOverride (base_start (find (\<lambda>v. oPort v = p) (rev generated)) p) (filter (\<lambda>v. oPort v = p) base)"

lemma merged_override_port: "oPort (merged_override g b p) = p"
  unfolding merged_override_def foldl_overlay_port
  by (rule base_start_port) (auto simp: find_Some_iff)

lemma filter_none: "\<not> (\<exists>v\<in>set vs. oPort v = p) \<Longrightarrow> filter (\<lambda>v. oPort v = p) vs = []"
  by (simp add: filter_empty_conv)

lemma MergeOverrides_eq:
  "MergeOverrides g b = map (merged_override g b) (sorted_list_of_set (merged_ports g b))"
proof -
  let ?m = "foldl mergeBaseOne (mergeGenerated g) b"
  have k: "port_keys ?m" by (rule mergeBase_keys [OF mergeGenerated_keys])
  have s: "fst ` set ?m = merged_ports g b"
    by (auto simp: mergeBaseOne_set mergeGenerated_set merged_ports_def)
  have d: "distinct (map fst ?m)" using k by (simp add: port_keys_def)
  have l: "sort (map fst ?m) = sorted_list_of_set (merged_ports g b)"
    using d by (simp add: s [symmetric] sorted_list_of_set_sort_remdups distinct_remdups_id flip: set_map)
  have v: "the (map_of ?m p) = merged_override g b p" if p: "p \<in> merged_ports g b" for p
  proof -
    have one: "1 \<le> p" and mem: "(\<exists>v\<in>set b. oPort v = p) \<or> (\<exists>v\<in>set g. oPort v = p)"
      using p by (auto simp: merged_ports_def)
    show ?thesis
    proof (cases "\<exists>v\<in>set b. oPort v = p")
      case True
      then have "filter (\<lambda>v. oPort v = p) b \<noteq> []" by (simp add: filter_empty_conv)
      then show ?thesis using one
        by (simp add: mergeBase_lookup [OF mergeGenerated_keys] mergeGenerated_lookup merged_override_def overlaid_def)
    next
      case False
      then have "find (\<lambda>v. oPort v = p) (rev g) \<noteq> None" using mem by (auto simp: find_None_iff)
      then obtain o1 where "find (\<lambda>v. oPort v = p) (rev g) = Some o1" by blast
      then show ?thesis using one filter_none [OF False]
        by (simp add: mergeBase_lookup [OF mergeGenerated_keys] mergeGenerated_lookup merged_override_def
            overlaid_def base_start_def)
    qed
  qed
  have "finite (merged_ports g b)" by (simp add: merged_ports_def)
  then show ?thesis unfolding MergeOverrides_def Let_def l using v by simp
qed

section \<open>A second run changes nothing\<close>

lemma overlay_idem: "overlayOverride s s = s"
  by (simp add: overlayOverride_def overlay_text_def overlay_int_def overlay_option_def)

lemma overlay_text_absorb: "overlay_text s t = t \<Longrightarrow> overlay_text s (overlay_text t v) = overlay_text t v"
  by (simp add: overlay_text_def)

lemma overlay_int_absorb: "overlay_int s t = t \<Longrightarrow> overlay_int s (overlay_int t v) = overlay_int t v"
  by (simp add: overlay_int_def)

lemma overlay_option_absorb:
  "overlay_option s t = t \<Longrightarrow> overlay_option s (overlay_option t v) = overlay_option t v"
  by (simp add: overlay_option_def)

lemma overlay_absorb:
  assumes "overlayOverride s t = t"
  shows "overlayOverride s (overlayOverride t v) = overlayOverride t v"
  using assms
  by (cases s; cases t; cases v)
    (simp add: overlayOverride_def overlay_text_absorb overlay_int_absorb overlay_option_absorb)

lemma overlay_foldl_absorb: "overlayOverride s (foldl overlayOverride s vs) = foldl overlayOverride s vs"
  by (induction vs rule: rev_induct) (simp_all add: overlay_idem overlay_absorb)

lemma find_all_port: "\<forall>v\<in>set vs. oPort v \<noteq> p \<Longrightarrow> find (\<lambda>v. oPort v = p) vs = None"
  by (simp add: find_None_iff)

lemma filter_port_map:
  "distinct ps \<Longrightarrow> (\<And>q. oPort (f q) = q) \<Longrightarrow> filter (\<lambda>v. oPort v = p) (map f ps) = (if p \<in> set ps then [f p] else [])"
  by (induction ps) auto

lemma MergeOverrides_again: "MergeOverrides g (MergeOverrides g b) = MergeOverrides g b"
proof -
  let ?P = "merged_ports g b"
  have fin: "finite ?P" by (simp add: merged_ports_def)
  have ports: "merged_ports g (MergeOverrides g b) = ?P"
  proof -
    have "oPort ` set (MergeOverrides g b) = ?P"
      using fin by (simp add: MergeOverrides_eq image_image merged_override_port)
    then show ?thesis unfolding merged_ports_def [of g "MergeOverrides g b"] image_Un
      by (auto simp: merged_ports_def)
  qed
  have "merged_override g (MergeOverrides g b) p = merged_override g b p" if p: "p \<in> ?P" for p
  proof -
    have "filter (\<lambda>v. oPort v = p) (MergeOverrides g b) = [merged_override g b p]"
      unfolding MergeOverrides_eq using fin p by (simp add: filter_port_map merged_override_port)
    then show ?thesis unfolding merged_override_def [of g "MergeOverrides g b"]
      by (simp add: merged_override_def overlay_foldl_absorb)
  qed
  then show ?thesis unfolding MergeOverrides_eq [of g "MergeOverrides g b"] ports
    using fin by (simp add: MergeOverrides_eq)
qed

section \<open>Gateway facts\<close>

definition wan_only :: "port_override \<Rightarrow> bool" where
  "wan_only ov \<longleftrightarrow> opnsense_isWANRole (oRole ov) \<or>
     (oWANConnected ov = None \<and> oWANLatencyMS ov = 0 \<and> oWANUptimePercent ov = None)"

lemma mapped_wan_only: "wan_only (overrideFromMapping m status)"
  by (simp add: wan_only_def overrideFromMapping_def emptyOverride_def)

lemma applied_wan_only: "wan_only ov \<Longrightarrow> wan_only (applyGatewayStatus ov status)"
  by (cases "opnsense_isWANRole (oRole ov)") (simp_all add: wan_only_def applyGatewayStatus_def)

section \<open>Dotted quads read back\<close>

lemma nat_itoa_octet:
  assumes "n < 256"
  shows "ipv4_octet (nat_itoa n) = Some (of_nat n)"
proof -
  have d: "list_all is_digit (nat_itoa n)" "nat_itoa n \<noteq> []" by (rule nat_itoa_digits)+
  have two: "nat_itoa n = [char_of (48 + n div 10), char_of (48 + n mod 10)]" if "10 \<le> n" "n < 100"
  proof -
    have "n div 10 < 10" using that(2) by linarith
    then show ?thesis using that by (simp add: nat_itoa.simps [of n] nat_itoa.simps [of "n div 10"])
  qed
  have three: "nat_itoa n = [char_of (48 + n div 100), char_of (48 + n div 10 mod 10), char_of (48 + n mod 10)]"
    if "100 \<le> n"
  proof -
    have "n div 100 < 10" "\<not> n div 10 < 10" using that assms by linarith+
    moreover have "n div 10 div 10 = n div 100" by (simp add: div_mult2_eq [symmetric])
    ultimately show ?thesis using that
      by (simp add: nat_itoa.simps [of n] nat_itoa.simps [of "n div 10"] nat_itoa.simps [of "n div 100"])
  qed
  have one: "nat_itoa n = [char_of (48 + n)]" if "n < 10" using that by (simp add: nat_itoa.simps)
  have nz: "char_of (48 + k) \<noteq> CHR ''0''" if "1 \<le> k" "k < 10" for k :: nat
  proof
    assume "char_of (48 + k) = CHR ''0''"
    then have "of_char (char_of (48 + k)) = (of_char CHR ''0'' :: nat)" by simp
    then show False using that by simp
  qed
  have "List.length (nat_itoa n) \<le> 3 \<and> \<not> (List.length (nat_itoa n) > 1 \<and> hd (nat_itoa n) = CHR ''0'')"
  proof -
    consider "n < 10" | "10 \<le> n \<and> n < 100" | "100 \<le> n" by linarith
    then show ?thesis
    proof cases
      case 2
      then have "1 \<le> n div 10" "n div 10 < 10" by linarith+
      then show ?thesis using nz [of "n div 10"] 2 by (simp add: two)
    next
      case 3
      then have "1 \<le> n div 100" "n div 100 < 10" using assms by linarith+
      then show ?thesis using nz [of "n div 100"] 3 by (simp add: three)
    qed (simp add: one)
  qed
  then show ?thesis using d assms by (simp add: ipv4_octet_def)
qed

lemma no_dot: "list_all is_digit s \<Longrightarrow> CHR ''.'' \<notin> set s"
  by (auto simp: list_all_iff is_digit_def)

lemma dotted_plain_spaces:
  assumes "list_all (\<lambda>c. is_digit c \<or> c = CHR ''.'') s"
  shows "space_len s = 0" "space_len_rev s = 0"
proof -
  have n: "\<not> is_ascii_space c" "\<not> space2 c a" "\<not> space2 a c" "\<not> space3 c a b" "\<not> space3 a b c"
    if "is_digit c \<or> c = CHR ''.''" for a b c
    using that by (auto simp: is_digit_def is_ascii_space_def space2_def space3_def)
  show "space_len s = 0" using assms by (cases s rule: space_len.cases) (simp_all add: n)
  show "space_len_rev s = 0" using assms by (cases s rule: space_len_rev.cases) (simp_all add: n)
qed

lemma dotted_quad:
  "ipv4_string [a, b, c, d] = nat_itoa (unat a) @ CHR ''.'' # nat_itoa (unat b) @ CHR ''.'' #
     nat_itoa (unat c) @ CHR ''.'' # nat_itoa (unat d)"
  by (simp add: ipv4_string_def)

lemma ParseIP_ipv4_string:
  "ParseIP (trim_space (ipv4_string [a, b, c, d])) = Some (v4InV6Prefix @ [a, b, c, d])"
proof -
  let ?s = "ipv4_string [a, b, c, d]"
  have dg: "list_all is_digit (nat_itoa (unat w))" for w :: byte by (rule nat_itoa_digits)
  have all: "list_all (\<lambda>c. is_digit c \<or> c = CHR ''.'') ?s"
    using dg [of a] dg [of b] dg [of c] dg [of d] by (auto simp: dotted_quad list_all_iff)
  then have "list_all (\<lambda>c. is_digit c \<or> c = CHR ''.'') (rev ?s)" by (simp add: list_all_iff)
  then have t: "trim_space ?s = ?s" using all by (simp add: trim_space_eq_iff dotted_plain_spaces)
  have o: "ipv4_octet (nat_itoa (unat w)) = Some w" for w :: byte
    using nat_itoa_octet [of "unat w"] unsigned_less [of w] by simp
  have p: "parse_ipv4 ?s = Some [a, b, c, d]"
    unfolding parse_ipv4_def dotted_quad using no_dot [OF dg] by (simp add: o)
  have "dropWhile (\<lambda>c. c \<notin> {CHR ''.'', CHR '':'', CHR ''%''}) ?s =
      CHR ''.'' # nat_itoa (unat b) @ CHR ''.'' # nat_itoa (unat c) @ CHR ''.'' # nat_itoa (unat d)"
  proof -
    have "c \<notin> {CHR ''.'', CHR '':'', CHR ''%''}" if "c \<in> set (nat_itoa (unat a))" for c
      using dg [of a] that by (auto simp: list_all_iff is_digit_def)
    then show ?thesis unfolding dotted_quad by (subst dropWhile_append2) auto
  qed
  then show ?thesis unfolding t by (simp add: ParseIP_def ParseAddr_def p)
qed

lemma CIDRMask_size: "list_all (\<lambda>n. simpleMaskLength (CIDRMask_from 4 n) = Some n) [0..<33]"
  by code_simp

lemma CIDRMask_shape: "\<exists>a b c d. CIDRMask_from 4 n = [a, b, c, d]"
  by (simp add: numeral_eq_Suc)

section \<open>Properties\<close>


text \<open>Running the generator again on the configuration it produced, with the same source file and
  the same observations, changes nothing: a generated file can be kept as the next run's base.
\<close>

theorem GenerateConfig_idempotent:
  "GenerateConfig orderI orderG (GenerateConfig orderI orderG base source interfaces gateways) source
     interfaces gateways = GenerateConfig orderI orderG base source interfaces gateways"
  by (simp add: GenerateConfig_def Let_def MergeOverrides_again)

text \<open>Gateway facts reach WAN ports only: an override generated for a port whose configured role is
  not wan or wan2 carries no WAN connection state, latency or uptime, whatever the gateway table says.
\<close>

theorem OverridesFromState_wan_only:
  "list_all (\<lambda>ov. opnsense_isWANRole (oRole ov) \<or>
       (oWANConnected ov = None \<and> oWANLatencyMS ov = 0 \<and> oWANUptimePercent ov = None))
     (OverridesFromState orderI orderG mappings interfaces gateways)"
  using mapped_wan_only applied_wan_only
  by (simp add: OverridesFromState_def list_all_iff Let_def wan_only_def split: option.split)

text \<open>A prefix length survives: the netmask that the mapper writes for any of 0 to 32 bits is read
  back by the daemon's payload builder as the same length.
\<close>

theorem prefixToNetmask_roundtrip:
  "list_all (\<lambda>prefix. netmaskPrefixLength (prefixToNetmask prefix) = prefix) [0..32]"
proof -
  have "netmaskPrefixLength (prefixToNetmask p) = p" if "0 \<le> p" "p \<le> 32" for p
  proof -
    obtain a b c d where m: "CIDRMask_from 4 (nat p) = [a, b, c, d]" using CIDRMask_shape by blast
    have "simpleMaskLength [a, b, c, d] = Some (nat p)"
      using CIDRMask_size that unfolding m [symmetric] list_all_iff by simp
    moreover have "To4 (v4InV6Prefix @ [a, b, c, d]) = Some [a, b, c, d]"
      by (simp add: To4_def v4InV6Prefix_def)
    ultimately show ?thesis using that by (simp add: netmaskPrefixLength_def prefixToNetmask_def m ParseIP_ipv4_string)
  qed
  then show ?thesis by (simp add: list_all_iff)
qed
text \<open>A latency below one millisecond is misread: \<open>firstNumber\<close> skips a zero before the decimal
  point, so a gateway that answers within 0.5 ms is reported with 5 ms, slower than one that needs 1.2 ms.
\<close>

theorem subsecond_latency_misread:
  "gsLatencyMS (decodeGatewayObject outOfRange ''WAN'' [(''delay'', JAnyText ''0.5 ms'')]) = 5 \<and>
   gsLatencyMS (decodeGatewayObject outOfRange ''WAN'' [(''delay'', JAnyText ''1.2 ms'')]) = 1"
proof -
  have a: "digit_runs ''0.5 ms'' = [''0'', ''5'']" "digit_runs ''1.2 ms'' = [''1'', ''2'']" by code_simp+
  have b: "number_of_run ''0'' = None" "number_of_run ''5'' = Some 5" "number_of_run ''1'' = Some 1" by code_simp+
  show ?thesis
    by (simp add: decodeGatewayObject_def Let_def opnsense_firstNumber_def a b map_filter_simps)
qed

end
