(* ===== verification/Opnsense_Client.thy ===== *)
theory Opnsense_Client
  imports Opnsense_Mapper
begin

text \<open>
  The API client of the OPNsense companion (\<open>internal/opnsense/client.go\<close>) and its command
  (\<open>cmd/unifi-stubd-opnsense/main.go\<close>). A request is a value; the requests sent so far are threaded
  through every operation, and the answer of the network may depend on them; a redirect that the HTTP
  library follows belongs to the answer. TLS, the JSON and YAML
  libraries, files and the environment are fields of \<open>companion_env\<close>.
\<close>

section \<open>URLs and requests\<close>

definition maxResponseBytes :: nat where "maxResponseBytes = 8388608"

definition upper_hex_digit :: "nat \<Rightarrow> char" where
  "upper_hex_digit n = (if n < 10 then char_of (48 + n) else char_of (55 + n))"

text \<open>\<open>url.PathEscape\<close>.\<close>

definition path_segment_plain :: "char \<Rightarrow> bool" where
  "path_segment_plain c \<longleftrightarrow> is_alnum c \<or> c \<in> set ''-_.~$&+=:@''"

definition PathEscape :: "string \<Rightarrow> string" where
  "PathEscape s = concat (map (\<lambda>c.
     if path_segment_plain c then [c]
     else [CHR ''%'', upper_hex_digit (of_char c div 16), upper_hex_digit (of_char c mod 16)]) s)"

definition trim_right_slash :: "string \<Rightarrow> string" where
  "trim_right_slash s = rev (dropWhile (\<lambda>c. c = CHR ''/'') (rev s))"

definition normalizeBaseURL :: "string \<Rightarrow> opnsense_error + string" where
  "normalizeBaseURL v0 =
     (let v = trim_right_slash (trim_space v0) in
      if v = [] then Inl BaseURLRequired
      else case url_Parse v of
        None \<Rightarrow> Inl BaseURLInvalid
      | Some parsed \<Rightarrow>
          if urlScheme parsed \<noteq> ''https'' \<and> urlScheme parsed \<noteq> ''http'' then Inl BaseURLScheme
          else if urlHost parsed = [] then Inl BaseURLWithoutHost
          else Inr v)"

record tls_settings =
  tlsInsecureSkipVerify :: bool
  tlsRootCAs :: "string option"

record api_client =
  clBaseURL :: string
  clCredentials :: credentials
  clTimeout :: int
  clTLS :: tls_settings

record api_request =
  rqMethod :: string
  rqURL :: string
  rqBasicAuth :: "string \<times> string"
  rqAccept :: string
  rqTLS :: tls_settings

text \<open>An answer: its status and its body, \<open>None\<close> when reading the body fails.\<close>

record api_response =
  rpStatus :: int
  rpBody :: "string option"

record companion_env =
  ceReadFile :: "string \<Rightarrow> string option"
  ceGetenv :: "string \<Rightarrow> string"
  ceHasCerts :: "string \<Rightarrow> bool"
  ceTransport :: "api_request list \<Rightarrow> api_request \<Rightarrow> api_response option"
  ceUnmarshal :: "string \<Rightarrow> json_any option"
  ceDecodeSource :: "string \<Rightarrow> source_config \<Rightarrow> source_config option"
  ceLoadConfig :: "string \<Rightarrow> app_config option"
  ceMarshal :: "app_config \<Rightarrow> string option"
  ceWrite :: "string \<Rightarrow> string \<Rightarrow> bool"
  ceOutOfRange :: "rat \<Rightarrow> int"
  ceOrder :: "json_object \<Rightarrow> json_object"
  ceOrderI :: "(string \<times> interface_status) list \<Rightarrow> (string \<times> interface_status) list"
  ceOrderG :: "(string \<times> gateway_status) list \<Rightarrow> (string \<times> gateway_status) list"

definition clientTransport :: "companion_env \<Rightarrow> source_config \<Rightarrow> opnsense_error + tls_settings" where
  "clientTransport env cfg =
     (if scCAFile cfg = [] then Inr \<lparr>tlsInsecureSkipVerify = scInsecureSkipVerify cfg, tlsRootCAs = None\<rparr>
      else case ceReadFile env (scCAFile cfg) of
        None \<Rightarrow> Inl TransportFailed
      | Some data \<Rightarrow>
          if \<not> ceHasCerts env data then Inl TransportFailed
          else Inr \<lparr>tlsInsecureSkipVerify = scInsecureSkipVerify cfg, tlsRootCAs = Some data\<rparr>)"

definition NewClient :: "companion_env \<Rightarrow> source_config \<Rightarrow> credentials \<Rightarrow> opnsense_error + api_client" where
  "NewClient env cfg creds =
     (case normalizeBaseURL (scBaseURL cfg) of
        Inl e \<Rightarrow> Inl e
      | Inr baseURL \<Rightarrow>
          (case clientTransport env cfg of
             Inl e \<Rightarrow> Inl e
           | Inr tls \<Rightarrow> Inr \<lparr>clBaseURL = baseURL, clCredentials = creds, clTimeout = Timeout cfg, clTLS = tls\<rparr>))"

definition endpoint :: "api_client \<Rightarrow> string \<Rightarrow> string" where
  "endpoint client path = trim_right_slash (clBaseURL client) @ ''/api'' @ path"

definition redactedPath :: "string \<Rightarrow> string" where
  "redactedPath path = (if trim_space path = [] then ''/'' else path)"

section \<open>Reading\<close>

definition apiGet :: "api_client \<Rightarrow> string \<Rightarrow> api_request" where
  "apiGet client path = \<lparr>rqMethod = ''GET'', rqURL = endpoint client path,
     rqBasicAuth = (credKey (clCredentials client), credSecret (clCredentials client)),
     rqAccept = ''application/json'', rqTLS = clTLS client\<rparr>"

definition readAnswer :: "companion_env \<Rightarrow> string \<Rightarrow> api_response option \<Rightarrow> opnsense_error + json_any" where
  "readAnswer env path answer =
     (case answer of
        None \<Rightarrow> Inl (RequestFailed (redactedPath path))
      | Some resp \<Rightarrow>
          (case rpBody resp of
             None \<Rightarrow> Inl (ResponseUnreadable (redactedPath path))
           | Some body \<Rightarrow>
               if List.length body > maxResponseBytes then Inl (ResponseTooLarge (redactedPath path))
               else if rpStatus resp < 200 \<or> rpStatus resp > 299
               then Inl (ResponseStatus (redactedPath path) (rpStatus resp))
               else case ceUnmarshal env body of
                 None \<Rightarrow> Inl (ResponseJSON (redactedPath path))
               | Some raw \<Rightarrow> Inr raw))"

definition getJSON ::
  "companion_env \<Rightarrow> api_client \<Rightarrow> string \<Rightarrow> api_request list \<Rightarrow> (opnsense_error + json_any) \<times> api_request list" where
  "getJSON env client path sent =
     (if url_Parse (endpoint client path) = None then (Inl (RequestFailed path), sent)
      else let req = apiGet client path in
        (readAnswer env path (ceTransport env sent req), sent @ [req]))"

definition InterfacesInfo ::
  "companion_env \<Rightarrow> api_client \<Rightarrow> api_request list \<Rightarrow>
     (opnsense_error + (string \<times> interface_status) list) \<times> api_request list" where
  "InterfacesInfo env client sent =
     (case getJSON env client ''/interfaces/overview/interfaces_info'' sent of
        (Inl e, sent') \<Rightarrow> (Inl e, sent')
      | (Inr raw, sent') \<Rightarrow> (Inr (DecodeInterfaces (ceOutOfRange env) (ceOrder env) raw), sent'))"

definition client_Interface ::
  "companion_env \<Rightarrow> api_client \<Rightarrow> string \<Rightarrow> api_request list \<Rightarrow>
     (opnsense_error + interface_status) \<times> api_request list" where
  "client_Interface env client iface0 sent =
     (let iface = trim_space iface0 in
      if iface = [] then (Inl InterfaceNameRequired, sent)
      else case getJSON env client (''/interfaces/overview/get_interface/'' @ PathEscape iface) sent of
        (Inl e, sent') \<Rightarrow> (Inl e, sent')
      | (Inr raw, sent') \<Rightarrow>
          (let status = DecodeInterface (ceOutOfRange env) (ceOrder env) raw iface in
           (Inr (if isInterface status = [] then status\<lparr>isInterface := iface\<rparr> else status), sent')))"

definition client_GatewayStatus ::
  "companion_env \<Rightarrow> api_client \<Rightarrow> api_request list \<Rightarrow>
     (opnsense_error + (string \<times> gateway_status) list) \<times> api_request list" where
  "client_GatewayStatus env client sent =
     (case getJSON env client ''/routes/gateway/status'' sent of
        (Inl e, sent') \<Rightarrow> (Inl e, sent')
      | (Inr raw, sent') \<Rightarrow> (Inr (DecodeGatewayStatuses (ceOutOfRange env) (ceOrder env) raw), sent'))"

section \<open>The command (main.go)\<close>

text \<open>An interface that the overview misses is read on its own and filed under the configured spelling.\<close>

fun readMissing ::
  "companion_env \<Rightarrow> api_client \<Rightarrow> interface_mapping list \<Rightarrow> (string \<times> interface_status) list \<Rightarrow>
     api_request list \<Rightarrow> (opnsense_error + (string \<times> interface_status) list) \<times> api_request list" where
  "readMissing env client [] interfaces sent = (Inr interfaces, sent)"
| "readMissing env client (m # ms) interfaces sent =
     (if map_of interfaces (to_lower (imInterface m)) \<noteq> None then readMissing env client ms interfaces sent
      else case client_Interface env client (imInterface m) sent of
        (Inl e, sent') \<Rightarrow> (Inl e, sent')
      | (Inr status, sent') \<Rightarrow>
          readMissing env client ms (AList.update (imInterface m) status interfaces) sent')"

definition readInterfaces ::
  "companion_env \<Rightarrow> api_client \<Rightarrow> source_config \<Rightarrow> api_request list \<Rightarrow>
     (opnsense_error + (string \<times> interface_status) list) \<times> api_request list" where
  "readInterfaces env client source sent =
     (case InterfacesInfo env client sent of
        (Inl e, sent') \<Rightarrow> (Inl e, sent')
      | (Inr interfaces, sent') \<Rightarrow> readMissing env client (scInterfaces source) interfaces sent')"

definition readGateways ::
  "companion_env \<Rightarrow> api_client \<Rightarrow> source_config \<Rightarrow> api_request list \<Rightarrow>
     (opnsense_error + (string \<times> gateway_status) list) \<times> api_request list" where
  "readGateways env client source sent =
     (if scGatewayStatus source then client_GatewayStatus env client sent else (Inr [], sent))"

record companion_flags =
  cfConfigPath :: string
  cfSourcePath :: string
  cfOutputPath :: string
  cfValidateOnly :: bool

datatype companion_result =
    CompanionFailed opnsense_error
  | CompanionValid nat string
  | CompanionPrinted string
  | CompanionWritten string string

text \<open>Standard output is the empty path of \<open>ceWrite\<close>.\<close>

definition companionEmit :: "companion_env \<Rightarrow> companion_flags \<Rightarrow> app_config \<Rightarrow> companion_result" where
  "companionEmit env fl generated =
     (case ceMarshal env generated of
        None \<Rightarrow> CompanionFailed MarshalFailed
      | Some data \<Rightarrow>
          if \<not> ceWrite env (cfOutputPath fl) data then CompanionFailed OutputFailed
          else if cfOutputPath fl = [] then CompanionPrinted data
          else CompanionWritten (cfOutputPath fl) data)"

definition companionRead ::
  "companion_env \<Rightarrow> companion_flags \<Rightarrow> app_config \<Rightarrow> source_config \<Rightarrow> api_client \<Rightarrow>
     companion_result \<times> api_request list" where
  "companionRead env fl base source client =
     (case readInterfaces env client source [] of
        (Inl e, sent) \<Rightarrow> (CompanionFailed e, sent)
      | (Inr interfaces, sent) \<Rightarrow>
          (case readGateways env client source sent of
             (Inl e, sent') \<Rightarrow> (CompanionFailed e, sent')
           | (Inr gateways, sent') \<Rightarrow>
               (companionEmit env fl
                  (GenerateConfig (ceOrderI env) (ceOrderG env) base source interfaces gateways), sent')))"

definition companion_run :: "companion_env \<Rightarrow> companion_flags \<Rightarrow> companion_result \<times> api_request list" where
  "companion_run env fl =
     (if cfSourcePath fl = [] then (CompanionFailed SourceRequired, [])
      else case ceLoadConfig env (cfConfigPath fl) of
        None \<Rightarrow> (CompanionFailed BaseConfigFailed, [])
      | Some base \<Rightarrow>
          (case LoadSourceConfig (ceDecodeSource env) (ceReadFile env) (cfSourcePath fl) of
             Inl e \<Rightarrow> (CompanionFailed e, [])
           | Inr source \<Rightarrow>
               (case LoadCredentials (ceGetenv env) (ceReadFile env) source of
                  Inl e \<Rightarrow> (CompanionFailed e, [])
                | Inr creds \<Rightarrow>
                    if cfValidateOnly fl
                    then (CompanionValid (List.length (scInterfaces source)) (scBaseURL source), [])
                    else case NewClient env source creds of
                      Inl e \<Rightarrow> (CompanionFailed e, [])
                    | Inr client \<Rightarrow> companionRead env fl base source client)))"

section \<open>The requests of a run\<close>

definition segment_plain :: "string \<Rightarrow> bool" where
  "segment_plain seg \<longleftrightarrow> list_all (\<lambda>c. c \<notin> set ''/?#'') seg"

definition read_path :: "string \<Rightarrow> bool" where
  "read_path path \<longleftrightarrow>
     path = ''/interfaces/overview/interfaces_info'' \<or> path = ''/routes/gateway/status'' \<or>
     (\<exists>seg. path = ''/interfaces/overview/get_interface/'' @ seg \<and> segment_plain seg)"

definition read_request :: "string \<Rightarrow> credentials \<Rightarrow> bool \<Rightarrow> api_request \<Rightarrow> bool" where
  "read_request base creds insecure r \<longleftrightarrow>
     rqMethod r = ''GET'' \<and> rqBasicAuth r = (credKey creds, credSecret creds) \<and>
     tlsInsecureSkipVerify (rqTLS r) = insecure \<and>
     (\<exists>path. rqURL r = trim_right_slash base @ ''/api'' @ path \<and> read_path path)"

lemma upper_hex_plain: "n < 16 \<Longrightarrow> upper_hex_digit n \<notin> set ''/?#''"
proof
  assume n: "n < 16" and m: "upper_hex_digit n \<in> set ''/?#''"
  then have "of_char (upper_hex_digit n) \<in> {47, 63, 35 :: nat}" by auto
  moreover have "of_char (upper_hex_digit n) = (if n < 10 then 48 + n else 55 + n)"
    using n by (simp add: upper_hex_digit_def)
  ultimately show False using n by (simp split: if_splits)
qed

lemma PathEscape_plain: "segment_plain (PathEscape s)"
proof -
  have "c \<notin> set ''/?#''" if "path_segment_plain c" for c
    using that by (auto simp: path_segment_plain_def is_alnum_def is_digit_def)
  moreover have "of_char c div 16 < (16::nat)" for c :: char using nat_of_char_less_256 [of c] by linarith
  ultimately show ?thesis
    unfolding segment_plain_def PathEscape_def list_all_iff
    using upper_hex_plain by (auto split: if_splits)
qed

abbreviation client_requests :: "api_client \<Rightarrow> api_request list \<Rightarrow> bool" where
  "client_requests client \<equiv>
     list_all (read_request (clBaseURL client) (clCredentials client) (tlsInsecureSkipVerify (clTLS client)))"

lemma getJSON_requests:
  assumes "client_requests client sent" "read_path path"
  shows "client_requests client (snd (getJSON env client path sent))"
  using assms by (auto simp: getJSON_def Let_def apiGet_def endpoint_def read_request_def)

lemma InterfacesInfo_requests:
  "client_requests client sent \<Longrightarrow> client_requests client (snd (InterfacesInfo env client sent))"
  using getJSON_requests [of client sent "''/interfaces/overview/interfaces_info''" env]
  by (auto simp: InterfacesInfo_def read_path_def split: prod.split sum.split)

lemma client_GatewayStatus_requests:
  "client_requests client sent \<Longrightarrow> client_requests client (snd (client_GatewayStatus env client sent))"
  using getJSON_requests [of client sent "''/routes/gateway/status''" env]
  by (auto simp: client_GatewayStatus_def read_path_def split: prod.split sum.split)

lemma client_Interface_requests:
  assumes "client_requests client sent"
  shows "client_requests client (snd (client_Interface env client iface sent))"
proof -
  have "read_path (''/interfaces/overview/get_interface/'' @ PathEscape (trim_space iface))"
    unfolding read_path_def using PathEscape_plain by blast
  then show ?thesis
    using getJSON_requests [OF assms, of _ env] assms
    by (simp add: client_Interface_def Let_def split: prod.split sum.split) (metis snd_conv)
qed

lemma readMissing_requests:
  "client_requests client sent \<Longrightarrow> client_requests client (snd (readMissing env client ms interfaces sent))"
proof (induction env client ms interfaces sent rule: readMissing.induct)
  case (2 env client m ms interfaces sent)
  obtain r sent' where r: "client_Interface env client (imInterface m) sent = (r, sent')" by fastforce
  have "client_requests client sent'"
    using client_Interface_requests [OF 2(3), of env "imInterface m"] unfolding r by simp
  then show ?case using 2 r by (cases r) simp_all
qed simp

lemma readInterfaces_requests:
  assumes "client_requests client sent"
  shows "client_requests client (snd (readInterfaces env client source sent))"
  using InterfacesInfo_requests [OF assms, of env]
  by (auto simp: readInterfaces_def readMissing_requests split: prod.split sum.split)

lemma readGateways_requests:
  "client_requests client sent \<Longrightarrow> client_requests client (snd (readGateways env client source sent))"
  by (simp add: readGateways_def client_GatewayStatus_requests)

lemma companionRead_requests: "client_requests client (snd (companionRead env fl base source client))"
proof -
  obtain r sent where r: "readInterfaces env client source [] = (r, sent)" by fastforce
  have s: "client_requests client sent"
    using readInterfaces_requests [of client "[]" env source] unfolding r by simp
  obtain g sent' where g: "readGateways env client source sent = (g, sent')" by fastforce
  have "client_requests client sent'"
    using readGateways_requests [OF s, of env source] unfolding g by simp
  then show ?thesis using r g s by (cases r; cases g) (simp_all add: companionRead_def)
qed

lemma normalizeBaseURL_trim: "normalizeBaseURL v = Inr base \<Longrightarrow> base = trim_right_slash (trim_space v)"
  by (auto simp: normalizeBaseURL_def Let_def split: if_splits option.splits)

lemma NewClient_fields:
  assumes "NewClient env source creds = Inr client"
  shows "clBaseURL client = trim_right_slash (trim_space (scBaseURL source))" "clCredentials client = creds"
    "tlsInsecureSkipVerify (clTLS client) = scInsecureSkipVerify source"
  using assms
  by (auto simp: NewClient_def clientTransport_def dest: normalizeBaseURL_trim split: sum.splits if_splits option.splits)

lemma trim_right_slash_idem [simp]: "trim_right_slash (trim_right_slash s) = trim_right_slash s"
  by (simp add: trim_right_slash_def)

section \<open>Properties\<close>


definition labSource :: source_config where
  "labSource = emptySource\<lparr>scBaseURL := ''https://127.0.0.1'', scAPIKeyEnv := ''KEY'', scAPISecretFile := ''/secret'',
     scInterfaces := [\<lparr>imPort = 1, imInterface = ''ixl0'', imName = [], imRole = ''wan'', imNetworkGroup = [],
       imPortConfID = [], imNetworkConfID = [], imNativeNetworkConfID = [], imNetworkName = [], imVLAN = 0,
       imSpeed = 0, imMedia = []\<rparr>]\<rparr>"

definition labCompanion :: companion_env where
  "labCompanion = \<lparr>
     ceReadFile = (\<lambda>path. if path = ''/source'' then Some ''source'' else if path = ''/secret'' then Some ''s'' else None),
     ceGetenv = (\<lambda>name. if name = ''KEY'' then ''k'' else []),
     ceHasCerts = (\<lambda>_. False),
     ceTransport = (\<lambda>_ _. Some \<lparr>rpStatus = 200, rpBody = Some ''doc''\<rparr>),
     ceUnmarshal = (\<lambda>_. Some (JAnyObject [(''device'', JAnyText ''ixl0'')])),
     ceDecodeSource = (\<lambda>_ _. Some labSource),
     ceLoadConfig = (\<lambda>_. Some DefaultConfig),
     ceMarshal = (\<lambda>_. Some ''yaml''),
     ceWrite = (\<lambda>_ _. True),
     ceOutOfRange = (\<lambda>_. 0), ceOrder = id, ceOrderI = id, ceOrderG = id\<rparr>"

definition labCompanionFlags :: companion_flags where
  "labCompanionFlags = \<lparr>cfConfigPath = ''/config'', cfSourcePath = ''/source'', cfOutputPath = [], cfValidateOnly = False\<rparr>"

lemma labSource_normal: "normalizeSourceConfig labSource = labSource" "ValidateSourceConfig labSource = None"
  by code_simp+

lemma labSource_loads:
  "LoadSourceConfig (ceDecodeSource labCompanion) (ceReadFile labCompanion) (cfSourcePath labCompanionFlags) = Inr labSource"
  by (simp add: LoadSourceConfig_def labCompanion_def labCompanionFlags_def DecodeSourceConfig_def labSource_normal)

lemma labCredentials_load:
  "LoadCredentials (ceGetenv labCompanion) (ceReadFile labCompanion) labSource = Inr \<lparr>credKey = ''k'', credSecret = ''s''\<rparr>"
  by code_simp

lemma labBaseURL: "normalizeBaseURL (scBaseURL labSource) = Inr ''https://127.0.0.1''"
  by code_simp

lemma labClient: "NewClient labCompanion labSource creds =
    Inr \<lparr>clBaseURL = ''https://127.0.0.1'', clCredentials = creds, clTimeout = Timeout labSource,
      clTLS = \<lparr>tlsInsecureSkipVerify = False, tlsRootCAs = None\<rparr>\<rparr>"
  by (simp add: NewClient_def labBaseURL clientTransport_def) (simp add: labSource_def emptySource_def)

lemma labOverview_parses: "url_Parse ''https://127.0.0.1/api/interfaces/overview/interfaces_info'' \<noteq> None"
  by code_simp

lemma labOverview_sends:
  assumes "clBaseURL client = ''https://127.0.0.1''"
  shows "snd (InterfacesInfo env client []) \<noteq> []"
proof -
  have "endpoint client ''/interfaces/overview/interfaces_info'' =
      ''https://127.0.0.1/api/interfaces/overview/interfaces_info''"
    by (simp add: endpoint_def assms trim_right_slash_def)
  then show ?thesis using labOverview_parses
    by (auto simp: InterfacesInfo_def getJSON_def Let_def split: prod.split sum.split)
qed

lemma getJSON_keeps: "sent \<noteq> [] \<Longrightarrow> snd (getJSON env client path sent) \<noteq> []"
  by (simp add: getJSON_def Let_def)

lemma client_Interface_keeps: "sent \<noteq> [] \<Longrightarrow> snd (client_Interface env client iface sent) \<noteq> []"
  using getJSON_keeps [of sent env client]
  by (auto simp: client_Interface_def Let_def split: prod.split sum.split) (metis snd_conv)+

lemma readMissing_keeps: "sent \<noteq> [] \<Longrightarrow> snd (readMissing env client ms interfaces sent) \<noteq> []"
proof (induction env client ms interfaces sent rule: readMissing.induct)
  case (2 env client m ms interfaces sent)
  obtain r sent' where r: "client_Interface env client (imInterface m) sent = (r, sent')" by fastforce
  have "sent' \<noteq> []" using client_Interface_keeps [OF 2(3), of env client "imInterface m"] unfolding r by simp
  then show ?case using 2 r by (cases r) simp_all
qed simp

lemma labCompanion_sends: "snd (companion_run labCompanion labCompanionFlags) \<noteq> []"
proof -
  obtain client where c: "NewClient labCompanion labSource \<lparr>credKey = ''k'', credSecret = ''s''\<rparr> = Inr client"
    and b: "clBaseURL client = ''https://127.0.0.1''"
    using labClient by simp
  obtain r sent where r: "InterfacesInfo labCompanion client [] = (r, sent)" by fastforce
  have s: "sent \<noteq> []" using labOverview_sends [OF b, of labCompanion] unfolding r by simp
  have "snd (readInterfaces labCompanion client labSource []) \<noteq> []"
    using s readMissing_keeps [OF s] by (cases r) (simp_all add: readInterfaces_def r)
  then have "snd (companionRead labCompanion labCompanionFlags DefaultConfig labSource client) \<noteq> []"
    by (cases "readInterfaces labCompanion client labSource []"; cases "fst (readInterfaces labCompanion client labSource [])")
      (simp_all add: companionRead_def readGateways_def labSource_def emptySource_def)
  moreover have "companion_run labCompanion labCompanionFlags =
      companionRead labCompanion labCompanionFlags DefaultConfig labSource client"
    using labSource_loads labCredentials_load c
    by (simp add: companion_run_def) (simp add: labCompanion_def labCompanionFlags_def)
  ultimately show ?thesis by simp
qed


end
