(* ===== verification/Spec2Isabelle.thy ===== *)
theory Spec2Isabelle
  imports Inform_Packet Inform_Schedule Daemon Ssh_Depth Payload_Build Topology_Stability Settings Config_Migrate
    Serve_Checks Interface_Address Instance_Guard Flag_Values Lldp_Source Wan_Probe Opnsense_Client
begin

text \<open>
  A verification of \<open>unifi-stubd\<close>, a daemon that represents a host or a bridge as a UniFi device: it
  announces itself (\<open>internal/discovery\<close>), exchanges encrypted inform packets with a controller
  (\<open>internal/inform\<close>), learns its adoption state from the answers (\<open>internal/adoption\<close>) or from an SSH
  shim (\<open>internal/adoptionssh\<close>), persists it (\<open>internal/atomicfile\<close>), and reports ports
  (\<open>internal/device\<close>) filled from read-only observations of the host (\<open>internal/observe\<close>,
  \<open>internal/platform\<close>, \<open>internal/adapters\<close>), rendered into the inform document (\<open>internal/device/payload\<close>).
  \<open>cmd/unifi-stubd\<close> wires these parts together; \<open>cmd/unifi-stubd-opnsense\<close> generates its configuration from
  an OPNsense host (\<open>internal/opnsense\<close>).

  \<^bold>\<open>The language and its library.\<close> \<open>Go_Prelude\<close> holds bytes and strings, 64-bit arithmetic with
  wrap-around, the functions of \<open>strings\<close> and \<open>strconv\<close> the program uses, and two locales for
  components that consume a list of events (\<open>stepper\<close>, \<open>guarded_stepper\<close>); \<open>Go_Text\<close> adds fields and
  scanner lines, \<open>Go_Md5\<close> the digest behind the default key, \<open>Go_Json\<close> the token stream and the
  decoding of \<open>encoding/json\<close>, \<open>Go_Any\<close> its untyped values, \<open>Go_Net\<close> hardware addresses, IP addresses and URLs.

  \<^bold>\<open>Components.\<close> One theory per component; the types and functions carry the names of the code.
  \<^item> \<open>Inform_Packet\<close> (\<open>internal/inform\<close>: packet, padding, compression, crypto, encode, decode, client):
    a packet decodes to what was encoded, a controller answer is accepted only in the cipher mode of
    the request and with a well-formed envelope, encoding is total within its size bounds.
  \<^item> \<open>Inform_Schedule\<close> (\<open>schedule.go\<close>, \<open>controller_clock.go\<close>): every delay of every sequence of
    successes, failures and resets lies within the configured bounds; failures back off exponentially.
  \<^item> \<open>Atomic_File\<close> (\<open>write.go\<close>): every system call may fail and every point may crash; the file is
    then the old or the complete, flushed new one. The locale \<open>replacement\<close> is what clients use.
  \<^item> \<open>Adoption_Store\<close> (\<open>state.go\<close>, \<open>fields.go\<close>, \<open>env.go\<close>, \<open>mgmtcfg.go\<close>): the store, its text form, merging
    and the allowlisted \<open>mgmt_cfg\<close>; the locale \<open>durable_codec\<close> joins the codec with \<open>replacement\<close>.
  \<^item> \<open>Adoption_Response\<close> (\<open>json.go\<close>, \<open>content_blocks.go\<close>, \<open>response.go\<close>, \<open>safety.go\<close>, \<open>blocks.go\<close>): limits,
    unique members, and that only bounded, persistable state reaches the daemon.
  \<^item> \<open>Adoption_Ssh\<close> (\<open>internal/adoptionssh\<close>): parsing and execution of commands, the shell and the session
    loop. The locale \<open>handler_relation\<close> reduces any session to three primitive effects; it is
    interpreted for the audit log, for confinement to the state file, and in \<open>Daemon\<close> for interleaving.
    \<open>Ssh_Depth\<close> bounds the nesting of its \<open>sh -c\<close> commands by the text of the command line.
  \<^item> \<open>Discovery\<close> (\<open>tlv.go\<close>): the announcement and its reader; sending.
  \<^item> \<open>Heartbeat\<close> (\<open>adoption.go\<close>, \<open>inform.go\<close>, \<open>serve_heartbeat.go\<close>, \<open>serve_presence.go\<close> of \<open>cmd/unifi-stubd\<close>):
    key selection, one exchange with every error path, and the presence loop as a guarded stepper.
  \<^item> \<open>Daemon\<close> (\<open>serve.go\<close>, \<open>serve_ssh.go\<close>): the loop and the shim on one state file as a transition system,
    \<open>daemon_step\<close>, whose runs are all interleavings; its invariant, and a race it admits.
  \<^item> \<open>Ports\<close>, \<open>Port_Overrides\<close>, \<open>Topology\<close> (\<open>internal/device\<close>): port generation, the operator's
    overrides and their tables, and the resolution of direct neighbours.
  \<^item> \<open>Observe\<close>, \<open>Host_Interface\<close>, \<open>Bridge_Source\<close> (\<open>internal/observe\<close>, \<open>internal/observe/ifsource\<close>,
    \<open>internal/adapters\<close>, \<open>internal/platform\<close>): bridge members, command output, sysfs, ARP, and how a
    row of text becomes a client on a port. \<open>row_source\<close> is the contract of the two bridge tables.
    \<open>Interface_Address\<close> (\<open>address.go\<close>) renders the addresses of an interface.
  \<^item> \<open>Runtime_Ports\<close> (\<open>operation_ports.go\<close> and the stages it calls): the port list of a heartbeat in
    every operation mode, as a composition of stages that meet the contract \<open>port_stage\<close>.
    \<open>Lldp_Source\<close> (\<open>lldp.go\<close>) and \<open>Wan_Probe\<close> (\<open>internal/observe/wanhealth\<close>) provide two of its inputs: the
    neighbours in the output of \<open>lldpcli\<close> and the samples of \<open>ping\<close>, with the latency read from its text.
    \<open>Topology_Stability\<close>: what LLDP can and cannot change in a topology that was checked at start.
    \<open>Traffic_Rates\<close> (\<open>rates.go\<close>, \<open>traffic_rates.go\<close>): byte rates with binary floating point; a reported
    rate is the truncated exact quotient up to a relative error of 2^-50.
  \<^item> \<open>Device_Profile\<close> (\<open>internal/device/profile*.go\<close>, \<open>registry*.go\<close>): profile documents with inheritance,
    their validation, and the registry that external files extend.
  \<^item> \<open>Payload_View\<close>, \<open>Payload_Switch\<close>, \<open>Payload_Gateway\<close>, \<open>Payload_Telemetry\<close>, \<open>Payload_Build\<close>
    (\<open>internal/device/payload\<close>): the inform document of a switch and of a gateway as a value, from one
    resolved view of the ports; the properties compare its tables with the ports they report.
  \<^item> \<open>Settings\<close> (\<open>settings*.go\<close>, \<open>config.go\<close>, \<open>internal/config\<close>): command line over configuration file over
    defaults, one law per setting (\<open>lawful\<close>, \<open>apart\<close>), so that the layering holds for the whole table.
    \<open>Flag_Values\<close> (\<open>internal/config/flagvalue\<close>): the repeated flags.
  \<^item> \<open>Config_Migrate\<close> (\<open>migrate.go\<close>, \<open>migrate_file.go\<close>): legacy keys on the YAML tree, and the file
    replaced through \<open>replacement\<close> with a backup first.
  \<^item> \<open>Host_Address\<close> (\<open>link.go\<close>), \<open>Runtime_Payload\<close> (\<open>device_*.go\<close>, \<open>management_lan_*.go\<close>,
    \<open>serve_identity.go\<close>), \<open>Operation_Validate\<close> (\<open>operation_*validate.go\<close>, \<open>serve_prepare.go\<close>,
    \<open>serve_validate.go\<close>, \<open>profiles.go\<close>): from settings to a checked run. \<open>Serve_Start\<close> and \<open>Serve_Checks\<close> join them
    with the ports, the payload and the packet encoder: what an accepted configuration guarantees, up
    to the inform document of every heartbeat, and what it does not.
  \<^item> \<open>Instance_Guard\<close> (\<open>instance_guard.go\<close>): the lock file that keeps a second daemon from running, as a
    transition system of all daemons on a host.
  \<^item> \<open>Opnsense_Mapper\<close>, \<open>Opnsense_Client\<close> (\<open>internal/opnsense\<close>, \<open>cmd/unifi-stubd-opnsense\<close>): the tables of the
    OPNsense API as port overrides merged under the operator's, and a client that only reads.

  \<^bold>\<open>State and errors.\<close> A struct is a record, an enumeration a datatype, a Go map an association list
  where a loop ranges over it (what is proved for every list holds for every iteration order) and a
  function to \<open>option\<close> otherwise. A slice updated in place is returned updated. Every error return
  is a branch of a sum or option type; an index out of range is \<open>None\<close>. \<open>int\<close> values that can overflow
  go through \<open>wrap64\<close>; wire fields are words.

  \<^bold>\<open>Arguments.\<close> AES, GCM, zlib and snappy are fields of a record with their documented laws
  (\<open>crypto_laws\<close>); HTTP, sockets, name resolution, the TCP probe, system calls, the random source, the
  clock, SHA-256, the YAML library, command output and files of the host
  are arguments without laws, except that a temporary file name is fresh (\<open>temp_fresh\<close>). The order in
  which Go ranges over a map is an argument where a result could depend on it. The payload bytes are an
  argument of the heartbeat loop: what is proved there holds for whatever they are.

  \<^bold>\<open>Termination.\<close> Every definition is total; no fuel is used outside \<open>Ssh_Depth\<close>. The recursion of nested \<open>sh -c\<close> commands
  ends because every unquoting removes the word that asked for it, counted by the letter s
  (\<open>nested_smaller\<close> in \<open>Adoption_Ssh\<close>); \<open>Ssh_Depth\<close> states the bound with a counter.

  \<^bold>\<open>Limits.\<close> Letter case is folded for ASCII letters only. A state update is one step of the
  interleaving, which is what the rename in \<open>Atomic_File\<close> provides. Log texts, the JSON text of the
  status file and wall-clock times in it are not modelled. One expiry pattern per interface stands for
  the context of a read.

  \<^bold>\<open>Not modelled.\<close> The JSON text of the inform document and of the status file, the YAML text of
  profiles and configurations, the flag package, printed status and plans of \<open>cmd/unifi-stubd\<close>,
  running commands, procfs and capability reports, the SSH transport with its host keys, and the lab
  tools.
\<close>

end
